(* ===== verification/Js_Value.thy ===== *)
theory Js_Value
  imports Crm_Prelude
begin

text \<open>
  The JavaScript values the components compare: strings (ASCII character lists), numbers
  (NaN, the infinities, and finite values as exact decimals \<open>m / 10 ^ k\<close>), dates (valid
  epoch milliseconds), arrays and objects. Modelled are the library operations the source
  calls on them: \<open>toLowerCase\<close>, \<open>trim\<close>, \<open>includes\<close>, \<open>startsWith\<close>, \<open>endsWith\<close>, \<open>split\<close>,
  \<open>join\<close>, \<open>parseFloat\<close>, \<open>String\<close>, \<open>Date.prototype.toISOString\<close>, truthiness.

  Bounds of the model: a string is a list of ASCII characters, so case folding and white
  space are those of ASCII; a finite number stands for the shortest decimal that denotes it,
  so a decimal literal is its own value and rounding to 53 bits does not appear; printing
  does not switch to exponent notation, which JavaScript does from 1e21 up and below 1e-6.
\<close>

section \<open>Strings\<close>

definition lower_char :: "char \<Rightarrow> char" where
  "lower_char c = (let n = (of_char c :: nat) in
     if 65 \<le> n \<and> n \<le> 90 then char_of (n + 32) else c)"

definition to_lower :: "string \<Rightarrow> string" where
  "to_lower s = map lower_char s"

definition to_upper :: "string \<Rightarrow> string" where
  "to_upper s = map (\<lambda>c. let n = (of_char c :: nat) in if 97 \<le> n \<and> n \<le> 122 then char_of (n - 32) else c) s"

definition is_space :: "char \<Rightarrow> bool" where
  "is_space c = (let n = (of_char c :: nat) in n = 32 \<or> (9 \<le> n \<and> n \<le> 13))"

definition trim_start :: "string \<Rightarrow> string" where
  "trim_start s = dropWhile is_space s"

definition trim :: "string \<Rightarrow> string" where
  "trim s = rev (dropWhile is_space (rev (dropWhile is_space s)))"

fun includes_str :: "string \<Rightarrow> string \<Rightarrow> bool" where
  "includes_str [] p = (p = [])"
| "includes_str (x # xs) p = (prefix p (x # xs) \<or> includes_str xs p)"

definition starts_with :: "string \<Rightarrow> string \<Rightarrow> bool" where
  "starts_with s p = prefix p s"

definition ends_with :: "string \<Rightarrow> string \<Rightarrow> bool" where
  "ends_with s p = suffix p s"

fun split_on :: "char \<Rightarrow> string \<Rightarrow> string list" where
  "split_on c [] = [[]]"
| "split_on c (x # xs) =
     (if x = c then [] # split_on c xs
      else (case split_on c xs of [] \<Rightarrow> [[x]] | y # ys \<Rightarrow> (x # y) # ys))"

fun join_with :: "string \<Rightarrow> string list \<Rightarrow> string" where
  "join_with sep [] = []"
| "join_with sep [x] = x"
| "join_with sep (x # y # ys) = x @ sep @ join_with sep (y # ys)"

lemma includes_str_sublist: "includes_str s p \<longleftrightarrow> sublist p s"
  by (induction s p rule: includes_str.induct) (auto simp: sublist_Cons_right)

lemma split_on_nonempty: "split_on c s \<noteq> []"
  by (induction s) (auto split: list.split)

lemma split_on_no_sep: "part \<in> set (split_on c s) \<Longrightarrow> c \<notin> set part"
  by (induction s arbitrary: part) (auto split: list.splits if_splits)

lemma join_split: "join_with [c] (split_on c s) = s"
proof (induction s)
  case Nil
  then show ?case by simp
next
  case (Cons x xs)
  obtain y ys where "split_on c xs = y # ys"
    using split_on_nonempty by (meson neq_Nil_conv)
  with Cons show ?case by (cases ys) auto
qed

lemma to_lower_idem [simp]: "to_lower (to_lower s) = to_lower s"
proof -
  have "lower_char (lower_char c) = lower_char c" for c
    by (auto simp: lower_char_def Let_def)
  then show ?thesis by (simp add: to_lower_def)
qed

lemma length_to_lower [simp]: "length (to_lower s) = length s"
  by (simp add: to_lower_def)

section \<open>Numbers\<close>

text \<open>\<open>Dec m k\<close> is the finite number \<open>m / 10 ^ k\<close>.\<close>

datatype jnum = NaN | PInf | NInf | Dec int nat

fun dec_norm :: "int \<Rightarrow> nat \<Rightarrow> jnum" where
  "dec_norm m 0 = Dec m 0"
| "dec_norm m (Suc k) = (if m mod 10 = 0 then dec_norm (m div 10) k else Dec m (Suc k))"

definition num_of_int :: "int \<Rightarrow> jnum" where
  "num_of_int i = Dec i 0"

fun num_less :: "jnum \<Rightarrow> jnum \<Rightarrow> bool" where
  "num_less NaN _ = False"
| "num_less _ NaN = False"
| "num_less PInf _ = False"
| "num_less _ NInf = False"
| "num_less NInf _ = True"
| "num_less _ PInf = True"
| "num_less (Dec m j) (Dec n k) = (m * 10 ^ k < n * 10 ^ j)"

fun num_eq :: "jnum \<Rightarrow> jnum \<Rightarrow> bool" where
  "num_eq PInf PInf = True"
| "num_eq NInf NInf = True"
| "num_eq (Dec m j) (Dec n k) = (m * 10 ^ k = n * 10 ^ j)"
| "num_eq _ _ = False"

definition num_le :: "jnum \<Rightarrow> jnum \<Rightarrow> bool" where
  "num_le a b = (num_less a b \<or> num_eq a b)"

lemma num_eq_refl_iff: "num_eq a a \<longleftrightarrow> a \<noteq> NaN"
  by (cases a) auto

lemma num_trichotomy:
  "a \<noteq> NaN \<Longrightarrow> b \<noteq> NaN \<Longrightarrow> num_less a b \<or> num_eq a b \<or> num_less b a"
  by (cases a; cases b) auto

lemma num_less_not_le: "num_less a b \<Longrightarrow> \<not> num_le b a"
  by (cases a; cases b) (auto simp: num_le_def)

lemma num_le_total: "a \<noteq> NaN \<Longrightarrow> b \<noteq> NaN \<Longrightarrow> \<not> num_less a b \<longleftrightarrow> num_le b a"
  by (cases a; cases b) (auto simp: num_le_def)

lemma dec_norm_eq: "num_eq (dec_norm m k) (Dec m k)"
proof (induction m k rule: dec_norm.induct)
  case (1 m)
  then show ?case by simp
next
  case (2 m k)
  show ?case
  proof (cases "m mod 10 = 0")
    case True
    with 2 have ih: "num_eq (dec_norm (m div 10) k) (Dec (m div 10) k)" by simp
    obtain n j where nj: "dec_norm (m div 10) k = Dec n j"
      using ih by (cases "dec_norm (m div 10) k") auto
    with ih have "n * 10 ^ k = (m div 10) * 10 ^ j" by simp
    moreover have "m = 10 * (m div 10)" using True by presburger
    ultimately have "n * 10 ^ Suc k = m * 10 ^ j"
      by (metis (no_types, lifting) mult.assoc mult.left_commute power_Suc)
    with True nj show ?thesis by simp
  next
    case False
    then show ?thesis by simp
  qed
qed

section \<open>Reading and printing numbers\<close>

definition is_digit :: "char \<Rightarrow> bool" where
  "is_digit c = (let n = (of_char c :: nat) in 48 \<le> n \<and> n \<le> 57)"

definition digit_val :: "char \<Rightarrow> int" where
  "digit_val c = int (of_char c) - 48"

fun digits_val :: "int \<Rightarrow> string \<Rightarrow> int" where
  "digits_val acc [] = acc"
| "digits_val acc (c # cs) = digits_val (10 * acc + digit_val c) cs"

definition parse_sign :: "string \<Rightarrow> int \<times> string" where
  "parse_sign s = (case s of
       [] \<Rightarrow> (1, s)
     | c # cs \<Rightarrow> if c = CHR ''-'' then (-1, cs) else if c = CHR ''+'' then (1, cs) else (1, s))"

definition parse_exponent :: "string \<Rightarrow> int" where
  "parse_exponent s = (case s of
       [] \<Rightarrow> 0
     | c # cs \<Rightarrow>
         if c = CHR ''e'' \<or> c = CHR ''E'' then
           (let (sg, ds) = parse_sign cs in sg * digits_val 0 (takeWhile is_digit ds))
         else 0)"

text \<open>\<open>parseFloat\<close>: the longest numeric prefix after white space, \<open>NaN\<close> without one.\<close>

definition parse_float :: "string \<Rightarrow> jnum" where
  "parse_float s =
     (let (sg, t) = parse_sign (trim_start s) in
      if prefix ''Infinity'' t then (if sg = 1 then PInf else NInf)
      else
        let ip = takeWhile is_digit t;
            r = dropWhile is_digit t;
            (fp, rest) = (case r of
                 [] \<Rightarrow> ([], [])
               | c # cs \<Rightarrow>
                   if c = CHR ''.'' then (takeWhile is_digit cs, dropWhile is_digit cs)
                   else ([], r))
        in if ip = [] \<and> fp = [] then NaN
           else
             let m = sg * digits_val 0 (ip @ fp);
                 e = parse_exponent rest - int (length fp)
             in if e \<ge> 0 then Dec (m * 10 ^ nat e) 0 else dec_norm m (nat (- e)))"

definition digit_char :: "nat \<Rightarrow> char" where
  "digit_char n = char_of (48 + n)"

fun nat_text :: "nat \<Rightarrow> string" where
  "nat_text n = (if n < 10 then [digit_char n] else nat_text (n div 10) @ [digit_char (n mod 10)])"

declare nat_text.simps [simp del]

definition pad_left :: "nat \<Rightarrow> string \<Rightarrow> string" where
  "pad_left w s = replicate (w - length s) CHR ''0'' @ s"

fun num_text :: "jnum \<Rightarrow> string" where
  "num_text NaN = ''NaN''"
| "num_text PInf = ''Infinity''"
| "num_text NInf = ''-Infinity''"
| "num_text (Dec m 0) = (if m < 0 then ''-'' else []) @ nat_text (nat \<bar>m\<bar>)"
| "num_text (Dec m (Suc k)) =
     (let w = 10 ^ Suc k; a = nat \<bar>m\<bar> in
      (if m < 0 then ''-'' else []) @ nat_text (a div w) @ ''.'' @
      pad_left (Suc k) (nat_text (a mod w)))"

lemma digit_char_digit: "n < 10 \<Longrightarrow> is_digit (digit_char n) \<and> digit_val (digit_char n) = int n"
  by (simp add: is_digit_def digit_val_def digit_char_def)

lemma nat_text_nonempty: "nat_text n \<noteq> []"
  by (subst nat_text.simps) simp

lemma nat_text_digits: "\<forall>c \<in> set (nat_text n). is_digit c"
proof (induction n rule: nat_text.induct)
  case (1 n)
  then show ?case
    by (subst nat_text.simps) (auto simp: digit_char_digit)
qed

lemma digits_val_append: "digits_val a (xs @ ys) = digits_val (digits_val a xs) ys"
  by (induction xs arbitrary: a) auto

lemma digits_val_nat_text: "digits_val 0 (nat_text n) = int n"
proof (induction n rule: nat_text.induct)
  case (1 n)
  show ?case
  proof (cases "n < 10")
    case True
    then show ?thesis by (subst nat_text.simps) (simp add: digit_char_digit)
  next
    case False
    with 1 have ih: "digits_val 0 (nat_text (n div 10)) = int (n div 10)" by simp
    have "int n = 10 * int (n div 10) + int (n mod 10)" by presburger
    with False ih show ?thesis
      by (subst nat_text.simps) (simp add: digits_val_append digit_char_digit)
  qed
qed


section \<open>Whole-string numbers\<close>

text \<open>
  \<open>Number(s)\<close>: unlike \<open>parseFloat\<close> the whole trimmed string must be a numeral; the empty
  string is 0. Decimal numerals, \<open>Infinity\<close> and the hexadecimal form are modelled; the
  binary and octal prefixes (which no setting of the program uses) read as \<open>NaN\<close>.
\<close>

definition strip_exponent :: "string \<Rightarrow> string option" where
  "strip_exponent s = (case s of
       [] \<Rightarrow> Some []
     | c # cs \<Rightarrow>
         if c = CHR ''e'' \<or> c = CHR ''E'' then
           (let (sg, ds) = parse_sign cs in
            if ds \<noteq> [] \<and> list_all is_digit ds then Some [] else None)
         else None)"

definition decimal_literal :: "string \<Rightarrow> bool" where
  "decimal_literal t =
     (let ip = takeWhile is_digit t; r = dropWhile is_digit t;
          (fp, rest) = (case r of
               [] \<Rightarrow> ([], [])
             | c # cs \<Rightarrow> if c = CHR ''.'' then (takeWhile is_digit cs, dropWhile is_digit cs)
                         else ([], r))
      in (ip \<noteq> [] \<or> fp \<noteq> []) \<and> strip_exponent rest \<noteq> None)"

definition hex_val :: "char \<Rightarrow> int option" where
  "hex_val c = (let n = (of_char c :: nat) in
     if 48 \<le> n \<and> n \<le> 57 then Some (int n - 48)
     else if 97 \<le> n \<and> n \<le> 102 then Some (int n - 87)
     else if 65 \<le> n \<and> n \<le> 70 then Some (int n - 55)
     else None)"

fun hex_digits :: "int \<Rightarrow> string \<Rightarrow> int option" where
  "hex_digits acc [] = Some acc"
| "hex_digits acc (c # cs) =
     (case hex_val c of None \<Rightarrow> None | Some d \<Rightarrow> hex_digits (16 * acc + d) cs)"

definition to_number :: "string \<Rightarrow> jnum" where
  "to_number s =
     (let t = trim s; (sg, u) = parse_sign t in
      if t = [] then Dec 0 0
      else if u = ''Infinity'' then (if sg = 1 then PInf else NInf)
      else if (prefix ''0x'' t \<or> prefix ''0X'' t) \<and> length t > 2
           then (case hex_digits 0 (drop 2 t) of None \<Rightarrow> NaN | Some v \<Rightarrow> Dec v 0)
      else if decimal_literal u then parse_float t else NaN)"

definition is_finite_num :: "jnum \<Rightarrow> bool" where
  "is_finite_num n = (case n of Dec _ _ \<Rightarrow> True | _ \<Rightarrow> False)"

section \<open>Dates\<close>

text \<open>
  \<open>toISOString\<close> of an epoch in milliseconds: the proleptic Gregorian date of the day number
  and the time of day, always in UTC.
\<close>

definition civil_of_days :: "int \<Rightarrow> int \<times> int \<times> int" where
  "civil_of_days days =
     (let z = days + 719468; era = z div 146097; doe = z mod 146097;
          yoe = (doe - doe div 1460 + doe div 36524 - doe div 146096) div 365;
          doy = doe - (365 * yoe + yoe div 4 - yoe div 100);
          mp = (5 * doy + 2) div 153;
          d = doy - (153 * mp + 2) div 5 + 1;
          m = (if mp < 10 then mp + 3 else mp - 9);
          y = yoe + era * 400
      in (if m \<le> 2 then y + 1 else y, m, d))"

definition pad_int :: "nat \<Rightarrow> int \<Rightarrow> string" where
  "pad_int w i = pad_left w (nat_text (nat i))"

definition year_text :: "int \<Rightarrow> string" where
  "year_text y =
     (if 0 \<le> y \<and> y \<le> 9999 then pad_int 4 y
      else (if y < 0 then ''-'' else ''+'') @ pad_int 6 \<bar>y\<bar>)"

definition iso_string :: "int \<Rightarrow> string" where
  "iso_string ms =
     (let (y, m, d) = civil_of_days (ms div 86400000); t = ms mod 86400000 in
      year_text y @ ''-'' @ pad_int 2 m @ ''-'' @ pad_int 2 d @ ''T'' @
      pad_int 2 (t div 3600000) @ '':'' @ pad_int 2 (t div 60000 mod 60) @ '':'' @
      pad_int 2 (t div 1000 mod 60) @ ''.'' @ pad_int 3 (t mod 1000) @ ''Z'')"

section \<open>Values\<close>

text \<open>
  \<open>JDate t txt\<close> is a valid \<open>Date\<close>: its epoch and the text the host's \<open>String\<close> gives it,
  which depends on the time zone of the process. \<open>JOid\<close> is an ObjectId, whose text is its
  hexadecimal form. Functions, symbols and invalid dates are not values of the model.
\<close>

datatype jsval =
    JUndef
  | JNull
  | JBool bool
  | JNum jnum
  | JStr string
  | JDate int string
  | JOid string
  | JArr "jsval list"
  | JObj "(string \<times> jsval) list"

type_synonym bag = "(string \<times> jsval) list"

fun nullish :: "jsval \<Rightarrow> bool" where
  "nullish JUndef = True"
| "nullish JNull = True"
| "nullish _ = False"

fun truthy :: "jsval \<Rightarrow> bool" where
  "truthy JUndef = False"
| "truthy JNull = False"
| "truthy (JBool b) = b"
| "truthy (JNum n) = (n \<noteq> NaN \<and> \<not> num_eq n (Dec 0 0))"
| "truthy (JStr s) = (s \<noteq> [])"
| "truthy _ = True"

text \<open>\<open>String(v)\<close>; inside an array \<open>null\<close> and \<open>undefined\<close> print as nothing.\<close>

fun js_string :: "jsval \<Rightarrow> string" where
  "js_string JUndef = ''undefined''"
| "js_string JNull = ''null''"
| "js_string (JBool b) = (if b then ''true'' else ''false'')"
| "js_string (JNum n) = num_text n"
| "js_string (JStr s) = s"
| "js_string (JDate t txt) = txt"
| "js_string (JOid h) = h"
| "js_string (JArr xs) =
     join_with '','' (map (\<lambda>x. if nullish x then [] else js_string x) xs)"
| "js_string (JObj kvs) = ''[object Object]''"

definition bag_get :: "bag \<Rightarrow> string \<Rightarrow> jsval" where
  "bag_get b k = default_to JUndef (map_of b k)"

text \<open>An array index in canonical form: \<open>"0"\<close>, \<open>"17"\<close>, never \<open>"017"\<close>.\<close>

definition array_index :: "string \<Rightarrow> nat option" where
  "array_index k =
     (if k \<noteq> [] \<and> list_all is_digit k \<and> (hd k \<noteq> CHR ''0'' \<or> length k = 1)
      then Some (nat (digits_val 0 k)) else None)"

text \<open>
  Property access \<open>v[k]\<close> on own properties; what a value inherits from its prototype is a
  function and so not a value of the model. Access on \<open>null\<close> or \<open>undefined\<close> throws in
  JavaScript: the code tests for it first, as the path functions below do.
\<close>

fun js_get :: "jsval \<Rightarrow> string \<Rightarrow> jsval" where
  "js_get (JObj kvs) k = bag_get kvs k"
| "js_get (JArr xs) k =
     (if k = ''length'' then JNum (num_of_int (int (length xs)))
      else case array_index k of
             Some i \<Rightarrow> if i < length xs then xs ! i else JUndef
           | None \<Rightarrow> JUndef)"
| "js_get (JStr s) k =
     (if k = ''length'' then JNum (num_of_int (int (length s)))
      else case array_index k of
             Some i \<Rightarrow> if i < length s then JStr [s ! i] else JUndef
           | None \<Rightarrow> JUndef)"
| "js_get _ k = JUndef"

lemma bag_get_simps [simp]:
  "bag_get [] k = JUndef"
  "bag_get ((k', v) # b) k = (if k = k' then v else bag_get b k)"
  by (simp_all add: bag_get_def)

lemma nullish_iff: "nullish v \<longleftrightarrow> v = JUndef \<or> v = JNull"
  by (cases v) auto

lemma truthy_not_nullish: "truthy v \<Longrightarrow> \<not> nullish v"
  by (cases v) auto

end
