(* ===== verification/Assignment_Rules.thy ===== *)
theory Assignment_Rules
  imports Js_Value
begin

text \<open>
  The vocabulary and the rule evaluation of the assignment core: strategies and their legacy
  spellings (\<open>src/src/assignment/domain/assignment.types.ts\<close>), rules and the canonical
  form of their actions (\<open>domain/assignment-rule.ts\<close>), the condition evaluator
  (\<open>domain/condition-evaluator.ts\<close>) and the first-match loop over a tenant's rules
  (\<open>core/rule-evaluator.service.ts\<close>).
\<close>

section \<open>Strategies\<close>

datatype strategy = RoundRobin | LeastBusy | CapacityBased | ManualPick

fun strategy_name :: "strategy \<Rightarrow> string" where
  "strategy_name RoundRobin = ''round-robin''"
| "strategy_name LeastBusy = ''least-busy''"
| "strategy_name CapacityBased = ''capacity-based''"
| "strategy_name ManualPick = ''manual''"

definition canonical_strategies :: "(string \<times> strategy) list" where
  "canonical_strategies =
     [(''round-robin'', RoundRobin), (''least-busy'', LeastBusy),
      (''capacity-based'', CapacityBased), (''manual'', ManualPick)]"

definition legacy_strategies :: "strategy \<Rightarrow> (string \<times> strategy) list" where
  "legacy_strategies fallback =
     [(''round_robin'', RoundRobin), (''roundrobin'', RoundRobin),
      (''least_busy'', LeastBusy), (''leastbusy'', LeastBusy),
      (''capacity_based'', CapacityBased), (''capacitybased'', CapacityBased),
      (''sticky'', fallback)]"

definition normalize_strategy :: "string option \<Rightarrow> strategy \<Rightarrow> strategy" where
  "normalize_strategy value fallback =
     (case value of
        None \<Rightarrow> fallback
      | Some s \<Rightarrow>
          if s = [] then fallback
          else let lowered = to_lower s in
            (case map_of canonical_strategies lowered of
               Some st \<Rightarrow> st
             | None \<Rightarrow> default_to fallback (map_of (legacy_strategies fallback) lowered)))"

section \<open>Operators, conditions and rules\<close>

datatype cond_op =
    OpEq | OpNeq | OpContains | OpNotContains | OpIn | OpNotIn
  | OpStartsWith | OpEndsWith | OpGt | OpGte | OpLt | OpLte | OpBetween
  | OpIsEmpty | OpIsNotEmpty
  | OpUnknown string \<comment> \<open>a stored operator outside the vocabulary\<close>

definition operators_matching_absent_field :: "cond_op list" where
  "operators_matching_absent_field = [OpNeq, OpNotContains, OpNotIn, OpIsEmpty]"

definition valueless_operators :: "cond_op list" where
  "valueless_operators = [OpIsEmpty, OpIsNotEmpty]"

datatype match_type = MatchAll | MatchAny

record acondition =
  c_field :: string
  c_op :: cond_op
  c_value :: "string option"

record rule_actions =
  ra_user :: "string option"
  ra_groups :: "string list"
  ra_strategy :: "strategy option"
  ra_skills :: "string list"

record arule =
  r_id :: string
  r_name :: string
  r_priority :: int
  r_match :: match_type
  r_conditions :: "acondition list option"
  r_actions :: rule_actions
  r_enabled :: bool

record rule_match =
  rm_id :: string
  rm_name :: string
  rm_user :: "string option"
  rm_groups :: "string list"
  rm_strategy :: "strategy option"
  rm_skills :: "string list"

record cond_trace =
  ct_field :: string
  ct_op :: cond_op
  ct_value :: string
  ct_actual :: "string option"
  ct_matched :: bool

record rule_trace =
  rt_id :: string
  rt_name :: string
  rt_match :: match_type
  rt_matched :: bool
  rt_conditions :: "cond_trace list"

definition nonempty_text :: "jsval \<Rightarrow> string option" where
  "nonempty_text v = (if truthy v then Some (js_string v) else None)"

text \<open>\<open>raw ?? {}\<close>, then every legacy shape of the actions collapsed into one.\<close>

definition normalize_rule_actions :: "jsval \<Rightarrow> rule_actions" where
  "normalize_rule_actions raw =
     (let actions = (if nullish raw then JObj [] else raw);
          groups = (case js_get actions ''groupIds'' of JArr xs \<Rightarrow> xs | _ \<Rightarrow> []);
          chain = map js_string (filter truthy
            (js_get actions ''groupId'' # js_get actions ''assignToGroupId'' # groups));
          direct = js_get actions ''userId'';
          user = (if nullish direct then js_get actions ''assignToUserId'' else direct);
          strat = js_get actions ''strategy''
      in \<lparr>ra_user = nonempty_text user,
          ra_groups = uniq chain,
          ra_strategy = (if truthy strat
             then Some (normalize_strategy (Some (js_string strat)) RoundRobin) else None),
          ra_skills = (case js_get actions ''requiredSkills'' of
             JArr xs \<Rightarrow> map js_string xs | _ \<Rightarrow> [])\<rparr>)"

definition rule_match_of :: "arule \<Rightarrow> rule_match" where
  "rule_match_of r =
     \<lparr>rm_id = r_id r, rm_name = r_name r, rm_user = ra_user (r_actions r),
      rm_groups = ra_groups (r_actions r), rm_strategy = ra_strategy (r_actions r),
      rm_skills = ra_skills (r_actions r)\<rparr>"

section \<open>Value coercion\<close>

fun is_absent :: "jsval \<Rightarrow> bool" where
  "is_absent JUndef = True"
| "is_absent JNull = True"
| "is_absent (JStr s) = (trim s = [])"
| "is_absent (JArr xs) = (xs = [])"
| "is_absent _ = False"

fun as_text :: "jsval \<Rightarrow> string" where
  "as_text JUndef = []"
| "as_text JNull = []"
| "as_text (JDate t txt) = iso_string t"
| "as_text v = js_string v"

fun to_comparable_list :: "jsval \<Rightarrow> string list" where
  "to_comparable_list (JArr xs) = map as_text (filter (\<lambda>v. \<not> nullish v) xs)"
| "to_comparable_list v = [as_text v]"

fun as_number :: "jsval \<Rightarrow> jnum" where
  "as_number (JDate t txt) = Dec t 0"
| "as_number v = parse_float (as_text v)"

definition split_list_value :: "string \<Rightarrow> string list" where
  "split_list_value value =
     filter (\<lambda>s. 0 < length s) (map (\<lambda>s. to_lower (trim s)) (split_on CHR '','' value))"

section \<open>One comparison\<close>

definition between_bounds :: "string \<Rightarrow> jnum \<times> jnum" where
  "between_bounds expected =
     (let parts = split_on CHR '','' expected;
          min_raw = default_to [] (first_of parts);
          max_raw = default_to [] (first_of (drop 1 parts))
      in (parse_float (trim min_raw), parse_float (trim max_raw)))"

fun order_compare :: "cond_op \<Rightarrow> jnum \<Rightarrow> jnum \<Rightarrow> bool" where
  "order_compare OpGt l r = num_less r l"
| "order_compare OpGte l r = num_le r l"
| "order_compare OpLt l r = num_less l r"
| "order_compare _ l r = num_le l r"

definition compare_one :: "string \<Rightarrow> cond_op \<Rightarrow> string \<Rightarrow> jsval \<Rightarrow> bool" where
  "compare_one actual op expected raw =
     (let a = to_lower actual; b = to_lower expected in
      case op of
        OpEq \<Rightarrow> a = b
      | OpNeq \<Rightarrow> a \<noteq> b
      | OpContains \<Rightarrow> includes_str a b
      | OpNotContains \<Rightarrow> \<not> includes_str a b
      | OpIn \<Rightarrow> a \<in> set (split_list_value expected)
      | OpNotIn \<Rightarrow> a \<notin> set (split_list_value expected)
      | OpStartsWith \<Rightarrow> starts_with a b
      | OpEndsWith \<Rightarrow> ends_with a b
      | OpBetween \<Rightarrow>
          (let (mn, mx) = between_bounds expected; left = as_number raw in
           if mn = NaN \<or> mx = NaN \<or> left = NaN then False
           else num_le mn left \<and> num_le left mx)
      | OpIsEmpty \<Rightarrow> False
      | OpIsNotEmpty \<Rightarrow> True
      | OpUnknown _ \<Rightarrow> False
      | _ \<Rightarrow>
          (let left = as_number raw; right = parse_float expected in
           if left = NaN \<or> right = NaN then False else order_compare op left right))"

section \<open>Conditions and rules\<close>

definition is_negative :: "cond_op \<Rightarrow> bool" where
  "is_negative op = (op = OpNeq \<or> op = OpNotContains \<or> op = OpNotIn)"

definition needs_value :: "cond_op \<Rightarrow> bool" where
  "needs_value op = (op \<notin> set valueless_operators)"

text \<open>
  The elements are compared together with \<open>rawList[i]\<close>, the raw array at the index the
  element has after \<open>null\<close> and \<open>undefined\<close> were filtered out.
\<close>

definition raw_list :: "jsval \<Rightarrow> jsval list" where
  "raw_list raw = (case raw of JArr xs \<Rightarrow> xs | _ \<Rightarrow> [raw])"

definition condition_holds :: "acondition \<Rightarrow> jsval \<Rightarrow> bool" where
  "condition_holds c raw =
     (let op = c_op c; expected = default_to [] (c_value c) in
      if needs_value op \<and> (c_value c = None \<or> c_value c = Some []) then False
      else if is_absent raw then op \<in> set operators_matching_absent_field
      else if op = OpIsEmpty then False
      else if op = OpIsNotEmpty then True
      else
        let pairs = zip (to_comparable_list raw) (raw_list raw) in
        if is_negative op
        then list_all (\<lambda>(t, r). compare_one t op expected r) pairs
        else list_ex (\<lambda>(t, r). compare_one t op expected r) pairs)"

definition evaluate_condition :: "acondition \<Rightarrow> bag \<Rightarrow> cond_trace" where
  "evaluate_condition c attrs =
     (let raw = bag_get attrs (c_field c) in
      \<lparr>ct_field = c_field c, ct_op = c_op c, ct_value = default_to [] (c_value c),
       ct_actual = (if is_absent raw then None
                    else Some (join_with '', '' (to_comparable_list raw))),
       ct_matched = condition_holds c raw\<rparr>)"

definition evaluate_rule :: "arule \<Rightarrow> bag \<Rightarrow> rule_trace" where
  "evaluate_rule r attrs =
     (let conds = map (\<lambda>c. evaluate_condition c attrs) (default_to [] (r_conditions r));
          matched = (if conds = [] then True
                     else if r_match r = MatchAny then list_ex ct_matched conds
                     else list_all ct_matched conds)
      in \<lparr>rt_id = r_id r, rt_name = r_name r, rt_match = r_match r,
          rt_matched = matched, rt_conditions = conds\<rparr>)"

section \<open>First match over the rules in priority order\<close>

fun evaluate_loop ::
  "bool \<Rightarrow> bag \<Rightarrow> arule list \<Rightarrow> rule_match option \<Rightarrow> rule_trace list \<Rightarrow>
   rule_match option \<times> rule_trace list" where
  "evaluate_loop collect attrs [] found traces = (found, traces)"
| "evaluate_loop collect attrs (r # rs) found traces =
     (let trace = evaluate_rule r attrs;
          traces1 = (if collect then traces @ [trace] else traces)
      in if rt_matched trace \<and> found = None then
           (if collect then evaluate_loop collect attrs rs (Some (rule_match_of r)) traces1
            else (Some (rule_match_of r), traces1 @ [trace]))
         else evaluate_loop collect attrs rs found traces1)"

definition evaluate_rules ::
  "arule list \<Rightarrow> bag \<Rightarrow> bool \<Rightarrow> rule_match option \<times> rule_trace list" where
  "evaluate_rules rules attrs collect = evaluate_loop collect attrs rules None []"

definition rule_applies :: "bag \<Rightarrow> arule \<Rightarrow> bool" where
  "rule_applies attrs r = rt_matched (evaluate_rule r attrs)"

section \<open>Lemmas\<close>

lemma to_comparable_length: "length (to_comparable_list raw) \<le> length (raw_list raw)"
  by (cases raw) (auto simp: raw_list_def)

lemma zip_fst_pred:
  assumes "length xs \<le> length ys"
  shows "list_all (\<lambda>(t, r). P t) (zip xs ys) = list_all P xs"
    and "list_ex (\<lambda>(t, r). P t) (zip xs ys) = list_ex P xs"
  using assms
  by (induction xs ys rule: list_induct2') auto

lemma not_list_all: "(\<not> list_all P xs) = list_ex (\<lambda>x. \<not> P x) xs"
  by (induction xs) auto

lemma evaluate_loop_found:
  "fst (evaluate_loop True attrs rs (Some m) ts) = Some m"
  by (induction rs arbitrary: ts) (auto simp: Let_def)

lemma evaluate_loop_match:
  "fst (evaluate_loop collect attrs rs None ts) =
     map_option rule_match_of (List.find (rule_applies attrs) rs)"
  by (induction rs arbitrary: ts)
    (auto simp: Let_def rule_applies_def evaluate_loop_found)

lemma evaluate_loop_traces:
  "snd (evaluate_loop True attrs rs found ts) = ts @ map (\<lambda>r. evaluate_rule r attrs) rs"
  by (induction rs arbitrary: found ts) (auto simp: Let_def)

lemma normalize_strategy_canonical:
  "normalize_strategy (Some (strategy_name st)) fb = st"
  by (cases st)
    (simp_all add: normalize_strategy_def canonical_strategies_def to_lower_def lower_char_def)

lemma condition_holds_negation:
  assumes pos: "\<And>t r. compare_one t opn e r = (\<not> compare_one t opp e r)"
    and neg: "is_negative opn" "\<not> is_negative opp"
    and ops: "opn \<in> set operators_matching_absent_field"
      "opp \<notin> set operators_matching_absent_field"
      "opp \<noteq> OpIsNotEmpty" "opn \<noteq> OpIsEmpty" "opn \<noteq> OpIsNotEmpty" "opp \<noteq> OpIsEmpty"
    and val: "c_value c = Some e" "e \<noteq> []"
  shows "condition_holds (c\<lparr>c_op := opn\<rparr>) raw = (\<not> condition_holds (c\<lparr>c_op := opp\<rparr>) raw)"
proof (cases "is_absent raw")
  case True
  with ops val show ?thesis by (simp add: condition_holds_def Let_def)
next
  case False
  have "list_all (\<lambda>(t, r). compare_one t opn e r) ps
      = (\<not> list_ex (\<lambda>(t, r). compare_one t opp e r) ps)" for ps
    by (induction ps) (auto simp: pos)
  with False ops val neg show ?thesis by (simp add: condition_holds_def Let_def)
qed


lemma is_absent_not_JArr_Cons: "\<not> is_absent (JArr (x # xs))"
  by simp

text \<open>The canonical document of normalized actions, as it is stored.\<close>

definition actions_doc :: "rule_actions \<Rightarrow> jsval" where
  "actions_doc a = JObj
     [(''userId'', case ra_user a of None \<Rightarrow> JNull | Some u \<Rightarrow> JStr u),
      (''groupIds'', JArr (map JStr (ra_groups a))),
      (''strategy'', case ra_strategy a of None \<Rightarrow> JNull | Some st \<Rightarrow> JStr (strategy_name st)),
      (''requiredSkills'', JArr (map JStr (ra_skills a)))]"

lemma map_js_string_JStr: "map js_string (map JStr xs) = xs"
  by (induction xs) auto

lemma filter_truthy_JStr: "[] \<notin> set xs \<Longrightarrow> filter truthy (map JStr xs) = map JStr xs"
  by (induction xs) auto

lemma strategy_name_nonempty: "strategy_name st \<noteq> []"
  by (cases st) auto

lemma normalize_actions_doc:
  assumes "ra_user a \<noteq> Some []" "[] \<notin> set (ra_groups a)" "distinct (ra_groups a)"
  shows "normalize_rule_actions (actions_doc a) = a"
proof -
  have "ra_user (normalize_rule_actions (actions_doc a)) = ra_user a"
    using assms(1)
    by (auto simp: normalize_rule_actions_def actions_doc_def nonempty_text_def Let_def
        split: option.splits)
  moreover have "ra_groups (normalize_rule_actions (actions_doc a)) = ra_groups a"
    using assms(2,3)
    by (simp add: normalize_rule_actions_def actions_doc_def Let_def filter_truthy_JStr
        map_js_string_JStr uniq_distinct o_def)
  moreover have "ra_strategy (normalize_rule_actions (actions_doc a)) = ra_strategy a"
    by (auto simp: normalize_rule_actions_def actions_doc_def Let_def strategy_name_nonempty
        normalize_strategy_canonical split: option.splits)
  moreover have "ra_skills (normalize_rule_actions (actions_doc a)) = ra_skills a"
    by (simp add: normalize_rule_actions_def actions_doc_def Let_def o_def)
  ultimately show ?thesis by (cases a; cases "normalize_rule_actions (actions_doc a)") simp
qed

lemma evaluate_loop_hot_traces:
  "snd (evaluate_loop False attrs rs None ts) =
     ts @ (case List.find (rule_applies attrs) rs of
             None \<Rightarrow> [] | Some r \<Rightarrow> [evaluate_rule r attrs])"
  by (induction rs arbitrary: ts) (auto simp: Let_def rule_applies_def)

text \<open>
  The raw array is indexed by the position an element has in the filtered list, so a
  leading \<open>null\<close> makes an ordering operator look at the wrong element.
\<close>

definition gt_three :: acondition where
  "gt_three = \<lparr>c_field = ''score'', c_op = OpGt, c_value = Some ''3''\<rparr>"

lemma array_null_shifts_numbers:
  "condition_holds gt_three (JArr [JNum (Dec 5 0), JNull])
   \<and> \<not> condition_holds gt_three (JArr [JNull, JNum (Dec 5 0)])"
  by code_simp

section \<open>Properties\<close>

text \<open>C7: Rule evaluation returns the match of the first rule, in the order given, whose
  conditions hold; the hot path and the explain run (\<open>collectTraces\<close>) agree on the match, the
  explain run reports one trace per rule in order, and the hot path reports only the trace of
  the winner.\<close>

theorem evaluate_rules_first_match:
  "fst (evaluate_rules rules attrs collect) =
     map_option rule_match_of (List.find (rule_applies attrs) rules)
   \<and> snd (evaluate_rules rules attrs True) = map (\<lambda>r. evaluate_rule r attrs) rules
   \<and> snd (evaluate_rules rules attrs False) =
     (case List.find (rule_applies attrs) rules of
        None \<Rightarrow> [] | Some r \<Rightarrow> [evaluate_rule r attrs])"
  by (simp add: evaluate_rules_def evaluate_loop_match evaluate_loop_traces
      evaluate_loop_hot_traces)

text \<open>Every negative operator is the exact complement of its positive one, on scalars,
  on arrays (where it must hold for every element) and on absent fields, provided the
  condition carries a comparison value.\<close>

theorem negative_operators_complement:
  assumes "c_value c = Some e" "e \<noteq> []"
  shows "condition_holds (c\<lparr>c_op := OpNeq\<rparr>) raw = (\<not> condition_holds (c\<lparr>c_op := OpEq\<rparr>) raw)
    \<and> condition_holds (c\<lparr>c_op := OpNotContains\<rparr>) raw
      = (\<not> condition_holds (c\<lparr>c_op := OpContains\<rparr>) raw)
    \<and> condition_holds (c\<lparr>c_op := OpNotIn\<rparr>) raw = (\<not> condition_holds (c\<lparr>c_op := OpIn\<rparr>) raw)"
  by (intro conjI; rule condition_holds_negation[OF _ _ _ _ _ _ _ _ _ assms])
    (auto simp: compare_one_def is_negative_def operators_matching_absent_field_def)

theorem negative_operators_complement_witness:
  "condition_holds \<lparr>c_field = ''tags'', c_op = OpNotIn, c_value = Some ''vip''\<rparr>
      (JArr [JStr ''VIP'', JStr ''urgent'']) = False"
proof -
  have "c_value \<lparr>c_field = ''tags'', c_op = OpNotIn, c_value = Some ''vip''\<rparr> = Some ''vip''"
    and "''vip'' \<noteq> ([]::string)" by simp_all
  from negative_operators_complement[OF this, of "JArr [JStr ''VIP'', JStr ''urgent'']"]
  have "condition_holds \<lparr>c_field = ''tags'', c_op = OpNotIn, c_value = Some ''vip''\<rparr>
      (JArr [JStr ''VIP'', JStr ''urgent'']) =
     (\<not> condition_holds \<lparr>c_field = ''tags'', c_op = OpIn, c_value = Some ''vip''\<rparr>
      (JArr [JStr ''VIP'', JStr ''urgent'']))" by simp
  moreover have "condition_holds \<lparr>c_field = ''tags'', c_op = OpIn, c_value = Some ''vip''\<rparr>
      (JArr [JStr ''VIP'', JStr ''urgent''])" by code_simp
  ultimately show ?thesis by simp
qed

text \<open>A condition on an absent field holds exactly when its operator is one of the four
  that are meaningful there and, where the operator compares, a comparison value was
  configured; an operator that compares never holds without a value.\<close>

theorem absent_field_matching:
  assumes "is_absent raw"
  shows "condition_holds c raw \<longleftrightarrow>
      c_op c \<in> set operators_matching_absent_field
      \<and> (needs_value (c_op c) \<longrightarrow> c_value c \<noteq> None \<and> c_value c \<noteq> Some [])"
  using assms by (auto simp: condition_holds_def Let_def)

theorem absent_field_matching_witness:
  "is_absent (JStr ''  '')
   \<and> condition_holds \<lparr>c_field = ''priority'', c_op = OpNeq, c_value = Some ''low''\<rparr> (JStr ''  '')"
proof -
  have a: "is_absent (JStr ''  '')" by code_simp
  show ?thesis
    using a absent_field_matching[OF a, of "\<lparr>c_field = ''priority'', c_op = OpNeq, c_value = Some ''low''\<rparr>"]
    by (simp add: operators_matching_absent_field_def)
qed

text \<open>Normalizing rule actions is idempotent: the canonical document of any normalized
  actions normalizes to the same actions, so the read-path guard leaves migrated documents
  alone (for ids with a non-empty text).\<close>

theorem normalize_actions_roundtrip:
  assumes "ra_user (normalize_rule_actions raw) \<noteq> Some []"
    and "[] \<notin> set (ra_groups (normalize_rule_actions raw))"
  shows "normalize_rule_actions (actions_doc (normalize_rule_actions raw)) = normalize_rule_actions raw"
  using assms
  by (intro normalize_actions_doc) (simp_all add: normalize_rule_actions_def Let_def)

theorem normalize_actions_roundtrip_witness:
  "normalize_rule_actions (actions_doc (normalize_rule_actions
     (JObj [(''assignToGroupId'', JOid ''a1''), (''groupIds'', JArr [JStr ''a1'', JStr ''b2'']),
            (''strategy'', JStr ''LEAST_BUSY'')])))
   = \<lparr>ra_user = None, ra_groups = [''a1'', ''b2''], ra_strategy = Some LeastBusy, ra_skills = []\<rparr>"
proof -
  let ?raw = "JObj [(''assignToGroupId'', JOid ''a1''), (''groupIds'', JArr [JStr ''a1'', JStr ''b2'']),
            (''strategy'', JStr ''LEAST_BUSY'')]"
  have n: "normalize_rule_actions ?raw =
      \<lparr>ra_user = None, ra_groups = [''a1'', ''b2''], ra_strategy = Some LeastBusy, ra_skills = []\<rparr>"
    by code_simp
  then show ?thesis using normalize_actions_roundtrip[of ?raw] by simp
qed

end
