(* ===== verification/Assignment_Config.thy ===== *)
theory Assignment_Config
  imports Assignment_Rules
begin

text \<open>
  Per-(tenant, object type) assignment settings: the field-by-field merge of a channel
  override over the stored document over the hard defaults
  (\<open>src/src/assignment/core/assignment-config.service.ts\<close>), and the in-process cache with
  cross-pod invalidation that this service and the rule evaluator
  (\<open>core/rule-evaluator.service.ts\<close>) both keep. The cache is an interface with two laws,
  the locale \<open>expiring_cache\<close>; the code's \<open>Map\<close> of \<open>{value, expiresAt}\<close> is its instance.
  The database behind the cache is a function of time.
\<close>

section \<open>Object types\<close>

datatype object_type = Lead | Contact | Account | Ticket | Task | Deal | Conversation

fun object_type_name :: "object_type \<Rightarrow> string" where
  "object_type_name Lead = ''Lead''"
| "object_type_name Contact = ''Contact''"
| "object_type_name Account = ''Account''"
| "object_type_name Ticket = ''Ticket''"
| "object_type_name Task = ''Task''"
| "object_type_name Deal = ''Deal''"
| "object_type_name Conversation = ''Conversation''"

section \<open>Resolved configuration\<close>

datatype skill_fallback = Strict | Lenient

record setting_doc =
  sd_auto :: "bool option"
  sd_strategy :: "string option"
  sd_group :: "string option"
  sd_capacity :: "jnum option"
  sd_fallback_owner :: "string option"
  sd_sticky :: "string option"
  sd_skill_routing :: "bool option"
  sd_skill_mode :: "skill_fallback option"
  sd_online :: "bool option"
  sd_prefer_previous :: "bool option"
  sd_timeout_hours :: "jnum option"
  sd_wait_minutes :: "jnum option"

record config_override =
  co_auto :: "bool option"
  co_strategy :: "string option"
  co_capacity :: "jnum option"
  co_sticky :: "string option"
  co_skill_routing :: "bool option"
  co_skill_mode :: "skill_fallback option"
  co_online :: "bool option"
  co_prefer_previous :: "bool option"
  co_timeout_hours :: "jnum option"
  co_wait_minutes :: "jnum option"

record aconfig =
  cfg_auto :: bool
  cfg_strategy :: strategy
  cfg_group :: "string option"
  cfg_capacity :: jnum
  cfg_fallback_owner :: "string option"
  cfg_sticky :: strategy
  cfg_skill_routing :: bool
  cfg_skill_mode :: skill_fallback
  cfg_online :: bool
  cfg_prefer_previous :: bool
  cfg_timeout_hours :: jnum
  cfg_wait_minutes :: jnum

definition empty_setting :: setting_doc where
  "empty_setting =
     \<lparr>sd_auto = None, sd_strategy = None, sd_group = None, sd_capacity = None,
      sd_fallback_owner = None, sd_sticky = None, sd_skill_routing = None,
      sd_skill_mode = None, sd_online = None, sd_prefer_previous = None,
      sd_timeout_hours = None, sd_wait_minutes = None\<rparr>"

definition empty_override :: config_override where
  "empty_override =
     \<lparr>co_auto = None, co_strategy = None, co_capacity = None, co_sticky = None,
      co_skill_routing = None, co_skill_mode = None, co_online = None,
      co_prefer_previous = None, co_timeout_hours = None, co_wait_minutes = None\<rparr>"

definition hard_defaults :: aconfig where
  "hard_defaults =
     \<lparr>cfg_auto = False, cfg_strategy = RoundRobin, cfg_group = None, cfg_capacity = Dec 10 0,
      cfg_fallback_owner = None, cfg_sticky = RoundRobin, cfg_skill_routing = False,
      cfg_skill_mode = Lenient, cfg_online = False, cfg_prefer_previous = False,
      cfg_timeout_hours = Dec 72 0, cfg_wait_minutes = Dec 0 0\<rparr>"

fun pick_number :: "jnum option list \<Rightarrow> jnum option" where
  "pick_number [] = None"
| "pick_number (v # vs) =
     (case v of Some n \<Rightarrow> if is_finite_num n then Some n else pick_number vs
      | None \<Rightarrow> pick_number vs)"

definition merge_assignment_config :: "setting_doc option \<Rightarrow> config_override option \<Rightarrow> aconfig" where
  "merge_assignment_config stored override =
     (let s = default_to empty_setting stored; ov = default_to empty_override override in
      \<lparr>cfg_auto = default_to (cfg_auto hard_defaults) (or_else (co_auto ov) (sd_auto s)),
       cfg_strategy = normalize_strategy (or_else (co_strategy ov) (sd_strategy s))
         (cfg_strategy hard_defaults),
       cfg_group = truthy_id (sd_group s),
       cfg_capacity = default_to (cfg_capacity hard_defaults)
         (pick_number [co_capacity ov, sd_capacity s]),
       cfg_fallback_owner = truthy_id (sd_fallback_owner s),
       cfg_sticky = normalize_strategy (or_else (co_sticky ov) (sd_sticky s))
         (cfg_sticky hard_defaults),
       cfg_skill_routing = default_to (cfg_skill_routing hard_defaults)
         (or_else (co_skill_routing ov) (sd_skill_routing s)),
       cfg_skill_mode = default_to (cfg_skill_mode hard_defaults)
         (or_else (co_skill_mode ov) (sd_skill_mode s)),
       cfg_online = default_to (cfg_online hard_defaults) (or_else (co_online ov) (sd_online s)),
       cfg_prefer_previous = default_to (cfg_prefer_previous hard_defaults)
         (or_else (co_prefer_previous ov) (sd_prefer_previous s)),
       cfg_timeout_hours = default_to (cfg_timeout_hours hard_defaults)
         (pick_number [co_timeout_hours ov, sd_timeout_hours s]),
       cfg_wait_minutes = default_to (cfg_wait_minutes hard_defaults)
         (pick_number [co_wait_minutes ov, sd_wait_minutes s])\<rparr>)"

section \<open>The cache interface\<close>

text \<open>
  \<open>served_from peek ttl db now c\<close>: whatever the cache serves from \<open>now\<close> on is a value the
  database held at some moment of the last \<open>ttl\<close> milliseconds.
\<close>

definition served_from ::
  "('c \<Rightarrow> int \<Rightarrow> 'k \<Rightarrow> 'v option) \<Rightarrow> int \<Rightarrow> (int \<Rightarrow> 'k \<Rightarrow> 'v) \<Rightarrow> int \<Rightarrow> 'c \<Rightarrow> bool" where
  "served_from peek ttl db now c \<longleftrightarrow>
     (\<forall>t k v. now \<le> t \<longrightarrow> peek c t k = Some v \<longrightarrow> (\<exists>s. t - ttl < s \<and> s \<le> now \<and> v = db s k))"

locale expiring_cache =
  fixes peek :: "'c \<Rightarrow> int \<Rightarrow> 'k \<Rightarrow> 'v option"
    and store :: "int \<Rightarrow> int \<Rightarrow> 'k \<Rightarrow> 'v \<Rightarrow> 'c \<Rightarrow> 'c"
    and forget :: "('k \<Rightarrow> bool) \<Rightarrow> 'c \<Rightarrow> 'c"
  assumes peek_store:
    "peek (store ttl now k v c) t k' =
       (if k' = k then (if t < now + ttl then Some v else None) else peek c t k')"
    and peek_forget: "peek (forget P c) t k = (if P k then None else peek c t k)"
begin

lemma served_later: "served_from peek ttl db now c \<Longrightarrow> now \<le> t \<Longrightarrow> served_from peek ttl db t c"
  unfolding served_from_def by (meson order_trans)

lemma served_store:
  assumes "served_from peek ttl db now c" "v = db now k"
  shows "served_from peek ttl db now (store ttl now k v c)"
  unfolding served_from_def
proof (intro allI impI)
  fix t k' v'
  assume t: "now \<le> t" and p: "peek (store ttl now k v c) t k' = Some v'"
  show "\<exists>s. t - ttl < s \<and> s \<le> now \<and> v' = db s k'"
  proof (cases "k' = k")
    case True
    with p assms(2) have "t < now + ttl" "v' = db now k'"
      by (auto simp: peek_store split: if_splits)
    then show ?thesis by (intro exI[of _ now]) auto
  next
    case False
    with p have "peek c t k' = Some v'" by (simp add: peek_store)
    with assms(1) t show ?thesis unfolding served_from_def by blast
  qed
qed

lemma served_forget: "served_from peek ttl db now c \<Longrightarrow> served_from peek ttl db now (forget P c)"
  unfolding served_from_def by (auto simp: peek_forget split: if_splits)

lemma forgotten_not_served: "P k \<Longrightarrow> peek (forget P c) t k = None"
  by (simp add: peek_forget)

end

section \<open>The in-process map and its invalidation\<close>

type_synonym 'v pod_cache = "string \<Rightarrow> ('v \<times> int) option"

definition cache_peek :: "'v pod_cache \<Rightarrow> int \<Rightarrow> string \<Rightarrow> 'v option" where
  "cache_peek c now k =
     (case c k of Some (v, expires) \<Rightarrow> if expires > now then Some v else None | None \<Rightarrow> None)"

definition cache_store :: "int \<Rightarrow> int \<Rightarrow> string \<Rightarrow> 'v \<Rightarrow> 'v pod_cache \<Rightarrow> 'v pod_cache" where
  "cache_store ttl now k v c = c(k \<mapsto> (v, now + ttl))"

definition cache_forget :: "(string \<Rightarrow> bool) \<Rightarrow> 'v pod_cache \<Rightarrow> 'v pod_cache" where
  "cache_forget P c = (\<lambda>k. if P k then None else c k)"

interpretation pod: expiring_cache cache_peek cache_store cache_forget
  by unfold_locales
    (auto simp: cache_peek_def cache_store_def cache_forget_def split: option.splits)

definition cache_key :: "string \<Rightarrow> object_type \<Rightarrow> string" where
  "cache_key tenant ot = tenant @ '':'' @ object_type_name ot"

text \<open>What every pod does with a message of the invalidation channel.\<close>

definition on_invalidation_message :: "string \<Rightarrow> 'v pod_cache \<Rightarrow> 'v pod_cache" where
  "on_invalidation_message message c =
     (if message = [] \<or> message = ''*'' then cache_forget (\<lambda>k. True) c
      else if ends_with message '':*'' then cache_forget (\<lambda>k. starts_with k (butlast message)) c
      else cache_forget (\<lambda>k. k = message) c)"

text \<open>The configuration service: the local effect and the published payload.\<close>

definition config_invalidate ::
  "string option \<Rightarrow> object_type option \<Rightarrow> 'v pod_cache \<Rightarrow> 'v pod_cache \<times> string" where
  "config_invalidate tenant ot c =
     (case (truthy_id tenant, ot) of
        (Some t, Some ty) \<Rightarrow> (cache_forget (\<lambda>k. k = cache_key t ty) c, cache_key t ty)
      | (Some t, None) \<Rightarrow> (cache_forget (\<lambda>k. starts_with k (t @ '':'')) c, t @ '':*'')
      | (None, _) \<Rightarrow> (cache_forget (\<lambda>k. True) c, ''*''))"

definition rules_invalidate ::
  "string \<Rightarrow> object_type option \<Rightarrow> 'v pod_cache \<Rightarrow> 'v pod_cache \<times> string" where
  "rules_invalidate t ot c =
     (case ot of
        Some ty \<Rightarrow> (cache_forget (\<lambda>k. k = cache_key t ty) c, cache_key t ty)
      | None \<Rightarrow> (cache_forget (\<lambda>k. starts_with k (t @ '':'')) c, t @ '':*''))"

section \<open>Reads through the cache\<close>

definition config_ttl :: int where "config_ttl = 5 * 60000"

definition rules_ttl :: int where "rules_ttl = 60000"

text \<open>A failed read answers \<open>null\<close> and is not cached.\<close>

definition config_load ::
  "(string \<Rightarrow> 'e + setting_doc option) \<Rightarrow> int \<Rightarrow> string \<Rightarrow> object_type \<Rightarrow>
   setting_doc option pod_cache \<Rightarrow> setting_doc option \<times> setting_doc option pod_cache" where
  "config_load find_one now tenant ot c =
     (let key = cache_key tenant ot in
      case cache_peek c now key of
        Some v \<Rightarrow> (v, c)
      | None \<Rightarrow>
          (case find_one key of
             Inl e \<Rightarrow> (None, c)
           | Inr v \<Rightarrow> (v, cache_store config_ttl now key v c)))"

definition config_resolve ::
  "(string \<Rightarrow> 'e + setting_doc option) \<Rightarrow> int \<Rightarrow> string \<Rightarrow> object_type \<Rightarrow> config_override option \<Rightarrow>
   setting_doc option pod_cache \<Rightarrow> aconfig \<times> setting_doc option pod_cache" where
  "config_resolve find_one now tenant ot override c =
     (let (stored, c') = config_load find_one now tenant ot c in
      (merge_assignment_config stored override, c'))"

definition enabled_rules ::
  "(string \<Rightarrow> 'e + arule list) \<Rightarrow> int \<Rightarrow> string \<Rightarrow> object_type \<Rightarrow>
   arule list pod_cache \<Rightarrow> 'e + (arule list \<times> arule list pod_cache)" where
  "enabled_rules find_enabled now tenant ot c =
     (let key = cache_key tenant ot in
      case cache_peek c now key of
        Some v \<Rightarrow> Inr (v, c)
      | None \<Rightarrow>
          (case find_enabled key of
             Inl e \<Rightarrow> Inl e
           | Inr v \<Rightarrow> Inr (v, cache_store rules_ttl now key v c)))"

section \<open>Lemmas\<close>

lemma object_type_name_ends: "last (object_type_name ty) \<noteq> CHR ''*''" "object_type_name ty \<noteq> []"
  by (cases ty; simp)+

lemma last_cache_key: "last (cache_key t ty) = last (object_type_name ty)"
  by (simp add: cache_key_def object_type_name_ends)

lemma ends_with_last: "ends_with s p \<Longrightarrow> p \<noteq> [] \<Longrightarrow> last s = last p"
  by (auto simp: ends_with_def suffix_def)

lemma key_not_wildcard [simp]:
  "\<not> ends_with (cache_key t ty) '':*''" "cache_key t ty \<noteq> ''*''" "cache_key t ty \<noteq> []"
proof -
  show "\<not> ends_with (cache_key t ty) '':*''"
    using ends_with_last[of "cache_key t ty" "'':*''"] object_type_name_ends[of ty]
    by (auto simp: last_cache_key)
  show "cache_key t ty \<noteq> ''*''"
    using last_cache_key[of t ty] object_type_name_ends[of ty] by auto
  show "cache_key t ty \<noteq> []" by (simp add: cache_key_def)
qed

lemma tenant_wildcard [simp]:
  "ends_with (t @ '':*'') '':*''" "butlast (t @ '':*'') = t @ '':''" "t @ '':*'' \<noteq> ''*''"
  by (simp_all add: ends_with_def suffix_def butlast_append append_eq_Cons_conv)

lemma pick_number_finite: "pick_number vs = Some n \<Longrightarrow> is_finite_num n"
  by (induction vs) (auto split: option.splits if_splits)

lemma default_pick_finite: "is_finite_num d \<Longrightarrow> is_finite_num (default_to d (pick_number vs))"
  by (cases "pick_number vs") (auto dest: pick_number_finite)

lemma cache_key_inj_type: "cache_key t ty = cache_key t ty' \<Longrightarrow> ty = ty'"
  by (cases ty; cases ty'; simp add: cache_key_def)

section \<open>Properties\<close>

text \<open>An override inherits per field: setting one field of a channel override changes that
  field of the resolved configuration and no other, and an unset override changes nothing.\<close>

theorem config_override_per_field:
  "merge_assignment_config stored (Some (ov\<lparr>co_strategy := Some st\<rparr>)) =
     (merge_assignment_config stored (Some ov))\<lparr>cfg_strategy := normalize_strategy (Some st) RoundRobin\<rparr>
   \<and> merge_assignment_config stored (Some (ov\<lparr>co_online := Some b\<rparr>)) =
     (merge_assignment_config stored (Some ov))\<lparr>cfg_online := b\<rparr>
   \<and> merge_assignment_config stored (Some (ov\<lparr>co_auto := Some b\<rparr>)) =
     (merge_assignment_config stored (Some ov))\<lparr>cfg_auto := b\<rparr>
   \<and> merge_assignment_config stored (Some empty_override) = merge_assignment_config stored None
   \<and> is_finite_num (cfg_capacity (merge_assignment_config stored override))
   \<and> is_finite_num (cfg_wait_minutes (merge_assignment_config stored override))"
  by (simp add: merge_assignment_config_def hard_defaults_def Let_def default_pick_finite
      is_finite_num_def[of "Dec _ _"] del: pick_number.simps)

text \<open>The pod that serves a settings or rule write and every pod that receives its
  message drop the same entries: handling the published payload has the effect of the local
  invalidation, whatever the caches hold.\<close>

theorem invalidation_agrees:
  "on_invalidation_message (snd (config_invalidate tenant ot c)) c' =
     fst (config_invalidate tenant ot c')
   \<and> on_invalidation_message (snd (rules_invalidate t ot c)) c' = fst (rules_invalidate t ot c')"
  by (auto simp: on_invalidation_message_def config_invalidate_def rules_invalidate_def
      split: option.splits)

text \<open>Staleness of cached settings is bounded: whatever a read through the cache answers
  is a value the database held during the last five minutes, the read keeps that invariant,
  and right after an invalidation of the key the read answers the current document.\<close>

theorem config_load_staleness:
  assumes "served_from cache_peek config_ttl db now c"
  shows "(\<exists>s. now - config_ttl < s \<and> s \<le> now \<and>
      fst (config_load (\<lambda>k. Inr (db now k)) now t ot c) = db s (cache_key t ot))
    \<and> served_from cache_peek config_ttl db now (snd (config_load (\<lambda>k. Inr (db now k)) now t ot c))
    \<and> fst (config_load (\<lambda>k. Inr (db now k)) now t ot (fst (config_invalidate (Some t) (Some ot) c)))
      = db now (cache_key t ot)"
proof (intro conjI)
  let ?key = "cache_key t ot"
  show "\<exists>s. now - config_ttl < s \<and> s \<le> now \<and>
      fst (config_load (\<lambda>k. Inr (db now k)) now t ot c) = db s ?key"
  proof (cases "cache_peek c now ?key")
    case None
    then show ?thesis
      by (intro exI[of _ now]) (simp add: config_load_def Let_def config_ttl_def)
  next
    case (Some v)
    with assms obtain s where "now - config_ttl < s" "s \<le> now" "v = db s ?key"
      unfolding served_from_def by blast
    with Some show ?thesis by (auto simp: config_load_def Let_def)
  qed
  show "served_from cache_peek config_ttl db now (snd (config_load (\<lambda>k. Inr (db now k)) now t ot c))"
    using assms pod.served_store[OF assms]
    by (auto simp: config_load_def Let_def split: option.split)
  show "fst (config_load (\<lambda>k. Inr (db now k)) now t ot (fst (config_invalidate (Some t) (Some ot) c)))
      = db now ?key"
    by (cases "t = []")
      (simp_all add: config_load_def config_invalidate_def truthy_id_def Let_def
        pod.forgotten_not_served)
qed

theorem config_load_staleness_witness:
  "\<exists>s. 100 - config_ttl < s \<and> s \<le> 100 \<and>
     None = (\<lambda>t k. if t < 50 then None else Some empty_setting) s (cache_key ''t1'' Lead)"
proof -
  let ?db = "\<lambda>t (k::string). if t < (50::int) then None else Some empty_setting"
  let ?c = "(\<lambda>_. None)(cache_key ''t1'' Lead \<mapsto> (None, 10 + config_ttl))"
  have h: "served_from cache_peek config_ttl ?db 100 ?c"
    unfolding served_from_def
    by (intro allI impI exI[of _ 10]) (auto simp: cache_peek_def split: if_splits)
  have "fst (config_load (\<lambda>k. Inr (?db 100 k) :: unit + setting_doc option) 100 ''t1'' Lead ?c) = None"
    by (simp add: config_load_def cache_peek_def config_ttl_def)
  then show ?thesis
    using config_load_staleness[OF h, of "''t1''" Lead, where ?'b = unit] by metis
qed

end
