(* ===== verification/Assignment_Reservation.thy ===== *)
theory Assignment_Reservation
  imports Assignment_Config
begin

text \<open>
  The Redis-backed load store of the record adapter: the reservation scripts
  (\<open>src/src/assignment/infrastructure/reservation/reservation.lua.ts\<close>), the service that
  runs them with command leases (\<open>zset-reservation.service.ts\<close>), the round-robin cursor
  (\<open>round-robin-cursor.service.ts\<close>) and the strategy registry
  (\<open>core/assignment-strategy.registry.ts\<close>).

  A script runs atomically, so it is one function of the store. The store keeps the sorted
  set of open-work counts, the hash of capacity overrides, the lease of every command and the
  cursors. Every operation takes a flag that says whether Redis answers the command it sends;
  the service turns a failure into the value the code returns. Expiry of keys is not part of
  an operation.
\<close>

section \<open>Strategy registry\<close>

datatype reservation_mode = FirstEligible | LeastLoad | CapacityLoad

record plugin =
  pl_mode :: reservation_mode
  pl_rotate :: bool
  pl_enforce :: bool
  pl_ordered :: bool

type_synonym registry = "strategy \<Rightarrow> plugin option"

definition register :: "strategy \<Rightarrow> plugin \<Rightarrow> registry \<Rightarrow> (string, registry) result" where
  "register name p reg =
     (if reg name \<noteq> None then Inl ''already registered'' else Inr (reg(name \<mapsto> p)))"

definition builtin_registry :: registry where
  "builtin_registry =
     [RoundRobin \<mapsto> \<lparr>pl_mode = FirstEligible, pl_rotate = True, pl_enforce = True, pl_ordered = False\<rparr>,
      LeastBusy \<mapsto> \<lparr>pl_mode = LeastLoad, pl_rotate = False, pl_enforce = False, pl_ordered = True\<rparr>,
      CapacityBased \<mapsto> \<lparr>pl_mode = CapacityLoad, pl_rotate = False, pl_enforce = True, pl_ordered = True\<rparr>]"

section \<open>The store\<close>

record store =
  st_load :: "string \<Rightarrow> string \<Rightarrow> int option" \<comment> \<open>load scope, member\<close>
  st_cap :: "string \<Rightarrow> string \<Rightarrow> int option"
  st_lease :: "string \<Rightarrow> string option" \<comment> \<open>command id\<close>
  st_cursor :: "string \<Rightarrow> string option" \<comment> \<open>cursor scope\<close>

definition set_load :: "string \<Rightarrow> string \<Rightarrow> int \<Rightarrow> store \<Rightarrow> store" where
  "set_load sc ident n s = s\<lparr>st_load := (st_load s)(sc := (st_load s sc)(ident \<mapsto> n))\<rparr>"

definition incr_load :: "string \<Rightarrow> string \<Rightarrow> store \<Rightarrow> store" where
  "incr_load sc ident s = set_load sc ident (default_to 0 (st_load s sc ident) + 1) s"

definition set_lease :: "string option \<Rightarrow> string \<Rightarrow> store \<Rightarrow> store" where
  "set_lease cmd ident s =
     (case cmd of None \<Rightarrow> s | Some k \<Rightarrow> s\<lparr>st_lease := (st_lease s)(k \<mapsto> ident)\<rparr>)"

section \<open>The scripts\<close>

text \<open>The ceiling of one candidate: the override when the hash is consulted and positive.\<close>

definition effective_cap :: "(string \<Rightarrow> int option) option \<Rightarrow> int \<Rightarrow> string \<Rightarrow> int" where
  "effective_cap caps default_cap ident =
     (let cap = (case caps of
          Some hash \<Rightarrow> (case hash ident of Some c \<Rightarrow> c | None \<Rightarrow> default_cap)
        | None \<Rightarrow> default_cap)
      in if cap \<le> 0 then default_cap else cap)"

fun first_eligible_loop :: "(string \<Rightarrow> int option) \<Rightarrow> (string \<Rightarrow> int) \<Rightarrow> string list \<Rightarrow> string option" where
  "first_eligible_loop load cap [] = None"
| "first_eligible_loop load cap (ident # ids) =
     (case load ident of
        Some score \<Rightarrow> if score < cap ident then Some ident else first_eligible_loop load cap ids
      | None \<Rightarrow> first_eligible_loop load cap ids)"

fun least_busy_loop ::
  "(string \<Rightarrow> int option) \<Rightarrow> string list \<Rightarrow> (string \<times> int) option \<Rightarrow> (string \<times> int) option" where
  "least_busy_loop load [] best = best"
| "least_busy_loop load (ident # ids) best =
     (case load ident of
        Some score \<Rightarrow>
          (case best of
             None \<Rightarrow> least_busy_loop load ids (Some (ident, score))
           | Some (b, bl) \<Rightarrow>
               if score < bl then least_busy_loop load ids (Some (ident, score))
               else least_busy_loop load ids best)
      | None \<Rightarrow> least_busy_loop load ids best)"

fun capacity_loop ::
  "(string \<Rightarrow> int option) \<Rightarrow> (string \<Rightarrow> int) \<Rightarrow> string list \<Rightarrow> (string \<times> int) option \<Rightarrow>
   (string \<times> int) option" where
  "capacity_loop load cap [] best = best"
| "capacity_loop load cap (ident # ids) best =
     (case load ident of
        Some score \<Rightarrow>
          if score < cap ident \<and> (best = None \<or> score < snd (the best))
          then capacity_loop load cap ids (Some (ident, score))
          else capacity_loop load cap ids best
      | None \<Rightarrow> capacity_loop load cap ids best)"

definition take_slot :: "string \<Rightarrow> string option \<Rightarrow> string option \<Rightarrow> store \<Rightarrow> string option \<times> store" where
  "take_slot sc lease picked s =
     (case picked of
        None \<Rightarrow> (None, s)
      | Some ident \<Rightarrow> (Some ident, set_lease lease ident (incr_load sc ident s)))"

definition lua_first_eligible ::
  "string \<Rightarrow> bool \<Rightarrow> string option \<Rightarrow> string list \<Rightarrow> int \<Rightarrow> store \<Rightarrow> string option \<times> store" where
  "lua_first_eligible sc use_caps lease ids default_cap s =
     take_slot sc lease
       (first_eligible_loop (st_load s sc)
          (effective_cap (if use_caps then Some (st_cap s sc) else None) default_cap) ids) s"

definition lua_least_busy ::
  "string \<Rightarrow> string option \<Rightarrow> string list \<Rightarrow> store \<Rightarrow> string option \<times> store" where
  "lua_least_busy sc lease ids s =
     take_slot sc lease (map_option fst (least_busy_loop (st_load s sc) ids None)) s"

definition lua_capacity_based ::
  "string \<Rightarrow> bool \<Rightarrow> string option \<Rightarrow> string list \<Rightarrow> int \<Rightarrow> store \<Rightarrow> string option \<times> store" where
  "lua_capacity_based sc use_caps lease ids default_cap s =
     take_slot sc lease
       (map_option fst (capacity_loop (st_load s sc)
          (effective_cap (if use_caps then Some (st_cap s sc) else None) default_cap) ids None)) s"

fun preview_loop ::
  "bool \<Rightarrow> bool \<Rightarrow> (string \<Rightarrow> int option) \<Rightarrow> (string \<Rightarrow> int) \<Rightarrow> string list \<Rightarrow>
   (string \<times> int) option \<Rightarrow> string option" where
  "preview_loop ignore_cap first_fit load cap [] best = map_option fst best"
| "preview_loop ignore_cap first_fit load cap (ident # ids) best =
     (case load ident of
        Some score \<Rightarrow>
          if ignore_cap \<or> score < cap ident then
            (if first_fit then Some ident
             else if best = None \<or> score < snd (the best)
             then preview_loop ignore_cap first_fit load cap ids (Some (ident, score))
             else preview_loop ignore_cap first_fit load cap ids best)
          else preview_loop ignore_cap first_fit load cap ids best
      | None \<Rightarrow> preview_loop ignore_cap first_fit load cap ids best)"

definition lua_preview ::
  "string \<Rightarrow> bool \<Rightarrow> string list \<Rightarrow> int \<Rightarrow> strategy \<Rightarrow> store \<Rightarrow> string option" where
  "lua_preview sc use_caps ids default_cap strat s =
     preview_loop (strat = LeastBusy) (strat = RoundRobin) (st_load s sc)
       (effective_cap (if use_caps then Some (st_cap s sc) else None) default_cap) ids None"

definition lua_release :: "string \<Rightarrow> string \<Rightarrow> store \<Rightarrow> store" where
  "lua_release sc ident s =
     (case st_load s sc ident of
        None \<Rightarrow> s
      | Some score \<Rightarrow> set_load sc ident (if score - 1 < 0 then 0 else score - 1) s)"

section \<open>Round-robin cursor\<close>

text \<open>
  \<open>le\<close> is the host's \<open>localeCompare\<close> as "not after"; \<open>up\<close> says whether the cursor can be read.
\<close>

definition cursor_rotate ::
  "(string \<Rightarrow> string \<Rightarrow> bool) \<Rightarrow> bool \<Rightarrow> string \<Rightarrow> string list \<Rightarrow> store \<Rightarrow> string list" where
  "cursor_rotate le up cursor_scope ids s =
     (if length ids \<le> 1 then ids
      else
        let sorted = sort_by le ids in
        if \<not> up then sorted
        else case st_cursor s cursor_scope of
          None \<Rightarrow> sorted
        | Some last_id \<Rightarrow>
            if last_id = [] then sorted
            else (case index_of last_id sorted of
                None \<Rightarrow> sorted
              | Some idx \<Rightarrow>
                  let nxt = (idx + 1) mod length sorted in drop nxt sorted @ take nxt sorted))"

definition cursor_advance :: "bool \<Rightarrow> string \<Rightarrow> string \<Rightarrow> store \<Rightarrow> store" where
  "cursor_advance up cursor_scope ident s =
     (if up then s\<lparr>st_cursor := (st_cursor s)(cursor_scope \<mapsto> ident)\<rparr> else s)"

section \<open>The reservation service\<close>

text \<open>Which of the commands of one call Redis answers.\<close>

record health =
  h_lease :: bool \<comment> \<open>GET, EXPIRE and DEL of the lease key\<close>
  h_eval :: bool
  h_cursor :: bool

definition all_up :: health where
  "all_up = \<lparr>h_lease = True, h_eval = True, h_cursor = True\<rparr>"

definition seed_one :: "string \<Rightarrow> (string \<times> int) \<Rightarrow> store \<Rightarrow> store" where
  "seed_one sc p s =
     (case st_load s sc (fst p) of
        Some _ \<Rightarrow> s | None \<Rightarrow> set_load sc (fst p) (max 0 (snd p)) s)"

definition cap_one :: "string \<Rightarrow> (string \<times> int) \<Rightarrow> store \<Rightarrow> store" where
  "cap_one sc p s =
     (if snd p > 0 then s\<lparr>st_cap := (st_cap s)(sc := (st_cap s sc)(fst p \<mapsto> snd p))\<rparr> else s)"

definition seed ::
  "bool \<Rightarrow> string \<Rightarrow> (string \<times> int) list \<Rightarrow> (string \<times> int) list \<Rightarrow> store \<Rightarrow> store" where
  "seed up sc loads caps s =
     (if loads = [] \<or> \<not> up then s else fold (cap_one sc) caps (fold (seed_one sc) loads s))"

definition scores :: "bool \<Rightarrow> string \<Rightarrow> string list \<Rightarrow> store \<Rightarrow> (string \<times> int) list" where
  "scores up sc ids s =
     map (\<lambda>ident. (ident, if up then default_to 0 (st_load s sc ident) else 0)) ids"

definition zset_release :: "health \<Rightarrow> string \<Rightarrow> string \<Rightarrow> string option \<Rightarrow> store \<Rightarrow> store" where
  "zset_release h sc ident cmd s =
     (if \<not> h_eval h then s
      else let s1 = lua_release sc ident s in
        case truthy_id cmd of
          Some k \<Rightarrow> if h_lease h then s1\<lparr>st_lease := (st_lease s1)(k := None)\<rparr> else s1
        | None \<Rightarrow> s1)"

text \<open>\<open>Number.isFinite(c) && c > 0 ? Math.floor(c) : 1\<close>\<close>

definition floor_capacity :: "jnum \<Rightarrow> int" where
  "floor_capacity c =
     (case c of Dec m k \<Rightarrow> if 0 < m then m div 10 ^ k else 1 | _ \<Rightarrow> 1)"

definition reservation_mode_of :: "registry option \<Rightarrow> strategy \<Rightarrow> reservation_mode" where
  "reservation_mode_of reg strat =
     (case (case reg of Some r \<Rightarrow> r strat | None \<Rightarrow> None) of
        Some p \<Rightarrow> pl_mode p
      | None \<Rightarrow> if strat = LeastBusy then LeastLoad
                else if strat = CapacityBased then CapacityLoad else FirstEligible)"

definition run_script ::
  "reservation_mode \<Rightarrow> string \<Rightarrow> bool \<Rightarrow> string option \<Rightarrow> string list \<Rightarrow> int \<Rightarrow> store \<Rightarrow>
   string option \<times> store" where
  "run_script mode sc use_caps lease ids cap s =
     (case mode of
        LeastLoad \<Rightarrow> lua_least_busy sc lease ids s
      | CapacityLoad \<Rightarrow> lua_capacity_based sc use_caps lease ids cap s
      | FirstEligible \<Rightarrow> lua_first_eligible sc use_caps lease ids cap s)"

definition zset_reserve ::
  "registry option \<Rightarrow> health \<Rightarrow> string \<Rightarrow> string \<Rightarrow> string option \<Rightarrow> string list \<Rightarrow> strategy \<Rightarrow>
   jnum \<Rightarrow> bool \<Rightarrow> store \<Rightarrow> (string, string option) result \<times> store" where
  "zset_reserve reg h sc cursor_scope cmd ids strat default_cap use_caps s =
     (if ids = [] then (Inr None, s)
      else
        let attempt = (\<lambda>s1.
            if \<not> h_eval h then (Inr None, s1)
            else
              let (picked, s2) = run_script (reservation_mode_of reg strat) sc use_caps
                    (truthy_id cmd) ids (floor_capacity default_cap) s1
              in (case picked of
                    None \<Rightarrow> (Inr None, s2)
                  | Some ident \<Rightarrow> (Inr (Some ident),
                      if ident = [] then s2 else cursor_advance (h_cursor h) cursor_scope ident s2)))
        in case truthy_id cmd of
             None \<Rightarrow> attempt s
           | Some k \<Rightarrow>
               if \<not> h_lease h then (Inl ''redis'', s)
               else case truthy_id (st_lease s k) of
                 None \<Rightarrow> attempt s
               | Some leased \<Rightarrow>
                   if leased \<in> set ids then (Inr (Some leased), s)
                   else attempt (zset_release h sc leased (Some k) s))"

definition zset_preview ::
  "bool \<Rightarrow> string \<Rightarrow> string list \<Rightarrow> strategy \<Rightarrow> jnum \<Rightarrow> bool \<Rightarrow> store \<Rightarrow> string option" where
  "zset_preview up sc ids strat default_cap use_caps s =
     (if ids = [] \<or> \<not> up then None
      else lua_preview sc use_caps ids (floor_capacity default_cap) strat s)"

definition complete_lease :: "bool \<Rightarrow> string option \<Rightarrow> store \<Rightarrow> (string, unit) result \<times> store" where
  "complete_lease up cmd s =
     (case truthy_id cmd of
        None \<Rightarrow> (Inr (), s)
      | Some k \<Rightarrow> if up then (Inr (), s\<lparr>st_lease := (st_lease s)(k := None)\<rparr>) else (Inl ''redis'', s))"

definition adjust_if_tracked :: "bool \<Rightarrow> string \<Rightarrow> string \<Rightarrow> int \<Rightarrow> store \<Rightarrow> bool \<times> store" where
  "adjust_if_tracked up sc ident delta s =
     (if ident = [] \<or> delta = 0 \<or> \<not> up then (False, s)
      else case st_load s sc ident of
        None \<Rightarrow> (False, s)
      | Some score \<Rightarrow>
          (True, set_load sc ident (if score + delta < 0 then 0 else score + delta) s))"

definition overwrite_one :: "string \<Rightarrow> (string \<times> int) \<Rightarrow> store \<Rightarrow> store" where
  "overwrite_one sc p s =
     (case st_load s sc (fst p) of None \<Rightarrow> s | Some _ \<Rightarrow> set_load sc (fst p) (max 0 (snd p)) s)"

definition overwrite_tracked :: "string \<Rightarrow> (string \<times> int) list \<Rightarrow> store \<Rightarrow> store" where
  "overwrite_tracked sc loads s = fold (overwrite_one sc) loads s"


section \<open>Lemmas: what the scripts pick\<close>

lemma first_eligible_loop_Some:
  "first_eligible_loop load cap ids = Some ident \<longleftrightarrow>
     (\<exists>pre post. ids = pre @ ident # post
        \<and> (\<exists>n. load ident = Some n \<and> n < cap ident)
        \<and> (\<forall>x \<in> set pre. \<forall>n. load x = Some n \<longrightarrow> cap x \<le> n))"
  (is "?L ids = _ \<longleftrightarrow> ?R ids")
proof (induction ids)
  case Nil
  then show ?case by simp
next
  case (Cons x ids)
  show ?case
  proof (cases "\<exists>n. load x = Some n \<and> n < cap x")
    case True
    then have "?L (x # ids) = Some x" by auto
    moreover have "?R (x # ids) \<longleftrightarrow> ident = x"
    proof
      assume "?R (x # ids)"
      with True show "ident = x" by (fastforce simp: Cons_eq_append_conv)
    next
      assume "ident = x"
      with True show "?R (x # ids)" by (intro exI[of _ "[]"] exI[of _ ids]) auto
    qed
    ultimately show ?thesis by auto
  next
    case False
    then have "?L (x # ids) = ?L ids" by (auto split: option.split)
    moreover have "?R (x # ids) \<longleftrightarrow> ?R ids"
    proof
      assume "?R (x # ids)"
      with False show "?R ids" by (force simp: Cons_eq_append_conv)
    next
      assume "?R ids"
      then obtain pre post where p: "ids = pre @ ident # post"
        "\<exists>n. load ident = Some n \<and> n < cap ident"
        "\<forall>x \<in> set pre. \<forall>n. load x = Some n \<longrightarrow> cap x \<le> n" by blast
      with False show "?R (x # ids)"
        by (intro exI[of _ "x # pre"] exI[of _ post]) (auto simp: not_less)
    qed
    ultimately show ?thesis using Cons.IH by simp
  qed
qed

lemma capacity_loop_eq_least:
  "capacity_loop load cap ids best =
     least_busy_loop load (filter (\<lambda>i. \<forall>n. load i = Some n \<longrightarrow> n < cap i) ids) best"
  by (induction ids arbitrary: best) (auto split: option.splits)

lemma least_busy_loop_Some:
  "least_busy_loop load ids best = Some (ident, n) \<Longrightarrow>
     (best = Some (ident, n) \<or> (ident \<in> set ids \<and> load ident = Some n))
     \<and> (\<forall>b bn. best = Some (b, bn) \<longrightarrow> n \<le> bn)
     \<and> (\<forall>x m. x \<in> set ids \<longrightarrow> load x = Some m \<longrightarrow> n \<le> m)"
proof (induction load ids best rule: least_busy_loop.induct)
  case (1 load best)
  then show ?case by auto
next
  case (2 load x ids best)
  show ?case
  proof (cases "load x")
    case None
    with 2 show ?thesis by auto
  next
    case (Some score)
    show ?thesis
    proof (cases best)
      case None
      with Some 2 show ?thesis by fastforce
    next
      case (Some p)
      obtain b bl where p: "p = (b, bl)" by fastforce
      show ?thesis
        using 2 Some p \<open>load x = Some score\<close> by (cases "score < bl") fastforce+
    qed
  qed
qed

lemma least_busy_loop_None:
  "least_busy_loop load ids best = None \<longleftrightarrow> best = None \<and> (\<forall>x \<in> set ids. load x = None)"
  by (induction load ids best rule: least_busy_loop.induct) (auto split: option.splits)

lemma preview_loop_first:
  "preview_loop False True load cap ids None = first_eligible_loop load cap ids"
  by (induction ids) (auto split: option.splits)

lemma preview_loop_least:
  "preview_loop True False load cap ids best = map_option fst (least_busy_loop load ids best)"
proof (induction load ids best rule: least_busy_loop.induct)
  case (2 load x ids best)
  then show ?case by (cases best) (auto split: option.splits)
qed simp

lemma preview_loop_capacity:
  "preview_loop False False load cap ids best = map_option fst (capacity_loop load cap ids best)"
  by (induction ids arbitrary: best) (auto split: option.splits)

lemma capacity_loop_Some:
  assumes "capacity_loop load cap ids None = Some (ident, n)"
  shows "ident \<in> set ids \<and> load ident = Some n \<and> n < cap ident
    \<and> (\<forall>x m. x \<in> set ids \<longrightarrow> load x = Some m \<longrightarrow> m < cap x \<longrightarrow> n \<le> m)"
  using least_busy_loop_Some[OF assms[unfolded capacity_loop_eq_least]] by auto

section \<open>Lemmas: effect on the store\<close>

lemma set_load_lookup [simp]:
  "st_load (set_load sc i n s) sc' i' = (if sc' = sc \<and> i' = i then Some n else st_load s sc' i')"
  "st_lease (set_load sc i n s) = st_lease s"
  "st_cap (set_load sc i n s) = st_cap s"
  "st_cursor (set_load sc i n s) = st_cursor s"
  by (auto simp: set_load_def)

lemma incr_load_lookup [simp]:
  "st_load (incr_load sc i s) sc' i' =
     (if sc' = sc \<and> i' = i then Some (default_to 0 (st_load s sc i) + 1) else st_load s sc' i')"
  "st_lease (incr_load sc i s) = st_lease s"
  by (auto simp: incr_load_def)

lemma set_lease_lookup [simp]:
  "st_load (set_lease cmd i s) = st_load s"
  "st_cursor (set_lease cmd i s) = st_cursor s"
  "st_lease (set_lease cmd i s) k = (if cmd = Some k then Some i else st_lease s k)"
  by (auto simp: set_lease_def split: option.split)

lemma cursor_advance_lookup [simp]:
  "st_load (cursor_advance up cs i s) = st_load s"
  "st_lease (cursor_advance up cs i s) = st_lease s"
  "st_cap (cursor_advance up cs i s) = st_cap s"
  by (auto simp: cursor_advance_def)

lemma truthy_id_Some: "truthy_id v = Some k \<longleftrightarrow> v = Some k \<and> k \<noteq> []"
  by (auto simp: truthy_id_def split: option.splits)

lemma run_script_picks:
  assumes "run_script mode sc uc lease ids cap s = (Some ident, s')"
  shows "ident \<in> set ids \<and> (\<exists>n. st_load s sc ident = Some n)
    \<and> s' = set_lease lease ident (incr_load sc ident s)"
  using assms
  by (cases mode)
    (auto simp: run_script_def lua_first_eligible_def lua_least_busy_def lua_capacity_based_def
      take_slot_def first_eligible_loop_Some
      dest!: capacity_loop_Some least_busy_loop_Some split: option.splits)

lemma run_script_none: "run_script mode sc uc lease ids cap s = (None, s') \<Longrightarrow> s' = s"
  by (cases mode)
    (auto simp: run_script_def lua_first_eligible_def lua_least_busy_def lua_capacity_based_def
      take_slot_def split: option.splits)

lemma zset_reserve_fresh:
  assumes "zset_reserve reg all_up sc cs cmd ids strat cap uc s = (Inr r, s')"
    and "\<forall>k. truthy_id cmd = Some k \<longrightarrow> st_lease s k = None"
  shows "case r of None \<Rightarrow> s' = s
    | Some ident \<Rightarrow> ident \<in> set ids \<and> st_load s' = st_load (incr_load sc ident s)
        \<and> (\<forall>k. truthy_id cmd = Some k \<longrightarrow> st_lease s' k = Some ident)
        \<and> (\<forall>k. truthy_id cmd \<noteq> Some k \<longrightarrow> st_lease s' k = st_lease s k)"
proof (cases "ids = []")
  case True
  with assms show ?thesis by (auto simp: zset_reserve_def)
next
  case False
  let ?run = "run_script (reservation_mode_of reg strat) sc uc (truthy_id cmd) ids (floor_capacity cap) s"
  obtain picked s2 where run: "?run = (picked, s2)" by fastforce
  have eq: "(Inr r, s') = (case picked of None \<Rightarrow> (Inr None, s2)
      | Some ident \<Rightarrow> (Inr (Some ident), if ident = [] then s2 else cursor_advance True cs ident s2))"
    using assms False run
    by (auto simp: zset_reserve_def all_up_def Let_def truthy_id_def split: option.splits)
  show ?thesis
  proof (cases picked)
    case None
    with eq run run_script_none show ?thesis by fastforce
  next
    case (Some ident)
    with run run_script_picks have p: "ident \<in> set ids"
      "s2 = set_lease (truthy_id cmd) ident (incr_load sc ident s)" by blast+
    from eq Some have "r = Some ident"
      "s' = (if ident = [] then s2 else cursor_advance True cs ident s2)" by auto
    with p show ?thesis by auto
  qed
qed

lemma lua_release_load:
  "st_load (lua_release sc i s) sc' i' =
     (if sc' = sc \<and> i' = i then map_option (\<lambda>n. max 0 (n - 1)) (st_load s sc i)
      else st_load s sc' i')"
  "st_lease (lua_release sc i s) = st_lease s"
  by (auto simp: lua_release_def split: option.split)

lemma zset_release_load:
  "h_eval h \<Longrightarrow> st_load (zset_release h sc i cmd s) = st_load (lua_release sc i s)"
  by (auto simp: zset_release_def Let_def split: option.split)

lemma zset_release_lease:
  "h_eval h \<Longrightarrow> h_lease h \<Longrightarrow>
     st_lease (zset_release h sc i cmd s) k = (if truthy_id cmd = Some k then None else st_lease s k)"
  by (auto simp: zset_release_def Let_def lua_release_load split: option.split)

end
