(* ===== verification/Assignment_Core.thy ===== *)
theory Assignment_Core
  imports Assignment_Reservation
begin

text \<open>
  The assignment decision pipeline (\<open>src/src/assignment/core/assignment-core.service.ts\<close>)
  over the ports of \<open>core/ports.ts\<close>. The ports are arguments: a record of actions on an
  outside world \<open>'w\<close>, each of which may change the world and may throw. The state of the
  service is that world and the trail of audit writes. Human-readable reason texts are the
  constructors of \<open>reason\<close>, with the values the texts are built from. The candidate a port
  answers is a non-empty id, so the code's test \<open>if (!reserved)\<close> is a test for \<open>None\<close>.
\<close>

section \<open>Actions\<close>

type_synonym ('w, 'a) action = "'w \<Rightarrow> (string, 'a) result \<times> 'w"

definition ret :: "'a \<Rightarrow> ('w, 'a) action" where
  "ret a = (\<lambda>w. (Inr a, w))"

definition throw :: "string \<Rightarrow> ('w, 'a) action" where
  "throw e = (\<lambda>w. (Inl e, w))"

definition bind_act :: "('w, 'a) action \<Rightarrow> ('a \<Rightarrow> ('w, 'b) action) \<Rightarrow> ('w, 'b) action" where
  "bind_act m f = (\<lambda>w. case m w of (Inl e, w') \<Rightarrow> (Inl e, w') | (Inr a, w') \<Rightarrow> f a w')"

definition catch_act :: "('w, 'a) action \<Rightarrow> (string \<Rightarrow> ('w, 'a) action) \<Rightarrow> ('w, 'a) action" where
  "catch_act m h = (\<lambda>w. case m w of (Inl e, w') \<Rightarrow> h e w' | (Inr a, w') \<Rightarrow> (Inr a, w'))"

text \<open>An optional best-effort call: skipped when absent, its error logged and dropped.\<close>

definition best_effort :: "('w, unit) action option \<Rightarrow> ('w, unit) action" where
  "best_effort m = (case m of None \<Rightarrow> ret () | Some a \<Rightarrow> catch_act a (\<lambda>_. ret ()))"

section \<open>Scope, request, decision\<close>

record scope =
  sco_tenant :: string
  sco_type :: object_type
  sco_entity :: "string option"
  sco_scope :: "string option"
  sco_group :: "string option"
  sco_command :: "string option"
  sco_priority :: int
  sco_due :: "int option"
  sco_weight :: jnum

record 'w adapter =
  ad_base_pool :: "scope \<Rightarrow> ('w, string list option) action"
  ad_members :: "scope \<Rightarrow> string list \<Rightarrow> ('w, string list) action"
  ad_may_serve :: "(scope \<Rightarrow> string \<Rightarrow> ('w, bool) action) option"
  ad_skills :: "scope \<Rightarrow> string list \<Rightarrow> ('w, (string \<times> string list) list) action"
  ad_available :: "(scope \<Rightarrow> string list \<Rightarrow> bool \<Rightarrow> ('w, string list) action) option"
  ad_loads :: "scope \<Rightarrow> string list \<Rightarrow> ('w, (string \<times> int) list) action"
  ad_reserve :: "scope \<Rightarrow> string list \<Rightarrow> strategy \<Rightarrow> jnum \<Rightarrow> ('w, string option) action"
  ad_release :: "scope \<Rightarrow> string \<Rightarrow> ('w, unit) action"
  ad_load_complete :: "(scope \<Rightarrow> string \<Rightarrow> ('w, unit) action) option"
  ad_preview :: "(scope \<Rightarrow> string list \<Rightarrow> strategy \<Rightarrow> jnum \<Rightarrow> ('w, string option) action) option"
  ad_rotate :: "(scope \<Rightarrow> string list \<Rightarrow> ('w, string list) action) option"
  ad_commit :: "scope \<Rightarrow> string \<Rightarrow> string option \<Rightarrow> ('w, bool) action"
  ad_park :: "(scope \<Rightarrow> string \<Rightarrow> ('w, unit) action) option"
  ad_commit_complete :: "(scope \<Rightarrow> ('w, unit) action) option"

datatype outcome = Assigned | Offered | Queued | Deferred | Skipped | Failed

datatype reason_key =
    KAssigned | KOffered | KManualOverride | KPreferredAssignee | KPreferredWait
  | KFallbackOwner | KAllAtCapacity | KEmptyPool | KAutoAssignDisabled | KManualStrategy
  | KGroupNotEligible | KCommitRaceLost | KBypassed

datatype reason =
    RBypassed
  | RNoAdapter object_type
  | RManualOverride
  | RAutoAssignOff object_type
  | RManualStrategy
  | RUnroutable string "string list"
  | REmptyPool
  | RNoSkill
  | RAllOffline
  | RNoneAvailable
  | RWouldAssign strategy
  | RDryAllAtCapacity
  | RPreferredBusy string jnum
  | RPreferredRaceLost
  | RPreferred "string option"
  | RAllAtCapacity strategy
  | RRaceLost string
  | RRuleMatched string strategy
  | RDefaultAssign strategy
  | RWithFallback reason
  | RDirectRaceLost reason

datatype on_busy = OnBusyWait | OnBusyFallThrough

record preferred =
  pf_id :: string
  pf_on_busy :: on_busy
  pf_source :: "string option"

datatype commit_outcome = CommitAssigned | CommitOffered

record 'w request =
  rq_tenant :: string
  rq_type :: object_type
  rq_entity :: "string option"
  rq_command :: "string option"
  rq_scope :: "string option"
  rq_attrs :: bag
  rq_manual :: "string option"
  rq_previous :: "string option"
  rq_bypass :: bool
  rq_strategy :: "strategy option"
  rq_target_groups :: "string list option"
  rq_target_user :: "string option"
  rq_skills :: "string list"
  rq_owning :: "string option"
  rq_restrict :: "string list option"
  rq_exclude :: "string list"
  rq_preferred :: "preferred option"
  rq_skip_rules :: bool
  rq_override :: "config_override option"
  rq_commit :: "(string \<Rightarrow> string option \<Rightarrow> ('w, bool) action) option"
  rq_outcome :: "commit_outcome option"
  rq_dry :: bool
  rq_explain :: bool
  rq_source :: "string option"
  rq_workflow :: "string option"
  rq_performer :: "string option"
  rq_channel :: "string option"
  rq_metadata :: bag

record decision =
  d_outcome :: outcome
  d_assignee :: "string option"
  d_group :: "string option"
  d_strategy :: string
  d_key :: reason_key
  d_reason :: reason
  d_params :: "bag option"
  d_rule :: "(string \<times> string) option"
  d_pool :: nat
  d_eligible :: nat
  d_policy :: jsval
  d_deferred :: "(string \<times> jnum) option"
  d_traces :: "rule_trace list option"

record audit_entry =
  ae_tenant :: string
  ae_type :: object_type
  ae_entity :: string
  ae_assignee :: "string option"
  ae_previous :: "string option"
  ae_group :: "string option"
  ae_rule :: "(string \<times> string) option"
  ae_strategy :: string
  ae_outcome :: outcome
  ae_reason :: reason
  ae_key :: reason_key
  ae_params :: "bag option"
  ae_source :: string
  ae_workflow :: "string option"
  ae_performer :: "string option"
  ae_channel :: "string option"
  ae_pool :: nat
  ae_eligible :: nat
  ae_metadata :: bag

record 'w cstate =
  cs_world :: 'w
  cs_trail :: "audit_entry list"

record 'w services =
  sv_adapters :: "object_type \<Rightarrow> 'w adapter option"
  sv_config :: "string \<Rightarrow> object_type \<Rightarrow> config_override option \<Rightarrow> ('w, aconfig) action"
  sv_rules :: "string \<Rightarrow> object_type \<Rightarrow> bag \<Rightarrow> bool \<Rightarrow>
     ('w, rule_match option \<times> rule_trace list \<times> arule list) action"
  sv_capture :: "(string \<Rightarrow> object_type \<Rightarrow> aconfig \<Rightarrow> arule list \<Rightarrow> ('w, string) action) option"
  sv_registry :: "registry option"
  sv_parse_date :: "jsval \<Rightarrow> int option" \<comment> \<open>\<open>new Date(raw)\<close>, \<open>None\<close> when invalid\<close>

definition lift_act :: "('w, 'a) action \<Rightarrow> ('w cstate, 'a) action" where
  "lift_act p = (\<lambda>s. case p (cs_world s) of (r, w) \<Rightarrow> (r, s\<lparr>cs_world := w\<rparr>))"

section \<open>Derived scope fields\<close>

definition queue_priority :: "bag \<Rightarrow> int" where
  "queue_priority attrs =
     (let raw = bag_get attrs ''priority'';
          named = [(''urgent'', 100), (''critical'', 100), (''high'', 75), (''normal'', 50),
                   (''medium'', 50), (''low'', 25)];
          text = to_lower (if nullish raw then [] else js_string raw)
      in case raw of
           JNum (Dec m k) \<Rightarrow> max 0 (min 100 (m div 10 ^ k))
         | _ \<Rightarrow> default_to 50 (map_of named text))"

definition sla_due_at :: "(jsval \<Rightarrow> int option) \<Rightarrow> bag \<Rightarrow> int option" where
  "sla_due_at parse attrs =
     (let a = bag_get attrs ''slaDueAt'';
          raw = (if nullish a then bag_get attrs ''dueAt'' else a)
      in if \<not> truthy raw then None else parse raw)"

fun js_number :: "jsval \<Rightarrow> jnum" where
  "js_number JUndef = NaN"
| "js_number JNull = Dec 0 0"
| "js_number (JBool b) = Dec (if b then 1 else 0) 0"
| "js_number (JNum n) = n"
| "js_number (JDate t txt) = Dec t 0"
| "js_number v = to_number (js_string v)"

definition workload_weight :: "bag \<Rightarrow> jnum" where
  "workload_weight attrs =
     (let v = bag_get attrs ''capacityWeight'';
          raw = js_number (if nullish v then JNum (Dec 1 0) else v)
      in if is_finite_num raw \<and> num_le (Dec 1 1) raw then raw else Dec 1 0)"

definition request_scope :: "(jsval \<Rightarrow> int option) \<Rightarrow> 'w request \<Rightarrow> scope" where
  "request_scope parse rq =
     \<lparr>sco_tenant = rq_tenant rq, sco_type = rq_type rq, sco_entity = rq_entity rq,
      sco_scope = rq_scope rq, sco_group = None, sco_command = rq_command rq,
      sco_priority = queue_priority (rq_attrs rq), sco_due = sla_due_at parse (rq_attrs rq),
      sco_weight = workload_weight (rq_attrs rq)\<rparr>"

section \<open>Audit\<close>

definition bag_put :: "string \<Rightarrow> jsval \<Rightarrow> bag \<Rightarrow> bag" where
  "bag_put k v b = (if k \<in> fst ` set b then map (\<lambda>p. if fst p = k then (k, v) else p) b
                    else b @ [(k, v)])"

definition opt_js :: "string option \<Rightarrow> jsval" where
  "opt_js v = (case v of None \<Rightarrow> JNull | Some s \<Rightarrow> JStr s)"

definition audit_entry_of :: "'w request \<Rightarrow> decision \<Rightarrow> audit_entry" where
  "audit_entry_of rq d =
     \<lparr>ae_tenant = rq_tenant rq, ae_type = rq_type rq,
      ae_entity = default_to ''pre-create'' (rq_entity rq), ae_assignee = d_assignee d,
      ae_previous = rq_previous rq, ae_group = d_group d, ae_rule = d_rule d,
      ae_strategy = d_strategy d, ae_outcome = d_outcome d, ae_reason = d_reason d,
      ae_key = d_key d, ae_params = d_params d,
      ae_source = default_to ''system'' (rq_source rq), ae_workflow = rq_workflow rq,
      ae_performer = rq_performer rq, ae_channel = rq_channel rq,
      ae_pool = d_pool d, ae_eligible = d_eligible d,
      ae_metadata = fold (\<lambda>(k, v). bag_put k v) (rq_metadata rq)
        [(''scopeId'', opt_js (rq_scope rq)), (''commandId'', opt_js (rq_command rq))]\<rparr>"

definition finish :: "'w request \<Rightarrow> decision \<Rightarrow> ('w cstate, decision) action" where
  "finish rq d0 =
     (let pv = bag_get (rq_metadata rq) ''policyVersionId'';
          d = d0\<lparr>d_policy := (if nullish pv then JNull else pv)\<rparr>
      in (\<lambda>s. if rq_dry rq then (Inr d, s)
             else (Inr d, s\<lparr>cs_trail := cs_trail s @ [audit_entry_of rq d]\<rparr>)))"

definition plain_decision ::
  "outcome \<Rightarrow> string option \<Rightarrow> string option \<Rightarrow> string \<Rightarrow> reason_key \<Rightarrow> reason \<Rightarrow>
   (string \<times> string) option \<Rightarrow> nat \<Rightarrow> nat \<Rightarrow> rule_trace list option \<Rightarrow> decision" where
  "plain_decision oc who grp strat key why rule pool elig traces =
     \<lparr>d_outcome = oc, d_assignee = who, d_group = grp, d_strategy = strat, d_key = key,
      d_reason = why, d_params = None, d_rule = rule, d_pool = pool, d_eligible = elig,
      d_policy = JNull, d_deferred = None, d_traces = traces\<rparr>"

section \<open>Commit and release\<close>

definition commit_call ::
  "'w request \<Rightarrow> scope \<Rightarrow> 'w adapter \<Rightarrow> string \<Rightarrow> string option \<Rightarrow> ('w, bool) action" where
  "commit_call rq sc ad who grp =
     (case rq_commit rq of Some f \<Rightarrow> f who grp | None \<Rightarrow> ad_commit ad sc who grp)"

definition commit_reserved ::
  "'w request \<Rightarrow> scope \<Rightarrow> 'w adapter \<Rightarrow> string \<Rightarrow> string option \<Rightarrow> ('w, bool) action" where
  "commit_reserved rq sc ad who grp =
     catch_act
       (bind_act (commit_call rq sc ad who grp) (\<lambda>ok.
          if \<not> ok then bind_act (ad_release ad sc who) (\<lambda>_. ret False)
          else
            bind_act (best_effort (map_option (\<lambda>f. f sc) (ad_commit_complete ad))) (\<lambda>_.
            bind_act (best_effort (map_option (\<lambda>f. f sc who) (ad_load_complete ad))) (\<lambda>_.
            ret True))))
       (\<lambda>e. bind_act (ad_release ad sc who) (\<lambda>_. throw e))"

definition max_safe_integer :: jnum where
  "max_safe_integer = Dec 9007199254740991 0"

definition commit_direct ::
  "'w request \<Rightarrow> scope \<Rightarrow> 'w adapter \<Rightarrow> string \<Rightarrow> string option \<Rightarrow> string \<Rightarrow> reason_key \<Rightarrow>
   reason \<Rightarrow> ('w cstate, decision) action" where
  "commit_direct rq sc ad who grp strat key why =
     (if rq_dry rq then finish rq (plain_decision Assigned (Some who) grp strat key why None 1 1 None)
      else
        bind_act (lift_act (ad_reserve ad sc [who] LeastBusy max_safe_integer)) (\<lambda>_.
        bind_act (lift_act (commit_reserved rq sc ad who grp)) (\<lambda>committed.
          if \<not> committed
          then finish rq (plain_decision Queued None grp strat KCommitRaceLost
                 (RDirectRaceLost why) None 1 1 None)
          else finish rq (plain_decision Assigned (Some who) grp strat key why None 1 1 None))))"

section \<open>Queueing\<close>

definition park :: "'w adapter \<Rightarrow> scope \<Rightarrow> string \<Rightarrow> ('w, unit) action" where
  "park ad sc grp = best_effort (map_option (\<lambda>f. f sc grp) (ad_park ad))"

definition try_fallback ::
  "'w request \<Rightarrow> scope \<Rightarrow> 'w adapter \<Rightarrow> aconfig \<Rightarrow> string option \<Rightarrow> reason \<Rightarrow>
   ('w cstate, decision option) action" where
  "try_fallback rq sc ad cfg grp why =
     (case truthy_id (cfg_fallback_owner cfg) of
        None \<Rightarrow> ret None
      | Some owner \<Rightarrow>
          if rq_dry rq then ret None
          else catch_act
            (bind_act (commit_direct rq sc ad owner grp ''fallback'' KFallbackOwner (RWithFallback why))
               (\<lambda>d. ret (if d_outcome d = Assigned then Some d else None)))
            (\<lambda>_. ret None))"

definition queue_or_fallback ::
  "'w request \<Rightarrow> scope \<Rightarrow> 'w adapter \<Rightarrow> aconfig \<Rightarrow> string \<Rightarrow> (string \<times> string) option \<Rightarrow>
   string option \<Rightarrow> reason_key \<Rightarrow> reason \<Rightarrow> nat \<Rightarrow> nat \<Rightarrow> rule_trace list option \<Rightarrow>
   ('w cstate, decision) action" where
  "queue_or_fallback rq sc ad cfg strat rule grp key why pool elig traces =
     bind_act (try_fallback rq sc ad cfg grp why) (\<lambda>fb.
       case fb of
         Some d \<Rightarrow> ret d
       | None \<Rightarrow>
           bind_act (case truthy_id grp of
                       Some g \<Rightarrow> if rq_dry rq then ret () else lift_act (park ad sc g)
                     | None \<Rightarrow> ret ()) (\<lambda>_.
           finish rq (plain_decision Queued None grp strat key why rule pool elig traces)))"

section \<open>Target resolution\<close>

record target =
  tg_candidates :: "string list"
  tg_owner :: "string option"
  tg_pool :: nat

definition narrow :: "string list option \<Rightarrow> string list \<Rightarrow> string list" where
  "narrow base xs = (case base of Some b \<Rightarrow> intersect xs b | None \<Rightarrow> xs)"

text \<open>The escalation chain; \<open>None\<close> is the sentinel UNROUTABLE.\<close>

fun chain_loop ::
  "'w adapter \<Rightarrow> scope \<Rightarrow> string list option \<Rightarrow> string list \<Rightarrow> string option \<Rightarrow> nat \<Rightarrow>
   ('w, target option) action" where
  "chain_loop ad sc base [] first widest =
     ret (case first of
            Some g \<Rightarrow> Some \<lparr>tg_candidates = [], tg_owner = Some g, tg_pool = widest\<rparr>
          | None \<Rightarrow> None)"
| "chain_loop ad sc base (g # gs) first widest =
     bind_act (case ad_may_serve ad of None \<Rightarrow> ret True | Some f \<Rightarrow> f sc g) (\<lambda>may.
       if \<not> may then chain_loop ad sc base gs first widest
       else
         bind_act (ad_members ad sc [g]) (\<lambda>members.
           let first' = or_else first (Some g);
               widest' = max widest (length members);
               candidates = narrow base members
           in if candidates \<noteq> [] then
                ret (Some \<lparr>tg_candidates = candidates, tg_owner = Some g, tg_pool = length members\<rparr>)
              else chain_loop ad sc base gs first' widest'))"

definition resolve_target ::
  "'w adapter \<Rightarrow> scope \<Rightarrow> rule_match option \<Rightarrow> string list option \<Rightarrow> string option \<Rightarrow>
   ('w, target option) action" where
  "resolve_target ad sc tgt base default_group =
     (case truthy_id (case tgt of Some m \<Rightarrow> rm_user m | None \<Rightarrow> None) of
        Some u \<Rightarrow>
          ret (Some \<lparr>tg_candidates = narrow base [u],
                     tg_owner = or_else (first_of (case tgt of Some m \<Rightarrow> rm_groups m | None \<Rightarrow> []))
                       default_group,
                     tg_pool = 1\<rparr>)
      | None \<Rightarrow>
          (let chain = (case tgt of Some m \<Rightarrow> rm_groups m | None \<Rightarrow> []) in
           if chain = [] then
             (case base of
                None \<Rightarrow>
                  (case truthy_id default_group of
                     None \<Rightarrow> ret (Some \<lparr>tg_candidates = [], tg_owner = None, tg_pool = 0\<rparr>)
                   | Some g \<Rightarrow>
                       bind_act (ad_members ad sc [g]) (\<lambda>members.
                         ret (Some \<lparr>tg_candidates = members, tg_owner = Some g,
                                    tg_pool = length members\<rparr>)))
              | Some b \<Rightarrow>
                  ret (Some \<lparr>tg_candidates = b, tg_owner = default_group, tg_pool = length b\<rparr>))
           else chain_loop ad sc base chain None 0))"


section \<open>Filtering and ordering\<close>

definition holds_skills :: "(string \<times> string list) list \<Rightarrow> string list \<Rightarrow> string \<Rightarrow> bool" where
  "holds_skills skill_map needles ident =
     (let owned = map to_lower (default_to [] (map_of skill_map ident)) in
      list_all (\<lambda>n. n \<in> set owned) needles)"

definition filter_by_skills ::
  "'w adapter \<Rightarrow> scope \<Rightarrow> string list \<Rightarrow> string list \<Rightarrow> bool \<Rightarrow> skill_fallback \<Rightarrow>
   ('w, string list) action" where
  "filter_by_skills ad sc candidates required enabled mode =
     (if \<not> enabled \<or> required = [] then ret candidates
      else bind_act (ad_skills ad sc candidates) (\<lambda>skill_map.
        let skilled = filter (holds_skills skill_map (map to_lower required)) candidates in
        ret (if skilled = [] then (if mode = Strict then [] else candidates) else skilled)))"

definition plugin_of :: "registry option \<Rightarrow> strategy \<Rightarrow> plugin option" where
  "plugin_of reg strat = (case reg of Some r \<Rightarrow> r strat | None \<Rightarrow> None)"

definition order_candidates ::
  "registry option \<Rightarrow> 'w adapter \<Rightarrow> scope \<Rightarrow> string list \<Rightarrow> strategy \<Rightarrow> ('w, string list) action" where
  "order_candidates reg ad sc candidates strat =
     (if \<not> (case plugin_of reg strat of Some p \<Rightarrow> pl_rotate p | None \<Rightarrow> strat = RoundRobin)
      then ret candidates
      else case ad_rotate ad of None \<Rightarrow> ret candidates | Some f \<Rightarrow> f sc candidates)"

definition preview_selection ::
  "registry option \<Rightarrow> 'w adapter \<Rightarrow> scope \<Rightarrow> string list \<Rightarrow> strategy \<Rightarrow> aconfig \<Rightarrow>
   ('w, string option) action" where
  "preview_selection reg ad sc candidates strat cfg =
     bind_act (order_candidates reg ad sc candidates strat) (\<lambda>ordered.
       case ad_preview ad of
         Some f \<Rightarrow> f sc ordered strat (cfg_capacity cfg)
       | None \<Rightarrow>
           bind_act (ad_loads ad sc candidates) (\<lambda>loads.
             let load = (\<lambda>i. default_to 0 (map_of loads i));
                 by_load = (\<lambda>ids. first_of (sort_by (\<lambda>a b. load a \<le> load b) ids));
                 under = filter (\<lambda>i. num_less (Dec (load i) 0) (cfg_capacity cfg)) candidates
             in ret (if (case plugin_of reg strat of Some p \<Rightarrow> pl_ordered p
                                                   | None \<Rightarrow> strat \<noteq> RoundRobin)
                     then by_load (if (case plugin_of reg strat of Some p \<Rightarrow> pl_enforce p
                                                                 | None \<Rightarrow> strat = CapacityBased)
                                   then under else candidates)
                     else List.find (\<lambda>i. i \<in> set under) ordered)))"

section \<open>Preferred assignee\<close>

definition commit_outcome_of :: "'w request \<Rightarrow> outcome" where
  "commit_outcome_of rq =
     (case default_to CommitAssigned (rq_outcome rq) of
        CommitAssigned \<Rightarrow> Assigned | CommitOffered \<Rightarrow> Offered)"

definition try_preferred ::
  "'w request \<Rightarrow> scope \<Rightarrow> 'w adapter \<Rightarrow> aconfig \<Rightarrow> string list \<Rightarrow> target \<Rightarrow>
   (string \<times> string) option \<Rightarrow> rule_trace list option \<Rightarrow> preferred \<Rightarrow>
   ('w cstate, decision option) action" where
  "try_preferred rq sc ad cfg eligible tgt rule traces pf =
     (if pf_id pf \<notin> set eligible then ret None
      else
        bind_act (lift_act (ad_reserve ad sc [pf_id pf] CapacityBased (cfg_capacity cfg))) (\<lambda>reserved.
        case reserved of
          None \<Rightarrow>
            (let wait = cfg_wait_minutes cfg in
             if pf_on_busy pf = OnBusyWait \<and> num_less (Dec 0 0) wait then
               bind_act (finish rq
                 ((plain_decision Deferred None (tg_owner tgt) ''preferred'' KPreferredWait
                     (RPreferredBusy (pf_id pf) wait) rule (tg_pool tgt) (length eligible) traces)
                   \<lparr>d_params := Some [(''minutes'', JNum wait)], d_deferred := Some (pf_id pf, wait)\<rparr>))
                 (\<lambda>d. ret (Some d))
             else ret None)
        | Some who \<Rightarrow>
            bind_act (lift_act (commit_reserved rq sc ad who (tg_owner tgt))) (\<lambda>committed.
              if \<not> committed then
                bind_act (finish rq (plain_decision Queued None (tg_owner tgt) ''preferred''
                    KCommitRaceLost RPreferredRaceLost rule (tg_pool tgt) (length eligible) traces))
                  (\<lambda>d. ret (Some d))
              else
                let oc = commit_outcome_of rq; src = truthy_id (pf_source pf) in
                bind_act (finish rq
                  ((plain_decision oc (Some who) (tg_owner tgt) ''preferred''
                      (if oc = Offered then KOffered else KPreferredAssignee)
                      (RPreferred src) rule (tg_pool tgt) (length eligible) traces)
                    \<lparr>d_params := map_option (\<lambda>x. [(''source'', JStr x)]) src\<rparr>))
                  (\<lambda>d. ret (Some d)))))"

section \<open>The pipeline\<close>

text \<open>Reserve, commit, and release on failure (after the eligible pool is known).\<close>

definition reserve_and_commit ::
  "'w request \<Rightarrow> scope \<Rightarrow> 'w adapter \<Rightarrow> registry option \<Rightarrow> aconfig \<Rightarrow> string list \<Rightarrow> target \<Rightarrow>
   (string \<times> string) option \<Rightarrow> strategy \<Rightarrow> rule_trace list option \<Rightarrow>
   ('w cstate, decision) action" where
  "reserve_and_commit rq sc ad reg cfg eligible tgt rule strat traces =
     bind_act (lift_act (order_candidates reg ad sc eligible strat)) (\<lambda>ordered.
     bind_act (lift_act (ad_reserve ad sc ordered strat (cfg_capacity cfg))) (\<lambda>reserved.
     case reserved of
       None \<Rightarrow>
         queue_or_fallback rq sc ad cfg (strategy_name strat) rule (tg_owner tgt) KAllAtCapacity
           (RAllAtCapacity strat) (tg_pool tgt) (length eligible) traces
     | Some who \<Rightarrow>
         bind_act (lift_act (commit_reserved rq sc ad who (tg_owner tgt))) (\<lambda>committed.
           if \<not> committed then
             queue_or_fallback rq sc ad cfg (strategy_name strat) rule (tg_owner tgt)
               KCommitRaceLost (RRaceLost who) (tg_pool tgt) (length eligible) traces
           else
             finish rq (plain_decision (commit_outcome_of rq) (Some who) (tg_owner tgt)
               (strategy_name strat) (if commit_outcome_of rq = Offered then KOffered else KAssigned)
               (case rule of Some (i, n) \<Rightarrow> RRuleMatched n strat | None \<Rightarrow> RDefaultAssign strat)
               rule (tg_pool tgt) (length eligible) traces))))"

text \<open>Availability, the dry run and the preferred assignee.\<close>

definition decide_eligible ::
  "'w request \<Rightarrow> scope \<Rightarrow> 'w adapter \<Rightarrow> registry option \<Rightarrow> aconfig \<Rightarrow> string list \<Rightarrow> target \<Rightarrow>
   (string \<times> string) option \<Rightarrow> strategy \<Rightarrow> rule_trace list option \<Rightarrow>
   ('w cstate, decision) action" where
  "decide_eligible rq sc ad reg cfg skilled tgt rule strat traces =
     bind_act (case ad_available ad of
                 Some f \<Rightarrow> lift_act (f sc skilled (cfg_online cfg)) | None \<Rightarrow> ret skilled) (\<lambda>eligible.
     if eligible = [] then
       queue_or_fallback rq sc ad cfg (strategy_name strat) rule (tg_owner tgt) KEmptyPool
         (if cfg_online cfg then RAllOffline else RNoneAvailable) (tg_pool tgt) 0 traces
     else if rq_dry rq then
       bind_act (lift_act (preview_selection reg ad sc eligible strat cfg)) (\<lambda>pv.
         finish rq (plain_decision (if pv \<noteq> None then Assigned else Queued) pv (tg_owner tgt)
           (strategy_name strat) (if pv \<noteq> None then KAssigned else KAllAtCapacity)
           (if pv \<noteq> None then RWouldAssign strat else RDryAllAtCapacity) rule (tg_pool tgt)
           (length eligible) traces))
     else
       (case (if cfg_prefer_previous cfg then rq_preferred rq else None) of
          Some pf \<Rightarrow>
            bind_act (try_preferred rq sc ad cfg eligible tgt rule traces pf) (\<lambda>r.
              case r of
                Some d \<Rightarrow> ret d
              | None \<Rightarrow> reserve_and_commit rq sc ad reg cfg eligible tgt rule (cfg_sticky cfg) traces)
        | None \<Rightarrow> reserve_and_commit rq sc ad reg cfg eligible tgt rule strat traces))"

text \<open>The pool, the target and the skills.\<close>

definition restrict_pool :: "string list option \<Rightarrow> string list option \<Rightarrow> string list option" where
  "restrict_pool restrict adapter_pool =
     (case restrict of
        None \<Rightarrow> adapter_pool
      | Some r \<Rightarrow> (case adapter_pool of None \<Rightarrow> Some r | Some p \<Rightarrow> Some (intersect p r)))"

definition decide_target ::
  "'w request \<Rightarrow> scope \<Rightarrow> 'w adapter \<Rightarrow> registry option \<Rightarrow> aconfig \<Rightarrow> rule_match option \<Rightarrow>
   (string \<times> string) option \<Rightarrow> strategy \<Rightarrow> string list \<Rightarrow> rule_trace list option \<Rightarrow>
   ('w cstate, decision) action" where
  "decide_target rq sc ad reg cfg eff rule strat required traces =
     bind_act (lift_act (ad_base_pool ad sc)) (\<lambda>adapter_pool.
     bind_act (lift_act (resolve_target ad sc eff (restrict_pool (rq_restrict rq) adapter_pool)
                 (or_else (rq_owning rq) (cfg_group cfg)))) (\<lambda>resolved.
     case resolved of
       None \<Rightarrow>
         (let groups = (case eff of Some m \<Rightarrow> rm_groups m | None \<Rightarrow> []);
              name = (case eff of Some m \<Rightarrow> if rm_name m = [] then ''target'' else rm_name m
                                | None \<Rightarrow> ''target'')
          in finish rq ((plain_decision Queued None None (strategy_name strat) KGroupNotEligible
               (RUnroutable name groups) rule 0 0 traces)
               \<lparr>d_params := Some [(''groupIds'', JArr (map JStr groups))]\<rparr>))
     | Some tgt0 \<Rightarrow>
         (let tgt = tgt0\<lparr>tg_candidates := filter (\<lambda>i. i \<notin> set (rq_exclude rq)) (tg_candidates tgt0)\<rparr>;
              dsc = sc\<lparr>sco_group := tg_owner tgt\<rparr>
          in if tg_candidates tgt = [] then
               queue_or_fallback rq sc ad cfg (strategy_name strat) rule (tg_owner tgt) KEmptyPool
                 REmptyPool (tg_pool tgt) 0 traces
             else
               bind_act (lift_act (filter_by_skills ad dsc (tg_candidates tgt) required
                   (cfg_skill_routing cfg) (cfg_skill_mode cfg))) (\<lambda>skilled.
               if skilled = [] then
                 queue_or_fallback rq dsc ad cfg (strategy_name strat) rule (tg_owner tgt) KEmptyPool
                   RNoSkill (tg_pool tgt) 0 traces
               else decide_eligible rq dsc ad reg cfg skilled tgt rule strat traces))))"

text \<open>Rules, the effective target and the manual strategy.\<close>

definition forced_target :: "'w request \<Rightarrow> bool" where
  "forced_target rq \<longleftrightarrow>
     default_to [] (rq_target_groups rq) \<noteq> [] \<or> truthy_id (rq_target_user rq) \<noteq> None"

definition effective_target :: "'w request \<Rightarrow> rule_match option \<Rightarrow> rule_match option" where
  "effective_target rq found =
     (if forced_target rq then
        Some \<lparr>rm_id = (case found of Some m \<Rightarrow> rm_id m | None \<Rightarrow> []),
              rm_name = (case found of Some m \<Rightarrow> rm_name m | None \<Rightarrow> []),
              rm_user = rq_target_user rq, rm_groups = default_to [] (rq_target_groups rq),
              rm_strategy = rq_strategy rq, rm_skills = rq_skills rq\<rparr>
      else found)"

definition evaluate_request ::
  "'w services \<Rightarrow> 'w request \<Rightarrow> aconfig \<Rightarrow>
   ('w, rule_match option \<times> rule_trace list option \<times> 'w request) action" where
  "evaluate_request sv rq cfg =
     (if rq_skip_rules rq \<or> forced_target rq then ret (None, None, rq)
      else
        bind_act (sv_rules sv (rq_tenant rq) (rq_type rq) (rq_attrs rq) (rq_explain rq)) (\<lambda>(found, traces, rules).
        bind_act (case sv_capture sv of
                    Some capture \<Rightarrow>
                      if rq_dry rq then ret rq
                      else bind_act (capture (rq_tenant rq) (rq_type rq) cfg rules) (\<lambda>v.
                        ret (rq\<lparr>rq_metadata := bag_put ''policyVersionId'' (JStr v) (rq_metadata rq)\<rparr>))
                  | None \<Rightarrow> ret rq) (\<lambda>rq'.
        ret (found, if rq_explain rq then Some traces else None, rq'))))"

definition decide_rules ::
  "'w services \<Rightarrow> 'w request \<Rightarrow> scope \<Rightarrow> 'w adapter \<Rightarrow> aconfig \<Rightarrow> ('w cstate, decision) action" where
  "decide_rules sv rq0 sc ad cfg =
     bind_act (lift_act (evaluate_request sv rq0 cfg)) (\<lambda>(found, traces, rq).
     let eff = effective_target rq found;
         strat = default_to (cfg_strategy cfg)
           (or_else (rq_strategy rq) (case eff of Some m \<Rightarrow> rm_strategy m | None \<Rightarrow> None));
         required = uniq ((case eff of Some m \<Rightarrow> rm_skills m | None \<Rightarrow> []) @ rq_skills rq);
         rule = (case found of
             Some m \<Rightarrow> if rm_id m = [] then None else Some (rm_id m, rm_name m) | None \<Rightarrow> None)
     in if strat = ManualPick then
          (let grp = or_else (first_of (case eff of Some m \<Rightarrow> rm_groups m | None \<Rightarrow> []))
                 (or_else (rq_owning rq) (cfg_group cfg))
           in bind_act (case truthy_id grp of
                          Some g \<Rightarrow> if rq_dry rq then ret () else lift_act (park ad sc g)
                        | None \<Rightarrow> ret ()) (\<lambda>_.
              finish rq (plain_decision Queued None grp (strategy_name strat) KManualStrategy
                RManualStrategy rule 0 0 traces)))
        else decide_target rq sc ad (sv_registry sv) cfg eff rule strat required traces)"

definition assign :: "'w services \<Rightarrow> 'w request \<Rightarrow> ('w cstate, decision) action" where
  "assign sv rq =
     (let sc = request_scope (sv_parse_date sv) rq in
      if rq_bypass rq then
        finish rq (plain_decision Skipped None (rq_owning rq) ''bypass'' KBypassed RBypassed None 0 0 None)
      else case sv_adapters sv (rq_type rq) of
        None \<Rightarrow>
          finish rq (plain_decision Failed None (rq_owning rq) ''none'' KEmptyPool
            (RNoAdapter (rq_type rq)) None 0 0 None)
      | Some ad \<Rightarrow>
          bind_act (lift_act (sv_config sv (rq_tenant rq) (rq_type rq) (rq_override rq))) (\<lambda>cfg.
          case truthy_id (rq_manual rq) of
            Some who \<Rightarrow>
              commit_direct rq sc ad who (or_else (rq_owning rq) (cfg_group cfg)) ''manual''
                KManualOverride RManualOverride
          | None \<Rightarrow>
              if \<not> cfg_auto cfg then
                finish rq (plain_decision Skipped None (rq_owning rq) ''manual'' KAutoAssignDisabled
                  (RAutoAssignOff (rq_type rq)) None 0 0 None)
              else decide_rules sv rq sc ad cfg))"

end
