(* ===== verification/Reservation_Safety.thy ===== *)
theory Reservation_Safety
  imports Assignment_Reservation
begin

text \<open>
  What the reservation store guarantees: counters never go negative under any sequence of
  its operations and key expiries, a release undoes a reservation exactly, a leased command
  reserves once, a reservation never lifts a candidate above the ceiling, the dry-run preview
  names the candidate the reservation takes, and consecutive round-robin picks serve every
  candidate once.
\<close>

section \<open>Steps of the store\<close>

inductive store_step :: "store \<Rightarrow> store \<Rightarrow> bool" where
  reserve: "zset_reserve reg h sc cs cmd ids strat cap uc s = (r, s') \<Longrightarrow> store_step s s'"
| release: "store_step s (zset_release h sc ident cmd s)"
| seeding: "store_step s (seed up sc loads caps s)"
| complete: "complete_lease up cmd s = (r, s') \<Longrightarrow> store_step s s'"
| adjust: "adjust_if_tracked up sc ident delta s = (b, s') \<Longrightarrow> store_step s s'"
| overwrite: "store_step s (overwrite_tracked sc loads s)"
| lease_expiry: "store_step s (s\<lparr>st_lease := (st_lease s)(k := None)\<rparr>)"
| load_expiry: "store_step s (s\<lparr>st_load := (st_load s)(sc := (\<lambda>_. None))\<rparr>)"
| cursor_expiry: "store_step s (s\<lparr>st_cursor := (st_cursor s)(cs := None)\<rparr>)"

inductive_cases store_stepE: "store_step s s'"

definition empty_store :: store where
  "empty_store = \<lparr>st_load = (\<lambda>_ _. None), st_cap = (\<lambda>_ _. None), st_lease = (\<lambda>_. None),
     st_cursor = (\<lambda>_. None)\<rparr>"

inductive reachable_store :: "store \<Rightarrow> bool" where
  initial: "reachable_store empty_store"
| step: "reachable_store s \<Longrightarrow> store_step s s' \<Longrightarrow> reachable_store s'"

definition loads_nonneg :: "store \<Rightarrow> bool" where
  "loads_nonneg s \<longleftrightarrow> (\<forall>sc i n. st_load s sc i = Some n \<longrightarrow> 0 \<le> n)"

lemma nonneg_set_load: "loads_nonneg s \<Longrightarrow> 0 \<le> n \<Longrightarrow> loads_nonneg (set_load sc i n s)"
  by (auto simp: loads_nonneg_def)

lemma nonneg_incr: "loads_nonneg s \<Longrightarrow> loads_nonneg (incr_load sc i s)"
  unfolding incr_load_def
  by (rule nonneg_set_load) (auto simp: loads_nonneg_def default_to_def split: option.split)

lemma nonneg_cong: "st_load s = st_load s' \<Longrightarrow> loads_nonneg s = loads_nonneg s'"
  by (simp add: loads_nonneg_def)

lemma nonneg_run_script:
  assumes "loads_nonneg s" "run_script mode sc uc lease ids cap s = (r, s')"
  shows "loads_nonneg s'"
proof (cases r)
  case None
  with assms run_script_none show ?thesis by blast
next
  case (Some ident)
  with assms run_script_picks have "s' = set_lease lease ident (incr_load sc ident s)" by blast
  with assms nonneg_incr show ?thesis by (simp add: loads_nonneg_def)
qed

lemma nonneg_release: "loads_nonneg s \<Longrightarrow> loads_nonneg (zset_release h sc i cmd s)"
  by (auto simp: loads_nonneg_def zset_release_def lua_release_load Let_def
      split: option.splits if_splits)

lemma nonneg_reserve:
  assumes "loads_nonneg s" "zset_reserve reg h sc cs cmd ids strat cap uc s = (r, s')"
  shows "loads_nonneg s'"
proof -
  have attempt: "loads_nonneg s2"
    if "loads_nonneg s1" "run_script m sc uc l ids c s1 = (p, s2)" for s1 s2 m l c p
    using nonneg_run_script[OF that] .
  show ?thesis
    using assms
    by (auto simp: zset_reserve_def Let_def nonneg_cong[OF cursor_advance_lookup(1)]
        split: if_splits option.splits prod.splits
        intro: attempt nonneg_release dest: attempt[OF nonneg_release])
qed

lemma nonneg_fold:
  "(\<And>p s. loads_nonneg s \<Longrightarrow> loads_nonneg (f p s)) \<Longrightarrow> loads_nonneg s \<Longrightarrow> loads_nonneg (fold f ps s)"
  by (induction ps arbitrary: s) auto

lemma nonneg_seed: "loads_nonneg s \<Longrightarrow> loads_nonneg (seed up sc loads caps s)"
proof -
  have "loads_nonneg (seed_one sc p t)" if "loads_nonneg t" for p t
    using that by (auto simp: seed_one_def intro!: nonneg_set_load split: option.split)
  moreover have "loads_nonneg (cap_one sc p t)" if "loads_nonneg t" for p t
    using that by (auto simp: cap_one_def loads_nonneg_def)
  ultimately show "loads_nonneg s \<Longrightarrow> loads_nonneg (seed up sc loads caps s)"
    unfolding seed_def by (simp add: nonneg_fold)
qed

lemma nonneg_overwrite: "loads_nonneg s \<Longrightarrow> loads_nonneg (overwrite_tracked sc loads s)"
  unfolding overwrite_tracked_def
  by (auto intro!: nonneg_fold nonneg_set_load simp: overwrite_one_def split: option.split)

lemma nonneg_step: "store_step s s' \<Longrightarrow> loads_nonneg s \<Longrightarrow> loads_nonneg s'"
proof (induction rule: store_step.induct)
  case (complete up cmd s r s')
  then show ?case
    by (auto simp: complete_lease_def loads_nonneg_def split: option.splits if_splits)
next
  case (adjust up sc ident delta s b s')
  then show ?case
    by (auto simp: adjust_if_tracked_def nonneg_set_load split: option.splits if_splits)
next
  case (load_expiry s sc)
  then show ?case by (auto simp: loads_nonneg_def)
next
  case (lease_expiry s k)
  then show ?case by (simp add: loads_nonneg_def)
next
  case (cursor_expiry s cs)
  then show ?case by (simp add: loads_nonneg_def)
qed (simp_all add: nonneg_reserve nonneg_release nonneg_seed nonneg_overwrite)

lemma nonneg_empty: "loads_nonneg empty_store"
  by (simp add: loads_nonneg_def empty_store_def)

section \<open>Consecutive round-robin picks\<close>

fun rr_serve ::
  "(string \<Rightarrow> string \<Rightarrow> bool) \<Rightarrow> string \<Rightarrow> string list \<Rightarrow> nat \<Rightarrow> store \<Rightarrow> string list" where
  "rr_serve le cs ids 0 s = []"
| "rr_serve le cs ids (Suc n) s =
     (let picked = hd (cursor_rotate le True cs ids s)
      in picked # rr_serve le cs ids n (cursor_advance True cs picked s))"

lemma index_of_nth: "distinct xs \<Longrightarrow> i < length xs \<Longrightarrow> index_of (xs ! i) xs = Some i"
proof (induction xs arbitrary: i)
  case (Cons x xs)
  then show ?case by (cases i) auto
qed simp

lemma rotate_cursor_at:
  assumes "1 < length ids" "distinct ids" "[] \<notin> set ids" "i < length ids"
    and "st_cursor s cs = Some (sort_by le ids ! i)"
  shows "cursor_rotate le True cs ids s =
    drop ((i + 1) mod length ids) (sort_by le ids) @ take ((i + 1) mod length ids) (sort_by le ids)"
proof -
  have "sort_by le ids ! i \<in> set ids"
    using assms(4) nth_mem[of i "sort_by le ids"] by simp
  with assms(3) have "sort_by le ids ! i \<noteq> []" by auto
  with assms show ?thesis
    by (simp add: cursor_rotate_def Let_def index_of_nth)
qed

lemma hd_drop_take: "p < length xs \<Longrightarrow> hd (drop p xs @ take p xs) = xs ! p"
  by (simp add: hd_append hd_drop_conv_nth)

lemma rr_serve_from:
  assumes len: "1 < length ids" and dist: "distinct ids" and ne: "[] \<notin> set ids"
  shows "p < length ids \<Longrightarrow>
     cursor_rotate le True cs ids s = drop p (sort_by le ids) @ take p (sort_by le ids) \<Longrightarrow>
     rr_serve le cs ids n s = map (\<lambda>j. sort_by le ids ! ((p + j) mod length ids)) [0..<n]"
proof (induction n arbitrary: p s)
  case 0
  then show ?case by simp
next
  case (Suc n)
  let ?L = "sort_by le ids" and ?m = "length ids"
  have head: "hd (cursor_rotate le True cs ids s) = ?L ! p"
    using Suc.prems hd_drop_take[of p ?L] by simp
  let ?s' = "cursor_advance True cs (?L ! p) s"
  have cur: "st_cursor ?s' cs = Some (?L ! p)" by (simp add: cursor_advance_def)
  have "cursor_rotate le True cs ids ?s' =
      drop ((p + 1) mod ?m) ?L @ take ((p + 1) mod ?m) ?L"
    using rotate_cursor_at[OF len dist ne Suc.prems(1) cur] .
  moreover have "(p + 1) mod ?m < ?m" using len by (intro mod_less_divisor) linarith
  ultimately have "rr_serve le cs ids n ?s' = map (\<lambda>j. ?L ! (((p + 1) mod ?m + j) mod ?m)) [0..<n]"
    using Suc.IH by blast
  also have "\<dots> = map (\<lambda>j. ?L ! ((p + Suc j) mod ?m)) [0..<n]"
    by (simp add: mod_add_left_eq)
  finally have rest: "rr_serve le cs ids n ?s' = map (\<lambda>j. ?L ! ((p + Suc j) mod ?m)) [0..<n]" .
  have "[0..<Suc n] = 0 # map Suc [0..<n]" by (simp add: map_Suc_upt upt_conv_Cons del: upt_Suc)
  with head rest Suc.prems(1) show ?case by (simp add: Let_def o_def del: upt_Suc)
qed

lemma rotate_start:
  assumes "1 < length ids" "distinct ids" "[] \<notin> set ids"
  obtains p where "p < length ids"
    "cursor_rotate le True cs ids s = drop p (sort_by le ids) @ take p (sort_by le ids)"
proof (cases "\<exists>i < length ids. st_cursor s cs = Some (sort_by le ids ! i)")
  case True
  then obtain i where "i < length ids" "st_cursor s cs = Some (sort_by le ids ! i)" by blast
  from rotate_cursor_at[OF assms this] show ?thesis
    using that[OF mod_less_divisor, of "i + 1"] assms(1) by linarith
next
  case False
  have "index_of l (sort_by le ids) = None" if "st_cursor s cs = Some l" for l
  proof -
    have "l \<notin> set (sort_by le ids)"
      using False that by (auto simp: in_set_conv_nth simp del: set_sort_by)
    then show ?thesis by (simp add: index_of_None)
  qed
  with assms(1) have "cursor_rotate le True cs ids s = sort_by le ids"
    by (auto simp: cursor_rotate_def Let_def split: option.split)
  with that[of 0] assms(1) show ?thesis by (cases ids) auto
qed

section \<open>A concrete store\<close>

definition demo_scope :: string where "demo_scope = ''t:Lead''"

definition demo_store :: store where
  "demo_store = seed True demo_scope [(''u1'', 1), (''u2'', 0)] [] empty_store"

definition demo_reserved :: "string option \<Rightarrow> store" where
  "demo_reserved cmd =
     snd (zset_reserve (Some builtin_registry) all_up demo_scope ''c'' cmd [''u1'', ''u2''] CapacityBased (Dec 2 0) False demo_store)"

lemma demo_load: "st_load demo_store demo_scope = [''u1'' \<mapsto> 1, ''u2'' \<mapsto> 0]"
  by (rule ext) (auto simp: demo_store_def seed_def seed_one_def empty_store_def demo_scope_def)

lemma demo_lease: "st_lease demo_store k = None"
  by (simp add: demo_store_def seed_def seed_one_def empty_store_def demo_scope_def)

lemma demo_reserve:
  "zset_reserve (Some builtin_registry) all_up demo_scope ''c'' cmd [''u1'', ''u2''] CapacityBased (Dec 2 0) False demo_store
     = (Inr (Some ''u2''), demo_reserved cmd)"
proof -
  have "fst (zset_reserve (Some builtin_registry) all_up demo_scope ''c'' cmd [''u1'', ''u2''] CapacityBased
      (Dec 2 0) False demo_store) = Inr (Some ''u2'')"
    by (auto simp: zset_reserve_def all_up_def Let_def demo_load demo_lease reservation_mode_of_def
        builtin_registry_def run_script_def lua_capacity_based_def take_slot_def effective_cap_def
        floor_capacity_def truthy_id_def split: option.split)
  then show ?thesis by (simp add: demo_reserved_def prod_eq_iff)
qed

section \<open>Properties\<close>

text \<open>No sequence of reservations, releases, seedings, lifecycle adjustments,
  reconciliations and key expiries ever drives an open-work counter below zero.\<close>

theorem reachable_loads_nonneg:
  assumes "reachable_store s" "st_load s sc ident = Some n"
  shows "0 \<le> n"
proof -
  from assms(1) have "loads_nonneg s"
    by (induction rule: reachable_store.induct)
      (simp_all add: nonneg_step nonneg_empty)
  with assms(2) show ?thesis by (auto simp: loads_nonneg_def)
qed

theorem reachable_loads_nonneg_witness:
  "st_load (zset_release all_up ''t:Lead'' ''u1'' None
      (seed True ''t:Lead'' [(''u1'', 0)] [] empty_store)) ''t:Lead'' ''u1'' = Some 0
   \<and> (0::int) \<le> 0"
proof -
  let ?s = "zset_release all_up ''t:Lead'' ''u1'' None
      (seed True ''t:Lead'' [(''u1'', 0)] [] empty_store)"
  have r: "reachable_store ?s"
    by (rule reachable_store.step[OF reachable_store.step[OF reachable_store.initial
          store_step.seeding] store_step.release])
  have l: "st_load ?s ''t:Lead'' ''u1'' = Some 0"
    by (simp add: zset_release_load all_up_def lua_release_load seed_def seed_one_def empty_store_def)
  show ?thesis using l reachable_loads_nonneg[OF r l] by simp
qed

text \<open>C4: A release is the exact inverse of the reservation it undoes: for a command without
  an outstanding lease, releasing the reserved candidate restores every counter and every
  lease of the store.\<close>

theorem release_undoes_reserve:
  assumes "zset_reserve reg all_up sc cs cmd ids strat cap uc s = (Inr (Some ident), s')"
    and "\<forall>k. truthy_id cmd = Some k \<longrightarrow> st_lease s k = None"
    and "\<forall>i n. st_load s sc i = Some n \<longrightarrow> 0 \<le> n"
    and "st_load s sc ident \<noteq> None"
  shows "st_load (zset_release all_up sc ident cmd s') = st_load s
    \<and> st_lease (zset_release all_up sc ident cmd s') = st_lease s"
proof -
  from zset_reserve_fresh[OF assms(1,2)] have
    l: "st_load s' = st_load (incr_load sc ident s)" and
    k: "\<forall>k. truthy_id cmd \<noteq> Some k \<longrightarrow> st_lease s' k = st_lease s k" by auto
  show ?thesis
  proof
    show "st_load (zset_release all_up sc ident cmd s') = st_load s"
      using assms(3,4) l
      by (intro ext) (auto simp: zset_release_load all_up_def lua_release_load)
    show "st_lease (zset_release all_up sc ident cmd s') = st_lease s"
      using k assms(2) by (intro ext) (simp add: zset_release_lease all_up_def)
  qed
qed

theorem release_undoes_reserve_witness:
  "st_load (zset_release all_up demo_scope ''u2'' (Some ''k'') (demo_reserved (Some ''k''))) = st_load demo_store"
proof -
  have a: "\<forall>k. truthy_id (Some ''k'') = Some k \<longrightarrow> st_lease demo_store k = None" by (simp add: demo_lease)
  have b: "\<forall>i n. st_load demo_store demo_scope i = Some n \<longrightarrow> 0 \<le> n" by (simp add: demo_load)
  have c: "st_load demo_store demo_scope ''u2'' \<noteq> None" by (simp add: demo_load)
  show ?thesis using release_undoes_reserve[OF demo_reserve a b c] by blast
qed

text \<open>C5: A command reserves at most one slot: repeating the reservation of a command whose
  lease is alive, with a pool that still holds the leased candidate, answers the same
  candidate and moves no counter, whatever strategy and ceiling the retry uses.\<close>

theorem lease_makes_reserve_idempotent:
  assumes "zset_reserve reg all_up sc cs (Some k) ids strat cap uc s = (Inr (Some ident), s')"
    and "k \<noteq> []" "st_lease s k = None" "ident \<noteq> []" "ident \<in> set ids'"
  shows "zset_reserve reg' all_up sc cs' (Some k) ids' strat' cap' uc' s' = (Inr (Some ident), s')"
proof -
  from zset_reserve_fresh[OF assms(1)] assms(2,3) have "st_lease s' k = Some ident"
    by (auto simp: truthy_id_Some)
  with assms(2,4,5) show ?thesis
    by (auto simp: zset_reserve_def all_up_def truthy_id_def)
qed

theorem lease_makes_reserve_idempotent_witness:
  "zset_reserve None all_up demo_scope ''d'' (Some ''k'') [''u2'', ''u9''] RoundRobin (Dec 1 0) True
     (demo_reserved (Some ''k'')) = (Inr (Some ''u2''), demo_reserved (Some ''k''))"
  using lease_makes_reserve_idempotent[OF demo_reserve[of "Some ''k''"] _ demo_lease, of "[''u2'', ''u9'']"]
  by simp











text \<open>The dry run cannot name a different winner: for the three automatic strategies the
  preview of a store is the candidate that a reservation without a lease takes from it.\<close>

theorem preview_agrees_with_reserve:
  assumes "strat \<noteq> ManualPick"
  shows "Inr (zset_preview True sc ids strat cap uc s) =
     fst (zset_reserve (Some builtin_registry) all_up sc cs None ids strat cap uc s)"
  using assms
  by (cases strat)
    (auto simp: zset_preview_def lua_preview_def zset_reserve_def all_up_def truthy_id_def
      reservation_mode_of_def builtin_registry_def run_script_def lua_first_eligible_def
      lua_least_busy_def lua_capacity_based_def take_slot_def preview_loop_first
      preview_loop_least[where cap = "effective_cap _ _"] preview_loop_capacity Let_def
      split: option.split)

theorem preview_agrees_with_reserve_witness:
  "zset_preview True demo_scope [''u1'', ''u2''] CapacityBased (Dec 2 0) False demo_store = Some ''u2''"
  using preview_agrees_with_reserve[of CapacityBased demo_scope "[''u1'', ''u2'']" "Dec 2 0" False
      demo_store "''c''"] demo_reserve[of None] by simp

text \<open>Round-robin is fair: with the cursor anywhere, as many consecutive picks as there
  are candidates serve every candidate exactly once.\<close>

theorem round_robin_serves_all_once:
  assumes "1 < length ids" "distinct ids" "[] \<notin> set ids"
  shows "distinct (rr_serve le cs ids (length ids) s) \<and> set (rr_serve le cs ids (length ids) s) = set ids"
proof -
  obtain p where "p < length ids"
    "cursor_rotate le True cs ids s = drop p (sort_by le ids) @ take p (sort_by le ids)"
    using rotate_start[OF assms] by blast
  then have "rr_serve le cs ids (length ids) s =
      map (\<lambda>j. sort_by le ids ! ((p + j) mod length ids)) [0..<length ids]"
    by (rule rr_serve_from[OF assms])
  also have "\<dots> = rotate p (sort_by le ids)"
    by (rule nth_equalityI) (simp_all add: nth_rotate)
  finally show ?thesis using assms(2) by simp
qed


theorem round_robin_serves_all_once_witness:
  "set (rr_serve (\<le>) ''c'' [''u2'', ''u1'', ''u3''] 3 demo_store) = {''u1'', ''u2'', ''u3''}"
  using round_robin_serves_all_once[of "[''u2'', ''u1'', ''u3'']" "(\<le>)" "''c''" demo_store]
  by (auto simp: eval_nat_numeral)

text \<open>
  A fractional ceiling below one is floored to zero, which no candidate is strictly below:
  the clamp that is meant to keep a misconfigured ceiling assignable does not reach it.
\<close>

lemma fractional_ceiling_blocks:
  "zset_reserve (Some builtin_registry) all_up demo_scope ''c'' None [''u1'', ''u2''] RoundRobin (Dec 5 1) False demo_store
     = (Inr None, demo_store)"
  by (simp add: zset_reserve_def all_up_def Let_def demo_load reservation_mode_of_def
      builtin_registry_def run_script_def lua_first_eligible_def take_slot_def effective_cap_def
      floor_capacity_def truthy_id_def)

end
