(* ===== verification/Assignment_Core_Safety.thy ===== *)
theory Assignment_Core_Safety
  imports Assignment_Core Reservation_Safety
begin

text \<open>
  What the decision pipeline guarantees. The contract of the ports is the locale
  \<open>slot_ports\<close>: a reservation takes one slot of one candidate it was offered, a release gives
  one slot back, everything else leaves the slots alone. Inside it the pipeline is shown to
  account for every slot; the record adapter over the Redis store is the instance. The audit
  properties need no contract at all.
\<close>

section \<open>Reasoning about actions\<close>

definition tri :: "('s \<Rightarrow> bool) \<Rightarrow> ('s, 'a) action \<Rightarrow> ((string, 'a) result \<Rightarrow> 's \<Rightarrow> bool) \<Rightarrow> bool" where
  "tri P m Q \<longleftrightarrow> (\<forall>s. P s \<longrightarrow> (case m s of (r, s') \<Rightarrow> Q r s'))"

lemma tri_ret: "(\<And>s. P s \<Longrightarrow> Q (Inr a) s) \<Longrightarrow> tri P (ret a) Q"
  by (simp add: tri_def ret_def)

lemma tri_throw: "(\<And>s. P s \<Longrightarrow> Q (Inl e) s) \<Longrightarrow> tri P (throw e) Q"
  by (simp add: tri_def throw_def)

lemma tri_bind:
  assumes "tri P m (\<lambda>r s. case r of Inl e \<Rightarrow> Q (Inl e) s | Inr a \<Rightarrow> R a s)"
    and "\<And>a. tri (R a) (f a) Q"
  shows "tri P (bind_act m f) Q"
  unfolding tri_def
proof (intro allI impI)
  fix s assume "P s"
  with assms(1) have 1: "case m s of (r, s') \<Rightarrow> (case r of Inl e \<Rightarrow> Q (Inl e) s' | Inr a \<Rightarrow> R a s')"
    by (simp add: tri_def)
  obtain r s' where m: "m s = (r, s')" by fastforce
  show "case bind_act m f s of (r, s') \<Rightarrow> Q r s'"
  proof (cases r)
    case (Inl e)
    with 1 m show ?thesis by (simp add: bind_act_def)
  next
    case (Inr a)
    with 1 m have "R a s'" by simp
    with assms(2)[of a] Inr m show ?thesis by (simp add: bind_act_def tri_def)
  qed
qed

lemma tri_catch:
  assumes "tri P m (\<lambda>r s. case r of Inl e \<Rightarrow> R e s | Inr a \<Rightarrow> Q (Inr a) s)"
    and "\<And>e. tri (R e) (h e) Q"
  shows "tri P (catch_act m h) Q"
  using assms by (fastforce simp: tri_def catch_act_def split: prod.splits sum.splits)

lemma tri_weaken: "tri P m Q \<Longrightarrow> (\<And>s. P' s \<Longrightarrow> P s) \<Longrightarrow> (\<And>r s. Q r s \<Longrightarrow> Q' r s) \<Longrightarrow> tri P' m Q'"
  by (fastforce simp: tri_def split: prod.splits)

lemma tri_seq:
  assumes "tri P m (\<lambda>r. J)" "\<And>e s. J s \<Longrightarrow> Q (Inl e) s" "\<And>a. tri J (f a) Q"
  shows "tri P (bind_act m f) Q"
  by (rule tri_bind[where R = "\<lambda>_. J"], rule tri_weaken[OF assms(1)])
    (auto intro: assms(2,3) split: sum.split)

lemma tri_lift:
  assumes "\<And>t. tri (\<lambda>w. P w t) m (\<lambda>r w. Q r w t)"
  shows "tri (\<lambda>s. P (cs_world s) (cs_trail s)) (lift_act m) (\<lambda>r s. Q r (cs_world s) (cs_trail s))"
  using assms by (fastforce simp: tri_def lift_act_def split: prod.splits)

lemma tri_assume: "(A \<Longrightarrow> tri P m Q) \<Longrightarrow> tri (\<lambda>s. P s \<and> A) m Q"
  by (auto simp: tri_def)

lemma tri_guard: "tri (\<lambda>s. (A s \<and> B s) \<and> C \<and> D) m Q \<longleftrightarrow> (C \<and> D \<longrightarrow> tri (\<lambda>s. A s \<and> B s) m Q)"
  by (auto simp: tri_def)

lemma tri_cases_option:
  "(v = None \<Longrightarrow> tri P n Q) \<Longrightarrow> (\<And>x. v = Some x \<Longrightarrow> tri P (f x) Q) \<Longrightarrow>
   tri P (case v of None \<Rightarrow> n | Some x \<Rightarrow> f x) Q"
  by (cases v) auto

lemma tri_if: "(b \<Longrightarrow> tri P m Q) \<Longrightarrow> (\<not> b \<Longrightarrow> tri P n Q) \<Longrightarrow> tri P (if b then m else n) Q"
  by simp

text \<open>An action that keeps a predicate, whatever it answers.\<close>

definition keeps :: "('w \<Rightarrow> bool) \<Rightarrow> ('w, 'a) action \<Rightarrow> bool" where
  "keeps I m \<longleftrightarrow> tri I m (\<lambda>r w. I w)"

lemma keeps_ret [simp]: "keeps I (ret a)"
  by (simp add: keeps_def tri_ret)

lemma keeps_bind: "keeps I m \<Longrightarrow> (\<And>a. keeps I (f a)) \<Longrightarrow> keeps I (bind_act m f)"
  unfolding keeps_def by (rule tri_bind[where R = "\<lambda>a. I"]) (auto elim!: tri_weaken split: sum.split)

lemma keeps_best_effort: "(\<And>a. m = Some a \<Longrightarrow> keeps I a) \<Longrightarrow> keeps I (best_effort m)"
  unfolding best_effort_def keeps_def
  by (cases m) (auto intro!: tri_ret tri_catch[where R = "\<lambda>e. I"] elim!: tri_weaken split: sum.split)

lemma keeps_tri: "keeps I m \<Longrightarrow> (\<And>r w. I w \<Longrightarrow> Q r w) \<Longrightarrow> tri I m Q"
  unfolding keeps_def by (erule tri_weaken) auto

lemma keeps_lift: "keeps I m \<Longrightarrow> keeps (\<lambda>s. I (cs_world s)) (lift_act m)"
  unfolding keeps_def by (rule tri_lift[where P = "\<lambda>w t. I w" and Q = "\<lambda>r w t. I w"]) simp

section \<open>The contract of the ports\<close>

text \<open>Settling a decision: an assignee of an assigned or offered record holds one slot more.\<close>

definition settled :: "(string \<Rightarrow> int) \<Rightarrow> decision \<Rightarrow> string \<Rightarrow> int" where
  "settled S d =
     (case d_assignee d of
        Some u \<Rightarrow> if d_outcome d = Assigned \<or> d_outcome d = Offered then S(u := S u + 1) else S
      | None \<Rightarrow> S)"

lemma settled_policy [simp]: "settled S (d\<lparr>d_policy := p\<rparr>) = settled S d"
  by (simp add: settled_def split: option.split)

lemma settled_plain [simp]:
  "settled S (plain_decision oc who grp strat key why rule pool elig traces) =
     (case who of Some u \<Rightarrow> if oc = Assigned \<or> oc = Offered then S(u := S u + 1) else S | None \<Rightarrow> S)"
  "settled S (d\<lparr>d_params := ps\<rparr>) = settled S d"
  "settled S (d\<lparr>d_deferred := df\<rparr>) = settled S d"
  by (simp_all add: settled_def plain_decision_def split: option.split)

text \<open>\<open>same_work sc sc'\<close>: two scopes of one decision, which differ at most in the team.\<close>

definition same_work :: "scope \<Rightarrow> scope \<Rightarrow> bool" where
  "same_work a b \<longleftrightarrow> a\<lparr>sco_group := None\<rparr> = b\<lparr>sco_group := None\<rparr>"

locale slot_ports =
  fixes ad :: "'w adapter"
    and slots :: "'w \<Rightarrow> string \<Rightarrow> int" \<comment> \<open>open work per candidate\<close>
    and free :: "'w \<Rightarrow> bool" \<comment> \<open>no slot is held for the command being decided\<close>
    and holds :: "'w \<Rightarrow> string \<Rightarrow> bool" \<comment> \<open>one slot is, and nothing has been committed\<close>
    and work :: "scope \<Rightarrow> bool" \<comment> \<open>the scopes of the decision\<close>
  assumes slots_nonneg: "free w \<Longrightarrow> 0 \<le> slots w i"
    and reserve_some: "work sc \<Longrightarrow> free w \<Longrightarrow> ad_reserve ad sc ids st cap w = (Inr (Some i), w') \<Longrightarrow>
      i \<in> set ids \<and> slots w' = (slots w)(i := slots w i + 1) \<and> holds w' i"
    and reserve_none: "work sc \<Longrightarrow> free w \<Longrightarrow> ad_reserve ad sc ids st cap w = (Inr None, w') \<Longrightarrow>
      slots w' = slots w \<and> free w'"
    and reserve_error: "work sc \<Longrightarrow> free w \<Longrightarrow> ad_reserve ad sc ids st cap w = (Inl e, w') \<Longrightarrow>
      slots w' = slots w \<and> free w'"
    and reserve_direct: "work sc \<Longrightarrow> free w \<Longrightarrow>
      ad_reserve ad sc [i] LeastBusy max_safe_integer w = (rr, w') \<Longrightarrow> rr = Inr (Some i)"
    and release_law: "work sc \<Longrightarrow> holds w i \<Longrightarrow> ad_release ad sc i w = (r, w') \<Longrightarrow>
      r = Inr () \<and> slots w' = (slots w)(i := max 0 (slots w i - 1)) \<and> free w'"
    and commit_law: "work sc \<Longrightarrow> holds w i \<Longrightarrow> ad_commit ad sc i g w = (ok, w') \<Longrightarrow>
      slots w' = slots w \<and> (ok \<noteq> Inr True \<longrightarrow> holds w' i)"
    and quiet_commit_complete: "work sc \<Longrightarrow> ad_commit_complete ad = Some f \<Longrightarrow> keeps (\<lambda>w. slots w = S) (f sc)"
    and quiet_load_complete: "work sc \<Longrightarrow> ad_load_complete ad = Some f1 \<Longrightarrow> keeps (\<lambda>w. slots w = S) (f1 sc i)"
    and quiet_base: "work sc \<Longrightarrow> keeps (\<lambda>w. slots w = S \<and> free w) (ad_base_pool ad sc)"
    and quiet_members: "work sc \<Longrightarrow> keeps (\<lambda>w. slots w = S \<and> free w) (ad_members ad sc gs)"
    and quiet_may_serve: "work sc \<Longrightarrow> ad_may_serve ad = Some f2 \<Longrightarrow> keeps (\<lambda>w. slots w = S \<and> free w) (f2 sc gp)"
    and quiet_skills: "work sc \<Longrightarrow> keeps (\<lambda>w. slots w = S \<and> free w) (ad_skills ad sc ids)"
    and quiet_available: "work sc \<Longrightarrow> ad_available ad = Some f3 \<Longrightarrow>
      keeps (\<lambda>w. slots w = S \<and> free w) (f3 sc ids b)"
    and quiet_loads: "work sc \<Longrightarrow> keeps (\<lambda>w. slots w = S \<and> free w) (ad_loads ad sc ids)"
    and quiet_preview: "work sc \<Longrightarrow> ad_preview ad = Some f4 \<Longrightarrow>
      keeps (\<lambda>w. slots w = S \<and> free w) (f4 sc ids st cap)"
    and quiet_rotate: "work sc \<Longrightarrow> ad_rotate ad = Some f5 \<Longrightarrow>
      keeps (\<lambda>w. slots w = S \<and> free w) (f5 sc ids)"
    and quiet_park: "work sc \<Longrightarrow> ad_park ad = Some f6 \<Longrightarrow> keeps (\<lambda>w. slots w = S) (f6 sc gp)"
    and work_group: "work sc \<Longrightarrow> work (sc\<lparr>sco_group := g\<rparr>)"
begin

abbreviation taken :: "(string \<Rightarrow> int) \<Rightarrow> string \<Rightarrow> 'w \<Rightarrow> bool" where
  "taken S i w \<equiv> slots w = S(i := S i + 1) \<and> holds w i"

lemma reserve_tri:
  assumes "work sc"
  shows "tri (\<lambda>w. slots w = S \<and> free w) (ad_reserve ad sc ids st cap)
    (\<lambda>r w. case r of Inl e \<Rightarrow> slots w = S \<and> free w
       | Inr None \<Rightarrow> slots w = S \<and> free w
       | Inr (Some i) \<Rightarrow> taken S i w \<and> i \<in> set ids)"
  unfolding tri_def
proof (intro allI impI)
  fix w assume w: "slots w = S \<and> free w"
  obtain r w' where e: "ad_reserve ad sc ids st cap w = (r, w')" by fastforce
  consider err where "r = Inl err" | "r = Inr None" | i where "r = Inr (Some i)"
    by (metis option.exhaust sumE)
  then show "case ad_reserve ad sc ids st cap w of (r, w') \<Rightarrow>
      (case r of Inl e \<Rightarrow> slots w' = S \<and> free w' | Inr None \<Rightarrow> slots w' = S \<and> free w'
       | Inr (Some i) \<Rightarrow> taken S i w' \<and> i \<in> set ids)"
  proof cases
    case 1
    with reserve_error[OF assms, of w ids st cap err w'] w e show ?thesis by simp
  next
    case 2
    with reserve_none[OF assms, of w ids st cap w'] w e show ?thesis by simp
  next
    case 3
    with reserve_some[OF assms, of w ids st cap i w'] w e show ?thesis by simp
  qed
qed

lemma release_tri:
  assumes "work sc" "0 \<le> S i"
  shows "tri (taken S i) (ad_release ad sc i)
    (\<lambda>r w. r = Inr () \<and> slots w = S \<and> free w)"
  unfolding tri_def
proof (intro allI impI)
  fix w assume w: "taken S i w"
  obtain r w' where e: "ad_release ad sc i w = (r, w')" by fastforce
  from w have h: "holds w i" by simp
  from release_law[OF assms(1) h e] w assms(2)
  show "case ad_release ad sc i w of (r, w') \<Rightarrow> r = Inr () \<and> slots w' = S \<and> free w'"
    by (simp add: e)
qed

definition commit_quiet :: "'w request \<Rightarrow> bool" where
  "commit_quiet rq \<longleftrightarrow> (\<forall>f i g w ok w'. rq_commit rq = Some f \<longrightarrow> holds w i \<longrightarrow>
     f i g w = (ok, w') \<longrightarrow> slots w' = slots w \<and> (ok \<noteq> Inr True \<longrightarrow> holds w' i))"

lemma commit_call_tri:
  assumes "work sc" "commit_quiet rq"
  shows "tri (taken S i) (commit_call rq sc ad i g)
    (\<lambda>r w. slots w = S(i := S i + 1) \<and> (r \<noteq> Inr True \<longrightarrow> holds w i))"
  unfolding tri_def
proof (intro allI impI)
  fix w assume w: "taken S i w"
  obtain r w' where e: "commit_call rq sc ad i g w = (r, w')" by fastforce
  have "slots w' = slots w \<and> (r \<noteq> Inr True \<longrightarrow> holds w' i)"
  proof (cases "rq_commit rq")
    case None
    with commit_law[OF assms(1), of w i g r w'] w e show ?thesis by (simp add: commit_call_def)
  next
    case (Some f)
    with assms(2)[unfolded commit_quiet_def, rule_format, OF Some, of w i g r w'] w e
    show ?thesis by (simp add: commit_call_def)
  qed
  with w show "case commit_call rq sc ad i g w of (r, w') \<Rightarrow>
      slots w' = S(i := S i + 1) \<and> (r \<noteq> Inr True \<longrightarrow> holds w' i)" by (simp add: e)
qed

lemma best_effort_tri:
  assumes "\<And>a. m = Some a \<Longrightarrow> keeps I a"
  shows "tri I (best_effort m) (\<lambda>r w. r = Inr () \<and> I w)"
proof (cases m)
  case None
  then show ?thesis by (simp add: best_effort_def tri_ret)
next
  case (Some a)
  have "tri I (catch_act a (\<lambda>_. ret ())) (\<lambda>r w. r = Inr () \<and> I w)"
    by (rule tri_catch[where R = "\<lambda>_. I"], rule keeps_tri[OF assms[OF Some]])
      (auto intro: tri_ret split: sum.split)
  with Some show ?thesis by (simp add: best_effort_def)
qed

lemma finalize_tri:
  assumes "work sc"
  shows "tri (\<lambda>w. slots w = S) (bind_act (best_effort (map_option (\<lambda>f. f sc) (ad_commit_complete ad))) (\<lambda>_.
      bind_act (best_effort (map_option (\<lambda>f. f sc i) (ad_load_complete ad))) (\<lambda>_. ret True)))
    (\<lambda>r w. r = Inr True \<and> slots w = S)"
proof -
  have c: "keeps (\<lambda>w. slots w = S) a"
    if "map_option (\<lambda>f. f sc) (ad_commit_complete ad) = Some a" for a
    using quiet_commit_complete[OF assms] that by auto
  have l: "keeps (\<lambda>w. slots w = S) a"
    if "map_option (\<lambda>f. f sc i) (ad_load_complete ad) = Some a" for a
    using quiet_load_complete[OF assms] that by auto
  show ?thesis
    by (rule tri_bind[where R = "\<lambda>_ w. slots w = S"], rule tri_weaken[OF best_effort_tri[OF c]],
        assumption, assumption, simp, rule tri_bind[where R = "\<lambda>_ w. slots w = S"],
        rule tri_weaken[OF best_effort_tri[OF l]], assumption, assumption, simp)
      (simp add: tri_ret)
qed

lemma commit_reserved_tri:
  assumes "work sc" "0 \<le> S i" "commit_quiet rq"
  shows "tri (taken S i) (commit_reserved rq sc ad i g)
    (\<lambda>r w. case r of Inl e \<Rightarrow> slots w = S \<and> free w
       | Inr ok \<Rightarrow> if ok then slots w = S(i := S i + 1) else slots w = S \<and> free w)"
    (is "tri _ _ ?Q")
  unfolding commit_reserved_def
proof (rule tri_catch[where R = "\<lambda>e. taken S i"], goal_cases)
  case 1
  let ?Q' = "\<lambda>r s. case r of Inl e \<Rightarrow> taken S i s | Inr a \<Rightarrow> ?Q (Inr a) s"
  show ?case
  proof (rule tri_bind[where R = "\<lambda>ok w. slots w = S(i := S i + 1) \<and> (\<not> ok \<longrightarrow> holds w i)"],
      goal_cases)
    case 1
    show ?case by (rule tri_weaken[OF commit_call_tri[OF assms(1,3)]]) (auto split: sum.split)
  next
    case (2 ok)
    show ?case
    proof (cases ok)
      case True
      have "tri (\<lambda>w. slots w = S(i := S i + 1))
         (bind_act (best_effort (map_option (\<lambda>f. f sc) (ad_commit_complete ad))) (\<lambda>_.
            bind_act (best_effort (map_option (\<lambda>f. f sc i) (ad_load_complete ad))) (\<lambda>_. ret True))) ?Q'"
        by (rule tri_weaken[OF finalize_tri[OF assms(1), of "S(i := S i + 1)" i]]) simp_all
      with True show ?thesis by simp
    next
      case False
      have "tri (taken S i) (bind_act (ad_release ad sc i) (\<lambda>_. ret False)) ?Q'"
        by (rule tri_bind[where R = "\<lambda>_ w. slots w = S \<and> free w"])
          (rule tri_weaken[OF release_tri[of sc S i, OF assms(1,2)]], auto intro!: tri_ret)
      with False show ?thesis by simp
    qed
  qed
next
  case (2 e)
  show ?case
    by (rule tri_bind[where R = "\<lambda>_ w. slots w = S \<and> free w"])
      (rule tri_weaken[OF release_tri[of sc S i, OF assms(1,2)]], auto intro!: tri_throw)
qed

text \<open>
  \<open>books S\<close>: before a decision the slots are \<open>S\<close> and none is held for the command; after it
  they are \<open>S\<close> settled with the decision, and after an error they are \<open>S\<close>.
\<close>

abbreviation books :: "(string \<Rightarrow> int) \<Rightarrow> 'w cstate \<Rightarrow> bool" where
  "books S \<equiv> \<lambda>s. slots (cs_world s) = S \<and> free (cs_world s)"

abbreviation balanced :: "(string \<Rightarrow> int) \<Rightarrow> 'w request \<Rightarrow> (string, decision) result \<Rightarrow> 'w cstate \<Rightarrow> bool" where
  "balanced S rq \<equiv> \<lambda>r s. case r of Inl e \<Rightarrow> slots (cs_world s) = S
     | Inr d \<Rightarrow> slots (cs_world s) = (if rq_dry rq then S else settled S d)"

lemma finish_tri:
  assumes "\<not> rq_dry rq \<Longrightarrow> settled S0 d = S"
    and "rq_dry rq \<Longrightarrow> S0 = S"
  shows "tri (\<lambda>s. slots (cs_world s) = S) (finish rq d) (balanced S0 rq)"
  using assms by (auto simp: tri_def finish_def Let_def)

lemma finish_free_tri:
  assumes "\<not> rq_dry rq \<Longrightarrow> settled S d = S"
  shows "tri (books S) (finish rq d) (balanced S rq)"
  using assms by (auto simp: tri_def finish_def Let_def)

lemma direct_reserve_tri:
  assumes "work sc"
  shows "tri (books S) (lift_act (ad_reserve ad sc [i] LeastBusy max_safe_integer))
    (\<lambda>r s. taken S i (cs_world s))"
proof -
  have "tri (\<lambda>w. slots w = S \<and> free w) (ad_reserve ad sc [i] LeastBusy max_safe_integer)
      (\<lambda>r w. taken S i w)"
    unfolding tri_def
  proof (intro allI impI)
    fix w assume w: "slots w = S \<and> free w"
    obtain r w' where e: "ad_reserve ad sc [i] LeastBusy max_safe_integer w = (r, w')" by fastforce
    with reserve_direct[OF assms] w have "r = Inr (Some i)" by blast
    with reserve_some[OF assms] w e
    show "case ad_reserve ad sc [i] LeastBusy max_safe_integer w of (r, w') \<Rightarrow> taken S i w'"
      by auto
  qed
  then show ?thesis
    by (rule tri_lift[where P = "\<lambda>w t. slots w = S \<and> free w"
          and Q = "\<lambda>r w t. taken S i w"])
qed

lemma commit_reserved_lift:
  assumes "work sc" "\<And>i. 0 \<le> S i" "commit_quiet rq"
  shows "tri (\<lambda>s. taken S i (cs_world s)) (lift_act (commit_reserved rq sc ad i g))
    (\<lambda>r s. case r of Inl e \<Rightarrow> books S s
       | Inr ok \<Rightarrow> if ok then slots (cs_world s) = S(i := S i + 1) else books S s)"
  by (rule tri_weaken[OF tri_lift[where P = "\<lambda>w t. taken S i w",
          OF commit_reserved_tri[OF assms(1,2,3)]]]) auto

lemma commit_direct_tri:
  assumes "work sc" "\<And>i. 0 \<le> S i" "commit_quiet rq"
  shows "tri (books S) (commit_direct rq sc ad who grp strat key why)
    (\<lambda>r s. balanced S rq r s \<and> (\<forall>d. r = Inr d \<longrightarrow> d_outcome d \<noteq> Offered))"
  unfolding commit_direct_def
proof (rule tri_if)
  assume "rq_dry rq"
  then show "tri (books S) (finish rq (plain_decision Assigned (Some who) grp strat key why None 1 1 None))
    (\<lambda>r s. balanced S rq r s \<and> (\<forall>d. r = Inr d \<longrightarrow> d_outcome d \<noteq> Offered))"
    by (auto simp: tri_def finish_def Let_def plain_decision_def)
next
  assume nd: "\<not> rq_dry rq"
  let ?Q = "\<lambda>r s. balanced S rq r s \<and> (\<forall>d. r = Inr d \<longrightarrow> d_outcome d \<noteq> Offered)"
  show "tri (books S) (bind_act (lift_act (ad_reserve ad sc [who] LeastBusy max_safe_integer)) (\<lambda>_.
        bind_act (lift_act (commit_reserved rq sc ad who grp)) (\<lambda>committed.
          if \<not> committed
          then finish rq (plain_decision Queued None grp strat KCommitRaceLost
                 (RDirectRaceLost why) None 1 1 None)
          else finish rq (plain_decision Assigned (Some who) grp strat key why None 1 1 None)))) ?Q"
  proof (rule tri_bind[where R = "\<lambda>_ s. taken S who (cs_world s)"])
    show "tri (books S) (lift_act (ad_reserve ad sc [who] LeastBusy max_safe_integer))
        (\<lambda>r s. case r of Inl e \<Rightarrow> ?Q (Inl e) s | Inr a \<Rightarrow> taken S who (cs_world s))"
    proof -
      have "r = Inr (Some who)" if "books S s"
        "lift_act (ad_reserve ad sc [who] LeastBusy max_safe_integer) s = (r, s')" for r s s'
        using that reserve_direct[OF assms(1)] by (auto simp: lift_act_def split: prod.splits)
      with direct_reserve_tri[OF assms(1), of S who] show ?thesis
        by (fastforce simp: tri_def)
    qed
    show "tri (\<lambda>s. taken S who (cs_world s))
       (bind_act (lift_act (commit_reserved rq sc ad who grp)) (\<lambda>committed.
          if \<not> committed
          then finish rq (plain_decision Queued None grp strat KCommitRaceLost
                 (RDirectRaceLost why) None 1 1 None)
          else finish rq (plain_decision Assigned (Some who) grp strat key why None 1 1 None))) ?Q" for a
      by (rule tri_bind[where R = "\<lambda>ok s. slots (cs_world s) = (if ok then S(who := S who + 1) else S)"],
          rule tri_weaken[OF commit_reserved_lift[OF assms]])
        (auto simp: tri_def finish_def Let_def plain_decision_def settled_def nd split: sum.splits if_splits)
  qed
qed

lemma try_fallback_tri:
  assumes "work sc" "\<And>i. 0 \<le> S i" "commit_quiet rq"
  shows "tri (books S) (try_fallback rq sc ad cfg grp why)
    (\<lambda>r s. case r of Inl e \<Rightarrow> False | Inr None \<Rightarrow> slots (cs_world s) = S
       | Inr (Some d) \<Rightarrow> slots (cs_world s) = (if rq_dry rq then S else settled S d))"
    (is "tri _ _ ?Q")
  unfolding try_fallback_def
proof (rule tri_cases_option)
  fix owner
  show "tri (books S) (if rq_dry rq then ret None else catch_act
            (bind_act (commit_direct rq sc ad owner grp ''fallback'' KFallbackOwner (RWithFallback why))
               (\<lambda>d. ret (if d_outcome d = Assigned then Some d else None)))
            (\<lambda>_. ret None)) ?Q"
  proof (rule tri_if)
    assume nd: "\<not> rq_dry rq"
    let ?R = "\<lambda>e s. slots (cs_world s) = S"
    show "tri (books S) (catch_act
            (bind_act (commit_direct rq sc ad owner grp ''fallback'' KFallbackOwner (RWithFallback why))
               (\<lambda>d. ret (if d_outcome d = Assigned then Some d else None)))
            (\<lambda>_. ret None)) ?Q"
    proof (rule tri_catch[where R = ?R])
      show "tri (books S) (bind_act (commit_direct rq sc ad owner grp ''fallback'' KFallbackOwner (RWithFallback why))
               (\<lambda>d. ret (if d_outcome d = Assigned then Some d else None)))
          (\<lambda>r s. case r of Inl e \<Rightarrow> ?R e s | Inr a \<Rightarrow> ?Q (Inr a) s)"
        by (rule tri_bind[where R = "\<lambda>d s. slots (cs_world s) = settled S d \<and> d_outcome d \<noteq> Offered"],
            rule tri_weaken[OF commit_direct_tri[OF assms]])
          (auto simp: tri_def ret_def nd settled_def split: sum.splits option.splits)
    qed (auto intro!: tri_ret)
  qed (auto intro!: tri_ret)
qed (auto intro!: tri_ret)

lemma park_lift:
  assumes "work sc"
  shows "tri (\<lambda>s. slots (cs_world s) = S) (lift_act (park ad sc g)) (\<lambda>r s. slots (cs_world s) = S)"
proof -
  have "keeps (\<lambda>w. slots w = S) (park ad sc g)"
    unfolding park_def using quiet_park[OF assms] by (intro keeps_best_effort) auto
  from keeps_lift[OF this] show ?thesis by (simp add: keeps_def)
qed

lemma maybe_park_tri:
  assumes "work sc"
  shows "tri (\<lambda>s. slots (cs_world s) = S)
    (case truthy_id grp of Some g \<Rightarrow> if rq_dry rq then ret () else lift_act (park ad sc g) | None \<Rightarrow> ret ())
    (\<lambda>r s. slots (cs_world s) = S)"
  using park_lift[OF assms] by (auto intro!: tri_ret split: option.split)

lemma queue_or_fallback_tri:
  assumes "work sc" "\<And>i. 0 \<le> S i" "commit_quiet rq"
  shows "tri (books S) (queue_or_fallback rq sc ad cfg strat rule grp key why pool elig traces) (balanced S rq)"
  unfolding queue_or_fallback_def
proof (rule tri_bind[where R = "\<lambda>fb s. case fb of None \<Rightarrow> slots (cs_world s) = S
       | Some d \<Rightarrow> slots (cs_world s) = (if rq_dry rq then S else settled S d)"])
  show "tri (books S) (try_fallback rq sc ad cfg grp why)
     (\<lambda>r s. case r of Inl e \<Rightarrow> balanced S rq (Inl e) s
       | Inr fb \<Rightarrow> (case fb of None \<Rightarrow> slots (cs_world s) = S
         | Some d \<Rightarrow> slots (cs_world s) = (if rq_dry rq then S else settled S d)))"
    by (rule tri_weaken[OF try_fallback_tri[OF assms]]) (auto split: sum.splits option.splits)
  fix fb
  show "tri (\<lambda>s. case fb of None \<Rightarrow> slots (cs_world s) = S
       | Some d \<Rightarrow> slots (cs_world s) = (if rq_dry rq then S else settled S d))
    (case fb of Some d \<Rightarrow> ret d
       | None \<Rightarrow> bind_act (case truthy_id grp of
               Some g \<Rightarrow> if rq_dry rq then ret () else lift_act (park ad sc g) | None \<Rightarrow> ret ()) (\<lambda>_.
           finish rq (plain_decision Queued None grp strat key why rule pool elig traces)))
    (balanced S rq)"
  proof (cases fb)
    case None
    have "tri (\<lambda>s. slots (cs_world s) = S)
      (bind_act (case truthy_id grp of
               Some g \<Rightarrow> if rq_dry rq then ret () else lift_act (park ad sc g) | None \<Rightarrow> ret ()) (\<lambda>_.
           finish rq (plain_decision Queued None grp strat key why rule pool elig traces))) (balanced S rq)"
      by (rule tri_seq[OF maybe_park_tri[OF assms(1)]], simp, rule finish_tri) simp_all
    with None show ?thesis by simp
  next
    case (Some d)
    then show ?thesis by (auto simp: tri_def ret_def)
  qed
qed

lemma lift_quiet:
  assumes "keeps (\<lambda>w. slots w = S \<and> free w) m"
  shows "tri (books S) (lift_act m) (\<lambda>r. books S)"
  using keeps_lift[OF assms] by (simp add: keeps_def)

lemma lift_reserve_tri:
  assumes "work sc"
  shows "tri (books S) (lift_act (ad_reserve ad sc ids st cap))
    (\<lambda>r s. case r of Inl e \<Rightarrow> books S s | Inr None \<Rightarrow> books S s
       | Inr (Some i) \<Rightarrow> taken S i (cs_world s))"
  by (rule tri_weaken[OF tri_lift[where P = "\<lambda>w t. slots w = S \<and> free w", OF reserve_tri[OF assms]]])
    (auto split: sum.splits option.splits)

lemma quiet_order:
  assumes "work sc"
  shows "keeps (\<lambda>w. slots w = S \<and> free w) (order_candidates reg ad sc ids st)"
  using quiet_rotate[OF assms] by (auto simp: order_candidates_def split: option.split)

lemma quiet_preview_selection:
  assumes "work sc"
  shows "keeps (\<lambda>w. slots w = S \<and> free w) (preview_selection reg ad sc ids st cfg)"
  unfolding preview_selection_def Let_def
  using quiet_preview[OF assms] quiet_loads[OF assms]
  by (auto intro!: keeps_bind quiet_order[OF assms] split: option.split)

lemma quiet_chain:
  assumes "work sc"
  shows "keeps (\<lambda>w. slots w = S \<and> free w) (chain_loop ad sc base chain first widest)"
proof (induction chain arbitrary: first widest)
  case Nil
  show ?case by simp
next
  case (Cons g gs)
  then show ?case
    using quiet_may_serve[OF assms] quiet_members[OF assms]
    by (auto simp: Let_def intro!: keeps_bind split: option.split)
qed

lemma quiet_resolve:
  assumes "work sc"
  shows "keeps (\<lambda>w. slots w = S \<and> free w) (resolve_target ad sc tgt base dg)"
  unfolding resolve_target_def Let_def
  using quiet_chain[OF assms] quiet_members[OF assms]
  by (auto intro!: keeps_bind split: option.split)

lemma quiet_filter_skills:
  assumes "work sc"
  shows "keeps (\<lambda>w. slots w = S \<and> free w) (filter_by_skills ad sc ids required enabled mode)"
  unfolding filter_by_skills_def Let_def
  using quiet_skills[OF assms] by (auto intro!: keeps_bind)

lemma try_preferred_tri:
  assumes "work sc" "\<And>i. 0 \<le> S i" "commit_quiet rq" "\<not> rq_dry rq"
  shows "tri (books S) (try_preferred rq sc ad cfg eligible tgt rule traces pf)
    (\<lambda>r s. case r of Inl e \<Rightarrow> slots (cs_world s) = S | Inr None \<Rightarrow> books S s
       | Inr (Some d) \<Rightarrow> slots (cs_world s) = settled S d)"
    (is "tri _ _ ?Q")
  unfolding try_preferred_def
proof (rule tri_if)
  let ?R = "\<lambda>rv s. case rv of None \<Rightarrow> books S s | Some i \<Rightarrow> taken S i (cs_world s)"
  let ?fin = "\<lambda>d. bind_act (finish rq d) (\<lambda>d. ret (Some d))"
  have fin: "tri (\<lambda>s. slots (cs_world s) = settled S d) (?fin d) ?Q" for d
    using assms(4) by (auto simp: tri_def bind_act_def ret_def finish_def Let_def)
  have fin0: "tri (books S) (?fin d) ?Q" if "settled S d = S" for d
    using fin[of d] that by (auto simp: tri_def)
  assume "\<not> pf_id pf \<notin> set eligible"
  show "tri (books S) (bind_act (lift_act (ad_reserve ad sc [pf_id pf] CapacityBased (cfg_capacity cfg))) (\<lambda>reserved.
        case reserved of
          None \<Rightarrow>
            (let wait = cfg_wait_minutes cfg in
             if pf_on_busy pf = OnBusyWait \<and> num_less (Dec 0 0) wait then
               bind_act (finish rq
                 ((plain_decision Deferred None (tg_owner tgt) ''preferred'' KPreferredWait
                     (RPreferredBusy (pf_id pf) wait) rule (tg_pool tgt) (length eligible) traces)
                   \<lparr>d_params := Some [(''minutes'', JNum wait)], d_deferred := Some (pf_id pf, wait)\<rparr>))
                 (\<lambda>d. ret (Some d))
             else ret None)
        | Some who \<Rightarrow>
            bind_act (lift_act (commit_reserved rq sc ad who (tg_owner tgt))) (\<lambda>committed.
              if \<not> committed then
                bind_act (finish rq (plain_decision Queued None (tg_owner tgt) ''preferred''
                    KCommitRaceLost RPreferredRaceLost rule (tg_pool tgt) (length eligible) traces))
                  (\<lambda>d. ret (Some d))
              else
                let oc = commit_outcome_of rq; src = truthy_id (pf_source pf) in
                bind_act (finish rq
                  ((plain_decision oc (Some who) (tg_owner tgt) ''preferred''
                      (if oc = Offered then KOffered else KPreferredAssignee)
                      (RPreferred src) rule (tg_pool tgt) (length eligible) traces)
                    \<lparr>d_params := map_option (\<lambda>x. [(''source'', JStr x)]) src\<rparr>))
                  (\<lambda>d. ret (Some d))))) ?Q"
  proof (rule tri_bind[where R = ?R])
    show "tri (books S) (lift_act (ad_reserve ad sc [pf_id pf] CapacityBased (cfg_capacity cfg)))
      (\<lambda>r s. case r of Inl e \<Rightarrow> ?Q (Inl e) s | Inr a \<Rightarrow> ?R a s)"
      by (rule tri_weaken[OF lift_reserve_tri[OF assms(1)]]) (auto split: sum.splits option.splits)
  next
    fix rv
    show "tri (?R rv) (case rv of
          None \<Rightarrow>
            (let wait = cfg_wait_minutes cfg in
             if pf_on_busy pf = OnBusyWait \<and> num_less (Dec 0 0) wait then
               ?fin
                 ((plain_decision Deferred None (tg_owner tgt) ''preferred'' KPreferredWait
                     (RPreferredBusy (pf_id pf) wait) rule (tg_pool tgt) (length eligible) traces)
                   \<lparr>d_params := Some [(''minutes'', JNum wait)], d_deferred := Some (pf_id pf, wait)\<rparr>)
             else ret None)
        | Some who \<Rightarrow>
            bind_act (lift_act (commit_reserved rq sc ad who (tg_owner tgt))) (\<lambda>committed.
              if \<not> committed then
                ?fin (plain_decision Queued None (tg_owner tgt) ''preferred''
                    KCommitRaceLost RPreferredRaceLost rule (tg_pool tgt) (length eligible) traces)
              else
                let oc = commit_outcome_of rq; src = truthy_id (pf_source pf) in
                ?fin
                  ((plain_decision oc (Some who) (tg_owner tgt) ''preferred''
                      (if oc = Offered then KOffered else KPreferredAssignee)
                      (RPreferred src) rule (tg_pool tgt) (length eligible) traces)
                    \<lparr>d_params := map_option (\<lambda>x. [(''source'', JStr x)]) src\<rparr>))) ?Q"
    proof (cases rv)
      case None
      then show ?thesis
        using fin0 by (auto simp: Let_def intro!: tri_ret)
    next
      case (Some who)
      have "tri (\<lambda>s. taken S who (cs_world s))
         (bind_act (lift_act (commit_reserved rq sc ad who (tg_owner tgt))) (\<lambda>committed.
              if \<not> committed then
                ?fin (plain_decision Queued None (tg_owner tgt) ''preferred''
                    KCommitRaceLost RPreferredRaceLost rule (tg_pool tgt) (length eligible) traces)
              else
                let oc = commit_outcome_of rq; src = truthy_id (pf_source pf) in
                ?fin
                  ((plain_decision oc (Some who) (tg_owner tgt) ''preferred''
                      (if oc = Offered then KOffered else KPreferredAssignee)
                      (RPreferred src) rule (tg_pool tgt) (length eligible) traces)
                    \<lparr>d_params := map_option (\<lambda>x. [(''source'', JStr x)]) src\<rparr>))) ?Q"
        (is "tri _ (bind_act _ ?next) _")
      proof (rule tri_bind[where R = "\<lambda>ok s. if ok then slots (cs_world s) = S(who := S who + 1) else books S s"])
        show "tri (\<lambda>s. taken S who (cs_world s))
          (lift_act (commit_reserved rq sc ad who (tg_owner tgt)))
          (\<lambda>r s. case r of Inl e \<Rightarrow> ?Q (Inl e) s
             | Inr ok \<Rightarrow> if ok then slots (cs_world s) = S(who := S who + 1) else books S s)"
          by (rule tri_weaken[OF commit_reserved_lift[OF assms(1,2,3)]]) (auto split: sum.splits)
        fix ok
        show "tri (\<lambda>s. if ok then slots (cs_world s) = S(who := S who + 1) else books S s) (?next ok) ?Q"
        proof (cases ok)
          case True
          let ?oc = "commit_outcome_of rq" and ?src = "truthy_id (pf_source pf)"
          let ?d = "(plain_decision ?oc (Some who) (tg_owner tgt) ''preferred''
                      (if ?oc = Offered then KOffered else KPreferredAssignee)
                      (RPreferred ?src) rule (tg_pool tgt) (length eligible) traces)
                    \<lparr>d_params := map_option (\<lambda>x. [(''source'', JStr x)]) ?src\<rparr>"
          have "settled S ?d = S(who := S who + 1)"
            by (simp add: commit_outcome_of_def split: commit_outcome.split)
          with True fin[of ?d] show ?thesis by (simp add: Let_def)
        next
          case False
          then show ?thesis using fin0 by simp
        qed
      qed
      with Some show ?thesis by simp
    qed
  qed
qed (auto intro!: tri_ret)

lemma reserve_and_commit_tri:
  assumes "work sc" "\<And>i. 0 \<le> S i" "commit_quiet rq" "\<not> rq_dry rq"
  shows "tri (books S) (reserve_and_commit rq sc ad reg cfg eligible tgt rule strat traces) (balanced S rq)"
  unfolding reserve_and_commit_def
proof (rule tri_seq[OF lift_quiet[OF quiet_order[OF assms(1)]]], goal_cases)
  case (1 e s)
  then show ?case by simp
next
  case (2 ordered)
  show ?case
  proof (rule tri_bind[where R = "\<lambda>rv s. case rv of None \<Rightarrow> books S s
        | Some i \<Rightarrow> taken S i (cs_world s)"], goal_cases)
    case 1
    show ?case
      by (rule tri_weaken[OF lift_reserve_tri[OF assms(1)]]) (auto split: sum.splits option.splits)
  next
    case (2 rv)
    show ?case
    proof (cases rv)
      case None
      with queue_or_fallback_tri[OF assms(1,2,3)] show ?thesis by simp
    next
      case (Some who)
      have "tri (\<lambda>s. taken S who (cs_world s))
        (bind_act (lift_act (commit_reserved rq sc ad who (tg_owner tgt))) (\<lambda>committed.
           if \<not> committed then
             queue_or_fallback rq sc ad cfg (strategy_name strat) rule (tg_owner tgt)
               KCommitRaceLost (RRaceLost who) (tg_pool tgt) (length eligible) traces
           else
             finish rq (plain_decision (commit_outcome_of rq) (Some who) (tg_owner tgt)
               (strategy_name strat) (if commit_outcome_of rq = Offered then KOffered else KAssigned)
               (case rule of Some (i, n) \<Rightarrow> RRuleMatched n strat | None \<Rightarrow> RDefaultAssign strat)
               rule (tg_pool tgt) (length eligible) traces))) (balanced S rq)"
      proof (rule tri_bind[where R = "\<lambda>ok s. if ok then slots (cs_world s) = S(who := S who + 1) else books S s"],
          goal_cases)
        case 1
        show ?case
          by (rule tri_weaken[OF commit_reserved_lift[OF assms(1,2,3)]]) (auto split: sum.splits)
      next
        case (2 ok)
        show ?case
        proof (cases ok)
          case True
          have s: "settled S (plain_decision (commit_outcome_of rq) (Some who) grp st key why rule p e tr)
              = S(who := S who + 1)" for grp st key why rule p e tr
            by (simp add: commit_outcome_of_def split: commit_outcome.split)
          have "tri (\<lambda>s. slots (cs_world s) = S(who := S who + 1))
             (finish rq (plain_decision (commit_outcome_of rq) (Some who) grp st key why rule p e tr))
             (balanced S rq)" for grp st key why rule p e tr
            by (rule finish_tri) (use assms(4) in \<open>simp_all only: s not_False_eq_True simp_thms\<close>)
          with True show ?thesis by (simp only: not_True_eq_False if_False if_True)
        next
          case False
          with queue_or_fallback_tri[OF assms(1,2,3)] show ?thesis by simp
        qed
      qed
      with Some show ?thesis by simp
    qed
  qed
qed

lemma decide_eligible_tri:
  assumes "work sc" "\<And>i. 0 \<le> S i" "commit_quiet rq"
  shows "tri (books S) (decide_eligible rq sc ad reg cfg skilled tgt rule strat traces) (balanced S rq)"
  unfolding decide_eligible_def
proof (rule tri_seq[where J = "books S"], goal_cases)
  case 1
  then show ?case
    using quiet_available[OF assms(1)] by (auto intro!: tri_ret lift_quiet split: option.split)
next
  case (2 e s)
  then show ?case by simp
next
  case (3 eligible)
  note queue = queue_or_fallback_tri[OF assms(1,2,3)]
  show ?case
  proof (rule tri_if[OF queue], rule tri_if, goal_cases)
    case 1
    show ?case
      by (rule tri_seq[OF lift_quiet[OF quiet_preview_selection[OF assms(1)]]])
        (use 1 in \<open>auto simp: tri_def finish_def Let_def\<close>)
  next
    case 2
    note direct = reserve_and_commit_tri[OF assms 2(2)]
    show ?case
    proof (rule tri_cases_option[OF direct], goal_cases)
      case (1 pf)
      show ?case
      proof (rule tri_bind[where R = "\<lambda>rv s. case rv of None \<Rightarrow> books S s
            | Some d \<Rightarrow> slots (cs_world s) = settled S d"], goal_cases)
        case 1
        show ?case
          by (rule tri_weaken[OF try_preferred_tri[OF assms 2(2)]]) (auto split: sum.splits)
      next
        case (2 rv)
        then show ?case
          using direct \<open>\<not> rq_dry rq\<close> by (cases rv) (auto intro!: tri_ret)
      qed
    qed
  qed
qed

lemma decide_target_tri:
  assumes "work sc" "\<And>i. 0 \<le> S i" "commit_quiet rq"
  shows "tri (books S) (decide_target rq sc ad reg cfg eff rule strat required traces) (balanced S rq)"
  unfolding decide_target_def
proof (rule tri_seq[OF lift_quiet[OF quiet_base[OF assms(1)]]], simp,
    rule tri_seq[OF lift_quiet[OF quiet_resolve[OF assms(1)]]], simp,
    rule tri_cases_option, goal_cases)
  case (1 pool resolved)
  show ?case unfolding Let_def by (rule finish_free_tri) simp
next
  case (2 pool resolved tgt)
  have w: "work (sc\<lparr>sco_group := g\<rparr>)" for g by (rule work_group[OF assms(1)])
  show ?case
    unfolding Let_def
    by (rule tri_if[OF queue_or_fallback_tri[OF assms]],
        rule tri_seq[OF lift_quiet[OF quiet_filter_skills[OF w]]], simp,
        rule tri_if[OF queue_or_fallback_tri[OF w assms(2,3)]],
        rule decide_eligible_tri[OF w assms(2,3)])
qed

definition services_quiet :: "'w services \<Rightarrow> bool" where
  "services_quiet sv \<longleftrightarrow>
     (\<forall>S t o1 ov. keeps (\<lambda>w. slots w = S \<and> free w) (sv_config sv t o1 ov)) \<and>
     (\<forall>S t o1 at ex. keeps (\<lambda>w. slots w = S \<and> free w) (sv_rules sv t o1 at ex)) \<and>
     (\<forall>S t o1 cfg rules f. sv_capture sv = Some f \<longrightarrow>
        keeps (\<lambda>w. slots w = S \<and> free w) (f t o1 cfg rules))"

lemma evaluate_request_keeps:
  assumes "services_quiet sv"
  shows "keeps (\<lambda>w. slots w = S \<and> free w) (evaluate_request sv rq cfg)"
  using assms unfolding evaluate_request_def services_quiet_def
  by (auto intro!: keeps_bind split: option.split)

end

lemma evaluate_request_same:
  "evaluate_request sv rq cfg w = (Inr (found, traces, rq'), w') \<Longrightarrow>
   rq_dry rq' = rq_dry rq \<and> rq_commit rq' = rq_commit rq \<and> rq_restrict rq' = rq_restrict rq \<and>
   rq_exclude rq' = rq_exclude rq \<and> rq_tenant rq' = rq_tenant rq \<and> rq_type rq' = rq_type rq"
  by (auto simp: evaluate_request_def ret_def bind_act_def split: if_splits prod.splits sum.splits option.splits)

context slot_ports begin

lemma decide_rules_tri:
  assumes "work sc" "\<And>i. 0 \<le> S i" "commit_quiet rq" "services_quiet sv"
  shows "tri (books S) (decide_rules sv rq sc ad cfg) (balanced S rq)"
  unfolding decide_rules_def
proof (rule tri_bind[where R = "\<lambda>(found, traces, rq') s. books S s \<and>
      rq_dry rq' = rq_dry rq \<and> rq_commit rq' = rq_commit rq"], goal_cases)
  case 1
  show ?case
    unfolding tri_def
  proof (intro allI impI, goal_cases)
    case (1 s)
    then have s: "books S s" .
    obtain r w' where e: "evaluate_request sv rq cfg (cs_world s) = (r, w')" by fastforce
    from evaluate_request_keeps[OF assms(4), of S rq cfg] s e
    have q: "slots w' = S \<and> free w'" by (auto simp: keeps_def tri_def)
    show ?case
    proof (cases r)
      case (Inl err)
      with q e show ?thesis by (simp add: lift_act_def)
    next
      case (Inr res)
      obtain found traces rq' where res: "res = (found, traces, rq')" by (cases res) auto
      with evaluate_request_same[of sv rq cfg "cs_world s" found traces rq' w'] e Inr q
      show ?thesis by (simp add: lift_act_def)
    qed
  qed
next
  case (2 res)
  obtain found traces rq' where res: "res = (found, traces, rq')" by (cases res) auto
  show ?case
    unfolding res prod.case Let_def
  proof (subst tri_guard, rule impI, elim conjE, goal_cases)
    case 1
    then have cq: "commit_quiet rq'" using assms(3) by (simp add: commit_quiet_def)
    from 1 have bal: "balanced S rq = balanced S rq'" by (simp only:)
    show ?case
      unfolding bal
    proof (rule tri_if, goal_cases)
      case 1
      show ?case
        by (rule tri_weaken[where P = "\<lambda>s. slots (cs_world s) = S" and Q = "balanced S rq'"],
            rule tri_seq[OF maybe_park_tri[OF assms(1), of S]], simp, rule finish_tri) simp_all
    next
      case 2
      show ?case by (rule decide_target_tri[OF assms(1,2) cq])
    qed
  qed
qed

lemma assign_balanced:
  assumes "sv_adapters sv (rq_type rq) = Some ad"
    and "work (request_scope (sv_parse_date sv) rq)" "commit_quiet rq" "services_quiet sv"
  shows "tri (books S) (assign sv rq) (balanced S rq)"
proof (cases "\<exists>w. slots w = S \<and> free w")
  case False
  then show ?thesis by (auto simp: tri_def)
next
  case True
  then have pos: "\<And>i. 0 \<le> S i" using slots_nonneg by metis
  note facts = assms(2) pos assms(3)
  have cfg: "keeps (\<lambda>w. slots w = S \<and> free w) (sv_config sv t o1 ov)" for t o1 ov
    using assms(4) by (simp add: services_quiet_def)
  show ?thesis
    unfolding assign_def Let_def assms(1) option.case
    by (rule tri_if, rule finish_free_tri, simp, rule tri_seq[OF lift_quiet[OF cfg]], simp,
        rule tri_cases_option, rule tri_if, rule finish_free_tri, simp,
        rule decide_rules_tri[OF facts assms(4)], rule tri_weaken[OF commit_direct_tri[OF facts]])
      (assumption, blast)
qed

end

end
