(* ===== verification/Record_Adapter.thy ===== *)
theory Record_Adapter
  imports Assignment_Core_Safety
begin

text \<open>
  The adapter of the CRM record types (\<open>src/src/assignment/adapters/record\<close>): where the
  candidates, the open-work counts and the commit of a Lead, Contact, Account, Ticket, Task or
  Deal come from; the listener that keeps the Redis counters in step with entity events and
  the reconciliation that corrects their drift (\<open>infrastructure/workload\<close>). The adapter over a
  healthy Redis is shown to satisfy the contract \<open>slot_ports\<close>.

  Ids are compared as the texts they print to; \<open>ObjectId.isValid\<close>, \<open>localeCompare\<close>, the
  presence snapshot and the group and user documents are the environment of a decision.
\<close>

section \<open>The world of the adapter\<close>

record mdoc =
  md_collection :: string
  md_id :: string
  md_tenant :: string
  md_owner :: "string option" \<comment> \<open>\<open>ownerId\<close>, null or absent when \<open>None\<close>\<close>
  md_explicit :: "bool option"
  md_command :: "string option"
  md_fields :: bag \<comment> \<open>the other fields the document holds\<close>

record queue_item =
  qi_tenant :: string
  qi_type :: object_type
  qi_entity :: string
  qi_group :: string
  qi_status :: string
  qi_priority :: int
  qi_due :: "int option"

record rec_world =
  rw_store :: store
  rw_docs :: "mdoc list"
  rw_queue :: "queue_item list"

record group_doc =
  gd_id :: string
  gd_member_ids :: "string list option"
  gd_members :: "string list option"

record user_doc =
  ud_id :: string
  ud_tenants :: "string list"
  ud_skills :: "string list option"

record presence_row =
  pr_user :: string
  pr_presence :: string
  pr_connection :: string

record rec_env =
  re_valid :: "string \<Rightarrow> bool"
  re_le :: "string \<Rightarrow> string \<Rightarrow> bool"
  re_groups :: "group_doc list option" \<comment> \<open>\<open>None\<close>: the query throws\<close>
  re_users :: "user_doc list option"
  re_presence :: "presence_row list option option" \<comment> \<open>provider absent; provider throws\<close>
  re_count_up :: bool \<comment> \<open>the aggregate answers\<close>
  re_write_up :: bool \<comment> \<open>\<open>updateOne\<close> on the record answers\<close>
  re_queue_up :: bool
  re_health :: health
  re_registry :: "registry option"

section \<open>Load\<close>

definition load_source :: "object_type \<Rightarrow> (string \<times> string list) option" where
  "load_source ty =
     (case ty of
        Lead \<Rightarrow> Some (''contacts'', [''deletedAt''])
      | Contact \<Rightarrow> Some (''contacts'', [''deletedAt''])
      | Account \<Rightarrow> Some (''accounts'', [''deletedAt''])
      | Ticket \<Rightarrow> Some (''tickets'', [''deletedAt'', ''resolvedAt'', ''closedAt''])
      | Task \<Rightarrow> Some (''tasks'', [''deletedAt'', ''completedAt''])
      | Deal \<Rightarrow> Some (''deals'', [''deletedAt'', ''wonAt'', ''lostAt''])
      | Conversation \<Rightarrow> None)"

text \<open>\<open>$exists: false\<close> on every listed field: the document has no such key, not even with null.\<close>

definition passes_filter :: "string list \<Rightarrow> bag \<Rightarrow> bool" where
  "passes_filter stamps doc \<longleftrightarrow> list_all (\<lambda>k. k \<notin> fst ` set doc) stamps"

definition counts_for :: "string \<Rightarrow> object_type \<Rightarrow> string \<Rightarrow> mdoc \<Rightarrow> bool" where
  "counts_for tenant ty who d \<longleftrightarrow>
     (case load_source ty of
        None \<Rightarrow> False
      | Some (coll, stamps) \<Rightarrow> md_collection d = coll \<and> md_tenant d = tenant
          \<and> md_owner d = Some who \<and> passes_filter stamps (md_fields d))"

definition open_work :: "rec_env \<Rightarrow> scope \<Rightarrow> rec_world \<Rightarrow> string \<Rightarrow> int" where
  "open_work env sc w who =
     (if re_count_up env then int (length (filter (counts_for (sco_tenant sc) (sco_type sc) who) (rw_docs w)))
      else 0)"

definition count_open_work :: "rec_env \<Rightarrow> scope \<Rightarrow> string list \<Rightarrow> rec_world \<Rightarrow> (string \<times> int) list" where
  "count_open_work env sc ids w = map (\<lambda>i. (i, open_work env sc w i)) (uniq ids)"

definition load_scope :: "scope \<Rightarrow> string" where
  "load_scope sc = sco_tenant sc @ '':'' @ object_type_name (sco_type sc)"

definition cursor_scope :: "scope \<Rightarrow> string" where
  "cursor_scope sc = load_scope sc @ '':'' @ default_to ''-'' (sco_scope sc) @ '':''
     @ default_to ''-'' (sco_group sc)"

definition seed_record :: "rec_env \<Rightarrow> scope \<Rightarrow> string list \<Rightarrow> rec_world \<Rightarrow> rec_world" where
  "seed_record env sc ids w =
     (if ids = [] then w
      else w\<lparr>rw_store := seed (h_eval (re_health env)) (load_scope sc) (count_open_work env sc ids w) []
                (rw_store w)\<rparr>)"

definition rec_loads :: "rec_env \<Rightarrow> scope \<Rightarrow> string list \<Rightarrow> (rec_world, (string \<times> int) list) action" where
  "rec_loads env sc ids = (\<lambda>w.
     let w1 = seed_record env sc ids w
     in (Inr (if ids = [] then [] else scores (h_eval (re_health env)) (load_scope sc) ids (rw_store w1)), w1))"

definition rec_rotate :: "rec_env \<Rightarrow> scope \<Rightarrow> string list \<Rightarrow> (rec_world, string list) action" where
  "rec_rotate env sc ids = (\<lambda>w.
     (Inr (cursor_rotate (re_le env) (h_cursor (re_health env)) (cursor_scope sc) ids (rw_store w)), w))"

definition rec_reserve ::
  "rec_env \<Rightarrow> scope \<Rightarrow> string list \<Rightarrow> strategy \<Rightarrow> jnum \<Rightarrow> (rec_world, string option) action" where
  "rec_reserve env sc ids strat cap = (\<lambda>w.
     let w1 = seed_record env sc ids w;
         (r, s) = zset_reserve (re_registry env) (re_health env) (load_scope sc) (cursor_scope sc)
                    (sco_command sc) ids strat cap False (rw_store w1)
     in (r, w1\<lparr>rw_store := s\<rparr>))"

definition rec_preview ::
  "rec_env \<Rightarrow> scope \<Rightarrow> string list \<Rightarrow> strategy \<Rightarrow> jnum \<Rightarrow> (rec_world, string option) action" where
  "rec_preview env sc ids strat cap = (\<lambda>w.
     let w1 = seed_record env sc ids w
     in (Inr (zset_preview (h_eval (re_health env)) (load_scope sc) ids strat cap False (rw_store w1)), w1))"

definition rec_release :: "rec_env \<Rightarrow> scope \<Rightarrow> string \<Rightarrow> (rec_world, unit) action" where
  "rec_release env sc who = (\<lambda>w.
     (Inr (), w\<lparr>rw_store := zset_release (re_health env) (load_scope sc) who (sco_command sc) (rw_store w)\<rparr>))"

definition rec_load_complete :: "rec_env \<Rightarrow> scope \<Rightarrow> string \<Rightarrow> (rec_world, unit) action" where
  "rec_load_complete env sc who = (\<lambda>w.
     let (r, s) = complete_lease (h_lease (re_health env)) (sco_command sc) (rw_store w)
     in (r, w\<lparr>rw_store := s\<rparr>))"

text \<open>Drift correction of one load scope; \<open>tracked\<close> is the members the sorted set answers.\<close>

definition drift :: "rec_env \<Rightarrow> scope \<Rightarrow> string list \<Rightarrow> rec_world \<Rightarrow> string \<Rightarrow> int" where
  "drift env sc tracked w i =
     default_to 0 (map_of (scores (h_eval (re_health env)) (load_scope sc) tracked (rw_store w)) i)
     - default_to 0 (map_of (count_open_work env sc tracked w) i)"

definition reconcile_tracked ::
  "rec_env \<Rightarrow> scope \<Rightarrow> string list \<Rightarrow> (rec_world, nat \<times> nat \<times> int) action" where
  "reconcile_tracked env sc tracked = (\<lambda>w.
     if tracked = [] then (Inr (0, 0, 0), w)
     else
       let off = filter (\<lambda>i. drift env sc tracked w i \<noteq> 0) tracked;
           report = (length tracked, length off, sum_list (map (\<lambda>i. \<bar>drift env sc tracked w i\<bar>) off))
       in if off = [] then (Inr report, w)
          else if \<not> h_eval (re_health env) then (Inl ''redis'', w)
          else (Inr report,
            w\<lparr>rw_store := overwrite_tracked (load_scope sc) (count_open_work env sc tracked w) (rw_store w)\<rparr>))"

section \<open>Commit\<close>

definition record_collection :: "object_type \<Rightarrow> string option" where
  "record_collection ty =
     (case ty of
        Lead \<Rightarrow> Some ''contacts'' | Contact \<Rightarrow> Some ''contacts'' | Account \<Rightarrow> Some ''accounts''
      | Ticket \<Rightarrow> Some ''tickets'' | Task \<Rightarrow> Some ''tasks'' | Deal \<Rightarrow> Some ''deals''
      | Conversation \<Rightarrow> None)"

definition tracks_owner_intent :: "string \<Rightarrow> bool" where
  "tracks_owner_intent coll \<longleftrightarrow> coll = ''deals'' \<or> coll = ''tickets''"

definition claimable :: "string \<Rightarrow> string option \<Rightarrow> mdoc \<Rightarrow> bool" where
  "claimable coll cmd d \<longleftrightarrow>
     md_owner d = None
     \<or> (tracks_owner_intent coll \<and> md_explicit d = Some False)
     \<or> (case truthy_id cmd of Some k \<Rightarrow> md_command d = Some k | None \<Rightarrow> False)"

definition claim_doc :: "string \<Rightarrow> string option \<Rightarrow> string \<Rightarrow> mdoc \<Rightarrow> mdoc" where
  "claim_doc coll cmd who d =
     (let d1 = d\<lparr>md_owner := Some who\<rparr>;
          d2 = (if tracks_owner_intent coll then d1\<lparr>md_explicit := Some True\<rparr> else d1)
      in case truthy_id cmd of Some k \<Rightarrow> d2\<lparr>md_command := Some k\<rparr> | None \<Rightarrow> d2)"

fun update_one :: "('a \<Rightarrow> bool) \<Rightarrow> ('a \<Rightarrow> 'a) \<Rightarrow> 'a list \<Rightarrow> bool \<times> 'a list" where
  "update_one P f [] = (False, [])"
| "update_one P f (d # ds) =
     (if P d then (True, f d # ds)
      else case update_one P f ds of (m, ds') \<Rightarrow> (m, d # ds'))"

definition rec_commit :: "rec_env \<Rightarrow> scope \<Rightarrow> string \<Rightarrow> string option \<Rightarrow> (rec_world, bool) action" where
  "rec_commit env sc who grp = (\<lambda>w.
     case (record_collection (sco_type sc), truthy_id (sco_entity sc)) of
       (Some coll, Some entity) \<Rightarrow>
         if \<not> re_valid env entity then (Inr False, w)
         else if \<not> re_write_up env then (Inl ''mongo'', w)
         else
           let (matched, docs) = update_one
                 (\<lambda>d. md_collection d = coll \<and> md_id d = entity \<and> md_tenant d = sco_tenant sc
                    \<and> claimable coll (sco_command sc) d)
                 (claim_doc coll (sco_command sc) who) (rw_docs w)
           in (Inr matched, w\<lparr>rw_docs := docs\<rparr>)
     | _ \<Rightarrow> (Inr False, w))"

definition same_item :: "scope \<Rightarrow> string \<Rightarrow> queue_item \<Rightarrow> bool" where
  "same_item sc entity q \<longleftrightarrow>
     qi_tenant q = sco_tenant sc \<and> qi_type q = sco_type sc \<and> qi_entity q = entity"

definition rec_park :: "rec_env \<Rightarrow> scope \<Rightarrow> string \<Rightarrow> (rec_world, unit) action" where
  "rec_park env sc grp = (\<lambda>w.
     case truthy_id (sco_entity sc) of
       None \<Rightarrow> (Inr (), w)
     | Some entity \<Rightarrow>
         if \<not> re_queue_up env then (Inl ''mongo'', w)
         else
           let set_fields = (\<lambda>q. q\<lparr>qi_group := grp, qi_status := ''queued'',
                  qi_priority := sco_priority sc, qi_due := sco_due sc\<rparr>);
               fresh = \<lparr>qi_tenant = sco_tenant sc, qi_type = sco_type sc, qi_entity = entity,
                  qi_group = grp, qi_status = ''queued'', qi_priority = sco_priority sc,
                  qi_due = sco_due sc\<rparr>;
               (matched, items) = update_one (same_item sc entity) set_fields (rw_queue w)
           in (Inr (), w\<lparr>rw_queue := (if matched then items else rw_queue w @ [fresh])\<rparr>))"

fun delete_one :: "('a \<Rightarrow> bool) \<Rightarrow> 'a list \<Rightarrow> 'a list" where
  "delete_one P [] = []"
| "delete_one P (d # ds) = (if P d then ds else d # delete_one P ds)"

definition rec_commit_complete :: "rec_env \<Rightarrow> scope \<Rightarrow> (rec_world, unit) action" where
  "rec_commit_complete env sc = (\<lambda>w.
     case truthy_id (sco_entity sc) of
       None \<Rightarrow> (Inr (), w)
     | Some entity \<Rightarrow>
         if \<not> re_queue_up env then (Inl ''mongo'', w)
         else (Inr (), w\<lparr>rw_queue := delete_one (same_item sc entity) (rw_queue w)\<rparr>))"

section \<open>Candidates\<close>

definition rec_base_pool :: "scope \<Rightarrow> (rec_world, string list option) action" where
  "rec_base_pool sc = ret None"

definition group_members :: "rec_env \<Rightarrow> string list \<Rightarrow> string list" where
  "group_members env group_ids =
     (let ids = filter (re_valid env) group_ids in
      if ids = [] then []
      else case re_groups env of
        None \<Rightarrow> []
      | Some docs \<Rightarrow>
          uniq (concat (map (\<lambda>g. default_to [] (or_else (gd_member_ids g) (gd_members g)))
            (filter (\<lambda>g. gd_id g \<in> set ids) docs))))"

definition rec_members :: "rec_env \<Rightarrow> scope \<Rightarrow> string list \<Rightarrow> (rec_world, string list) action" where
  "rec_members env sc group_ids = ret (group_members env group_ids)"

definition rec_skills :: "rec_env \<Rightarrow> scope \<Rightarrow> string list \<Rightarrow> (rec_world, (string \<times> string list) list) action" where
  "rec_skills env sc ids =
     (let valid = filter (re_valid env) ids in
      ret (if valid = [] then []
           else case re_users env of
             None \<Rightarrow> []
           | Some docs \<Rightarrow> map (\<lambda>u. (ud_id u, default_to [] (ud_skills u)))
               (filter (\<lambda>u. ud_id u \<in> set valid \<and> sco_tenant sc \<in> set (ud_tenants u)) docs)))"

definition available_of :: "presence_row list option option \<Rightarrow> string list \<Rightarrow> bool \<Rightarrow> string list" where
  "available_of presence ids require_online =
     (if ids = [] then ids
      else case presence of
        None \<Rightarrow> if require_online then [] else ids
      | Some None \<Rightarrow> if require_online then [] else ids
      | Some (Some rows) \<Rightarrow>
          let online = map pr_user
                (filter (\<lambda>p. pr_presence p = ''AVAILABLE'' \<and> pr_connection p = ''CONNECTED'') rows)
          in if require_online then filter (\<lambda>i. i \<in> set online) ids
             else filter (\<lambda>i. i \<in> set online) ids @ filter (\<lambda>i. i \<notin> set online) ids)"

definition rec_available :: "rec_env \<Rightarrow> scope \<Rightarrow> string list \<Rightarrow> bool \<Rightarrow> (rec_world, string list) action" where
  "rec_available env sc ids require_online = ret (available_of (re_presence env) ids require_online)"

definition record_adapter :: "rec_env \<Rightarrow> rec_world adapter" where
  "record_adapter env =
     \<lparr>ad_base_pool = rec_base_pool, ad_members = rec_members env, ad_may_serve = None,
      ad_skills = rec_skills env, ad_available = Some (rec_available env),
      ad_loads = rec_loads env, ad_reserve = rec_reserve env, ad_release = rec_release env,
      ad_load_complete = Some (rec_load_complete env), ad_preview = Some (rec_preview env),
      ad_rotate = Some (rec_rotate env), ad_commit = rec_commit env,
      ad_park = Some (rec_park env), ad_commit_complete = Some (rec_commit_complete env)\<rparr>"

section \<open>The workload listener\<close>

definition id_of :: "jsval \<Rightarrow> string option" where
  "id_of v =
     (if \<not> truthy v then None
      else case v of
        JObj b \<Rightarrow> if ''_id'' \<in> fst ` set b then Some (js_string (bag_get b ''_id'')) else Some (js_string v)
      | _ \<Rightarrow> Some (js_string v))"

definition entity_type_of :: "string \<Rightarrow> object_type option" where
  "entity_type_of = map_of [(''CONTACT'', Contact), (''ACCOUNT'', Account), (''TICKET'', Ticket),
     (''TASK'', Task), (''DEAL'', Deal)]"

definition is_active :: "object_type \<Rightarrow> bag option \<Rightarrow> bool" where
  "is_active ty snapshot \<longleftrightarrow>
     (case snapshot of
        None \<Rightarrow> False
      | Some b \<Rightarrow>
          \<not> truthy (bag_get b ''_deleted'') \<and> \<not> truthy (bag_get b ''deletedAt'') \<and>
          (case ty of
             Ticket \<Rightarrow> \<not> truthy (bag_get b ''closedAt'')
           | Task \<Rightarrow> \<not> truthy (bag_get b ''completedAt'')
           | Deal \<Rightarrow> \<not> truthy (bag_get b ''wonAt'') \<and> \<not> truthy (bag_get b ''lostAt'')
           | _ \<Rightarrow> True))"

record entity_event =
  ev_tenant :: "string option"
  ev_type :: "string option"
  ev_entity :: "string option"
  ev_old :: "bag option"
  ev_new :: "bag option"

definition active_owner :: "object_type \<Rightarrow> bag option \<Rightarrow> string option" where
  "active_owner ty snapshot =
     (if is_active ty snapshot
      then id_of (case snapshot of Some b \<Rightarrow> bag_get b ''ownerId'' | None \<Rightarrow> JUndef) else None)"

definition adjust_store :: "bool \<Rightarrow> string \<Rightarrow> string option \<Rightarrow> int \<Rightarrow> store \<Rightarrow> store" where
  "adjust_store up sc who delta s =
     (case truthy_id who of Some i \<Rightarrow> snd (adjust_if_tracked up sc i delta s) | None \<Rightarrow> s)"

definition on_entity_event :: "rec_env \<Rightarrow> entity_event \<Rightarrow> rec_world \<Rightarrow> rec_world" where
  "on_entity_event env ev w =
     (case (entity_type_of (default_to [] (ev_type ev)), truthy_id (ev_tenant ev)) of
        (Some ty, Some tenant) \<Rightarrow>
          if ev_old ev = None \<and> ev_new ev = None then w
          else
            let before = active_owner ty (ev_old ev);
                after = active_owner ty (ev_new ev);
                sc = tenant @ '':'' @ object_type_name ty;
                up = h_eval (re_health env)
            in if before = after then w
               else
                 let w1 = w\<lparr>rw_store := adjust_store up sc after 1 (adjust_store up sc before (-1) (rw_store w))\<rparr>;
                     deleted = (case ev_new ev of Some b \<Rightarrow> truthy (bag_get b ''_deleted'') | None \<Rightarrow> False)
                 in case truthy_id (ev_entity ev) of
                      Some entity \<Rightarrow>
                        if (truthy_id after \<noteq> None \<or> deleted) \<and> re_queue_up env
                        then w1\<lparr>rw_queue := delete_one (\<lambda>q. qi_tenant q = tenant \<and> qi_type q = ty
                               \<and> qi_entity q = entity) (rw_queue w1)\<rparr>
                        else w1
                    | None \<Rightarrow> w1
      | _ \<Rightarrow> w)"

end
