(* ===== verification/Assignment_Core_Audit.thy ===== *)
theory Assignment_Core_Audit
  imports Assignment_Core_Safety
begin

text \<open>
  What every decision writes and whom it may name. The audit results hold for any ports: the
  trail grows by the entry of the decision returned, after at most one entry of a fallback
  commit that lost its race. The results on the assignee need only that the ports which pick
  or filter candidates stay inside the pool they were given (locale \<open>pool_ports\<close>).
\<close>

section \<open>The audit trail\<close>

definition records :: "'w request \<Rightarrow> decision \<Rightarrow> audit_entry \<Rightarrow> bool" where
  "records rq d e \<longleftrightarrow>
     ae_tenant e = rq_tenant rq \<and> ae_type e = rq_type rq \<and> ae_assignee e = d_assignee d \<and>
     ae_group e = d_group d \<and> ae_rule e = d_rule d \<and> ae_strategy e = d_strategy d \<and>
     ae_outcome e = d_outcome d \<and> ae_key e = d_key d \<and> ae_reason e = d_reason d \<and>
     ae_pool e = d_pool d \<and> ae_eligible e = d_eligible d"

text \<open>\<open>audited rq T n\<close>: on top of trail \<open>T\<close>, at most \<open>n\<close> entries before the decision's own.\<close>

definition audited ::
  "'w request \<Rightarrow> audit_entry list \<Rightarrow> nat \<Rightarrow> (string, decision) result \<Rightarrow> 'w cstate \<Rightarrow> bool" where
  "audited rq T n r s =
     (case r of
        Inl e \<Rightarrow> cs_trail s = T
      | Inr d \<Rightarrow> if rq_dry rq then cs_trail s = T
                else \<exists>es e. cs_trail s = T @ es @ [e] \<and> length es \<le> n \<and> records rq d e)"

lemma tri_pure: "tri (\<lambda>s. A s \<and> C) m Q \<longleftrightarrow> (C \<longrightarrow> tri A m Q)"
  by (auto simp: tri_def)

lemma tri_lift_trail: "tri (\<lambda>s. cs_trail s = T) (lift_act m) (\<lambda>r s. cs_trail s = T)"
  by (auto simp: tri_def lift_act_def split: prod.splits)

lemma audited_error [simp]: "audited rq T n (Inl e) s \<longleftrightarrow> cs_trail s = T"
  by (simp add: audited_def)

lemma audited_mono: "audited rq T 0 r s \<Longrightarrow> audited rq T n r s"
  by (fastforce simp: audited_def split: sum.splits if_splits)

lemma finish_audit_after:
  "length es \<le> n \<Longrightarrow> \<not> rq_dry rq \<Longrightarrow>
     tri (\<lambda>s. cs_trail s = T @ es) (finish rq d) (audited rq T n)"
  by (auto simp: tri_def finish_def Let_def audited_def records_def audit_entry_of_def)

lemma finish_audit: "tri (\<lambda>s. cs_trail s = T) (finish rq d) (audited rq T n)"
proof (cases "rq_dry rq")
  case True
  then show ?thesis by (auto simp: tri_def finish_def Let_def audited_def)
next
  case False
  with finish_audit_after[of "[]" n rq T] show ?thesis by simp
qed

lemma tri_lift_then:
  "(\<And>a. tri (\<lambda>s. cs_trail s = T) (f a) (audited rq T n)) \<Longrightarrow>
     tri (\<lambda>s. cs_trail s = T) (bind_act (lift_act m) f) (audited rq T n)"
  by (rule tri_seq[OF tri_lift_trail]) simp_all

lemma commit_direct_audit:
  "tri (\<lambda>s. cs_trail s = T) (commit_direct rq sc ad who grp strat key why) (audited rq T 0)"
  unfolding commit_direct_def
  by (intro tri_if tri_lift_then finish_audit)

lemma commit_direct_audit1:
  "tri (\<lambda>s. cs_trail s = T) (commit_direct rq sc ad who grp strat key why) (audited rq T 1)"
  by (rule tri_weaken[OF commit_direct_audit], assumption, erule audited_mono)

lemma try_fallback_audit:
  "tri (\<lambda>s. cs_trail s = T) (try_fallback rq sc ad cfg grp why)
     (\<lambda>r s. case r of Inl e \<Rightarrow> False
        | Inr None \<Rightarrow> cs_trail s = T \<or> (\<not> rq_dry rq \<and> (\<exists>e. cs_trail s = T @ [e]))
        | Inr (Some d) \<Rightarrow> audited rq T 0 (Inr d) s)" (is "tri _ _ ?Q")
  unfolding try_fallback_def
proof (rule tri_cases_option, goal_cases)
  case 1
  show ?case by (rule tri_ret) simp
next
  case (2 owner)
  show ?case
  proof (rule tri_if, goal_cases)
    case 1
    show ?case by (rule tri_ret) simp
  next
    case 2
    show ?case
    proof (rule tri_catch[where R = "\<lambda>_ s. cs_trail s = T"], goal_cases)
      case 1
      show ?case
        by (rule tri_bind[where R = "\<lambda>d s. audited rq T 0 (Inr d) s"],
            rule tri_weaken[OF commit_direct_audit])
          (use 2 in \<open>auto simp: tri_def ret_def audited_def split: sum.splits\<close>)
    next
      case (2 e)
      show ?case by (rule tri_ret) simp
    qed
  qed
qed

definition maybe_park :: "'w adapter \<Rightarrow> scope \<Rightarrow> bool \<Rightarrow> string option \<Rightarrow> ('w cstate, unit) action" where
  "maybe_park ad sc dry grp =
     (case truthy_id grp of Some g \<Rightarrow> if dry then ret () else lift_act (park ad sc g) | None \<Rightarrow> ret ())"

lemma maybe_park_audit:
  "tri (\<lambda>s. cs_trail s = T') (maybe_park ad sc dry grp) (\<lambda>r s. r = Inr () \<and> cs_trail s = T')"
  by (auto simp: maybe_park_def tri_def park_def best_effort_def catch_act_def ret_def lift_act_def
      split: option.split prod.splits sum.splits)

lemma maybe_park_then:
  assumes "tri (\<lambda>s. cs_trail s = T') m Q"
  shows "tri (\<lambda>s. cs_trail s = T') (bind_act (maybe_park ad sc dry grp) (\<lambda>_. m)) Q"
  by (rule tri_bind[where R = "\<lambda>_ s. cs_trail s = T'"], rule tri_weaken[OF maybe_park_audit])
    (auto intro: assms)

lemma queue_or_fallback_audit:
  "tri (\<lambda>s. cs_trail s = T) (queue_or_fallback rq sc ad cfg strat rule grp key why pool elig traces)
     (audited rq T 1)"
  unfolding queue_or_fallback_def
proof (rule tri_bind[where R = "\<lambda>fb s. case fb of
      None \<Rightarrow> cs_trail s = T \<or> (\<not> rq_dry rq \<and> (\<exists>e. cs_trail s = T @ [e]))
    | Some d \<Rightarrow> audited rq T 0 (Inr d) s"], goal_cases)
  case 1
  show ?case
    by (rule tri_weaken[OF try_fallback_audit]) (auto split: sum.splits option.splits)
next
  case (2 fb)
  show ?case
  proof (cases fb)
    case (Some d)
    then show ?thesis by (auto intro!: tri_ret audited_mono)
  next
    case None
    let ?done = "plain_decision Queued None grp strat key why rule pool elig traces"
    have step: "tri (\<lambda>s. cs_trail s = T') (bind_act (maybe_park ad sc (rq_dry rq) grp)
        (\<lambda>_. finish rq ?done)) (audited rq T 1)"
      if "T' = T \<or> (\<not> rq_dry rq \<and> (\<exists>e. T' = T @ [e]))" for T'
    proof (rule maybe_park_then, cases "T' = T")
      case True
      then show "tri (\<lambda>s. cs_trail s = T') (finish rq ?done) (audited rq T 1)"
        by (simp only: finish_audit)
    next
      case False
      with that obtain e where "T' = T @ [e]" "\<not> rq_dry rq" by blast
      then show "tri (\<lambda>s. cs_trail s = T') (finish rq ?done) (audited rq T 1)"
        using finish_audit_after[of "[e]" 1 rq T ?done] by simp
    qed
    have "tri (\<lambda>s. cs_trail s = T \<or> (\<not> rq_dry rq \<and> (\<exists>e. cs_trail s = T @ [e])))
       (bind_act (maybe_park ad sc (rq_dry rq) grp) (\<lambda>_. finish rq ?done)) (audited rq T 1)"
      unfolding tri_def
    proof (intro allI impI)
      fix s :: "'a cstate" assume s: "cs_trail s = T \<or> (\<not> rq_dry rq \<and> (\<exists>e. cs_trail s = T @ [e]))"
      show "case bind_act (maybe_park ad sc (rq_dry rq) grp) (\<lambda>_. finish rq ?done) s of
          (r, s') \<Rightarrow> audited rq T 1 r s'"
        by (rule step[OF s, unfolded tri_def, THEN spec, THEN mp, OF refl])
    qed
    with None show ?thesis by (simp only: option.case maybe_park_def)
  qed
qed

lemma try_preferred_audit:
  "\<not> rq_dry rq \<Longrightarrow> tri (\<lambda>s. cs_trail s = T) (try_preferred rq sc ad cfg eligible tgt rule traces pf)
     (\<lambda>r s. case r of Inl e \<Rightarrow> cs_trail s = T | Inr None \<Rightarrow> cs_trail s = T
        | Inr (Some d) \<Rightarrow> audited rq T 0 (Inr d) s)" (is "_ \<Longrightarrow> tri _ _ ?Q")
proof -
  have fin: "tri (\<lambda>s. cs_trail s = T) (bind_act (finish rq d) (\<lambda>d. ret (Some d))) ?Q" for d
    by (rule tri_bind[where R = "\<lambda>d s. audited rq T 0 (Inr d) s"], rule tri_weaken[OF finish_audit])
      (auto intro!: tri_ret split: sum.splits)
  have lift: "tri (\<lambda>s. cs_trail s = T) (bind_act (lift_act m) f) ?Q"
    if "\<And>a. tri (\<lambda>s. cs_trail s = T) (f a) ?Q" for m :: "('a, 'c) action" and f
    by (rule tri_seq[OF tri_lift_trail]) (simp_all add: that)
  have none: "tri (\<lambda>s. cs_trail s = T) (ret None) ?Q" by (rule tri_ret) simp
  show ?thesis
    unfolding try_preferred_def Let_def
    by (intro tri_if none lift tri_cases_option fin)
qed

lemma reserve_and_commit_audit:
  "tri (\<lambda>s. cs_trail s = T) (reserve_and_commit rq sc ad reg cfg eligible tgt rule strat traces) (audited rq T 1)"
  unfolding reserve_and_commit_def
  by (intro tri_lift_then tri_cases_option tri_if finish_audit queue_or_fallback_audit)

lemma decide_eligible_audit:
  "tri (\<lambda>s. cs_trail s = T) (decide_eligible rq sc ad reg cfg skilled tgt rule strat traces) (audited rq T 1)"
  unfolding decide_eligible_def
proof (rule tri_seq[where J = "\<lambda>s. cs_trail s = T"], goal_cases)
  case 1
  show ?case by (auto intro!: tri_ret tri_lift_trail split: option.split)
next
  case (2 e s)
  then show ?case by simp
next
  case (3 eligible)
  show ?case
  proof (intro tri_if queue_or_fallback_audit tri_lift_then finish_audit tri_cases_option
      reserve_and_commit_audit, goal_cases)
    case (1 pf)
    show ?case
      by (rule tri_bind[where R = "\<lambda>rv s. case rv of None \<Rightarrow> cs_trail s = T
            | Some d \<Rightarrow> audited rq T 0 (Inr d) s"],
          rule tri_weaken[OF try_preferred_audit[OF 1(2)]])
        (auto simp del: One_nat_def intro!: tri_ret reserve_and_commit_audit audited_mono
          split: sum.splits option.splits)
  qed
qed

lemma decide_target_audit:
  "tri (\<lambda>s. cs_trail s = T) (decide_target rq sc ad reg cfg eff rule strat required traces) (audited rq T 1)"
  unfolding decide_target_def Let_def
  by (intro tri_lift_then tri_cases_option tri_if finish_audit queue_or_fallback_audit decide_eligible_audit)

lemma decide_rules_audit:
  "tri (\<lambda>s. cs_trail s = T) (decide_rules sv rq sc ad cfg) (audited rq T 1)"
  unfolding decide_rules_def
proof (rule tri_bind[where R = "\<lambda>(found, traces, rq') s. cs_trail s = T \<and>
      rq_dry rq' = rq_dry rq \<and> rq_tenant rq' = rq_tenant rq \<and> rq_type rq' = rq_type rq"], goal_cases)
  case 1
  show ?case
    unfolding tri_def
  proof (intro allI impI, goal_cases)
    case (1 s)
    obtain r w' where e: "evaluate_request sv rq cfg (cs_world s) = (r, w')" by fastforce
    show ?case
    proof (cases r)
      case (Inl err)
      with 1 e show ?thesis by (simp add: lift_act_def)
    next
      case (Inr res)
      obtain found traces rq' where res: "res = (found, traces, rq')" by (cases res) auto
      with evaluate_request_same[of sv rq cfg "cs_world s" found traces rq' w'] e Inr 1
      show ?thesis by (simp add: lift_act_def)
    qed
  qed
next
  case (2 res)
  obtain found traces rq' where res: "res = (found, traces, rq')" by (cases res) auto
  let ?eff = "effective_target rq' found"
  let ?grp = "or_else (first_of (case ?eff of Some m \<Rightarrow> rm_groups m | None \<Rightarrow> []))
                 (or_else (rq_owning rq') (cfg_group cfg))"
  have same: "audited rq T 1 = audited rq' T 1"
    if "rq_dry rq' = rq_dry rq" "rq_tenant rq' = rq_tenant rq" "rq_type rq' = rq_type rq"
    using that by (auto simp: audited_def records_def fun_eq_iff split: sum.split)
  show ?case
    unfolding res prod.case Let_def
  proof (subst tri_pure, rule impI, elim conjE, goal_cases)
    case 1
    show ?case
      unfolding same[OF 1]
    proof (rule tri_if, goal_cases)
      case 1
      show ?case
        by (fold maybe_park_def) (rule maybe_park_then, rule finish_audit)
    next
      case 2
      show ?case by (rule decide_target_audit)
    qed
  qed
qed

text \<open>Every decision is audited: whatever the ports do, a non-dry decision returned is the
  last entry of the trail, with its outcome, assignee, group, strategy, rule and reason, and
  at most one entry (of a fallback commit that lost its race) precedes it; a dry run or an
  error leaves the trail as it was.\<close>

theorem assign_audits:
  "case assign sv rq s of (r, s') \<Rightarrow> audited rq (cs_trail s) 1 r s'"
proof -
  have "tri (\<lambda>t. cs_trail t = cs_trail s) (assign sv rq) (audited rq (cs_trail s) 1)"
    unfolding assign_def Let_def
    by (intro tri_if finish_audit tri_cases_option tri_lift_then decide_rules_audit
        commit_direct_audit1)
  then show ?thesis by (simp add: tri_def)
qed

section \<open>Whom a decision may name\<close>

definition yields :: "('s, 'a) action \<Rightarrow> ('a \<Rightarrow> bool) \<Rightarrow> bool" where
  "yields m Q \<longleftrightarrow> (\<forall>s a s'. m s = (Inr a, s') \<longrightarrow> Q a)"

lemma yields_ret: "Q a \<Longrightarrow> yields (ret a) Q"
  by (simp add: yields_def ret_def)

lemma yields_bind: "yields m R \<Longrightarrow> (\<And>a. R a \<Longrightarrow> yields (f a) Q) \<Longrightarrow> yields (bind_act m f) Q"
  by (fastforce simp: yields_def bind_act_def split: prod.splits sum.splits)

lemma yields_any: "yields m (\<lambda>_. True)"
  by (simp add: yields_def)

lemma yields_then: "(\<And>a. yields (f a) Q) \<Longrightarrow> yields (bind_act m f) Q"
  by (rule yields_bind[OF yields_any])

lemma yields_catch: "yields m Q \<Longrightarrow> (\<And>e. yields (h e) Q) \<Longrightarrow> yields (catch_act m h) Q"
  by (fastforce simp: yields_def catch_act_def split: prod.splits sum.splits)

lemma yields_lift: "yields m Q \<Longrightarrow> yields (lift_act m) Q"
  by (auto simp: yields_def lift_act_def split: prod.splits)

lemma yields_if: "(b \<Longrightarrow> yields m Q) \<Longrightarrow> (\<not> b \<Longrightarrow> yields n Q) \<Longrightarrow> yields (if b then m else n) Q"
  by simp

lemma yields_option:
  "(v = None \<Longrightarrow> yields n Q) \<Longrightarrow> (\<And>x. v = Some x \<Longrightarrow> yields (f x) Q) \<Longrightarrow>
   yields (case v of None \<Rightarrow> n | Some x \<Rightarrow> f x) Q"
  by (cases v) auto

lemma lift_bind:
  "bind_act (lift_act m) (\<lambda>a. bind_act (lift_act (f a)) g) = bind_act (lift_act (bind_act m f)) g"
  by (rule ext) (auto simp: bind_act_def lift_act_def split: prod.split sum.split)

text \<open>\<open>may_name rq u\<close>: the hard restrictions of the request admit \<open>u\<close>.\<close>

definition may_name :: "'w request \<Rightarrow> string \<Rightarrow> bool" where
  "may_name rq u \<longleftrightarrow> u \<notin> set (rq_exclude rq) \<and>
     (case rq_restrict rq of None \<Rightarrow> True | Some r \<Rightarrow> u \<in> set r)"

definition picked_key :: "reason_key \<Rightarrow> bool" where
  "picked_key k \<longleftrightarrow> k = KAssigned \<or> k = KOffered \<or> k = KPreferredAssignee"

definition names_admitted :: "(string \<Rightarrow> bool) \<Rightarrow> decision \<Rightarrow> bool" where
  "names_admitted A d \<longleftrightarrow>
     (picked_key (d_key d) \<longrightarrow> (case d_assignee d of None \<Rightarrow> False | Some u \<Rightarrow> A u))"

lemma finish_names: "names_admitted A d \<Longrightarrow> yields (finish rq' d) (names_admitted A)"
  by (auto simp: yields_def finish_def Let_def names_admitted_def split: if_splits)

lemma names_plain:
  "\<not> picked_key key \<or> (\<exists>u. who = Some u \<and> A u) \<Longrightarrow>
     names_admitted A (plain_decision oc who grp st key why rule p e tr)"
  "names_admitted A (d\<lparr>d_params := ps\<rparr>) = names_admitted A d"
  "names_admitted A (d\<lparr>d_deferred := df\<rparr>) = names_admitted A d"
  by (auto simp: names_admitted_def plain_decision_def)

lemma not_picked [simp]:
  "\<not> picked_key KManualOverride" "\<not> picked_key KFallbackOwner" "\<not> picked_key KCommitRaceLost"
  "\<not> picked_key KEmptyPool" "\<not> picked_key KAllAtCapacity" "\<not> picked_key KPreferredWait"
  "\<not> picked_key KGroupNotEligible" "\<not> picked_key KManualStrategy" "\<not> picked_key KBypassed"
  "\<not> picked_key KAutoAssignDisabled"
  by (simp_all add: picked_key_def)

lemma commit_direct_names:
  "\<not> picked_key key \<Longrightarrow> yields (commit_direct rq' sc ad who grp st key why) (names_admitted A)"
  unfolding commit_direct_def
  by (intro yields_if yields_then finish_names names_plain) simp_all

lemma try_fallback_names:
  "yields (try_fallback rq' sc ad cfg grp why) (\<lambda>r. case r of None \<Rightarrow> True | Some d \<Rightarrow> names_admitted A d)"
  unfolding try_fallback_def
  by (intro yields_option yields_if yields_catch yields_ret
      yields_bind[OF commit_direct_names[where A = A]]) simp_all

lemma queue_or_fallback_names:
  "\<not> picked_key key \<Longrightarrow>
     yields (queue_or_fallback rq' sc ad cfg st rule grp key why pool elig traces) (names_admitted A)"
  unfolding queue_or_fallback_def
  by (rule yields_bind[OF try_fallback_names[where A = A]], rule yields_option)
    (auto intro!: yields_then finish_names names_plain yields_ret)

lemma filter_by_skills_in:
  "yields (filter_by_skills ad sc ids required enabled mode) (\<lambda>xs. set xs \<subseteq> set ids)"
  unfolding filter_by_skills_def Let_def
  by (intro yields_if yields_then yields_ret) (auto split: if_splits)

lemma narrow_in: "set (narrow (Some b) xs) \<subseteq> set b"
  by (simp add: narrow_def)

definition within :: "string set \<Rightarrow> target option \<Rightarrow> bool" where
  "within b r \<longleftrightarrow> (\<forall>t. r = Some t \<longrightarrow> set (tg_candidates t) \<subseteq> b)"

lemma within_simps [simp]:
  "within b None" "within b (Some t) \<longleftrightarrow> set (tg_candidates t) \<subseteq> b"
  by (simp_all add: within_def)

lemma chain_loop_in:
  "yields (chain_loop ad sc (Some b) chain first widest) (within (set b))"
proof (induction chain arbitrary: first widest)
  case Nil
  then show ?case by (auto intro!: yields_ret split: option.split)
next
  case (Cons g gs)
  show ?case
    unfolding chain_loop.simps Let_def
    by (intro yields_then yields_if yields_ret Cons.IH) (simp add: narrow_in)
qed

lemma resolve_target_in:
  "yields (resolve_target ad sc tgt (Some b) dg) (within (set b))"
  unfolding resolve_target_def Let_def option.case(2)
  by (intro yields_option yields_if yields_ret chain_loop_in) (simp_all add: narrow_in)

locale pool_ports =
  fixes ad :: "'w adapter"
  assumes reserve_in: "ad_reserve ad sc ids st cap w = (Inr (Some i), w') \<Longrightarrow> i \<in> set ids"
    and available_in: "ad_available ad = Some f1 \<Longrightarrow> f1 sc ids b w = (Inr xs, w') \<Longrightarrow> set xs \<subseteq> set ids"
    and rotate_in: "ad_rotate ad = Some f2 \<Longrightarrow> f2 sc ids w = (Inr xs, w') \<Longrightarrow> set xs \<subseteq> set ids"
    and preview_in: "ad_preview ad = Some f3 \<Longrightarrow> f3 sc ids st cap w = (Inr (Some i), w') \<Longrightarrow> i \<in> set ids"
begin

lemma order_in: "yields (order_candidates reg ad sc ids st) (\<lambda>xs. set xs \<subseteq> set ids)"
  unfolding order_candidates_def
proof (intro yields_if yields_option yields_ret subset_refl, goal_cases)
  case (1 f)
  from rotate_in[OF 1(2)] show ?case unfolding yields_def by blast
qed

lemma reserve_yields: "yields (ad_reserve ad sc ids st cap)
    (\<lambda>r. case r of None \<Rightarrow> True | Some i \<Rightarrow> i \<in> set ids)"
  using reserve_in by (fastforce simp: yields_def split: option.split)

lemma preview_selection_in:
  "yields (preview_selection reg ad sc ids st cfg)
    (\<lambda>r. case r of None \<Rightarrow> True | Some i \<Rightarrow> i \<in> set ids)"
  unfolding preview_selection_def Let_def
proof (rule yields_bind[OF order_in], rule yields_option, goal_cases)
  case (1 ordered)
  then show ?case
    by (intro yields_then yields_ret)
      (auto dest!: first_of_in find_Some_in split: option.split if_splits)
next
  case (2 ordered f)
  with preview_in[OF 2(2)] show ?case
    by (fastforce simp: yields_def split: option.split)
qed

lemma try_preferred_names:
  assumes "\<And>i. i \<in> set eligible \<Longrightarrow> A i"
  shows "yields (try_preferred rq' sc ad cfg eligible tgt rule traces pf)
    (\<lambda>r. case r of None \<Rightarrow> True | Some d \<Rightarrow> names_admitted A d)" (is "yields _ ?Q")
proof -
  have fin: "yields (bind_act (finish rq' d) (\<lambda>d. ret (Some d))) ?Q" if "names_admitted A d" for d
    by (rule yields_bind[OF finish_names[OF that]]) (auto intro: yields_ret)
  show ?thesis
    unfolding try_preferred_def
  proof (rule yields_if, goal_cases)
    case 1
    show ?case by (rule yields_ret) simp
  next
    case 2
    show ?case
    proof (rule yields_bind[OF yields_lift[OF reserve_yields]], rule yields_option, goal_cases)
      case (1 rv)
      show ?case
        unfolding Let_def by (intro yields_if fin yields_ret) (auto simp: names_plain)
    next
      case (2 rv who)
      with \<open>\<not> pf_id pf \<notin> set eligible\<close> assms have "A who" by auto
      then show ?case
        unfolding Let_def by (intro yields_then yields_if fin) (auto simp: names_plain)
    qed
  qed
qed

lemma reserve_and_commit_names:
  assumes "\<And>i. i \<in> set eligible \<Longrightarrow> A i"
  shows "yields (reserve_and_commit rq' sc ad reg cfg eligible tgt rule st traces) (names_admitted A)"
  unfolding reserve_and_commit_def
proof (rule yields_bind[OF yields_lift[OF order_in]],
    rule yields_bind[OF yields_lift[OF reserve_yields]], rule yields_option, goal_cases)
  case (1 ordered rv)
  show ?case by (rule queue_or_fallback_names) simp
next
  case (2 ordered rv who)
  with assms have "A who" by auto
  then show ?case
    by (intro yields_then yields_if queue_or_fallback_names finish_names names_plain) auto
qed

lemma decide_eligible_names:
  assumes "\<And>i. i \<in> set skilled \<Longrightarrow> A i"
  shows "yields (decide_eligible rq' sc ad reg cfg skilled tgt rule st traces) (names_admitted A)"
  unfolding decide_eligible_def
proof (rule yields_bind[where R = "\<lambda>xs. set xs \<subseteq> set skilled"], goal_cases)
  case 1
  show ?case
    using available_in by (fastforce simp: yields_def ret_def lift_act_def split: option.splits prod.splits)
next
  case (2 eligible)
  with assms have ok: "\<And>i. i \<in> set eligible \<Longrightarrow> A i" by blast
  show ?case
  proof (intro yields_if yields_option, goal_cases)
    case 1
    show ?case by (rule queue_or_fallback_names) simp
  next
    case 2
    show ?case
    proof (rule yields_bind[OF yields_lift[OF preview_selection_in]], rule finish_names, goal_cases)
      case (1 pv)
      with ok show ?case by (cases pv) (auto intro!: names_plain)
    qed
  next
    case 3
    show ?case by (rule reserve_and_commit_names[OF ok])
  next
    case (4 pf)
    show ?case
      by (rule yields_bind[OF try_preferred_names[OF ok]], assumption, rule yields_option)
        (auto intro: reserve_and_commit_names[OF ok] yields_ret)
  qed
qed

lemma decide_target_names:
  assumes "\<And>dg. yields (bind_act (ad_base_pool ad sc) (\<lambda>p.
      resolve_target ad sc eff (restrict_pool (rq_restrict rq') p) dg))
    (\<lambda>r. \<forall>t i. r = Some t \<longrightarrow> i \<in> set (tg_candidates t) \<longrightarrow> i \<notin> set (rq_exclude rq') \<longrightarrow> A i)"
  shows "yields (decide_target rq' sc ad reg cfg eff rule st required traces) (names_admitted A)"
proof -
  let ?next = "\<lambda>resolved. case resolved of
       None \<Rightarrow>
         (let groups = (case eff of Some m \<Rightarrow> rm_groups m | None \<Rightarrow> []);
              name = (case eff of Some m \<Rightarrow> if rm_name m = [] then ''target'' else rm_name m
                                | None \<Rightarrow> ''target'')
          in finish rq' ((plain_decision Queued None None (strategy_name st) KGroupNotEligible
               (RUnroutable name groups) rule 0 0 traces)
               \<lparr>d_params := Some [(''groupIds'', JArr (map JStr groups))]\<rparr>))
     | Some tgt0 \<Rightarrow>
         (let tgt = tgt0\<lparr>tg_candidates := filter (\<lambda>i. i \<notin> set (rq_exclude rq')) (tg_candidates tgt0)\<rparr>;
              dsc = sc\<lparr>sco_group := tg_owner tgt\<rparr>
          in if tg_candidates tgt = [] then
               queue_or_fallback rq' sc ad cfg (strategy_name st) rule (tg_owner tgt) KEmptyPool
                 REmptyPool (tg_pool tgt) 0 traces
             else
               bind_act (lift_act (filter_by_skills ad dsc (tg_candidates tgt) required
                   (cfg_skill_routing cfg) (cfg_skill_mode cfg))) (\<lambda>skilled.
               if skilled = [] then
                 queue_or_fallback rq' dsc ad cfg (strategy_name st) rule (tg_owner tgt) KEmptyPool
                   RNoSkill (tg_pool tgt) 0 traces
               else decide_eligible rq' dsc ad reg cfg skilled tgt rule st traces))"
  let ?ok = "\<lambda>r. \<forall>t i. r = Some t \<longrightarrow> i \<in> set (tg_candidates t) \<longrightarrow> i \<notin> set (rq_exclude rq') \<longrightarrow> A i"
  have main: "yields (?next resolved) (names_admitted A)" if "?ok resolved" for resolved
    unfolding Let_def
  proof (rule yields_option, goal_cases)
    case 1
    show ?case by (intro finish_names) (simp add: names_plain)
  next
    case (2 tgt0)
    show ?case
    proof (rule yields_if, goal_cases)
      case 1
      show ?case by (rule queue_or_fallback_names) simp
    next
      case 2
      show ?case
      proof (rule yields_bind[OF yields_lift[OF filter_by_skills_in]], rule yields_if, goal_cases)
        case (1 skilled)
        show ?case by (rule queue_or_fallback_names) simp
      next
        case (2 skilled)
        with that \<open>resolved = Some tgt0\<close> show ?case
          by (intro decide_eligible_names) auto
      qed
    qed
  qed
  have "decide_target rq' sc ad reg cfg eff rule st required traces =
      bind_act (lift_act (bind_act (ad_base_pool ad sc) (\<lambda>p.
        resolve_target ad sc eff (restrict_pool (rq_restrict rq') p) (or_else (rq_owning rq') (cfg_group cfg)))))
        ?next"
    unfolding decide_target_def by (rule lift_bind)
  then show ?thesis
    by (simp only:) (rule yields_bind[OF yields_lift[OF assms] main])
qed

lemma decide_rules_names:
  assumes "\<And>eff dg. yields (bind_act (ad_base_pool ad sc) (\<lambda>p.
      resolve_target ad sc eff (restrict_pool (rq_restrict rq) p) dg))
    (\<lambda>r. \<forall>t i. r = Some t \<longrightarrow> i \<in> set (tg_candidates t) \<longrightarrow> i \<notin> set (rq_exclude rq) \<longrightarrow> A i)"
  shows "yields (decide_rules sv rq sc ad cfg) (names_admitted A)"
  unfolding decide_rules_def
proof (rule yields_bind[OF yields_lift[where Q = "\<lambda>(found, traces, rq').
      rq_exclude rq' = rq_exclude rq \<and> rq_restrict rq' = rq_restrict rq"]], goal_cases)
  case 1
  show ?case using evaluate_request_same[of sv rq cfg] by (fastforce simp: yields_def)
next
  case (2 res)
  obtain found traces rq' where res: "res = (found, traces, rq')" by (cases res) auto
  with 2 have same: "rq_exclude rq' = rq_exclude rq" "rq_restrict rq' = rq_restrict rq" by auto
  show ?case
    unfolding res prod.case Let_def
    by (rule yields_if, rule yields_then, rule finish_names, rule names_plain, simp,
        rule decide_target_names, unfold same, rule assms)
qed

lemma assign_names:
  assumes "sv_adapters sv (rq_type rq) = Some ad"
    and "\<And>eff dg. yields (bind_act (ad_base_pool ad (request_scope (sv_parse_date sv) rq)) (\<lambda>p.
      resolve_target ad (request_scope (sv_parse_date sv) rq) eff (restrict_pool (rq_restrict rq) p) dg))
    (\<lambda>r. \<forall>t i. r = Some t \<longrightarrow> i \<in> set (tg_candidates t) \<longrightarrow> i \<notin> set (rq_exclude rq) \<longrightarrow> A i)"
  shows "yields (assign sv rq) (names_admitted A)"
  unfolding assign_def Let_def assms(1) option.case
  by (intro yields_if yields_then yields_option finish_names commit_direct_names
      decide_rules_names assms(2) names_plain) simp_all

lemma assign_names_admitted:
  assumes "sv_adapters sv (rq_type rq) = Some ad"
  shows "yields (assign sv rq) (names_admitted (may_name rq))"
proof (rule assign_names[OF assms], rule yields_then, goal_cases)
  case (1 eff dg p)
  show ?case
  proof (cases "rq_restrict rq")
    case None
    then show ?thesis by (simp add: yields_def may_name_def)
  next
    case (Some r)
    obtain b where b: "restrict_pool (Some r) p = Some b" "set b \<subseteq> set r"
      by (cases p) (auto simp: restrict_pool_def)
    with resolve_target_in[of ad _ eff b dg] Some show ?thesis
      by (fastforce simp: yields_def within_def may_name_def)
  qed
qed

end

end
