(* ===== verification/Record_Adapter_Safety.thy ===== *)
theory Record_Adapter_Safety
  imports Record_Adapter Assignment_Core_Audit
begin

text \<open>
  The record adapter over a healthy Redis keeps the contract \<open>slot_ports\<close>: \<open>rec_slots\<close> is the
  counter of a tracked candidate and, for an untracked one, the count the collections gave
  when the decision began. The books of a whole decision follow from it; then the listener,
  the reconciliation and the claim on the record.
\<close>

section \<open>The adapter satisfies the contract\<close>

definition healthy :: "rec_env \<Rightarrow> rec_env" where
  "healthy env = env\<lparr>re_health := all_up, re_registry := Some builtin_registry\<rparr>"

definition rec_slots :: "scope \<Rightarrow> (string \<Rightarrow> int) \<Rightarrow> rec_world \<Rightarrow> string \<Rightarrow> int" where
  "rec_slots sc base w i = default_to (base i) (st_load (rw_store w) (load_scope sc) i)"

definition rec_calm :: "rec_env \<Rightarrow> scope \<Rightarrow> (string \<Rightarrow> int) \<Rightarrow> rec_world \<Rightarrow> bool" where
  "rec_calm env sc base w \<longleftrightarrow>
     (\<forall>i n. st_load (rw_store w) (load_scope sc) i = Some n \<longrightarrow> 0 \<le> n) \<and>
     (\<forall>i. 0 \<le> base i) \<and>
     (\<forall>i. st_load (rw_store w) (load_scope sc) i = None \<longrightarrow> open_work env sc w i = base i)"

definition rec_free :: "rec_env \<Rightarrow> scope \<Rightarrow> (string \<Rightarrow> int) \<Rightarrow> rec_world \<Rightarrow> bool" where
  "rec_free env sc base w \<longleftrightarrow> rec_calm env sc base w \<and>
     (\<forall>k. truthy_id (sco_command sc) = Some k \<longrightarrow> st_lease (rw_store w) k = None)"

definition rec_holds :: "rec_env \<Rightarrow> scope \<Rightarrow> (string \<Rightarrow> int) \<Rightarrow> rec_world \<Rightarrow> string \<Rightarrow> bool" where
  "rec_holds env sc base w i \<longleftrightarrow>
     rec_calm env sc base w \<and> st_load (rw_store w) (load_scope sc) i \<noteq> None"

definition rec_work :: "scope \<Rightarrow> scope \<Rightarrow> bool" where
  "rec_work sc sc' \<longleftrightarrow> sco_tenant sc' = sco_tenant sc \<and> sco_type sc' = sco_type sc \<and>
     sco_command sc' = sco_command sc"

lemma rec_work_scope:
  assumes "rec_work sc sc'"
  shows "load_scope sc' = load_scope sc" "open_work env sc' w = open_work env sc w"
    "sco_command sc' = sco_command sc"
  using assms by (auto simp: rec_work_def load_scope_def open_work_def fun_eq_iff)

lemma seed_fold_load:
  assumes "distinct (map fst ps)"
  shows "st_load (fold (seed_one sc) ps s) sc' i =
    (if sc' = sc then (case st_load s sc i of Some n \<Rightarrow> Some n
       | None \<Rightarrow> map_option (max 0) (map_of ps i)) else st_load s sc' i)"
  using assms
proof (induction ps arbitrary: s)
  case Nil
  then show ?case by (simp split: option.split)
next
  case (Cons p ps)
  obtain k v where p: "p = (k, v)" by fastforce
  from Cons.prems p have "map_of ps k = None" by (auto simp: map_of_eq_None_iff)
  with Cons p show ?case
    by (auto simp: seed_one_def split: option.splits if_splits)
qed

lemma seed_fold_rest:
  "st_lease (fold (seed_one sc) ps s) = st_lease s"
  by (induction ps arbitrary: s) (auto simp: seed_one_def split: option.split)

lemma map_of_counts:
  "map_of (map (\<lambda>i. (i, f i)) xs) i = (if i \<in> set xs then Some (f i) else None)"
  by (induction xs) auto

lemma seed_record_load:
  "re_health env = all_up \<Longrightarrow>
   st_load (rw_store (seed_record env sc ids w)) (load_scope sc) i =
     (case st_load (rw_store w) (load_scope sc) i of Some n \<Rightarrow> Some n
      | None \<Rightarrow> if i \<in> set ids then Some (max 0 (open_work env sc w i)) else None)"
  by (cases "ids = []")
    (auto simp: seed_record_def seed_def all_up_def count_open_work_def seed_fold_load comp_def
      map_of_counts split: option.split)

lemma seed_record_rest [simp]:
  "rw_docs (seed_record env sc ids w) = rw_docs w"
  "rw_queue (seed_record env sc ids w) = rw_queue w"
  "st_lease (rw_store (seed_record env sc ids w)) = st_lease (rw_store w)"
  by (auto simp: seed_record_def seed_def seed_fold_rest)

lemma open_work_docs: "rw_docs w' = rw_docs w \<Longrightarrow> open_work env sc w' = open_work env sc w"
  by (simp add: open_work_def fun_eq_iff)

lemma seed_record_keeps:
  assumes "re_health env = all_up" "rec_calm env sc base w"
  shows "rec_slots sc base (seed_record env sc ids w) = rec_slots sc base w"
    "rec_calm env sc base (seed_record env sc ids w)"
proof -
  have w: "open_work env sc w i = base i" "0 \<le> base i"
    if "st_load (rw_store w) (load_scope sc) i = None" for i
    using assms(2) that by (auto simp: rec_calm_def)
  show "rec_slots sc base (seed_record env sc ids w) = rec_slots sc base w"
    using w by (auto simp: rec_slots_def seed_record_load[OF assms(1)] fun_eq_iff split: option.split)
  show "rec_calm env sc base (seed_record env sc ids w)"
    using assms(2) w
    by (auto simp: rec_calm_def seed_record_load[OF assms(1)]
        open_work_docs[of "seed_record env sc ids w" w] split: option.splits if_splits)
qed

lemma calm_transfer:
  assumes "rec_calm env sc base w" "rw_docs w' = rw_docs w"
    "\<And>i. st_load (rw_store w') (load_scope sc) i = None \<Longrightarrow> st_load (rw_store w) (load_scope sc) i = None"
    "\<And>i n. st_load (rw_store w') (load_scope sc) i = Some n \<Longrightarrow> 0 \<le> n"
  shows "rec_calm env sc base w'"
  using assms open_work_docs[OF assms(2), of env sc] by (auto simp: rec_calm_def)

lemma healthy_simps [simp]:
  "re_health (healthy env) = all_up" "re_registry (healthy env) = Some builtin_registry"
  by (simp_all add: healthy_def)

lemma rec_reserve_cases:
  assumes "rec_work sc sc'" "rec_free (healthy env) sc base w"
    and "rec_reserve (healthy env) sc' ids st cap w = (r, w')"
  shows "case r of Inl e \<Rightarrow> False
    | Inr None \<Rightarrow> rec_slots sc base w' = rec_slots sc base w \<and> rec_free (healthy env) sc base w'
    | Inr (Some i) \<Rightarrow> i \<in> set ids \<and> rec_holds (healthy env) sc base w' i \<and>
        rec_slots sc base w' = (rec_slots sc base w)(i := rec_slots sc base w i + 1)"
proof -
  note sc = rec_work_scope[OF assms(1)]
  let ?w1 = "seed_record (healthy env) sc' ids w"
  obtain z s where z: "zset_reserve (Some builtin_registry) all_up (load_scope sc) (cursor_scope sc')
      (sco_command sc) ids st cap False (rw_store ?w1) = (z, s)" by fastforce
  have w': "r = z" "w' = ?w1\<lparr>rw_store := s\<rparr>"
    using assms(3) z by (auto simp: rec_reserve_def Let_def sc)
  have seed_eq: "?w1 = seed_record (healthy env) sc ids w"
    by (auto simp: seed_record_def sc count_open_work_def)
  have calm: "rec_calm (healthy env) sc base w" using assms(2) by (simp add: rec_free_def)
  have calm1: "rec_calm (healthy env) sc base ?w1" "rec_slots sc base ?w1 = rec_slots sc base w"
    unfolding seed_eq using seed_record_keeps[OF _ calm] by simp_all
  have lease: "\<forall>k. truthy_id (sco_command sc) = Some k \<longrightarrow> st_lease (rw_store ?w1) k = None"
    using assms(2) by (simp add: rec_free_def)
  show ?thesis
  proof (cases z)
    case (Inl e)
    with z lease show ?thesis
      by (auto simp: zset_reserve_def all_up_def Let_def truthy_id_def split: if_splits option.splits prod.splits)
  next
    case (Inr p)
    note fresh = zset_reserve_fresh[OF z[unfolded Inr] lease]
    show ?thesis
    proof (cases p)
      case None
      with fresh have "s = rw_store ?w1" by simp
      with w' Inr None calm1 lease show ?thesis by (simp add: rec_free_def)
    next
      case (Some i)
      with fresh have i: "i \<in> set ids" "st_load s = st_load (incr_load (load_scope sc) i (rw_store ?w1))"
        by simp_all
      then have tracked: "st_load (rw_store ?w1) (load_scope sc) i \<noteq> None"
        unfolding seed_eq by (simp add: seed_record_load split: option.split)
      then obtain n where n: "st_load (rw_store ?w1) (load_scope sc) i = Some n" by blast
      with calm1 have "0 \<le> n" by (auto simp: rec_calm_def)
      with i n w' have "rec_calm (healthy env) sc base w'"
        by (intro calm_transfer[OF calm1(1)]) (use calm1(1) in \<open>auto simp: rec_calm_def split: if_splits\<close>)
      moreover have "rec_slots sc base w' = (rec_slots sc base w)(i := rec_slots sc base w i + 1)"
        unfolding calm1(2)[symmetric] using i n w' by (auto simp: rec_slots_def fun_eq_iff)
      ultimately show ?thesis
        using w' Inr Some i by (simp add: rec_holds_def)
    qed
  qed
qed

lemma rec_reserve_single:
  assumes "rec_work sc sc'" "rec_free (healthy env) sc base w"
    and "rec_reserve (healthy env) sc' [i] LeastBusy cap w = (r, w')"
  shows "r = Inr (Some i)"
proof -
  note sc = rec_work_scope[OF assms(1)]
  let ?w1 = "seed_record (healthy env) sc' [i] w"
  have "st_load (rw_store ?w1) (load_scope sc') i \<noteq> None"
    by (simp add: seed_record_load split: option.split)
  then obtain n where n: "st_load (rw_store ?w1) (load_scope sc') i = Some n" by blast
  have lease: "\<forall>k. truthy_id (sco_command sc') = Some k \<longrightarrow> st_lease (rw_store ?w1) k = None"
    using assms(2) by (simp add: rec_free_def sc)
  show ?thesis
    using assms(3) n lease
    by (auto simp: rec_reserve_def zset_reserve_def all_up_def Let_def reservation_mode_of_def
        builtin_registry_def run_script_def lua_least_busy_def take_slot_def truthy_id_def
        split: option.splits prod.splits if_splits)
qed

lemma rec_release_law:
  assumes "rec_work sc sc'" "rec_holds (healthy env) sc base w i"
    and "rec_release (healthy env) sc' i w = (r, w')"
  shows "r = Inr () \<and> rec_slots sc base w' = (rec_slots sc base w)(i := max 0 (rec_slots sc base w i - 1))
    \<and> rec_free (healthy env) sc base w'"
proof -
  note sc = rec_work_scope[OF assms(1)]
  from assms(2) obtain n where n: "st_load (rw_store w) (load_scope sc) i = Some n"
    and calm: "rec_calm (healthy env) sc base w" by (auto simp: rec_holds_def)
  have w': "r = Inr ()" "w' = w\<lparr>rw_store := zset_release all_up (load_scope sc) i (sco_command sc) (rw_store w)\<rparr>"
    using assms(3) by (auto simp: rec_release_def sc)
  have load: "st_load (rw_store w') (load_scope sc) j =
      (if j = i then Some (max 0 (n - 1)) else st_load (rw_store w) (load_scope sc) j)" for j
    using w' n by (simp add: zset_release_load lua_release_load all_up_def)
  have "rec_calm (healthy env) sc base w'"
    by (rule calm_transfer[OF calm])
      (use w' load calm in \<open>auto simp: rec_calm_def split: if_splits\<close>)
  moreover have "rec_slots sc base w' = (rec_slots sc base w)(i := max 0 (rec_slots sc base w i - 1))"
    using load n by (auto simp: rec_slots_def fun_eq_iff)
  ultimately show ?thesis
    using w' by (simp add: rec_free_def zset_release_lease all_up_def)
qed

lemma update_one_unmatched: "update_one P f ds = (False, ds') \<Longrightarrow> ds' = ds"
  by (induction ds arbitrary: ds') (auto split: if_splits prod.splits)

lemma rec_commit_store: "rec_commit env sc' j g w = (ok, w') \<Longrightarrow> rw_store w' = rw_store w"
  by (auto simp: rec_commit_def Let_def split: option.splits if_splits prod.splits)

lemma rec_commit_refused:
  assumes "rec_commit env sc' j g w = (ok, w')" "ok \<noteq> Inr True"
  shows "w' = w"
proof (cases "record_collection (sco_type sc') = None \<or> truthy_id (sco_entity sc') = None")
  case True
  with assms(1) show ?thesis by (auto simp: rec_commit_def split: option.splits)
next
  case False
  then obtain coll entity where k: "record_collection (sco_type sc') = Some coll"
    "truthy_id (sco_entity sc') = Some entity" by auto
  let ?P = "\<lambda>d. md_collection d = coll \<and> md_id d = entity \<and> md_tenant d = sco_tenant sc'
      \<and> claimable coll (sco_command sc') d"
  let ?f = "claim_doc coll (sco_command sc') j"
  obtain m docs where u: "update_one ?P ?f (rw_docs w) = (m, docs)" by fastforce
  show ?thesis
  proof (cases "re_valid env entity \<and> re_write_up env")
    case True
    with assms(1) k u have "ok = Inr m" "w' = w\<lparr>rw_docs := docs\<rparr>"
      by (auto simp: rec_commit_def)
    with assms(2) u update_one_unmatched[of ?P ?f "rw_docs w" docs] show ?thesis by auto
  next
    case False
    with assms(1) k show ?thesis by (auto simp: rec_commit_def split: if_splits)
  qed
qed

lemma rec_commit_law:
  assumes "rec_holds env sc base w i" "rec_commit env sc' j g w = (ok, w')"
  shows "rec_slots sc base w' = rec_slots sc base w \<and> (ok \<noteq> Inr True \<longrightarrow> rec_holds env sc base w' i)"
  using rec_commit_store[OF assms(2)] rec_commit_refused[OF assms(2)] assms(1)
  by (auto simp: rec_slots_def)

lemma keeps_store_docs:
  assumes "\<And>w r w'. m w = (r, w') \<Longrightarrow> rw_store w' = rw_store w"
  shows "keeps (\<lambda>w. rec_slots sc base w = S) m"
  using assms by (fastforce simp: keeps_def tri_def rec_slots_def split: prod.split)

lemma keeps_seed:
  assumes "rec_work sc sc'" "\<And>w. snd (m w) = seed_record (healthy env) sc' ids w"
  shows "keeps (\<lambda>w. rec_slots sc base w = S \<and> rec_free (healthy env) sc base w) m"
  unfolding keeps_def tri_def
proof (intro allI impI)
  fix w assume w: "rec_slots sc base w = S \<and> rec_free (healthy env) sc base w"
  have seed_eq: "seed_record (healthy env) sc' ids w = seed_record (healthy env) sc ids w"
    using rec_work_scope[OF assms(1)] by (auto simp: seed_record_def count_open_work_def)
  from w have calm: "rec_calm (healthy env) sc base w" by (simp add: rec_free_def)
  show "case m w of (r, w') \<Rightarrow> rec_slots sc base w' = S \<and> rec_free (healthy env) sc base w'"
    using assms(2)[of w] seed_record_keeps[OF _ calm, of ids] w
    by (auto simp: seed_eq rec_free_def split: prod.split)
qed

interpretation rec: slot_ports "record_adapter (healthy env)" "rec_slots sc base"
  "rec_free (healthy env) sc base" "rec_holds (healthy env) sc base" "rec_work sc"
  for env sc base
proof (unfold_locales, goal_cases)
  case (1 w i)
  then show ?case
    by (auto simp: rec_free_def rec_calm_def rec_slots_def default_to_def split: option.split)
next
  case (2 sc' w ids st cap i w')
  from rec_reserve_cases[OF 2(1,2)] 2(3) show ?case by (fastforce simp: record_adapter_def)
next
  case (3 sc' w ids st cap w')
  from rec_reserve_cases[OF 3(1,2)] 3(3) show ?case by (fastforce simp: record_adapter_def)
next
  case (4 sc' w ids st cap e w')
  from rec_reserve_cases[OF 4(1,2)] 4(3) show ?case by (fastforce simp: record_adapter_def)
next
  case (5 sc' w i rr w')
  from rec_reserve_single[OF 5(1,2)] 5(3) show ?case by (fastforce simp: record_adapter_def)
next
  case (6 sc' w i r w')
  from rec_release_law[OF 6(1,2)] 6(3) show ?case by (fastforce simp: record_adapter_def)
next
  case (7 sc' w i g ok w')
  from rec_commit_law[OF 7(2)] 7(3) show ?case by (fastforce simp: record_adapter_def)
next
  case (8 sc' f S)
  then show ?case
    by (auto simp: record_adapter_def rec_commit_complete_def intro!: keeps_store_docs
        split: option.splits if_splits)
next
  case (9 sc' f1 S i)
  have "keeps (\<lambda>w. rec_slots sc base w = S) (rec_load_complete (healthy env) sc' i)"
    by (auto simp: keeps_def tri_def rec_load_complete_def complete_lease_def rec_slots_def all_up_def
        split: option.splits prod.splits)
  with 9 show ?case by (auto simp: record_adapter_def)
next
  case (10 sc' S)
  then show ?case by (simp add: record_adapter_def rec_base_pool_def)
next
  case (11 sc' S gs)
  then show ?case by (simp add: record_adapter_def rec_members_def)
next
  case (12 sc' f2 S gp)
  then show ?case by (simp add: record_adapter_def)
next
  case (13 sc' S ids)
  then show ?case by (simp add: record_adapter_def rec_skills_def Let_def)
next
  case (14 sc' f3 S ids b)
  then show ?case by (auto simp: record_adapter_def rec_available_def)
next
  case (15 sc' S ids)
  then show ?case
    by (auto simp: record_adapter_def rec_loads_def Let_def intro!: keeps_seed)
next
  case (16 sc' f4 S ids st cap)
  then show ?case
    by (auto simp: record_adapter_def rec_preview_def Let_def intro!: keeps_seed)
next
  case (17 sc' f5 S ids)
  then show ?case
    by (auto simp: record_adapter_def rec_rotate_def keeps_def tri_def)
next
  case (18 sc' f6 S gp)
  then show ?case
    by (auto simp: record_adapter_def rec_park_def Let_def intro!: keeps_store_docs
        split: option.splits if_splits prod.splits)
next
  case (19 sc' g)
  then show ?case by (simp add: rec_work_def)
qed

lemma set_rotated: "set (drop n xs) \<union> set (take n xs) = set xs"
  by (metis Un_commute append_take_drop_id set_append)

lemma cursor_rotate_set: "set (cursor_rotate le up cs ids s) = set ids"
  by (simp add: cursor_rotate_def Let_def set_rotated split: option.split)

lemma preview_loop_in:
  "preview_loop a b load cap ids best = Some i \<Longrightarrow> i \<in> set ids \<or> i \<in> fst ` set_option best"
  by (induction a b load cap ids best rule: preview_loop.induct)
    (fastforce split: option.splits if_splits)+

lemma zset_reserve_in:
  "zset_reserve reg h sc cs cmd ids st cap uc s = (Inr (Some i), s') \<Longrightarrow> i \<in> set ids"
  by (auto simp: zset_reserve_def Let_def split: if_splits option.splits prod.splits
      dest!: run_script_picks)

interpretation rec_pool: pool_ports "record_adapter env" for env
proof (unfold_locales, goal_cases)
  case (1 sc ids st cap w i w')
  then show ?case
    by (auto simp: record_adapter_def rec_reserve_def Let_def split: prod.splits dest!: zset_reserve_in)
next
  case (2 f1 sc ids b w xs w')
  then show ?case
    by (auto simp: record_adapter_def rec_available_def ret_def available_of_def Let_def
        split: option.splits if_splits)
next
  case (3 f2 sc ids w xs w')
  then show ?case by (auto simp: record_adapter_def rec_rotate_def cursor_rotate_set)
next
  case (4 f3 sc ids st cap w i w')
  then show ?case
    by (auto simp: record_adapter_def rec_preview_def zset_preview_def lua_preview_def Let_def
        split: if_splits dest!: preview_loop_in)
qed

section \<open>The decision over the record adapter\<close>

definition pure_services :: "'w services \<Rightarrow> bool" where
  "pure_services sv \<longleftrightarrow>
     (\<forall>t ty ov w. snd (sv_config sv t ty ov w) = w) \<and>
     (\<forall>t ty at ex w. snd (sv_rules sv t ty at ex w) = w) \<and>
     (\<forall>t ty cfg rules f w. sv_capture sv = Some f \<longrightarrow> snd (f t ty cfg rules w) = w)"

lemma keeps_pure: "(\<And>w. snd (m w) = w) \<Longrightarrow> keeps I m"
  unfolding keeps_def tri_def by (metis (mono_tags, lifting) case_prodI2 snd_conv)

text \<open>C1: The books of a decision balance: over the record adapter with a healthy Redis, when no
  slot is held for the command, an assigned decision leaves exactly one more unit of open work
  on exactly its assignee, every other decision (queued, deferred, skipped, failed, dry run)
  and every error leaves every counter as it was; whatever path was taken and whichever
  commit, queue or group call failed on the way.\<close>

theorem record_decision_balances:
  assumes "sv_adapters sv (rq_type rq) = Some (record_adapter (healthy env))"
    and "pure_services sv" and "rq_commit rq = None"
    and "rec_free (healthy env) (request_scope (sv_parse_date sv) rq) base (cs_world s)"
    and "assign sv rq s = (r, s')"
  shows "rec_slots (request_scope (sv_parse_date sv) rq) base (cs_world s') =
    (case r of
       Inl e \<Rightarrow> rec_slots (request_scope (sv_parse_date sv) rq) base (cs_world s)
     | Inr d \<Rightarrow> if rq_dry rq then rec_slots (request_scope (sv_parse_date sv) rq) base (cs_world s)
         else settled (rec_slots (request_scope (sv_parse_date sv) rq) base (cs_world s)) d)"
proof -
  let ?sc = "request_scope (sv_parse_date sv) rq"
  let ?S = "rec_slots ?sc base (cs_world s)"
  have "rec.services_quiet ?sc base env sv"
    using assms(2) by (auto simp: rec.services_quiet_def pure_services_def intro!: keeps_pure)
  moreover have "rec.commit_quiet ?sc base env rq"
    using assms(3) by (simp add: rec.commit_quiet_def)
  moreover have "rec_work ?sc ?sc" by (simp add: rec_work_def)
  ultimately have "tri (\<lambda>t. rec_slots ?sc base (cs_world t) = ?S
        \<and> rec_free (healthy env) ?sc base (cs_world t)) (assign sv rq)
      (\<lambda>r t. case r of Inl e \<Rightarrow> rec_slots ?sc base (cs_world t) = ?S
         | Inr d \<Rightarrow> rec_slots ?sc base (cs_world t) = (if rq_dry rq then ?S else settled ?S d))"
    using rec.assign_balanced[OF assms(1)] by blast
  with assms(4,5) show ?thesis by (fastforce simp: tri_def split: sum.splits)
qed

text \<open>C2: The restrictions of a request are hard: whoever the pipeline picks (from a rule, the
  default team, the preferred assignee or a dry run) is never an excluded agent and is inside
  the allow-list when the request has one. (A manual override and the configured fallback
  owner are explicit instructions and are not picked.)\<close>

theorem picked_assignee_is_admitted:
  assumes "sv_adapters sv (rq_type rq) = Some (record_adapter env)"
    and "assign sv rq s = (Inr d, s')" and "picked_key (d_key d)"
  shows "\<exists>u. d_assignee d = Some u \<and> u \<notin> set (rq_exclude rq)
    \<and> (\<forall>r. rq_restrict rq = Some r \<longrightarrow> u \<in> set r)"
proof -
  from rec_pool.assign_names_admitted[OF assms(1)] assms(2) have "names_admitted (may_name rq) d"
    by (auto simp: yields_def)
  with assms(3) show ?thesis
    by (auto simp: names_admitted_def may_name_def split: option.splits)
qed

section \<open>The claim on the record\<close>

lemma update_one_split:
  "update_one P f ds = (True, ds') \<Longrightarrow>
     \<exists>pre d post. ds = pre @ d # post \<and> P d \<and> ds' = pre @ f d # post"
proof (induction ds arbitrary: ds')
  case (Cons d ds)
  show ?case
  proof (cases "P d")
    case True
    with Cons.prems show ?thesis by (intro exI[of _ "[]"]) auto
  next
    case False
    with Cons.prems obtain rest where u: "update_one P f ds = (True, rest)" "ds' = d # rest"
      by (auto split: prod.splits)
    from Cons.IH[OF u(1)] obtain pre x post where
      "ds = pre @ x # post" "P x" "rest = pre @ f x # post" by blast
    with u show ?thesis by (intro exI[of _ "d # pre"] exI[of _ x] exI[of _ post]) simp
  qed
qed simp

lemma update_one_none: "(\<And>d. d \<in> set ds \<Longrightarrow> \<not> P d) \<Longrightarrow> update_one P f ds = (False, ds)"
  by (induction ds) auto

text \<open>C6: A record is claimed once: after the default commit of one command succeeded, the commit
  of any other decision on the same record (of another command, or of none) is refused and
  leaves every document as it is, so two racing decisions never both win.\<close>

theorem claim_is_one_shot:
  assumes "rec_commit env sc who g w = (Inr True, w')"
    and "truthy_id (sco_command sc) = Some k" and "sco_command sc2 \<noteq> Some k"
    and "sco_tenant sc2 = sco_tenant sc" "sco_type sc2 = sco_type sc" "sco_entity sc2 = sco_entity sc"
    and "distinct (map (\<lambda>d. (md_collection d, md_id d)) (rw_docs w))"
  shows "rec_commit env sc2 who2 g2 w' = (Inr False, w')"
proof -
  from assms(1) obtain coll entity where k: "record_collection (sco_type sc) = Some coll"
    "truthy_id (sco_entity sc) = Some entity" "re_valid env entity" "re_write_up env"
    by (auto simp: rec_commit_def split: option.splits if_splits)
  let ?P = "\<lambda>c d. md_collection d = coll \<and> md_id d = entity \<and> md_tenant d = sco_tenant sc
      \<and> claimable coll c d"
  obtain docs where u: "update_one (?P (sco_command sc)) (claim_doc coll (sco_command sc) who) (rw_docs w)
      = (True, docs)" "w' = w\<lparr>rw_docs := docs\<rparr>"
    using assms(1) k by (auto simp: rec_commit_def Let_def split: prod.splits)
  from update_one_split[OF u(1)] obtain pre d post where d: "rw_docs w = pre @ d # post"
    "?P (sco_command sc) d" "docs = pre @ claim_doc coll (sco_command sc) who d # post" by blast
  have claimed: "\<not> claimable coll (sco_command sc2) (claim_doc coll (sco_command sc) who d)"
    using assms(2,3) by (auto simp: claimable_def claim_doc_def Let_def truthy_id_def split: option.splits if_splits)
  have others: "\<not> (md_collection x = coll \<and> md_id x = entity)" if "x \<in> set pre \<union> set post" for x
    using assms(7) d that by (auto simp: image_iff)
  have none: "update_one (?P (sco_command sc2)) (claim_doc coll (sco_command sc2) who2) docs = (False, docs)"
    by (rule update_one_none) (use d claimed others in \<open>auto\<close>)
  show ?thesis
    using k assms(4-6) none u(2) by (simp add: rec_commit_def)
qed

section \<open>Reconciliation and the listener\<close>

lemma overwrite_fold_load:
  "distinct (map fst ps) \<Longrightarrow>
   st_load (fold (overwrite_one sc) ps s) sc i =
     (case (st_load s sc i, map_of ps i) of (Some _, Some n) \<Rightarrow> Some (max 0 n) | _ \<Rightarrow> st_load s sc i)"
proof (induction ps arbitrary: s)
  case Nil
  then show ?case by (simp split: option.split)
next
  case (Cons p ps)
  obtain k v where p: "p = (k, v)" by fastforce
  from Cons.prems p have "map_of ps k = None" by (auto simp: map_of_eq_None_iff)
  with Cons p show ?case
    by (auto simp: overwrite_one_def split: option.splits if_splits)
qed

lemma open_work_nonneg: "0 \<le> open_work env sc w i"
  by (simp add: open_work_def)

text \<open>Reconciliation removes all drift: after it, the counter of every tracked candidate is the
  number of open records the collections hold, it reports a drift of zero exactly when all
  counters were right, and it never starts tracking anyone.\<close>

theorem reconcile_corrects_drift:
  assumes "reconcile_tracked env sc tracked w = (Inr (n, drifted, amount), w')"
    and "h_eval (re_health env)" "i \<in> set tracked"
    and "\<forall>j \<in> set tracked. st_load (rw_store w) (load_scope sc) j \<noteq> None"
  shows "st_load (rw_store w') (load_scope sc) i = Some (open_work env sc w' i)
    \<and> (drifted = 0 \<longleftrightarrow>
        (\<forall>j \<in> set tracked. st_load (rw_store w) (load_scope sc) j = Some (open_work env sc w j)))
    \<and> (\<forall>j. st_load (rw_store w) (load_scope sc) j = None \<longrightarrow> st_load (rw_store w') (load_scope sc) j = None)"
proof -
  have drift: "drift env sc tracked w j = the (st_load (rw_store w) (load_scope sc) j) - open_work env sc w j"
    if "j \<in> set tracked" for j
    using that assms(2,4) by (auto simp: drift_def scores_def count_open_work_def map_of_counts)
  have zero: "drift env sc tracked w j = 0 \<longleftrightarrow>
      st_load (rw_store w) (load_scope sc) j = Some (open_work env sc w j)" if "j \<in> set tracked" for j
    using drift[OF that] assms(4) that by auto
  let ?off = "filter (\<lambda>j. drift env sc tracked w j \<noteq> 0) tracked"
  have ne: "tracked \<noteq> []" using assms(3) by auto
  show ?thesis
  proof (cases "?off = []")
    case True
    with assms(1) ne have "w' = w" "drifted = 0"
      by (auto simp: reconcile_tracked_def Let_def split: if_splits)
    moreover have "\<forall>j \<in> set tracked. drift env sc tracked w j = 0"
      using True by (simp add: filter_empty_conv)
    ultimately show ?thesis using zero assms(3) by auto
  next
    case False
    with assms(1,2) ne have w': "w' = w\<lparr>rw_store := overwrite_tracked (load_scope sc)
        (count_open_work env sc tracked w) (rw_store w)\<rparr>" and dr: "drifted = length ?off"
      by (auto simp: reconcile_tracked_def Let_def split: if_splits)
    have load: "st_load (rw_store w') (load_scope sc) j = (case st_load (rw_store w) (load_scope sc) j of
        Some m \<Rightarrow> if j \<in> set tracked then Some (open_work env sc w j) else Some m | None \<Rightarrow> None)" for j
      unfolding w'
      by (auto simp: overwrite_tracked_def count_open_work_def overwrite_fold_load comp_def map_of_counts
          open_work_nonneg split: option.split)
    have "open_work env sc w' = open_work env sc w" by (rule open_work_docs) (simp add: w')
    moreover have "\<not> (\<forall>j \<in> set tracked. drift env sc tracked w j = 0)"
      using False by (simp add: filter_empty_conv)
    ultimately show ?thesis
      using load assms(3,4) zero dr False by (auto split: option.splits)
  qed
qed

lemma active_owner_present: "active_owner ty x = Some y \<Longrightarrow> \<exists>b. x = Some b"
  by (cases x) (simp_all add: active_owner_def is_active_def)

lemma adjust_store_load:
  "st_load (adjust_store True sc who delta s) sc i =
     (if truthy_id who = Some i \<and> delta \<noteq> 0 then map_option (\<lambda>n. max 0 (n + delta)) (st_load s sc i)
      else st_load s sc i)"
  by (auto simp: adjust_store_def adjust_if_tracked_def truthy_id_def split: option.splits)

text \<open>A change of owner moves one unit of open work: for an entity event whose active owner
  changed, the tracked counter of the old owner loses one (never below zero), that of the new
  owner gains one, every other counter of the type keeps its value and nobody untracked
  becomes tracked.\<close>

theorem owner_change_moves_one_unit:
  assumes "entity_type_of (default_to [] (ev_type ev)) = Some ty"
    and "truthy_id (ev_tenant ev) = Some tenant" and "h_eval (re_health env)"
    and "active_owner ty (ev_old ev) \<noteq> active_owner ty (ev_new ev)"
  shows "st_load (rw_store (on_entity_event env ev w)) (tenant @ '':'' @ object_type_name ty) i =
    map_option (\<lambda>n. if truthy_id (active_owner ty (ev_old ev)) = Some i then max 0 (n - 1)
                    else if truthy_id (active_owner ty (ev_new ev)) = Some i then max 0 (n + 1) else n)
      (st_load (rw_store w) (tenant @ '':'' @ object_type_name ty) i)"
proof -
  let ?sc = "tenant @ '':'' @ object_type_name ty"
  have some: "\<not> (ev_old ev = None \<and> ev_new ev = None)" using assms(4) by metis
  have "rw_store (on_entity_event env ev w) =
      adjust_store True ?sc (active_owner ty (ev_new ev)) 1
        (adjust_store True ?sc (active_owner ty (ev_old ev)) (-1) (rw_store w))"
    using assms some
    by (auto simp: on_entity_event_def Let_def split: option.splits dest: active_owner_present)
  moreover have "\<not> (truthy_id (active_owner ty (ev_old ev)) = Some i
      \<and> truthy_id (active_owner ty (ev_new ev)) = Some i)"
    using assms(4) by (auto simp: truthy_id_Some)
  ultimately show ?thesis
    unfolding \<open>rw_store (on_entity_event env ev w) = _\<close> adjust_store_load
    by (auto simp: option.map_comp comp_def option.map_ident split: option.splits)
qed

lemma bag_get_absent: "k \<notin> fst ` set b \<Longrightarrow> bag_get b k = JUndef"
  by (simp add: bag_get_def map_of_eq_None_iff[symmetric])

text \<open>The listener and the authoritative count agree on what open work is, for contacts,
  accounts, tasks and deals, as long as no stamp field of the document is present with an
  empty value and the snapshot is not a deletion.\<close>

theorem listener_agrees_with_count:
  assumes "ty \<in> {Contact, Account, Task, Deal}" and "load_source ty = Some (coll, stamps)"
    and "\<forall>k \<in> set stamps. k \<in> fst ` set b \<longrightarrow> truthy (bag_get b k)"
    and "\<not> truthy (bag_get b ''_deleted'')"
  shows "is_active ty (Some b) \<longleftrightarrow> passes_filter stamps b"
proof -
  have "truthy (bag_get b k) \<longleftrightarrow> k \<in> fst ` set b" if "k \<in> set stamps" for k
    using assms(3) that by (auto simp: bag_get_absent) (metis bag_get_absent truthy.simps(1) fst_conv imageI)
  with assms show ?thesis
    by (auto simp: is_active_def passes_filter_def load_source_def)
qed

text \<open>
  A reopened task stores \<open>completedAt: null\<close> (so does a reopened ticket with its stamps): the
  listener takes it as open work again, the count over the collection does not see it.
\<close>

lemma reopened_task_is_not_counted:
  "is_active Task (Some [(''completedAt'', JNull)])"
  "\<not> passes_filter [''deletedAt'', ''completedAt''] [(''completedAt'', JNull)]"
  by (simp_all add: is_active_def passes_filter_def)

text \<open>A resolved ticket is closed work for the count and open work for the listener.\<close>

lemma resolved_ticket_stays_open_work:
  "is_active Ticket (Some [(''resolvedAt'', JDate 5 [])])"
  "\<not> passes_filter [''deletedAt'', ''resolvedAt'', ''closedAt''] [(''resolvedAt'', JDate 5 [])]"
  by (simp_all add: is_active_def passes_filter_def)

section \<open>A concrete deployment\<close>

definition demo_env :: rec_env where
  "demo_env =
     \<lparr>re_valid = (\<lambda>_. True), re_le = (\<lambda>a b. True),
      re_groups = Some [\<lparr>gd_id = ''g'', gd_member_ids = Some [''u1'', ''u2''], gd_members = None\<rparr>],
      re_users = Some [], re_presence = None, re_count_up = True, re_write_up = True,
      re_queue_up = True, re_health = all_up, re_registry = Some builtin_registry\<rparr>"

definition demo_doc :: "string \<Rightarrow> string option \<Rightarrow> mdoc" where
  "demo_doc ident owner =
     \<lparr>md_collection = ''tasks'', md_id = ident, md_tenant = ''t'', md_owner = owner,
      md_explicit = None, md_command = None, md_fields = []\<rparr>"

definition demo_world :: rec_world where
  "demo_world = \<lparr>rw_store = empty_store,
     rw_docs = [demo_doc ''r1'' (Some ''u1''), demo_doc ''r2'' None], rw_queue = []\<rparr>"

definition demo_services :: "rec_world services" where
  "demo_services =
     \<lparr>sv_adapters = (\<lambda>_. Some (record_adapter (healthy demo_env))),
      sv_config = (\<lambda>_ _ _. ret (hard_defaults\<lparr>cfg_auto := True, cfg_strategy := CapacityBased,
         cfg_group := Some ''g'', cfg_online := False\<rparr>)),
      sv_rules = (\<lambda>_ _ _ _. ret (None, [], [])), sv_capture = None,
      sv_registry = Some builtin_registry, sv_parse_date = (\<lambda>_. None)\<rparr>"

definition demo_request :: "rec_world request" where
  "demo_request =
     \<lparr>rq_tenant = ''t'', rq_type = Task, rq_entity = Some ''r2'', rq_command = Some ''k'',
      rq_scope = None, rq_attrs = [], rq_manual = None, rq_previous = None, rq_bypass = False,
      rq_strategy = None, rq_target_groups = None, rq_target_user = None, rq_skills = [],
      rq_owning = None, rq_restrict = None, rq_exclude = [''u9''], rq_preferred = None,
      rq_skip_rules = True, rq_override = None, rq_commit = None, rq_outcome = None,
      rq_dry = False, rq_explain = False, rq_source = None, rq_workflow = None,
      rq_performer = None, rq_channel = None, rq_metadata = []\<rparr>"

definition demo_start :: "rec_world cstate" where
  "demo_start = \<lparr>cs_world = demo_world, cs_trail = []\<rparr>"

abbreviation demo_sc :: scope where
  "demo_sc \<equiv> request_scope (sv_parse_date demo_services) demo_request"

definition demo_base :: "string \<Rightarrow> int" where
  "demo_base i = (if i = ''u1'' then 1 else 0)"

lemma demo_adapter: "sv_adapters demo_services (rq_type demo_request) = Some (record_adapter (healthy demo_env))"
  by (simp add: demo_services_def)

lemma demo_pure: "pure_services demo_services"
  by (simp add: pure_services_def demo_services_def ret_def)

lemma demo_free: "rec_free (healthy demo_env) demo_sc demo_base demo_world"
  by (auto simp: rec_free_def rec_calm_def demo_world_def empty_store_def demo_base_def open_work_def
      healthy_def demo_env_def counts_for_def request_scope_def demo_request_def load_source_def
      demo_doc_def passes_filter_def)

lemma demo_run:
  "map_sum id (\<lambda>d. (d_outcome d, d_assignee d, d_key d)) (fst (assign demo_services demo_request demo_start))
     = Inr (Assigned, Some ''u2'', KAssigned)"
  by code_simp

lemma demo_decision:
  obtains d s' where "assign demo_services demo_request demo_start = (Inr d, s')"
    "d_outcome d = Assigned" "d_assignee d = Some ''u2''" "d_key d = KAssigned"
  using demo_run
  by (cases "assign demo_services demo_request demo_start"; cases "fst (assign demo_services demo_request demo_start)") auto

theorem record_decision_balances_witness:
  "rec_slots demo_sc demo_base (cs_world (snd (assign demo_services demo_request demo_start))) ''u2'' = 1
   \<and> rec_slots demo_sc demo_base (cs_world (snd (assign demo_services demo_request demo_start))) ''u1'' = 1"
proof -
  obtain d s' where d: "assign demo_services demo_request demo_start = (Inr d, s')"
    "d_outcome d = Assigned" "d_assignee d = Some ''u2''" by (rule demo_decision)
  have nc: "rq_commit demo_request = None" "\<not> rq_dry demo_request" by (simp_all add: demo_request_def)
  have free: "rec_free (healthy demo_env) demo_sc demo_base (cs_world demo_start)"
    using demo_free by (simp add: demo_start_def)
  have start: "rec_slots demo_sc demo_base (cs_world demo_start) = demo_base"
    by (simp add: rec_slots_def demo_start_def demo_world_def empty_store_def fun_eq_iff)
  have "rec_slots demo_sc demo_base (cs_world s') = settled demo_base d"
    using record_decision_balances[OF demo_adapter demo_pure nc(1) free d(1)] nc(2) by (simp add: start)
  with d show ?thesis by (simp add: settled_def demo_base_def)
qed

theorem picked_assignee_is_admitted_witness:
  "\<exists>d s' u. assign demo_services demo_request demo_start = (Inr d, s')
     \<and> d_assignee d = Some u \<and> u \<notin> set (rq_exclude demo_request)"
proof -
  obtain d s' where d: "assign demo_services demo_request demo_start = (Inr d, s')"
    "d_key d = KAssigned" by (rule demo_decision)
  then have "picked_key (d_key d)" by (simp add: picked_key_def)
  from picked_assignee_is_admitted[OF demo_adapter d(1) this] d(1) show ?thesis by blast
qed

definition demo_rec_scope :: "string option \<Rightarrow> scope" where
  "demo_rec_scope cmd = (request_scope (\<lambda>_. None) demo_request)\<lparr>sco_command := cmd\<rparr>"

definition demo_claimed :: rec_world where
  "demo_claimed = snd (rec_commit demo_env (demo_rec_scope (Some ''k'')) ''u2'' None demo_world)"

lemma demo_claim: "rec_commit demo_env (demo_rec_scope (Some ''k'')) ''u2'' None demo_world = (Inr True, demo_claimed)"
  by (simp add: demo_claimed_def rec_commit_def demo_rec_scope_def request_scope_def demo_request_def
      record_collection_def truthy_id_def demo_env_def demo_world_def demo_doc_def claimable_def
      tracks_owner_intent_def)

theorem claim_is_one_shot_witness:
  "rec_commit demo_env (demo_rec_scope (Some ''k2'')) ''u1'' None demo_claimed = (Inr False, demo_claimed)"
  by (rule claim_is_one_shot[OF demo_claim, where k = "''k''"])
    (simp_all add: demo_rec_scope_def demo_world_def demo_doc_def truthy_id_def)

definition demo_drifted :: rec_world where
  "demo_drifted = demo_world\<lparr>rw_store := set_load (load_scope (demo_rec_scope None)) ''u1'' 7 empty_store\<rparr>"

theorem reconcile_corrects_drift_witness:
  "st_load (rw_store (snd (reconcile_tracked demo_env (demo_rec_scope None) [''u1''] demo_drifted)))
     (load_scope (demo_rec_scope None)) ''u1'' = Some 1"
proof -
  let ?sc = "demo_rec_scope None"
  obtain w' where r: "reconcile_tracked demo_env ?sc [''u1''] demo_drifted = (Inr (1, 1, 6), w')"
    and docs: "rw_docs w' = rw_docs demo_world"
    by (simp add: reconcile_tracked_def drift_def scores_def demo_env_def all_up_def demo_drifted_def
        count_open_work_def uniq_distinct open_work_def counts_for_def load_source_def demo_world_def
        demo_doc_def passes_filter_def demo_rec_scope_def request_scope_def demo_request_def)
  have "st_load (rw_store w') (load_scope ?sc) ''u1'' = Some (open_work demo_env ?sc w' ''u1'')"
    using reconcile_corrects_drift[OF r, of "''u1''"]
    by (simp add: demo_env_def all_up_def demo_drifted_def)
  moreover have "open_work demo_env ?sc w' ''u1'' = 1"
    using docs by (simp add: open_work_def demo_env_def counts_for_def load_source_def demo_world_def
        demo_doc_def passes_filter_def demo_rec_scope_def request_scope_def demo_request_def)
  ultimately show ?thesis using r by simp
qed

text \<open>
  When the aggregate fails, the count is zero for everybody and the reconciliation writes
  that zero over every live counter.
\<close>

lemma reconcile_after_failed_count:
  "st_load (rw_store (snd (reconcile_tracked (demo_env\<lparr>re_count_up := False\<rparr>) (demo_rec_scope None)
     [''u1''] demo_drifted))) (load_scope (demo_rec_scope None)) ''u1'' = Some 0"
  by (simp add: reconcile_tracked_def drift_def scores_def demo_env_def all_up_def demo_drifted_def
      count_open_work_def uniq_distinct open_work_def overwrite_tracked_def overwrite_one_def)

definition demo_event :: entity_event where
  "demo_event = \<lparr>ev_tenant = Some ''t'', ev_type = Some ''TASK'', ev_entity = None,
     ev_old = Some [(''ownerId'', JStr ''u1'')], ev_new = Some [(''ownerId'', JStr ''u2'')]\<rparr>"

theorem owner_change_moves_one_unit_witness:
  "st_load (rw_store (on_entity_event demo_env demo_event demo_drifted)) ''t:Task'' ''u1'' = Some 6
   \<and> st_load (rw_store (on_entity_event demo_env demo_event demo_drifted)) ''t:Task'' ''u2'' = None"
proof -
  have t: "entity_type_of (default_to [] (ev_type demo_event)) = Some Task"
    "truthy_id (ev_tenant demo_event) = Some ''t''" "h_eval (re_health demo_env)"
    by (simp_all add: demo_event_def entity_type_of_def truthy_id_def demo_env_def all_up_def)
  have o: "active_owner Task (ev_old demo_event) = Some ''u1''" "active_owner Task (ev_new demo_event) = Some ''u2''"
    by (simp_all add: demo_event_def active_owner_def is_active_def id_of_def)
  have ne: "active_owner Task (ev_old demo_event) \<noteq> active_owner Task (ev_new demo_event)" by (simp add: o)
  have sc: "load_scope (demo_rec_scope None) = ''t:Task''"
    by (simp add: load_scope_def demo_rec_scope_def request_scope_def demo_request_def)
  show ?thesis
    using owner_change_moves_one_unit[OF t ne, of demo_drifted "''u1''"]
      owner_change_moves_one_unit[OF t ne, of demo_drifted "''u2''"]
    by (simp add: o truthy_id_def demo_drifted_def sc empty_store_def)
qed

theorem listener_agrees_with_count_witness:
  "\<not> is_active Deal (Some [(''wonAt'', JDate 1 []), (''stageId'', JStr ''s'')])"
proof -
  have "is_active Deal (Some [(''wonAt'', JDate 1 []), (''stageId'', JStr ''s'')]) \<longleftrightarrow>
      passes_filter [''deletedAt'', ''wonAt'', ''lostAt''] [(''wonAt'', JDate 1 []), (''stageId'', JStr ''s'')]"
    by (rule listener_agrees_with_count[where coll = "''deals''"]) (simp_all add: load_source_def)
  then show ?thesis by (simp add: passes_filter_def)
qed

end
