(* ===== verification/Presence_Machine.thy ===== *)
theory Presence_Machine
  imports Crm_Prelude Complex_Main
begin

text \<open>
  The canonical agent state (\<open>src/src/omni-inbound/domain/presence-state.ts\<close>) and its pure
  state machine (\<open>presence-state-machine.ts\<close>). Loads and capacities are rationals: workload
  weights may be fractional, and the rounding of doubles is not modelled. Times are integer
  milliseconds.
\<close>

section \<open>The axes\<close>

datatype presence_status = PAvailable | PAway | PBreak | PMeeting | PTraining | POffline
datatype routing_status = Accepting | NotAccepting
datatype work_status = WIdle | InChat | InTicket | InEmail | InCall | WrapUp
datatype capacity_status = CapOk | CapFull
datatype connection_status = Connected | Disconnected

record agent_state =
  ag_presence :: presence_status
  ag_routing :: routing_status
  ag_work :: work_status
  ag_connection :: connection_status
  ag_load :: rat
  ag_max :: rat
  ag_updated :: int

definition presence_statuses :: "presence_status list" where
  "presence_statuses = [PAvailable, PAway, PBreak, PMeeting, PTraining, POffline]"

definition online_presence_statuses :: "presence_status list" where
  "online_presence_statuses = [PAvailable, PAway, PBreak, PMeeting, PTraining]"

definition is_online :: "presence_status \<Rightarrow> bool" where
  "is_online p \<longleftrightarrow> p \<noteq> POffline"

definition is_routable_presence :: "presence_status \<Rightarrow> bool" where
  "is_routable_presence p \<longleftrightarrow> p = PAvailable"

definition compute_capacity_status :: "rat \<Rightarrow> rat \<Rightarrow> capacity_status" where
  "compute_capacity_status load mx = (if load \<ge> mx then CapFull else CapOk)"

definition is_eligible_for_routing ::
  "presence_status \<Rightarrow> connection_status \<Rightarrow> routing_status \<Rightarrow> rat \<Rightarrow> rat \<Rightarrow> bool" where
  "is_eligible_for_routing p c r load mx \<longleftrightarrow>
     p = PAvailable \<and> c = Connected \<and> r = Accepting \<and> load < mx"

subsection \<open>The work label\<close>

record open_interactions =
  oi_call :: bool
  oi_chat :: bool
  oi_ticket :: bool
  oi_email :: bool
  oi_wrap_up :: bool

definition work_status_priority :: "work_status list" where
  "work_status_priority = [InCall, InChat, InTicket, InEmail, WrapUp, WIdle]"

fun work_status_interaction :: "work_status \<Rightarrow> (open_interactions \<Rightarrow> bool) option" where
  "work_status_interaction InCall = Some oi_call"
| "work_status_interaction InChat = Some oi_chat"
| "work_status_interaction InTicket = Some oi_ticket"
| "work_status_interaction InEmail = Some oi_email"
| "work_status_interaction WrapUp = Some oi_wrap_up"
| "work_status_interaction WIdle = None"

fun first_open :: "work_status list \<Rightarrow> open_interactions \<Rightarrow> work_status" where
  "first_open [] oi = WIdle"
| "first_open (s # ss) oi =
     (case work_status_interaction s of
        Some flag \<Rightarrow> if flag oi then s else first_open ss oi
      | None \<Rightarrow> first_open ss oi)"

definition derive_work_status :: "open_interactions \<Rightarrow> work_status" where
  "derive_work_status oi = first_open work_status_priority oi"

subsection \<open>Legacy interop\<close>

datatype legacy_intent = LAvailable | LBusy | LAway | LOffline

definition to_legacy_intent :: "presence_status \<Rightarrow> routing_status \<Rightarrow> legacy_intent" where
  "to_legacy_intent p r =
     (if p = POffline then LOffline
      else if p = PAvailable then (if r = Accepting then LAvailable else LBusy)
      else LAway)"

fun from_legacy_intent :: "legacy_intent \<Rightarrow> presence_status \<times> routing_status" where
  "from_legacy_intent LAvailable = (PAvailable, Accepting)"
| "from_legacy_intent LBusy = (PAvailable, NotAccepting)"
| "from_legacy_intent LAway = (PAway, NotAccepting)"
| "from_legacy_intent LOffline = (POffline, NotAccepting)"

definition compute_display_status ::
  "presence_status \<Rightarrow> routing_status \<Rightarrow> connection_status \<Rightarrow> legacy_intent" where
  "compute_display_status p r c =
     (if p = POffline \<or> c = Disconnected then LOffline else to_legacy_intent p r)"

section \<open>Transitions\<close>

datatype trigger =
    AgentManual | SupervisorOverride | SystemLogin | SystemLogout | SystemConnect
  | SystemDisconnect | SystemReconnect | SystemGraceExpired | SystemDayRollover | SystemWorkStatus

datatype actor = Agent | System | Supervisor

record transition_context =
  tc_trigger :: trigger
  tc_now :: int
  tc_actor :: "actor option"
  tc_restore :: bool
  tc_was_accepting :: bool

datatype axis = PresenceAxis | RoutingAxis

datatype transition_error =
    IllegalPresence presence_status presence_status actor
  | RoutingWhile routing_status presence_status
  | AcceptingDisconnected

record transition_result =
  tr_error :: "transition_error option" \<comment> \<open>\<open>ok\<close> is \<open>tr_error = None\<close>\<close>
  tr_state :: agent_state
  tr_changed :: "axis list"

abbreviation tr_ok :: "transition_result \<Rightarrow> bool" where
  "tr_ok r \<equiv> tr_error r = None"

definition can_transition_presence :: "presence_status \<Rightarrow> presence_status \<Rightarrow> actor \<Rightarrow> bool" where
  "can_transition_presence from to who =
     (if from = to then True
      else if from = POffline then to = PAvailable
      else if to = POffline then who \<noteq> Agent
      else True)"

definition routing_after_presence_change ::
  "presence_status \<Rightarrow> presence_status \<Rightarrow> routing_status \<Rightarrow> transition_context \<Rightarrow> routing_status" where
  "routing_after_presence_change to from current ctx =
     (if to \<noteq> PAvailable then NotAccepting
      else if from = PAvailable then current
      else if tc_restore ctx \<and> tc_was_accepting ctx then Accepting
      else NotAccepting)"

definition changed_axes :: "agent_state \<Rightarrow> presence_status \<Rightarrow> routing_status \<Rightarrow> axis list" where
  "changed_axes s p r =
     (if p \<noteq> ag_presence s then [PresenceAxis] else []) @
     (if r \<noteq> ag_routing s then [RoutingAxis] else [])"

definition transition_presence ::
  "agent_state \<Rightarrow> presence_status \<Rightarrow> transition_context \<Rightarrow> transition_result" where
  "transition_presence s to ctx =
     (let who = default_to Agent (tc_actor ctx) in
      if \<not> can_transition_presence (ag_presence s) to who
      then \<lparr>tr_error = Some (IllegalPresence (ag_presence s) to who), tr_state = s, tr_changed = []\<rparr>
      else
        let nr = routing_after_presence_change to (ag_presence s) (ag_routing s) ctx
        in \<lparr>tr_error = None,
            tr_state = s\<lparr>ag_presence := to, ag_routing := nr, ag_updated := tc_now ctx\<rparr>,
            tr_changed = changed_axes s to nr\<rparr>)"

definition set_routing ::
  "agent_state \<Rightarrow> routing_status \<Rightarrow> transition_context \<Rightarrow> transition_result" where
  "set_routing s r ctx =
     (if ag_presence s \<noteq> PAvailable
      then \<lparr>tr_error = Some (RoutingWhile r (ag_presence s)), tr_state = s, tr_changed = []\<rparr>
      else if r = Accepting \<and> ag_connection s \<noteq> Connected
      then \<lparr>tr_error = Some AcceptingDisconnected, tr_state = s, tr_changed = []\<rparr>
      else if r = ag_routing s then \<lparr>tr_error = None, tr_state = s, tr_changed = []\<rparr>
      else \<lparr>tr_error = None, tr_state = s\<lparr>ag_routing := r, ag_updated := tc_now ctx\<rparr>,
            tr_changed = [RoutingAxis]\<rparr>)"

definition apply_login :: "agent_state \<Rightarrow> int \<Rightarrow> transition_result" where
  "apply_login s now =
     \<lparr>tr_error = None,
      tr_state = s\<lparr>ag_presence := PAvailable, ag_routing := NotAccepting,
        ag_connection := Connected, ag_updated := now\<rparr>,
      tr_changed = changed_axes s PAvailable NotAccepting\<rparr>"

definition force_offline :: "agent_state \<Rightarrow> transition_context \<Rightarrow> transition_result" where
  "force_offline s ctx =
     \<lparr>tr_error = None,
      tr_state = s\<lparr>ag_presence := POffline, ag_routing := NotAccepting,
        ag_connection := Disconnected, ag_updated := tc_now ctx\<rparr>,
      tr_changed = changed_axes s POffline NotAccepting\<rparr>"

definition apply_day_rollover_reset :: "agent_state \<Rightarrow> int \<Rightarrow> transition_result" where
  "apply_day_rollover_reset s now =
     (if ag_routing s = NotAccepting then \<lparr>tr_error = None, tr_state = s, tr_changed = []\<rparr>
      else \<lparr>tr_error = None, tr_state = s\<lparr>ag_routing := NotAccepting, ag_updated := now\<rparr>,
            tr_changed = [RoutingAxis]\<rparr>)"

definition is_stale_command :: "int \<Rightarrow> int option \<Rightarrow> bool" where
  "is_stale_command incoming applied = (case applied of None \<Rightarrow> False | Some l \<Rightarrow> incoming < l)"

section \<open>The machine\<close>

text \<open>One step of an agent's state: any transition, with any context.\<close>

inductive agent_step :: "agent_state \<Rightarrow> agent_state \<Rightarrow> bool" where
  presence: "agent_step s (tr_state (transition_presence s to ctx))"
| routing: "agent_step s (tr_state (set_routing s r ctx))"
| login: "agent_step s (tr_state (apply_login s now))"
| offline: "agent_step s (tr_state (force_offline s ctx))"
| rollover: "agent_step s (tr_state (apply_day_rollover_reset s now))"
| load: "agent_step s (s\<lparr>ag_load := l\<rparr>)"
| connection: "agent_step s (s\<lparr>ag_connection := c\<rparr>)"

inductive_cases agent_stepE: "agent_step s s'"

text \<open>The routing interlock: accepting work implies being available.\<close>

definition interlocked :: "presence_status \<Rightarrow> routing_status \<Rightarrow> bool" where
  "interlocked p r \<longleftrightarrow> (r = Accepting \<longrightarrow> p = PAvailable)"

lemma transition_presence_interlocked:
  "interlocked (ag_presence s) (ag_routing s) \<Longrightarrow>
     interlocked (ag_presence (tr_state (transition_presence s to ctx)))
       (ag_routing (tr_state (transition_presence s to ctx)))"
  by (auto simp: transition_presence_def Let_def interlocked_def routing_after_presence_change_def)

lemma set_routing_interlocked:
  "interlocked (ag_presence s) (ag_routing s) \<Longrightarrow>
     interlocked (ag_presence (tr_state (set_routing s r ctx))) (ag_routing (tr_state (set_routing s r ctx)))"
  by (auto simp: set_routing_def interlocked_def)

lemma agent_step_interlocked:
  "agent_step s s' \<Longrightarrow> interlocked (ag_presence s) (ag_routing s) \<Longrightarrow>
     interlocked (ag_presence s') (ag_routing s')"
proof (induction rule: agent_step.induct)
  case (presence s to ctx)
  then show ?case by (rule transition_presence_interlocked)
next
  case (routing s r ctx)
  then show ?case by (rule set_routing_interlocked)
qed (auto simp: apply_login_def force_offline_def apply_day_rollover_reset_def interlocked_def)

text \<open>The reported axes are exactly the axes that changed, a refused transition changes
  nothing, and an accepted presence change reaches the requested presence; so the reporting
  segments the service closes are the ones whose value moved.\<close>

lemma transition_reports_changes:
  "set (tr_changed (transition_presence s to ctx)) =
     (if ag_presence (tr_state (transition_presence s to ctx)) \<noteq> ag_presence s then {PresenceAxis} else {})
     \<union> (if ag_routing (tr_state (transition_presence s to ctx)) \<noteq> ag_routing s then {RoutingAxis} else {})
   \<and> (if tr_ok (transition_presence s to ctx)
      then ag_presence (tr_state (transition_presence s to ctx)) = to
      else tr_state (transition_presence s to ctx) = s)
   \<and> set (tr_changed (set_routing s r ctx)) =
     (if ag_routing (tr_state (set_routing s r ctx)) \<noteq> ag_routing s then {RoutingAxis} else {})
   \<and> ag_presence (tr_state (set_routing s r ctx)) = ag_presence s"
  by (auto simp: transition_presence_def set_routing_def Let_def changed_axes_def)

text \<open>The legacy interop loses nothing on the legacy side: an intent survives the way up and
  down, and what the canonical pair shows on the way down is the presence again except that
  the break-like presences collapse to away.\<close>

lemma legacy_intent_roundtrip:
  "to_legacy_intent (fst (from_legacy_intent i)) (snd (from_legacy_intent i)) = i
   \<and> interlocked (fst (from_legacy_intent i)) (snd (from_legacy_intent i))
   \<and> (from_legacy_intent (to_legacy_intent p r) = (p, r)
      \<longleftrightarrow> interlocked p r \<and> p \<notin> {PBreak, PMeeting, PTraining})"
  by (cases i; cases p; cases r) (auto simp: to_legacy_intent_def interlocked_def)

end
