(* ===== verification/Agent_Presence.thy ===== *)
theory Agent_Presence
  imports Presence_Machine
begin

text \<open>
  The presence service (\<open>src/src/omni-inbound/services/agent-presence.service.ts\<close>, record shape
  and keys in \<open>domain/agent-presence.ts\<close>): the Redis records of the agents of every tenant, the
  commands that move them, the connection tracking and the Lua scripts that reserve, claim and
  release capacity. Records that do not parse as JSON are not modelled. The expiry of the
  per-agent key is a time stored with it; the day-long expiry of the tenant hash is not
  modelled. The two callbacks are the event trail of the world.
\<close>

section \<open>Records\<close>

record presence =
  ap_user :: string
  ap_tenant :: string
  ap_presence :: presence_status
  ap_routing :: routing_status
  ap_work :: work_status
  ap_capacity :: capacity_status
  ap_connection :: connection_status
  ap_display :: legacy_intent
  ap_active :: int
  ap_units :: "rat option" \<comment> \<open>\<open>activeCapacityUnits\<close>, absent in old records\<close>
  ap_max :: rat
  ap_skills :: "string list option"
  ap_connections :: "string list"
  ap_heartbeat :: int
  ap_heartbeat_ms :: int
  ap_disconnected_at :: "int option"
  ap_last_command :: "int option"

record snapshot =
  sn_presence :: presence_status
  sn_routing :: routing_status
  sn_work :: work_status

datatype presence_event =
    StatusTransition string string presence_status presence_status trigger
  | StateChange string string "snapshot option" snapshot trigger int

record pstore =
  ps_hash :: "string \<Rightarrow> string \<Rightarrow> presence option" \<comment> \<open>tenant, user\<close>
  ps_key :: "string \<Rightarrow> string \<Rightarrow> (presence \<times> int) option" \<comment> \<open>with the time it expires\<close>
  ps_load :: "string \<Rightarrow> string \<Rightarrow> rat option"
  ps_tenants :: "string set"
  ps_events :: "presence_event list"

definition heartbeat_ttl_ms :: int where "heartbeat_ttl_ms = 60 * 1000"

definition default_max_capacity :: rat where "default_max_capacity = 10"

definition units_of :: "presence \<Rightarrow> rat" where
  "units_of p = default_to (of_int (ap_active p)) (ap_units p)"

definition set_hash :: "string \<Rightarrow> string \<Rightarrow> presence option \<Rightarrow> pstore \<Rightarrow> pstore" where
  "set_hash t u v w = w\<lparr>ps_hash := (ps_hash w)(t := (ps_hash w t)(u := v))\<rparr>"

definition set_key :: "string \<Rightarrow> string \<Rightarrow> (presence \<times> int) option \<Rightarrow> pstore \<Rightarrow> pstore" where
  "set_key t u v w = w\<lparr>ps_key := (ps_key w)(t := (ps_key w t)(u := v))\<rparr>"

definition set_zload :: "string \<Rightarrow> string \<Rightarrow> rat option \<Rightarrow> pstore \<Rightarrow> pstore" where
  "set_zload t u v w = w\<lparr>ps_load := (ps_load w)(t := (ps_load w t)(u := v))\<rparr>"

section \<open>Persistence\<close>

definition derive_fields :: "presence \<Rightarrow> presence" where
  "derive_fields p = p\<lparr>ap_capacity := compute_capacity_status (units_of p) (ap_max p),
     ap_display := compute_display_status (ap_presence p) (ap_routing p) (ap_connection p),
     ap_heartbeat_ms := ap_heartbeat p\<rparr>"

definition persist :: "int \<Rightarrow> presence \<Rightarrow> pstore \<Rightarrow> presence \<times> pstore" where
  "persist now p w =
     (let p' = derive_fields p; t = ap_tenant p; u = ap_user p;
          w1 = set_key t u (Some (p', now + heartbeat_ttl_ms)) w;
          w2 = set_hash t u (Some p') w1;
          w3 = set_zload t u (Some (units_of p')) w2
      in (p', w3\<lparr>ps_tenants := insert t (ps_tenants w3)\<rparr>))"

definition is_fresh :: "int \<Rightarrow> presence \<Rightarrow> bool" where
  "is_fresh now p \<longleftrightarrow> now - ap_heartbeat p \<le> heartbeat_ttl_ms"

definition parse_presence :: "presence \<Rightarrow> presence" where
  "parse_presence p = p\<lparr>ap_units := Some (units_of p)\<rparr>"

definition blank_presence :: "int \<Rightarrow> string \<Rightarrow> string \<Rightarrow> presence" where
  "blank_presence now t u =
     \<lparr>ap_user = u, ap_tenant = t, ap_presence = POffline, ap_routing = NotAccepting, ap_work = WIdle,
      ap_capacity = CapOk, ap_connection = Disconnected, ap_display = LOffline, ap_active = 0,
      ap_units = Some 0, ap_max = default_max_capacity, ap_skills = None, ap_connections = [],
      ap_heartbeat = now, ap_heartbeat_ms = now, ap_disconnected_at = None, ap_last_command = None\<rparr>"

definition get_presence :: "int \<Rightarrow> string \<Rightarrow> string \<Rightarrow> pstore \<Rightarrow> presence option \<times> pstore" where
  "get_presence now t u w =
     (case map_option parse_presence (ps_hash w t u) of
        Some p \<Rightarrow>
          if is_fresh now p then (Some p, w)
          else
            let w1 = set_zload t u None (set_hash t u None w)
            in (case ps_key w1 t u of
                  Some (q, ex) \<Rightarrow>
                    if now < ex \<and> is_fresh now (parse_presence q)
                    then (case persist now (parse_presence q) w1 of (q', w2) \<Rightarrow> (Some q', w2))
                    else (None, w1)
                | None \<Rightarrow> (None, w1))
      | None \<Rightarrow>
          (case ps_key w t u of
             Some (q, ex) \<Rightarrow>
               if now < ex \<and> is_fresh now (parse_presence q)
               then (case persist now (parse_presence q) w of (q', w2) \<Rightarrow> (Some q', w2))
               else (None, w)
           | None \<Rightarrow> (None, w)))"

section \<open>Events\<close>

definition snapshot_of :: "presence \<Rightarrow> snapshot" where
  "snapshot_of p = \<lparr>sn_presence = ap_presence p, sn_routing = ap_routing p, sn_work = ap_work p\<rparr>"

definition after_mutation :: "presence \<Rightarrow> snapshot option \<Rightarrow> trigger \<Rightarrow> pstore \<Rightarrow> pstore" where
  "after_mutation p before trg w =
     (let from = (case before of Some b \<Rightarrow> sn_presence b | None \<Rightarrow> POffline);
          audit = (if from = ap_presence p then []
                   else [StatusTransition (ap_tenant p) (ap_user p) from (ap_presence p) trg])
      in w\<lparr>ps_events := ps_events w @ audit
             @ [StateChange (ap_tenant p) (ap_user p) before (snapshot_of p) trg (ap_heartbeat p)]\<rparr>)"

definition agent_state_of :: "presence \<Rightarrow> agent_state" where
  "agent_state_of p =
     \<lparr>ag_presence = ap_presence p, ag_routing = ap_routing p, ag_work = ap_work p,
      ag_connection = ap_connection p, ag_load = units_of p, ag_max = ap_max p,
      ag_updated = ap_heartbeat_ms p\<rparr>"

text \<open>Persist a changed record and report it.\<close>

definition store_change ::
  "int \<Rightarrow> presence \<Rightarrow> snapshot option \<Rightarrow> trigger \<Rightarrow> pstore \<Rightarrow> presence \<times> pstore" where
  "store_change now p before trg w =
     (case persist now p w of (p', w') \<Rightarrow> (p', after_mutation p' before trg w'))"

section \<open>Commands\<close>

definition set_work_status ::
  "int \<Rightarrow> string \<Rightarrow> string \<Rightarrow> work_status \<Rightarrow> pstore \<Rightarrow> presence option \<times> pstore" where
  "set_work_status now t u ws w =
     (case get_presence now t u w of
        (None, w1) \<Rightarrow> (None, w1)
      | (Some ex, w1) \<Rightarrow>
          if ap_work ex = ws then (Some ex, w1)
          else case store_change now (ex\<lparr>ap_work := ws, ap_heartbeat := now\<rparr>) (Some (snapshot_of ex))
                 SystemWorkStatus w1 of (p, w2) \<Rightarrow> (Some p, w2))"

definition dropped_as_stale :: "int option \<Rightarrow> presence \<Rightarrow> bool" where
  "dropped_as_stale client_ts ex =
     (case client_ts of None \<Rightarrow> False | Some ts \<Rightarrow> is_stale_command ts (ap_last_command ex))"

definition existing_or_blank :: "int \<Rightarrow> string \<Rightarrow> string \<Rightarrow> pstore \<Rightarrow> presence \<times> pstore" where
  "existing_or_blank now t u w =
     (case get_presence now t u w of (r, w1) \<Rightarrow> (default_to (blank_presence now t u) r, w1))"

definition apply_presence ::
  "int \<Rightarrow> string \<Rightarrow> string \<Rightarrow> presence_status \<Rightarrow> trigger \<Rightarrow> actor option \<Rightarrow> int option \<Rightarrow> bool \<Rightarrow>
   bool option \<Rightarrow> pstore \<Rightarrow> presence \<times> pstore" where
  "apply_presence now t u to trg who client_ts restore was_accepting w =
     (case existing_or_blank now t u w of (ex, w1) \<Rightarrow>
        if dropped_as_stale client_ts ex then (ex, w1)
        else
          let r = transition_presence (agent_state_of ex) to
                \<lparr>tc_trigger = trg, tc_now = now, tc_actor = Some (default_to Agent who),
                 tc_restore = restore,
                 tc_was_accepting = default_to (ap_routing ex = Accepting) was_accepting\<rparr>
          in if \<not> tr_ok r then (ex, w1)
             else store_change now
               (ex\<lparr>ap_presence := ag_presence (tr_state r), ap_routing := ag_routing (tr_state r),
                   ap_heartbeat := now, ap_last_command := or_else client_ts (ap_last_command ex)\<rparr>)
               (Some (snapshot_of ex)) trg w1)"

definition set_routing_control ::
  "int \<Rightarrow> string \<Rightarrow> string \<Rightarrow> routing_status \<Rightarrow> trigger \<Rightarrow> int option \<Rightarrow> pstore \<Rightarrow>
   presence option \<times> pstore" where
  "set_routing_control now t u routing trg client_ts w =
     (case get_presence now t u w of
        (None, w1) \<Rightarrow> (None, w1)
      | (Some ex, w1) \<Rightarrow>
          if dropped_as_stale client_ts ex then (Some ex, w1)
          else
            let r = set_routing (agent_state_of ex) routing
                  \<lparr>tc_trigger = trg, tc_now = now, tc_actor = None, tc_restore = False,
                   tc_was_accepting = False\<rparr>
            in if \<not> tr_ok r then (Some ex, w1)
               else case store_change now
                 (ex\<lparr>ap_routing := ag_routing (tr_state r), ap_heartbeat := now,
                     ap_last_command := or_else client_ts (ap_last_command ex)\<rparr>)
                 (Some (snapshot_of ex)) trg w1 of (p, w2) \<Rightarrow> (Some p, w2))"

definition update_intent_status ::
  "int \<Rightarrow> string \<Rightarrow> string \<Rightarrow> legacy_intent \<Rightarrow> trigger \<Rightarrow> int option \<Rightarrow> pstore \<Rightarrow> presence \<times> pstore" where
  "update_intent_status now t u intent trg client_ts w =
     (case existing_or_blank now t u w of (ex, w1) \<Rightarrow>
        if dropped_as_stale client_ts ex then (ex, w1)
        else
          let (p, r) = from_legacy_intent intent
          in store_change now
               (ex\<lparr>ap_presence := p, ap_routing := r, ap_heartbeat := now,
                   ap_last_command := or_else client_ts (ap_last_command ex)\<rparr>)
               (Some (snapshot_of ex)) trg w1)"

section \<open>Connections\<close>

definition add_connection ::
  "int \<Rightarrow> string \<Rightarrow> string \<Rightarrow> string \<Rightarrow> bool \<Rightarrow> string list option \<Rightarrow> rat option \<Rightarrow> pstore \<Rightarrow>
   (presence \<times> bool) \<times> pstore" where
  "add_connection now t u socket auto_available skills max_cap w =
     (case get_presence now t u w of (ex, w1) \<Rightarrow>
        let connections = (case ex of Some e \<Rightarrow> filter (\<lambda>i. i \<noteq> socket) (ap_connections e) @ [socket]
                                    | None \<Rightarrow> [socket]);
            cap = (case max_cap of
                Some m \<Rightarrow> if m > 0 then m else (case ex of Some e \<Rightarrow> ap_max e | None \<Rightarrow> default_max_capacity)
              | None \<Rightarrow> (case ex of Some e \<Rightarrow> ap_max e | None \<Rightarrow> default_max_capacity));
            (ps, rs, trg) = (case ex of
                None \<Rightarrow> (PAvailable, if auto_available then Accepting else NotAccepting, SystemLogin)
              | Some e \<Rightarrow> (ap_presence e, ap_routing e,
                  if ap_connection e = Disconnected then SystemReconnect else SystemConnect));
            p = (blank_presence now t u)\<lparr>ap_presence := ps, ap_routing := rs,
                  ap_work := (case ex of Some e \<Rightarrow> ap_work e | None \<Rightarrow> WIdle),
                  ap_connection := Connected,
                  ap_active := (case ex of Some e \<Rightarrow> ap_active e | None \<Rightarrow> 0),
                  ap_units := Some (case ex of Some e \<Rightarrow> units_of e | None \<Rightarrow> 0),
                  ap_max := cap,
                  ap_skills := or_else skills (case ex of Some e \<Rightarrow> ap_skills e | None \<Rightarrow> None),
                  ap_connections := connections,
                  ap_last_command := (case ex of Some e \<Rightarrow> ap_last_command e | None \<Rightarrow> None)\<rparr>
        in case store_change now p (map_option snapshot_of ex) trg w1 of
             (p', w2) \<Rightarrow> ((p', ex = None), w2))"

definition remove_connection ::
  "int \<Rightarrow> string \<Rightarrow> string \<Rightarrow> string \<Rightarrow> pstore \<Rightarrow> (presence option \<times> bool) \<times> pstore" where
  "remove_connection now t u socket w =
     (case get_presence now t u w of
        (None, w1) \<Rightarrow> ((None, True), w1)
      | (Some ex, w1) \<Rightarrow>
          let connections = filter (\<lambda>i. i \<noteq> socket) (ap_connections ex);
              gone = (connections = []);
              p = ex\<lparr>ap_connections := connections,
                     ap_connection := (if gone then Disconnected else Connected),
                     ap_disconnected_at := (if gone then Some now else ap_disconnected_at ex),
                     ap_heartbeat := now\<rparr>
          in case persist now p w1 of (p', w2) \<Rightarrow> ((Some p', gone), w2))"

definition grace_period_expired :: "int \<Rightarrow> string \<Rightarrow> string \<Rightarrow> pstore \<Rightarrow> presence option \<times> pstore" where
  "grace_period_expired now t u w =
     (case get_presence now t u w of
        (None, w1) \<Rightarrow> (None, w1)
      | (Some ex, w1) \<Rightarrow>
          if ap_connection ex = Connected then (Some ex, w1)
          else
            let r = force_offline (agent_state_of ex)
                  \<lparr>tc_trigger = SystemGraceExpired, tc_now = now, tc_actor = Some System,
                   tc_restore = False, tc_was_accepting = False\<rparr>
            in case store_change now
                 (ex\<lparr>ap_presence := ag_presence (tr_state r), ap_routing := ag_routing (tr_state r),
                     ap_connection := Disconnected, ap_heartbeat := now\<rparr>)
                 (Some (snapshot_of ex)) SystemGraceExpired w1 of (p, w2) \<Rightarrow> (Some p, w2))"

definition apply_day_rollover :: "int \<Rightarrow> string \<Rightarrow> string \<Rightarrow> pstore \<Rightarrow> bool \<times> pstore" where
  "apply_day_rollover now t u w =
     (case get_presence now t u w of
        (None, w1) \<Rightarrow> (False, w1)
      | (Some ex, w1) \<Rightarrow>
          let r = apply_day_rollover_reset (agent_state_of ex) now
          in if tr_changed r = [] then (False, w1)
             else case store_change now
               (ex\<lparr>ap_routing := ag_routing (tr_state r), ap_heartbeat := now\<rparr>)
               (Some (snapshot_of ex)) SystemDayRollover w1 of (p, w2) \<Rightarrow> (True, w2))"

definition heartbeat :: "int \<Rightarrow> string \<Rightarrow> string \<Rightarrow> pstore \<Rightarrow> pstore" where
  "heartbeat now t u w =
     (case get_presence now t u w of
        (None, w1) \<Rightarrow> w1
      | (Some ex, w1) \<Rightarrow> snd (persist now (ex\<lparr>ap_heartbeat := now\<rparr>) w1))"

section \<open>Capacity: the scripts\<close>

definition recompute_display :: "presence \<Rightarrow> presence" where
  "recompute_display d =
     (if ap_presence d = POffline \<or> ap_connection d = Disconnected then d\<lparr>ap_display := LOffline\<rparr>
      else if ap_presence d = PAvailable
      then (if ap_routing d = Accepting then d\<lparr>ap_display := LAvailable\<rparr> else d\<lparr>ap_display := LBusy\<rparr>)
      else d\<lparr>ap_display := LAway\<rparr>)"

definition eligible :: "int \<Rightarrow> presence \<Rightarrow> rat \<Rightarrow> rat \<Rightarrow> bool" where
  "eligible now d active capacity \<longleftrightarrow>
     \<not> (now - ap_heartbeat_ms d > heartbeat_ttl_ms) \<and> ap_presence d = PAvailable
     \<and> ap_connection d = Connected \<and> ap_routing d = Accepting \<and> capacity > 0 \<and> active < capacity"

text \<open>Take \<open>wt\<close> units for one more conversation; \<open>cap\<close> is the capacity the status is derived from.\<close>

definition take_units :: "rat \<Rightarrow> rat \<Rightarrow> presence \<Rightarrow> presence" where
  "take_units wt cap d =
     (let active = units_of d + wt
      in d\<lparr>ap_units := Some active, ap_active := ap_active d + 1,
           ap_capacity := (if active \<ge> cap then CapFull else CapOk)\<rparr>)"

definition book :: "string \<Rightarrow> string \<Rightarrow> presence \<Rightarrow> pstore \<Rightarrow> pstore" where
  "book t u d w = set_zload t u (Some (units_of d)) (set_hash t u (Some d) w)"

text \<open>The scan shared by the two scripts that take the least loaded admissible agent.\<close>

fun least_loaded ::
  "(presence \<Rightarrow> bool) \<Rightarrow> (string \<Rightarrow> presence option) \<Rightarrow> (string \<Rightarrow> rat option) \<Rightarrow> string list \<Rightarrow>
   (string \<times> rat) option \<Rightarrow> (string \<times> rat) option" where
  "least_loaded ok hash zset [] best = best"
| "least_loaded ok hash zset (u # us) best =
     (case hash u of
        None \<Rightarrow> least_loaded ok hash zset us best
      | Some d \<Rightarrow>
          if ok d then
            (let load = default_to (units_of d) (zset u) in
             case best of
               None \<Rightarrow> least_loaded ok hash zset us (Some (u, load))
             | Some (b, bl) \<Rightarrow>
                 if load < bl then least_loaded ok hash zset us (Some (u, load))
                 else least_loaded ok hash zset us best)
          else least_loaded ok hash zset us best)"

definition lua_reserve_from_candidates ::
  "string \<Rightarrow> string list \<Rightarrow> int \<Rightarrow> rat \<Rightarrow> pstore \<Rightarrow> string option \<times> pstore" where
  "lua_reserve_from_candidates t ids now wt w =
     (case least_loaded (\<lambda>d. eligible now d (units_of d) (ap_max d) \<and> units_of d + wt \<le> ap_max d)
             (ps_hash w t) (ps_load w t) ids None of
        None \<Rightarrow> (None, w)
      | Some (u, _) \<Rightarrow>
          (case ps_hash w t u of
             None \<Rightarrow> (None, w)
           | Some d \<Rightarrow>
               if units_of d + wt > ap_max d then (None, w)
               else (Some u, book t u (take_units wt (ap_max d) d) w)))"

definition effective_capacity :: "rat \<Rightarrow> rat \<Rightarrow> rat" where
  "effective_capacity fallback agent_cap =
     (if agent_cap > 0 then agent_cap else if fallback > 0 then fallback else 0)"

definition admissible_with_fallback :: "int \<Rightarrow> rat \<Rightarrow> rat \<Rightarrow> presence \<Rightarrow> bool" where
  "admissible_with_fallback now fallback wt d \<longleftrightarrow>
     \<not> (now - ap_heartbeat_ms d > heartbeat_ttl_ms) \<and> ap_presence d = PAvailable
     \<and> ap_connection d = Connected \<and> ap_routing d = Accepting
     \<and> effective_capacity fallback (ap_max d) > 0
     \<and> units_of d + wt \<le> effective_capacity fallback (ap_max d)"

definition lua_reserve_capacity_based ::
  "string \<Rightarrow> string list \<Rightarrow> int \<Rightarrow> rat \<Rightarrow> rat \<Rightarrow> pstore \<Rightarrow> string option \<times> pstore" where
  "lua_reserve_capacity_based t ids now fallback wt w =
     (case least_loaded (admissible_with_fallback now fallback wt) (ps_hash w t) (ps_load w t) ids None of
        None \<Rightarrow> (None, w)
      | Some (u, _) \<Rightarrow>
          (case ps_hash w t u of
             None \<Rightarrow> (None, w)
           | Some d \<Rightarrow>
               if units_of d + wt > effective_capacity fallback (ap_max d) then (None, w)
               else
                 let d1 = take_units wt (ap_max d) d;
                     d2 = d1\<lparr>ap_capacity := (if ap_max d > 0 \<and> units_of d1 \<ge> ap_max d then CapFull else CapOk)\<rparr>
                 in (Some u, book t u (recompute_display d2) w)))"

fun lua_reserve_first_eligible ::
  "string \<Rightarrow> string list \<Rightarrow> int \<Rightarrow> rat \<Rightarrow> pstore \<Rightarrow> string option \<times> pstore" where
  "lua_reserve_first_eligible t [] now wt w = (None, w)"
| "lua_reserve_first_eligible t (u # us) now wt w =
     (case ps_hash w t u of
        None \<Rightarrow> lua_reserve_first_eligible t us now wt w
      | Some d \<Rightarrow>
          if eligible now d (units_of d) (ap_max d) \<and> units_of d + wt \<le> ap_max d
          then (Some u, book t u (take_units wt (ap_max d) d) w)
          else lua_reserve_first_eligible t us now wt w)"

definition lua_claim_if_under_capacity ::
  "string \<Rightarrow> string \<Rightarrow> rat \<Rightarrow> pstore \<Rightarrow> bool \<times> pstore" where
  "lua_claim_if_under_capacity t u wt w =
     (case ps_hash w t u of
        None \<Rightarrow> (False, w)
      | Some d \<Rightarrow>
          if ap_max d \<le> 0 \<or> units_of d + wt > ap_max d then (False, w)
          else (True, book t u (take_units wt (ap_max d) d) w))"

definition lua_atomic_release :: "string \<Rightarrow> string \<Rightarrow> rat \<Rightarrow> pstore \<Rightarrow> presence option \<times> pstore" where
  "lua_atomic_release t u wt w =
     (case ps_hash w t u of
        None \<Rightarrow> (None, w)
      | Some d \<Rightarrow>
          let units = max 0 (units_of d - wt);
              d1 = d\<lparr>ap_active := max 0 (ap_active d - 1), ap_units := Some units,
                     ap_capacity := (if units < ap_max d then CapOk else CapFull)\<rparr>;
              d2 = recompute_display d1
          in (Some d2, book t u d2 w))"

section \<open>Capacity: the service\<close>

definition clean_candidates :: "string list \<Rightarrow> string list" where
  "clean_candidates ids = uniq (filter (\<lambda>i. i \<noteq> []) ids)"

definition reserve_agent_from_candidates ::
  "int \<Rightarrow> string \<Rightarrow> string list \<Rightarrow> rat \<Rightarrow> pstore \<Rightarrow> string option \<times> pstore" where
  "reserve_agent_from_candidates now t ids wt w =
     (if clean_candidates ids = [] then (None, w)
      else lua_reserve_from_candidates t (clean_candidates ids) now wt w)"

definition reserve_first_eligible_agent ::
  "int \<Rightarrow> string \<Rightarrow> string list \<Rightarrow> rat \<Rightarrow> pstore \<Rightarrow> string option \<times> pstore" where
  "reserve_first_eligible_agent now t ids wt w =
     (if clean_candidates ids = [] then (None, w)
      else lua_reserve_first_eligible t (clean_candidates ids) now wt w)"

definition reserve_capacity_based_agent ::
  "int \<Rightarrow> string \<Rightarrow> string list \<Rightarrow> rat \<Rightarrow> rat \<Rightarrow> pstore \<Rightarrow> string option \<times> pstore" where
  "reserve_capacity_based_agent now t ids fallback wt w =
     (if clean_candidates ids = [] then (None, w)
      else lua_reserve_capacity_based t (clean_candidates ids) now
             (if fallback > 0 then fallback else default_max_capacity) wt w)"

definition release_conversation :: "int \<Rightarrow> string \<Rightarrow> string \<Rightarrow> rat \<Rightarrow> pstore \<Rightarrow> pstore" where
  "release_conversation now t u wt w =
     (case lua_atomic_release t u wt w of
        (None, w1) \<Rightarrow> w1
      | (Some d, w1) \<Rightarrow> set_key t u (Some (d, now + heartbeat_ttl_ms)) w1)"

definition assign_conversation :: "string \<Rightarrow> string \<Rightarrow> rat \<Rightarrow> pstore \<Rightarrow> pstore" where
  "assign_conversation t u wt w =
     (case ps_hash w t u of
        None \<Rightarrow> w
      | Some d \<Rightarrow>
          let units = units_of d + wt;
              d1 = d\<lparr>ap_active := ap_active d + 1, ap_units := Some units,
                     ap_capacity := compute_capacity_status units (ap_max d)\<rparr>
          in book t u d1 w)"

definition patch_active_conversations ::
  "int \<Rightarrow> string \<Rightarrow> string \<Rightarrow> int \<Rightarrow> rat \<Rightarrow> pstore \<Rightarrow> pstore" where
  "patch_active_conversations now t u actual units w =
     (case ps_hash w t u of
        None \<Rightarrow> w
      | Some d \<Rightarrow>
          let d1 = d\<lparr>ap_active := actual, ap_units := Some units,
                     ap_capacity := compute_capacity_status units (ap_max d),
                     ap_display := compute_display_status (ap_presence d) (ap_routing d) (ap_connection d)\<rparr>
          in set_key t u (Some (d1, now + heartbeat_ttl_ms)) (book t u d1 w))"

section \<open>Queries and administration\<close>

text \<open>\<open>members\<close> is the order in which the hash answers its entries.\<close>

definition get_all_agents :: "int \<Rightarrow> string \<Rightarrow> string list \<Rightarrow> pstore \<Rightarrow> presence list \<times> pstore" where
  "get_all_agents now t members w =
     (let fresh = (\<lambda>u. case ps_hash w t u of Some d \<Rightarrow> is_fresh now d | None \<Rightarrow> False);
          stale = filter (\<lambda>u. \<not> fresh u) members
      in (map (\<lambda>u. parse_presence (the (ps_hash w t u))) (filter fresh members),
          fold (\<lambda>u w. set_zload t u None (set_hash t u None w)) stale w))"

definition get_available_agents :: "int \<Rightarrow> string \<Rightarrow> string list \<Rightarrow> pstore \<Rightarrow> presence list \<times> pstore" where
  "get_available_agents now t members w =
     (case get_all_agents now t members w of (agents, w1) \<Rightarrow>
        (filter (\<lambda>p. is_eligible_for_routing (ap_presence p) (ap_connection p) (ap_routing p)
            (units_of p) (ap_max p)) agents, w1))"

definition remove_presence :: "string \<Rightarrow> string \<Rightarrow> pstore \<Rightarrow> pstore" where
  "remove_presence t u w = set_zload t u None (set_hash t u None (set_key t u None w))"

definition update_max_capacity :: "int \<Rightarrow> string \<Rightarrow> string \<Rightarrow> rat \<Rightarrow> pstore \<Rightarrow> pstore" where
  "update_max_capacity now t u mx w =
     (case get_presence now t u w of
        (None, w1) \<Rightarrow> w1
      | (Some ex, w1) \<Rightarrow> snd (persist now (ex\<lparr>ap_max := mx\<rparr>) w1))"

definition update_agent_skills :: "int \<Rightarrow> string \<Rightarrow> string \<Rightarrow> string list \<Rightarrow> pstore \<Rightarrow> pstore" where
  "update_agent_skills now t u skills w =
     (case get_presence now t u w of
        (None, w1) \<Rightarrow> w1
      | (Some ex, w1) \<Rightarrow> snd (persist now (ex\<lparr>ap_skills := Some skills\<rparr>) w1))"

definition user_profile_updated ::
  "int \<Rightarrow> string \<Rightarrow> string \<Rightarrow> string list option \<Rightarrow> rat option \<Rightarrow> pstore \<Rightarrow> pstore" where
  "user_profile_updated now t u skills mx w =
     (if t = [] \<or> u = [] then w
      else
        let w1 = (case skills of Some sk \<Rightarrow> update_agent_skills now t u sk w | None \<Rightarrow> w)
        in case mx of
             Some m \<Rightarrow> if m > 0 then update_max_capacity now t u m w1 else w1
           | None \<Rightarrow> w1)"

definition user_removed_from_tenant :: "string \<Rightarrow> string \<Rightarrow> pstore \<Rightarrow> pstore" where
  "user_removed_from_tenant t u w = (if t = [] \<or> u = [] then w else remove_presence t u w)"

end
