(* ===== verification/Agent_Presence_Safety.thy ===== *)
theory Agent_Presence_Safety
  imports Agent_Presence
begin

text \<open>
  What the presence service keeps: the invariant of every stored record over any sequence of
  its operations, the contract of the reservation scripts (locale \<open>routing_script\<close>, with the
  three scripts as its instances) and the order-independence of commands from several devices.
\<close>

section \<open>The invariant of stored records\<close>

definition axes_ok :: "presence \<Rightarrow> bool" where
  "axes_ok p \<longleftrightarrow> interlocked (ap_presence p) (ap_routing p)
     \<and> (ap_connection p = Connected \<longleftrightarrow> ap_connections p \<noteq> [])"

definition display_ok :: "presence \<Rightarrow> bool" where
  "display_ok p \<longleftrightarrow> ap_display p = compute_display_status (ap_presence p) (ap_routing p) (ap_connection p)"

definition record_ok :: "presence \<Rightarrow> bool" where
  "record_ok p \<longleftrightarrow> axes_ok p \<and> display_ok p"

definition stored_ok :: "pstore \<Rightarrow> bool" where
  "stored_ok w \<longleftrightarrow>
     (\<forall>t u. pred_option record_ok (ps_hash w t u)) \<and>
     (\<forall>t u. pred_option (\<lambda>k. record_ok (fst k)) (ps_key w t u))"

lemma ps_lookup [simp]:
  "ps_hash (set_hash t u v w) t' u' = (if t' = t \<and> u' = u then v else ps_hash w t' u')"
  "ps_hash (set_key t u k w) = ps_hash w" "ps_hash (set_zload t u l w) = ps_hash w"
  "ps_key (set_key t u k w) t' u' = (if t' = t \<and> u' = u then k else ps_key w t' u')"
  "ps_key (set_hash t u v w) = ps_key w" "ps_key (set_zload t u l w) = ps_key w"
  "ps_load (set_zload t u l w) t' u' = (if t' = t \<and> u' = u then l else ps_load w t' u')"
  "ps_load (set_hash t u v w) = ps_load w" "ps_load (set_key t u k w) = ps_load w"
  by (auto simp: set_hash_def set_key_def set_zload_def)

lemma stored_ok_set [simp]:
  "stored_ok w \<Longrightarrow> pred_option record_ok v \<Longrightarrow> stored_ok (set_hash t u v w)"
  "stored_ok w \<Longrightarrow> pred_option (\<lambda>k. record_ok (fst k)) k \<Longrightarrow> stored_ok (set_key t u k w)"
  "stored_ok w \<Longrightarrow> stored_ok (set_zload t u l w)"
  "stored_ok (w\<lparr>ps_tenants := ts\<rparr>) = stored_ok w" "stored_ok (w\<lparr>ps_events := es\<rparr>) = stored_ok w"
  by (simp_all add: stored_ok_def)

lemma stored_okD:
  "stored_ok w \<Longrightarrow> ps_hash w t u = Some p \<Longrightarrow> record_ok p"
  "stored_ok w \<Longrightarrow> ps_key w t u = Some (p, ex) \<Longrightarrow> record_ok p"
  by (metis stored_ok_def option.pred_inject(2)) (metis stored_ok_def option.pred_inject(2) fst_conv)

lemma derive_record_ok: "axes_ok p \<Longrightarrow> record_ok (derive_fields p)"
  by (simp add: record_ok_def axes_ok_def display_ok_def derive_fields_def)

lemma parse_record_ok: "record_ok p \<Longrightarrow> record_ok (parse_presence p)"
  by (simp add: record_ok_def axes_ok_def display_ok_def parse_presence_def)

lemma persist_ok:
  assumes "stored_ok w" "axes_ok p" "persist now p w = (p', w')"
  shows "record_ok p' \<and> stored_ok w'"
  using assms(3) derive_record_ok[OF assms(2)] assms(1) by (auto simp: persist_def Let_def)

lemma after_mutation_ok [simp]: "stored_ok (after_mutation q before trg w) = stored_ok w"
  by (simp add: after_mutation_def Let_def)

lemma persist_snd_ok [simp]:
  "stored_ok w \<Longrightarrow> axes_ok p \<Longrightarrow> stored_ok (snd (persist now p w))"
  using persist_ok[of w p now "fst (persist now p w)" "snd (persist now p w)"] by simp

lemma store_change_ok [simp]:
  "stored_ok w \<Longrightarrow> axes_ok p \<Longrightarrow> stored_ok (snd (store_change now p before trg w))"
  using persist_snd_ok[of w p now] by (simp add: store_change_def case_prod_unfold)

lemma snd_case_pair [simp]: "snd (case x of (p, w) \<Rightarrow> (g p, w)) = snd x"
  by (simp split: prod.split)

lemma get_presence_ok:
  assumes "stored_ok w" "get_presence now t u w = (r, w')"
  shows "stored_ok w' \<and> (\<forall>p. r = Some p \<longrightarrow> record_ok p)"
proof -
  have key: "stored_ok w2 \<and> record_ok q'"
    if "stored_ok w1" "ps_key w1 t u = Some (q, ex)" "persist now (parse_presence q) w1 = (q', w2)"
    for w1 q ex q' w2
  proof -
    from stored_okD(2)[OF that(1,2)] have "record_ok q" .
    from parse_record_ok[OF this] have "axes_ok (parse_presence q)" by (simp add: record_ok_def)
    from persist_ok[OF that(1) this that(3)] show ?thesis by simp
  qed
  have dropped: "stored_ok (set_zload t u None (set_hash t u None w))" using assms(1) by simp
  show ?thesis
  proof (cases "ps_hash w t u")
    case None
    with assms key[OF assms(1)] show ?thesis
      by (auto simp: get_presence_def split: option.splits if_splits prod.splits)
  next
    case (Some d)
    from parse_record_ok[OF stored_okD(1)[OF assms(1) this]] have "record_ok (parse_presence d)" .
    with Some assms key[OF dropped] show ?thesis
      by (auto simp: get_presence_def Let_def split: option.splits if_splits prod.splits)
  qed
qed

lemma get_presence_axes:
  "stored_ok w \<Longrightarrow> get_presence now t u w = (Some p, w') \<Longrightarrow> axes_ok p \<and> stored_ok w'"
  using get_presence_ok[of w now t u "Some p" w'] by (simp add: record_ok_def)

lemma blank_axes: "axes_ok (blank_presence now t u)"
  by (simp add: axes_ok_def blank_presence_def interlocked_def)

lemma existing_or_blank_ok:
  "stored_ok w \<Longrightarrow> existing_or_blank now t u w = (ex, w') \<Longrightarrow> axes_ok ex \<and> stored_ok w'"
  using get_presence_ok[of w now t u] blank_axes[of now t u]
  by (auto simp: existing_or_blank_def record_ok_def default_to_def split: prod.splits option.splits)

lemma axes_ok_unchanged [simp]:
  "axes_ok (p\<lparr>ap_work := a\<rparr>) = axes_ok p" "axes_ok (p\<lparr>ap_heartbeat := h\<rparr>) = axes_ok p"
  "axes_ok (p\<lparr>ap_last_command := c\<rparr>) = axes_ok p" "axes_ok (p\<lparr>ap_max := m\<rparr>) = axes_ok p"
  "axes_ok (p\<lparr>ap_skills := s\<rparr>) = axes_ok p" "axes_ok (p\<lparr>ap_active := n\<rparr>) = axes_ok p"
  "axes_ok (p\<lparr>ap_units := un\<rparr>) = axes_ok p" "axes_ok (p\<lparr>ap_capacity := ca\<rparr>) = axes_ok p"
  "axes_ok (p\<lparr>ap_display := di\<rparr>) = axes_ok p" "axes_ok (p\<lparr>ap_disconnected_at := da\<rparr>) = axes_ok p"
  by (simp_all add: axes_ok_def)

lemma set_axes_ok:
  "axes_ok p \<Longrightarrow> interlocked ps rs \<Longrightarrow> axes_ok (p\<lparr>ap_presence := ps, ap_routing := rs\<rparr>)"
  by (simp add: axes_ok_def)

lemma apply_presence_ok:
  assumes "stored_ok w"
  shows "stored_ok (snd (apply_presence now t u to trg who ts restore was w))"
proof -
  obtain ex w1 where ex: "existing_or_blank now t u w = (ex, w1)" by fastforce
  from existing_or_blank_ok[OF assms ex] have ok: "axes_ok ex" "stored_ok w1" by simp_all
  let ?r = "\<lambda>ctx. tr_state (transition_presence (agent_state_of ex) to ctx)"
  have "axes_ok (ex\<lparr>ap_presence := ag_presence (?r ctx), ap_routing := ag_routing (?r ctx),
      ap_heartbeat := now, ap_last_command := c\<rparr>)" for ctx c
    using transition_presence_interlocked[of "agent_state_of ex" to ctx] ok(1)
    by (simp add: axes_ok_def agent_state_of_def)
  with ok show ?thesis
    by (simp add: apply_presence_def ex Let_def)
qed

lemma set_routing_control_ok:
  assumes "stored_ok w"
  shows "stored_ok (snd (set_routing_control now t u routing trg ts w))"
proof -
  obtain r w1 where g: "get_presence now t u w = (r, w1)" by fastforce
  show ?thesis
  proof (cases r)
    case None
    with get_presence_ok[OF assms g] g show ?thesis by (simp add: set_routing_control_def)
  next
    case (Some ex)
    with get_presence_axes[OF assms] g have ok: "axes_ok ex" "stored_ok w1" by blast+
    let ?s = "\<lambda>ctx. tr_state (set_routing (agent_state_of ex) routing ctx)"
    have p: "ag_presence (?s ctx) = ap_presence ex" for ctx
      by (simp add: set_routing_def agent_state_of_def)
    have "axes_ok (ex\<lparr>ap_routing := ag_routing (?s ctx), ap_heartbeat := now, ap_last_command := c\<rparr>)" for ctx c
      using set_routing_interlocked[of "agent_state_of ex" routing ctx] ok(1)
      by (simp add: axes_ok_def p) (simp add: agent_state_of_def)
    with ok Some g show ?thesis
      by (simp add: set_routing_control_def Let_def)
  qed
qed

lemma update_intent_status_ok:
  assumes "stored_ok w"
  shows "stored_ok (snd (update_intent_status now t u intent trg ts w))"
proof -
  obtain ex w1 where ex: "existing_or_blank now t u w = (ex, w1)" by fastforce
  from existing_or_blank_ok[OF assms ex] have ok: "axes_ok ex" "stored_ok w1" by simp_all
  obtain p r where pr: "from_legacy_intent intent = (p, r)" by fastforce
  have "interlocked p r" using pr by (cases intent) (auto simp: interlocked_def)
  with ok(1) have "axes_ok (ex\<lparr>ap_presence := p, ap_routing := r, ap_heartbeat := now, ap_last_command := c\<rparr>)" for c
    by (simp add: axes_ok_def)
  with ok show ?thesis
    by (simp add: update_intent_status_def ex pr)
qed

lemma add_connection_ok:
  assumes "stored_ok w"
  shows "stored_ok (snd (add_connection now t u socket auto skills mx w))"
proof -
  obtain r w1 where g: "get_presence now t u w = (r, w1)" by fastforce
  from get_presence_ok[OF assms g] have ok: "stored_ok w1" "\<And>e. r = Some e \<Longrightarrow> axes_ok e"
    by (auto simp: record_ok_def)
  show ?thesis
  proof (cases r)
    case None
    then show ?thesis
      using ok(1) g
      by (simp add: add_connection_def Let_def axes_ok_def interlocked_def blank_presence_def)
  next
    case (Some e)
    with ok(2) have "interlocked (ap_presence e) (ap_routing e)" by (simp add: axes_ok_def)
    then show ?thesis
      using ok(1) g Some
      by (simp add: add_connection_def Let_def axes_ok_def blank_presence_def)
  qed
qed

text \<open>An operation that persists a changed record when there is one.\<close>

lemma with_presence_ok:
  assumes "stored_ok w"
    and "\<And>ex w1. axes_ok ex \<Longrightarrow> stored_ok w1 \<Longrightarrow> stored_ok (snd (f ex w1))"
    and "\<And>w1. stored_ok w1 \<Longrightarrow> stored_ok (snd (n w1))"
  shows "stored_ok (snd (case get_presence now t u w of (None, w1) \<Rightarrow> n w1 | (Some ex, w1) \<Rightarrow> f ex w1))"
proof -
  obtain r w1 where g: "get_presence now t u w = (r, w1)" by fastforce
  from get_presence_ok[OF assms(1) g] have ok: "stored_ok w1" "\<And>e. r = Some e \<Longrightarrow> axes_ok e"
    by (auto simp: record_ok_def)
  show ?thesis
    by (cases r) (simp_all add: g ok assms(2,3))
qed

lemma set_work_status_ok: "stored_ok w \<Longrightarrow> stored_ok (snd (set_work_status now t u ws w))"
  unfolding set_work_status_def
  by (rule with_presence_ok) simp_all

lemma remove_connection_ok: "stored_ok w \<Longrightarrow> stored_ok (snd (remove_connection now t u socket w))"
  unfolding remove_connection_def Let_def
proof (rule with_presence_ok, goal_cases)
  case (2 ex w1)
  let ?c = "filter (\<lambda>i. i \<noteq> socket) (ap_connections ex)"
  let ?p = "ex\<lparr>ap_connections := ?c, ap_connection := (if ?c = [] then Disconnected else Connected),
      ap_disconnected_at := (if ?c = [] then Some now else ap_disconnected_at ex), ap_heartbeat := now\<rparr>"
  have "axes_ok ?p" using 2(2) by (simp add: axes_ok_def)
  with 2(3) show ?case by simp
qed simp_all

lemma grace_period_expired_ok: "stored_ok w \<Longrightarrow> stored_ok (snd (grace_period_expired now t u w))"
  unfolding grace_period_expired_def Let_def
proof (rule with_presence_ok, goal_cases)
  case (2 ex w1)
  then show ?case
    by (simp add: force_offline_def axes_ok_def interlocked_def)
qed simp_all

lemma apply_day_rollover_ok: "stored_ok w \<Longrightarrow> stored_ok (snd (apply_day_rollover now t u w))"
  unfolding apply_day_rollover_def Let_def
proof (rule with_presence_ok, goal_cases)
  case (2 ex w1)
  then show ?case
    by (simp add: apply_day_rollover_reset_def axes_ok_def interlocked_def agent_state_of_def)
qed simp_all

text \<open>An operation of the shape "nothing, or persist a changed record".\<close>

lemma persist_when_present:
  assumes "stored_ok w" and "\<And>ex. axes_ok ex \<Longrightarrow> axes_ok (f ex)"
  shows "stored_ok (case get_presence now t u w of (None, w1) \<Rightarrow> w1 | (Some ex, w1) \<Rightarrow> snd (persist now (f ex) w1))"
proof -
  obtain r w1 where g: "get_presence now t u w = (r, w1)" by fastforce
  from get_presence_ok[OF assms(1) g] have ok: "stored_ok w1" "\<And>e. r = Some e \<Longrightarrow> axes_ok e"
    by (auto simp: record_ok_def)
  show ?thesis
  proof (cases r)
    case (Some e)
    with ok assms(2) g show ?thesis by simp
  qed (simp add: g ok)
qed

lemma heartbeat_ok: "stored_ok w \<Longrightarrow> stored_ok (heartbeat now t u w)"
  unfolding heartbeat_def by (rule persist_when_present) simp_all

lemma update_max_capacity_ok: "stored_ok w \<Longrightarrow> stored_ok (update_max_capacity now t u mx w)"
  unfolding update_max_capacity_def by (rule persist_when_present) simp_all

lemma update_agent_skills_ok: "stored_ok w \<Longrightarrow> stored_ok (update_agent_skills now t u sk w)"
  unfolding update_agent_skills_def by (rule persist_when_present) simp_all

lemma record_ok_unchanged [simp]:
  "record_ok (p\<lparr>ap_active := n\<rparr>) = record_ok p" "record_ok (p\<lparr>ap_units := un\<rparr>) = record_ok p"
  "record_ok (p\<lparr>ap_capacity := ca\<rparr>) = record_ok p"
  by (simp_all add: record_ok_def display_ok_def)

lemma take_units_ok [simp]: "record_ok (take_units wt cap d) = record_ok d"
  by (simp add: take_units_def Let_def)

lemma recompute_display_eq:
  "recompute_display d = d\<lparr>ap_display := compute_display_status (ap_presence d) (ap_routing d) (ap_connection d)\<rparr>"
  by (simp add: recompute_display_def compute_display_status_def to_legacy_intent_def)

lemma recompute_display_ok [simp]: "axes_ok d \<Longrightarrow> record_ok (recompute_display d)"
  by (simp add: recompute_display_eq record_ok_def display_ok_def)

lemma book_ok [simp]: "stored_ok w \<Longrightarrow> record_ok d \<Longrightarrow> stored_ok (book t u d w)"
  by (simp add: book_def)

lemma record_axes: "record_ok p \<Longrightarrow> axes_ok p"
  by (simp add: record_ok_def)

section \<open>The contract of the reservation scripts\<close>

text \<open>\<open>routable now d\<close>: the heartbeat is fresh and the agent may be routed new work.\<close>

definition routable :: "int \<Rightarrow> presence \<Rightarrow> bool" where
  "routable now d \<longleftrightarrow> now - ap_heartbeat_ms d \<le> heartbeat_ttl_ms \<and> ap_presence d = PAvailable
     \<and> ap_connection d = Connected \<and> ap_routing d = Accepting"

text \<open>\<open>d'\<close> is \<open>d\<close> with \<open>wt\<close> units for one more conversation.\<close>

definition booked :: "rat \<Rightarrow> presence \<Rightarrow> presence \<Rightarrow> bool" where
  "booked wt d d' \<longleftrightarrow> units_of d' = units_of d + wt \<and> ap_active d' = ap_active d + 1
     \<and> d'\<lparr>ap_units := ap_units d, ap_active := ap_active d, ap_capacity := ap_capacity d,
          ap_display := ap_display d\<rparr> = d"

lemma booked_take: "booked wt d (take_units wt cap d)"
  by (simp add: booked_def take_units_def Let_def units_of_def)

lemma booked_changes:
  "booked wt d d' \<Longrightarrow> booked wt d (d'\<lparr>ap_capacity := c\<rparr>)"
  "booked wt d d' \<Longrightarrow> booked wt d (recompute_display d')"
  by (auto simp: booked_def units_of_def recompute_display_eq)

lemma booked_same:
  assumes "booked wt d d'"
  shows "ap_presence d' = ap_presence d" "ap_routing d' = ap_routing d" "ap_connection d' = ap_connection d"
    "ap_max d' = ap_max d" "ap_heartbeat_ms d' = ap_heartbeat_ms d" "ap_connections d' = ap_connections d"
proof -
  have e: "d'\<lparr>ap_units := ap_units d, ap_active := ap_active d, ap_capacity := ap_capacity d,
      ap_display := ap_display d\<rparr> = d" using assms by (simp add: booked_def)
  show "ap_presence d' = ap_presence d" using arg_cong[OF e, of ap_presence] by simp
  show "ap_routing d' = ap_routing d" using arg_cong[OF e, of ap_routing] by simp
  show "ap_connection d' = ap_connection d" using arg_cong[OF e, of ap_connection] by simp
  show "ap_max d' = ap_max d" using arg_cong[OF e, of ap_max] by simp
  show "ap_heartbeat_ms d' = ap_heartbeat_ms d" using arg_cong[OF e, of ap_heartbeat_ms] by simp
  show "ap_connections d' = ap_connections d" using arg_cong[OF e, of ap_connections] by simp
qed

locale routing_script =
  fixes script :: "string \<Rightarrow> string list \<Rightarrow> int \<Rightarrow> rat \<Rightarrow> pstore \<Rightarrow> string option \<times> pstore"
    and cap :: "presence \<Rightarrow> rat" \<comment> \<open>the capacity the script holds an agent to\<close>
  assumes picks: "0 < wt \<Longrightarrow> script t ids now wt w = (Some u, w') \<Longrightarrow>
      u \<in> set ids \<and> (\<exists>d d'. ps_hash w t u = Some d \<and> routable now d \<and> units_of d + wt \<le> cap d
        \<and> booked wt d d' \<and> (stored_ok w \<longrightarrow> record_ok d') \<and> w' = book t u d' w)"
    and refuses: "0 < wt \<Longrightarrow> script t ids now wt w = (None, w') \<Longrightarrow>
      w' = w \<and> (\<forall>u d. u \<in> set ids \<longrightarrow> ps_hash w t u = Some d \<longrightarrow>
        \<not> (routable now d \<and> 0 < cap d \<and> units_of d + wt \<le> cap d))"
begin

lemma capacity_kept:
  assumes "0 < wt" "script t ids now wt w = (Some u, w')"
  shows "\<exists>d d'. ps_hash w t u = Some d \<and> ps_hash w' t u = Some d' \<and> routable now d
    \<and> units_of d' = units_of d + wt \<and> units_of d' \<le> cap d
    \<and> ps_load w' t u = Some (units_of d')"
proof -
  from picks[OF assms] obtain d d' where d: "ps_hash w t u = Some d" "routable now d"
    "units_of d + wt \<le> cap d" "booked wt d d'" "w' = book t u d' w" by blast
  then have "units_of d' = units_of d + wt" by (simp add: booked_def)
  with d show ?thesis by (intro exI[of _ d] exI[of _ d']) (simp add: book_def)
qed

lemma others_untouched:
  assumes "0 < wt" "script t ids now wt w = (Some u, w')" "(t', u') \<noteq> (t, u)"
  shows "ps_hash w' t' u' = ps_hash w t' u' \<and> ps_load w' t' u' = ps_load w t' u'"
  using picks[OF assms(1,2)] assms(3) by (auto simp: book_def)

lemma keeps_stored_ok:
  assumes "0 < wt" "stored_ok w"
  shows "stored_ok (snd (script t ids now wt w))"
proof (cases "script t ids now wt w")
  case (Pair r w')
  show ?thesis
  proof (cases r)
    case None
    with refuses[OF assms(1)] Pair assms(2) show ?thesis by force
  next
    case (Some u)
    from picks[OF assms(1) Pair[unfolded Some]] assms(2) Pair show ?thesis by auto
  qed
qed

lemma release_restores:
  assumes "0 < wt" "script t ids now wt w = (Some u, w')"
    and "ps_hash w t u = Some d" "0 \<le> units_of d" "0 \<le> ap_active d"
  shows "\<exists>d''. ps_hash (snd (lua_atomic_release t u wt w')) t u = Some d''
    \<and> units_of d'' = units_of d \<and> ap_active d'' = ap_active d
    \<and> ap_presence d'' = ap_presence d \<and> ap_routing d'' = ap_routing d
    \<and> ps_load (snd (lua_atomic_release t u wt w')) t u = Some (units_of d)"
proof -
  from picks[OF assms(1,2)] assms(3) obtain d' where d: "booked wt d d'" "w' = book t u d' w"
    by auto
  note same = booked_same[OF d(1)]
  from d(1) have u: "units_of d' = units_of d + wt" "ap_active d' = ap_active d + 1"
    by (simp_all add: booked_def)
  show ?thesis
    using assms(4,5)
    by (simp add: lua_atomic_release_def d(2) book_def Let_def u same recompute_display_eq
        units_of_def[of "_\<lparr>ap_display := _\<rparr>"] max_def)
qed

end

lemma least_loaded_Some:
  "least_loaded ok hash zset ids best = Some (u, n) \<Longrightarrow>
     best = Some (u, n) \<or> (u \<in> set ids \<and> (\<exists>d. hash u = Some d \<and> ok d))"
proof (induction ids arbitrary: best)
  case (Cons x xs)
  show ?case
  proof (cases "\<exists>d. hash x = Some d \<and> ok d")
    case True
    then obtain d where d: "hash x = Some d" "ok d" by blast
    let ?l = "(x, default_to (units_of d) (zset x))"
    have "least_loaded ok hash zset xs (Some ?l) = Some (u, n) \<or>
        (best \<noteq> None \<and> least_loaded ok hash zset xs best = Some (u, n))"
      using Cons.prems d by (cases best) (auto simp: Let_def split: if_splits prod.splits)
    with Cons.IH d show ?thesis by fastforce
  next
    case False
    with Cons.prems have "least_loaded ok hash zset xs best = Some (u, n)"
      by (auto split: option.splits)
    from Cons.IH[OF this] show ?thesis by auto
  qed
qed simp

lemma least_loaded_None:
  "least_loaded ok hash zset ids best = None \<Longrightarrow>
     best = None \<and> (\<forall>u d. u \<in> set ids \<longrightarrow> hash u = Some d \<longrightarrow> \<not> ok d)"
proof (induction ids arbitrary: best)
  case (Cons x xs)
  show ?case
  proof (cases "\<exists>d. hash x = Some d \<and> ok d")
    case True
    then obtain d where d: "hash x = Some d" "ok d" by blast
    then have "\<exists>b. least_loaded ok hash zset xs (Some b) = None"
      using Cons.prems by (cases best) (auto simp: Let_def split: if_splits prod.splits)
    with Cons.IH show ?thesis by blast
  next
    case False
    with Cons.prems have "least_loaded ok hash zset xs best = None"
      by (auto split: option.splits)
    from Cons.IH[OF this] False show ?thesis by auto
  qed
qed simp

lemma eligible_iff:
  "0 < wt \<Longrightarrow> units_of d + wt \<le> ap_max d \<Longrightarrow>
     eligible now d (units_of d) (ap_max d) \<longleftrightarrow> routable now d \<and> 0 < ap_max d"
  by (auto simp: eligible_def routable_def)

interpretation least_busy: routing_script "lua_reserve_from_candidates" ap_max
proof (unfold_locales, goal_cases)
  case (1 wt t ids now w u w')
  then obtain n where n: "least_loaded (\<lambda>d. eligible now d (units_of d) (ap_max d) \<and> units_of d + wt \<le> ap_max d)
      (ps_hash w t) (ps_load w t) ids None = Some (u, n)"
    by (auto simp: lua_reserve_from_candidates_def split: option.splits prod.splits if_splits)
  from least_loaded_Some[OF this] obtain d where d: "u \<in> set ids" "ps_hash w t u = Some d"
    "eligible now d (units_of d) (ap_max d)" "units_of d + wt \<le> ap_max d" by auto
  with 1 n have "w' = book t u (take_units wt (ap_max d) d) w"
    by (auto simp: lua_reserve_from_candidates_def)
  with d 1(1) show ?case
    by (intro conjI exI[of _ d] exI[of _ "take_units wt (ap_max d) d"])
      (auto simp: eligible_iff intro!: booked_take dest: stored_okD)
next
  case (2 wt t ids now w w')
  let ?ok = "\<lambda>d. eligible now d (units_of d) (ap_max d) \<and> units_of d + wt \<le> ap_max d"
  have none: "least_loaded ?ok (ps_hash w t) (ps_load w t) ids None = None"
  proof (rule ccontr)
    assume "\<not> ?thesis"
    then obtain u n where n: "least_loaded ?ok (ps_hash w t) (ps_load w t) ids None = Some (u, n)" by auto
    from least_loaded_Some[OF n] 2(2) n show False
      by (auto simp: lua_reserve_from_candidates_def)
  qed
  with 2(2) have "w' = w" by (simp add: lua_reserve_from_candidates_def)
  with least_loaded_None[OF none] 2(1) show ?case by (auto simp: eligible_iff)
qed

interpretation capacity_based: routing_script "\<lambda>t ids now wt w. lua_reserve_capacity_based t ids now fallback wt w"
  "\<lambda>d. effective_capacity fallback (ap_max d)" for fallback
proof (unfold_locales, goal_cases)
  case (1 wt t ids now w u w')
  then obtain n where n: "least_loaded (admissible_with_fallback now fallback wt)
      (ps_hash w t) (ps_load w t) ids None = Some (u, n)"
    by (auto simp: lua_reserve_capacity_based_def Let_def split: option.splits prod.splits if_splits)
  from least_loaded_Some[OF this] obtain d where d: "u \<in> set ids" "ps_hash w t u = Some d"
    "admissible_with_fallback now fallback wt d" by auto
  then have le: "units_of d + wt \<le> effective_capacity fallback (ap_max d)" "routable now d"
    by (auto simp: admissible_with_fallback_def routable_def)
  obtain c where "w' = book t u (recompute_display ((take_units wt (ap_max d) d)\<lparr>ap_capacity := c\<rparr>)) w"
    using 1(2) n d(2) le(1) by (auto simp: lua_reserve_capacity_based_def Let_def)
  with d le show ?case
    by (intro conjI exI[of _ d] exI[of _ "recompute_display ((take_units wt (ap_max d) d)\<lparr>ap_capacity := c\<rparr>)"])
      (auto intro!: booked_changes booked_take recompute_display_ok record_axes dest: stored_okD)
next
  case (2 wt t ids now w w')
  let ?ok = "admissible_with_fallback now fallback wt"
  have none: "least_loaded ?ok (ps_hash w t) (ps_load w t) ids None = None"
  proof (rule ccontr)
    assume "\<not> ?thesis"
    then obtain u n where n: "least_loaded ?ok (ps_hash w t) (ps_load w t) ids None = Some (u, n)" by auto
    from least_loaded_Some[OF n] 2(2) n show False
      by (auto simp: lua_reserve_capacity_based_def admissible_with_fallback_def Let_def)
  qed
  with 2(2) have "w' = w" by (simp add: lua_reserve_capacity_based_def)
  with least_loaded_None[OF none] show ?case
    by (auto simp: admissible_with_fallback_def routable_def)
qed

interpretation first_fit: routing_script "lua_reserve_first_eligible" ap_max
proof (unfold_locales, goal_cases)
  case (1 wt t ids now w u w')
  then show ?case
  proof (induction ids)
    case (Cons x ids)
    show ?case
    proof (cases "\<exists>d. ps_hash w t x = Some d \<and> eligible now d (units_of d) (ap_max d) \<and> units_of d + wt \<le> ap_max d")
      case True
      then obtain d where d: "ps_hash w t x = Some d" "eligible now d (units_of d) (ap_max d)"
        "units_of d + wt \<le> ap_max d" by blast
      with Cons.prems have "u = x" "w' = book t x (take_units wt (ap_max d) d) w" by auto
      with d Cons.prems(1) show ?thesis
        by (intro conjI exI[of _ d] exI[of _ "take_units wt (ap_max d) d"])
          (auto simp: eligible_iff intro!: booked_take dest: stored_okD)
    next
      case False
      with Cons.prems have "lua_reserve_first_eligible t ids now wt w = (Some u, w')"
        by (auto split: option.splits if_splits)
      from Cons.IH[OF Cons.prems(1) this] show ?thesis by auto
    qed
  qed simp
next
  case (2 wt t ids now w w')
  then show ?case
  proof (induction ids)
    case (Cons x ids)
    show ?case
    proof (cases "\<exists>d. ps_hash w t x = Some d \<and> eligible now d (units_of d) (ap_max d) \<and> units_of d + wt \<le> ap_max d")
      case True
      with Cons.prems(2) show ?thesis by auto
    next
      case False
      with Cons.prems(2) have rest: "lua_reserve_first_eligible t ids now wt w = (None, w')"
        by (simp split: option.splits if_splits)
      have "\<not> (routable now d \<and> 0 < ap_max d \<and> units_of d + wt \<le> ap_max d)"
        if "ps_hash w t x = Some d" for d
        using False that eligible_iff[OF Cons.prems(1), of d now] by blast
      with Cons.IH[OF Cons.prems(1) rest] show ?thesis by auto
    qed
  qed simp
qed

section \<open>Reachable stores\<close>

text \<open>Any operation of the service, at any time, with any arguments; a weight is positive.\<close>

inductive presence_step :: "pstore \<Rightarrow> pstore \<Rightarrow> bool" where
  work: "presence_step w (snd (set_work_status now t u ws w))"
| presence: "presence_step w (snd (apply_presence now t u to trg who ts restore was w))"
| routing: "presence_step w (snd (set_routing_control now t u rs trg ts w))"
| intent: "presence_step w (snd (update_intent_status now t u i trg ts w))"
| connect: "presence_step w (snd (add_connection now t u socket auto skills mx w))"
| disconnect: "presence_step w (snd (remove_connection now t u socket w))"
| grace: "presence_step w (snd (grace_period_expired now t u w))"
| rollover: "presence_step w (snd (apply_day_rollover now t u w))"
| beat: "presence_step w (heartbeat now t u w)"
| reserve_least: "0 < wt \<Longrightarrow> presence_step w (snd (reserve_agent_from_candidates now t ids wt w))"
| reserve_first: "0 < wt \<Longrightarrow> presence_step w (snd (reserve_first_eligible_agent now t ids wt w))"
| reserve_capacity: "0 < wt \<Longrightarrow> presence_step w (snd (reserve_capacity_based_agent now t ids fallback wt w))"
| claim: "presence_step w (snd (lua_claim_if_under_capacity t u wt w))"
| release: "presence_step w (release_conversation now t u wt w)"
| assign: "presence_step w (assign_conversation t u wt w)"
| patch: "presence_step w (patch_active_conversations now t u n units w)"
| listing: "presence_step w (snd (get_all_agents now t members w))"
| profile: "presence_step w (user_profile_updated now t u sk mx w)"
| removed: "presence_step w (user_removed_from_tenant t u w)"

inductive reachable_presence :: "pstore \<Rightarrow> bool" where
  initial: "reachable_presence \<lparr>ps_hash = (\<lambda>_ _. None), ps_key = (\<lambda>_ _. None), ps_load = (\<lambda>_ _. None),
     ps_tenants = {}, ps_events = []\<rparr>"
| step: "reachable_presence w \<Longrightarrow> presence_step w w' \<Longrightarrow> reachable_presence w'"

lemma hash_cases:
  assumes "stored_ok w" "ps_hash w t u = None \<Longrightarrow> P" "\<And>d. ps_hash w t u = Some d \<Longrightarrow> record_ok d \<Longrightarrow> axes_ok d \<Longrightarrow> P"
  shows P
  using assms stored_okD(1)[OF assms(1), of t u] record_axes by (cases "ps_hash w t u") auto

lemma claim_ok: "stored_ok w \<Longrightarrow> stored_ok (snd (lua_claim_if_under_capacity t u wt w))"
  by (rule hash_cases[of w t u]) (simp_all add: lua_claim_if_under_capacity_def)

lemma release_ok: "stored_ok w \<Longrightarrow> stored_ok (release_conversation now t u wt w)"
  by (rule hash_cases[of w t u]) (simp_all add: release_conversation_def lua_atomic_release_def Let_def)

lemma assign_conversation_ok: "stored_ok w \<Longrightarrow> stored_ok (assign_conversation t u wt w)"
  by (rule hash_cases[of w t u]) (simp_all add: assign_conversation_def Let_def)

lemma patch_ok: "stored_ok w \<Longrightarrow> stored_ok (patch_active_conversations now t u n units w)"
  by (rule hash_cases[of w t u])
    (simp_all add: patch_active_conversations_def Let_def record_ok_def display_ok_def)

lemma get_all_agents_ok: "stored_ok w \<Longrightarrow> stored_ok (snd (get_all_agents now t members w))"
proof -
  have "stored_ok (fold (\<lambda>u w. set_zload t u None (set_hash t u None w)) us w)" if "stored_ok w" for us w
    using that by (induction us arbitrary: w) simp_all
  then show "stored_ok w \<Longrightarrow> stored_ok (snd (get_all_agents now t members w))"
    by (simp add: get_all_agents_def Let_def)
qed

lemma profile_ok: "stored_ok w \<Longrightarrow> stored_ok (user_profile_updated now t u sk mx w)"
  by (auto simp: user_profile_updated_def Let_def update_agent_skills_ok update_max_capacity_ok
      split: option.split)

lemma presence_step_ok: "presence_step w w' \<Longrightarrow> stored_ok w \<Longrightarrow> stored_ok w'"
  by (induction rule: presence_step.induct)
    (auto simp: set_work_status_ok apply_presence_ok set_routing_control_ok update_intent_status_ok
      add_connection_ok remove_connection_ok grace_period_expired_ok apply_day_rollover_ok heartbeat_ok
      reserve_agent_from_candidates_def reserve_first_eligible_agent_def reserve_capacity_based_agent_def
      least_busy.keeps_stored_ok first_fit.keeps_stored_ok capacity_based.keeps_stored_ok
      claim_ok release_ok assign_conversation_ok patch_ok get_all_agents_ok profile_ok
      user_removed_from_tenant_def remove_presence_def)

lemma reachable_stored_ok: "reachable_presence w \<Longrightarrow> stored_ok w"
proof (induction rule: reachable_presence.induct)
  case initial
  then show ?case by (simp add: stored_ok_def)
next
  case (step w w')
  then show ?case using presence_step_ok by blast
qed

definition demo_presence :: pstore where
  "demo_presence = snd (set_routing_control 2000 ''t'' ''u1'' Accepting AgentManual None
     (snd (add_connection 1000 ''t'' ''u1'' ''s1'' False None (Some 2)
       \<lparr>ps_hash = (\<lambda>_ _. None), ps_key = (\<lambda>_ _. None), ps_load = (\<lambda>_ _. None),
        ps_tenants = {}, ps_events = []\<rparr>)))"

lemma demo_presence_reachable: "reachable_presence demo_presence"
  unfolding demo_presence_def
  by (rule reachable_presence.step[OF reachable_presence.step[OF reachable_presence.initial]])
    (rule presence_step.connect, rule presence_step.routing)

lemma demo_presence_record:
  obtains p where "ps_hash demo_presence ''t'' ''u1'' = Some p" "ap_presence p = PAvailable"
    "ap_routing p = Accepting" "ap_connection p = Connected" "ap_max p = 2" "units_of p = 0" "ap_active p = 0"
    "ap_heartbeat p = 2000" "ap_heartbeat_ms p = 2000" "ap_last_command p = None"
  by (rule that[OF _]) (auto simp: demo_presence_def set_routing_control_def add_connection_def get_presence_def
      blank_presence_def store_change_def persist_def Let_def derive_fields_def parse_presence_def
      is_fresh_def heartbeat_ttl_ms_def dropped_as_stale_def set_routing_def agent_state_of_def
      units_of_def after_mutation_def)

text \<open>C15: In every reachable presence store, every record of the tenant hash keeps the routing
  interlock (an agent accepting work is AVAILABLE), is CONNECTED exactly when it has a live
  socket, and shows the display status of its axes, although three different scripts and the
  service write it.\<close>

theorem presence_records_invariant:
  assumes "reachable_presence w" "ps_hash w t u = Some p"
  shows "interlocked (ap_presence p) (ap_routing p)
    \<and> (ap_connection p = Connected \<longleftrightarrow> ap_connections p \<noteq> [])
    \<and> ap_display p = compute_display_status (ap_presence p) (ap_routing p) (ap_connection p)"
  using stored_okD(1)[OF reachable_stored_ok[OF assms(1)] assms(2)]
  by (simp add: record_ok_def axes_ok_def display_ok_def)

theorem presence_records_invariant_witness:
  "\<exists>p. ps_hash demo_presence ''t'' ''u1'' = Some p \<and> ap_routing p = Accepting
     \<and> ap_presence p = PAvailable \<and> ap_display p = LAvailable"
proof -
  obtain p where p: "ps_hash demo_presence ''t'' ''u1'' = Some p" "ap_routing p = Accepting"
    "ap_connection p = Connected" using demo_presence_record by blast
  from presence_records_invariant[OF demo_presence_reachable p(1)] p show ?thesis
    by (auto simp: interlocked_def compute_display_status_def to_legacy_intent_def)
qed

section \<open>Commands from several devices\<close>

text \<open>What a later read finds after an intent of client time \<open>ts\<close> was applied.\<close>

definition shows_intent :: "presence \<Rightarrow> legacy_intent \<Rightarrow> int \<Rightarrow> bool" where
  "shows_intent p i ts \<longleftrightarrow>
     (ap_presence p, ap_routing p) = from_legacy_intent i \<and> ap_last_command p = Some ts"

lemma intent_applied:
  assumes "now \<le> later" "later - now \<le> heartbeat_ttl_ms"
    and "existing_or_blank now t u w = (ex, w1)" "ap_tenant ex = t" "ap_user ex = u"
    and "\<not> dropped_as_stale (Some ts) ex"
  shows "\<exists>e. existing_or_blank later t u (snd (update_intent_status now t u i trg (Some ts) w)) =
      (e, snd (update_intent_status now t u i trg (Some ts) w)) \<and> shows_intent e i ts"
proof -
  obtain p r where pr: "from_legacy_intent i = (p, r)" by fastforce
  let ?q = "ex\<lparr>ap_presence := p, ap_routing := r, ap_heartbeat := now, ap_last_command := Some ts\<rparr>"
  obtain q' w2 where st: "persist now ?q w1 = (q', w2)" by fastforce
  have upd: "snd (update_intent_status now t u i trg (Some ts) w) = after_mutation q' (Some (snapshot_of ex)) trg w2"
    using assms pr st by (simp add: update_intent_status_def store_change_def)
  have "ps_hash w2 t u = Some (derive_fields ?q)"
    using st assms(4,5) by (auto simp: persist_def Let_def derive_fields_def)
  then have "get_presence later t u (after_mutation q' b trg w2) =
      (Some (parse_presence (derive_fields ?q)), after_mutation q' b trg w2)" for b
    using assms(2) by (simp add: get_presence_def after_mutation_def Let_def is_fresh_def
        parse_presence_def derive_fields_def)
  then show ?thesis
    unfolding upd existing_or_blank_def using pr
    by (simp add: parse_presence_def derive_fields_def shows_intent_def)
qed

text \<open>Last write wins across devices: two status commands with different client times end in
  the status of the newer one in whichever order they arrive (within the heartbeat window), and
  the newer time is the one remembered.\<close>

theorem newest_intent_wins:
  assumes "existing_or_blank now t u w = (ex, w1)" "ap_tenant ex = t" "ap_user ex = u"
    and "\<not> dropped_as_stale (Some older) ex" "older < newer"
    and "now \<le> later" "later - now \<le> heartbeat_ttl_ms"
  shows "shows_intent (fst (update_intent_status later t u i2 trg2 (Some newer)
      (snd (update_intent_status now t u i1 trg1 (Some older) w)))) i2 newer
   \<and> shows_intent (fst (update_intent_status later t u i1 trg1 (Some older)
      (snd (update_intent_status now t u i2 trg2 (Some newer) w)))) i2 newer"
proof -
  have fresh: "\<not> dropped_as_stale (Some newer) ex"
    using assms(4,5) by (auto simp: dropped_as_stale_def is_stale_command_def split: option.splits)
  let ?w1 = "snd (update_intent_status now t u i1 trg1 (Some older) w)"
  let ?w2 = "snd (update_intent_status now t u i2 trg2 (Some newer) w)"
  obtain e1 where e1: "existing_or_blank later t u ?w1 = (e1, ?w1)" "shows_intent e1 i1 older"
    using intent_applied[OF assms(6,7,1-4), of i1 trg1] by blast
  obtain e2 where e2: "existing_or_blank later t u ?w2 = (e2, ?w2)" "shows_intent e2 i2 newer"
    using intent_applied[OF assms(6,7,1-3) fresh, of i2 trg2] by blast
  obtain p r where pr: "from_legacy_intent i2 = (p, r)" by fastforce
  have "fst (update_intent_status later t u i2 trg2 (Some newer) ?w1) =
      derive_fields (e1\<lparr>ap_presence := p, ap_routing := r, ap_heartbeat := later, ap_last_command := Some newer\<rparr>)"
    using e1 assms(5) pr
    by (simp add: update_intent_status_def dropped_as_stale_def is_stale_command_def store_change_def
        persist_def Let_def shows_intent_def)
  moreover have "fst (update_intent_status later t u i1 trg1 (Some older) ?w2) = e2"
    using e2 assms(5) by (simp add: update_intent_status_def dropped_as_stale_def is_stale_command_def shows_intent_def)
  ultimately show ?thesis
    using pr e2 by (simp add: derive_fields_def shows_intent_def)
qed

theorem newest_intent_wins_witness:
  "ap_presence (fst (update_intent_status 2100 ''t'' ''u1'' LAvailable AgentManual (Some 5)
     (snd (update_intent_status 2050 ''t'' ''u1'' LAway AgentManual (Some 9) demo_presence)))) = PAway"
proof -
  obtain p where p: "ps_hash demo_presence ''t'' ''u1'' = Some p" "ap_heartbeat p = 2000" "ap_last_command p = None"
    using demo_presence_record by blast
  have ids: "ap_tenant p = ''t''" "ap_user p = ''u1''"
    using p(1) by (auto simp: demo_presence_def set_routing_control_def add_connection_def get_presence_def
      blank_presence_def store_change_def persist_def Let_def derive_fields_def parse_presence_def
      is_fresh_def heartbeat_ttl_ms_def dropped_as_stale_def set_routing_def agent_state_of_def
      units_of_def after_mutation_def)
  have e: "existing_or_blank 2050 ''t'' ''u1'' demo_presence = (parse_presence p, demo_presence)"
    using p by (simp add: existing_or_blank_def get_presence_def is_fresh_def heartbeat_ttl_ms_def parse_presence_def)
  show ?thesis
    using newest_intent_wins[OF e, of 5 9 2100 LAway AgentManual LAvailable AgentManual] p ids
    by (simp add: parse_presence_def dropped_as_stale_def is_stale_command_def heartbeat_ttl_ms_def shows_intent_def)
qed

section \<open>The restore setting\<close>

text \<open>A return to AVAILABLE never restores ACCEPTING for a caller that does not say what the
  agent was doing before: in every reachable store the record of an agent who is not AVAILABLE
  is NOT_ACCEPTING, so the tenant setting \<open>restoreAcceptingOnReturn\<close> has no effect.\<close>

theorem restore_setting_has_no_effect:
  assumes "reachable_presence w" "get_presence now t u w = (Some ex, w1)" "ap_presence ex \<noteq> PAvailable"
  shows "ap_routing (fst (apply_presence now t u to trg who ts restore None w)) = NotAccepting"
proof -
  from get_presence_axes[OF reachable_stored_ok[OF assms(1)] assms(2)] assms(3)
  have "ap_routing ex = NotAccepting"
    by (cases "ap_routing ex") (auto simp: axes_ok_def interlocked_def)
  then show ?thesis
    using assms(2,3)
    by (auto simp: apply_presence_def existing_or_blank_def Let_def transition_presence_def
        routing_after_presence_change_def agent_state_of_def store_change_def persist_def derive_fields_def)
qed

theorem restore_setting_has_no_effect_witness:
  "ap_routing (fst (apply_presence 2100 ''t'' ''u1'' PAvailable AgentManual None None True None
     (snd (apply_presence 2050 ''t'' ''u1'' PBreak AgentManual None None True None demo_presence)))) = NotAccepting"
proof -
  let ?w = "snd (apply_presence 2050 ''t'' ''u1'' PBreak AgentManual None None True None demo_presence)"
  have r: "reachable_presence ?w"
    by (rule reachable_presence.step[OF demo_presence_reachable presence_step.presence])
  obtain ex where ex: "get_presence 2100 ''t'' ''u1'' ?w = (Some ex, ?w)" "ap_presence ex = PBreak"
    by (auto simp: apply_presence_def existing_or_blank_def transition_presence_def can_transition_presence_def
      demo_presence_def set_routing_control_def add_connection_def get_presence_def
      blank_presence_def store_change_def persist_def Let_def derive_fields_def parse_presence_def
      is_fresh_def heartbeat_ttl_ms_def dropped_as_stale_def set_routing_def agent_state_of_def
      units_of_def after_mutation_def)
  from restore_setting_has_no_effect[OF r ex(1)] ex(2) show ?thesis by simp
qed

section \<open>A concrete agent\<close>

definition demo_agent :: presence where
  "demo_agent =
     \<lparr>ap_user = ''u1'', ap_tenant = ''t'', ap_presence = PAvailable, ap_routing = Accepting, ap_work = WIdle,
      ap_capacity = CapOk, ap_connection = Connected, ap_display = LAvailable, ap_active = 0,
      ap_units = Some 0, ap_max = 2, ap_skills = None, ap_connections = [''s1''],
      ap_heartbeat = 2000, ap_heartbeat_ms = 2000, ap_disconnected_at = None, ap_last_command = None\<rparr>"

definition demo_agent_store :: "presence \<Rightarrow> pstore" where
  "demo_agent_store p = \<lparr>ps_hash = (\<lambda>t u. if t = ''t'' \<and> u = ''u1'' then Some p else None),
     ps_key = (\<lambda>_ _. None), ps_load = (\<lambda>_ _. None), ps_tenants = {''t''}, ps_events = []\<rparr>"

end
