(* ===== verification/Conversation_Adapter.thy ===== *)
theory Conversation_Adapter
  imports Agent_Presence_Safety Record_Adapter
begin

text \<open>
  The adapter of omni conversations (\<open>src/src/omni-inbound/assignment\<close>): candidates from the
  channel support pool and the online agents, load and reservation from the presence service,
  the commit on the conversation document
  (\<open>src/src/omni-inbound/repositories/conversation.repository.ts\<close>). The channel-support service
  and the database answers are the environment of a decision; so is the clock.
\<close>

record conv_doc =
  cd_id :: string
  cd_channel :: "string option"
  cd_status :: string
  cd_agent :: "string option"
  cd_group :: "string option"

record conv_world =
  cw_presence :: pstore
  cw_store :: store \<comment> \<open>holds the round-robin cursors\<close>
  cw_docs :: "conv_doc list"

record conv_env =
  ce_now :: int
  ce_valid :: "string \<Rightarrow> bool"
  ce_le :: "string \<Rightarrow> string \<Rightarrow> bool"
  ce_members :: "string \<Rightarrow> string list" \<comment> \<open>order of the tenant hash\<close>
  ce_find_up :: bool \<comment> \<open>reading a conversation answers\<close>
  ce_pool :: "string \<Rightarrow> string \<Rightarrow> (string, string list option) result" \<comment> \<open>\<open>resolveEligibleAgents\<close>\<close>
  ce_group_ok :: "string \<Rightarrow> string \<Rightarrow> string \<Rightarrow> bool" \<comment> \<open>\<open>assertGroupEligible\<close> does not throw\<close>
  ce_presence_up :: bool
  ce_groups :: "(group_doc \<times> bool) list option" \<comment> \<open>with \<open>isActive\<close>\<close>
  ce_users :: "user_doc list option"
  ce_cursor_up :: bool
  ce_write_up :: bool

section \<open>Candidates\<close>

definition find_conversation :: "conv_env \<Rightarrow> string \<Rightarrow> conv_world \<Rightarrow> conv_doc option" where
  "find_conversation env ident w = List.find (\<lambda>d. cd_id d = ident) (cw_docs w)"

definition channel_id_for :: "conv_env \<Rightarrow> scope \<Rightarrow> conv_world \<Rightarrow> string option" where
  "channel_id_for env sc w =
     (case truthy_id (sco_scope sc) of
        Some c \<Rightarrow> Some c
      | None \<Rightarrow>
          (case truthy_id (sco_entity sc) of
             None \<Rightarrow> None
           | Some e \<Rightarrow>
               if \<not> ce_find_up env then None
               else (case find_conversation env e w of
                       Some d \<Rightarrow> truthy_id (cd_channel d) | None \<Rightarrow> None)))"

definition conv_online :: "conv_env \<Rightarrow> scope \<Rightarrow> conv_world \<Rightarrow> string list \<times> conv_world" where
  "conv_online env sc w =
     (case get_available_agents (ce_now env) (sco_tenant sc) (ce_members env (sco_tenant sc)) (cw_presence w) of
        (agents, ps) \<Rightarrow> (map ap_user agents, w\<lparr>cw_presence := ps\<rparr>))"

definition conv_base_pool :: "conv_env \<Rightarrow> scope \<Rightarrow> (conv_world, string list option) action" where
  "conv_base_pool env sc = (\<lambda>w.
     let pool = (case channel_id_for env sc w of
           Some c \<Rightarrow> ce_pool env (sco_tenant sc) c | None \<Rightarrow> Inr None)
     in case pool of
          Inl e \<Rightarrow> (Inr (Some []), w)
        | Inr allowed \<Rightarrow>
            if \<not> ce_presence_up env then (Inr (Some []), w)
            else (case conv_online env sc w of (online, w1) \<Rightarrow>
              (Inr (Some (case allowed of
                  None \<Rightarrow> online | Some a \<Rightarrow> filter (\<lambda>i. i \<in> set a) online)), w1)))"

definition conv_members :: "conv_env \<Rightarrow> scope \<Rightarrow> string list \<Rightarrow> (conv_world, string list) action" where
  "conv_members env sc group_ids =
     (let ids = filter (ce_valid env) group_ids in
      ret (if ids = [] then []
           else case ce_groups env of
             None \<Rightarrow> []
           | Some docs \<Rightarrow>
               uniq (concat (map (\<lambda>(g, act). default_to [] (or_else (gd_member_ids g) (gd_members g)))
                 (filter (\<lambda>(g, act). gd_id g \<in> set ids \<and> act) docs)))))"

definition conv_may_serve :: "conv_env \<Rightarrow> scope \<Rightarrow> string \<Rightarrow> (conv_world, bool) action" where
  "conv_may_serve env sc grp = (\<lambda>w.
     (Inr (case channel_id_for env sc w of
             None \<Rightarrow> True | Some c \<Rightarrow> ce_group_ok env (sco_tenant sc) c grp), w))"

text \<open>\<open>getPresence\<close> of every candidate; the store threads through the reads.\<close>

fun read_presences ::
  "int \<Rightarrow> string \<Rightarrow> string list \<Rightarrow> pstore \<Rightarrow> (string \<times> presence option) list \<times> pstore" where
  "read_presences now t [] ps = ([], ps)"
| "read_presences now t (i # ids) ps =
     (case get_presence now t i ps of (p, ps1) \<Rightarrow>
        case read_presences now t ids ps1 of (rows, ps2) \<Rightarrow> ((i, p) # rows, ps2))"

definition conv_skills :: "conv_env \<Rightarrow> scope \<Rightarrow> string list \<Rightarrow> (conv_world, (string \<times> string list) list) action" where
  "conv_skills env sc ids = (\<lambda>w.
     case read_presences (ce_now env) (sco_tenant sc) ids (cw_presence w) of (rows, ps) \<Rightarrow>
       let known = concat (map (\<lambda>(i, p). case p of
                 Some q \<Rightarrow> (case ap_skills q of Some sk \<Rightarrow> [(i, sk)] | None \<Rightarrow> []) | None \<Rightarrow> []) rows);
           missing = filter (\<lambda>i. i \<notin> fst ` set known \<and> ce_valid env i) ids;
           users = (if missing = [] then []
                    else case ce_users env of
                      None \<Rightarrow> []
                    | Some docs \<Rightarrow> map (\<lambda>u. (ud_id u, default_to [] (ud_skills u)))
                        (filter (\<lambda>u. ud_id u \<in> set missing \<and> sco_tenant sc \<in> set (ud_tenants u)) docs))
       in (Inr (known @ users), w\<lparr>cw_presence := ps\<rparr>))"

definition conv_available :: "conv_env \<Rightarrow> scope \<Rightarrow> string list \<Rightarrow> bool \<Rightarrow> (conv_world, string list) action" where
  "conv_available env sc ids require_online = ret ids"

section \<open>Load\<close>

definition rat_of_num :: "jnum \<Rightarrow> rat" where
  "rat_of_num n = (case n of Dec m k \<Rightarrow> of_int m / 10 ^ k | _ \<Rightarrow> 0)"

definition conv_cursor_scope :: "scope \<Rightarrow> string" where
  "conv_cursor_scope sc = sco_tenant sc @ '':Conversation:'' @ default_to ''-'' (sco_scope sc) @ '':''
     @ default_to ''-'' (sco_group sc)"

definition row_load :: "presence option \<Rightarrow> rat" where
  "row_load p = (case p of Some q \<Rightarrow> units_of q | None \<Rightarrow> 0)"

text \<open>
  The pipeline reads \<open>loads\<close> only for adapters without a preview, so never here. It orders
  loads as integers; \<open>conv_loads\<close> answers them scaled by the least weight 0.1.
\<close>

definition conv_loads :: "conv_env \<Rightarrow> scope \<Rightarrow> string list \<Rightarrow> (conv_world, (string \<times> int) list) action" where
  "conv_loads env sc ids = (\<lambda>w.
     case read_presences (ce_now env) (sco_tenant sc) ids (cw_presence w) of (rows, ps) \<Rightarrow>
       (Inr (map (\<lambda>(i, p). (i, \<lfloor>row_load p * 10\<rfloor>)) rows), w\<lparr>cw_presence := ps\<rparr>))"

definition conv_rotate :: "conv_env \<Rightarrow> scope \<Rightarrow> string list \<Rightarrow> (conv_world, string list) action" where
  "conv_rotate env sc ids = (\<lambda>w.
     (Inr (cursor_rotate (ce_le env) (ce_cursor_up env) (conv_cursor_scope sc) ids (cw_store w)), w))"

definition conv_script ::
  "int \<Rightarrow> string \<Rightarrow> string list \<Rightarrow> strategy \<Rightarrow> rat \<Rightarrow> rat \<Rightarrow> pstore \<Rightarrow> string option \<times> pstore" where
  "conv_script now t ids strat max_cap wt ps =
     (case strat of
        RoundRobin \<Rightarrow> reserve_first_eligible_agent now t ids wt ps
      | CapacityBased \<Rightarrow> reserve_capacity_based_agent now t ids max_cap wt ps
      | _ \<Rightarrow> reserve_agent_from_candidates now t ids wt ps)"

definition conv_reserve ::
  "conv_env \<Rightarrow> scope \<Rightarrow> string list \<Rightarrow> strategy \<Rightarrow> jnum \<Rightarrow> (conv_world, string option) action" where
  "conv_reserve env sc ids strat cap = (\<lambda>w.
     if ids = [] then (Inr None, w)
     else
       case conv_script (ce_now env) (sco_tenant sc) ids strat (rat_of_num cap) (rat_of_num (sco_weight sc))
              (cw_presence w) of (r, ps) \<Rightarrow>
         (Inr r, w\<lparr>cw_presence := ps,
            cw_store := (case truthy_id r of
                Some i \<Rightarrow> cursor_advance (ce_cursor_up env) (conv_cursor_scope sc) i (cw_store w)
              | None \<Rightarrow> cw_store w)\<rparr>))"

definition row_capacity :: "rat \<Rightarrow> presence option \<Rightarrow> rat" where
  "row_capacity max_cap p =
     (case p of Some q \<Rightarrow> if ap_max q > 0 then ap_max q else max_cap | None \<Rightarrow> max_cap)"

fun least_row :: "(string \<times> rat) list \<Rightarrow> (string \<times> rat) option" where
  "least_row [] = None"
| "least_row (r # rs) = Some (fold (\<lambda>x best. if snd x < snd best then x else best) rs r)"

definition conv_preview ::
  "conv_env \<Rightarrow> scope \<Rightarrow> string list \<Rightarrow> strategy \<Rightarrow> jnum \<Rightarrow> (conv_world, string option) action" where
  "conv_preview env sc ids strat cap = (\<lambda>w.
     if ids = [] then (Inr None, w)
     else
       case read_presences (ce_now env) (sco_tenant sc) ids (cw_presence w) of (rows, ps) \<Rightarrow>
         let fits = filter (\<lambda>(i, p). p \<noteq> None \<and> (strat = LeastBusy \<or>
               row_load p + rat_of_num (sco_weight sc) \<le> row_capacity (rat_of_num cap) p)) rows;
             loads = map (\<lambda>(i, p). (i, row_load p)) fits
         in (Inr (map_option fst (if strat = RoundRobin then first_of loads else least_row loads)),
             w\<lparr>cw_presence := ps\<rparr>))"

definition conv_release :: "conv_env \<Rightarrow> scope \<Rightarrow> string \<Rightarrow> (conv_world, unit) action" where
  "conv_release env sc who = (\<lambda>w.
     (Inr (), w\<lparr>cw_presence := release_conversation (ce_now env) (sco_tenant sc) who
                (rat_of_num (sco_weight sc)) (cw_presence w)\<rparr>))"

section \<open>Commit\<close>

definition assign_if_unassigned ::
  "string \<Rightarrow> string \<Rightarrow> string option \<Rightarrow> conv_doc list \<Rightarrow> bool \<times> conv_doc list" where
  "assign_if_unassigned ident agent grp docs =
     update_one (\<lambda>d. cd_id d = ident \<and> (cd_status d = ''open'' \<or> cd_status d = ''pending'') \<and> cd_agent d = None)
       (\<lambda>d. d\<lparr>cd_agent := Some agent, cd_group := grp\<rparr>) docs"

definition conv_commit :: "conv_env \<Rightarrow> scope \<Rightarrow> string \<Rightarrow> string option \<Rightarrow> (conv_world, bool) action" where
  "conv_commit env sc who grp = (\<lambda>w.
     case truthy_id (sco_entity sc) of
       None \<Rightarrow> (Inr False, w)
     | Some e \<Rightarrow>
         if \<not> ce_write_up env then (Inl ''mongo'', w)
         else (case assign_if_unassigned e who grp (cw_docs w) of (m, docs) \<Rightarrow>
           (Inr m, w\<lparr>cw_docs := docs\<rparr>)))"

definition reassign_if_expected ::
  "string \<Rightarrow> string option \<Rightarrow> string option \<Rightarrow> string option \<Rightarrow> conv_doc list \<Rightarrow> bool \<times> conv_doc list" where
  "reassign_if_expected ident agent grp expected docs =
     update_one (\<lambda>d. cd_id d = ident \<and> cd_agent d = expected)
       (\<lambda>d. d\<lparr>cd_agent := agent, cd_group := grp\<rparr>) docs"

definition conv_reassign ::
  "conv_env \<Rightarrow> scope \<Rightarrow> string \<Rightarrow> string option \<Rightarrow> string option \<Rightarrow> (conv_world, bool) action" where
  "conv_reassign env sc who grp expected = (\<lambda>w.
     case truthy_id (sco_entity sc) of
       None \<Rightarrow> (Inr False, w)
     | Some e \<Rightarrow>
         if \<not> ce_write_up env then (Inl ''mongo'', w)
         else (case reassign_if_expected e (Some who) grp expected (cw_docs w) of (m, docs) \<Rightarrow>
           (Inr m, w\<lparr>cw_docs := docs\<rparr>)))"

definition conv_park :: "conv_env \<Rightarrow> scope \<Rightarrow> string \<Rightarrow> (conv_world, unit) action" where
  "conv_park env sc grp = (\<lambda>w.
     case truthy_id (sco_entity sc) of
       None \<Rightarrow> (Inr (), w)
     | Some e \<Rightarrow>
         if \<not> ce_write_up env then (Inr (), w)
         else (Inr (), w\<lparr>cw_docs := snd (update_one (\<lambda>d. cd_id d = e) (\<lambda>d. d\<lparr>cd_group := Some grp\<rparr>) (cw_docs w))\<rparr>))"

definition conversation_adapter :: "conv_env \<Rightarrow> conv_world adapter" where
  "conversation_adapter env =
     \<lparr>ad_base_pool = conv_base_pool env, ad_members = conv_members env,
      ad_may_serve = Some (conv_may_serve env), ad_skills = conv_skills env,
      ad_available = Some (conv_available env), ad_loads = conv_loads env,
      ad_reserve = conv_reserve env, ad_release = conv_release env, ad_load_complete = None,
      ad_preview = Some (conv_preview env), ad_rotate = Some (conv_rotate env),
      ad_commit = conv_commit env, ad_park = Some (conv_park env), ad_commit_complete = None\<rparr>"

end
