(* ===== verification/Conversation_Adapter_Safety.thy ===== *)
theory Conversation_Adapter_Safety
  imports Conversation_Adapter Record_Adapter_Safety
begin

text \<open>
  Conversations: the adapter picks only inside the pools it is given (locale \<open>pool_ports\<close>), a
  restricted channel is served from its support pool only, and a reservation takes one routable
  agent inside its capacity, which a release gives back.
\<close>

section \<open>The ports stay inside the pool\<close>

lemma clean_subset: "set (clean_candidates ids) \<subseteq> set ids"
  by (auto simp: clean_candidates_def)

lemma conv_script_cases:
  assumes "0 < wt" "conv_script now t ids strat max_cap wt ps = (Some i, ps')"
  obtains s c where "routing_script s c" "s t (clean_candidates ids) now wt ps = (Some i, ps')"
    "\<forall>d. ap_max d > 0 \<longrightarrow> c d = ap_max d"
proof (cases strat)
  case RoundRobin
  with assms show ?thesis
    by (intro that[OF first_fit.routing_script_axioms])
      (auto simp: conv_script_def reserve_first_eligible_agent_def split: if_splits)
next
  case CapacityBased
  with assms show ?thesis
    by (intro that[OF capacity_based.routing_script_axioms[of "if max_cap > 0 then max_cap else default_max_capacity"]])
      (auto simp: conv_script_def reserve_capacity_based_agent_def effective_capacity_def split: if_splits)
next
  case LeastBusy
  with assms show ?thesis
    by (intro that[OF least_busy.routing_script_axioms])
      (auto simp: conv_script_def reserve_agent_from_candidates_def split: if_splits)
next
  case ManualPick
  with assms show ?thesis
    by (intro that[OF least_busy.routing_script_axioms])
      (auto simp: conv_script_def reserve_agent_from_candidates_def split: if_splits)
qed

lemma first_eligible_in:
  "lua_reserve_first_eligible t ids now wt w = (Some i, w') \<Longrightarrow> i \<in> set ids"
  by (induction t ids now wt w rule: lua_reserve_first_eligible.induct)
    (auto split: option.splits if_splits)

lemma conv_script_in: "conv_script now t ids strat max_cap wt ps = (Some i, ps') \<Longrightarrow> i \<in> set ids"
  using clean_subset[of ids]
  by (cases strat)
    (auto simp: conv_script_def reserve_first_eligible_agent_def reserve_capacity_based_agent_def
      reserve_agent_from_candidates_def lua_reserve_capacity_based_def lua_reserve_from_candidates_def Let_def
      split: if_splits option.splits prod.splits dest!: first_eligible_in least_loaded_Some)

lemma read_presences_ids: "read_presences now t ids ps = (rows, ps') \<Longrightarrow> map fst rows = ids"
  by (induction ids arbitrary: ps rows ps') (auto split: prod.splits)

lemma least_row_in: "least_row rs = Some r \<Longrightarrow> r \<in> set rs"
proof (cases rs)
  case (Cons x xs)
  have "fold (\<lambda>x best. if snd x < snd best then x else best) ys b \<in> insert b (set ys)"
    for ys and b :: "string \<times> rat"
  proof (induction ys arbitrary: b)
    case (Cons y ys)
    show ?case using Cons[of y] Cons[of b] by (cases "snd y < snd b") auto
  qed simp
  from this[of xs x] show "least_row rs = Some r \<Longrightarrow> r \<in> set rs" using Cons by auto
qed simp

interpretation conv_pool: pool_ports "conversation_adapter env" for env
proof (unfold_locales, goal_cases)
  case (1 sc ids st cap w i w')
  then show ?case
    by (auto simp: conversation_adapter_def conv_reserve_def split: prod.splits if_splits dest: conv_script_in)
next
  case (2 f1 sc ids b w xs w')
  then show ?case by (auto simp: conversation_adapter_def conv_available_def ret_def)
next
  case (3 f2 sc ids w xs w')
  then show ?case by (auto simp: conversation_adapter_def conv_rotate_def cursor_rotate_set)
next
  case (4 f3 sc ids st cap w i w')
  show ?case
  proof (cases "ids = []")
    case True
    with 4 show ?thesis by (auto simp: conversation_adapter_def conv_preview_def)
  next
    case False
    obtain rows ps where rows: "read_presences (ce_now env) (sco_tenant sc) ids (cw_presence w) = (rows, ps)"
      by fastforce
    have sub: "j \<in> set ids" if "(j, y) \<in> set rows" for j y
      using read_presences_ids[OF rows] image_eqI[OF _ that, of j fst] by (metis fst_conv list.set_map)
    from 4 False rows show ?thesis
      by (auto simp: conversation_adapter_def conv_preview_def Let_def
          dest!: first_of_in least_row_in split: if_splits) (use sub in blast)+
  qed
qed

section \<open>Restricted channels\<close>

lemma conv_base_pool_allowed:
  assumes "truthy_id (sco_scope sc) = Some c" "ce_pool env (sco_tenant sc) c = Inr (Some allowed)"
  shows "yields (conv_base_pool env sc) (\<lambda>p. \<exists>b. p = Some b \<and> set b \<subseteq> set allowed)"
  using assms
  by (auto simp: yields_def conv_base_pool_def channel_id_for_def Let_def split: if_splits prod.splits)

text \<open>A restricted channel is served by its support pool only: for a conversation on a channel
  with a resolved pool, whoever the pipeline picks (whatever rule, team, skill mode, strategy
  or preferred agent is configured) is in that pool, in the request's allow-list and not
  excluded.\<close>

theorem restricted_channel_served_by_pool:
  assumes "sv_adapters sv (rq_type rq) = Some (conversation_adapter env)"
    and "truthy_id (rq_scope rq) = Some c" and "ce_pool env (rq_tenant rq) c = Inr (Some allowed)"
    and "assign sv rq s = (Inr d, s')" and "picked_key (d_key d)"
  shows "\<exists>u. d_assignee d = Some u \<and> u \<in> set allowed \<and> may_name rq u"
proof -
  let ?sc = "request_scope (sv_parse_date sv) rq"
  have "yields (assign sv rq) (names_admitted (\<lambda>u. u \<in> set allowed \<and> may_name rq u))"
  proof (rule conv_pool.assign_names[OF assms(1)])
    fix eff dg
    have base: "yields (ad_base_pool (conversation_adapter env) ?sc) (\<lambda>p. \<exists>b. p = Some b \<and> set b \<subseteq> set allowed)"
      using conv_base_pool_allowed[of ?sc c env allowed] assms(2,3)
      by (simp add: conversation_adapter_def request_scope_def)
    show "yields (bind_act (ad_base_pool (conversation_adapter env) ?sc) (\<lambda>p.
        resolve_target (conversation_adapter env) ?sc eff (restrict_pool (rq_restrict rq) p) dg))
      (\<lambda>r. \<forall>t i. r = Some t \<longrightarrow> i \<in> set (tg_candidates t) \<longrightarrow> i \<notin> set (rq_exclude rq) \<longrightarrow>
        i \<in> set allowed \<and> may_name rq i)"
    proof (rule yields_bind[OF base], goal_cases)
      case (1 p)
      then obtain b where b: "p = Some b" "set b \<subseteq> set allowed" by blast
      obtain b' where b': "restrict_pool (rq_restrict rq) p = Some b'" "set b' \<subseteq> set b"
        "\<forall>r. rq_restrict rq = Some r \<longrightarrow> set b' \<subseteq> set r"
        by (cases "rq_restrict rq") (auto simp: restrict_pool_def b(1))
      show ?case
        unfolding b'(1)
        using resolve_target_in[of "conversation_adapter env" ?sc eff b' dg] b b'
        by (fastforce simp: yields_def within_def may_name_def split: option.split)
    qed
  qed
  with assms(4) have "names_admitted (\<lambda>u. u \<in> set allowed \<and> may_name rq u) d" by (auto simp: yields_def)
  with assms(5) show ?thesis by (auto simp: names_admitted_def split: option.splits)
qed

section \<open>Reservation\<close>

text \<open>A conversation is reserved only for an agent who can take it: the agent picked is a
  candidate with a fresh heartbeat, AVAILABLE, CONNECTED and ACCEPTING (so eligible for routing
  by the state machine's own predicate), the weighted load stays within the agent's capacity,
  the load set agrees with the record, and no other agent of any tenant is touched.\<close>

theorem conversation_reservation_is_sound:
  assumes "conv_reserve env sc ids strat cap w = (Inr (Some i), w')"
    and "0 < rat_of_num (sco_weight sc)"
    and "ps_hash (cw_presence w) (sco_tenant sc) i = Some d" and "0 < ap_max d"
  shows "i \<in> set ids
    \<and> ce_now env - ap_heartbeat_ms d \<le> heartbeat_ttl_ms
    \<and> is_eligible_for_routing (ap_presence d) (ap_connection d) (ap_routing d) (units_of d) (ap_max d)
    \<and> (\<exists>d'. ps_hash (cw_presence w') (sco_tenant sc) i = Some d'
        \<and> units_of d' = units_of d + rat_of_num (sco_weight sc) \<and> units_of d' \<le> ap_max d
        \<and> ps_load (cw_presence w') (sco_tenant sc) i = Some (units_of d'))
    \<and> (\<forall>t u. (t, u) \<noteq> (sco_tenant sc, i) \<longrightarrow>
        ps_hash (cw_presence w') t u = ps_hash (cw_presence w) t u)"
proof -
  have ne: "ids \<noteq> []" using assms(1) by (auto simp: conv_reserve_def)
  let ?wt = "rat_of_num (sco_weight sc)"
  obtain ps where ps: "conv_script (ce_now env) (sco_tenant sc) ids strat (rat_of_num cap) ?wt (cw_presence w)
      = (Some i, ps)" "cw_presence w' = ps"
    using assms(1) ne by (auto simp: conv_reserve_def split: prod.splits)
  obtain s c where s: "routing_script s c"
    "s (sco_tenant sc) (clean_candidates ids) (ce_now env) ?wt (cw_presence w) = (Some i, ps)"
    and c: "\<forall>d. ap_max d > 0 \<longrightarrow> c d = ap_max d"
    by (rule conv_script_cases[OF assms(2) ps(1)])
  from routing_script.capacity_kept[OF s(1) assms(2) s(2)] assms(3) obtain d' where d':
    "ps_hash ps (sco_tenant sc) i = Some d'" "routable (ce_now env) d"
    "units_of d' = units_of d + ?wt" "units_of d' \<le> c d" "ps_load ps (sco_tenant sc) i = Some (units_of d')"
    by auto
  from c assms(4) have cd: "c d = ap_max d" by blast
  with d'(3,4) assms(2) have lt: "units_of d < ap_max d" by linarith
  show ?thesis
    using d' cd lt conv_script_in[OF ps(1)] ps(2)
      routing_script.others_untouched[OF s(1) assms(2) s(2)]
    by (auto simp: routable_def is_eligible_for_routing_def)
qed

text \<open>Releasing a conversation gives back what its reservation took: the agent's weighted load,
  conversation count, presence and routing are what they were, and the load set shows it.\<close>

theorem conversation_release_undoes_reserve:
  assumes "conv_reserve env sc ids strat cap w = (Inr (Some i), w')"
    and "0 < rat_of_num (sco_weight sc)"
    and "ps_hash (cw_presence w) (sco_tenant sc) i = Some d" "0 \<le> units_of d" "0 \<le> ap_active d"
  shows "\<exists>d''. ps_hash (cw_presence (snd (conv_release env sc i w'))) (sco_tenant sc) i = Some d''
    \<and> units_of d'' = units_of d \<and> ap_active d'' = ap_active d
    \<and> ap_presence d'' = ap_presence d \<and> ap_routing d'' = ap_routing d
    \<and> ps_load (cw_presence (snd (conv_release env sc i w'))) (sco_tenant sc) i = Some (units_of d)"
proof -
  have ne: "ids \<noteq> []" using assms(1) by (auto simp: conv_reserve_def)
  let ?wt = "rat_of_num (sco_weight sc)"
  obtain ps where ps: "conv_script (ce_now env) (sco_tenant sc) ids strat (rat_of_num cap) ?wt (cw_presence w)
      = (Some i, ps)" "cw_presence w' = ps"
    using assms(1) ne by (auto simp: conv_reserve_def split: prod.splits)
  obtain s c where s: "routing_script s c"
    "s (sco_tenant sc) (clean_candidates ids) (ce_now env) ?wt (cw_presence w) = (Some i, ps)"
    and c: "\<forall>d. ap_max d > 0 \<longrightarrow> c d = ap_max d"
    by (rule conv_script_cases[OF assms(2) ps(1)])
  from routing_script.release_restores[OF s(1) assms(2) s(2) assms(3-5)] obtain d'' where d'':
    "ps_hash (snd (lua_atomic_release (sco_tenant sc) i ?wt ps)) (sco_tenant sc) i = Some d''"
    "units_of d'' = units_of d" "ap_active d'' = ap_active d" "ap_presence d'' = ap_presence d"
    "ap_routing d'' = ap_routing d"
    "ps_load (snd (lua_atomic_release (sco_tenant sc) i ?wt ps)) (sco_tenant sc) i = Some (units_of d)"
    by blast
  obtain r ps2 where rel: "lua_atomic_release (sco_tenant sc) i ?wt ps = (r, ps2)" by fastforce
  with d'' show ?thesis
    by (auto simp: conv_release_def release_conversation_def ps(2) split: option.split)
qed

section \<open>A concrete deployment\<close>

definition demo_conv_env :: conv_env where
  "demo_conv_env =
     \<lparr>ce_now = 2500, ce_valid = (\<lambda>_. True), ce_le = (\<lambda>_ _. True), ce_members = (\<lambda>_. [''u1'']),
      ce_find_up = True, ce_pool = (\<lambda>_ _. Inr (Some [''u1'', ''u3''])), ce_group_ok = (\<lambda>_ _ _. True),
      ce_presence_up = True, ce_groups = None, ce_users = None, ce_cursor_up = True, ce_write_up = True\<rparr>"

definition demo_conv_world :: conv_world where
  "demo_conv_world =
     \<lparr>cw_presence = demo_agent_store demo_agent, cw_store = empty_store,
      cw_docs = [\<lparr>cd_id = ''c1'', cd_channel = Some ''ch'', cd_status = ''open'', cd_agent = None, cd_group = None\<rparr>]\<rparr>"

definition demo_conv_services :: "conv_world services" where
  "demo_conv_services =
     \<lparr>sv_adapters = (\<lambda>_. Some (conversation_adapter demo_conv_env)),
      sv_config = (\<lambda>_ _ _. ret (hard_defaults\<lparr>cfg_auto := True, cfg_strategy := LeastBusy, cfg_online := False\<rparr>)),
      sv_rules = (\<lambda>_ _ _ _. ret (None, [], [])), sv_capture = None,
      sv_registry = Some builtin_registry, sv_parse_date = (\<lambda>_. None)\<rparr>"

definition demo_conv_request :: "conv_world request" where
  "demo_conv_request =
     \<lparr>rq_tenant = ''t'', rq_type = Conversation, rq_entity = Some ''c1'', rq_command = None,
      rq_scope = Some ''ch'', rq_attrs = [], rq_manual = None, rq_previous = None, rq_bypass = False,
      rq_strategy = None, rq_target_groups = None, rq_target_user = None, rq_skills = [],
      rq_owning = None, rq_restrict = None, rq_exclude = [], rq_preferred = None,
      rq_skip_rules = True, rq_override = None, rq_commit = None, rq_outcome = None,
      rq_dry = False, rq_explain = False, rq_source = None, rq_workflow = None,
      rq_performer = None, rq_channel = None, rq_metadata = []\<rparr>"

definition demo_conv_start :: "conv_world cstate" where
  "demo_conv_start = \<lparr>cs_world = demo_conv_world, cs_trail = []\<rparr>"

abbreviation demo_conv_sc :: scope where
  "demo_conv_sc \<equiv> request_scope (\<lambda>_. None) demo_conv_request"

lemma demo_conv_run:
  "map_sum id (\<lambda>d. (d_outcome d, d_assignee d, d_key d)) (fst (assign demo_conv_services demo_conv_request demo_conv_start))
     = Inr (Assigned, Some ''u1'', KAssigned)"
  by code_simp

lemma demo_conv_reserve:
  "fst (conv_reserve demo_conv_env demo_conv_sc [''u9'', ''u1''] CapacityBased (Dec 3 0) demo_conv_world) = Inr (Some ''u1'')"
  by code_simp

lemma demo_conv_weight: "rat_of_num (sco_weight demo_conv_sc) = 1"
  by code_simp

lemma demo_conv_taken:
  obtains w' where
    "conv_reserve demo_conv_env demo_conv_sc [''u9'', ''u1''] CapacityBased (Dec 3 0) demo_conv_world = (Inr (Some ''u1''), w')"
  using demo_conv_reserve by (metis prod.collapse)

lemma demo_conv_agent: "ps_hash (cw_presence demo_conv_world) (sco_tenant demo_conv_sc) ''u1'' = Some demo_agent"
  by (simp add: demo_conv_world_def demo_agent_store_def request_scope_def demo_conv_request_def)

theorem restricted_channel_served_by_pool_witness:
  "\<exists>d s' u. assign demo_conv_services demo_conv_request demo_conv_start = (Inr d, s')
     \<and> d_assignee d = Some u \<and> u \<in> {''u1'', ''u3''}"
proof -
  obtain d s' where d: "assign demo_conv_services demo_conv_request demo_conv_start = (Inr d, s')" "d_key d = KAssigned"
    using demo_conv_run
    by (cases "assign demo_conv_services demo_conv_request demo_conv_start";
        cases "fst (assign demo_conv_services demo_conv_request demo_conv_start)") auto
  then have "picked_key (d_key d)" by (simp add: picked_key_def)
  from restricted_channel_served_by_pool[of demo_conv_services demo_conv_request demo_conv_env "''ch''"
      "[''u1'', ''u3'']", OF _ _ _ d(1) this] d(1)
  show ?thesis
    by (auto simp: demo_conv_services_def demo_conv_request_def demo_conv_env_def truthy_id_def)
qed

theorem conversation_reservation_is_sound_witness:
  "\<exists>w' d'. conv_reserve demo_conv_env demo_conv_sc [''u9'', ''u1''] CapacityBased (Dec 3 0) demo_conv_world
       = (Inr (Some ''u1''), w')
     \<and> ps_hash (cw_presence w') ''t'' ''u1'' = Some d' \<and> units_of d' = 1"
proof -
  obtain w' where w: "conv_reserve demo_conv_env demo_conv_sc [''u9'', ''u1''] CapacityBased (Dec 3 0) demo_conv_world
      = (Inr (Some ''u1''), w')" by (rule demo_conv_taken)
  from conversation_reservation_is_sound[OF w _ demo_conv_agent] show ?thesis
    using w demo_conv_weight
    by (auto simp: demo_agent_def units_of_def default_to_def request_scope_def demo_conv_request_def)
qed

theorem conversation_release_undoes_reserve_witness:
  "\<exists>w' d'. conv_reserve demo_conv_env demo_conv_sc [''u9'', ''u1''] CapacityBased (Dec 3 0) demo_conv_world
       = (Inr (Some ''u1''), w')
     \<and> ps_hash (cw_presence (snd (conv_release demo_conv_env demo_conv_sc ''u1'' w'))) ''t'' ''u1'' = Some d'
     \<and> units_of d' = 0 \<and> ap_active d' = 0"
proof -
  obtain w' where w: "conv_reserve demo_conv_env demo_conv_sc [''u9'', ''u1''] CapacityBased (Dec 3 0) demo_conv_world
      = (Inr (Some ''u1''), w')" by (rule demo_conv_taken)
  from conversation_release_undoes_reserve[OF w _ demo_conv_agent] show ?thesis
    using w demo_conv_weight
    by (auto simp: demo_agent_def units_of_def default_to_def request_scope_def demo_conv_request_def)
qed

text \<open>
  When the channel of a conversation cannot be read, the restriction is lost: everyone online is
  offered, whatever pool the channel has.
\<close>

lemma unread_channel_fails_open:
  "fst (conv_base_pool demo_conv_env (demo_conv_sc\<lparr>sco_scope := None\<rparr>) demo_conv_world) = Inr (Some [''u1''])"
  "fst (conv_base_pool (demo_conv_env\<lparr>ce_pool := \<lambda>_ _. Inr (Some [''u3''])\<rparr>)
     (demo_conv_sc\<lparr>sco_scope := None\<rparr>) demo_conv_world) = Inr (Some [])"
  "fst (conv_base_pool (demo_conv_env\<lparr>ce_find_up := False, ce_pool := \<lambda>_ _. Inr (Some [''u3''])\<rparr>)
     (demo_conv_sc\<lparr>sco_scope := None\<rparr>) demo_conv_world) = Inr (Some [''u1''])"
  by code_simp+

text \<open>The preview of the least-busy strategy names an agent whom the script refuses.\<close>

lemma preview_ignores_full_agents:
  "fst (conv_preview demo_conv_env demo_conv_sc [''u1''] LeastBusy (Dec 3 0)
     (demo_conv_world\<lparr>cw_presence := demo_agent_store (demo_agent\<lparr>ap_units := Some 2\<rparr>)\<rparr>)) = Inr (Some ''u1'')"
  "fst (conv_reserve demo_conv_env demo_conv_sc [''u1''] LeastBusy (Dec 3 0)
     (demo_conv_world\<lparr>cw_presence := demo_agent_store (demo_agent\<lparr>ap_units := Some 2\<rparr>)\<rparr>)) = Inr None"
  by code_simp+

end
