(* ===== verification/Presence_Segments.thy ===== *)
theory Presence_Segments
  imports Agent_Presence_Safety
begin

text \<open>
  The reporting timeline of an agent: the pure segment arithmetic
  (\<open>src/src/omni-inbound/domain/presence-segments.ts\<close>), the service that keeps the open segments
  in Redis and queues the closed ones (\<open>services/presence-segment.service.ts\<close>), and the work
  label (\<open>domain/work-status.ts\<close>). The queue is the list of the jobs handed to it. The main
  result: the closed segments and the open ones account for exactly the time the agent spent in
  each value while online.
\<close>

section \<open>Segments\<close>

datatype seg_axis = SegPresence | SegRouting | SegWork

definition seg_axes :: "seg_axis list" where
  "seg_axes = [SegPresence, SegRouting, SegWork]"

datatype seg_value = PresenceValue presence_status | RoutingValue routing_status | WorkValue work_status

record open_segment =
  os_value :: seg_value
  os_start :: int

type_synonym open_map = "seg_axis \<Rightarrow> open_segment option"

record closed_segment =
  cl_axis :: seg_axis
  cl_value :: seg_value
  cl_start :: int
  cl_end :: int
  cl_duration :: int

fun axis_value :: "snapshot \<Rightarrow> seg_axis \<Rightarrow> seg_value" where
  "axis_value s SegPresence = PresenceValue (sn_presence s)"
| "axis_value s SegRouting = RoutingValue (sn_routing s)"
| "axis_value s SegWork = WorkValue (sn_work s)"

definition close_segment :: "seg_axis \<Rightarrow> open_segment \<Rightarrow> int \<Rightarrow> closed_segment" where
  "close_segment a cur atm =
     \<lparr>cl_axis = a, cl_value = os_value cur, cl_start = os_start cur, cl_end = atm,
      cl_duration = max 0 (atm - os_start cur)\<rparr>"

fun diff_loop :: "open_map \<Rightarrow> snapshot \<Rightarrow> int \<Rightarrow> seg_axis list \<Rightarrow> closed_segment list \<times> open_map \<Rightarrow>
    closed_segment list \<times> open_map" where
  "diff_loop om after atm [] acc = acc"
| "diff_loop om after atm (a # as) (cls, nxt) =
     (let value = axis_value after a; opened = \<lparr>os_value = value, os_start = atm\<rparr> in
      case om a of
        None \<Rightarrow> diff_loop om after atm as (cls, nxt(a \<mapsto> opened))
      | Some cur \<Rightarrow>
          if os_value cur \<noteq> value
          then diff_loop om after atm as (cls @ [close_segment a cur atm], nxt(a \<mapsto> opened))
          else diff_loop om after atm as (cls, nxt))"

definition close_all :: "open_map \<Rightarrow> int \<Rightarrow> closed_segment list" where
  "close_all om atm =
     concat (map (\<lambda>a. case om a of Some cur \<Rightarrow> [close_segment a cur atm] | None \<Rightarrow> []) seg_axes)"

definition diff_segments :: "open_map \<Rightarrow> snapshot \<Rightarrow> int \<Rightarrow> closed_segment list \<times> open_map" where
  "diff_segments om after atm =
     (if sn_presence after = POffline then (close_all om atm, Map.empty)
      else diff_loop om after atm seg_axes ([], om))"

fun reopen_loop :: "open_map \<Rightarrow> int \<Rightarrow> seg_axis list \<Rightarrow> open_map \<Rightarrow> open_map" where
  "reopen_loop om atm [] nxt = nxt"
| "reopen_loop om atm (a # as) nxt =
     reopen_loop om atm as (case om a of
       Some cur \<Rightarrow> nxt(a \<mapsto> \<lparr>os_value = os_value cur, os_start = atm\<rparr>) | None \<Rightarrow> nxt)"

definition rollover_segments :: "open_map \<Rightarrow> int \<Rightarrow> closed_segment list \<times> open_map" where
  "rollover_segments om boundary =
     (close_all om boundary, reopen_loop om boundary seg_axes Map.empty)"

section \<open>The service\<close>

record seg_job =
  sj_prefix :: string
  sj_tenant :: string
  sj_agent :: string
  sj_at :: int
  sj_trigger :: "trigger option"
  sj_segments :: "closed_segment list"

record seg_world =
  sg_open :: "string \<Rightarrow> string \<Rightarrow> (open_map \<times> int) option" \<comment> \<open>with the time the key expires\<close>
  sg_jobs :: "seg_job list"

record seg_env =
  se_redis_up :: bool
  se_queue_up :: bool

definition open_seg_ttl_ms :: int where "open_seg_ttl_ms = 26 * 60 * 60 * 1000"

text \<open>The deterministic job id, as the tuple it is built from.\<close>

definition job_id :: "seg_job \<Rightarrow> string \<times> string \<times> string \<times> int" where
  "job_id j = (sj_prefix j, sj_tenant j, sj_agent j, sj_at j)"

definition read_open :: "int \<Rightarrow> string \<Rightarrow> string \<Rightarrow> seg_world \<Rightarrow> open_map" where
  "read_open now t u w =
     (case sg_open w t u of Some (m, ex) \<Rightarrow> if now < ex then m else Map.empty | None \<Rightarrow> Map.empty)"

definition no_segment_open :: "open_map \<Rightarrow> bool" where
  "no_segment_open m = list_all (\<lambda>a. m a = None) seg_axes"

definition write_open :: "int \<Rightarrow> string \<Rightarrow> string \<Rightarrow> open_map \<Rightarrow> seg_world \<Rightarrow> seg_world" where
  "write_open now t u m w =
     w\<lparr>sg_open := (sg_open w)(t := (sg_open w t)(u :=
       if no_segment_open m then None else Some (m, now + open_seg_ttl_ms)))\<rparr>"

definition enqueue_segments ::
  "string \<Rightarrow> string \<Rightarrow> trigger option \<Rightarrow> closed_segment list \<Rightarrow> string \<Rightarrow> int \<Rightarrow> seg_world \<Rightarrow> seg_world" where
  "enqueue_segments t u trg cls pre atm w =
     (if cls = [] then w
      else w\<lparr>sg_jobs := sg_jobs w @ [\<lparr>sj_prefix = pre, sj_tenant = t, sj_agent = u, sj_at = atm,
        sj_trigger = trg, sj_segments = cls\<rparr>]\<rparr>)"

definition record_state_change ::
  "seg_env \<Rightarrow> int \<Rightarrow> string \<Rightarrow> string \<Rightarrow> snapshot \<Rightarrow> trigger option \<Rightarrow> int \<Rightarrow> seg_world \<Rightarrow> seg_world" where
  "record_state_change env now t u after trg atm w =
     (if \<not> se_redis_up env then w
      else case diff_segments (read_open now t u w) after atm of (cls, nxt) \<Rightarrow>
        let w1 = write_open now t u nxt w
        in if \<not> se_queue_up env then w1 else enqueue_segments t u trg cls ''seg'' atm w1)"

definition rollover_agent ::
  "seg_env \<Rightarrow> int \<Rightarrow> string \<Rightarrow> string \<Rightarrow> int \<Rightarrow> seg_world \<Rightarrow> (string, unit) result \<times> seg_world" where
  "rollover_agent env now t u boundary w =
     (if \<not> se_redis_up env then (Inl ''redis'', w)
      else
        let om = read_open now t u w in
        if no_segment_open om then (Inr (), w)
        else case rollover_segments om boundary of (cls, nxt) \<Rightarrow>
          let w1 = write_open now t u nxt w
          in if \<not> se_queue_up env \<and> cls \<noteq> [] then (Inl ''queue'', w1)
             else (Inr (), enqueue_segments t u (Some SystemDayRollover) cls ''roll'' boundary w1))"

section \<open>The work label\<close>

datatype interaction = IChat | ITicket | IEmail | ICall

text \<open>The Redis hash of open interactions; the key \<open>type:ref\<close> is the pair.\<close>

record work_record =
  wk_open :: "((interaction \<times> string) \<times> int) list"
  wk_wrap_up_until :: "int option"

definition has_type :: "((interaction \<times> string) \<times> int) list \<Rightarrow> interaction \<Rightarrow> bool" where
  "has_type opn ty = list_ex (\<lambda>(k, _). fst k = ty) opn"

definition compute_work_status :: "work_record \<Rightarrow> int \<Rightarrow> work_status" where
  "compute_work_status r now =
     (if has_type (wk_open r) ICall then InCall
      else if has_type (wk_open r) IChat then InChat
      else if has_type (wk_open r) ITicket then InTicket
      else if has_type (wk_open r) IEmail then InEmail
      else if (case wk_wrap_up_until r of Some e \<Rightarrow> now < e | None \<Rightarrow> False) then WrapUp
      else WIdle)"

definition is_all_closed :: "work_record \<Rightarrow> bool" where
  "is_all_closed r \<longleftrightarrow> wk_open r = []"

section \<open>The time that is reported\<close>

text \<open>What happens to one agent: a state change, or the rollover of a day boundary.\<close>

datatype seg_event = Changed snapshot trigger int | Rolled int

fun event_time :: "seg_event \<Rightarrow> int" where
  "event_time (Changed s trg tm) = tm"
| "event_time (Rolled tm) = tm"

fun seg_step :: "seg_env \<Rightarrow> string \<Rightarrow> string \<Rightarrow> seg_event \<Rightarrow> seg_world \<Rightarrow> seg_world" where
  "seg_step env t u (Changed s trg tm) w = record_state_change env tm t u s (Some trg) tm w"
| "seg_step env t u (Rolled tm) w = snd (rollover_agent env tm t u tm w)"

definition seg_run :: "seg_env \<Rightarrow> string \<Rightarrow> string \<Rightarrow> seg_event list \<Rightarrow> seg_world \<Rightarrow> seg_world" where
  "seg_run env t u es w = fold (seg_step env t u) es w"

text \<open>Events in order, never more than the life of the open-segment key apart.\<close>

fun paced :: "int \<Rightarrow> seg_event list \<Rightarrow> int \<Rightarrow> bool" where
  "paced now [] end_at \<longleftrightarrow> now \<le> end_at \<and> end_at < now + open_seg_ttl_ms"
| "paced now (e # es) end_at \<longleftrightarrow>
     now \<le> event_time e \<and> event_time e < now + open_seg_ttl_ms \<and> paced (event_time e) es end_at"

text \<open>The specification: the time spent in a value while online, from the history alone.\<close>

definition shows_value :: "snapshot option \<Rightarrow> seg_axis \<Rightarrow> seg_value \<Rightarrow> bool" where
  "shows_value cur a v \<longleftrightarrow>
     (case cur of Some s \<Rightarrow> sn_presence s \<noteq> POffline \<and> axis_value s a = v | None \<Rightarrow> False)"

fun time_in :: "seg_axis \<Rightarrow> seg_value \<Rightarrow> snapshot option \<Rightarrow> int \<Rightarrow> seg_event list \<Rightarrow> int \<Rightarrow> int" where
  "time_in a v cur now [] end_at = (if shows_value cur a v then end_at - now else 0)"
| "time_in a v cur now (e # es) end_at =
     (if shows_value cur a v then event_time e - now else 0)
     + time_in a v (case e of Changed s _ _ \<Rightarrow> Some s | Rolled _ \<Rightarrow> cur) (event_time e) es end_at"

definition counts :: "seg_axis \<Rightarrow> seg_value \<Rightarrow> closed_segment \<Rightarrow> bool" where
  "counts a v c \<longleftrightarrow> cl_axis c = a \<and> cl_value c = v"

definition total_of :: "seg_axis \<Rightarrow> seg_value \<Rightarrow> closed_segment list \<Rightarrow> int" where
  "total_of a v cs = sum_list (map cl_duration (filter (counts a v) cs))"

definition reported :: "seg_axis \<Rightarrow> seg_value \<Rightarrow> seg_world \<Rightarrow> int" where
  "reported a v w = total_of a v (concat (map sj_segments (sg_jobs w)))"

definition ongoing :: "seg_axis \<Rightarrow> seg_value \<Rightarrow> open_map \<Rightarrow> int \<Rightarrow> int" where
  "ongoing a v m now = (case m a of Some c \<Rightarrow> if os_value c = v then now - os_start c else 0 | None \<Rightarrow> 0)"

text \<open>The open segments are those of the present state, begun no later than now.\<close>

definition mirrors :: "open_map \<Rightarrow> snapshot option \<Rightarrow> int \<Rightarrow> bool" where
  "mirrors m cur now \<longleftrightarrow>
     (case cur of
        Some s \<Rightarrow> if sn_presence s = POffline then m = Map.empty
          else (\<forall>a. \<exists>c. m a = Some c \<and> os_value c = axis_value s a \<and> os_start c \<le> now)
      | None \<Rightarrow> m = Map.empty)"

definition healthy_env :: seg_env where "healthy_env = \<lparr>se_redis_up = True, se_queue_up = True\<rparr>"

lemma all_axes: "(\<forall>a. P a) \<longleftrightarrow> P SegPresence \<and> P SegRouting \<and> P SegWork"
  by (metis seg_axis.exhaust)

lemma no_segment_open_iff: "no_segment_open m \<longleftrightarrow> m = Map.empty"
  by (auto simp: no_segment_open_def seg_axes_def fun_eq_iff all_axes)

lemma total_of_simps [simp]:
  "total_of a v [] = 0" "total_of a v (xs @ ys) = total_of a v xs + total_of a v ys"
  "total_of a v (c # cs) = (if counts a v c then cl_duration c else 0) + total_of a v cs"
  by (simp_all add: total_of_def)

lemma read_write:
  "now < earlier + open_seg_ttl_ms \<Longrightarrow> read_open now t u (write_open earlier t u m w) = m"
  by (auto simp: read_open_def write_open_def no_segment_open_iff split: option.splits)

lemma read_open_stays_empty:
  "read_open now t u w = Map.empty \<Longrightarrow> now \<le> later \<Longrightarrow> read_open later t u w = Map.empty"
  by (auto simp: read_open_def split: option.splits if_splits)

lemma enqueue_open [simp]: "sg_open (enqueue_segments t u trg cs pre tm w) = sg_open w"
  by (simp add: enqueue_segments_def)

lemma read_enqueue [simp]: "read_open now t u (enqueue_segments t' u' trg cs pre tm w) = read_open now t u w"
  by (simp add: read_open_def)

lemma reported_enqueue [simp]:
  "reported a v (enqueue_segments t u trg cs pre tm w) = reported a v w + total_of a v cs"
  by (simp add: reported_def enqueue_segments_def)

lemma reported_write [simp]: "reported a v (write_open now t u m w) = reported a v w"
  by (simp add: reported_def write_open_def)

lemma close_all_total:
  "mirrors m cur now \<Longrightarrow> now \<le> tm \<Longrightarrow>
     total_of a v (close_all m tm) = ongoing a v m tm"
  by (cases a)
    (auto simp: close_all_def seg_axes_def ongoing_def mirrors_def all_axes close_segment_def counts_def
      split: option.splits if_splits)

lemma ongoing_mirrors:
  "mirrors m cur now \<Longrightarrow> now \<le> tm \<Longrightarrow>
     ongoing a v m tm = ongoing a v m now + (if shows_value cur a v then tm - now else 0)"
  by (cases a)
    (auto simp: ongoing_def mirrors_def shows_value_def all_axes split: option.splits if_splits)

lemma diff_accounts:
  assumes "mirrors m cur now" "now \<le> tm" "diff_segments m s tm = (cs, m')"
  shows "mirrors m' (Some s) tm" "total_of a v cs + ongoing a v m' tm = ongoing a v m tm"
proof -
  show "mirrors m' (Some s) tm"
    using assms
    by (auto simp: mirrors_def diff_segments_def seg_axes_def all_axes Let_def split: option.splits if_splits)
  show "total_of a v cs + ongoing a v m' tm = ongoing a v m tm"
  proof (cases "sn_presence s = POffline")
    case True
    with assms close_all_total[OF assms(1,2), of a v] show ?thesis
      by (auto simp: diff_segments_def ongoing_def)
  next
    case False
    with assms show ?thesis
      by (cases a)
        (auto simp: mirrors_def diff_segments_def seg_axes_def all_axes Let_def ongoing_def close_segment_def
          counts_def split: option.splits if_splits)
  qed
qed

lemma rollover_accounts:
  assumes "mirrors m cur now" "now \<le> tm" "rollover_segments m tm = (cs, m')"
  shows "mirrors m' cur tm" "total_of a v cs + ongoing a v m' tm = ongoing a v m tm"
proof -
  have m': "m' = (\<lambda>a. map_option (\<lambda>c. \<lparr>os_value = os_value c, os_start = tm\<rparr>) (m a))"
    using assms(3) by (auto simp: rollover_segments_def seg_axes_def fun_eq_iff all_axes split: option.splits)
  show "mirrors m' cur tm"
    using assms(1) by (fastforce simp: m' mirrors_def split: option.splits if_splits)
  show "total_of a v cs + ongoing a v m' tm = ongoing a v m tm"
    using assms close_all_total[OF assms(1,2), of a v]
    by (auto simp: rollover_segments_def m' ongoing_def split: option.splits)
qed

definition state_after :: "snapshot option \<Rightarrow> seg_event \<Rightarrow> snapshot option" where
  "state_after cur e = (case e of Changed s _ _ \<Rightarrow> Some s | Rolled _ \<Rightarrow> cur)"

lemma mirrors_empty: "mirrors Map.empty cur now \<longleftrightarrow> (\<forall>s. cur = Some s \<longrightarrow> sn_presence s = POffline)"
  by (cases cur) (auto simp: mirrors_def)

lemma step_accounts:
  assumes "mirrors (read_open now t u w) cur now" "now \<le> event_time e" "event_time e < now + open_seg_ttl_ms"
    and same: "read_open (event_time e) t u w = read_open now t u w"
    and "event_time e \<le> later" "later < event_time e + open_seg_ttl_ms"
  defines "w' \<equiv> seg_step healthy_env t u e w"
  shows "mirrors (read_open later t u w') (state_after cur e) (event_time e)"
    and "reported a v w' + ongoing a v (read_open later t u w') (event_time e) =
      reported a v w + ongoing a v (read_open now t u w) now
      + (if shows_value cur a v then event_time e - now else 0)"
proof -
  let ?m = "read_open now t u w" and ?tm = "event_time e"
  have og: "ongoing a v ?m ?tm = ongoing a v ?m now + (if shows_value cur a v then ?tm - now else 0)"
    by (rule ongoing_mirrors[OF assms(1,2)])
  have "mirrors (read_open later t u w') (state_after cur e) ?tm \<and>
    reported a v w' + ongoing a v (read_open later t u w') ?tm = reported a v w + ongoing a v ?m ?tm"
  proof (cases e)
    case (Changed s trg tm)
    obtain cs m' where d: "diff_segments ?m s tm = (cs, m')" by fastforce
    have "w' = enqueue_segments t u (Some trg) cs ''seg'' tm (write_open tm t u m' w)"
      using d same Changed by (simp add: w'_def healthy_env_def record_state_change_def Let_def)
    then show ?thesis
      using diff_accounts(1)[OF assms(1) _ d] diff_accounts(2)[OF assms(1) _ d, of a v] assms(2,6) Changed
      by (simp add: read_write state_after_def)
  next
    case (Rolled tm)
    show ?thesis
    proof (cases "no_segment_open ?m")
      case True
      then have "w' = w" using same Rolled by (simp add: w'_def rollover_agent_def healthy_env_def Let_def)
      moreover have "?m = Map.empty" using True by (simp add: no_segment_open_iff)
      moreover have "read_open later t u w = Map.empty"
        using \<open>?m = Map.empty\<close> same assms(5) Rolled
        by (auto simp: read_open_def split: option.splits if_splits)
      ultimately show ?thesis using assms(1) Rolled
        by (simp add: state_after_def ongoing_def mirrors_empty)
    next
      case False
      obtain cs m' where d: "rollover_segments ?m tm = (cs, m')" by fastforce
      have "w' = enqueue_segments t u (Some SystemDayRollover) cs ''roll'' tm (write_open tm t u m' w)"
        using d same Rolled False by (simp add: w'_def healthy_env_def rollover_agent_def Let_def)
      then show ?thesis
        using rollover_accounts(1)[OF assms(1) _ d] rollover_accounts(2)[OF assms(1) _ d, of a v] assms(2,6) Rolled
        by (simp add: read_write state_after_def)
    qed
  qed
  with og show "mirrors (read_open later t u w') (state_after cur e) ?tm"
    "reported a v w' + ongoing a v (read_open later t u w') ?tm =
      reported a v w + ongoing a v ?m now + (if shows_value cur a v then ?tm - now else 0)" by auto
qed

lemma paced_le: "paced now es end_at \<Longrightarrow> now \<le> end_at"
  by (induction now es end_at rule: paced.induct) auto

text \<open>A time at which the key written at \<open>now\<close> still lives: the next event, or the end.\<close>

fun next_time :: "seg_event list \<Rightarrow> int \<Rightarrow> int" where
  "next_time [] end_at = end_at"
| "next_time (e # es) end_at = event_time e"

lemma run_accounts:
  assumes "paced now es end_at" "mirrors (read_open now t u w) cur now"
    and "read_open (next_time es end_at) t u w = read_open now t u w"
  shows "reported a v (seg_run healthy_env t u es w)
      + ongoing a v (read_open end_at t u (seg_run healthy_env t u es w)) end_at
    = reported a v w + ongoing a v (read_open now t u w) now + time_in a v cur now es end_at"
  using assms
proof (induction es arbitrary: now w cur)
  case Nil
  from Nil ongoing_mirrors[of "read_open now t u w" cur now end_at a v] show ?case
    by (simp add: seg_run_def)
next
  case (Cons e es)
  let ?w = "seg_step healthy_env t u e w" and ?n = "next_time es end_at"
  have p: "now \<le> event_time e" "event_time e < now + open_seg_ttl_ms" "paced (event_time e) es end_at"
    using Cons.prems(1) by simp_all
  have n: "event_time e \<le> ?n" "?n < event_time e + open_seg_ttl_ms"
    using p(3) by (cases es; simp)+
  have z: "event_time e < event_time e + open_seg_ttl_ms" by (simp add: open_seg_ttl_ms_def)
  have same: "read_open (event_time e) t u w = read_open now t u w" using Cons.prems(3) by simp
  note st = step_accounts[OF Cons.prems(2) p(1,2) same]
  have keep: "read_open ?n t u ?w = read_open (event_time e) t u ?w"
  proof (cases e)
    case (Changed s trg tm)
    then show ?thesis using n z
      by (simp add: healthy_env_def record_state_change_def Let_def read_write split: prod.split)
  next
    case (Rolled tm)
    show ?thesis
    proof (cases "no_segment_open (read_open tm t u w)")
      case True
      then have "read_open tm t u w = Map.empty" by (simp add: no_segment_open_iff)
      with read_open_stays_empty[OF this, of ?n] n(1) Rolled True show ?thesis
        by (simp add: rollover_agent_def healthy_env_def Let_def)
    next
      case False
      then show ?thesis using n z Rolled
        by (simp add: healthy_env_def rollover_agent_def Let_def read_write split: prod.split)
    qed
  qed
  have "time_in a v cur now (e # es) end_at = (if shows_value cur a v then event_time e - now else 0)
      + time_in a v (state_after cur e) (event_time e) es end_at"
    by (simp add: state_after_def)
  moreover have "seg_run healthy_env t u (e # es) w = seg_run healthy_env t u es ?w" by (simp add: seg_run_def)
  ultimately show ?case
    using Cons.IH[OF p(3) st(1)[OF order_refl z, unfolded] keep] st(2)[OF order_refl z, of a v]
    by simp
qed

text \<open>The reporting timeline loses and invents no time: starting with nothing open, the
  durations of the queued segments of a value, plus what its open segment has accumulated, are
  exactly the time the agent spent online in that value, for every axis, any history of state
  changes and day rollovers (events in order, within the life of the key, stores answering).\<close>

theorem segments_account_for_time:
  assumes "paced start es end_at" and "sg_open w t u = None"
  shows "reported a v (seg_run healthy_env t u es w)
      + ongoing a v (read_open end_at t u (seg_run healthy_env t u es w)) end_at
    = reported a v w + time_in a v None start es end_at"
proof -
  have e: "read_open tm t u w = Map.empty" for tm using assms(2) by (simp add: read_open_def)
  have "mirrors (read_open start t u w) None start" by (simp add: e mirrors_def)
  from run_accounts[OF assms(1) this, of a v] show ?thesis by (simp add: e ongoing_def)
qed

definition demo_snap :: "presence_status \<Rightarrow> routing_status \<Rightarrow> snapshot" where
  "demo_snap p r = \<lparr>sn_presence = p, sn_routing = r, sn_work = WIdle\<rparr>"

definition no_segments :: seg_world where
  "no_segments = \<lparr>sg_open = (\<lambda>_ _. None), sg_jobs = []\<rparr>"

definition demo_history :: "seg_event list" where
  "demo_history = [Changed (demo_snap PAvailable NotAccepting) SystemLogin 1000,
     Changed (demo_snap PAvailable Accepting) AgentManual 3000, Rolled 6000,
     Changed (demo_snap PBreak NotAccepting) AgentManual 8000,
     Changed (demo_snap POffline NotAccepting) SystemGraceExpired 9000]"

theorem segments_account_for_time_witness:
  "reported SegPresence (PresenceValue PAvailable) (seg_run healthy_env ''t'' ''u1'' demo_history no_segments)
    + ongoing SegPresence (PresenceValue PAvailable)
        (read_open 9500 ''t'' ''u1'' (seg_run healthy_env ''t'' ''u1'' demo_history no_segments)) 9500 = 7000"
proof -
  have p: "paced 0 demo_history 9500" by (simp add: demo_history_def open_seg_ttl_ms_def)
  have n: "sg_open no_segments ''t'' ''u1'' = None" by (simp add: no_segments_def)
  have r: "reported SegPresence (PresenceValue PAvailable) no_segments = 0"
    by (simp add: reported_def no_segments_def)
  have "time_in SegPresence (PresenceValue PAvailable) None 0 demo_history 9500 = 7000"
    by (simp add: demo_history_def shows_value_def demo_snap_def)
  with segments_account_for_time[OF p n, of SegPresence "PresenceValue PAvailable"] r show ?thesis by simp
qed

text \<open>
  Two changes in the same millisecond get the same job id, and the second job holds a segment of
  positive length: a queue that ignores a known id loses it.
\<close>

lemma same_instant_jobs_collide:
  "map (\<lambda>j. (job_id j, map cl_duration (sj_segments j)))
     (sg_jobs (seg_run healthy_env ''t'' ''u1''
       [Changed (demo_snap PAvailable Accepting) SystemLogin 1000,
        Changed (demo_snap PAway Accepting) AgentManual 3000,
        Changed (demo_snap PAway NotAccepting) AgentManual 3000] no_segments))
   = [((''seg'', ''t'', ''u1'', 3000), [2000]), ((''seg'', ''t'', ''u1'', 3000), [2000])]"
  by code_simp

text \<open>
  A rollover that runs after a change of the new day backdates the open segment to midnight: the
  two seconds from 10000 to 12000 are reported as available and as break.
\<close>

lemma late_rollover_backdates:
  "let w = record_state_change healthy_env 15000 ''t'' ''u1'' (demo_snap POffline NotAccepting) None 15000
       (snd (rollover_agent healthy_env 13000 ''t'' ''u1'' 10000
         (record_state_change healthy_env 12000 ''t'' ''u1'' (demo_snap PBreak NotAccepting) None 12000
           (record_state_change healthy_env 8000 ''t'' ''u1'' (demo_snap PAvailable NotAccepting) None 8000 no_segments))))
   in reported SegPresence (PresenceValue PAvailable) w = 4000
      \<and> reported SegPresence (PresenceValue PBreak) w = 5000"
  by code_simp

section \<open>Facts of the work label\<close>

text \<open>The open types of a record, as the flags of the canonical model.\<close>

definition flags_of :: "work_record \<Rightarrow> int \<Rightarrow> open_interactions" where
  "flags_of r now =
     \<lparr>oi_call = has_type (wk_open r) ICall, oi_chat = has_type (wk_open r) IChat,
      oi_ticket = has_type (wk_open r) ITicket, oi_email = has_type (wk_open r) IEmail,
      oi_wrap_up = (case wk_wrap_up_until r of Some e \<Rightarrow> now < e | None \<Rightarrow> False)\<rparr>"

text \<open>The two derivations of the work label agree: the if-chain over the Redis record of open
  interactions gives the label of the priority table of the canonical model.\<close>

theorem work_label_agrees: "compute_work_status r now = derive_work_status (flags_of r now)"
  by (simp add: compute_work_status_def derive_work_status_def work_status_priority_def flags_of_def)

end
