(* ===== verification/Presence_Gateway.thy ===== *)
theory Presence_Gateway
  imports Presence_Segments
begin

text \<open>
  The socket gateway of the agents (\<open>src/src/omni-inbound/services/agent-presence.gateway.ts\<close>)
  over the presence service, with the state-change callback that
  \<open>presence-segment.service.ts\<close> registers, and the midnight rollover
  (\<open>cron/presence-rollover.cron.ts\<close>). Grace timers are the times at which they fire. The
  reconciliation that a connect starts without waiting for it is a step of its own
  (theory \<open>Work_Distribution\<close>).
\<close>

section \<open>State\<close>

record wire =
  wr_user :: string
  wr_status :: legacy_intent
  wr_intent :: legacy_intent
  wr_connection :: connection_status
  wr_full :: bool \<comment> \<open>legacy \<open>routingStatus\<close>: full or accept\<close>
  wr_active :: int
  wr_units :: "rat option"
  wr_max :: rat
  wr_presence :: presence_status
  wr_control :: routing_status
  wr_work :: work_status
  wr_capacity :: capacity_status

datatype room = TenantRoom string | SocketRoom string

datatype server_event = StatusChanged wire | StatusSync wire

record gateway =
  gw_store :: pstore
  gw_segs :: seg_world
  gw_timers :: "string \<Rightarrow> string \<Rightarrow> int option"
  gw_sent :: "(room \<times> server_event) list"

record presence_cfg =
  pc_grace_seconds :: "int option" \<comment> \<open>\<open>None\<close> when it is not a number\<close>
  pc_restore :: "bool option"

record gw_env =
  ge_segs :: seg_env
  ge_auto_available :: "string \<Rightarrow> (string, bool option) result" \<comment> \<open>setting \<open>omni_routing\<close>\<close>
  ge_presence :: "string \<Rightarrow> (string, presence_cfg option) result" \<comment> \<open>setting \<open>omni_presence\<close>\<close>

record socket_client =
  sc_user :: bool \<comment> \<open>\<open>client.data.user\<close> is set\<close>
  sc_tenant :: "string option"
  sc_user_id :: "string option"

definition grace_period_ms :: int where "grace_period_ms = 2 * 60 * 1000"

section \<open>Helpers\<close>

definition ctx_of :: "socket_client \<Rightarrow> (string \<times> string) option" where
  "ctx_of c =
     (if \<not> sc_user c then None
      else case (truthy_id (sc_tenant c), truthy_id (sc_user_id c)) of
        (Some t, Some u) \<Rightarrow> Some (t, u) | _ \<Rightarrow> None)"

definition to_wire :: "string \<Rightarrow> presence \<Rightarrow> wire" where
  "to_wire u p =
     \<lparr>wr_user = u, wr_status = ap_display p,
      wr_intent = to_legacy_intent (ap_presence p) (ap_routing p),
      wr_connection = ap_connection p, wr_full = (ap_capacity p = CapFull),
      wr_active = ap_active p, wr_units = ap_units p, wr_max = ap_max p,
      wr_presence = ap_presence p, wr_control = ap_routing p, wr_work = ap_work p,
      wr_capacity = ap_capacity p\<rparr>"

definition broadcast_status :: "string \<Rightarrow> string \<Rightarrow> presence \<Rightarrow> gateway \<Rightarrow> gateway" where
  "broadcast_status t u p g =
     g\<lparr>gw_sent := gw_sent g @ [(TenantRoom t, StatusChanged (to_wire u p))]\<rparr>"

definition auto_available_on_connect :: "gw_env \<Rightarrow> string \<Rightarrow> bool" where
  "auto_available_on_connect env t =
     (case ge_auto_available env t of Inl e \<Rightarrow> False | Inr b \<Rightarrow> default_to False b)"

definition restore_accepting_on_return :: "gw_env \<Rightarrow> string \<Rightarrow> bool" where
  "restore_accepting_on_return env t =
     (case ge_presence env t of
        Inl e \<Rightarrow> False
      | Inr None \<Rightarrow> False
      | Inr (Some c) \<Rightarrow> default_to False (pc_restore c))"

text \<open>The state-change callback that the segment service registers.\<close>

definition deliver_event :: "seg_env \<Rightarrow> int \<Rightarrow> presence_event \<Rightarrow> seg_world \<Rightarrow> seg_world" where
  "deliver_event env now e w =
     (case e of
        StateChange t u before after trg tm \<Rightarrow> record_state_change env now t u after (Some trg) tm w
      | StatusTransition t u from to trg \<Rightarrow> w)"

text \<open>An operation of the service, with the callbacks it makes.\<close>

definition with_callbacks :: "gw_env \<Rightarrow> int \<Rightarrow> (pstore \<Rightarrow> 'a \<times> pstore) \<Rightarrow> gateway \<Rightarrow> 'a \<times> gateway" where
  "with_callbacks env now f g =
     (case f (gw_store g) of (r, ps) \<Rightarrow>
        (r, g\<lparr>gw_store := ps,
              gw_segs := fold (deliver_event (ge_segs env) now)
                (drop (length (ps_events (gw_store g))) (ps_events ps)) (gw_segs g)\<rparr>))"

section \<open>Client events\<close>

definition handle_status_update ::
  "gw_env \<Rightarrow> int \<Rightarrow> socket_client \<Rightarrow> legacy_intent \<Rightarrow> int option \<Rightarrow> gateway \<Rightarrow> wire option \<times> gateway" where
  "handle_status_update env now c status client_ts g =
     (case ctx_of c of
        None \<Rightarrow> (None, g)
      | Some (t, u) \<Rightarrow>
          (case with_callbacks env now (update_intent_status now t u status AgentManual client_ts) g of
             (p, g1) \<Rightarrow> (Some (to_wire u p), broadcast_status t u p g1)))"

definition handle_presence_update ::
  "gw_env \<Rightarrow> int \<Rightarrow> socket_client \<Rightarrow> presence_status \<Rightarrow> int option \<Rightarrow> gateway \<Rightarrow> wire option \<times> gateway" where
  "handle_presence_update env now c to client_ts g =
     (case ctx_of c of
        None \<Rightarrow> (None, g)
      | Some (t, u) \<Rightarrow>
          (case with_callbacks env now
                  (apply_presence now t u to AgentManual (Some Agent) client_ts
                     (restore_accepting_on_return env t) None) g of
             (p, g1) \<Rightarrow> (Some (to_wire u p), broadcast_status t u p g1)))"

definition handle_routing_update ::
  "gw_env \<Rightarrow> int \<Rightarrow> socket_client \<Rightarrow> routing_status \<Rightarrow> int option \<Rightarrow> gateway \<Rightarrow> wire option \<times> gateway" where
  "handle_routing_update env now c routing client_ts g =
     (case ctx_of c of
        None \<Rightarrow> (None, g)
      | Some (t, u) \<Rightarrow>
          (case with_callbacks env now (set_routing_control now t u routing AgentManual client_ts) g of
             (Some p, g1) \<Rightarrow> (Some (to_wire u p), broadcast_status t u p g1)
           | (None, g1) \<Rightarrow> (None, g1)))"

definition handle_heartbeat :: "int \<Rightarrow> socket_client \<Rightarrow> gateway \<Rightarrow> gateway" where
  "handle_heartbeat now c g =
     (case ctx_of c of
        None \<Rightarrow> g
      | Some (t, u) \<Rightarrow> g\<lparr>gw_store := heartbeat now t u (gw_store g)\<rparr>)"

definition handle_list_agents ::
  "int \<Rightarrow> (string \<Rightarrow> string list) \<Rightarrow> socket_client \<Rightarrow> gateway \<Rightarrow> wire list option \<times> gateway" where
  "handle_list_agents now members c g =
     (case ctx_of c of
        None \<Rightarrow> (None, g)
      | Some (t, u) \<Rightarrow>
          (case get_all_agents now t (members t) (gw_store g) of (agents, ps) \<Rightarrow>
             (Some (map (\<lambda>a. to_wire (ap_user a) a) agents), g\<lparr>gw_store := ps\<rparr>)))"

section \<open>Grace period\<close>

definition cancel_grace_timer :: "string \<Rightarrow> string \<Rightarrow> gateway \<Rightarrow> gateway" where
  "cancel_grace_timer t u g = g\<lparr>gw_timers := (gw_timers g)(t := (gw_timers g t)(u := None))\<rparr>"

definition grace_ms :: "gw_env \<Rightarrow> string \<Rightarrow> int" where
  "grace_ms env t =
     (case ge_presence env t of
        Inr (Some c) \<Rightarrow>
          (case pc_grace_seconds c of
             Some s \<Rightarrow> if s > 0 then s * 1000 else grace_period_ms
           | None \<Rightarrow> grace_period_ms)
      | _ \<Rightarrow> grace_period_ms)"

definition start_grace_timer :: "gw_env \<Rightarrow> int \<Rightarrow> string \<Rightarrow> string \<Rightarrow> gateway \<Rightarrow> gateway" where
  "start_grace_timer env now t u g =
     (let g1 = cancel_grace_timer t u g
      in g1\<lparr>gw_timers := (gw_timers g1)(t := (gw_timers g1 t)(u := Some (now + grace_ms env t)))\<rparr>)"

definition handle_grace_expired :: "gw_env \<Rightarrow> int \<Rightarrow> string \<Rightarrow> string \<Rightarrow> gateway \<Rightarrow> gateway" where
  "handle_grace_expired env now t u g =
     (case with_callbacks env now (grace_period_expired now t u) g of
        (Some p, g1) \<Rightarrow> broadcast_status t u p g1
      | (None, g1) \<Rightarrow> g1)"

text \<open>The timer of an agent, when it is due: it forgets itself, then runs its handler.\<close>

definition fire_grace_timer :: "gw_env \<Rightarrow> int \<Rightarrow> string \<Rightarrow> string \<Rightarrow> gateway \<Rightarrow> gateway" where
  "fire_grace_timer env now t u g =
     (case gw_timers g t u of
        Some due \<Rightarrow> if due \<le> now then handle_grace_expired env now t u (cancel_grace_timer t u g) else g
      | None \<Rightarrow> g)"

section \<open>Connections\<close>

definition on_agent_connected ::
  "gw_env \<Rightarrow> int \<Rightarrow> string \<Rightarrow> string \<Rightarrow> string \<Rightarrow> string list option \<Rightarrow> rat option \<Rightarrow> gateway \<Rightarrow> gateway" where
  "on_agent_connected env now t u socket skills mx g =
     (let g0 = cancel_grace_timer t u g in
      case with_callbacks env now
             (add_connection now t u socket (auto_available_on_connect env t) skills mx) g0 of
        ((p, fresh), g1) \<Rightarrow>
          let g2 = broadcast_status t u p g1
          in g2\<lparr>gw_sent := gw_sent g2 @ [(SocketRoom socket, StatusSync (to_wire u p))]\<rparr>)"

definition on_agent_disconnected ::
  "gw_env \<Rightarrow> int \<Rightarrow> string \<Rightarrow> string \<Rightarrow> string \<Rightarrow> gateway \<Rightarrow> bool \<times> gateway" where
  "on_agent_disconnected env now t u socket g =
     (case with_callbacks env now (remove_connection now t u socket) g of
        ((None, gone), g1) \<Rightarrow> (True, g1)
      | ((Some p, gone), g1) \<Rightarrow>
          if gone then (True, start_grace_timer env now t u (broadcast_status t u p g1))
          else (False, g1))"

section \<open>Midnight rollover\<close>

text \<open>One agent: cut the segments, then reset routing; a cut that throws ends the agent's task.\<close>

definition rollover_one :: "gw_env \<Rightarrow> int \<Rightarrow> int \<Rightarrow> string \<Rightarrow> string \<Rightarrow> gateway \<Rightarrow> gateway" where
  "rollover_one env now boundary t u g =
     (case rollover_agent (ge_segs env) now t u boundary (gw_segs g) of
        (Inl e, sw) \<Rightarrow> g\<lparr>gw_segs := sw\<rparr>
      | (Inr _, sw) \<Rightarrow> snd (with_callbacks env now (apply_day_rollover now t u) (g\<lparr>gw_segs := sw\<rparr>)))"

definition day_ms :: int where "day_ms = 24 * 60 * 60 * 1000"

definition day_boundary :: "int \<Rightarrow> int" where
  "day_boundary now = now - now mod day_ms"

text \<open>
  The tenants and their agents one after another: the code handles batches of ten agents
  concurrently, whose steps touch different agents.
\<close>

definition rollover_run ::
  "gw_env \<Rightarrow> int \<Rightarrow> string list \<Rightarrow> (string \<Rightarrow> string list) \<Rightarrow> gateway \<Rightarrow> gateway" where
  "rollover_run env now tenants members g =
     fold (\<lambda>t g. case get_all_agents now t (members t) (gw_store g) of (agents, ps) \<Rightarrow>
         fold (\<lambda>a g. rollover_one env now (day_boundary now) t (ap_user a) g) agents (g\<lparr>gw_store := ps\<rparr>))
       tenants g"

end
