(* ===== verification/Presence_Gateway_Safety.thy ===== *)
theory Presence_Gateway_Safety
  imports Presence_Gateway
begin

text \<open>
  What the grace period does: an expiry within the life of the presence record forces the agent
  offline; a longer one (the default) finds no record and does nothing. A reconnect within that
  life keeps the agent's state.
\<close>

section \<open>A stored record read back\<close>

lemma get_presence_stored:
  assumes "ps_hash w t u = Some p" "is_fresh now p" "ap_units p = Some n"
  shows "get_presence now t u w = (Some p, w)"
  using assms by (simp add: get_presence_def parse_presence_def is_fresh_def units_of_def)

text \<open>No record of the agent is fresh any more.\<close>

definition stale :: "int \<Rightarrow> string \<Rightarrow> string \<Rightarrow> pstore \<Rightarrow> bool" where
  "stale now t u w \<longleftrightarrow> (\<forall>p. ps_hash w t u = Some p \<longrightarrow> \<not> is_fresh now p)
     \<and> (\<forall>q ex. ps_key w t u = Some (q, ex) \<longrightarrow> \<not> is_fresh now q)"

lemma stale_later: "stale now t u w \<Longrightarrow> now \<le> later \<Longrightarrow> stale later t u w"
  by (force simp: stale_def is_fresh_def)

lemma get_presence_stale:
  assumes "stale now t u w" "get_presence now t u w = (r, w')"
  shows "r = None" "ps_events w' = ps_events w" "stale now t u w'"
  using assms
  by (auto simp: stale_def get_presence_def parse_presence_def is_fresh_def set_hash_def set_zload_def
      set_key_def Let_def split: option.splits prod.splits if_splits)

lemma persist_stores:
  assumes "persist now p w = (p', w')"
  shows "p' = derive_fields p" "ps_hash w' (ap_tenant p) (ap_user p) = Some p'"
    "ps_key w' (ap_tenant p) (ap_user p) = Some (p', now + heartbeat_ttl_ms)"
    "ps_events w' = ps_events w"
  using assms by (auto simp: persist_def Let_def set_hash_def set_key_def set_zload_def)

text \<open>The record an agent has when the last socket has closed.\<close>

definition disconnected_at :: "int \<Rightarrow> string \<Rightarrow> string \<Rightarrow> pstore \<Rightarrow> presence \<Rightarrow> bool" where
  "disconnected_at now t u w p \<longleftrightarrow>
     ps_hash w t u = Some p \<and> (\<exists>ex. ps_key w t u = Some (p, ex)) \<and> ap_heartbeat p = now
     \<and> ap_connection p = Disconnected \<and> ap_tenant p = t \<and> ap_user p = u \<and> ap_units p \<noteq> None"

lemma get_presence_units: "get_presence now t u w = (Some p, w1) \<Longrightarrow> ap_units p \<noteq> None"
  by (auto simp: get_presence_def parse_presence_def persist_def derive_fields_def Let_def
      split: option.splits prod.splits if_splits)

lemma last_disconnect:
  assumes "get_presence now t u w = (Some ex, w1)" "ap_tenant ex = t" "ap_user ex = u"
    and "set (ap_connections ex) \<subseteq> {socket}"
  obtains p w2 where "remove_connection now t u socket w = ((Some p, True), w2)"
    "disconnected_at now t u w2 p" "ap_presence p = ap_presence ex" "ap_routing p = ap_routing ex"
    "ps_events w2 = ps_events w1"
proof -
  let ?q = "ex\<lparr>ap_connections := [], ap_connection := Disconnected, ap_disconnected_at := Some now,
      ap_heartbeat := now\<rparr>"
  have none: "filter (\<lambda>i. i \<noteq> socket) (ap_connections ex) = []" using assms(4) by (auto simp: filter_empty_conv)
  obtain p w2 where st: "persist now ?q w1 = (p, w2)" by fastforce
  note ps = persist_stores[OF st]
  have a: "remove_connection now t u socket w = ((Some p, True), w2)"
    using assms(1) none st by (simp add: remove_connection_def)
  have b: "disconnected_at now t u w2 p"
    using ps assms(2,3) get_presence_units[OF assms(1)] by (simp add: disconnected_at_def derive_fields_def)
  have c: "ap_presence p = ap_presence ex" "ap_routing p = ap_routing ex"
    by (simp_all add: ps(1) derive_fields_def)
  show ?thesis by (rule that[OF a b c ps(4)])
qed

lemma disconnect_starts_timer:
  assumes "get_presence now t u (gw_store g) = (Some ex, w1)" "ap_tenant ex = t" "ap_user ex = u"
    and "set (ap_connections ex) \<subseteq> {socket}" "on_agent_disconnected env now t u socket g = (b, g1)"
  obtains p where "disconnected_at now t u (gw_store g1) p" "gw_timers g1 t u = Some (now + grace_ms env t)"
    "ap_presence p = ap_presence ex" "ap_routing p = ap_routing ex" "b"
proof -
  obtain p w2 where r: "remove_connection now t u socket (gw_store g) = ((Some p, True), w2)"
    "disconnected_at now t u w2 p" "ap_presence p = ap_presence ex" "ap_routing p = ap_routing ex"
    by (rule last_disconnect[OF assms(1-4)])
  with assms(5) show ?thesis
    by (intro that[of p])
      (auto simp: on_agent_disconnected_def with_callbacks_def start_grace_timer_def cancel_grace_timer_def
        broadcast_status_def Let_def)
qed

section \<open>Expiry\<close>

lemma expiry_lost:
  assumes "disconnected_at now t u (gw_store g1) p" "gw_timers g1 t u = Some due" "due \<le> later"
    and "heartbeat_ttl_ms < later - now"
  obtains w2 where "fire_grace_timer env later t u g1 = (cancel_grace_timer t u g1)\<lparr>gw_store := w2\<rparr>"
    "ps_events w2 = ps_events (gw_store g1)" "stale later t u w2"
proof -
  obtain r w2 where gp: "get_presence later t u (gw_store g1) = (r, w2)" by fastforce
  have st: "stale later t u (gw_store g1)"
    using assms(1,4) by (auto simp: stale_def disconnected_at_def is_fresh_def)
  note r = get_presence_stale[OF st gp]
  then have "grace_period_expired later t u (gw_store g1) = (None, w2)"
    using gp by (simp add: grace_period_expired_def)
  then have "fire_grace_timer env later t u g1 = (cancel_grace_timer t u g1)\<lparr>gw_store := w2\<rparr>"
    using assms(2,3) r(2)
    by (simp add: fire_grace_timer_def handle_grace_expired_def with_callbacks_def cancel_grace_timer_def)
  from that[OF this r(2,3)] show ?thesis .
qed

text \<open>A grace period longer than the life of the presence record is lost: when it expires after
  the last socket of an agent has closed (and nothing else touched the record) the handler finds
  no record; no state change is reported, no segment is closed and nothing is broadcast. The
  default grace period of 120 s is longer than that life of 60 s.\<close>

theorem long_grace_period_is_lost:
  assumes "get_presence now t u (gw_store g) = (Some ex, w1)" "ap_tenant ex = t" "ap_user ex = u"
    and "set (ap_connections ex) \<subseteq> {socket}" "on_agent_disconnected env now t u socket g = (b, g1)"
    and "heartbeat_ttl_ms < grace_ms env t" "now + grace_ms env t \<le> later"
  shows "ps_events (gw_store (fire_grace_timer env later t u g1)) = ps_events (gw_store g1)
    \<and> gw_segs (fire_grace_timer env later t u g1) = gw_segs g1
    \<and> gw_sent (fire_grace_timer env later t u g1) = gw_sent g1"
proof -
  obtain p where p: "disconnected_at now t u (gw_store g1) p" "gw_timers g1 t u = Some (now + grace_ms env t)"
    by (rule disconnect_starts_timer[OF assms(1-5)])
  have "heartbeat_ttl_ms < later - now" using assms(6,7) by linarith
  from expiry_lost[OF p assms(7) this, of env] obtain w2 where
    "fire_grace_timer env later t u g1 = (cancel_grace_timer t u g1)\<lparr>gw_store := w2\<rparr>"
    "ps_events w2 = ps_events (gw_store g1)" by blast
  then show ?thesis by (simp add: cancel_grace_timer_def)
qed

text \<open>A grace period within the life of the presence record does what it is for: its expiry
  makes the agent OFFLINE and NOT_ACCEPTING, reports the change with the grace trigger, closes
  the timer and broadcasts the state.\<close>

theorem short_grace_period_forces_offline:
  assumes "get_presence now t u (gw_store g) = (Some ex, w1)" "ap_tenant ex = t" "ap_user ex = u"
    and "set (ap_connections ex) \<subseteq> {socket}" "on_agent_disconnected env now t u socket g = (b, g1)"
    and "now + grace_ms env t \<le> later" "later \<le> now + heartbeat_ttl_ms"
  defines "g2 \<equiv> fire_grace_timer env later t u g1"
  shows "\<exists>p before. ps_hash (gw_store g2) t u = Some p \<and> ap_presence p = POffline \<and> ap_routing p = NotAccepting
    \<and> last (ps_events (gw_store g2)) =
        StateChange t u (Some before) (snapshot_of p) SystemGraceExpired later
    \<and> sn_presence before = ap_presence ex \<and> sn_routing before = ap_routing ex
    \<and> gw_timers g2 t u = None
    \<and> last (gw_sent g2) = (TenantRoom t, StatusChanged (to_wire u p))"
proof -
  obtain p where p: "disconnected_at now t u (gw_store g1) p" "gw_timers g1 t u = Some (now + grace_ms env t)"
    "ap_presence p = ap_presence ex" "ap_routing p = ap_routing ex"
    by (rule disconnect_starts_timer[OF assms(1-5)])
  have gp: "get_presence later t u (gw_store g1) = (Some p, gw_store g1)"
    using p(1) assms(7) by (auto simp: disconnected_at_def is_fresh_def intro: get_presence_stored)
  let ?q = "p\<lparr>ap_presence := POffline, ap_routing := NotAccepting, ap_connection := Disconnected,
      ap_heartbeat := later\<rparr>"
  obtain q w2 where st: "persist later ?q (gw_store g1) = (q, w2)" by fastforce
  note ps = persist_stores[OF st]
  have off: "grace_period_expired later t u (gw_store g1) =
      (Some q, after_mutation q (Some (snapshot_of p)) SystemGraceExpired w2)"
    using gp p(1) st
    by (simp add: grace_period_expired_def disconnected_at_def force_offline_def store_change_def)
  have ids: "ap_tenant q = t" "ap_user q = u" "ap_heartbeat q = later" "ap_presence q = POffline"
    "ap_routing q = NotAccepting"
    using p(1) ps(1) by (simp_all add: disconnected_at_def derive_fields_def)
  have "ps_hash (gw_store g2) t u = Some q"
    "last (ps_events (gw_store g2)) = StateChange t u (Some (snapshot_of p)) (snapshot_of q) SystemGraceExpired later"
    "gw_timers g2 t u = None" "last (gw_sent g2) = (TenantRoom t, StatusChanged (to_wire u q))"
    using p(1,2) off ps ids assms(6)
    by (simp_all add: g2_def fire_grace_timer_def handle_grace_expired_def with_callbacks_def cancel_grace_timer_def
        broadcast_status_def after_mutation_def Let_def disconnected_at_def)
  with ids p(3,4) show ?thesis
    by (intro exI[of _ q] exI[of _ "snapshot_of p"]) (simp add: snapshot_of_def)
qed

section \<open>Reconnect\<close>

text \<open>A reconnect within the life of the presence record restores the agent: presence, routing,
  work label, load and the last command are kept, the agent is CONNECTED on the new socket, the
  grace timer is gone, and the change is reported as a reconnect, not a login.\<close>

theorem reconnect_restores_state:
  fixes sock :: string and skills :: "string list option" and mx :: "rat option"
  assumes "get_presence now t u (gw_store g) = (Some ex, w1)" "ap_tenant ex = t" "ap_user ex = u"
    and "set (ap_connections ex) \<subseteq> {socket}" "on_agent_disconnected env now t u socket g = (b, g1)"
    and "now \<le> later" "later \<le> now + heartbeat_ttl_ms"
    and "ps_hash (gw_store g1) t u = Some p"
  defines "g2 \<equiv> on_agent_connected env later t u sock skills mx g1"
  shows "\<exists>q. ps_hash (gw_store g2) t u = Some q \<and> snapshot_of q = snapshot_of p
    \<and> ap_presence q = ap_presence ex \<and> ap_routing q = ap_routing ex
    \<and> units_of q = units_of p \<and> ap_last_command q = ap_last_command p
    \<and> ap_connection q = Connected \<and> sock \<in> set (ap_connections q)
    \<and> gw_timers g2 t u = None
    \<and> last (ps_events (gw_store g2)) =
        StateChange t u (Some (snapshot_of p)) (snapshot_of p) SystemReconnect later"
proof -
  obtain p' where p': "disconnected_at now t u (gw_store g1) p'" "ap_presence p' = ap_presence ex"
    "ap_routing p' = ap_routing ex"
    by (rule disconnect_starts_timer[OF assms(1-5)])
  with assms(8) have p: "disconnected_at now t u (gw_store g1) p" "ap_presence p = ap_presence ex"
    "ap_routing p = ap_routing ex" by (simp_all add: disconnected_at_def)
  have gp: "get_presence later t u (gw_store g1) = (Some p, gw_store g1)"
    using p(1) assms(7) by (auto simp: disconnected_at_def is_fresh_def intro: get_presence_stored)
  obtain q fresh w2 where ac: "add_connection later t u sock (auto_available_on_connect env t) skills mx
      (gw_store g1) = ((q, fresh), w2)" by (metis surj_pair)
  have q: "ps_hash w2 t u = Some q" "snapshot_of q = snapshot_of p" "units_of q = units_of p"
    "ap_last_command q = ap_last_command p" "ap_connection q = Connected" "sock \<in> set (ap_connections q)"
    "last (ps_events w2) = StateChange t u (Some (snapshot_of p)) (snapshot_of p) SystemReconnect later"
    using ac gp p(1)
    by (auto simp: add_connection_def Let_def store_change_def persist_def derive_fields_def snapshot_of_def
        disconnected_at_def blank_presence_def after_mutation_def units_of_def set_hash_def set_key_def set_zload_def)
  have "gw_store g2 = w2" "gw_timers g2 t u = None"
    using ac by (simp_all add: g2_def on_agent_connected_def with_callbacks_def cancel_grace_timer_def
        broadcast_status_def Let_def)
  with q p(2,3) show ?thesis
    by (intro exI[of _ q]) (auto simp: snapshot_of_def)
qed

section \<open>Absence in the reports\<close>

text \<open>A fresh login, and what it does to an open segment of the presence axis.\<close>

lemma fresh_login:
  assumes "stale now t u (gw_store g)"
  shows "gw_segs (on_agent_connected env now t u sock skills mx g) = record_state_change (ge_segs env) now t u
    \<lparr>sn_presence = PAvailable,
     sn_routing = (if auto_available_on_connect env t then Accepting else NotAccepting), sn_work = WIdle\<rparr>
    (Some SystemLogin) now (gw_segs g)"
proof -
  obtain r w1 where gp: "get_presence now t u (gw_store g) = (r, w1)" by fastforce
  note r = get_presence_stale[OF assms(1) gp]
  obtain q w2 where ac: "add_connection now t u sock (auto_available_on_connect env t) skills mx
      (gw_store g) = ((q, True), w2)" and
    ev: "drop (length (ps_events (gw_store g))) (ps_events w2) =
      [StatusTransition t u POffline PAvailable SystemLogin,
       StateChange t u None \<lparr>sn_presence = PAvailable,
         sn_routing = (if auto_available_on_connect env t then Accepting else NotAccepting), sn_work = WIdle\<rparr>
         SystemLogin now]"
    using gp r
    by (auto simp: add_connection_def Let_def store_change_def persist_def derive_fields_def snapshot_of_def
        blank_presence_def after_mutation_def set_hash_def set_key_def set_zload_def split: prod.splits)
  show ?thesis
    using ac ev
    by (simp add: on_agent_connected_def with_callbacks_def cancel_grace_timer_def broadcast_status_def
        Let_def deliver_event_def)
qed

lemma unchanged_axis_stays_open:
  assumes "read_open now t u w SegPresence = Some c" "os_value c = PresenceValue (sn_presence s)"
    and "sn_presence s \<noteq> POffline" "se_redis_up env"
  shows "read_open now t u (record_state_change env now t u s trg now w) SegPresence = Some c"
proof -
  obtain cs m where d: "diff_segments (read_open now t u w) s now = (cs, m)" by fastforce
  have m: "m SegPresence = Some c"
    using d assms by (auto simp: diff_segments_def seg_axes_def Let_def split: option.splits if_splits)
  have "now < now + open_seg_ttl_ms" by (simp add: open_seg_ttl_ms_def)
  from read_write[OF this, of t u m w] d m assms(4) show ?thesis
    by (simp add: record_state_change_def Let_def)
qed

text \<open>What a lost grace period does to the reports: an agent who was AVAILABLE when the last
  socket closed and logs in again within the life of the open segment (26 h) keeps the segment
  that was open before, so the whole absence is reported as AVAILABLE.\<close>

theorem absence_is_reported_as_available:
  fixes sock :: string and skills :: "string list option" and mx :: "rat option"
  assumes "get_presence now t u (gw_store g) = (Some ex, w1)" "ap_tenant ex = t" "ap_user ex = u"
    and "set (ap_connections ex) \<subseteq> {socket}" "on_agent_disconnected env now t u socket g = (b, g1)"
    and "heartbeat_ttl_ms < grace_ms env t" "now + grace_ms env t \<le> later" "later \<le> back"
    and "read_open back t u (gw_segs g1) SegPresence = Some c" "os_value c = PresenceValue PAvailable"
    and "se_redis_up (ge_segs env)"
  defines "g2 \<equiv> fire_grace_timer env later t u g1"
  shows "read_open back t u (gw_segs (on_agent_connected env back t u sock skills mx g2)) SegPresence = Some c"
proof -
  obtain p where p: "disconnected_at now t u (gw_store g1) p" "gw_timers g1 t u = Some (now + grace_ms env t)"
    by (rule disconnect_starts_timer[OF assms(1-5)])
  have "heartbeat_ttl_ms < later - now" using assms(6,7) by linarith
  from expiry_lost[OF p assms(7) this, of env] obtain w2 where
    g2: "g2 = (cancel_grace_timer t u g1)\<lparr>gw_store := w2\<rparr>" "stale later t u w2"
    unfolding g2_def by blast
  then have st: "stale back t u (gw_store g2)" using stale_later[OF g2(2) assms(8)] by simp
  have "gw_segs g2 = gw_segs g1" using g2(1) by (simp add: cancel_grace_timer_def)
  then show ?thesis
    unfolding fresh_login[OF st]
    using assms(9-11) by (intro unchanged_axis_stays_open) simp_all
qed

section \<open>A concrete gateway\<close>

definition demo_gw_env :: "int \<Rightarrow> gw_env" where
  "demo_gw_env grace = \<lparr>ge_segs = healthy_env, ge_auto_available = (\<lambda>_. Inr None),
     ge_presence = (\<lambda>_. Inr (Some \<lparr>pc_grace_seconds = Some grace, pc_restore = None\<rparr>))\<rparr>"

definition demo_gateway :: gateway where
  "demo_gateway = \<lparr>gw_store = demo_agent_store demo_agent, gw_segs = no_segments, gw_timers = (\<lambda>_ _. None), gw_sent = []\<rparr>"

lemma demo_read: "get_presence 2500 ''t'' ''u1'' (gw_store demo_gateway) = (Some demo_agent, gw_store demo_gateway)"
  by (rule get_presence_stored)
    (simp_all add: demo_gateway_def demo_agent_store_def demo_agent_def is_fresh_def heartbeat_ttl_ms_def)

lemma demo_ids: "ap_tenant demo_agent = ''t''" "ap_user demo_agent = ''u1''"
  "set (ap_connections demo_agent) \<subseteq> {''s1''}" "ap_presence demo_agent = PAvailable"
  by (simp_all add: demo_agent_def)

lemma demo_grace: "grace_ms (demo_gw_env n) t = (if n > 0 then n * 1000 else 120000)"
  by (simp add: grace_ms_def demo_gw_env_def grace_period_ms_def)

lemma demo_segs: "se_redis_up (ge_segs (demo_gw_env n))"
  by (simp add: demo_gw_env_def healthy_env_def)

definition demo_left :: "int \<Rightarrow> bool \<times> gateway" where
  "demo_left grace = on_agent_disconnected (demo_gw_env grace) 2500 ''t'' ''u1'' ''s1'' demo_gateway"

lemma demo_left: "on_agent_disconnected (demo_gw_env n) 2500 ''t'' ''u1'' ''s1'' demo_gateway = (fst (demo_left n), snd (demo_left n))"
  by (simp add: demo_left_def)

theorem long_grace_period_is_lost_witness:
  "gw_sent (fire_grace_timer (demo_gw_env 120) 130000 ''t'' ''u1'' (snd (demo_left 120))) = gw_sent (snd (demo_left 120))"
  using long_grace_period_is_lost[OF demo_read demo_ids(1-3) demo_left, of 120 130000]
  by (simp add: demo_grace heartbeat_ttl_ms_def)

theorem short_grace_period_forces_offline_witness:
  "\<exists>p. ps_hash (gw_store (fire_grace_timer (demo_gw_env 30) 33000 ''t'' ''u1'' (snd (demo_left 30)))) ''t'' ''u1'' = Some p
     \<and> ap_presence p = POffline"
  using short_grace_period_forces_offline[OF demo_read demo_ids(1-3) demo_left, of 30 33000]
  by (auto simp: demo_grace heartbeat_ttl_ms_def)

theorem reconnect_restores_state_witness:
  "\<exists>q. ps_hash (gw_store (on_agent_connected (demo_gw_env 120) 20000 ''t'' ''u1'' ''s2'' None None
       (snd (demo_left 120)))) ''t'' ''u1'' = Some q \<and> ap_presence q = PAvailable \<and> ap_routing q = Accepting"
proof -
  obtain p where p: "disconnected_at 2500 ''t'' ''u1'' (gw_store (snd (demo_left 120))) p"
    by (rule disconnect_starts_timer[OF demo_read demo_ids(1-3) demo_left])
  then have "ps_hash (gw_store (snd (demo_left 120))) ''t'' ''u1'' = Some p" by (simp add: disconnected_at_def)
  from reconnect_restores_state[OF demo_read demo_ids(1-3) demo_left _ _ this, of 20000 "''s2''" None None]
  show ?thesis by (auto simp: heartbeat_ttl_ms_def demo_agent_def)
qed

definition demo_open :: gateway where
  "demo_open = demo_gateway\<lparr>gw_segs := record_state_change healthy_env 2000 ''t'' ''u1'' (snapshot_of demo_agent)
     (Some SystemLogin) 2000 no_segments\<rparr>"

theorem absence_is_reported_as_available_witness:
  "\<exists>c. read_open 36010000 ''t'' ''u1'' (gw_segs (on_agent_connected (demo_gw_env 120) 36010000 ''t'' ''u1'' ''s2'' None None
       (fire_grace_timer (demo_gw_env 120) 122500 ''t'' ''u1''
         (snd (on_agent_disconnected (demo_gw_env 120) 2500 ''t'' ''u1'' ''s1'' demo_open))))) SegPresence = Some c
     \<and> os_value c = PresenceValue PAvailable \<and> os_start c = 2000"
proof -
  let ?d = "on_agent_disconnected (demo_gw_env 120) 2500 ''t'' ''u1'' ''s1'' demo_open"
  let ?c = "\<lparr>os_value = PresenceValue PAvailable, os_start = 2000\<rparr>"
  have rd: "get_presence 2500 ''t'' ''u1'' (gw_store demo_open) = (Some demo_agent, gw_store demo_open)"
    using demo_read by (simp add: demo_open_def)
  have d: "?d = (fst ?d, snd ?d)" by simp
  have same: "gw_segs (snd ?d) = gw_segs demo_open"
    using demo_ids rd
    by (simp add: on_agent_disconnected_def with_callbacks_def remove_connection_def Let_def persist_def
        set_hash_def set_key_def set_zload_def demo_agent_def start_grace_timer_def cancel_grace_timer_def
        broadcast_status_def)
  have ro: "read_open 36010000 ''t'' ''u1'' (gw_segs (snd ?d)) SegPresence = Some ?c"
    unfolding same by code_simp
  from absence_is_reported_as_available[OF rd demo_ids(1-3) d _ _ _ ro, of 122500 "''s2''" None None]
  show ?thesis
    by (simp add: demo_grace heartbeat_ttl_ms_def demo_segs)
qed

end
