(* ===== verification/Work_Label.thy ===== *)
theory Work_Label
  imports Presence_Gateway
begin

text \<open>
  The work label of an agent (\<open>src/src/omni-inbound/services/work-status.service.ts\<close>): the Redis
  record of open interactions, the wrap-up window with its timer, the per-interaction segments,
  and the two conversation events that drive them. The label goes to the presence service, whose
  callbacks are those of theory \<open>Presence_Gateway\<close>.
\<close>

record interaction_segment =
  is_tenant :: string
  is_agent :: string
  is_type :: interaction
  is_ref :: string
  is_start :: int
  is_end :: int
  is_duration :: int

record label_world =
  lw_records :: "string \<Rightarrow> string \<Rightarrow> (work_record \<times> int) option" \<comment> \<open>with the time the key expires\<close>
  lw_timers :: "string \<Rightarrow> string \<Rightarrow> int option"
  lw_segments :: "interaction_segment list"
  lw_gateway :: gateway

record label_env =
  le_gateway :: gw_env
  le_wrap_seconds :: "string \<Rightarrow> (string, int option) result" \<comment> \<open>\<open>None\<close> when it is not a number\<close>
  le_segments_up :: bool \<comment> \<open>the interaction repository answers\<close>
  le_owner :: "string \<Rightarrow> string option" \<comment> \<open>assignee of a conversation\<close>

definition work_ttl_ms :: int where "work_ttl_ms = 26 * 60 * 60 * 1000"

definition default_wrap_up_seconds :: int where "default_wrap_up_seconds = 120"

section \<open>The Redis record\<close>

definition read_work :: "int \<Rightarrow> string \<Rightarrow> string \<Rightarrow> label_world \<Rightarrow> work_record" where
  "read_work now t u w =
     (case lw_records w t u of
        Some (r, ex) \<Rightarrow> if now < ex then r else \<lparr>wk_open = [], wk_wrap_up_until = None\<rparr>
      | None \<Rightarrow> \<lparr>wk_open = [], wk_wrap_up_until = None\<rparr>)"

definition write_work :: "int \<Rightarrow> string \<Rightarrow> string \<Rightarrow> work_record \<Rightarrow> label_world \<Rightarrow> label_world" where
  "write_work now t u r w =
     w\<lparr>lw_records := (lw_records w)(t := (lw_records w t)(u :=
       if is_all_closed r \<and> wk_wrap_up_until r = None then None else Some (r, now + work_ttl_ms)))\<rparr>"

definition clear_wrap_timer :: "string \<Rightarrow> string \<Rightarrow> label_world \<Rightarrow> label_world" where
  "clear_wrap_timer t u w = w\<lparr>lw_timers := (lw_timers w)(t := (lw_timers w t)(u := None))\<rparr>"

definition schedule_wrap_timer :: "int \<Rightarrow> string \<Rightarrow> string \<Rightarrow> int \<Rightarrow> label_world \<Rightarrow> label_world" where
  "schedule_wrap_timer now t u delay w =
     (let w1 = clear_wrap_timer t u w
      in w1\<lparr>lw_timers := (lw_timers w1)(t := (lw_timers w1 t)(u := Some (now + delay)))\<rparr>)"

definition recompute_label :: "label_env \<Rightarrow> int \<Rightarrow> string \<Rightarrow> string \<Rightarrow> work_record \<Rightarrow> label_world \<Rightarrow> label_world" where
  "recompute_label env now t u r w =
     w\<lparr>lw_gateway := snd (with_callbacks (le_gateway env) now
         (set_work_status now t u (compute_work_status r now)) (lw_gateway w))\<rparr>"

definition wrap_up_seconds :: "label_env \<Rightarrow> string \<Rightarrow> int" where
  "wrap_up_seconds env t =
     (case le_wrap_seconds env t of
        Inl e \<Rightarrow> default_wrap_up_seconds
      | Inr (Some v) \<Rightarrow> if v > 0 then v else default_wrap_up_seconds
      | Inr None \<Rightarrow> default_wrap_up_seconds)"

section \<open>Opening and closing interactions\<close>

definition open_interaction ::
  "label_env \<Rightarrow> int \<Rightarrow> string \<Rightarrow> string \<Rightarrow> interaction \<Rightarrow> string \<Rightarrow> label_world \<Rightarrow> label_world" where
  "open_interaction env now t u ty ref w =
     (if t = [] \<or> u = [] \<or> ref = [] then w
      else
        let r = read_work now t u w;
            opn = (if map_of (wk_open r) (ty, ref) = None
                   then wk_open r @ [((ty, ref), now)] else wk_open r);
            r1 = \<lparr>wk_open = opn, wk_wrap_up_until = None\<rparr>
        in recompute_label env now t u r1 (clear_wrap_timer t u (write_work now t u r1 w)))"

definition persist_interaction_segment ::
  "label_env \<Rightarrow> string \<Rightarrow> string \<Rightarrow> interaction \<Rightarrow> string \<Rightarrow> int \<Rightarrow> int \<Rightarrow> label_world \<Rightarrow> label_world" where
  "persist_interaction_segment env t u ty ref from to w =
     (if \<not> le_segments_up env then w
      else w\<lparr>lw_segments := lw_segments w @ [\<lparr>is_tenant = t, is_agent = u, is_type = ty, is_ref = ref,
        is_start = from, is_end = to, is_duration = max 0 (to - from)\<rparr>]\<rparr>)"

definition close_interaction ::
  "label_env \<Rightarrow> int \<Rightarrow> string \<Rightarrow> string \<Rightarrow> interaction \<Rightarrow> string \<Rightarrow> bool \<Rightarrow> label_world \<Rightarrow> label_world" where
  "close_interaction env now t u ty ref wrap_up w =
     (if t = [] \<or> u = [] \<or> ref = [] then w
      else
        let r = read_work now t u w in
        case map_of (wk_open r) (ty, ref) of
          None \<Rightarrow> w
        | Some started \<Rightarrow>
            let r1 = r\<lparr>wk_open := filter (\<lambda>(k, _). k \<noteq> (ty, ref)) (wk_open r)\<rparr>;
                w1 = persist_interaction_segment env t u ty ref started now w
            in if wrap_up \<and> is_all_closed r1 then
                 let window = wrap_up_seconds env t * 1000;
                     r2 = r1\<lparr>wk_wrap_up_until := Some (now + window)\<rparr>
                 in schedule_wrap_timer now t u (window + 100)
                      (recompute_label env now t u r2 (write_work now t u r2 w1))
               else recompute_label env now t u r1 (write_work now t u r1 w1))"

text \<open>The wrap-up timer, when it is due.\<close>

definition fire_wrap_timer :: "label_env \<Rightarrow> int \<Rightarrow> string \<Rightarrow> string \<Rightarrow> label_world \<Rightarrow> label_world" where
  "fire_wrap_timer env now t u w =
     (case lw_timers w t u of
        None \<Rightarrow> w
      | Some due \<Rightarrow>
          if now < due then w
          else
            let w1 = clear_wrap_timer t u w;
                r = read_work now t u w1
            in if is_all_closed r
               then let r1 = r\<lparr>wk_wrap_up_until := None\<rparr>
                    in recompute_label env now t u r1 (write_work now t u r1 w1)
               else recompute_label env now t u r w1)"

section \<open>Conversation events\<close>

text \<open>
  The payload of \<open>omni.conversation.assigned\<close>: \<open>ae_old\<close> is the field \<open>oldAgentId\<close> that
  \<open>conversation-ops.processor.ts\<close> writes, \<open>ae_previous\<close> the field \<open>previousAgentId\<close> that this
  listener reads.
\<close>

record assigned_event =
  ae_tenant :: "string option"
  ae_conversation :: "string option"
  ae_agent :: "string option"
  ae_old :: "string option"
  ae_previous :: "string option"

definition emit_assignment_event ::
  "string \<Rightarrow> string \<Rightarrow> string option \<Rightarrow> string option \<Rightarrow> assigned_event" where
  "emit_assignment_event t conv agent previous =
     \<lparr>ae_tenant = Some t, ae_conversation = Some conv, ae_agent = agent, ae_old = previous,
      ae_previous = None\<rparr>"

definition handle_assigned :: "label_env \<Rightarrow> int \<Rightarrow> assigned_event \<Rightarrow> label_world \<Rightarrow> label_world" where
  "handle_assigned env now e w =
     (case (truthy_id (ae_tenant e), truthy_id (ae_conversation e)) of
        (Some t, Some c) \<Rightarrow>
          let w1 = (case truthy_id (ae_previous e) of
                Some p \<Rightarrow> if Some p \<noteq> ae_agent e then close_interaction env now t p IChat c True w else w
              | None \<Rightarrow> w)
          in (case truthy_id (ae_agent e) of
                Some a \<Rightarrow> open_interaction env now t a IChat c w1 | None \<Rightarrow> w1)
      | _ \<Rightarrow> w)"

record status_event =
  se_tenant :: "string option"
  se_conversation :: "string option"
  se_new_status :: "string option"
  se_status :: "string option"

definition handle_status_changed :: "label_env \<Rightarrow> int \<Rightarrow> status_event \<Rightarrow> label_world \<Rightarrow> label_world" where
  "handle_status_changed env now e w =
     (case (truthy_id (se_tenant e), truthy_id (se_conversation e)) of
        (Some t, Some c) \<Rightarrow>
          if or_else (se_new_status e) (se_status e) \<in> {Some ''resolved'', Some ''closed''} then
            (case truthy_id (le_owner env c) of
               None \<Rightarrow> w
             | Some a \<Rightarrow> close_interaction env now t a IChat c True w)
          else w
      | _ \<Rightarrow> w)"

end
