(* ===== verification/Work_Label_Safety.thy ===== *)
theory Work_Label_Safety
  imports Work_Label Presence_Gateway_Safety
begin

text \<open>
  The label and the interaction segments follow the Redis record; the event of a reassignment,
  as it is emitted, never closes the chat of the previous owner.
\<close>

lemma work_world [simp]:
  "lw_records (clear_wrap_timer t u w) = lw_records w"
  "lw_segments (clear_wrap_timer t u w) = lw_segments w"
  "lw_gateway (clear_wrap_timer t u w) = lw_gateway w"
  "lw_records (schedule_wrap_timer now t u d w) = lw_records w"
  "lw_segments (schedule_wrap_timer now t u d w) = lw_segments w"
  "lw_gateway (schedule_wrap_timer now t u d w) = lw_gateway w"
  "lw_records (recompute_label env now t u r w) = lw_records w"
  "lw_segments (recompute_label env now t u r w) = lw_segments w"
  "lw_timers (recompute_label env now t u r w) = lw_timers w"
  "lw_segments (write_work now t u r w) = lw_segments w"
  "lw_timers (write_work now t u r w) = lw_timers w"
  "lw_gateway (write_work now t u r w) = lw_gateway w"
  "lw_records (persist_interaction_segment env t u ty ref a b w) = lw_records w"
  "lw_timers (persist_interaction_segment env t u ty ref a b w) = lw_timers w"
  "lw_gateway (persist_interaction_segment env t u ty ref a b w) = lw_gateway w"
  by (simp_all add: clear_wrap_timer_def schedule_wrap_timer_def recompute_label_def write_work_def
      persist_interaction_segment_def Let_def)

lemma read_work_cong: "lw_records w = lw_records w' \<Longrightarrow> read_work now t u w = read_work now t u w'"
  by (simp add: read_work_def)

lemma read_write_work:
  "now < earlier + work_ttl_ms \<Longrightarrow> read_work now t u (write_work earlier t u r w) = r"
  by (cases r) (auto simp: read_work_def write_work_def is_all_closed_def)

lemma read_recompute [simp]: "read_work now t u (recompute_label env tm t' u' r w) = read_work now t u w"
  "read_work now t u (clear_wrap_timer t' u' w) = read_work now t u w"
  "read_work now t u (schedule_wrap_timer tm t' u' d w) = read_work now t u w"
  by (simp_all add: read_work_def)

lemma open_reads:
  assumes "t \<noteq> []" "u \<noteq> []" "ref \<noteq> []" "later < now + work_ttl_ms"
  shows "read_work later t u (open_interaction env now t u ty ref w) =
    \<lparr>wk_open = (let opn = wk_open (read_work now t u w) in
        if map_of opn (ty, ref) = None then opn @ [((ty, ref), now)] else opn),
     wk_wrap_up_until = None\<rparr>"
  using assms by (simp add: open_interaction_def Let_def read_write_work)

lemma open_start:
  assumes "t \<noteq> []" "u \<noteq> []" "ref \<noteq> []" "later < now + work_ttl_ms"
  shows "map_of (wk_open (read_work later t u (open_interaction env now t u ty ref w))) (ty, ref) =
    Some (case map_of (wk_open (read_work now t u w)) (ty, ref) of None \<Rightarrow> now | Some s \<Rightarrow> s)"
  by (simp add: open_reads[OF assms] Let_def map_add_def split: option.split)

section \<open>Interaction segments\<close>

text \<open>The handling time of an interaction is exact: opening it, opening it again any number of
  times (duplicates of the event) and closing it records one segment, from the first opening to
  the close.\<close>

theorem interaction_time_is_exact:
  assumes "t \<noteq> []" "u \<noteq> []" "ref \<noteq> []" "le_segments_up env"
    and "map_of (wk_open (read_work t1 t u w)) (ty, ref) = None"
    and "t1 \<le> t2" "t2 < t1 + work_ttl_ms" "t2 \<le> t3" "t3 < t2 + work_ttl_ms"
  shows "lw_segments (close_interaction env t3 t u ty ref wrap_up
      (open_interaction env t2 t u ty ref (open_interaction env t1 t u ty ref w)))
    = lw_segments w @ [\<lparr>is_tenant = t, is_agent = u, is_type = ty, is_ref = ref, is_start = t1, is_end = t3,
        is_duration = t3 - t1\<rparr>]"
proof -
  let ?w1 = "open_interaction env t1 t u ty ref w"
  let ?w2 = "open_interaction env t2 t u ty ref ?w1"
  have "map_of (wk_open (read_work t2 t u ?w1)) (ty, ref) = Some t1"
    using open_start[OF assms(1-3,7), of env ty w] assms(5) by simp
  then have m: "map_of (wk_open (read_work t3 t u ?w2)) (ty, ref) = Some t1"
    using open_start[OF assms(1-3,9), of env ty ?w1] by simp
  have "lw_segments ?w2 = lw_segments w" by (simp add: open_interaction_def Let_def)
  with m assms(1-4,6,8) show ?thesis
    by (simp add: close_interaction_def Let_def persist_interaction_segment_def)
qed

section \<open>The label\<close>

lemma recompute_sets_label:
  assumes "get_presence now t u (gw_store (lw_gateway w)) = (Some ex, w1)" "ap_tenant ex = t" "ap_user ex = u"
  shows "\<exists>p. fst (get_presence now t u (gw_store (lw_gateway (recompute_label env now t u r w)))) = Some p
    \<and> ap_work p = compute_work_status r now"
proof -
  let ?ws = "compute_work_status r now"
  obtain res w2 where s: "set_work_status now t u ?ws (gw_store (lw_gateway w)) = (res, w2)" by fastforce
  have st: "gw_store (lw_gateway (recompute_label env now t u r w)) = w2"
    using s by (simp add: recompute_label_def with_callbacks_def)
  show ?thesis
  proof (cases "ap_work ex = ?ws")
    case True
    with s assms(1) have "w2 = w1" by (simp add: set_work_status_def)
    moreover have "fst (get_presence now t u w1) = Some ex"
    proof (cases "w1 = gw_store (lw_gateway w)")
      case False
      then obtain q w0 where q: "persist now q w0 = (ex, w1)" "is_fresh now q" "ap_units q \<noteq> None"
        using assms(1)
        by (auto simp: get_presence_def parse_presence_def Let_def is_fresh_def split: option.splits if_splits prod.splits)
      note ps = persist_stores[OF q(1)]
      have "ap_tenant q = t" "ap_user q = u" using ps(1) assms(2,3) by (simp_all add: derive_fields_def)
      with ps q have "ps_hash w1 t u = Some ex" "is_fresh now ex" "ap_units ex \<noteq> None"
        by (simp_all add: derive_fields_def is_fresh_def)
      then obtain n where "ps_hash w1 t u = Some ex" "is_fresh now ex" "ap_units ex = Some n" by auto
      from get_presence_stored[OF this] show ?thesis by simp
    qed (use assms(1) in simp)
    ultimately show ?thesis using True st by auto
  next
    case False
    obtain q w0 where q: "persist now (ex\<lparr>ap_work := ?ws, ap_heartbeat := now\<rparr>) w1 = (q, w0)" by fastforce
    note ps = persist_stores[OF q]
    have w2: "w2 = after_mutation q (Some (snapshot_of ex)) SystemWorkStatus w0"
      using s assms(1) False q by (simp add: set_work_status_def store_change_def)
    obtain n where "ap_units ex = Some n" using get_presence_units[OF assms(1)] by auto
    then have "ps_hash w2 t u = Some q" "is_fresh now q" "ap_units q = Some n" "ap_work q = ?ws"
      using ps assms(2,3)
      by (simp_all add: w2 after_mutation_def Let_def derive_fields_def is_fresh_def heartbeat_ttl_ms_def)
    with get_presence_stored[OF this(1-3)] st show ?thesis by simp
  qed
qed

text \<open>The label follows the record: after an interaction of an agent who is present is opened
  or closed, the presence record shows the label of the stored record of open interactions.\<close>

theorem label_follows_record:
  assumes "t \<noteq> []" "u \<noteq> []" "ref \<noteq> []"
    and "get_presence now t u (gw_store (lw_gateway w)) = (Some ex, w1)" "ap_tenant ex = t" "ap_user ex = u"
    and "w' = open_interaction env now t u ty ref w
      \<or> (w' = close_interaction env now t u ty ref wrap_up w
          \<and> map_of (wk_open (read_work now t u w)) (ty, ref) \<noteq> None)"
  shows "\<exists>p. fst (get_presence now t u (gw_store (lw_gateway w'))) = Some p
    \<and> ap_work p = compute_work_status (read_work now t u w') now"
proof -
  have z: "now < now + work_ttl_ms" by (simp add: work_ttl_ms_def)
  have rec: "\<exists>p. fst (get_presence now t u (gw_store (lw_gateway (recompute_label env now t u r w2)))) = Some p
      \<and> ap_work p = compute_work_status r now" if "lw_gateway w2 = lw_gateway w" for r w2
    using recompute_sets_label[of now t u w2 ex w1 env r] that assms(4-6) by simp
  from assms(7) show ?thesis
  proof
    assume o: "w' = open_interaction env now t u ty ref w"
    with assms(1-3) show ?thesis
      by (simp add: open_interaction_def Let_def read_write_work[OF z] rec)
  next
    assume c: "w' = close_interaction env now t u ty ref wrap_up w
          \<and> map_of (wk_open (read_work now t u w)) (ty, ref) \<noteq> None"
    then obtain s where "map_of (wk_open (read_work now t u w)) (ty, ref) = Some s" by auto
    with c assms(1-3) show ?thesis
      by (simp add: close_interaction_def Let_def read_write_work[OF z] rec)
  qed
qed

section \<open>Reassignment\<close>

text \<open>A reassignment never closes the chat of the previous owner: for the event as it is
  emitted, with the previous owner in \<open>oldAgentId\<close>, the listener leaves the previous owner's
  open interactions, wrap-up timer and segments as they are.\<close>

theorem reassignment_keeps_previous_chat_open:
  assumes "previous \<noteq> agent"
  shows "lw_records (handle_assigned env now (emit_assignment_event t c (Some agent) (Some previous)) w) t previous
      = lw_records w t previous
    \<and> lw_timers (handle_assigned env now (emit_assignment_event t c (Some agent) (Some previous)) w) t previous
      = lw_timers w t previous
    \<and> lw_segments (handle_assigned env now (emit_assignment_event t c (Some agent) (Some previous)) w) = lw_segments w"
  using assms
  by (auto simp: handle_assigned_def emit_assignment_event_def truthy_id_def open_interaction_def Let_def
      write_work_def clear_wrap_timer_def recompute_label_def split: option.splits)

section \<open>A concrete agent\<close>

definition demo_label_env :: label_env where
  "demo_label_env = \<lparr>le_gateway = demo_gw_env 120, le_wrap_seconds = (\<lambda>_. Inr None), le_segments_up = True,
     le_owner = (\<lambda>_. Some ''u1'')\<rparr>"

definition demo_label_world :: label_world where
  "demo_label_world = \<lparr>lw_records = (\<lambda>_ _. None), lw_timers = (\<lambda>_ _. None), lw_segments = [],
     lw_gateway = demo_gateway\<rparr>"

theorem interaction_time_is_exact_witness:
  "map is_duration (lw_segments (close_interaction demo_label_env 9000 ''t'' ''u1'' IChat ''c1'' True
     (open_interaction demo_label_env 5000 ''t'' ''u1'' IChat ''c1''
       (open_interaction demo_label_env 2500 ''t'' ''u1'' IChat ''c1'' demo_label_world)))) = [6500]"
  using interaction_time_is_exact[of "''t''" "''u1''" "''c1''" demo_label_env 2500 demo_label_world IChat 5000 9000 True]
  by (simp add: demo_label_env_def demo_label_world_def read_work_def work_ttl_ms_def)

theorem label_follows_record_witness:
  "\<exists>p. fst (get_presence 2500 ''t'' ''u1'' (gw_store (lw_gateway
       (open_interaction demo_label_env 2500 ''t'' ''u1'' IChat ''c1'' demo_label_world)))) = Some p
     \<and> ap_work p = InChat"
proof -
  let ?w = "open_interaction demo_label_env 2500 ''t'' ''u1'' IChat ''c1'' demo_label_world"
  have gp: "get_presence 2500 ''t'' ''u1'' (gw_store (lw_gateway demo_label_world)) = (Some demo_agent, gw_store demo_gateway)"
    using demo_read by (simp add: demo_label_world_def)
  have r: "read_work 2500 ''t'' ''u1'' ?w = \<lparr>wk_open = [((IChat, ''c1''), 2500)], wk_wrap_up_until = None\<rparr>"
    using open_reads[of "''t''" "''u1''" "''c1''" 2500 2500 demo_label_env IChat demo_label_world]
    by (simp add: work_ttl_ms_def demo_label_world_def read_work_def)
  have "?w = open_interaction demo_label_env 2500 ''t'' ''u1'' IChat ''c1'' demo_label_world
      \<or> (?w = close_interaction demo_label_env 2500 ''t'' ''u1'' IChat ''c1'' True demo_label_world
          \<and> map_of (wk_open (read_work 2500 ''t'' ''u1'' demo_label_world)) (IChat, ''c1'') \<noteq> None)" by simp
  from label_follows_record[OF _ _ _ gp demo_ids(1,2) this] r show ?thesis
    by (simp add: compute_work_status_def has_type_def)
qed

theorem reassignment_keeps_previous_chat_open_witness:
  "map_option (map fst \<circ> wk_open \<circ> fst) (lw_records (handle_assigned demo_label_env 5000
     (emit_assignment_event ''t'' ''c1'' (Some ''u2'') (Some ''u1''))
     (open_interaction demo_label_env 2500 ''t'' ''u1'' IChat ''c1'' demo_label_world)) ''t'' ''u1'')
   = Some [(IChat, ''c1'')]"
proof -
  let ?w = "open_interaction demo_label_env 2500 ''t'' ''u1'' IChat ''c1'' demo_label_world"
  have "lw_records ?w ''t'' ''u1'' =
      Some (\<lparr>wk_open = [((IChat, ''c1''), 2500)], wk_wrap_up_until = None\<rparr>, 2500 + work_ttl_ms)"
    by (simp add: open_interaction_def Let_def write_work_def read_work_def demo_label_world_def
        is_all_closed_def recompute_label_def clear_wrap_timer_def)
  with reassignment_keeps_previous_chat_open[of "''u1''" "''u2''" demo_label_env 5000 "''t''" "''c1''" ?w]
  show ?thesis by simp
qed

end
