(* ===== verification/Documents.thy ===== *)
theory Documents
  imports Crm_Prelude
begin

text \<open>
  MongoDB collections as lists of documents: \<open>findOneAndUpdate\<close> with \<open>new: true\<close>, \<open>updateOne\<close>,
  \<open>updateMany\<close> and the facts about them that the components share.
\<close>

fun find_and_update :: "('a \<Rightarrow> bool) \<Rightarrow> ('a \<Rightarrow> 'a) \<Rightarrow> 'a list \<Rightarrow> 'a option \<times> 'a list" where
  "find_and_update P f [] = (None, [])"
| "find_and_update P f (d # ds) =
     (if P d then (Some (f d), f d # ds)
      else case find_and_update P f ds of (r, ds') \<Rightarrow> (r, d # ds'))"

definition update_first :: "('a \<Rightarrow> bool) \<Rightarrow> ('a \<Rightarrow> 'a) \<Rightarrow> 'a list \<Rightarrow> 'a list" where
  "update_first P f ds = snd (find_and_update P f ds)"

definition update_many :: "('a \<Rightarrow> bool) \<Rightarrow> ('a \<Rightarrow> 'a) \<Rightarrow> 'a list \<Rightarrow> 'a list" where
  "update_many P f ds = map (\<lambda>d. if P d then f d else d) ds"

lemma find_and_update_split:
  assumes "find_and_update P f ds = (Some d', ds')"
  obtains as d bs where "ds = as @ d # bs" "ds' = as @ d' # bs" "d' = f d" "P d" "\<forall>x \<in> set as. \<not> P x"
  using assms
proof (induction ds arbitrary: ds' thesis)
  case (Cons x xs)
  show ?case
  proof (cases "P x")
    case True
    then show ?thesis using Cons.prems by (intro Cons.prems(1)[of "[]" x xs]) auto
  next
    case False
    with Cons.prems(2) obtain ys where ys: "find_and_update P f xs = (Some d', ys)" "ds' = x # ys"
      by (auto split: prod.splits)
    from Cons.IH[OF _ ys(1)] obtain as d bs where
      "xs = as @ d # bs" "ys = as @ d' # bs" "d' = f d" "P d" "\<forall>x \<in> set as. \<not> P x" by blast
    with False ys(2) show ?thesis by (intro Cons.prems(1)[of "x # as" d bs]) auto
  qed
qed simp

lemma find_and_update_in:
  "find_and_update P f ds = (Some d', ds') \<Longrightarrow> \<exists>d \<in> set ds. d' = f d \<and> P d"
  by (erule find_and_update_split) auto

lemma find_and_update_none [simp]:
  "\<forall>d \<in> set ds. \<not> P d \<Longrightarrow> find_and_update P f ds = (None, ds)"
  by (induction ds) auto

lemma find_and_update_missing:
  "fst (find_and_update P f ds) = None \<Longrightarrow> \<forall>d \<in> set ds. \<not> P d"
  by (induction ds) (auto split: prod.splits if_splits)

lemma find_and_update_None:
  "find_and_update P f ds = (None, ds') \<longleftrightarrow> ds' = ds \<and> (\<forall>d \<in> set ds. \<not> P d)"
  using find_and_update_missing[of P f ds] by fastforce

lemma find_and_update_found:
  "map_option f (List.find P ds) = fst (find_and_update P f ds)"
  by (induction ds) (auto split: prod.splits)

lemma update_first_none [simp]: "\<forall>d \<in> set ds. \<not> P d \<Longrightarrow> update_first P f ds = ds"
  by (simp add: update_first_def)

lemma update_first_append:
  "\<forall>d \<in> set as. \<not> P d \<Longrightarrow> update_first P f (as @ bs) = as @ update_first P f bs"
  by (induction as) (auto simp: update_first_def split: prod.splits)

lemma update_first_hit: "P d \<Longrightarrow> update_first P f (d # ds) = f d # ds"
  by (simp add: update_first_def)

lemma update_first_map:
  "(\<And>d. P d \<Longrightarrow> g (f d) = g d) \<Longrightarrow> map g (update_first P f ds) = map g ds"
  by (induction ds) (auto simp: update_first_def split: prod.splits)

lemma update_first_all:
  "(\<And>d. Q (f d) = Q d) \<Longrightarrow> (\<forall>d \<in> set (update_first P f ds). Q d) \<longleftrightarrow> (\<forall>d \<in> set ds. Q d)"
  by (induction ds) (auto simp: update_first_def split: prod.splits)

lemma find_and_update_map:
  "(\<And>d. P d \<Longrightarrow> g (f d) = g d) \<Longrightarrow> map g (snd (find_and_update P f ds)) = map g ds"
  using update_first_map[of P g f ds] by (simp add: update_first_def)

lemma update_many_none [simp]: "\<forall>d \<in> set ds. \<not> P d \<Longrightarrow> update_many P f ds = ds"
  by (simp add: update_many_def map_idI)

end
