(* ===== verification/Capacity_Policy.thy ===== *)
theory Capacity_Policy
  imports Conversation_Adapter
begin

text \<open>
  The capacity policy of tenants and inboxes
  (\<open>src/src/omni-inbound/work-distribution/capacity-policy.ts\<close>): the workload weight of a channel
  and its after-contact time. A record of numbers is an association list in insertion order.
\<close>

type_synonym number_map = "(string \<times> jnum) list"

record capacity_policy =
  cp_weights :: "number_map option"
  cp_acw :: "number_map option"

definition default_channel_weights :: number_map where
  "default_channel_weights =
     map (\<lambda>(k, n). (k, num_of_int n))
       [(''voice'', 5), (''phone'', 5), (''video'', 5), (''email'', 2), (''whatsapp'', 1),
        (''livechat'', 1), (''facebook'', 1), (''instagram'', 1), (''telegram'', 1), (''zalo'', 1),
        (''tiktok'', 1)]"

definition put_number :: "string \<Rightarrow> jnum \<Rightarrow> number_map \<Rightarrow> number_map" where
  "put_number k n m =
     (if k \<in> fst ` set m then map (\<lambda>p. if fst p = k then (k, n) else p) m else m @ [(k, n)])"

definition sanitize_number_map :: "jsval \<Rightarrow> jnum \<Rightarrow> number_map option" where
  "sanitize_number_map v least =
     (case v of
        JObj kvs \<Rightarrow>
          let result = fold (\<lambda>(k, raw) m.
                let n = js_number raw in
                if is_finite_num n \<and> num_le least n then put_number (to_lower k) n m else m) kvs []
          in if result = [] then None else Some result
      | _ \<Rightarrow> None)"

definition js_coalesce :: "jsval \<Rightarrow> jsval \<Rightarrow> jsval" where
  "js_coalesce a b = (if nullish a then b else a)"

definition normalize_capacity_policy :: "jsval \<Rightarrow> capacity_policy" where
  "normalize_capacity_policy v =
     (let raw = (if nullish v then JObj [] else v)
      in \<lparr>cp_weights = sanitize_number_map
            (js_coalesce (js_get raw ''capacityWeights'') (js_get raw ''channelWeights'')) (Dec 1 1),
          cp_acw = sanitize_number_map
            (js_coalesce (js_get raw ''afterContactWorkSeconds'') (js_get raw ''acwSecondsByChannel'')) (Dec 0 0)\<rparr>)"

definition assign_numbers :: "number_map list \<Rightarrow> number_map" where
  "assign_numbers ms = fold (\<lambda>m acc. fold (\<lambda>(k, n) a. put_number k n a) m acc) ms []"

definition merge_capacity_policies :: "capacity_policy list \<Rightarrow> capacity_policy" where
  "merge_capacity_policies ps =
     \<lparr>cp_weights = Some (assign_numbers (map (\<lambda>p. default_to [] (cp_weights p)) ps)),
      cp_acw = Some (assign_numbers (map (\<lambda>p. default_to [] (cp_acw p)) ps))\<rparr>"

definition override_of :: "number_map option \<Rightarrow> string \<Rightarrow> jnum option" where
  "override_of m k = (case m of Some kvs \<Rightarrow> map_of kvs k | None \<Rightarrow> None)"

definition resolve_capacity_weight :: "string \<Rightarrow> number_map option \<Rightarrow> rat" where
  "resolve_capacity_weight channel overrides =
     (let ch = to_lower channel;
          configured = default_to (Dec 1 0)
            (or_else (override_of overrides ch) (map_of default_channel_weights ch))
      in if is_finite_num configured \<and> num_le (Dec 1 1) configured then rat_of_num configured else 1)"

definition resolve_acw_seconds :: "string \<Rightarrow> number_map option \<Rightarrow> rat" where
  "resolve_acw_seconds channel overrides =
     (let ch = to_lower channel;
          fallback = (if ch \<in> {''voice'', ''phone''} then 60 else 30)
      in case override_of overrides ch of
           Some n \<Rightarrow> if is_finite_num n \<and> num_le (Dec 0 0) n then rat_of_num n else fallback
         | None \<Rightarrow> fallback)"

section \<open>Facts\<close>

lemma num_le_rat:
  assumes "num_le a b" "is_finite_num a" "is_finite_num b"
  shows "rat_of_num a \<le> rat_of_num b"
proof -
  obtain m j where a: "a = Dec m j" using assms(2) by (cases a) (auto simp: is_finite_num_def)
  obtain n k where b: "b = Dec n k" using assms(3) by (cases b) (auto simp: is_finite_num_def)
  have "m * 10 ^ k \<le> n * 10 ^ j" using assms(1) by (auto simp: a b num_le_def)
  then have "(of_int (m * 10 ^ k) :: rat) \<le> of_int (n * 10 ^ j)" by (simp only: of_int_le_iff)
  then have "(of_int m :: rat) * 10 ^ k \<le> of_int n * 10 ^ j" by simp
  then show ?thesis by (simp add: a b rat_of_num_def field_simps)
qed

lemma resolve_weight_lower: "1 / 10 \<le> resolve_capacity_weight channel overrides"
proof -
  have "1 / 10 \<le> rat_of_num n" if "is_finite_num n" "num_le (Dec 1 1) n" for n
    using num_le_rat[OF that(2) _ that(1)] by (simp add: is_finite_num_def rat_of_num_def)
  then show ?thesis by (simp add: resolve_capacity_weight_def Let_def)
qed

lemma map_of_put_number: "map_of (put_number k n m) k' = (if k' = k then Some n else map_of m k')"
proof -
  have "k' \<noteq> k \<Longrightarrow> map_of (map (\<lambda>p. if fst p = k then (k, n) else p) m) k' = map_of m k'"
    "k \<in> fst ` set m \<Longrightarrow> map_of (map (\<lambda>p. if fst p = k then (k, n) else p) m) k = Some n"
    by (induction m) auto
  moreover have "k \<notin> fst ` set m \<Longrightarrow> map_of m k = None" by (simp add: map_of_eq_None_iff)
  ultimately show ?thesis by (auto simp: put_number_def map_add_def split: option.split)
qed

lemma map_of_fold_put:
  "map_of (fold (\<lambda>(k, n) a. put_number k n a) m acc) k =
     (case map_of (rev m) k of Some n \<Rightarrow> Some n | None \<Rightarrow> map_of acc k)"
  by (induction m arbitrary: acc)
    (auto simp: map_of_put_number map_add_def split: option.splits)

text \<open>The inbox overrides the tenant, channel by channel: in the merged policy a channel the
  inbox configures has the inbox's weight, any other the tenant's, and whatever is configured
  the resolved weight is at least 0.1.\<close>

theorem inbox_weight_overrides_tenant:
  assumes "distinct (map fst (default_to [] (cp_weights inbox)))"
    and "distinct (map fst (default_to [] (cp_weights tenant)))"
  shows "override_of (cp_weights (merge_capacity_policies [tenant, inbox])) ch =
      or_else (override_of (cp_weights inbox) ch) (override_of (cp_weights tenant) ch)
    \<and> 1 / 10 \<le> resolve_capacity_weight channel (cp_weights (merge_capacity_policies [tenant, inbox]))"
proof -
  have r: "map_of (rev m) k = map_of m k" if "distinct (map fst m)" for m :: number_map and k
    using map_of_inject_set[of "rev m" m] that by (simp add: rev_map[symmetric])
  show ?thesis
    using r[OF assms(1)] r[OF assms(2)] resolve_weight_lower
    by (cases "cp_weights inbox"; cases "cp_weights tenant")
      (auto simp: merge_capacity_policies_def assign_numbers_def override_of_def map_of_fold_put split: option.split)
qed

theorem inbox_weight_overrides_tenant_witness:
  "override_of (cp_weights (merge_capacity_policies
     [\<lparr>cp_weights = Some [(''email'', Dec 3 0), (''voice'', Dec 4 0)], cp_acw = None\<rparr>,
      \<lparr>cp_weights = Some [(''email'', Dec 1 1)], cp_acw = None\<rparr>])) ''email'' = Some (Dec 1 1)"
  using inbox_weight_overrides_tenant[of "\<lparr>cp_weights = Some [(''email'', Dec 1 1)], cp_acw = None\<rparr>"
      "\<lparr>cp_weights = Some [(''email'', Dec 3 0), (''voice'', Dec 4 0)], cp_acw = None\<rparr>" "''email''"]
  by (simp add: override_of_def)

end
