(* ===== verification/Work_Distribution.thy ===== *)
theory Work_Distribution
  imports Documents Capacity_Policy
begin

text \<open>
  Work items, queue entries and offers
  (\<open>src/src/omni-inbound/work-distribution/work-distribution.service.ts\<close>, collections in
  \<open>work-distribution.schema.ts\<close>) over the presence service, and the reconciliation of presence
  counters with the work items (\<open>services/presence-reconciliation.service.ts\<close>). Object ids of the
  three collections are numbers handed out by a counter; a handler runs at one instant.
  \<open>executeAssignAgent\<close> is the assignment of an unassigned conversation of
  \<open>aggregate/conversation-ops.processor.ts\<close>; the events that the service emits are a trail.
\<close>

section \<open>Collections\<close>

datatype item_status = WQueued | WOffered | WAssigned | WActive | WWrapUp | WCompleted

fun item_transitions :: "item_status \<Rightarrow> item_status list" where
  "item_transitions WQueued = [WOffered, WAssigned, WCompleted]"
| "item_transitions WOffered = [WQueued, WAssigned, WCompleted]"
| "item_transitions WAssigned = [WActive, WQueued, WCompleted]"
| "item_transitions WActive = [WWrapUp, WQueued, WCompleted]"
| "item_transitions WWrapUp = [WCompleted, WActive]"
| "item_transitions WCompleted = []"

definition can_transition_work_item :: "item_status \<Rightarrow> item_status \<Rightarrow> bool" where
  "can_transition_work_item from to \<longleftrightarrow> from = to \<or> to \<in> set (item_transitions from)"

record work_item =
  wi_id :: nat
  wi_tenant :: string
  wi_conversation :: string
  wi_inbox :: "string option"
  wi_group :: "string option"
  wi_channel :: string
  wi_status :: item_status
  wi_priority :: int
  wi_weight :: rat
  wi_attempts :: int
  wi_agent :: "string option"
  wi_assigned_at :: "int option"
  wi_completed_at :: "int option"
  wi_wrap_started :: "int option"
  wi_wrap_due :: "int option"
  wi_released :: "int option"

datatype entry_status = QWaiting | QOffered | QAssigned | QCancelled

record queue_entry =
  qe_id :: nat
  qe_tenant :: string
  qe_item :: nat
  qe_inbox :: "string option"
  qe_status :: entry_status
  qe_priority :: int
  qe_queued_at :: int
  qe_offered_at :: "int option"
  qe_dequeued_at :: "int option"

datatype offer_status = OOffered | OAccepted | ODeclined | OExpired | OCancelled

record work_offer =
  of_id :: nat
  of_tenant :: string
  of_item :: nat
  of_entry :: nat
  of_agent :: string
  of_weight :: rat
  of_status :: offer_status
  of_expires :: int
  of_responded :: "int option"
  of_reason :: "string option"

record dist_conv =
  dc_id :: string
  dc_tenant :: string
  dc_status :: string
  dc_agent :: "string option"
  dc_inbox :: "string option"
  dc_channel :: "string option"
  dc_created :: int

datatype work_event =
    OfferCreated string string nat nat string int
  | ItemRequeued string string string int string
  | ConversationAssigned string string "string option"

record dist_world =
  wd_items :: "work_item list"
  wd_entries :: "queue_entry list"
  wd_offers :: "work_offer list"
  wd_convs :: "dist_conv list"
  wd_presence :: pstore
  wd_events :: "work_event list"
  wd_next :: nat

record dist_env =
  de_setting :: "string \<Rightarrow> (string, jsval) result" \<comment> \<open>setting \<open>omni_capacity\<close> of a tenant\<close>
  de_inbox_policy :: "string \<Rightarrow> string \<Rightarrow> jsval" \<comment> \<open>\<open>capacityPolicy\<close> of an inbox\<close>
  de_offers_up :: bool \<comment> \<open>the insert of an offer answers\<close>
  de_commands_up :: bool \<comment> \<open>the conversation command does not throw\<close>

definition max_redispatch_attempts :: int where "max_redispatch_attempts = 3"

abbreviation open_entry :: "queue_entry \<Rightarrow> bool" where
  "open_entry q \<equiv> qe_status q \<in> {QWaiting, QOffered}"

section \<open>Helpers\<close>

definition policy_of :: "dist_env \<Rightarrow> string \<Rightarrow> string option \<Rightarrow> capacity_policy" where
  "policy_of env t inbox =
     (let tenant = (case de_setting env t of
            Inl e \<Rightarrow> \<lparr>cp_weights = None, cp_acw = None\<rparr> | Inr v \<Rightarrow> normalize_capacity_policy v)
      in case truthy_id inbox of
           None \<Rightarrow> tenant
         | Some i \<Rightarrow> merge_capacity_policies [tenant, normalize_capacity_policy (de_inbox_policy env i t)])"

definition ensure_queue_entry :: "int \<Rightarrow> work_item \<Rightarrow> dist_world \<Rightarrow> dist_world" where
  "ensure_queue_entry now wi w =
     (if list_ex (\<lambda>q. qe_tenant q = wi_tenant wi \<and> qe_item q = wi_id wi \<and> open_entry q) (wd_entries w) then w
      else w\<lparr>wd_entries := wd_entries w @
               [\<lparr>qe_id = wd_next w, qe_tenant = wi_tenant wi, qe_item = wi_id wi, qe_inbox = wi_inbox wi,
                 qe_status = QWaiting, qe_priority = wi_priority wi, qe_queued_at = now,
                 qe_offered_at = None, qe_dequeued_at = None\<rparr>],
             wd_next := Suc (wd_next w)\<rparr>)"

definition requeue_item :: "(work_item \<Rightarrow> bool) \<Rightarrow> dist_world \<Rightarrow> dist_world" where
  "requeue_item P w =
     w\<lparr>wd_items := update_first P (\<lambda>i. i\<lparr>wi_status := WQueued, wi_agent := None, wi_assigned_at := None\<rparr>) (wd_items w)\<rparr>"

definition unoffer_entry :: "nat \<Rightarrow> dist_world \<Rightarrow> dist_world" where
  "unoffer_entry e w =
     w\<lparr>wd_entries := update_first (\<lambda>q. qe_id q = e \<and> qe_status q = QOffered)
         (\<lambda>q. q\<lparr>qe_status := QWaiting, qe_offered_at := None\<rparr>) (wd_entries w)\<rparr>"

definition return_to_queue :: "work_offer \<Rightarrow> dist_world \<Rightarrow> dist_world" where
  "return_to_queue off w =
     unoffer_entry (of_entry off) (requeue_item (\<lambda>i. wi_id i = of_item off \<and> wi_status i = WOffered) w)"

definition release_capacity :: "int \<Rightarrow> string \<Rightarrow> string \<Rightarrow> rat \<Rightarrow> dist_world \<Rightarrow> dist_world" where
  "release_capacity now t u wt w = w\<lparr>wd_presence := release_conversation now t u wt (wd_presence w)\<rparr>"

definition request_redispatch :: "work_offer \<Rightarrow> string \<Rightarrow> dist_world \<Rightarrow> dist_world" where
  "request_redispatch off reason w =
     (case find_and_update
             (\<lambda>i. wi_id i = of_item off \<and> wi_status i = WQueued \<and> wi_attempts i < max_redispatch_attempts)
             (\<lambda>i. i\<lparr>wi_attempts := wi_attempts i + 1\<rparr>) (wd_items w) of
        (None, _) \<Rightarrow> w
      | (Some i, items) \<Rightarrow>
          w\<lparr>wd_items := items,
            wd_events := wd_events w @ [ItemRequeued (of_tenant off) (wi_conversation i) (of_agent off) (wi_attempts i) reason]\<rparr>)"

section \<open>Conversation events\<close>

record created_event =
  ev_tenant_id :: string
  ev_conversation :: string
  ev_inbox :: "string option"
  ev_channel :: "string option"
  ev_doc_inbox :: "string option"
  ev_doc_channel :: "string option"
  ev_doc_agent :: "string option"

definition work_for :: "string \<Rightarrow> string \<Rightarrow> work_item \<Rightarrow> bool" where
  "work_for t c i \<longleftrightarrow> wi_tenant i = t \<and> wi_conversation i = c"

text \<open>The filters of \<open>createOfferFromReservation\<close>: the conversation it offers and the item it claims.\<close>

definition unowned :: "string \<Rightarrow> string \<Rightarrow> dist_conv \<Rightarrow> bool" where
  "unowned t c d \<longleftrightarrow> dc_id d = c \<and> dc_tenant d = t \<and> dc_status d \<in> {''open'', ''pending''} \<and> dc_agent d = None"

definition offerable :: "string \<Rightarrow> string \<Rightarrow> work_item \<Rightarrow> bool" where
  "offerable t c i \<longleftrightarrow> work_for t c i \<and> wi_status i \<in> {WQueued, WOffered}"

definition new_item :: "nat \<Rightarrow> string \<Rightarrow> string \<Rightarrow> string option \<Rightarrow> string \<Rightarrow> rat \<Rightarrow> work_item" where
  "new_item n t c inbox channel weight =
     \<lparr>wi_id = n, wi_tenant = t, wi_conversation = c, wi_inbox = inbox, wi_group = None,
      wi_channel = channel, wi_status = WQueued, wi_priority = 0, wi_weight = weight, wi_attempts = 0,
      wi_agent = None, wi_assigned_at = None, wi_completed_at = None, wi_wrap_started = None,
      wi_wrap_due = None, wi_released = None\<rparr>"

definition on_conversation_created :: "dist_env \<Rightarrow> int \<Rightarrow> created_event \<Rightarrow> dist_world \<Rightarrow> (string, unit) result \<times> dist_world" where
  "on_conversation_created env now e w =
     (let t = ev_tenant_id e; c = ev_conversation e;
          inbox = or_else (ev_doc_inbox e) (ev_inbox e);
          policy = policy_of env t inbox;
          assigned = truthy_id (ev_doc_agent e)
      in case or_else (ev_channel e) (ev_doc_channel e) of
           None \<Rightarrow> (Inl ''TypeError'', w)
         | Some ch \<Rightarrow>
             (case List.find (work_for t c) (wd_items w) of
                Some i \<Rightarrow> (Inr (), if assigned \<noteq> None then w else ensure_queue_entry now i w)
              | None \<Rightarrow>
                  let i = (new_item (wd_next w) t c inbox ch (resolve_capacity_weight ch (cp_weights policy)))
                        \<lparr>wi_status := (if assigned \<noteq> None then WAssigned else WQueued),
                         wi_agent := ev_doc_agent e,
                         wi_assigned_at := (if assigned \<noteq> None then Some now else None)\<rparr>;
                      w1 = w\<lparr>wd_items := wd_items w @ [i], wd_next := Suc (wd_next w)\<rparr>
                  in (Inr (), if assigned \<noteq> None then w1 else ensure_queue_entry now i w1)))"

definition on_conversation_assigned :: "int \<Rightarrow> string \<Rightarrow> string \<Rightarrow> string option \<Rightarrow> dist_world \<Rightarrow> dist_world" where
  "on_conversation_assigned now t c agent w =
     (let assigned = truthy_id agent in
      case find_and_update (work_for t c)
             (\<lambda>i. i\<lparr>wi_status := (if assigned \<noteq> None then WAssigned else WQueued), wi_agent := agent,
                    wi_assigned_at := (if assigned \<noteq> None then Some now else None)\<rparr>) (wd_items w) of
        (None, _) \<Rightarrow> w
      | (Some i, items) \<Rightarrow>
          let w1 = w\<lparr>wd_items := items\<rparr>
          in if assigned \<noteq> None then
               w1\<lparr>wd_entries := update_many (\<lambda>q. qe_tenant q = t \<and> qe_item q = wi_id i \<and> open_entry q)
                   (\<lambda>q. q\<lparr>qe_status := QAssigned, qe_dequeued_at := Some now\<rparr>) (wd_entries w1)\<rparr>
             else ensure_queue_entry now i w1)"

record closed_event =
  ce_tenant :: string
  ce_conversation :: string
  ce_status :: "string option"
  ce_inbox :: "string option"
  ce_channel :: "string option"

text \<open>The conversation of the event, its wrap-up time, and the two ways an item ends.\<close>

definition closed_conv :: "closed_event \<Rightarrow> dist_world \<Rightarrow> dist_conv option" where
  "closed_conv e w = List.find (\<lambda>d. dc_id d = ce_conversation e \<and> dc_tenant d = ce_tenant e) (wd_convs w)"

definition closed_acw :: "dist_env \<Rightarrow> closed_event \<Rightarrow> dist_world \<Rightarrow> rat" where
  "closed_acw env e w =
     (let conv = closed_conv e w;
          policy = policy_of env (ce_tenant e) (or_else (Option.bind conv dc_inbox) (ce_inbox e))
      in resolve_acw_seconds (default_to ''unknown'' (or_else (Option.bind conv dc_channel) (ce_channel e)))
           (cp_acw policy))"

definition close_item :: "int \<Rightarrow> string option \<Rightarrow> rat \<Rightarrow> work_item \<Rightarrow> work_item" where
  "close_item now owner acw i =
     (if owner \<noteq> None \<and> acw > 0
      then i\<lparr>wi_status := WWrapUp, wi_agent := owner, wi_wrap_started := Some now,
             wi_wrap_due := Some \<lfloor>of_int now + acw * 1000\<rfloor>\<rparr>
      else i\<lparr>wi_status := WCompleted, wi_completed_at := Some now,
             wi_released := (if owner \<noteq> None then Some now else None)\<rparr>)"

definition live_item :: "string \<Rightarrow> string \<Rightarrow> work_item \<Rightarrow> bool" where
  "live_item t c i \<longleftrightarrow> work_for t c i \<and> wi_status i \<in> {WQueued, WOffered, WAssigned, WActive}"

definition cancel_reserved :: "int \<Rightarrow> string \<Rightarrow> string \<Rightarrow> work_item \<Rightarrow> dist_world \<Rightarrow> dist_world" where
  "cancel_reserved now t reserved i w =
     release_capacity now t reserved (wi_weight i)
       (w\<lparr>wd_offers := update_many (\<lambda>off. of_tenant off = t \<and> of_item off = wi_id i \<and> of_status off = OOffered)
             (\<lambda>off. off\<lparr>of_status := OCancelled, of_responded := Some now\<rparr>) (wd_offers w),
           wd_items := update_first (\<lambda>x. wi_id x = wi_id i \<and> wi_released x = None)
             (\<lambda>x. x\<lparr>wi_released := Some now\<rparr>) (wd_items w)\<rparr>)"

definition on_conversation_status_changed :: "dist_env \<Rightarrow> int \<Rightarrow> closed_event \<Rightarrow> dist_world \<Rightarrow> dist_world" where
  "on_conversation_status_changed env now e w =
     (if ce_status e \<notin> {Some ''resolved'', Some ''closed''} then w
      else
        let t = ce_tenant e; c = ce_conversation e; acw = closed_acw env e w;
            owner = truthy_id (Option.bind (closed_conv e w) dc_agent)
        in case find_and_update (live_item t c) (close_item now owner acw) (wd_items w) of
             (None, _) \<Rightarrow> w
           | (Some i, items) \<Rightarrow>
               let w1 = w\<lparr>wd_items := items,
                     wd_entries := update_many (\<lambda>q. qe_tenant q = t \<and> qe_item q = wi_id i \<and> open_entry q)
                       (\<lambda>q. q\<lparr>qe_status := QCancelled, qe_dequeued_at := Some now\<rparr>) (wd_entries w)\<rparr>
               in case owner of
                    None \<Rightarrow>
                      (case truthy_id (wi_agent i) of
                         Some reserved \<Rightarrow> cancel_reserved now t reserved i w1 | None \<Rightarrow> w1)
                  | Some a \<Rightarrow> if acw = 0 then release_capacity now t a (wi_weight i) w1 else w1)"

section \<open>Wrap-up\<close>

definition due_before :: "work_item \<Rightarrow> work_item \<Rightarrow> bool" where
  "due_before a b \<longleftrightarrow> (case (wi_wrap_due a, wi_wrap_due b) of
     (Some x, Some y) \<Rightarrow> x < y \<or> (x = y \<and> wi_id a \<le> wi_id b) | _ \<Rightarrow> True)"

definition complete_one :: "int \<Rightarrow> nat \<Rightarrow> dist_world \<Rightarrow> bool \<times> dist_world" where
  "complete_one now ident w =
     (case find_and_update (\<lambda>i. wi_id i = ident \<and> wi_status i = WWrapUp \<and> wi_released i = None)
             (\<lambda>i. i\<lparr>wi_status := WCompleted, wi_completed_at := Some now, wi_released := Some now\<rparr>) (wd_items w) of
        (None, _) \<Rightarrow> (False, w)
      | (Some i, items) \<Rightarrow>
          let w1 = w\<lparr>wd_items := items\<rparr>
          in (True, case truthy_id (wi_agent i) of
                Some a \<Rightarrow> release_capacity now (wi_tenant i) a (wi_weight i) w1 | None \<Rightarrow> w1))"

fun complete_all :: "int \<Rightarrow> nat list \<Rightarrow> dist_world \<Rightarrow> nat \<times> dist_world" where
  "complete_all now [] w = (0, w)"
| "complete_all now (i # is) w =
     (case complete_one now i w of (done, w1) \<Rightarrow>
        case complete_all now is w1 of (n, w2) \<Rightarrow> (if done then Suc n else n, w2))"

definition complete_due_wrap_up :: "int \<Rightarrow> dist_world \<Rightarrow> nat \<times> dist_world" where
  "complete_due_wrap_up now w =
     (let due = filter (\<lambda>i. wi_status i = WWrapUp \<and> (case wi_wrap_due i of Some d \<Rightarrow> d \<le> now | None \<Rightarrow> False))
            (wd_items w)
      in complete_all now (map wi_id (take 500 (sort_by due_before due))) w)"

section \<open>Offers\<close>

definition insert_offer ::
  "dist_env \<Rightarrow> int \<Rightarrow> string \<Rightarrow> nat \<Rightarrow> nat \<Rightarrow> string \<Rightarrow> rat \<Rightarrow> int option \<Rightarrow> dist_world \<Rightarrow>
   (string, nat) result \<times> dist_world" where
  "insert_offer env now t item entry agent weight lease w =
     (if \<not> de_offers_up env
        \<or> list_ex (\<lambda>off. of_tenant off = t \<and> of_item off = item \<and> of_status off = OOffered) (wd_offers w)
      then (Inl ''mongo'', w)
      else (Inr (wd_next w),
            w\<lparr>wd_offers := wd_offers w @
                [\<lparr>of_id = wd_next w, of_tenant = t, of_item = item, of_entry = entry, of_agent = agent,
                  of_weight = weight, of_status = OOffered, of_expires = now + default_to 30000 lease,
                  of_responded = None, of_reason = None\<rparr>],
              wd_next := Suc (wd_next w)\<rparr>))"

definition offer_entry :: "int \<Rightarrow> string \<Rightarrow> nat \<Rightarrow> dist_world \<Rightarrow> queue_entry option \<times> dist_world" where
  "offer_entry now t item w =
     (case find_and_update (\<lambda>q. qe_tenant q = t \<and> qe_item q = item \<and> qe_status q = QWaiting)
             (\<lambda>q. q\<lparr>qe_status := QOffered, qe_offered_at := Some now\<rparr>) (wd_entries w) of
        (r, es) \<Rightarrow> (r, w\<lparr>wd_entries := es\<rparr>))"

text \<open>Back to queued, without touching \<open>assignedAt\<close>.\<close>

definition unoffer_item :: "nat \<Rightarrow> dist_world \<Rightarrow> dist_world" where
  "unoffer_item ident w =
     w\<lparr>wd_items := update_first (\<lambda>i. wi_id i = ident \<and> wi_status i = WOffered)
         (\<lambda>i. i\<lparr>wi_status := WQueued, wi_agent := None\<rparr>) (wd_items w)\<rparr>"

definition create_offer ::
  "dist_env \<Rightarrow> int \<Rightarrow> string \<Rightarrow> nat \<Rightarrow> string \<Rightarrow> int option \<Rightarrow> rat option \<Rightarrow> dist_world \<Rightarrow>
   (string, nat) result \<times> dist_world" where
  "create_offer env now t ident agent lease weight w =
     (case reserve_first_eligible_agent now t [agent] (default_to 1 weight) (wd_presence w) of (r, ps) \<Rightarrow>
        let w0 = w\<lparr>wd_presence := ps\<rparr>; free = release_capacity now t agent (default_to 1 weight) in
        if r \<noteq> Some agent then (Inl ''conflict'', w0)
        else
          case find_and_update (\<lambda>i. wi_id i = ident \<and> wi_tenant i = t \<and> wi_status i = WQueued)
                 (\<lambda>i. i\<lparr>wi_status := WOffered, wi_agent := Some agent\<rparr>) (wd_items w0) of
            (None, _) \<Rightarrow> (Inl ''conflict'', free w0)
          | (Some i, items) \<Rightarrow>
              (case offer_entry now t (wi_id i) (w0\<lparr>wd_items := items\<rparr>) of
                 (None, w1) \<Rightarrow> (Inl ''conflict'', free (unoffer_item (wi_id i) (unoffer_item (wi_id i) w1)))
               | (Some q, w1) \<Rightarrow>
                   (case insert_offer env now t (wi_id i) (qe_id q) agent (wi_weight i) lease w1 of
                      (Inr n, w2) \<Rightarrow> (Inr n, w2)
                    | (Inl e, w2) \<Rightarrow>
                        (Inl e, free (unoffer_item (wi_id i) (unoffer_entry (qe_id q) w2))))))"

definition create_offer_from_reservation ::
  "dist_env \<Rightarrow> int \<Rightarrow> string \<Rightarrow> string \<Rightarrow> string \<Rightarrow> string option \<Rightarrow> int option \<Rightarrow> dist_world \<Rightarrow> bool \<times> dist_world" where
  "create_offer_from_reservation env now t c agent grp lease w =
     (case List.find (unowned t c)
            (wd_convs w) of
        None \<Rightarrow> (False, w)
      | Some conv \<Rightarrow>
          let policy = policy_of env t (dc_inbox conv); ch = default_to [] (dc_channel conv);
              offer = (\<lambda>i. i\<lparr>wi_status := WOffered, wi_group := grp, wi_agent := Some agent\<rparr>);
              claimed = (case find_and_update (offerable t c) offer (wd_items w) of
                  (Some i, items) \<Rightarrow> Some (i, w\<lparr>wd_items := items\<rparr>)
                | (None, _) \<Rightarrow>
                    if list_ex (work_for t c) (wd_items w) then None
                    else let i = offer (new_item (wd_next w) t c (dc_inbox conv) ch
                             (resolve_capacity_weight ch (cp_weights policy)))
                         in Some (i, w\<lparr>wd_items := wd_items w @ [i], wd_next := Suc (wd_next w)\<rparr>))
          in case claimed of
               None \<Rightarrow> (False, w)
             | Some (i, w1) \<Rightarrow>
                 (case offer_entry now t (wi_id i) (ensure_queue_entry now i w1) of
                    (None, w2) \<Rightarrow> (False, unoffer_item (wi_id i) w2)
                  | (Some q, w2) \<Rightarrow>
                      (case insert_offer env now t (wi_id i) (qe_id q) agent (wi_weight i) lease w2 of
                         (Inr n, w3) \<Rightarrow>
                           (True, w3\<lparr>wd_events := wd_events w3 @
                              [OfferCreated t c (wi_id i) n agent (now + default_to 30000 lease)]\<rparr>)
                       | (Inl e, w3) \<Rightarrow> (False, unoffer_item (wi_id i) (unoffer_entry (qe_id q) w3)))))"

text \<open>The assignee of the conversation after the command.\<close>

definition execute_assign_agent ::
  "dist_env \<Rightarrow> string \<Rightarrow> string \<Rightarrow> string \<Rightarrow> dist_world \<Rightarrow> (string, string option) result \<times> dist_world" where
  "execute_assign_agent env t c agent w =
     (if \<not> de_commands_up env then (Inl ''command'', w)
      else case find_and_update (\<lambda>d. dc_id d = c \<and> dc_status d \<in> {''open'', ''pending''} \<and> dc_agent d = None)
                  (\<lambda>d. d\<lparr>dc_agent := Some agent\<rparr>) (wd_convs w) of
             (Some d, cs) \<Rightarrow>
               (Inr (dc_agent d), w\<lparr>wd_convs := cs,
                  wd_events := wd_events w @ [ConversationAssigned t c (Some agent)]\<rparr>)
           | (None, _) \<Rightarrow>
               (Inr (case List.find (\<lambda>d. dc_id d = c) (wd_convs w) of Some d \<Rightarrow> dc_agent d | None \<Rightarrow> None), w))"

definition cancel_accepted :: "nat \<Rightarrow> dist_world \<Rightarrow> dist_world" where
  "cancel_accepted n w =
     w\<lparr>wd_offers := update_first (\<lambda>off. of_id off = n \<and> of_status off = OAccepted)
         (\<lambda>off. off\<lparr>of_status := OCancelled\<rparr>) (wd_offers w)\<rparr>"

definition accept_offer ::
  "dist_env \<Rightarrow> int \<Rightarrow> string \<Rightarrow> nat \<Rightarrow> string \<Rightarrow> dist_world \<Rightarrow> (string, nat) result \<times> dist_world" where
  "accept_offer env now t n agent w =
     (case find_and_update
             (\<lambda>off. of_id off = n \<and> of_tenant off = t \<and> of_agent off = agent \<and> of_status off = OOffered \<and> of_expires off > now)
             (\<lambda>off. off\<lparr>of_status := OAccepted, of_responded := Some now\<rparr>) (wd_offers w) of
        (None, _) \<Rightarrow> (Inl ''conflict'', w)
      | (Some off, offs) \<Rightarrow>
          let w1 = w\<lparr>wd_offers := offs\<rparr> in
          case find_and_update (\<lambda>i. wi_id i = of_item off \<and> wi_tenant i = t \<and> wi_status i = WOffered)
                 (\<lambda>i. i\<lparr>wi_status := WAssigned, wi_agent := Some agent, wi_assigned_at := Some now\<rparr>) (wd_items w1) of
            (None, _) \<Rightarrow>
              (Inl ''conflict'', release_capacity now t agent (of_weight off) (cancel_accepted (of_id off) w1))
          | (Some i, items) \<Rightarrow>
              let undo = (\<lambda>w. release_capacity now t agent (of_weight off)
                    (unoffer_entry (of_entry off)
                      (requeue_item (\<lambda>x. wi_id x = wi_id i \<and> wi_status x = WAssigned \<and> wi_agent x = Some agent)
                        (cancel_accepted (of_id off) w))))
              in case execute_assign_agent env t (wi_conversation i) agent (w1\<lparr>wd_items := items\<rparr>) of
                   (Inl e, w2) \<Rightarrow> (Inl e, undo w2)
                 | (Inr owner, w2) \<Rightarrow>
                     if default_to [] owner \<noteq> agent then (Inl ''conflict'', undo w2)
                     else (Inr (wi_id i),
                           w2\<lparr>wd_entries := update_first
                               (\<lambda>q. qe_id q = of_entry off \<and> qe_tenant q = t \<and> qe_status q = QOffered)
                               (\<lambda>q. q\<lparr>qe_status := QAssigned, qe_dequeued_at := Some now\<rparr>) (wd_entries w2)\<rparr>))"

definition has_open_offer :: "int \<Rightarrow> string \<Rightarrow> dist_world \<Rightarrow> bool" where
  "has_open_offer now c w =
     (case List.find (\<lambda>i. wi_conversation i = c \<and> wi_status i = WOffered) (wd_items w) of
        None \<Rightarrow> False
      | Some i \<Rightarrow> list_ex (\<lambda>off. of_item off = wi_id i \<and> of_status off = OOffered \<and> of_expires off > now) (wd_offers w))"

definition decline_offer ::
  "int \<Rightarrow> string \<Rightarrow> nat \<Rightarrow> string \<Rightarrow> string option \<Rightarrow> dist_world \<Rightarrow> (string, nat) result \<times> dist_world" where
  "decline_offer now t n agent reason w =
     (case find_and_update
             (\<lambda>off. of_id off = n \<and> of_tenant off = t \<and> of_agent off = agent \<and> of_status off = OOffered)
             (\<lambda>off. off\<lparr>of_status := ODeclined, of_responded := Some now, of_reason := reason\<rparr>) (wd_offers w) of
        (None, _) \<Rightarrow> (Inl ''not found'', w)
      | (Some off, offs) \<Rightarrow>
          (Inr n, request_redispatch off ''offer_declined''
             (release_capacity now t agent (of_weight off) (return_to_queue off (w\<lparr>wd_offers := offs\<rparr>)))))"

definition expire_one :: "int \<Rightarrow> nat \<Rightarrow> dist_world \<Rightarrow> bool \<times> dist_world" where
  "expire_one now n w =
     (case find_and_update (\<lambda>off. of_id off = n \<and> of_status off = OOffered)
             (\<lambda>off. off\<lparr>of_status := OExpired, of_responded := Some now\<rparr>) (wd_offers w) of
        (None, _) \<Rightarrow> (False, w)
      | (Some off, offs) \<Rightarrow>
          (True, request_redispatch off ''offer_expired''
             (release_capacity now (of_tenant off) (of_agent off) (of_weight off)
               (return_to_queue off (w\<lparr>wd_offers := offs\<rparr>)))))"

fun expire_all :: "int \<Rightarrow> nat list \<Rightarrow> dist_world \<Rightarrow> nat \<times> dist_world" where
  "expire_all now [] w = (0, w)"
| "expire_all now (n # ns) w =
     (case expire_one now n w of (done, w1) \<Rightarrow>
        case expire_all now ns w1 of (k, w2) \<Rightarrow> (if done then Suc k else k, w2))"

definition expire_offers :: "int \<Rightarrow> dist_world \<Rightarrow> nat \<times> dist_world" where
  "expire_offers now w =
     expire_all now (map of_id (take 200 (filter (\<lambda>off. of_status off = OOffered \<and> of_expires off \<le> now) (wd_offers w)))) w"

section \<open>Repair\<close>

definition created_before :: "dist_conv \<Rightarrow> dist_conv \<Rightarrow> bool" where
  "created_before a b \<longleftrightarrow> dc_created a < dc_created b \<or> (dc_created a = dc_created b \<and> dc_id a \<le> dc_id b)"

fun create_missing :: "dist_env \<Rightarrow> int \<Rightarrow> dist_conv list \<Rightarrow> dist_world \<Rightarrow> (string, unit) result \<times> dist_world" where
  "create_missing env now [] w = (Inr (), w)"
| "create_missing env now (c # cs) w =
     (case on_conversation_created env now
             \<lparr>ev_tenant_id = dc_tenant c, ev_conversation = dc_id c, ev_inbox = None, ev_channel = dc_channel c,
              ev_doc_inbox = dc_inbox c, ev_doc_channel = dc_channel c, ev_doc_agent = dc_agent c\<rparr> w of
        (Inl e, w1) \<Rightarrow> (Inl e, w1)
      | (Inr _, w1) \<Rightarrow> create_missing env now cs w1)"

definition reconcile_recent_work_items :: "dist_env \<Rightarrow> int \<Rightarrow> dist_world \<Rightarrow> (string, nat) result \<times> dist_world" where
  "reconcile_recent_work_items env now w =
     (let missing = take 200 (sort_by created_before (filter (\<lambda>c.
            dc_created c \<ge> now - 24 * 60 * 60000 \<and> dc_status c \<in> {''open'', ''pending''}
            \<and> \<not> list_ex (\<lambda>i. wi_conversation i = dc_id c) (wd_items w)) (wd_convs w)))
      in case create_missing env now missing w of
           (Inl e, w1) \<Rightarrow> (Inl e, w1)
         | (Inr _, w1) \<Rightarrow> (Inr (length missing), w1))"

section \<open>Reconciliation of the presence counters\<close>

definition holds_capacity :: "string \<Rightarrow> string \<Rightarrow> work_item \<Rightarrow> bool" where
  "holds_capacity t u i \<longleftrightarrow> wi_tenant i = t \<and> wi_agent i = Some u
     \<and> wi_status i \<in> {WOffered, WAssigned, WActive, WWrapUp} \<and> wi_released i = None"

definition workload_of :: "string \<Rightarrow> string \<Rightarrow> dist_world \<Rightarrow> int \<times> rat" where
  "workload_of t u w =
     (let held = filter (holds_capacity t u) (wd_items w)
      in (int (length held), sum_list (map wi_weight held)))"

definition patch_if_drifted :: "int \<Rightarrow> string \<Rightarrow> string \<Rightarrow> presence \<Rightarrow> dist_world \<Rightarrow> bool \<times> dist_world" where
  "patch_if_drifted now t u p w =
     (case workload_of t u w of (count, units) \<Rightarrow>
        if ap_active p \<noteq> count \<or> units_of p \<noteq> units
        then (True, w\<lparr>wd_presence := patch_active_conversations now t u count units (wd_presence w)\<rparr>)
        else (False, w))"

definition reconcile_agent :: "int \<Rightarrow> string \<Rightarrow> string \<Rightarrow> dist_world \<Rightarrow> dist_world" where
  "reconcile_agent now t u w =
     (case get_presence now t u (wd_presence w) of
        (None, ps) \<Rightarrow> w\<lparr>wd_presence := ps\<rparr>
      | (Some p, ps) \<Rightarrow> snd (patch_if_drifted now t u p (w\<lparr>wd_presence := ps\<rparr>)))"

fun patch_agents :: "int \<Rightarrow> string \<Rightarrow> presence list \<Rightarrow> dist_world \<Rightarrow> nat \<times> dist_world" where
  "patch_agents now t [] w = (0, w)"
| "patch_agents now t (p # ps) w =
     (case patch_if_drifted now t (ap_user p) p w of (d, w1) \<Rightarrow>
        case patch_agents now t ps w1 of (n, w2) \<Rightarrow> (if d then Suc n else n, w2))"

definition reconcile_tenant :: "int \<Rightarrow> string \<Rightarrow> string list \<Rightarrow> dist_world \<Rightarrow> nat \<times> dist_world" where
  "reconcile_tenant now t members w =
     (case get_all_agents now t members (wd_presence w) of (agents, ps) \<Rightarrow>
        patch_agents now t agents (w\<lparr>wd_presence := ps\<rparr>))"

end
