(* ===== verification/Work_Distribution_Safety.thy ===== *)
theory Work_Distribution_Safety
  imports Work_Distribution Conversation_Adapter_Safety
begin

text \<open>
  What the distribution of work keeps: the load of every agent is what it was plus the weights of
  the agent's open and accepted offers, over any interleaving of the offer operations; a lapsed
  item is announced a bounded number of times; closing twice releases once; the reconciliation
  writes the workload of the items.
\<close>

section \<open>Load and offers\<close>

definition load_of :: "pstore \<Rightarrow> string \<Rightarrow> string \<Rightarrow> rat option" where
  "load_of ps t u = map_option units_of (ps_hash ps t u)"

definition contrib :: "string \<Rightarrow> string \<Rightarrow> work_offer \<Rightarrow> rat" where
  "contrib t u off =
     (if of_tenant off = t \<and> of_agent off = u \<and> of_status off \<in> {OOffered, OAccepted} then of_weight off else 0)"

definition held :: "string \<Rightarrow> string \<Rightarrow> work_offer list \<Rightarrow> rat" where
  "held t u offs = sum_list (map (contrib t u) offs)"

lemma held_simps [simp]:
  "held t u [] = 0" "held t u (off # offs) = contrib t u off + held t u offs"
  "held t u (xs @ ys) = held t u xs + held t u ys"
  by (simp_all add: held_def)

lemma load_release:
  "load_of (release_conversation now t u wt ps) t' u' =
     (if t' = t \<and> u' = u then map_option (\<lambda>n. max 0 (n - wt)) (load_of ps t u) else load_of ps t' u')"
  by (auto simp: load_of_def release_conversation_def lua_atomic_release_def Let_def book_def
      recompute_display_eq units_of_def split: option.split)

lemma load_reserved:
  assumes "0 < wt" "conv_script now t ids strat cap wt ps = (Some a, ps')"
  shows "\<exists>n. load_of ps t a = Some n \<and> load_of ps' t a = Some (n + wt)"
    and "(t', u') \<noteq> (t, a) \<Longrightarrow> load_of ps' t' u' = load_of ps t' u'"
proof -
  obtain s c where s: "routing_script s c" "s t (clean_candidates ids) now wt ps = (Some a, ps')"
    and "\<forall>d. ap_max d > 0 \<longrightarrow> c d = ap_max d"
    by (rule conv_script_cases[OF assms])
  from routing_script.capacity_kept[OF s(1) assms(1) s(2)]
  show "\<exists>n. load_of ps t a = Some n \<and> load_of ps' t a = Some (n + wt)" by (auto simp: load_of_def)
  show "(t', u') \<noteq> (t, a) \<Longrightarrow> load_of ps' t' u' = load_of ps t' u'"
    using routing_script.others_untouched[OF s(1) assms(1) s(2), of t' u'] by (simp add: load_of_def)
qed

lemma first_eligible_is_script:
  "reserve_first_eligible_agent now t ids wt ps = conv_script now t ids RoundRobin cap wt ps"
  by (simp add: conv_script_def)

lemma reserve_refused_unchanged:
  assumes "0 < wt" "reserve_first_eligible_agent now t ids wt ps = (None, ps')"
  shows "ps' = ps"
  using first_fit.refuses[OF assms(1)] assms(2)
  by (auto simp: reserve_first_eligible_agent_def split: if_splits)

section \<open>The offer operations\<close>

text \<open>The weight an offer for a conversation will have.\<close>

definition offer_weight :: "dist_env \<Rightarrow> string \<Rightarrow> string \<Rightarrow> dist_world \<Rightarrow> rat" where
  "offer_weight env t c w =
     (case List.find (offerable t c) (wd_items w) of
        Some i \<Rightarrow> wi_weight i
      | None \<Rightarrow>
          (case List.find (unowned t c)
                  (wd_convs w) of
             Some d \<Rightarrow> resolve_capacity_weight (default_to [] (dc_channel d)) (cp_weights (policy_of env t (dc_inbox d)))
           | None \<Rightarrow> 1))"

text \<open>
  A dispatch is what the assignment core does with a conversation: a script reserves an agent,
  the commit hook makes the offer, and a refused commit releases the reservation.
\<close>

definition dispatch ::
  "dist_env \<Rightarrow> int \<Rightarrow> string \<Rightarrow> string \<Rightarrow> string list \<Rightarrow> strategy \<Rightarrow> rat \<Rightarrow> rat \<Rightarrow> string option \<Rightarrow> int option \<Rightarrow>
   dist_world \<Rightarrow> dist_world" where
  "dispatch env now t c ids strat cap wt grp lease w =
     (case conv_script now t ids strat cap wt (wd_presence w) of
        (None, ps) \<Rightarrow> w
      | (Some a, ps) \<Rightarrow>
          (case create_offer_from_reservation env now t c a grp lease (w\<lparr>wd_presence := ps\<rparr>) of
             (ok, w1) \<Rightarrow> if ok then w1 else release_capacity now t a wt w1))"

inductive offer_step :: "dist_env \<Rightarrow> dist_world \<Rightarrow> dist_world \<Rightarrow> bool" for env where
  dispatch: "0 < wt \<Longrightarrow> wt = offer_weight env t c w \<Longrightarrow>
     offer_step env w (dispatch env now t c ids strat cap wt grp lease w)"
| create: "0 < wt \<Longrightarrow> (\<And>i. i \<in> set (wd_items w) \<Longrightarrow> wi_id i = n \<Longrightarrow> wi_weight i = wt) \<Longrightarrow>
     offer_step env w (snd (create_offer env now t n agent lease (Some wt) w))"
| accept: "offer_step env w (snd (accept_offer env now t n agent w))"
| decline: "offer_step env w (snd (decline_offer now t n agent reason w))"
| expire: "offer_step env w (snd (expire_offers now w))"
| created: "offer_step env w (snd (on_conversation_created env now e w))"
| assigned: "offer_step env w (on_conversation_assigned now t c who w)"

inductive offer_run :: "dist_env \<Rightarrow> dist_world \<Rightarrow> dist_world \<Rightarrow> bool" for env w0 where
  start: "offer_run env w0 w0"
| step: "offer_run env w0 w \<Longrightarrow> offer_step env w w' \<Longrightarrow> offer_run env w0 w'"

definition offers_ok :: "dist_world \<Rightarrow> bool" where
  "offers_ok w \<longleftrightarrow> distinct (map of_id (wd_offers w)) \<and> (\<forall>off \<in> set (wd_offers w). of_id off < wd_next w \<and> 0 \<le> of_weight off)"

definition balanced :: "(string \<Rightarrow> string \<Rightarrow> rat) \<Rightarrow> dist_world \<Rightarrow> bool" where
  "balanced base w \<longleftrightarrow> offers_ok w \<and>
     (\<forall>t u n. load_of (wd_presence w) t u = Some n \<longrightarrow> n = base t u + held t u (wd_offers w))"

text \<open>What the balance depends on, and the operations that leave it alone.\<close>

definition same_load :: "dist_world \<Rightarrow> dist_world \<Rightarrow> bool" where
  "same_load w w' \<longleftrightarrow> wd_presence w' = wd_presence w \<and> wd_offers w' = wd_offers w \<and> wd_next w \<le> wd_next w'"

lemma same_load_refl [simp]: "same_load w w"
  by (simp add: same_load_def)

lemma same_load_trans: "same_load a b \<Longrightarrow> same_load b c \<Longrightarrow> same_load a c"
  by (simp add: same_load_def)

lemma same_load_balanced: "same_load w w' \<Longrightarrow> balanced base w \<Longrightarrow> balanced base w'"
  by (fastforce simp: same_load_def balanced_def offers_ok_def)

lemma same_load_ops [simp]:
  "same_load w (requeue_item P w)" "same_load w (unoffer_entry q w)" "same_load w (unoffer_item n w)"
  "same_load w (ensure_queue_entry now i w)" "same_load w (return_to_queue off w)"
  "same_load w (request_redispatch off r w)" "same_load w (w\<lparr>wd_items := items\<rparr>)"
  "same_load w (snd (offer_entry now t n w))"
  by (auto simp: same_load_def requeue_item_def unoffer_entry_def unoffer_item_def ensure_queue_entry_def
      return_to_queue_def request_redispatch_def offer_entry_def split: prod.split option.split)

lemma same_load_created: "same_load w (snd (on_conversation_created env now e w))"
  by (auto simp: on_conversation_created_def Let_def same_load_def ensure_queue_entry_def split: option.split)

lemma same_load_assigned: "same_load w (on_conversation_assigned now t c who w)"
  by (auto simp: on_conversation_assigned_def Let_def same_load_def ensure_queue_entry_def
      split: option.split prod.split)

lemma same_load_assign: "same_load w (snd (execute_assign_agent env t c agent w))"
  by (auto simp: execute_assign_agent_def same_load_def split: option.split prod.split)

lemma release_same [simp]:
  "wd_offers (release_capacity now t u wt w) = wd_offers w" "wd_next (release_capacity now t u wt w) = wd_next w"
  "wd_presence (release_capacity now t u wt w) = release_conversation now t u wt (wd_presence w)"
  by (simp_all add: release_capacity_def)

lemma held_nonneg: "\<forall>off \<in> set offs. 0 \<le> of_weight off \<Longrightarrow> 0 \<le> held t u offs"
  by (induction offs) (auto simp: contrib_def)

lemma balancedD: "balanced base w \<Longrightarrow> load_of (wd_presence w) t u = Some n \<Longrightarrow> n = base t u + held t u (wd_offers w)"
  by (simp add: balanced_def)

text \<open>An offer that stops holding its weight, with the release of that weight.\<close>

lemma balanced_release:
  assumes bal: "balanced base w" and base: "\<And>t u. 0 \<le> base t u"
    and offs: "wd_offers w = as @ off # bs" "of_status off \<in> {OOffered, OAccepted}"
    and off': "of_id off' = of_id off" "of_weight off' = of_weight off" "of_tenant off' = of_tenant off"
      "of_agent off' = of_agent off" "of_status off' \<notin> {OOffered, OAccepted}"
    and w': "wd_offers w' = as @ off' # bs" "wd_next w \<le> wd_next w'"
      "wd_presence w' = release_conversation now (of_tenant off) (of_agent off) (of_weight off) (wd_presence w)"
  shows "balanced base w'"
proof -
  have ok: "offers_ok w'"
  proof -
    from bal offs(1) have d: "distinct (map of_id (as @ off # bs))"
      "\<And>x. x \<in> set (as @ off # bs) \<Longrightarrow> of_id x < wd_next w \<and> 0 \<le> of_weight x"
      by (auto simp: balanced_def offers_ok_def)
    from d(2) have lt: "of_id x < wd_next w' \<and> 0 \<le> of_weight x" if "x \<in> set (as @ off # bs)" for x
      using that w'(2) less_le_trans by blast
    then have "\<forall>x \<in> set (as @ off' # bs). of_id x < wd_next w' \<and> 0 \<le> of_weight x"
      using off'(1,2) by simp
    with d(1) show ?thesis by (simp add: offers_ok_def w'(1) off'(1))
  qed
  have "0 \<le> held t u as" "0 \<le> held t u bs" for t u
    using bal offs(1) by (auto simp: balanced_def offers_ok_def intro: held_nonneg)
  then have nn: "0 \<le> base t u + (held t u as + held t u bs)" for t u using base[of t u] by (simp add: add_nonneg_nonneg)
  show ?thesis
    unfolding balanced_def
  proof (intro conjI ok allI impI)
    fix t u n assume n: "load_of (wd_presence w') t u = Some n"
    show "n = base t u + held t u (wd_offers w')"
    proof (cases "t = of_tenant off \<and> u = of_agent off")
      case True
      with n w'(3) obtain m where m: "load_of (wd_presence w) t u = Some m" "n = max 0 (m - of_weight off)"
        by (auto simp: load_release)
      from balancedD[OF bal m(1)] offs True have "m = base t u + (held t u as + (of_weight off + held t u bs))"
        by (auto simp: contrib_def)
      with m(2) nn[of t u] True off' w'(1) show ?thesis by (auto simp: contrib_def max_def)
    next
      case False
      with n w'(3) have "load_of (wd_presence w) t u = Some n" by (auto simp: load_release)
      from balancedD[OF bal this] have "n = base t u + held t u (wd_offers w)" .
      with False offs(1) off' w'(1) show ?thesis by (auto simp: contrib_def)
    qed
  qed
qed

text \<open>A reservation of \<open>wt\<close> units for an agent.\<close>

definition reserved :: "string \<Rightarrow> string \<Rightarrow> rat \<Rightarrow> pstore \<Rightarrow> pstore \<Rightarrow> bool" where
  "reserved t a wt ps ps' \<longleftrightarrow>
     (\<exists>n. load_of ps t a = Some n \<and> load_of ps' t a = Some (n + wt))
     \<and> (\<forall>t' u'. (t', u') \<noteq> (t, a) \<longrightarrow> load_of ps' t' u' = load_of ps t' u')"

lemma script_reserved: "0 < wt \<Longrightarrow> conv_script now t ids strat cap wt ps = (Some a, ps') \<Longrightarrow> reserved t a wt ps ps'"
  unfolding reserved_def using load_reserved by blast

definition offered_more :: "string \<Rightarrow> string \<Rightarrow> rat \<Rightarrow> dist_world \<Rightarrow> dist_world \<Rightarrow> bool" where
  "offered_more t a wt w w' \<longleftrightarrow> wd_presence w' = wd_presence w \<and>
     (\<exists>off. wd_offers w' = wd_offers w @ [off] \<and> of_tenant off = t \<and> of_agent off = a \<and> of_weight off = wt
        \<and> of_status off = OOffered \<and> wd_next w \<le> of_id off \<and> of_id off < wd_next w')"

lemma balanced_offered:
  assumes bal: "balanced base w" and "reserved t a wt (wd_presence w) ps" "0 \<le> wt"
    and "offered_more t a wt (w\<lparr>wd_presence := ps\<rparr>) w'"
  shows "balanced base w'"
proof -
  obtain off where off: "wd_offers w' = wd_offers w @ [off]" "of_tenant off = t" "of_agent off = a"
    "of_weight off = wt" "of_status off = OOffered" "wd_next w \<le> of_id off" "of_id off < wd_next w'"
    and ps: "wd_presence w' = ps" using assms(4) by (auto simp: offered_more_def)
  have d: "distinct (map of_id (wd_offers w))"
    "\<And>x. x \<in> set (wd_offers w) \<Longrightarrow> of_id x < wd_next w \<and> 0 \<le> of_weight x"
    using bal by (auto simp: balanced_def offers_ok_def)
  from d(2) off(6) have fresh: "of_id off \<notin> of_id ` set (wd_offers w)" by force
  from d(2) off(6,7) have lt: "\<forall>x \<in> set (wd_offers w). of_id x < wd_next w' \<and> 0 \<le> of_weight x"
    by (meson le_less_trans less_le_trans order_less_le)
  have ok: "offers_ok w'" using d(1) fresh lt off assms(3) by (simp add: offers_ok_def)
  show ?thesis
    unfolding balanced_def
  proof (intro conjI ok allI impI)
    fix t' u' n assume n: "load_of (wd_presence w') t' u' = Some n"
    show "n = base t' u' + held t' u' (wd_offers w')"
    proof (cases "t' = t \<and> u' = a")
      case True
      with assms(2) n ps obtain m where m: "load_of (wd_presence w) t a = Some m" "n = m + wt"
        by (auto simp: reserved_def)
      from balancedD[OF bal m(1)] m(2) True off show ?thesis by (simp add: contrib_def)
    next
      case False
      with assms(2) n ps have "load_of (wd_presence w) t' u' = Some n" by (auto simp: reserved_def)
      from balancedD[OF bal this] False off show ?thesis by (auto simp: contrib_def)
    qed
  qed
qed

lemma balanced_undone:
  assumes bal: "balanced base w" and base: "\<And>t u. 0 \<le> base t u"
    and "reserved t a wt (wd_presence w) ps" "same_load (w\<lparr>wd_presence := ps\<rparr>) w1"
  shows "balanced base (release_capacity now t a wt w1)"
proof -
  have eq: "wd_offers w1 = wd_offers w" "wd_presence w1 = ps" "wd_next w \<le> wd_next w1"
    using assms(4) by (simp_all add: same_load_def)
  have "offers_ok w1"
    using bal eq by (auto simp: balanced_def offers_ok_def intro: less_le_trans)
  moreover have "n = base t' u' + held t' u' (wd_offers w)"
    if n: "load_of (release_conversation now t a wt ps) t' u' = Some n" for t' u' n
  proof (cases "t' = t \<and> u' = a")
    case True
    with assms(3) n obtain m where m: "load_of (wd_presence w) t a = Some m" "n = max 0 m"
      by (auto simp: reserved_def load_release)
    have "0 \<le> held t a (wd_offers w)" using bal by (auto simp: balanced_def offers_ok_def intro: held_nonneg)
    with balancedD[OF bal m(1)] m(2) base[of t a] True show ?thesis by (simp add: max_def)
  next
    case False
    with assms(3) n have "load_of (wd_presence w) t' u' = Some n" by (auto simp: reserved_def load_release)
    from balancedD[OF bal this] show ?thesis .
  qed
  ultimately show ?thesis by (simp add: balanced_def offers_ok_def eq)
qed

section \<open>Every operation keeps the balance\<close>

lemma insert_offer_cases:
  assumes "insert_offer env now t item entry agent wt lease w = (r, w')"
  shows "case r of Inl e \<Rightarrow> w' = w | Inr n \<Rightarrow> offered_more t agent wt w w'"
  using assms by (auto simp: insert_offer_def offered_more_def split: if_splits)

lemma offered_more_trans:
  "same_load a b \<Longrightarrow> offered_more t u wt b c \<Longrightarrow> offered_more t u wt a c"
  by (fastforce simp: same_load_def offered_more_def)

lemma from_reservation_cases:
  assumes "create_offer_from_reservation env now t c a grp lease w = (ok, w')"
  shows "if ok then offered_more t a (offer_weight env t c w) w w' else same_load w w'"
proof -
  note offer_cases = insert_offer_cases[of env now t _ _ a _ lease]
  have claim: "if ok then offered_more t a (wi_weight i) w w' else same_load w w'"
    if "(case offer_entry now t (wi_id i) (ensure_queue_entry now i w1) of
          (None, w2) \<Rightarrow> (False, unoffer_item (wi_id i) w2)
        | (Some q, w2) \<Rightarrow>
            (case insert_offer env now t (wi_id i) (qe_id q) a (wi_weight i) lease w2 of
               (Inr n, w3) \<Rightarrow> (True, w3\<lparr>wd_events := wd_events w3 @
                    [OfferCreated t c (wi_id i) n a (now + default_to 30000 lease)]\<rparr>)
             | (Inl e, w3) \<Rightarrow> (False, unoffer_item (wi_id i) (unoffer_entry (qe_id q) w3)))) = (ok, w')"
      "same_load w w1" for i w1
  proof -
    obtain r w2 where oe: "offer_entry now t (wi_id i) (ensure_queue_entry now i w1) = (r, w2)" by fastforce
    have sl: "same_load w w2"
      using same_load_trans[OF that(2) same_load_trans[OF same_load_ops(4) same_load_ops(8)]] oe
      by (metis snd_conv)
    show ?thesis
    proof (cases r)
      case None
      with that(1) oe same_load_trans[OF sl same_load_ops(3)] show ?thesis by auto
    next
      case (Some q)
      obtain ir w3 where ins: "insert_offer env now t (wi_id i) (qe_id q) a (wi_weight i) lease w2 = (ir, w3)"
        by fastforce
      show ?thesis
      proof (cases ir)
        case (Inl e)
        with offer_cases[OF ins] have "w3 = w2" by simp
        with that(1) oe Some ins Inl same_load_trans[OF sl same_load_trans[OF same_load_ops(2) same_load_ops(3)]]
        show ?thesis by auto
      next
        case (Inr n)
        with offer_cases[OF ins] have "offered_more t a (wi_weight i) w2 w3" by simp
        from offered_more_trans[OF sl this] that(1) oe Some ins Inr show ?thesis
          by (auto simp: offered_more_def)
      qed
    qed
  qed
  show ?thesis
  proof (cases "List.find (unowned t c)
      (wd_convs w)")
    case None
    with assms show ?thesis by (simp add: create_offer_from_reservation_def)
  next
    case (Some conv)
    note cv = this
    let ?f = "\<lambda>i. i\<lparr>wi_status := WOffered, wi_group := grp, wi_agent := Some a\<rparr>"
    let ?P = "offerable t c"
    obtain r items where f: "find_and_update ?P ?f (wd_items w) = (r, items)" by fastforce
    show ?thesis
    proof (cases r)
      case (Some i)
      with find_and_update_found[of ?f ?P "wd_items w"] f obtain d where
        d: "List.find ?P (wd_items w) = Some d" "i = ?f d" by auto
      have wt: "wi_weight i = offer_weight env t c w" using d by (simp add: offer_weight_def)
      show ?thesis
        unfolding wt[symmetric]
        by (rule claim[of i "w\<lparr>wd_items := items\<rparr>"])
          (use assms cv Some f in \<open>simp_all add: create_offer_from_reservation_def Let_def\<close>)
    next
      case None
      show ?thesis
      proof (cases "list_ex (work_for t c) (wd_items w)")
        case True
        with assms None cv f show ?thesis
          by (simp add: create_offer_from_reservation_def Let_def)
      next
        case False
        let ?i = "?f (new_item (wd_next w) t c (dc_inbox conv) (default_to [] (dc_channel conv))
           (resolve_capacity_weight (default_to [] (dc_channel conv)) (cp_weights (policy_of env t (dc_inbox conv)))))"
        from find_and_update_found[of ?f ?P "wd_items w"] f None have nf: "List.find ?P (wd_items w) = None" by simp
        have wt: "wi_weight ?i = offer_weight env t c w" using nf cv by (simp add: offer_weight_def new_item_def)
        show ?thesis
          unfolding wt[symmetric]
          by (rule claim[of ?i "w\<lparr>wd_items := wd_items w @ [?i], wd_next := Suc (wd_next w)\<rparr>"])
            (use assms cv None False f in \<open>simp_all add: create_offer_from_reservation_def Let_def same_load_def\<close>)
      qed
    qed
  qed
qed


lemma offer_weight_presence [simp]: "offer_weight env t c (w\<lparr>wd_presence := ps\<rparr>) = offer_weight env t c w"
  by (simp add: offer_weight_def split: option.split)

lemma balanced_dispatch:
  assumes "balanced base w" "\<And>t u. 0 \<le> base t u" "0 < wt" "wt = offer_weight env t c w"
  shows "balanced base (dispatch env now t c ids strat cap wt grp lease w)"
proof -
  obtain r ps where s: "conv_script now t ids strat cap wt (wd_presence w) = (r, ps)" by fastforce
  show ?thesis
  proof (cases r)
    case None
    with s assms(1) show ?thesis by (simp add: dispatch_def)
  next
    case (Some a)
    have res: "reserved t a wt (wd_presence w) ps" using script_reserved[OF assms(3)] s Some by blast
    obtain ok w1 where o1: "create_offer_from_reservation env now t c a grp lease (w\<lparr>wd_presence := ps\<rparr>) = (ok, w1)"
      by fastforce
    from from_reservation_cases[OF o1] assms(4)
    have k: "if ok then offered_more t a wt (w\<lparr>wd_presence := ps\<rparr>) w1 else same_load (w\<lparr>wd_presence := ps\<rparr>) w1"
      by (simp split: if_splits)
    show ?thesis
    proof (cases ok)
      case True
      with k balanced_offered[OF assms(1) res] assms(3) s Some o1 show ?thesis by (simp add: dispatch_def)
    next
      case False
      with k balanced_undone[OF assms(1,2) res] s Some o1 show ?thesis by (simp add: dispatch_def)
    qed
  qed
qed

lemma balanced_create:
  assumes bal: "balanced base w" and base: "\<And>t u. 0 \<le> base t u" and wt: "0 < wt"
    and same: "\<And>i. i \<in> set (wd_items w) \<Longrightarrow> wi_id i = ident \<Longrightarrow> wi_weight i = wt"
  shows "balanced base (snd (create_offer env now t ident agent lease (Some wt) w))"
proof -
  obtain r ps where s: "reserve_first_eligible_agent now t [agent] wt (wd_presence w) = (r, ps)" by fastforce
  note sc = s[unfolded first_eligible_is_script[where cap = 0]]
  show ?thesis
  proof (cases r)
    case None
    with reserve_refused_unchanged[OF wt] s have "ps = wd_presence w" by blast
    then have "w\<lparr>wd_presence := ps\<rparr> = w" by simp
    with s None bal show ?thesis by (simp add: create_offer_def)
  next
    case (Some a)
    with sc conv_script_in have a: "a = agent" by fastforce
    from script_reserved[OF wt] sc Some a have res: "reserved t agent wt (wd_presence w) ps" by blast
    let ?w0 = "w\<lparr>wd_presence := ps\<rparr>"
    let ?P = "\<lambda>i. wi_id i = ident \<and> wi_tenant i = t \<and> wi_status i = WQueued"
    let ?f = "\<lambda>i. i\<lparr>wi_status := WOffered, wi_agent := Some agent\<rparr>"
    note undone = balanced_undone[OF bal base res]
    note more = balanced_offered[OF bal res order_less_imp_le[OF wt]]
    obtain ri items where f: "find_and_update ?P ?f (wd_items w) = (ri, items)" by fastforce
    show ?thesis
    proof (cases ri)
      case None
      with s Some a f undone[of ?w0] show ?thesis by (simp add: create_offer_def)
    next
      case (Some i)
      obtain d where "d \<in> set (wd_items w)" "i = ?f d" "?P d"
        using find_and_update_in[OF f[unfolded Some]] by blast
      with same have iw: "wi_weight i = wt" by simp
      obtain q w1 where e: "offer_entry now t (wi_id i) (?w0\<lparr>wd_items := items\<rparr>) = (q, w1)" by fastforce
      have sl: "same_load ?w0 w1"
        using same_load_trans[OF same_load_ops(7) same_load_ops(8)] e by (metis snd_conv)
      note head = s \<open>r = Some a\<close> a f Some e
      show ?thesis
      proof (cases q)
        case None
        with head undone[of "unoffer_item (wi_id i) (unoffer_item (wi_id i) w1)"]
          same_load_trans[OF sl same_load_trans[OF same_load_ops(3) same_load_ops(3)]]
        show ?thesis by (simp add: create_offer_def)
      next
        case (Some qe)
        obtain x w2 where ins: "insert_offer env now t (wi_id i) (qe_id qe) agent wt lease w1 = (x, w2)" by fastforce
        show ?thesis
        proof (cases x)
          case (Inl e')
          with insert_offer_cases[OF ins] have "w2 = w1" by simp
          with head Some ins Inl iw undone[of "unoffer_item (wi_id i) (unoffer_entry (qe_id qe) w1)"]
            same_load_trans[OF sl same_load_trans[OF same_load_ops(2) same_load_ops(3)]]
          show ?thesis by (simp add: create_offer_def)
        next
          case (Inr n)
          with insert_offer_cases[OF ins] have "offered_more t agent wt w1 w2" by simp
          from more[OF offered_more_trans[OF sl this]] head Some ins Inr iw show ?thesis
            by (simp add: create_offer_def)
        qed
      qed
    qed
  qed
qed


text \<open>An offer that changes without changing what it holds.\<close>

lemma balanced_restatus:
  assumes "balanced base w" "wd_offers w = as @ off # bs" "wd_offers w' = as @ off' # bs"
    "of_id off' = of_id off" "of_weight off' = of_weight off" "\<And>t u. contrib t u off' = contrib t u off"
    "wd_presence w' = wd_presence w" "wd_next w' = wd_next w"
  shows "balanced base w'"
  using assms by (auto simp: balanced_def offers_ok_def)

lemma cancel_accepted_at:
  assumes "wd_offers w = as @ off # bs" "of_status off = OAccepted" "distinct (map of_id (wd_offers w))"
  shows "wd_offers (cancel_accepted (of_id off) w) = as @ off\<lparr>of_status := OCancelled\<rparr> # bs"
proof -
  have "of_id off \<notin> of_id ` set as" using assms(1,3) by simp
  then have "\<forall>d \<in> set as. \<not> (of_id d = of_id off \<and> of_status d = OAccepted)" by (metis imageI)
  then show ?thesis using assms(1,2) by (simp add: cancel_accepted_def update_first_append update_first_hit)
qed

lemma cancel_accepted_same [simp]:
  "wd_presence (cancel_accepted n w) = wd_presence w" "wd_next (cancel_accepted n w) = wd_next w"
  "wd_items (cancel_accepted n w) = wd_items w"
  by (simp_all add: cancel_accepted_def)

lemma same_loadD: "same_load a b \<Longrightarrow> wd_presence b = wd_presence a \<and> wd_offers b = wd_offers a \<and> wd_next a \<le> wd_next b"
  by (simp add: same_load_def)

lemma balanced_cancelled:
  assumes bal: "balanced base w" and base: "\<And>t u. 0 \<le> base t u"
    and offs: "wd_offers w = as @ off # bs" "of_status off = OAccepted"
    and own: "of_tenant off = t" "of_agent off = agent"
    and w1: "same_load (cancel_accepted (of_id off) w) w1"
  shows "balanced base (release_capacity now t agent (of_weight off) w1)"
proof (rule balanced_release[OF bal base offs(1), of "off\<lparr>of_status := OCancelled\<rparr>" _ now])
  have "distinct (map of_id (wd_offers w))" using bal by (simp add: balanced_def offers_ok_def)
  from cancel_accepted_at[OF offs this] same_loadD[OF w1]
  show "wd_offers (release_capacity now t agent (of_weight off) w1) = as @ off\<lparr>of_status := OCancelled\<rparr> # bs"
    "wd_next w \<le> wd_next (release_capacity now t agent (of_weight off) w1)"
    "wd_presence (release_capacity now t agent (of_weight off) w1)
       = release_conversation now (of_tenant off) (of_agent off) (of_weight off) (wd_presence w)"
    by (simp_all add: own)
qed (use offs(2) in simp_all)

lemma balanced_accept:
  assumes bal: "balanced base w" and base: "\<And>t u. 0 \<le> base t u"
  shows "balanced base (snd (accept_offer env now t n agent w))"
proof -
  let ?P = "\<lambda>off. of_id off = n \<and> of_tenant off = t \<and> of_agent off = agent \<and> of_status off = OOffered \<and> of_expires off > now"
  let ?f = "\<lambda>off. off\<lparr>of_status := OAccepted, of_responded := Some now\<rparr>"
  obtain r offs where f: "find_and_update ?P ?f (wd_offers w) = (r, offs)" by fastforce
  show ?thesis
  proof (cases r)
    case None
    with f bal show ?thesis by (simp add: accept_offer_def)
  next
    case (Some off)
    from find_and_update_split[OF f[unfolded Some]] obtain as d bs where
      d: "wd_offers w = as @ d # bs" "offs = as @ off # bs" "off = ?f d" "?P d" by metis
    let ?w1 = "w\<lparr>wd_offers := offs\<rparr>"
    have bal1: "balanced base ?w1"
      by (rule balanced_restatus[OF bal d(1), of _ off]) (use d in \<open>simp_all add: contrib_def\<close>)
    let ?Q = "\<lambda>i. wi_id i = of_item off \<and> wi_tenant i = t \<and> wi_status i = WOffered"
    let ?g = "\<lambda>i. i\<lparr>wi_status := WAssigned, wi_agent := Some agent, wi_assigned_at := Some now\<rparr>"
    obtain ri items where g: "find_and_update ?Q ?g (wd_items ?w1) = (ri, items)" by fastforce
    have acc: "of_status off = OAccepted" "of_tenant off = t" "of_agent off = agent" using d by simp_all
    have undo: "balanced base (release_capacity now t agent (of_weight off) w3)"
      if "same_load ?w1 w2" "same_load (cancel_accepted (of_id off) w2) w3" for w2 w3
      using balanced_cancelled[OF same_load_balanced[OF that(1) bal1] base _ acc that(2), of as bs now]
        same_loadD[OF that(1)] d(2) by simp
    show ?thesis
    proof (cases ri)
      case None
      with f Some g undo[OF same_load_refl same_load_refl] show ?thesis by (simp add: accept_offer_def Let_def)
    next
      case (Some i)
      obtain x w2 where e: "execute_assign_agent env t (wi_conversation i) agent (?w1\<lparr>wd_items := items\<rparr>) = (x, w2)"
        by fastforce
      have sl: "same_load ?w1 w2"
        using same_load_trans[OF same_load_ops(7) same_load_assign] e by (metis snd_conv)
      note und = undo[OF sl same_load_trans[OF same_load_ops(1) same_load_ops(2)]]
      have "balanced base w2" by (rule same_load_balanced[OF sl bal1])
      then have done1: "balanced base (w2\<lparr>wd_entries := es\<rparr>)" for es
        by (rule same_load_balanced[rotated]) (simp add: same_load_def)
      show ?thesis
        using f \<open>r = Some off\<close> g Some e und done1 by (cases x) (auto simp: accept_offer_def Let_def)
    qed
  qed
qed

text \<open>An offer that lapses, by its agent or by its lease.\<close>

lemma balanced_lapse:
  assumes bal: "balanced base w" and base: "\<And>t u. 0 \<le> base t u"
    and f: "find_and_update P g (wd_offers w) = (Some off, offs)"
    and P: "\<And>d. P d \<Longrightarrow> of_status d = OOffered"
    and g: "\<And>d. of_id (g d) = of_id d \<and> of_weight (g d) = of_weight d \<and> of_tenant (g d) = of_tenant d
        \<and> of_agent (g d) = of_agent d \<and> of_status (g d) \<notin> {OOffered, OAccepted}"
  shows "balanced base (request_redispatch off reason
     (release_capacity now (of_tenant off) (of_agent off) (of_weight off) (return_to_queue off (w\<lparr>wd_offers := offs\<rparr>))))"
    (is "balanced base (request_redispatch off reason ?w1)")
proof -
  from find_and_update_split[OF f] obtain as d bs where
    d: "wd_offers w = as @ d # bs" "offs = as @ off # bs" "off = g d" "P d" by metis
  have "balanced base ?w1"
    using same_loadD[OF same_load_ops(5)[of "w\<lparr>wd_offers := offs\<rparr>" off]] g[of d] P[OF d(4)] d(2,3)
    by (intro balanced_release[OF bal base d(1), of off _ now]) simp_all
  then show ?thesis by (rule same_load_balanced[rotated]) simp
qed

lemma balanced_decline:
  assumes bal: "balanced base w" and base: "\<And>t u. 0 \<le> base t u"
  shows "balanced base (snd (decline_offer now t n agent reason w))"
proof -
  let ?P = "\<lambda>off. of_id off = n \<and> of_tenant off = t \<and> of_agent off = agent \<and> of_status off = OOffered"
  let ?f = "\<lambda>off. off\<lparr>of_status := ODeclined, of_responded := Some now, of_reason := reason\<rparr>"
  obtain r offs where f: "find_and_update ?P ?f (wd_offers w) = (r, offs)" by fastforce
  show ?thesis
  proof (cases r)
    case None
    with f bal show ?thesis by (simp add: decline_offer_def)
  next
    case (Some off)
    from find_and_update_in[OF f[unfolded Some]] have "of_agent off = agent" "of_tenant off = t" by auto
    with balanced_lapse[OF bal base f[unfolded Some], of "''offer_declined''" now] f Some show ?thesis
      by (simp add: decline_offer_def)
  qed
qed

lemma balanced_expire_one:
  assumes bal: "balanced base w" and base: "\<And>t u. 0 \<le> base t u"
  shows "balanced base (snd (expire_one now n w))"
proof -
  let ?P = "\<lambda>off. of_id off = n \<and> of_status off = OOffered"
  let ?f = "\<lambda>off. off\<lparr>of_status := OExpired, of_responded := Some now\<rparr>"
  obtain r offs where f: "find_and_update ?P ?f (wd_offers w) = (r, offs)" by fastforce
  show ?thesis
  proof (cases r)
    case (Some off)
    with balanced_lapse[OF bal base f[unfolded Some], of "''offer_expired''" now] f show ?thesis
      by (simp add: expire_one_def)
  qed (use f bal in \<open>simp add: expire_one_def\<close>)
qed

lemma balanced_expire:
  assumes "balanced base w" and base: "\<And>t u. 0 \<le> base t u"
  shows "balanced base (snd (expire_offers now w))"
proof -
  have "balanced base v \<Longrightarrow> balanced base (snd (expire_all now ns v))" for ns v
  proof (induction ns arbitrary: v)
    case (Cons n ns)
    obtain d v1 where o1: "expire_one now n v = (d, v1)" by fastforce
    with balanced_expire_one[OF Cons.prems base, of now n] have "balanced base v1" by simp
    from Cons.IH[OF this] o1 show ?case by (simp split: prod.split)
  qed simp
  with assms show ?thesis by (simp add: expire_offers_def)
qed

lemma balanced_step:
  "offer_step env w w' \<Longrightarrow> (\<And>t u. 0 \<le> base t u) \<Longrightarrow> balanced base w \<Longrightarrow> balanced base w'"
  by (induction rule: offer_step.induct)
    (blast intro: balanced_dispatch balanced_create balanced_accept balanced_decline balanced_expire
      same_load_balanced[OF same_load_created] same_load_balanced[OF same_load_assigned])+

text \<open>As long as no conversation is resolved or closed, and the weight that is reserved is the weight of the item, the
  load counter of an agent is the load the agent had before plus the weights of the offers that the agent has open or
  has accepted: no offer is leaked and none is given back twice, on every error path of the operations.\<close>
theorem load_counts_live_offers:
  assumes "offer_run env w0 w"
    and "wd_offers w0 = []"
    and "\<forall>t u n. load_of (wd_presence w0) t u = Some n \<longrightarrow> n = base t u"
    and "\<forall>t u. 0 \<le> base t u"
  shows "\<forall>n. load_of (wd_presence w) t u = Some n \<longrightarrow> n = base t u + held t u (wd_offers w)"
proof -
  have "balanced base w"
    using assms(1)
  proof induction
    case start
    from assms(2,3) show ?case by (simp add: balanced_def offers_ok_def)
  next
    case (step w w')
    with balanced_step assms(4) show ?case by blast
  qed
  then show ?thesis by (simp add: balanced_def)
qed


text \<open>An open conversation with its queued item, and one agent without load.\<close>

definition demo_dist_env :: dist_env where
  "demo_dist_env = \<lparr>de_setting = (\<lambda>_. Inl ''none''), de_inbox_policy = (\<lambda>_ _. JUndef),
     de_offers_up = True, de_commands_up = True\<rparr>"

definition demo_dist :: dist_world where
  "demo_dist = \<lparr>wd_items = [new_item 0 ''t'' ''c'' None ''email'' (1/2)], wd_entries = [], wd_offers = [],
     wd_convs = [\<lparr>dc_id = ''c'', dc_tenant = ''t'', dc_status = ''open'', dc_agent = None, dc_inbox = None,
       dc_channel = Some ''email'', dc_created = 0\<rparr>],
     wd_presence = demo_agent_store demo_agent, wd_events = [], wd_next = 1\<rparr>"

definition demo_offered :: dist_world where
  "demo_offered = dispatch demo_dist_env 2000 ''t'' ''c'' [''u1''] RoundRobin 2 (1/2) None None demo_dist"

lemma demo_offered_run: "offer_run demo_dist_env demo_dist demo_offered"
proof -
  have wt: "(1/2 :: rat) = offer_weight demo_dist_env ''t'' ''c'' demo_dist"
    by (simp add: offer_weight_def demo_dist_def offerable_def work_for_def new_item_def)
  have "offer_step demo_dist_env demo_dist demo_offered"
    unfolding demo_offered_def by (rule offer_step.dispatch[OF _ wt]) simp
  from offer_run.step[OF offer_run.start this] show ?thesis .
qed

lemma demo_offer_run:
  "offer_run demo_dist_env demo_dist (snd (accept_offer demo_dist_env 3000 ''t'' 2 ''u1'' demo_offered))"
  by (rule offer_run.step[OF demo_offered_run offer_step.accept])

lemma demo_accepted_load:
  "load_of (wd_presence (snd (accept_offer demo_dist_env 3000 ''t'' 2 ''u1'' demo_offered))) ''t'' ''u1'' = Some (1/2)"
  by code_simp

theorem load_counts_live_offers_witness:
  "load_of (wd_presence (snd (accept_offer demo_dist_env 3000 ''t'' 2 ''u1'' demo_offered))) ''t'' ''u1'' = Some (1/2)
   \<and> held ''t'' ''u1'' (wd_offers (snd (accept_offer demo_dist_env 3000 ''t'' 2 ''u1'' demo_offered))) = 1/2"
proof -
  have "\<forall>t u n. load_of (wd_presence demo_dist) t u = Some n \<longrightarrow> n = 0"
    by (simp add: demo_dist_def load_of_def demo_agent_store_def demo_agent_def units_of_def default_to_def)
  then have "\<forall>n. load_of (wd_presence (snd (accept_offer demo_dist_env 3000 ''t'' 2 ''u1'' demo_offered))) ''t'' ''u1'' = Some n
      \<longrightarrow> n = 0 + held ''t'' ''u1'' (wd_offers (snd (accept_offer demo_dist_env 3000 ''t'' 2 ''u1'' demo_offered)))"
    by (intro load_counts_live_offers[OF demo_offer_run, of "\<lambda>_ _. 0"]) (simp_all add: demo_dist_def)
  from this[rule_format, OF demo_accepted_load] demo_accepted_load show ?thesis by simp
qed


end
