(* ===== verification/Work_Closing.thy ===== *)
theory Work_Closing
  imports Work_Distribution_Safety
begin

text \<open>
  The end of a work item: closing a conversation twice, completing the wrap-up twice, the repair of
  the presence counters from the work items, and what a wrong reservation weight does to them.
\<close>

section \<open>Closing\<close>

definition item_key :: "work_item \<Rightarrow> string \<times> string" where
  "item_key i = (wi_tenant i, wi_conversation i)"

definition no_live_item :: "string \<Rightarrow> string \<Rightarrow> dist_world \<Rightarrow> bool" where
  "no_live_item t c w \<longleftrightarrow> (\<forall>i \<in> set (wd_items w). work_for t c i \<longrightarrow> wi_status i \<in> {WWrapUp, WCompleted})"

lemma no_live_item_iff: "no_live_item t c w \<longleftrightarrow> (\<forall>i \<in> set (wd_items w). \<not> live_item t c i)"
proof -
  have "wi_status i \<in> {WWrapUp, WCompleted} \<longleftrightarrow> wi_status i \<notin> {WQueued, WOffered, WAssigned, WActive}" for i
    by (cases "wi_status i") auto
  then show ?thesis by (auto simp: no_live_item_def live_item_def)
qed

lemma no_live_item_closed:
  "no_live_item (ce_tenant e) (ce_conversation e) w \<Longrightarrow> on_conversation_status_changed env now e w = w"
  unfolding on_conversation_status_changed_def Let_def no_live_item_iff by (simp only: find_and_update_none prod.case option.case if_cancel)

lemma live_item_release:
  "(\<forall>i \<in> set (update_first P (\<lambda>x. x\<lparr>wi_released := r\<rparr>) items). \<not> live_item t c i)
     \<longleftrightarrow> (\<forall>i \<in> set items. \<not> live_item t c i)"
  by (rule update_first_all) (simp add: live_item_def work_for_def)

lemma closed_no_live_item:
  assumes unique: "distinct (map item_key (wd_items w))"
    and "ce_status e \<in> {Some ''resolved'', Some ''closed''}"
  shows "no_live_item (ce_tenant e) (ce_conversation e) (on_conversation_status_changed env now e w)"
proof -
  let ?t = "ce_tenant e" and ?c = "ce_conversation e"
  let ?owner = "truthy_id (Option.bind (closed_conv e w) dc_agent)"
  obtain r items where f: "find_and_update (live_item ?t ?c) (close_item now ?owner (closed_acw env e w)) (wd_items w)
      = (r, items)" by fastforce
  show ?thesis
  proof (cases r)
    case None
    with f assms(2) show ?thesis
      by (simp add: on_conversation_status_changed_def Let_def no_live_item_iff find_and_update_None)
  next
    case (Some i)
    from find_and_update_split[OF f[unfolded Some]] obtain as d bs where
      d: "wd_items w = as @ d # bs" "items = as @ i # bs" "i = close_item now ?owner (closed_acw env e w) d"
      "live_item ?t ?c d" by metis
    have "\<not> work_for ?t ?c x" if "x \<in> set as \<union> set bs" for x
    proof
      assume x: "work_for ?t ?c x"
      with d(4) have "item_key x = item_key d" by (simp add: work_for_def live_item_def item_key_def)
      moreover have "item_key d \<notin> item_key ` (set as \<union> set bs)" using unique by (simp add: d(1) image_Un)
      ultimately show False using that by (metis imageI)
    qed
    with d(2,3) have "\<forall>x \<in> set items. \<not> live_item ?t ?c x"
      by (auto simp: live_item_def close_item_def)
    with f Some assms(2) show ?thesis
      by (simp add: on_conversation_status_changed_def Let_def cancel_reserved_def release_capacity_def
          live_item_release no_live_item_iff split: option.split)
  qed
qed

text \<open>C17: closing is idempotent: once a conversation was resolved or closed, a second status event for
  it, whatever its status, at whatever time and under whatever policy, leaves the whole world as it is,
  so the capacity of its work item is released by one of the events only.\<close>
theorem closing_twice_releases_once:
  assumes "distinct (map item_key (wd_items w))"
    and "ce_status e \<in> {Some ''resolved'', Some ''closed''}"
    and "ce_tenant e' = ce_tenant e" "ce_conversation e' = ce_conversation e"
  shows "on_conversation_status_changed env' now' e' (on_conversation_status_changed env now e w)
    = on_conversation_status_changed env now e w"
  using no_live_item_closed[of e'] closed_no_live_item[OF assms(1,2)] assms(3,4) by simp

section \<open>Wrap-up\<close>

definition wrapping :: "nat \<Rightarrow> work_item \<Rightarrow> bool" where
  "wrapping n i \<longleftrightarrow> wi_id i = n \<and> wi_status i = WWrapUp \<and> wi_released i = None"

definition complete_item :: "int \<Rightarrow> work_item \<Rightarrow> work_item" where
  "complete_item now i = i\<lparr>wi_status := WCompleted, wi_completed_at := Some now, wi_released := Some now\<rparr>"

lemma complete_one_items:
  "wd_items (snd (complete_one now n w)) = update_first (wrapping n) (complete_item now) (wd_items w)"
  by (auto simp: complete_one_def update_first_def wrapping_def[abs_def] complete_item_def[abs_def] Let_def
      release_capacity_def find_and_update_None split: prod.split option.split)

lemma complete_one_none: "\<forall>i \<in> set (wd_items w). \<not> wrapping n i \<Longrightarrow> complete_one now n w = (False, w)"
  by (simp add: complete_one_def wrapping_def)

lemma complete_all_none:
  "\<forall>n \<in> set ns. \<forall>i \<in> set (wd_items w). \<not> wrapping n i \<Longrightarrow> complete_all now ns w = (0, w)"
  by (induction ns) (simp_all add: complete_one_none)

lemma completed_first:
  "i \<in> set (update_first (wrapping n) (complete_item now) is) \<Longrightarrow> wi_status i = WWrapUp \<Longrightarrow> i \<in> set is"
  "distinct (map wi_id is) \<Longrightarrow> i \<in> set (update_first (wrapping n) (complete_item now) is) \<Longrightarrow> \<not> wrapping n i"
  by (induction "is")
    (auto simp: update_first_def complete_item_def wrapping_def rev_image_eqI split: prod.splits if_splits)

lemma completed_ids [simp]:
  "map wi_id (update_first (wrapping n) (complete_item now) is) = map wi_id is"
  by (rule update_first_map) (simp add: complete_item_def)

lemma complete_all_items:
  assumes "distinct (map wi_id (wd_items w))"
  shows "\<forall>i \<in> set (wd_items (snd (complete_all now ns w))).
     wi_status i = WWrapUp \<longrightarrow> i \<in> set (wd_items w) \<and> (\<forall>n \<in> set ns. \<not> wrapping n i)"
  using assms
proof (induction ns arbitrary: w)
  case (Cons n ns)
  obtain d w1 where o1: "complete_one now n w = (d, w1)" by fastforce
  then have w1: "wd_items w1 = update_first (wrapping n) (complete_item now) (wd_items w)"
    using complete_one_items[of now n w] by simp
  with Cons.prems have "distinct (map wi_id (wd_items w1))" by simp
  from Cons.IH[OF this] have ih: "\<forall>i \<in> set (wd_items (snd (complete_all now ns w1))).
     wi_status i = WWrapUp \<longrightarrow> i \<in> set (wd_items w1) \<and> (\<forall>n \<in> set ns. \<not> wrapping n i)" .
  have "snd (complete_all now (n # ns) w) = snd (complete_all now ns w1)" using o1 by (simp split: prod.split)
  moreover have "i \<in> set (wd_items w) \<and> \<not> wrapping n i" if "i \<in> set (wd_items w1)" "wi_status i = WWrapUp" for i
    using completed_first Cons.prems that unfolding w1 by blast
  ultimately show ?case using ih by simp
qed simp

text \<open>the wrap-up tick is idempotent: when it ran over all due items (it takes 500 at most), running
  it again at the same time completes nothing and releases nothing.\<close>
theorem wrap_up_tick_is_idempotent:
  assumes "distinct (map wi_id (wd_items w))"
    and "length (filter (\<lambda>i. wi_status i = WWrapUp) (wd_items w)) \<le> 500"
  shows "complete_due_wrap_up now (snd (complete_due_wrap_up now w)) = (0, snd (complete_due_wrap_up now w))"
proof -
  let ?due = "\<lambda>w. filter (\<lambda>i. wi_status i = WWrapUp \<and> (case wi_wrap_due i of Some d \<Rightarrow> d \<le> now | None \<Rightarrow> False)) (wd_items w)"
  let ?ns = "\<lambda>w. map wi_id (take 500 (sort_by due_before (?due w)))"
  define w1 where "w1 = snd (complete_all now (?ns w) w)"
  have "length (?due w) \<le> 500"
    using order_trans[OF length_filter_le assms(2),
        of "\<lambda>i. case wi_wrap_due i of Some d \<Rightarrow> d \<le> now | None \<Rightarrow> False"]
    by (simp add: conj_commute)
  then have ns: "set (?ns w) = wi_id ` set (?due w)" by simp
  note kept = complete_all_items[OF assms(1), of now "?ns w", folded w1_def]
  have "\<not> wrapping n i" if "n \<in> set (?ns w1)" "i \<in> set (wd_items w1)" for n i
  proof
    assume i: "wrapping n i"
    from that(1) obtain j where j: "wi_id j = n" "j \<in> set (?due w1)" by (auto dest: in_set_takeD)
    from kept j(2) have "j \<in> set (?due w)" by auto
    with ns j(1) have "n \<in> set (?ns w)" by blast
    with kept that(2) i show False by (auto simp: wrapping_def)
  qed
  then have "complete_all now (?ns w1) w1 = (0, w1)" by (intro complete_all_none) blast
  then show ?thesis by (simp add: complete_due_wrap_up_def w1_def Let_def)
qed


section \<open>Repair of the counters\<close>

definition in_step :: "int \<times> rat \<Rightarrow> presence \<Rightarrow> bool" where
  "in_step load d \<longleftrightarrow> ap_active d = fst load \<and> units_of d = snd load"

lemma parse_presence_same [simp]:
  "ap_active (parse_presence d) = ap_active d" "units_of (parse_presence d) = units_of d"
  "is_fresh now (parse_presence d) = is_fresh now d"
  by (simp_all add: parse_presence_def units_of_def default_to_def is_fresh_def)

lemma reconcile_in_step:
  assumes "ps_hash (wd_presence w) t u = Some d" "is_fresh now d" "in_step (workload_of t u w) d"
  shows "reconcile_agent now t u w = w"
  using assms by (simp add: reconcile_agent_def get_presence_def patch_if_drifted_def in_step_def split: prod.split)

lemma reconcile_drifted:
  assumes "ps_hash (wd_presence w) t u = Some d" "is_fresh now d" "\<not> in_step (workload_of t u w) d"
  shows "reconcile_agent now t u w =
    w\<lparr>wd_presence := patch_active_conversations now t u (fst (workload_of t u w)) (snd (workload_of t u w)) (wd_presence w)\<rparr>"
  using assms by (auto simp: reconcile_agent_def get_presence_def patch_if_drifted_def in_step_def split: prod.split)

lemma workload_presence [simp]: "workload_of t u (w\<lparr>wd_presence := ps\<rparr>) = workload_of t u w"
  by (simp add: workload_of_def)

text \<open>reconciling an agent repairs every drift: afterwards the counters of the agent are the number and
  the weight of the work items that hold capacity for the agent, the records of all other agents are as
  before, and a second reconciliation changes nothing.\<close>
theorem reconciliation_repairs_counters:
  assumes "ps_hash (wd_presence w) t u = Some d"
    and "is_fresh now d"
  shows "(\<exists>d'. ps_hash (wd_presence (reconcile_agent now t u w)) t u = Some d' \<and> in_step (workload_of t u w) d')
    \<and> (\<forall>t' u'. (t', u') \<noteq> (t, u) \<longrightarrow>
         ps_hash (wd_presence (reconcile_agent now t u w)) t' u' = ps_hash (wd_presence w) t' u')
    \<and> reconcile_agent now t u (reconcile_agent now t u w) = reconcile_agent now t u w"
proof (cases "in_step (workload_of t u w) d")
  case True
  with reconcile_in_step[OF assms] assms show ?thesis by auto
next
  case False
  let ?ps = "patch_active_conversations now t u (fst (workload_of t u w)) (snd (workload_of t u w)) (wd_presence w)"
  obtain d' where d': "ps_hash ?ps t u = Some d'" "in_step (workload_of t u w) d'" "is_fresh now d'"
    using assms by (auto simp: patch_active_conversations_def Let_def book_def in_step_def units_of_def
        default_to_def is_fresh_def)
  have others: "(t', u') \<noteq> (t, u) \<Longrightarrow> ps_hash ?ps t' u' = ps_hash (wd_presence w) t' u'" for t' u'
    using assms(1) by (auto simp: patch_active_conversations_def Let_def book_def)
  show ?thesis
    using reconcile_drifted[OF assms False] d' others
      reconcile_in_step[of "w\<lparr>wd_presence := ?ps\<rparr>" t u d' now] by simp
qed

section \<open>A reservation at another weight\<close>

text \<open>
  The assignment core reserves the default weight of the channel, without the overrides of tenant and
  inbox; the offer gives back the weight of the item. Reserving 1 for the item of weight 1/2 leaves the
  agent with half a unit of load and no offer.
\<close>

lemma mismatched_reservation_leaks:
  "let w = snd (decline_offer 3000 ''t'' 2 ''u1'' None
       (dispatch demo_dist_env 2000 ''t'' ''c'' [''u1''] RoundRobin 2 1 None None demo_dist))
   in load_of (wd_presence w) ''t'' ''u1'' = Some (1/2) \<and> held ''t'' ''u1'' (wd_offers w) = 0"
  by code_simp

section \<open>Transitions that the table forbids\<close>

lemma assignment_revives_completed_item:
  "\<not> can_transition_work_item WCompleted WAssigned
   \<and> map wi_status (wd_items (on_conversation_assigned 5000 ''t'' ''c'' (Some ''u1'')
       (demo_dist\<lparr>wd_items := [(new_item 0 ''t'' ''c'' None ''email'' (1/2))\<lparr>wi_status := WCompleted\<rparr>]\<rparr>))) = [WAssigned]"
  by code_simp

section \<open>Witnesses\<close>

definition demo_closed_event :: closed_event where
  "demo_closed_event = \<lparr>ce_tenant = ''t'', ce_conversation = ''c'', ce_status = Some ''resolved'',
     ce_inbox = None, ce_channel = None\<rparr>"

theorem closing_twice_releases_once_witness:
  "on_conversation_status_changed demo_dist_env 9000 demo_closed_event
     (on_conversation_status_changed demo_dist_env 4000 demo_closed_event demo_dist)
   = on_conversation_status_changed demo_dist_env 4000 demo_closed_event demo_dist
   \<and> map wi_status (wd_items (on_conversation_status_changed demo_dist_env 4000 demo_closed_event demo_dist)) = [WCompleted]"
proof
  show "on_conversation_status_changed demo_dist_env 9000 demo_closed_event
     (on_conversation_status_changed demo_dist_env 4000 demo_closed_event demo_dist)
   = on_conversation_status_changed demo_dist_env 4000 demo_closed_event demo_dist"
    by (rule closing_twice_releases_once) (simp_all add: demo_dist_def demo_closed_event_def)
  show "map wi_status (wd_items (on_conversation_status_changed demo_dist_env 4000 demo_closed_event demo_dist)) = [WCompleted]"
    by code_simp
qed

definition demo_wrapping :: dist_world where
  "demo_wrapping = demo_dist\<lparr>wd_items := [(new_item 0 ''t'' ''c'' None ''email'' (1/2))
     \<lparr>wi_status := WWrapUp, wi_agent := Some ''u1'', wi_wrap_due := Some 3000\<rparr>]\<rparr>"

theorem wrap_up_tick_is_idempotent_witness:
  "complete_due_wrap_up 5000 (snd (complete_due_wrap_up 5000 demo_wrapping))
     = (0, snd (complete_due_wrap_up 5000 demo_wrapping))
   \<and> fst (complete_due_wrap_up 5000 demo_wrapping) = 1"
proof
  show "complete_due_wrap_up 5000 (snd (complete_due_wrap_up 5000 demo_wrapping))
     = (0, snd (complete_due_wrap_up 5000 demo_wrapping))"
    by (rule wrap_up_tick_is_idempotent) (simp_all add: demo_wrapping_def)
  show "fst (complete_due_wrap_up 5000 demo_wrapping) = 1" by code_simp
qed

theorem reconciliation_repairs_counters_witness:
  "\<exists>d'. ps_hash (wd_presence (reconcile_agent 2500 ''t'' ''u1'' demo_wrapping)) ''t'' ''u1'' = Some d'
     \<and> ap_active d' = 1 \<and> units_of d' = 1/2"
proof -
  have "ps_hash (wd_presence demo_wrapping) ''t'' ''u1'' = Some demo_agent"
    by (simp add: demo_wrapping_def demo_dist_def demo_agent_store_def)
  moreover have "is_fresh 2500 demo_agent" by code_simp
  moreover have "workload_of ''t'' ''u1'' demo_wrapping = (1, 1/2)" by code_simp
  ultimately show ?thesis
    using reconciliation_repairs_counters[of demo_wrapping "''t''" "''u1''" demo_agent 2500]
    by (auto simp: in_step_def)
qed

end
