(* ===== verification/Redispatch_Bound.thy ===== *)
theory Redispatch_Bound
  imports Work_Distribution_Safety
begin

text \<open>
  Re-dispatch ends: a declined or expired offer announces its work item again, and the attempts
  counter of the item stops this after \<open>MAX_REDISPATCH_ATTEMPTS\<close> rounds, whatever else happens to
  the item in between.
\<close>

section \<open>Announcing an item again ends\<close>

fun is_requeue :: "string \<Rightarrow> work_event \<Rightarrow> bool" where
  "is_requeue c (ItemRequeued t c' a n r) = (c' = c)"
| "is_requeue c _ = False"

definition announced :: "string \<Rightarrow> dist_world \<Rightarrow> nat" where
  "announced c w = length (filter (is_requeue c) (wd_events w))"

definition attempts_of :: "string \<Rightarrow> dist_world \<Rightarrow> int" where
  "attempts_of c w = sum_list (map wi_attempts (filter (\<lambda>i. wi_conversation i = c) (wd_items w)))"

definition items_of :: "string \<Rightarrow> dist_world \<Rightarrow> work_item list" where
  "items_of c w = filter (\<lambda>i. wi_conversation i = c) (wd_items w)"

text \<open>What a work item never loses, and a world that only gained fresh items and other events.\<close>

definition tries :: "dist_world \<Rightarrow> (string \<times> int) list" where
  "tries w = map (\<lambda>i. (wi_conversation i, wi_attempts i)) (wd_items w)"

definition quiet :: "dist_world \<Rightarrow> dist_world \<Rightarrow> bool" where
  "quiet w w' \<longleftrightarrow> (\<exists>cs. tries w' = tries w @ map (\<lambda>c. (c, 0)) cs) \<and> (\<forall>c. announced c w' = announced c w)"

lemma quiet_refl [simp]: "quiet w w"
  by (auto simp: quiet_def intro: exI[of _ "[]"])

lemma quiet_trans: "quiet a b \<Longrightarrow> quiet b c \<Longrightarrow> quiet a c"
  unfolding quiet_def by (metis append.assoc map_append)

lemma quiet_same:
  "tries w' = tries w \<Longrightarrow> wd_events w' = wd_events w \<Longrightarrow> quiet w w'"
  by (auto simp: quiet_def announced_def intro: exI[of _ "[]"])

lemma tries_update_first [simp]:
  "(\<And>i. wi_conversation (f i) = wi_conversation i \<and> wi_attempts (f i) = wi_attempts i)
   \<Longrightarrow> tries (w\<lparr>wd_items := update_first P f (wd_items w)\<rparr>) = tries w"
  by (simp add: tries_def update_first_map)

lemma quiet_find:
  "find_and_update P f (wd_items w) = (r, items)
   \<Longrightarrow> (\<And>i. wi_conversation (f i) = wi_conversation i \<and> wi_attempts (f i) = wi_attempts i)
   \<Longrightarrow> quiet w (w\<lparr>wd_items := items\<rparr>)"
  using find_and_update_map[of P "\<lambda>i. (wi_conversation i, wi_attempts i)" f "wd_items w"]
  by (intro quiet_same) (simp_all add: tries_def)

lemma quiet_ops [simp]:
  "quiet w (requeue_item P w)" "quiet w (unoffer_entry q w)" "quiet w (unoffer_item n w)"
  "quiet w (ensure_queue_entry now i w)" "quiet w (return_to_queue off w)"
  "quiet w (release_capacity now t u wt w)" "quiet w (snd (offer_entry now t n w))"
  "quiet w (snd (insert_offer env now t item entry agent wt lease w))"
  "quiet w (cancel_accepted n w)" "quiet w (w\<lparr>wd_offers := offs\<rparr>)" "quiet w (w\<lparr>wd_presence := ps\<rparr>)"
  "quiet w (w\<lparr>wd_entries := es\<rparr>)"
  by (auto intro!: quiet_same simp: requeue_item_def unoffer_entry_def unoffer_item_def ensure_queue_entry_def
      return_to_queue_def release_capacity_def offer_entry_def insert_offer_def cancel_accepted_def
      tries_def update_first_map split: prod.split)


lemma quiet_through:
  "quiet w x \<Longrightarrow> quiet w (unoffer_entry e x)" "quiet w x \<Longrightarrow> quiet w (unoffer_item n x)"
  "quiet w x \<Longrightarrow> quiet w (ensure_queue_entry now i x)" "quiet w x \<Longrightarrow> quiet w (return_to_queue off x)"
  "quiet w x \<Longrightarrow> quiet w (release_capacity now t u wt x)" "quiet w x \<Longrightarrow> quiet w (requeue_item P x)"
  "quiet w x \<Longrightarrow> quiet w (cancel_accepted n x)" "quiet w x \<Longrightarrow> quiet w (x\<lparr>wd_offers := offs\<rparr>)"
  "quiet w x \<Longrightarrow> quiet w (x\<lparr>wd_presence := ps\<rparr>)" "quiet w x \<Longrightarrow> quiet w (x\<lparr>wd_entries := es\<rparr>)"
  using quiet_trans quiet_ops by metis+

lemma quiet_result:
  "offer_entry now t n x = (q, w1) \<Longrightarrow> quiet w x \<Longrightarrow> quiet w w1"
  "insert_offer env now t item entry agent wt lease x = (r, w1) \<Longrightarrow> quiet w x \<Longrightarrow> quiet w w1"
  using quiet_trans quiet_ops by (metis snd_conv)+

lemma quiet_through_find:
  assumes "find_and_update P f its = (r, items)" "wd_items x = its"
    "\<And>i. wi_conversation (f i) = wi_conversation i \<and> wi_attempts (f i) = wi_attempts i" "quiet w x"
  shows "quiet w (x\<lparr>wd_items := items\<rparr>)"
  by (rule quiet_trans[OF assms(4) quiet_find[OF assms(1)[folded assms(2)] assms(3)]])

lemma quiet_event:
  "quiet w x \<Longrightarrow> (\<And>c. \<not> is_requeue c e) \<Longrightarrow> wd_events x = es \<Longrightarrow> quiet w (x\<lparr>wd_events := es @ [e]\<rparr>)"
  by (rule quiet_trans[of w x]) (auto simp: quiet_def tries_def announced_def intro: exI[of _ "[]"])

lemma quiet_new:
  "quiet w x \<Longrightarrow> wi_attempts i = 0 \<Longrightarrow> wd_items x = its \<Longrightarrow> quiet w (x\<lparr>wd_items := its @ [i], wd_next := n\<rparr>)"
  by (rule quiet_trans[of w x]) (auto simp: quiet_def tries_def announced_def intro: exI[of _ "[wi_conversation i]"])

lemma new_item_fresh [simp]:
  "wi_attempts (new_item n t c inbox ch wt) = 0" "wi_conversation (new_item n t c inbox ch wt) = c"
  by (simp_all add: new_item_def)

lemma quiet_create_offer: "quiet w (snd (create_offer env now t n agent lease wt w))"
  by (auto simp: create_offer_def Let_def split: prod.splits option.splits sum.splits)
    (erule quiet_result | erule quiet_through_find | rule quiet_through | simp)+

lemma quiet_from_reservation:
  "quiet w (snd (create_offer_from_reservation env now t c a grp lease w))"
  by (auto simp: create_offer_from_reservation_def Let_def split: prod.splits option.splits sum.splits if_splits)
    (rule quiet_through quiet_event quiet_new | erule quiet_result quiet_through_find | simp)+


lemma quiet_created: "quiet w (snd (on_conversation_created env now e w))"
  by (auto simp: on_conversation_created_def Let_def split: option.split)
    (rule quiet_through quiet_new | simp)+

lemma quiet_assigned: "quiet w (on_conversation_assigned now t c who w)"
  by (auto simp: on_conversation_assigned_def Let_def split: prod.split option.split)
    (rule quiet_through | erule quiet_through_find | simp)+

lemma quiet_dispatch: "quiet w (dispatch env now t c ids strat cap wt grp lease w)"
proof -
  have "quiet w w1" if "create_offer_from_reservation env now t c a grp lease (w\<lparr>wd_presence := ps\<rparr>) = (ok, w1)" for a ps ok w1
    using quiet_trans[OF quiet_ops(11) quiet_from_reservation] that by (metis snd_conv)
  then show ?thesis
    by (auto simp: dispatch_def intro: quiet_through split: prod.split option.split)
qed

lemma quiet_assign: "quiet w (snd (execute_assign_agent env t c agent w))"
proof -
  have "quiet w (w\<lparr>wd_convs := cs\<rparr>)" for cs by (rule quiet_same) (simp_all add: tries_def)
  then show ?thesis
    by (auto simp: execute_assign_agent_def intro!: quiet_event split: prod.split option.split)
qed

lemma quiet_accept: "quiet w (snd (accept_offer env now t n agent w))"
proof -
  have "quiet w w2" if "execute_assign_agent env t c a x = (r, w2)" "quiet w x" for c a r w2 x
    using quiet_trans[OF that(2) quiet_assign] that(1) by (metis snd_conv)
  note assigns = this
  show ?thesis
    by (auto simp: accept_offer_def Let_def split: prod.split option.split sum.split)
      (rule quiet_through | erule assigns quiet_through_find | simp)+
qed

text \<open>The announcements of a conversation are paid for by the attempts of its items.\<close>

definition paid :: "dist_world \<Rightarrow> bool" where
  "paid w \<longleftrightarrow> (\<forall>c. int (announced c w) \<le> attempts_of c w)
     \<and> (\<forall>i \<in> set (wd_items w). wi_attempts i \<le> max_redispatch_attempts)"

lemma attempts_tries: "attempts_of c w = sum_list (map snd (filter (\<lambda>p. fst p = c) (tries w)))"
  by (simp add: attempts_of_def tries_def filter_map comp_def)

lemma paid_tries:
  "paid w \<longleftrightarrow> (\<forall>c. int (announced c w) \<le> sum_list (map snd (filter (\<lambda>p. fst p = c) (tries w))))
     \<and> (\<forall>p \<in> set (tries w). snd p \<le> max_redispatch_attempts)"
  by (auto simp: paid_def attempts_tries) (auto simp: tries_def)

lemma quiet_paid:
  assumes "quiet w w'" "paid w"
  shows "paid w'"
proof -
  obtain cs where cs: "tries w' = tries w @ map (\<lambda>c. (c, 0)) cs" "\<forall>c. announced c w' = announced c w"
    using assms(1) by (auto simp: quiet_def)
  have "sum_list (map snd (filter (\<lambda>p. fst p = c) (map (\<lambda>c. (c, 0::int)) cs))) = 0" for c
    by (induction cs) auto
  with cs assms(2) show ?thesis by (auto simp: paid_tries max_redispatch_attempts_def)
qed

lemma paid_redispatch: "paid w \<Longrightarrow> paid (request_redispatch off reason w)"
proof -
  assume paid: "paid w"
  let ?P = "\<lambda>i. wi_id i = of_item off \<and> wi_status i = WQueued \<and> wi_attempts i < max_redispatch_attempts"
  let ?f = "\<lambda>i. i\<lparr>wi_attempts := wi_attempts i + 1\<rparr>"
  obtain r items where f: "find_and_update ?P ?f (wd_items w) = (r, items)" by fastforce
  show ?thesis
  proof (cases r)
    case None
    with f paid show ?thesis by (simp add: request_redispatch_def)
  next
    case (Some i)
    from find_and_update_split[OF f[unfolded Some]] obtain as d bs where
      d: "wd_items w = as @ d # bs" "items = as @ i # bs" "i = ?f d" "?P d" by metis
    let ?w = "request_redispatch off reason w"
    let ?one = "\<lambda>c. if wi_conversation d = c then 1 else 0"
    have "attempts_of c ?w = attempts_of c w + ?one c" "announced c ?w = announced c w + ?one c" for c
      using f Some d by (simp_all add: request_redispatch_def attempts_of_def announced_def)
    moreover have "\<forall>x \<in> set (wd_items ?w). wi_attempts x \<le> max_redispatch_attempts"
      using paid f Some d by (auto simp: paid_def request_redispatch_def)
    ultimately show ?thesis using paid by (auto simp: paid_def)
  qed
qed


lemma paid_lapse:
  "paid w \<Longrightarrow> paid (request_redispatch off reason (release_capacity now t u wt (return_to_queue off (w\<lparr>wd_offers := offs\<rparr>))))"
  by (rule paid_redispatch) (rule quiet_paid, (rule quiet_through quiet_refl)+)

lemma paid_expire_all: "paid w \<Longrightarrow> paid (snd (expire_all now ns w))"
proof (induction ns arbitrary: w)
  case (Cons n ns)
  obtain d w1 where o1: "expire_one now n w = (d, w1)" by fastforce
  then have "paid w1"
    using Cons.prems paid_lapse by (auto simp: expire_one_def split: prod.splits option.splits)
  from Cons.IH[OF this] o1 show ?case by (simp split: prod.split)
qed simp

lemma quiet_closed: "quiet w (on_conversation_status_changed env now e w)"
proof -
  obtain r items where f: "find_and_update (live_item (ce_tenant e) (ce_conversation e))
      (close_item now (truthy_id (Option.bind (closed_conv e w) dc_agent)) (closed_acw env e w)) (wd_items w) = (r, items)"
    by fastforce
  have items: "map (\<lambda>i. (wi_conversation i, wi_attempts i)) items = tries w"
    using find_and_update_map[of "live_item (ce_tenant e) (ce_conversation e)" "\<lambda>i. (wi_conversation i, wi_attempts i)"
      "close_item now (truthy_id (Option.bind (closed_conv e w) dc_agent)) (closed_acw env e w)" "wd_items w"] f
    by (simp add: close_item_def tries_def)
  show ?thesis
  proof (rule quiet_same)
    show "tries (on_conversation_status_changed env now e w) = tries w"
      using items f by (cases r) (simp_all add: on_conversation_status_changed_def Let_def cancel_reserved_def
        release_capacity_def tries_def update_first_map split: option.split)
    show "wd_events (on_conversation_status_changed env now e w) = wd_events w"
      using f by (cases r) (simp_all add: on_conversation_status_changed_def Let_def cancel_reserved_def
        release_capacity_def split: option.split)
  qed
qed

lemma quiet_complete_one: "quiet w (snd (complete_one now n w))"
  by (auto simp: complete_one_def Let_def split: prod.split option.split)
    (rule quiet_through | erule quiet_through_find | simp)+

lemma quiet_snd: "quiet w (snd p) \<Longrightarrow> p = (r, x) \<Longrightarrow> quiet w x"
  by simp

lemma quiet_complete_all: "quiet w (snd (complete_all now ns w))"
proof (induction ns arbitrary: w)
  case (Cons n ns)
  obtain d w1 where d: "complete_one now n w = (d, w1)" by fastforce
  from quiet_trans[OF quiet_snd[OF quiet_complete_one d] Cons.IH] d show ?case by (simp split: prod.split)
qed simp

lemma quiet_missing: "quiet w (snd (create_missing env now cs w))"
proof (induction cs arbitrary: w)
  case (Cons c cs)
  then show ?case
    by (auto split: prod.split sum.split intro: quiet_snd[OF quiet_created] quiet_trans[OF quiet_snd[OF quiet_created]])
qed simp

lemma quiet_repair: "quiet w (snd (reconcile_recent_work_items env now w))"
  by (auto simp: reconcile_recent_work_items_def Let_def split: prod.split sum.split intro: quiet_snd[OF quiet_missing])

lemma quiet_patch: "quiet w (snd (patch_if_drifted now t u p w))"
  by (simp add: patch_if_drifted_def split: prod.split)

lemma quiet_patches: "quiet w (snd (patch_agents now t ps w))"
proof (induction ps arbitrary: w)
  case (Cons p ps)
  obtain d w1 where d: "patch_if_drifted now t (ap_user p) p w = (d, w1)" by fastforce
  from quiet_trans[OF quiet_snd[OF quiet_patch d] Cons.IH] d show ?case by (simp split: prod.split)
qed simp

lemma quiet_counters: "quiet w (reconcile_agent now t u w)" "quiet w (snd (reconcile_tenant now t members w))"
  using quiet_trans[OF quiet_ops(11) quiet_patch] quiet_trans[OF quiet_ops(11) quiet_patches]
  by (simp_all add: reconcile_agent_def reconcile_tenant_def split: prod.split option.split)

text \<open>Every operation of the service, of the repair job and of the assignment core on the offers, with any arguments.\<close>

inductive work_step :: "dist_env \<Rightarrow> dist_world \<Rightarrow> dist_world \<Rightarrow> bool" for env where
  dispatch: "work_step env w (dispatch env now t c ids strat cap wt grp lease w)"
| create: "work_step env w (snd (create_offer env now t n agent lease wt w))"
| accept: "work_step env w (snd (accept_offer env now t n agent w))"
| decline: "work_step env w (snd (decline_offer now t n agent reason w))"
| expire: "work_step env w (snd (expire_offers now w))"
| created: "work_step env w (snd (on_conversation_created env now e w))"
| assigned: "work_step env w (on_conversation_assigned now t c who w)"
| closed: "work_step env w (on_conversation_status_changed env now ce w)"
| wrapped_up: "work_step env w (snd (complete_due_wrap_up now w))"
| repaired: "work_step env w (snd (reconcile_recent_work_items env now w))"
| recounted: "work_step env w (reconcile_agent now t u w)"
| recounted_all: "work_step env w (snd (reconcile_tenant now t members w))"
| commanded: "work_step env w (w\<lparr>wd_convs := convs\<rparr>)"

inductive work_run :: "dist_env \<Rightarrow> dist_world \<Rightarrow> dist_world \<Rightarrow> bool" for env w0 where
  start: "work_run env w0 w0"
| step: "work_run env w0 w \<Longrightarrow> work_step env w w' \<Longrightarrow> work_run env w0 w'"

lemma paid_step: "work_step env w w' \<Longrightarrow> paid w \<Longrightarrow> paid w'"
proof (induction rule: work_step.induct)
  case (decline w now t n agent reason)
  then show ?case using paid_lapse by (auto simp: decline_offer_def split: prod.splits option.splits)
next
  case (expire w now)
  then show ?case by (simp add: expire_offers_def paid_expire_all)
next
  case (wrapped_up w now)
  then show ?case by (simp add: complete_due_wrap_up_def quiet_paid[OF quiet_complete_all])
next
  case (commanded w convs)
  then show ?case by (rule quiet_paid[OF quiet_same, rotated 2]) (simp_all add: tries_def)
qed (blast intro: quiet_paid[OF quiet_dispatch] quiet_paid[OF quiet_create_offer] quiet_paid[OF quiet_accept]
  quiet_paid[OF quiet_created] quiet_paid[OF quiet_assigned] quiet_paid[OF quiet_closed] quiet_paid[OF quiet_repair]
  quiet_paid[OF quiet_counters(1)] quiet_paid[OF quiet_counters(2)])+

text \<open>C16: re-dispatch terminates: whatever sequence of dispatches and reservations (of any weight), acceptances,
  declines, expiries, conversation events (created, assigned, resolved or closed), wrap-up ticks, repairs and changes
  to the conversations runs, the service announces a conversation for re-dispatch at most three times per work item
  of the conversation.\<close>
theorem redispatch_is_bounded:
  assumes "work_run env w0 w"
    and "\<forall>c. announced c w0 = 0"
    and "\<forall>i \<in> set (wd_items w0). wi_attempts i = 0"
  shows "announced c w \<le> 3 * length (items_of c w)"
proof -
  have "0 \<le> attempts_of c w0" for c
    unfolding attempts_of_def by (rule sum_list_nonneg) (use assms(3) in auto)
  then have "paid w0" using assms(2,3) by (simp add: paid_def max_redispatch_attempts_def)
  with assms(1) have "paid w" by (induction rule: work_run.induct) (blast intro: paid_step)+
  then have "int (announced c w) \<le> sum_list (map wi_attempts (items_of c w))"
    "\<forall>i \<in> set (items_of c w). wi_attempts i \<le> 3"
    by (auto simp: paid_def attempts_of_def items_of_def max_redispatch_attempts_def)
  moreover have "sum_list (map wi_attempts is) \<le> 3 * int (length is)"
    if "\<forall>i \<in> set is. wi_attempts i \<le> 3" for "is"
    using that by (induction "is") auto
  ultimately have "int (announced c w) \<le> 3 * int (length (items_of c w))" by (meson order_trans)
  then show ?thesis by linarith
qed

text \<open>The agent declines, the item goes back to the queue and is announced once, and the conversation is resolved.\<close>

definition demo_declined :: dist_world where
  "demo_declined = on_conversation_status_changed demo_dist_env 4000
     \<lparr>ce_tenant = ''t'', ce_conversation = ''c'', ce_status = Some ''resolved'', ce_inbox = None, ce_channel = None\<rparr>
     (snd (decline_offer 3000 ''t'' 2 ''u1'' None demo_offered))"

lemma demo_declined_run: "work_run demo_dist_env demo_dist demo_declined"
  unfolding demo_declined_def demo_offered_def
  by (intro work_run.start work_run.step[OF _ work_step.closed] work_run.step[OF _ work_step.decline]
      work_run.step[OF _ work_step.dispatch])

theorem redispatch_is_bounded_witness:
  "announced ''c'' demo_declined = 1 \<and> announced ''c'' demo_declined \<le> 3 * length (items_of ''c'' demo_declined)"
proof
  show "announced ''c'' demo_declined = 1" by code_simp
  show "announced ''c'' demo_declined \<le> 3 * length (items_of ''c'' demo_declined)"
    by (rule redispatch_is_bounded[OF demo_declined_run])
      (simp_all add: demo_dist_def announced_def new_item_def)
qed

end
