(* ===== verification/Abac.thy ===== *)
theory Abac
  imports Js_Value
begin

text \<open>
  Attribute policies: the evaluator (\<open>src/src/common/permissions/abac.evaluator.ts\<close>), the compiler of deny
  policies into a query (\<open>abac-query.compiler.ts\<close>) and the constructor of evaluation contexts
  (\<open>authorization-context.factory.ts\<close>). \<open>Date.parse\<close>, whose answers beyond the ISO formats are
  implementation-defined, is the parameter \<open>pd\<close>.
\<close>

section \<open>Policies\<close>

record abac_condition =
  co_attribute :: string
  co_operator :: string
  co_value :: jsval
  co_value_attribute :: "string option"

datatype policy_effect = Allow | Deny

record abac_policy =
  po_effect :: policy_effect
  po_conditions :: "abac_condition list"

type_synonym abac_context = bag

section \<open>Evaluation\<close>

fun walk_path :: "jsval \<Rightarrow> string list \<Rightarrow> jsval" where
  "walk_path v [] = v"
| "walk_path v (k # ks) = (if nullish v then JUndef else walk_path (js_get v k) ks)"

definition get_path :: "abac_context \<Rightarrow> string \<Rightarrow> jsval" where
  "get_path ctx path = (if path = [] then JUndef else walk_path (JObj ctx) (split_on CHR ''.'' path))"

datatype comparable = CNum jnum | CText string

fun as_comparable :: "jsval \<Rightarrow> comparable option" where
  "as_comparable JUndef = None"
| "as_comparable JNull = None"
| "as_comparable (JDate t txt) = Some (CNum (num_of_int t))"
| "as_comparable (JNum n) = Some (CNum n)"
| "as_comparable (JStr s) = Some (CText s)"
| "as_comparable v = Some (CText (js_string v))"

definition loose_equals :: "jsval \<Rightarrow> jsval \<Rightarrow> bool" where
  "loose_equals a b =
     (case (as_comparable a, as_comparable b) of
        (None, None) \<Rightarrow> True
      | (Some (CNum m), Some (CNum n)) \<Rightarrow> num_eq m n
      | (Some (CText s), Some (CText t)) \<Rightarrow> s = t
      | _ \<Rightarrow> False)"

datatype ordinal = ONumber jnum | ODate jnum | OText string

definition date_like :: "string \<Rightarrow> bool" where
  "date_like s \<longleftrightarrow> length s \<ge> 10
     \<and> list_all (\<lambda>i. is_digit (s ! i)) [0, 1, 2, 3, 5, 6, 8, 9] \<and> s ! 4 = CHR ''-'' \<and> s ! 7 = CHR ''-''
     \<and> (length s = 10 \<or> s ! 10 \<in> {CHR ''T'', CHR '' ''})"

definition classify_text :: "(string \<Rightarrow> int option) \<Rightarrow> string \<Rightarrow> ordinal" where
  "classify_text pd s =
     (let t = trim s in
      if t = [] then OText []
      else case (if date_like t then pd t else None) of
             Some epoch \<Rightarrow> ODate (num_of_int epoch)
           | None \<Rightarrow> if is_finite_num (to_number t) then ONumber (to_number t) else OText s)"

fun classify :: "(string \<Rightarrow> int option) \<Rightarrow> jsval \<Rightarrow> ordinal option" where
  "classify pd JUndef = None"
| "classify pd JNull = None"
| "classify pd (JDate t txt) = Some (ODate (num_of_int t))"
| "classify pd (JNum n) = (if is_finite_num n then Some (ONumber n) else None)"
| "classify pd (JStr s) = Some (classify_text pd s)"
| "classify pd v = Some (OText (js_string v))"

datatype operand_pair = NumPair jnum jnum | TextPair string string

definition coerce_pair :: "(string \<Rightarrow> int option) \<Rightarrow> jsval \<Rightarrow> jsval \<Rightarrow> operand_pair option" where
  "coerce_pair pd left right =
     (case (classify pd left, classify pd right) of
        (Some (OText s), Some (OText t)) \<Rightarrow> Some (TextPair s t)
      | (Some (OText s), _) \<Rightarrow> None
      | (_, Some (OText t)) \<Rightarrow> None
      | (Some (ONumber m), Some (ONumber n)) \<Rightarrow> Some (NumPair m n)
      | (Some (ONumber m), Some (ODate n)) \<Rightarrow> Some (NumPair m n)
      | (Some (ODate m), Some (ONumber n)) \<Rightarrow> Some (NumPair m n)
      | (Some (ODate m), Some (ODate n)) \<Rightarrow> Some (NumPair m n)
      | _ \<Rightarrow> None)"

definition ordering_operators :: "string list" where
  "ordering_operators = [''gt'', ''gte'', ''lt'', ''lte'']"

definition compare_pair :: "string \<Rightarrow> operand_pair \<Rightarrow> bool" where
  "compare_pair oper p =
     (case p of
        NumPair l r \<Rightarrow>
          (if oper = ''gt'' then num_less r l else if oper = ''gte'' then num_le r l
           else if oper = ''lt'' then num_less l r else num_le l r)
      | TextPair l r \<Rightarrow>
          (if oper = ''gt'' then l > r else if oper = ''gte'' then l \<ge> r
           else if oper = ''lt'' then l < r else l \<le> r))"

definition right_operand :: "abac_condition \<Rightarrow> abac_context \<Rightarrow> jsval" where
  "right_operand c ctx = (case co_value_attribute c of Some p \<Rightarrow> get_path ctx p | None \<Rightarrow> co_value c)"

definition holds_operator :: "(string \<Rightarrow> int option) \<Rightarrow> string \<Rightarrow> jsval \<Rightarrow> jsval \<Rightarrow> bool" where
  "holds_operator pd oper left right =
     (if oper = ''eq'' then loose_equals left right
      else if oper = ''ne'' then \<not> loose_equals left right
      else if oper = ''in'' then (case right of JArr xs \<Rightarrow> list_ex (loose_equals left) xs | _ \<Rightarrow> False)
      else if oper = ''nin'' then (case right of JArr xs \<Rightarrow> \<not> list_ex (loose_equals left) xs | _ \<Rightarrow> True)
      else if oper \<in> set ordering_operators then
        (case coerce_pair pd left right of None \<Rightarrow> False | Some p \<Rightarrow> compare_pair oper p)
      else if oper = ''contains'' then
        (case left of JArr xs \<Rightarrow> list_ex (\<lambda>x. loose_equals x right) xs
                    | JStr s \<Rightarrow> includes_str s (js_string right) | _ \<Rightarrow> False)
      else if oper = ''exists'' then
        (let present = \<not> nullish left in if right = JBool False then \<not> present else present)
      else False)"

definition evaluate_abac_condition :: "(string \<Rightarrow> int option) \<Rightarrow> abac_condition \<Rightarrow> abac_context \<Rightarrow> bool" where
  "evaluate_abac_condition pd c ctx = holds_operator pd (co_operator c) (get_path ctx (co_attribute c)) (right_operand c ctx)"

definition known_operators :: "string list" where
  "known_operators = [''eq'', ''ne'', ''in'', ''nin'', ''gt'', ''gte'', ''lt'', ''lte'', ''contains'', ''exists'']"

definition is_unevaluable :: "(string \<Rightarrow> int option) \<Rightarrow> abac_condition \<Rightarrow> abac_context \<Rightarrow> bool" where
  "is_unevaluable pd c ctx =
     (if co_operator c \<notin> set known_operators then True
      else if co_operator c \<in> set ordering_operators
      then coerce_pair pd (get_path ctx (co_attribute c)) (right_operand c ctx) = None
      else False)"

definition policy_applies :: "(string \<Rightarrow> int option) \<Rightarrow> abac_policy \<Rightarrow> abac_context \<Rightarrow> bool" where
  "policy_applies pd p ctx =
     list_all (\<lambda>c. if is_unevaluable pd c ctx then po_effect p = Deny else evaluate_abac_condition pd c ctx) (po_conditions p)"

fun evaluate_policies_from :: "(string \<Rightarrow> int option) \<Rightarrow> bool \<Rightarrow> abac_policy list \<Rightarrow> abac_context \<Rightarrow> policy_effect option" where
  "evaluate_policies_from pd saw [] ctx = (if saw then Some Allow else None)"
| "evaluate_policies_from pd saw (p # ps) ctx =
     (if \<not> policy_applies pd p ctx then evaluate_policies_from pd saw ps ctx
      else if po_effect p = Deny then Some Deny
      else evaluate_policies_from pd True ps ctx)"

definition evaluate_policies :: "(string \<Rightarrow> int option) \<Rightarrow> abac_policy list \<Rightarrow> abac_context \<Rightarrow> policy_effect option" where
  "evaluate_policies pd ps ctx = evaluate_policies_from pd False ps ctx"

section \<open>Compilation of deny policies\<close>

datatype mongo_filter =
    FEq string jsval
  | FNe string jsval
  | FIn string jsval
  | FNin string jsval
  | FCompare string string jsval
  | FExists string bool
  | FAnd "mongo_filter list"

definition is_resource_path :: "string \<Rightarrow> bool" where
  "is_resource_path p = starts_with p ''resource.''"

definition resource_field :: "string \<Rightarrow> string option" where
  "resource_field p = (if is_resource_path p then Some (drop 9 p) else None)"

definition comparison_value :: "abac_condition \<Rightarrow> abac_context \<Rightarrow> (string, jsval) result" where
  "comparison_value c ctx =
     (case truthy_id (co_value_attribute c) of
        None \<Rightarrow> Inr (co_value c)
      | Some p \<Rightarrow> if is_resource_path p then Inl ''resource-to-resource'' else Inr (get_path ctx p))"

definition compile_operator :: "string \<Rightarrow> string \<Rightarrow> jsval \<Rightarrow> (string, mongo_filter) result" where
  "compile_operator oper f v =
     (if oper = ''eq'' then Inr (FEq f v)
      else if oper = ''ne'' then Inr (FNe f v)
      else if oper = ''in'' then Inr (FIn f v)
      else if oper = ''nin'' then Inr (FNin f v)
      else if oper \<in> set ordering_operators then Inr (FCompare f oper v)
      else if oper = ''contains'' then Inr (FEq f v)
      else if oper = ''exists'' then Inr (FExists f (truthy v))
      else Inl ''operator'')"

definition compile_condition :: "abac_condition \<Rightarrow> abac_context \<Rightarrow> (string, mongo_filter) result" where
  "compile_condition c ctx =
     (case truthy_id (resource_field (co_attribute c)) of
        None \<Rightarrow> Inl ''non-resource''
      | Some f \<Rightarrow>
          if list_ex (\<lambda>part. part = [] \<or> starts_with part ''$'') (split_on CHR ''.'' f) then Inl ''unsafe path''
          else bind_result (comparison_value c ctx) (compile_operator (co_operator c) f))"

fun compile_conditions :: "abac_condition list \<Rightarrow> abac_context \<Rightarrow> (string, mongo_filter list) result" where
  "compile_conditions [] ctx = Inr []"
| "compile_conditions (c # cs) ctx =
     bind_result (compile_condition c ctx) (\<lambda>f. bind_result (compile_conditions cs ctx) (\<lambda>fs. Inr (f # fs)))"

definition resource_conditions :: "abac_policy \<Rightarrow> abac_condition list" where
  "resource_conditions p = filter (\<lambda>c. is_resource_path (co_attribute c)) (po_conditions p)"

definition static_conditions :: "abac_policy \<Rightarrow> abac_condition list" where
  "static_conditions p = filter (\<lambda>c. \<not> is_resource_path (co_attribute c)) (po_conditions p)"

definition skipped :: "(string \<Rightarrow> int option) \<Rightarrow> abac_policy \<Rightarrow> abac_context \<Rightarrow> bool" where
  "skipped pd p ctx \<longleftrightarrow> po_effect p \<noteq> Deny \<or> resource_conditions p = []
     \<or> (static_conditions p \<noteq> [] \<and> \<not> policy_applies pd \<lparr>po_effect = Deny, po_conditions = static_conditions p\<rparr> ctx)"

definition shape_of :: "mongo_filter list \<Rightarrow> mongo_filter" where
  "shape_of fs = (case fs of [f] \<Rightarrow> f | _ \<Rightarrow> FAnd fs)"

fun denied_shapes :: "(string \<Rightarrow> int option) \<Rightarrow> abac_policy list \<Rightarrow> abac_context \<Rightarrow> (string, mongo_filter list) result" where
  "denied_shapes pd [] ctx = Inr []"
| "denied_shapes pd (p # ps) ctx =
     (if skipped pd p ctx then denied_shapes pd ps ctx
      else bind_result (compile_conditions (resource_conditions p) ctx) (\<lambda>fs.
             bind_result (denied_shapes pd ps ctx) (\<lambda>shapes. Inr (shape_of fs # shapes))))"

text \<open>\<open>Some shapes\<close> stands for \<open>{$nor: shapes}\<close>, \<open>None\<close> for no filter.\<close>

definition compile_abac_deny_filter ::
  "(string \<Rightarrow> int option) \<Rightarrow> abac_policy list \<Rightarrow> abac_context \<Rightarrow> (string, mongo_filter list option) result" where
  "compile_abac_deny_filter pd ps ctx =
     bind_result (denied_shapes pd ps ctx) (\<lambda>shapes. Inr (if shapes = [] then None else Some shapes))"

text \<open>The policies the action check evaluates: no condition mentions the record.\<close>

definition action_condition :: "abac_condition \<Rightarrow> bool" where
  "action_condition c \<longleftrightarrow> \<not> is_resource_path (co_attribute c)
     \<and> (case co_value_attribute c of None \<Rightarrow> True | Some p \<Rightarrow> \<not> is_resource_path p)"

definition action_policies :: "abac_policy list \<Rightarrow> abac_policy list" where
  "action_policies ps = filter (\<lambda>p. list_all action_condition (po_conditions p)) ps"

section \<open>Contexts\<close>

record subject_input =
  su_tenant :: string
  su_user :: string
  su_principal_type :: "string option"
  su_groups :: "string list option"
  su_attributes :: "bag option"

record environment_input =
  en_ip :: "string option"
  en_attributes :: "bag option"
  en_now :: jsval

definition build_subject :: "subject_input \<Rightarrow> bag" where
  "build_subject s =
     [(''id'', JStr (su_user s)), (''tenantId'', JStr (su_tenant s)),
      (''principalType'', JStr (default_to ''user'' (su_principal_type s))),
      (''groupIds'', JArr (map JStr (uniq (default_to [] (su_groups s)))))] @ default_to [] (su_attributes s)"

definition build_environment :: "environment_input \<Rightarrow> bag" where
  "build_environment e =
     (case truthy_id (en_ip e) of Some ip \<Rightarrow> [(''ip'', JStr ip)] | None \<Rightarrow> [])
     @ (''now'', en_now e) # default_to [] (en_attributes e)"

definition for_action :: "subject_input \<Rightarrow> environment_input \<Rightarrow> abac_context" where
  "for_action s e = [(''subject'', JObj (build_subject s)), (''env'', JObj (build_environment e))]"

definition for_record :: "subject_input \<Rightarrow> string \<Rightarrow> bag option \<Rightarrow> environment_input \<Rightarrow> abac_context" where
  "for_record s rid rec e =
     [(''subject'', JObj (build_subject s)), (''resource'', JObj ((''id'', JStr rid) # default_to [] rec)),
      (''env'', JObj (build_environment e))]"

end
