(* ===== verification/Abac_Safety.thy ===== *)
theory Abac_Safety
  imports Abac
begin

text \<open>
  Deny overrides in any order and an unevaluable condition fails closed; a list query filtered by the
  compiled deny policies shows the records that record-level evaluation allows, for conditions on
  present values of one kind; where it does not.
\<close>

section \<open>Combination of policies\<close>

lemma evaluate_from_iff:
  "evaluate_policies_from pd saw ps ctx = Some Deny \<longleftrightarrow> (\<exists>p \<in> set ps. po_effect p = Deny \<and> policy_applies pd p ctx)"
  "evaluate_policies_from pd saw ps ctx = Some Allow \<longleftrightarrow>
     \<not> (\<exists>p \<in> set ps. po_effect p = Deny \<and> policy_applies pd p ctx)
     \<and> (saw \<or> (\<exists>p \<in> set ps. po_effect p = Allow \<and> policy_applies pd p ctx))"
proof -
  have eff: "po_effect p \<noteq> Deny \<longleftrightarrow> po_effect p = Allow" for p by (cases "po_effect p") auto
  show "evaluate_policies_from pd saw ps ctx = Some Deny \<longleftrightarrow> (\<exists>p \<in> set ps. po_effect p = Deny \<and> policy_applies pd p ctx)"
    by (induction ps arbitrary: saw) auto
  show "evaluate_policies_from pd saw ps ctx = Some Allow \<longleftrightarrow>
     \<not> (\<exists>p \<in> set ps. po_effect p = Deny \<and> policy_applies pd p ctx)
     \<and> (saw \<or> (\<exists>p \<in> set ps. po_effect p = Allow \<and> policy_applies pd p ctx))"
    by (induction ps arbitrary: saw) (auto simp: eff)
qed

lemma evaluate_deny_iff:
  "evaluate_policies pd ps ctx = Some Deny \<longleftrightarrow> (\<exists>p \<in> set ps. po_effect p = Deny \<and> policy_applies pd p ctx)"
  by (simp add: evaluate_policies_def evaluate_from_iff)

lemma evaluate_allow_iff:
  "evaluate_policies pd ps ctx = Some Allow \<longleftrightarrow> evaluate_policies pd ps ctx \<noteq> Some Deny
     \<and> (\<exists>p \<in> set ps. po_effect p = Allow \<and> policy_applies pd p ctx)"
  by (simp add: evaluate_policies_def evaluate_from_iff)

text \<open>C12: deny overrides, whatever the order and repetition of the policies, and evaluation fails closed:
  one deny policy all of whose conditions hold or cannot be evaluated decides, and an allow policy
  with a condition that cannot be evaluated never grants.\<close>
theorem policies_deny_overrides:
  "(set ps = set qs \<longrightarrow> evaluate_policies pd ps ctx = evaluate_policies pd qs ctx)
   \<and> (p \<in> set ps \<and> po_effect p = Deny
        \<and> (\<forall>c \<in> set (po_conditions p). is_unevaluable pd c ctx \<or> evaluate_abac_condition pd c ctx)
      \<longrightarrow> evaluate_policies pd ps ctx = Some Deny)
   \<and> (evaluate_policies pd ps ctx = Some Allow \<longrightarrow>
        (\<exists>q \<in> set ps. po_effect q = Allow
           \<and> (\<forall>c \<in> set (po_conditions q). \<not> is_unevaluable pd c ctx \<and> evaluate_abac_condition pd c ctx)))"
proof (intro conjI impI)
  assume eq: "set ps = set qs"
  have "evaluate_policies pd ps ctx = v \<longleftrightarrow> evaluate_policies pd qs ctx = v" if "v \<noteq> None" for v
    using that eq evaluate_deny_iff evaluate_allow_iff by (cases v; cases "the v") (metis option.sel)+
  then show "evaluate_policies pd ps ctx = evaluate_policies pd qs ctx" by (metis option.exhaust)
next
  assume "p \<in> set ps \<and> po_effect p = Deny
    \<and> (\<forall>c \<in> set (po_conditions p). is_unevaluable pd c ctx \<or> evaluate_abac_condition pd c ctx)"
  then show "evaluate_policies pd ps ctx = Some Deny"
    by (auto simp: evaluate_deny_iff policy_applies_def list_all_iff)
next
  assume "evaluate_policies pd ps ctx = Some Allow"
  then obtain q where "q \<in> set ps" "po_effect q = Allow" "policy_applies pd q ctx"
    using evaluate_allow_iff by blast
  then show "\<exists>q \<in> set ps. po_effect q = Allow
      \<and> (\<forall>c \<in> set (po_conditions q). \<not> is_unevaluable pd c ctx \<and> evaluate_abac_condition pd c ctx)"
    by (auto simp: policy_applies_def list_all_iff split: if_splits)
qed

section \<open>Paths\<close>

lemma split_prefix: "c \<notin> set xs \<Longrightarrow> split_on c (xs @ c # ys) = xs # split_on c ys"
  by (induction xs) auto

lemma resource_path_split:
  assumes "is_resource_path p"
  shows "split_on CHR ''.'' p = ''resource'' # split_on CHR ''.'' (drop 9 p)" "p \<noteq> []"
proof -
  obtain f where f: "p = ''resource.'' @ f"
    using assms by (auto simp: is_resource_path_def starts_with_def prefix_def)
  then show "split_on CHR ''.'' p = ''resource'' # split_on CHR ''.'' (drop 9 p)" "p \<noteq> []"
    using split_prefix[of "CHR ''.''" "''resource''" f] by simp_all
qed

definition rooted :: "string \<Rightarrow> bool" where
  "rooted p \<longleftrightarrow> hd (split_on CHR ''.'' p) \<noteq> ''resource''"

lemma resource_path_value:
  assumes "is_resource_path p" "hd (split_on CHR ''.'' (drop 9 p)) \<noteq> ''id''" "drop 9 p \<noteq> []"
  shows "get_path (for_record s rid (Some rec) e) p = get_path rec (drop 9 p)"
proof -
  obtain k ks where ks: "split_on CHR ''.'' (drop 9 p) = k # ks"
    using split_on_nonempty by (meson neq_Nil_conv)
  with assms(2) have "k \<noteq> ''id''" by simp
  then show ?thesis
    using resource_path_split[OF assms(1)] assms(3) ks by (simp add: get_path_def for_record_def)
qed

lemma rooted_value: "rooted p \<Longrightarrow> get_path (for_record s rid rec e) p = get_path (for_action s e) p"
proof -
  assume r: "rooted p"
  obtain k ks where ks: "split_on CHR ''.'' p = k # ks"
    using split_on_nonempty by (meson neq_Nil_conv)
  with r have "k \<noteq> ''resource''" by (simp add: rooted_def)
  then show ?thesis by (simp add: get_path_def for_record_def for_action_def ks)
qed

section \<open>What the query relies on\<close>

text \<open>Values of one kind, and their equality and order in the database.\<close>

fun same_kind :: "jsval \<Rightarrow> jsval \<Rightarrow> bool" where
  "same_kind (JNum m) (JNum n) = (is_finite_num m \<and> is_finite_num n)"
| "same_kind (JStr s) (JStr t) = True"
| "same_kind (JBool a) (JBool b) = True"
| "same_kind (JDate s x) (JDate t y) = True"
| "same_kind _ _ = False"

fun db_equal :: "jsval \<Rightarrow> jsval \<Rightarrow> bool" where
  "db_equal (JNum m) (JNum n) = num_eq m n"
| "db_equal (JStr s) (JStr t) = (s = t)"
| "db_equal (JBool a) (JBool b) = (a = b)"
| "db_equal (JDate s x) (JDate t y) = (s = t)"
| "db_equal _ _ = False"

fun ordered_kind :: "(string \<Rightarrow> int option) \<Rightarrow> jsval \<Rightarrow> jsval \<Rightarrow> bool" where
  "ordered_kind pd (JNum m) (JNum n) = (is_finite_num m \<and> is_finite_num n)"
| "ordered_kind pd (JStr s) (JStr t) = (classify_text pd s = OText s \<and> classify_text pd t = OText t)"
| "ordered_kind pd (JDate s x) (JDate t y) = True"
| "ordered_kind _ _ _ = False"

fun db_compare :: "string \<Rightarrow> jsval \<Rightarrow> jsval \<Rightarrow> bool" where
  "db_compare oper (JNum m) (JNum n) = compare_pair oper (NumPair m n)"
| "db_compare oper (JStr s) (JStr t) = compare_pair oper (TextPair s t)"
| "db_compare oper (JDate s x) (JDate t y) = compare_pair oper (NumPair (num_of_int s) (num_of_int t))"
| "db_compare _ _ _ = False"

text \<open>
  A field path the database and the program read alike: every part is a plain field name, and what is
  entered on the way is an object or nothing (the database enters arrays and knows no length of them).
\<close>

fun enters_objects :: "jsval \<Rightarrow> string list \<Rightarrow> bool" where
  "enters_objects v [] = True"
| "enters_objects v (k # ks) =
     (k \<noteq> [] \<and> hd k \<noteq> CHR ''$'' \<and>
      (case v of JObj kvs \<Rightarrow> enters_objects (bag_get kvs k) ks | JUndef \<Rightarrow> enters_objects JUndef ks
         | JNull \<Rightarrow> enters_objects JNull ks | _ \<Rightarrow> False))"

definition field_path :: "bag \<Rightarrow> string \<Rightarrow> bool" where
  "field_path r f \<longleftrightarrow> enters_objects (JObj r) (split_on CHR ''.'' f)"

text \<open>
  The documented meaning of the filters on one document, for such a path to a value of the kind of the
  comparand: equality of scalars, membership, comparison, presence, an array field containing a scalar,
  conjunction of one or more filters.
\<close>

definition mongo_laws :: "(string \<Rightarrow> int option) \<Rightarrow> (mongo_filter \<Rightarrow> bag \<Rightarrow> bool) \<Rightarrow> bool" where
  "mongo_laws pd M \<longleftrightarrow>
     (\<forall>r f. field_path r f \<longrightarrow>
       (\<forall>x. same_kind (get_path r f) x \<longrightarrow> M (FEq f x) r = db_equal (get_path r f) x)
     \<and> (\<forall>x. same_kind (get_path r f) x \<longrightarrow> M (FNe f x) r = (\<not> db_equal (get_path r f) x))
     \<and> (\<forall>xs. list_all (same_kind (get_path r f)) xs \<longrightarrow> M (FIn f (JArr xs)) r = list_ex (db_equal (get_path r f)) xs)
     \<and> (\<forall>xs. list_all (same_kind (get_path r f)) xs \<longrightarrow> M (FNin f (JArr xs)) r = (\<not> list_ex (db_equal (get_path r f)) xs))
     \<and> (\<forall>oper x. ordered_kind pd (get_path r f) x \<longrightarrow> M (FCompare f oper x) r = db_compare oper (get_path r f) x)
     \<and> (\<forall>b. get_path r f \<noteq> JNull \<longrightarrow> M (FExists f b) r = (b = (get_path r f \<noteq> JUndef)))
     \<and> (\<forall>ys x. get_path r f = JArr ys \<longrightarrow> list_all (\<lambda>y. same_kind y x) ys \<longrightarrow>
          M (FEq f x) r = list_ex (\<lambda>y. db_equal y x) ys))
   \<and> (\<forall>fs r. fs \<noteq> [] \<longrightarrow> M (FAnd fs) r = list_all (\<lambda>f. M f r) fs)"

lemma same_kind_equal: "same_kind v x \<Longrightarrow> loose_equals v x = db_equal v x"
  by (cases v; cases x) (auto simp: loose_equals_def num_of_int_def)

lemma ordered_kind_pair:
  "ordered_kind pd v x \<Longrightarrow> \<exists>p. coerce_pair pd v x = Some p \<and> compare_pair oper p = db_compare oper v x"
  by (cases v; cases x) (auto simp: coerce_pair_def)

text \<open>A condition of a deny policy that the two sides read alike on a record.\<close>

definition plain_operands :: "(string \<Rightarrow> int option) \<Rightarrow> string \<Rightarrow> jsval \<Rightarrow> jsval \<Rightarrow> bool" where
  "plain_operands pd oper v x \<longleftrightarrow>
     (if oper \<in> {''eq'', ''ne''} then same_kind v x
      else if oper \<in> {''in'', ''nin''} then (case x of JArr xs \<Rightarrow> list_all (same_kind v) xs | _ \<Rightarrow> False)
      else if oper \<in> set ordering_operators then ordered_kind pd v x
      else if oper = ''contains'' then (case v of JArr ys \<Rightarrow> list_all (\<lambda>y. same_kind y x) ys | _ \<Rightarrow> False)
      else oper = ''exists'' \<and> v \<noteq> JNull \<and> (case x of JBool b \<Rightarrow> True | _ \<Rightarrow> False))"

definition plain_condition :: "(string \<Rightarrow> int option) \<Rightarrow> abac_context \<Rightarrow> bag \<Rightarrow> abac_condition \<Rightarrow> bool" where
  "plain_condition pd ctx r c \<longleftrightarrow>
     (case co_value_attribute c of None \<Rightarrow> True | Some p \<Rightarrow> p \<noteq> [] \<and> rooted p)
     \<and> (if is_resource_path (co_attribute c)
        then hd (split_on CHR ''.'' (drop 9 (co_attribute c))) \<noteq> ''id''
          \<and> field_path r (drop 9 (co_attribute c))
          \<and> plain_operands pd (co_operator c) (get_path r (drop 9 (co_attribute c))) (right_operand c ctx)
        else rooted (co_attribute c))"

lemma mongo_law_simps:
  assumes "mongo_laws pd M" and "field_path r f"
  shows "same_kind (get_path r f) x \<Longrightarrow> M (FEq f x) r = db_equal (get_path r f) x"
    and "same_kind (get_path r f) x \<Longrightarrow> M (FNe f x) r = (\<not> db_equal (get_path r f) x)"
    and "list_all (same_kind (get_path r f)) xs \<Longrightarrow> M (FIn f (JArr xs)) r = list_ex (db_equal (get_path r f)) xs"
    and "list_all (same_kind (get_path r f)) xs \<Longrightarrow> M (FNin f (JArr xs)) r = (\<not> list_ex (db_equal (get_path r f)) xs)"
    and "ordered_kind pd (get_path r f) x \<Longrightarrow> M (FCompare f oper x) r = db_compare oper (get_path r f) x"
    and "get_path r f \<noteq> JNull \<Longrightarrow> M (FExists f b) r = (b = (get_path r f \<noteq> JUndef))"
    and "get_path r f = JArr ys \<Longrightarrow> list_all (\<lambda>y. same_kind y x) ys \<Longrightarrow> M (FEq f x) r = list_ex (\<lambda>y. db_equal y x) ys"
  using assms by (simp_all add: mongo_laws_def)

lemma mongo_conjunction:
  "mongo_laws pd M \<Longrightarrow> fs \<noteq> [] \<Longrightarrow> M (FAnd fs) r = list_all (\<lambda>g. M g r) fs"
  by (simp add: mongo_laws_def)

lemma array_case: "(case x of JArr xs \<Rightarrow> P xs | _ \<Rightarrow> False) \<longleftrightarrow> (\<exists>xs. x = JArr xs \<and> P xs)"
  by (cases x) simp_all

lemma bool_case: "(case x of JBool b \<Rightarrow> True | _ \<Rightarrow> False) \<longleftrightarrow> (\<exists>b. x = JBool b)"
  by (cases x) simp_all

lemma plain_operands_cases:
  assumes "plain_operands pd oper v x"
  obtains (equality) "oper = ''eq'' \<or> oper = ''ne''" "same_kind v x"
    | (membership) xs where "oper = ''in'' \<or> oper = ''nin''" "x = JArr xs" "list_all (same_kind v) xs"
    | (ordering) "oper \<in> set ordering_operators" "ordered_kind pd v x"
    | (inclusion) ys where "oper = ''contains''" "v = JArr ys" "list_all (\<lambda>y. same_kind y x) ys"
    | (presence) b where "oper = ''exists''" "v \<noteq> JNull" "x = JBool b"
proof -
  note oper = assms[unfolded plain_operands_def array_case bool_case]
  show thesis
  proof (cases "oper \<in> {''eq'', ''ne''}")
    case True
    with oper have "same_kind v x" by (simp only: if_True)
    with True equality show thesis by blast
  next
    case not_eq: False
    show thesis
    proof (cases "oper \<in> {''in'', ''nin''}")
      case True
      with oper not_eq obtain xs where "x = JArr xs" "list_all (same_kind v) xs"
        by (simp only: if_True if_False) blast
      with True membership show thesis by blast
    next
      case not_in: False
      show thesis
      proof (cases "oper \<in> set ordering_operators")
        case True
        with oper not_eq not_in ordering show thesis by (simp only: if_True if_False)
      next
        case not_ordering: False
        show thesis
        proof (cases "oper = ''contains''")
          case True
          with oper not_eq not_in not_ordering
          have "\<exists>ys. v = JArr ys \<and> list_all (\<lambda>y. same_kind y x) ys"
            by (simp only: if_True if_False)
          with True inclusion show thesis by (elim exE conjE)
        next
          case False
          with oper not_eq not_in not_ordering
          have "oper = ''exists'' \<and> v \<noteq> JNull \<and> (\<exists>b. x = JBool b)"
            by (simp only: if_False) simp
          with presence show thesis by (elim exE conjE)
        qed
      qed
    qed
  qed
qed

lemma equal_members:
  "list_all (same_kind v) xs \<Longrightarrow> list_ex (loose_equals v) xs = list_ex (db_equal v) xs"
  "list_all (\<lambda>y. same_kind y x) ys \<Longrightarrow> list_ex (\<lambda>y. loose_equals y x) ys = list_ex (\<lambda>y. db_equal y x) ys"
  by (induction xs) (simp_all add: same_kind_equal, induction ys, simp_all add: same_kind_equal)

lemma ordering_operator_iff:
  "oper \<in> set ordering_operators \<longleftrightarrow> oper = ''gt'' \<or> oper = ''gte'' \<or> oper = ''lt'' \<or> oper = ''lte''"
  by (simp add: ordering_operators_def)

lemma holds_operator_simps:
  "holds_operator pd ''eq'' l x = loose_equals l x"
  "holds_operator pd ''ne'' l x = (\<not> loose_equals l x)"
  "holds_operator pd ''in'' l (JArr xs) = list_ex (loose_equals l) xs"
  "holds_operator pd ''nin'' l (JArr xs) = (\<not> list_ex (loose_equals l) xs)"
  "holds_operator pd ''contains'' (JArr ys) x = list_ex (\<lambda>y. loose_equals y x) ys"
  "holds_operator pd ''exists'' l (JBool b) = (b = (\<not> nullish l))"
  by (simp_all add: holds_operator_def ordering_operators_def Let_def)

lemma holds_ordering:
  "oper \<in> set ordering_operators \<Longrightarrow> holds_operator pd oper l x =
     (case coerce_pair pd l x of None \<Rightarrow> False | Some p \<Rightarrow> compare_pair oper p)"
  unfolding ordering_operator_iff
  by (elim disjE; hypsubst; simp add: holds_operator_def ordering_operators_def)

lemma compile_operator_simps:
  "compile_operator ''eq'' f x = Inr (FEq f x)"
  "compile_operator ''ne'' f x = Inr (FNe f x)"
  "compile_operator ''in'' f x = Inr (FIn f x)"
  "compile_operator ''nin'' f x = Inr (FNin f x)"
  "compile_operator ''contains'' f x = Inr (FEq f x)"
  "compile_operator ''exists'' f x = Inr (FExists f (truthy x))"
  by (simp_all add: compile_operator_def ordering_operators_def)

lemma compile_ordering:
  "oper \<in> set ordering_operators \<Longrightarrow> compile_operator oper f x = Inr (FCompare f oper x)"
  unfolding ordering_operator_iff
  by (elim disjE; simp add: compile_operator_def ordering_operators_def)

lemma plain_operator_holds:
  assumes laws: "mongo_laws pd M" and fp: "field_path r f" and pl: "plain_operands pd oper (get_path r f) x"
  shows "\<exists>flt. compile_operator oper f x = Inr flt \<and> M flt r = holds_operator pd oper (get_path r f) x"
  using pl
proof (cases rule: plain_operands_cases)
  case equality
  note law = mongo_law_simps(1,2)[OF laws fp equality(2)]
  from equality(1) show ?thesis
    by (elim disjE; simp add: compile_operator_simps holds_operator_simps law same_kind_equal[OF equality(2)])
next
  case (membership xs)
  note law = mongo_law_simps(3,4)[OF laws fp membership(3)]
  from membership(1) show ?thesis unfolding membership(2)
    by (elim disjE; simp add: compile_operator_simps holds_operator_simps law equal_members(1)[OF membership(3)])
next
  case ordering
  obtain p where p: "coerce_pair pd (get_path r f) x = Some p"
    "compare_pair oper p = db_compare oper (get_path r f) x"
    using ordered_kind_pair[OF ordering(2)] by blast
  show ?thesis
    by (simp add: compile_ordering[OF ordering(1)] holds_ordering[OF ordering(1)]
        mongo_law_simps(5)[OF laws fp ordering(2)] p)
next
  case (inclusion ys)
  show ?thesis unfolding inclusion(1)
    by (simp add: compile_operator_simps holds_operator_simps mongo_law_simps(7)[OF laws fp inclusion(2,3)]
        inclusion(2) equal_members(2)[OF inclusion(3)])
next
  case (presence b)
  have "nullish (get_path r f) \<longleftrightarrow> get_path r f = JUndef"
    using presence(2) by (simp add: nullish_iff)
  then show ?thesis unfolding presence(1,3)
    by (simp add: compile_operator_simps holds_operator_simps mongo_law_simps(6)[OF laws fp presence(2)])
qed

lemma plain_operator_evaluable:
  assumes "plain_operands pd oper v x"
  shows "oper \<in> set known_operators" "oper \<in> set ordering_operators \<Longrightarrow> coerce_pair pd v x \<noteq> None"
proof -
  show "oper \<in> set known_operators"
    using assms
  proof (cases rule: plain_operands_cases)
    case ordering
    then show ?thesis unfolding ordering_operator_iff by (elim disjE; simp add: known_operators_def)
  qed (auto simp: known_operators_def)
  show "coerce_pair pd v x \<noteq> None" if "oper \<in> set ordering_operators"
    using assms
  proof (cases rule: plain_operands_cases)
    case ordering
    then show ?thesis using ordered_kind_pair by force
  qed (use that in \<open>auto simp: ordering_operators_def\<close>)
qed

lemma rooted_not_resource: "rooted p \<Longrightarrow> \<not> is_resource_path p"
  using resource_path_split(1) by (fastforce simp: rooted_def)

lemma rooted_operand:
  assumes "case co_value_attribute c of None \<Rightarrow> True | Some p \<Rightarrow> p \<noteq> [] \<and> rooted p"
  shows "right_operand c (for_record s rid rec e) = right_operand c (for_action s e)"
    and "comparison_value c (for_action s e) = Inr (right_operand c (for_action s e))"
  using assms rooted_value rooted_not_resource
  by (auto simp: right_operand_def comparison_value_def truthy_id_def split: option.splits)

lemma compiled_condition:
  assumes laws: "mongo_laws pd M" and pl: "plain_condition pd (for_action s e) rec c"
    and res: "is_resource_path (co_attribute c)" and cp: "compile_condition c (for_action s e) = Inr flt"
  shows "M flt rec = evaluate_abac_condition pd c (for_record s rid (Some rec) e)"
    and "\<not> is_unevaluable pd c (for_record s rid (Some rec) e)"
proof -
  let ?f = "drop 9 (co_attribute c)"
  have ops: "case co_value_attribute c of None \<Rightarrow> True | Some p \<Rightarrow> p \<noteq> [] \<and> rooted p"
    and own: "hd (split_on CHR ''.'' ?f) \<noteq> ''id''"
    and fp: "field_path rec ?f"
    and pl': "plain_operands pd (co_operator c) (get_path rec ?f) (right_operand c (for_action s e))"
    using pl res by (auto simp: plain_condition_def)
  have ne: "?f \<noteq> []"
    using cp res by (auto simp: compile_condition_def resource_field_def truthy_id_def)
  have cp': "compile_operator (co_operator c) ?f (right_operand c (for_action s e)) = Inr flt"
    using cp res ne rooted_operand(2)[OF ops]
    by (auto simp: compile_condition_def resource_field_def truthy_id_def split: if_splits)
  have left: "get_path (for_record s rid (Some rec) e) (co_attribute c) = get_path rec ?f"
    by (rule resource_path_value[OF res own ne])
  show "M flt rec = evaluate_abac_condition pd c (for_record s rid (Some rec) e)"
    using plain_operator_holds[OF laws fp pl'] cp'
    by (simp add: evaluate_abac_condition_def left rooted_operand(1)[OF ops])
  show "\<not> is_unevaluable pd c (for_record s rid (Some rec) e)"
    using plain_operator_evaluable[OF pl']
    by (auto simp: is_unevaluable_def left rooted_operand(1)[OF ops])
qed

lemma static_condition:
  assumes "plain_condition pd (for_action s e) rec c" "\<not> is_resource_path (co_attribute c)"
  shows "evaluate_abac_condition pd c (for_record s rid (Some rec) e) = evaluate_abac_condition pd c (for_action s e)"
    and "is_unevaluable pd c (for_record s rid (Some rec) e) = is_unevaluable pd c (for_action s e)"
proof -
  have "case co_value_attribute c of None \<Rightarrow> True | Some p \<Rightarrow> p \<noteq> [] \<and> rooted p"
    and "rooted (co_attribute c)"
    using assms by (auto simp: plain_condition_def)
  then show "evaluate_abac_condition pd c (for_record s rid (Some rec) e) = evaluate_abac_condition pd c (for_action s e)"
    "is_unevaluable pd c (for_record s rid (Some rec) e) = is_unevaluable pd c (for_action s e)"
    by (simp_all add: evaluate_abac_condition_def is_unevaluable_def rooted_operand(1) rooted_value)
qed

section \<open>Lists and details\<close>

definition plain_policies :: "(string \<Rightarrow> int option) \<Rightarrow> abac_policy list \<Rightarrow> abac_context \<Rightarrow> bag \<Rightarrow> bool" where
  "plain_policies pd ps ctx r \<longleftrightarrow>
     list_all (\<lambda>p. po_effect p = Deny \<longrightarrow> list_all (plain_condition pd ctx r) (po_conditions p)) ps"

definition row_visible :: "(mongo_filter \<Rightarrow> bag \<Rightarrow> bool) \<Rightarrow> mongo_filter list option \<Rightarrow> bag \<Rightarrow> bool" where
  "row_visible M flt r = (case flt of None \<Rightarrow> True | Some shapes \<Rightarrow> \<not> list_ex (\<lambda>f. M f r) shapes)"

lemma compiled_conditions:
  assumes laws: "mongo_laws pd M"
  shows "list_all (plain_condition pd (for_action s e) rec) cs \<Longrightarrow>
    list_all (\<lambda>c. is_resource_path (co_attribute c)) cs \<Longrightarrow>
    compile_conditions cs (for_action s e) = Inr fs \<Longrightarrow>
    list_all (\<lambda>f. M f rec) fs = list_all (\<lambda>c. is_unevaluable pd c (for_record s rid (Some rec) e)
      \<or> evaluate_abac_condition pd c (for_record s rid (Some rec) e)) cs"
proof (induction cs arbitrary: fs)
  case Nil
  then show ?case by simp
next
  case (Cons c cs)
  obtain f gs where c: "compile_condition c (for_action s e) = Inr f"
    and cs: "compile_conditions cs (for_action s e) = Inr gs" and fs: "fs = f # gs"
    using Cons.prems(3) by (auto simp: bind_result_def split: sum.splits)
  have "M f rec = evaluate_abac_condition pd c (for_record s rid (Some rec) e)"
    "\<not> is_unevaluable pd c (for_record s rid (Some rec) e)"
    using compiled_condition[OF laws _ _ c] Cons.prems(1,2) by simp_all
  with Cons.IH[OF _ _ cs] Cons.prems(1,2) fs show ?case by simp
qed

lemma deny_applies:
  "po_effect p = Deny \<Longrightarrow> policy_applies pd p ctx \<longleftrightarrow>
     list_all (\<lambda>c. is_unevaluable pd c ctx \<or> evaluate_abac_condition pd c ctx) (po_conditions p)"
  by (auto simp: policy_applies_def list_all_iff)

lemma list_all_partition: "list_all P xs \<longleftrightarrow> list_all P (filter Q xs) \<and> list_all P (filter (\<lambda>x. \<not> Q x) xs)"
  by (auto simp: list_all_iff)

lemma static_conditions_hold:
  assumes "list_all (plain_condition pd (for_action s e) rec) (po_conditions p)"
  shows "list_all (\<lambda>c. is_unevaluable pd c (for_record s rid (Some rec) e)
      \<or> evaluate_abac_condition pd c (for_record s rid (Some rec) e)) (static_conditions p)
    \<longleftrightarrow> policy_applies pd \<lparr>po_effect = Deny, po_conditions = static_conditions p\<rparr> (for_action s e)"
  using assms static_condition[of pd s e rec]
  by (simp add: deny_applies list_all_iff static_conditions_def)

lemma shape_matches:
  "mongo_laws pd M \<Longrightarrow> fs \<noteq> [] \<Longrightarrow> M (shape_of fs) r = list_all (\<lambda>f. M f r) fs"
  by (cases fs rule: list.exhaust[case_names Nil Cons]; cases "tl fs")
    (auto simp: shape_of_def mongo_conjunction)

lemma compile_conditions_some: "compile_conditions cs ctx = Inr fs \<Longrightarrow> cs \<noteq> [] \<Longrightarrow> fs \<noteq> []"
  by (cases cs) (auto simp: bind_result_def split: sum.splits)

text \<open>A deny policy on a record: its clauses match, or it does not mention the record and holds anyway.\<close>

lemma compiled_policy:
  assumes laws: "mongo_laws pd M" and deny: "po_effect p = Deny"
    and pl: "list_all (plain_condition pd (for_action s e) rec) (po_conditions p)"
    and some: "resource_conditions p \<noteq> []"
    and cp: "skipped pd p (for_action s e) \<or> compile_conditions (resource_conditions p) (for_action s e) = Inr fs"
  shows "policy_applies pd p (for_record s rid (Some rec) e)
    \<longleftrightarrow> \<not> skipped pd p (for_action s e) \<and> M (shape_of fs) rec"
proof -
  let ?ok = "\<lambda>c. is_unevaluable pd c (for_record s rid (Some rec) e)
      \<or> evaluate_abac_condition pd c (for_record s rid (Some rec) e)"
  let ?static = "policy_applies pd \<lparr>po_effect = Deny, po_conditions = static_conditions p\<rparr> (for_action s e)"
  have skip: "skipped pd p (for_action s e) \<longleftrightarrow> \<not> ?static"
    using deny some by (auto simp: skipped_def policy_applies_def)
  have "policy_applies pd p (for_record s rid (Some rec) e)
    \<longleftrightarrow> list_all ?ok (resource_conditions p) \<and> list_all ?ok (static_conditions p)"
    unfolding deny_applies[OF deny] resource_conditions_def static_conditions_def
    by (rule list_all_partition)
  also have "list_all ?ok (static_conditions p) \<longleftrightarrow> ?static"
    by (rule static_conditions_hold[OF pl])
  also have "list_all ?ok (resource_conditions p) = M (shape_of fs) rec" if ?static
  proof -
    have "compile_conditions (resource_conditions p) (for_action s e) = Inr fs"
      using cp skip that by simp
    moreover have "list_all (plain_condition pd (for_action s e) rec) (resource_conditions p)"
      "list_all (\<lambda>c. is_resource_path (co_attribute c)) (resource_conditions p)"
      using pl by (auto simp: resource_conditions_def list_all_iff)
    ultimately show ?thesis
      using compiled_conditions[OF laws] shape_matches[OF laws compile_conditions_some[OF _ some]] by blast
  qed
  ultimately show ?thesis using skip by blast
qed

lemma plain_action_condition:
  "plain_condition pd ctx r c \<Longrightarrow> \<not> is_resource_path (co_attribute c) \<Longrightarrow> action_condition c"
  using rooted_not_resource by (auto simp: plain_condition_def action_condition_def split: option.splits)

lemma shapes_cover_policies:
  assumes laws: "mongo_laws pd M"
  shows "plain_policies pd ps (for_action s e) rec \<Longrightarrow> denied_shapes pd ps (for_action s e) = Inr shapes \<Longrightarrow>
    list_ex (\<lambda>f. M f rec) shapes \<longleftrightarrow> (\<exists>p \<in> set ps. po_effect p = Deny \<and> resource_conditions p \<noteq> []
      \<and> policy_applies pd p (for_record s rid (Some rec) e))"
proof (induction ps arbitrary: shapes)
  case Nil
  then show ?case by simp
next
  case (Cons p ps)
  have pls: "plain_policies pd ps (for_action s e) rec"
    and pl: "po_effect p = Deny \<Longrightarrow> list_all (plain_condition pd (for_action s e) rec) (po_conditions p)"
    using Cons.prems(1) by (auto simp: plain_policies_def)
  show ?case
  proof (cases "skipped pd p (for_action s e)")
    case True
    have "\<not> (po_effect p = Deny \<and> resource_conditions p \<noteq> []
        \<and> policy_applies pd p (for_record s rid (Some rec) e))"
      using compiled_policy[OF laws _ pl] True by blast
    with True Cons.IH[OF pls] Cons.prems(2) show ?thesis by auto
  next
    case False
    then obtain fs rest where fs: "compile_conditions (resource_conditions p) (for_action s e) = Inr fs"
      and rest: "denied_shapes pd ps (for_action s e) = Inr rest" and shapes: "shapes = shape_of fs # rest"
      using Cons.prems(2) by (auto simp: bind_result_def split: sum.splits)
    have deny: "po_effect p = Deny" "resource_conditions p \<noteq> []"
      using False by (auto simp: skipped_def)
    have "policy_applies pd p (for_record s rid (Some rec) e) \<longleftrightarrow> M (shape_of fs) rec"
      using compiled_policy[OF laws deny(1) pl[OF deny(1)] deny(2)] fs False by blast
    with deny Cons.IH[OF pls rest] shapes show ?thesis by auto
  qed
qed

lemma compiled_filter_agrees:
  assumes laws: "mongo_laws pd M" and pl: "plain_policies pd ps (for_action s e) rec"
    and act: "evaluate_policies pd (action_policies ps) (for_action s e) \<noteq> Some Deny"
    and cp: "compile_abac_deny_filter pd ps (for_action s e) = Inr flt"
  shows "row_visible M flt rec \<longleftrightarrow> evaluate_policies pd ps (for_record s rid (Some rec) e) \<noteq> Some Deny"
proof -
  obtain shapes where shapes: "denied_shapes pd ps (for_action s e) = Inr shapes"
    and flt: "flt = (if shapes = [] then None else Some shapes)"
    using cp by (auto simp: compile_abac_deny_filter_def bind_result_def split: sum.splits)
  have visible: "row_visible M flt rec \<longleftrightarrow> \<not> list_ex (\<lambda>f. M f rec) shapes"
    by (simp add: row_visible_def flt)
  have "\<not> policy_applies pd p (for_record s rid (Some rec) e)"
    if p: "p \<in> set ps" "po_effect p = Deny" "resource_conditions p = []" for p
  proof -
    have plain: "list_all (plain_condition pd (for_action s e) rec) (po_conditions p)"
      using pl p by (auto simp: plain_policies_def list_all_iff)
    have static: "static_conditions p = po_conditions p" "\<forall>c \<in> set (po_conditions p). \<not> is_resource_path (co_attribute c)"
      using p(3) by (auto simp: resource_conditions_def static_conditions_def filter_empty_conv intro: filter_True)
    then have "p \<in> set (action_policies ps)"
      using p(1) plain plain_action_condition by (force simp: action_policies_def list_all_iff)
    then have "\<not> policy_applies pd p (for_action s e)"
      using act p(2) by (auto simp: evaluate_deny_iff)
    then show ?thesis
      using static_conditions_hold[OF plain] p(2) static(1) by (simp add: deny_applies)
  qed
  then show ?thesis
    using shapes_cover_policies[OF laws pl shapes] visible by (auto simp: evaluate_deny_iff)
qed

section \<open>Instances\<close>

text \<open>A matcher that satisfies the laws.\<close>

fun example_match :: "mongo_filter \<Rightarrow> bag \<Rightarrow> bool" where
  "example_match (FEq f x) r =
     (db_equal (get_path r f) x \<or> (case get_path r f of JArr ys \<Rightarrow> list_ex (\<lambda>y. db_equal y x) ys | _ \<Rightarrow> False))"
| "example_match (FNe f x) r =
     (\<not> (db_equal (get_path r f) x \<or> (case get_path r f of JArr ys \<Rightarrow> list_ex (\<lambda>y. db_equal y x) ys | _ \<Rightarrow> False)))"
| "example_match (FIn f x) r = (case x of JArr xs \<Rightarrow> list_ex (db_equal (get_path r f)) xs | _ \<Rightarrow> False)"
| "example_match (FNin f x) r = (case x of JArr xs \<Rightarrow> \<not> list_ex (db_equal (get_path r f)) xs | _ \<Rightarrow> False)"
| "example_match (FCompare f oper x) r = db_compare oper (get_path r f) x"
| "example_match (FExists f b) r = (b = (get_path r f \<noteq> JUndef))"
| "example_match (FAnd fs) r = list_all (\<lambda>f. example_match f r) fs"

lemma same_kind_scalar: "same_kind v x \<Longrightarrow> (case v of JArr ys \<Rightarrow> P ys | _ \<Rightarrow> False) = False"
  by (cases v) auto

lemma db_equal_array: "db_equal (JArr ys) x = False"
  by (cases x) simp_all

lemma example_laws: "mongo_laws pd example_match"
  by (simp add: mongo_laws_def same_kind_scalar db_equal_array)

theorem policies_deny_overrides_witness:
  "evaluate_policies (\<lambda>_. None)
     [\<lparr>po_effect = Allow, po_conditions = []\<rparr>,
      \<lparr>po_effect = Deny, po_conditions = [\<lparr>co_attribute = ''subject.x'', co_operator = ''gt'', co_value = JNull,
         co_value_attribute = None\<rparr>]\<rparr>] [] = Some Deny"
proof -
  let ?d = "\<lparr>po_effect = Deny, po_conditions = [\<lparr>co_attribute = ''subject.x'', co_operator = ''gt'', co_value = JNull,
         co_value_attribute = None\<rparr>]\<rparr>"
  have "is_unevaluable (\<lambda>_. None) c []" if "c \<in> set (po_conditions ?d)" for c
    using that by (simp add: is_unevaluable_def known_operators_def ordering_operators_def coerce_pair_def
        right_operand_def get_path_def)
  then show ?thesis
    using policies_deny_overrides[of "[\<lparr>po_effect = Allow, po_conditions = []\<rparr>, ?d]" _ "\<lambda>_. None" "[]" ?d] by auto
qed

end
