(* ===== verification/Access_Policy.thy ===== *)
theory Access_Policy
  imports Abac_Safety
begin

text \<open>
  The tenant's attribute policies (\<open>src/src/common/permissions/access-policy.service.ts\<close>): validation,
  creation, update, rollback and removal with their published revisions, the Redis bundle of the active
  policies and its version key, and the three evaluations. \<open>redis_health\<close> says which Redis and store
  calls of the operation succeed; identifiers, the clock and the actor are arguments. Priorities are
  integers (\<open>IsInt\<close> in \<open>access-policy.dto.ts\<close>); the mongoose defaults fill what an input leaves out.
\<close>

section \<open>Rows and store\<close>

record policy_body =
  pb_name :: string
  pb_description :: string
  pb_resource :: string
  pb_action :: string
  pb_effect :: policy_effect
  pb_conditions :: "abac_condition list"
  pb_active :: bool
  pb_priority :: int

record policy_version =
  pv_revision :: int
  pv_snapshot :: policy_body
  pv_published_at :: int
  pv_published_by :: string
  pv_source :: "int option"

record policy_row =
  pw_id :: string
  pw_tenant :: string
  pw_body :: policy_body
  pw_revision :: "int option"
  pw_versions :: "policy_version list"
  pw_created :: "int option"

record policy_input =
  in_name :: "string option"
  in_description :: "string option"
  in_resource :: "string option"
  in_action :: "string option"
  in_effect :: "policy_effect option"
  in_conditions :: "abac_condition list option"
  in_active :: "bool option"
  in_priority :: "int option"

record policy_store =
  ps_rows :: "policy_row list"
  ps_version :: "string \<rightharpoonup> int"
  ps_bundles :: "string \<times> int \<rightharpoonup> policy_body list \<times> int"
  ps_audit :: "(string \<times> string) list"

record redis_health =
  rh_present :: bool
  rh_read :: bool
  rh_write :: bool
  rh_incr :: bool
  rh_store :: bool

datatype policy_error = BadRequest string | NotFound | Unavailable string

section \<open>Validation\<close>

definition forbidden_segments :: "string list" where
  "forbidden_segments = [''__proto__'', ''constructor'', ''prototype'']"

definition validate_attribute_path :: "string \<Rightarrow> (policy_error, unit) result" where
  "validate_attribute_path path =
     (case split_on CHR ''.'' path of
        [] \<Rightarrow> Inl (BadRequest ''root'')
      | root # rest \<Rightarrow>
          if root \<notin> {''subject'', ''resource'', ''env''} then Inl (BadRequest ''root'')
          else if list_ex (\<lambda>seg. seg \<in> set forbidden_segments \<or> seg = []) rest then Inl (BadRequest ''path'')
          else Inr ())"

definition needs_comparand :: "abac_condition \<Rightarrow> bool" where
  "needs_comparand c \<longleftrightarrow> co_value c = JUndef \<and> co_value_attribute c = None \<and> co_operator c \<noteq> ''exists''"

definition needs_array :: "abac_condition \<Rightarrow> bool" where
  "needs_array c \<longleftrightarrow> (co_operator c = ''in'' \<or> co_operator c = ''nin'') \<and> co_value_attribute c = None
     \<and> (case co_value c of JArr _ \<Rightarrow> False | _ \<Rightarrow> True)"

definition validate_condition :: "abac_condition \<Rightarrow> (policy_error, unit) result" where
  "validate_condition c =
     (if co_attribute c = [] then Inl (BadRequest ''attribute'')
      else bind_result (validate_attribute_path (co_attribute c)) (\<lambda>_.
        bind_result (case truthy_id (co_value_attribute c) of
                       Some p \<Rightarrow> validate_attribute_path p | None \<Rightarrow> Inr ()) (\<lambda>_.
          if co_operator c \<notin> set known_operators then Inl (BadRequest ''operator'')
          else if needs_comparand c then Inl (BadRequest ''comparand'')
          else if needs_array c then Inl (BadRequest ''array'')
          else Inr ())))"

fun validate_conditions :: "abac_condition list \<Rightarrow> (policy_error, unit) result" where
  "validate_conditions [] = Inr ()"
| "validate_conditions (c # cs) = bind_result (validate_condition c) (\<lambda>_. validate_conditions cs)"

section \<open>Reading and caching\<close>

definition policy_before :: "policy_row \<Rightarrow> policy_row \<Rightarrow> bool" where
  "policy_before a b \<longleftrightarrow> pb_priority (pw_body a) < pb_priority (pw_body b)
     \<or> (pb_priority (pw_body a) = pb_priority (pw_body b) \<and> pw_id a \<le> pw_id b)"

definition read_active_policies :: "string \<Rightarrow> policy_store \<Rightarrow> policy_body list" where
  "read_active_policies t st =
     map pw_body (sort_by policy_before
       (filter (\<lambda>r. pw_tenant r = t \<and> pb_active (pw_body r)) (ps_rows st)))"

definition policy_cache_ttl_ms :: int where "policy_cache_ttl_ms = 60 * 1000"

definition current_version :: "string \<Rightarrow> policy_store \<Rightarrow> int \<times> policy_store" where
  "current_version t st =
     (case ps_version st t of Some v \<Rightarrow> (v, st) | None \<Rightarrow> (1, st\<lparr>ps_version := (ps_version st)(t \<mapsto> 1)\<rparr>))"

definition cached_bundle :: "int \<Rightarrow> string \<Rightarrow> int \<Rightarrow> policy_store \<Rightarrow> policy_body list option" where
  "cached_bundle now t v st =
     (case ps_bundles st (t, v) of
        None \<Rightarrow> None | Some (ps, ex) \<Rightarrow> if ex \<le> now then None else Some ps)"

definition store_bundle :: "int \<Rightarrow> string \<Rightarrow> int \<Rightarrow> policy_body list \<Rightarrow> policy_store \<Rightarrow> policy_store" where
  "store_bundle now t v ps st =
     st\<lparr>ps_bundles := (ps_bundles st)((t, v) \<mapsto> (ps, now + policy_cache_ttl_ms))\<rparr>"

definition read_store :: "redis_health \<Rightarrow> string \<Rightarrow> policy_store \<Rightarrow> policy_body list option" where
  "read_store rh t st = (if rh_store rh then Some (read_active_policies t st) else None)"

definition load_active_policies ::
  "redis_health \<Rightarrow> int \<Rightarrow> string \<Rightarrow> policy_store \<Rightarrow> policy_body list option \<times> policy_store" where
  "load_active_policies rh now t st =
     (if rh_present rh \<and> rh_read rh then
        (let (v, st1) = current_version t st in
         case cached_bundle now t v st1 of
           Some ps \<Rightarrow> (Some ps, st1)
         | None \<Rightarrow>
             (case read_store rh t st1 of
                None \<Rightarrow> (None, st1)
              | Some ps \<Rightarrow> (Some ps, if rh_write rh then store_bundle now t v ps st1 else st1)))
      else (read_store rh t st, st))"

definition bump_version :: "string \<Rightarrow> policy_store \<Rightarrow> policy_store" where
  "bump_version t st = st\<lparr>ps_version := (ps_version st)(t \<mapsto> default_to 0 (ps_version st t) + 1)\<rparr>"

definition invalidate_policy_bundle :: "redis_health \<Rightarrow> string \<Rightarrow> policy_store \<Rightarrow> (policy_error, unit) result \<times> policy_store" where
  "invalidate_policy_bundle rh t st =
     (if \<not> rh_present rh then (Inr (), st)
      else if rh_incr rh then (Inr (), bump_version t st)
      else (Inl (Unavailable ''cache invalidation failed''), st))"

section \<open>Evaluation\<close>

definition policy_matches :: "string \<Rightarrow> string \<Rightarrow> policy_body \<Rightarrow> bool" where
  "policy_matches rsc act p \<longleftrightarrow> (pb_resource p = rsc \<or> pb_resource p = ''*'') \<and> (pb_action p = act \<or> pb_action p = ''*'')"

definition as_abac :: "policy_body \<Rightarrow> abac_policy" where
  "as_abac p = \<lparr>po_effect = pb_effect p, po_conditions = pb_conditions p\<rparr>"

definition matching_policies :: "string \<Rightarrow> string \<Rightarrow> policy_body list \<Rightarrow> abac_policy list" where
  "matching_policies rsc act ps = map as_abac (filter (policy_matches rsc act) ps)"

definition evaluate_record ::
  "(string \<Rightarrow> int option) \<Rightarrow> redis_health \<Rightarrow> int \<Rightarrow> string \<Rightarrow> string \<Rightarrow> string \<Rightarrow> abac_context \<Rightarrow> policy_store
    \<Rightarrow> (policy_error, policy_effect option) result \<times> policy_store" where
  "evaluate_record pd rh now t rsc act ctx st =
     (case load_active_policies rh now t st of
        (None, st1) \<Rightarrow> (Inl (Unavailable ''policy store''), st1)
      | (Some ps, st1) \<Rightarrow>
          (let qs = matching_policies rsc act ps in
           (Inr (if qs = [] then None else evaluate_policies pd qs ctx), st1)))"

definition evaluate_action_context ::
  "(string \<Rightarrow> int option) \<Rightarrow> redis_health \<Rightarrow> int \<Rightarrow> string \<Rightarrow> string \<Rightarrow> string \<Rightarrow> abac_context \<Rightarrow> policy_store
    \<Rightarrow> (policy_error, policy_effect option) result \<times> policy_store" where
  "evaluate_action_context pd rh now t rsc act ctx st =
     (case load_active_policies rh now t st of
        (None, st1) \<Rightarrow> (Inl (Unavailable ''policy store''), st1)
      | (Some ps, st1) \<Rightarrow>
          (let qs = action_policies (matching_policies rsc act ps) in
           (Inr (if qs = [] then None else evaluate_policies pd qs ctx), st1)))"

definition compile_resource_deny_filter ::
  "(string \<Rightarrow> int option) \<Rightarrow> redis_health \<Rightarrow> int \<Rightarrow> string \<Rightarrow> string \<Rightarrow> string \<Rightarrow> abac_context \<Rightarrow> policy_store
    \<Rightarrow> (policy_error, mongo_filter list option) result \<times> policy_store" where
  "compile_resource_deny_filter pd rh now t rsc act ctx st =
     (case load_active_policies rh now t st of
        (None, st1) \<Rightarrow> (Inl (Unavailable ''policy store''), st1)
      | (Some ps, st1) \<Rightarrow>
          (case compile_abac_deny_filter pd (matching_policies rsc act ps) ctx of
             Inl e \<Rightarrow> (Inl (Unavailable e), st1)
           | Inr flt \<Rightarrow> (Inr flt, st1)))"

definition simulate ::
  "(string \<Rightarrow> int option) \<Rightarrow> policy_body \<Rightarrow> abac_context \<Rightarrow> (policy_error, bool \<times> policy_effect option) result" where
  "simulate pd p ctx =
     bind_result (validate_conditions (pb_conditions p)) (\<lambda>_.
       let applies = policy_applies pd (as_abac p) ctx in
       Inr (applies, if applies then Some (pb_effect p) else None))"

section \<open>Publication\<close>

definition apply_input :: "policy_input \<Rightarrow> policy_body \<Rightarrow> policy_body" where
  "apply_input i b =
     \<lparr>pb_name = default_to (pb_name b) (in_name i), pb_description = default_to (pb_description b) (in_description i),
      pb_resource = default_to (pb_resource b) (in_resource i), pb_action = default_to (pb_action b) (in_action i),
      pb_effect = default_to (pb_effect b) (in_effect i), pb_conditions = default_to (pb_conditions b) (in_conditions i),
      pb_active = default_to (pb_active b) (in_active i), pb_priority = default_to (pb_priority b) (in_priority i)\<rparr>"

definition find_policy :: "string \<Rightarrow> string \<Rightarrow> policy_store \<Rightarrow> policy_row option" where
  "find_policy i t st = List.find (\<lambda>r. pw_id r = i \<and> pw_tenant r = t) (ps_rows st)"

definition save_policy :: "policy_row \<Rightarrow> policy_store \<Rightarrow> policy_store" where
  "save_policy r st = st\<lparr>ps_rows := map (\<lambda>q. if pw_id q = pw_id r then r else q) (ps_rows st)\<rparr>"

text \<open>Every mutation ends alike: invalidate the bundle, which may throw, then record the audit entry.\<close>

definition publish :: "redis_health \<Rightarrow> string \<Rightarrow> string \<Rightarrow> string \<Rightarrow> 'a \<Rightarrow> policy_store \<Rightarrow> (policy_error, 'a) result \<times> policy_store" where
  "publish rh t act i res st =
     (case invalidate_policy_bundle rh t st of
        (Inl e, st1) \<Rightarrow> (Inl e, st1)
      | (Inr _, st1) \<Rightarrow> (Inr res, st1\<lparr>ps_audit := ps_audit st1 @ [(act, i)]\<rparr>))"

definition actor_id :: "string option \<Rightarrow> string" where
  "actor_id u = default_to ''system'' u"

definition create_policy ::
  "redis_health \<Rightarrow> int \<Rightarrow> string option \<Rightarrow> string \<Rightarrow> string \<Rightarrow> policy_body \<Rightarrow> policy_store
    \<Rightarrow> (policy_error, policy_row) result \<times> policy_store" where
  "create_policy rh now actor new_id t body st =
     (case validate_conditions (pb_conditions body) of
        Inl e \<Rightarrow> (Inl e, st)
      | Inr _ \<Rightarrow>
          (let row = \<lparr>pw_id = new_id, pw_tenant = t, pw_body = body, pw_revision = Some 1,
                 pw_versions = [\<lparr>pv_revision = 1, pv_snapshot = body, pv_published_at = now,
                   pv_published_by = actor_id actor, pv_source = None\<rparr>], pw_created = Some now\<rparr>
           in publish rh t ''create'' new_id row (st\<lparr>ps_rows := ps_rows st @ [row]\<rparr>)))"

definition with_legacy_version :: "int \<Rightarrow> policy_row \<Rightarrow> policy_row" where
  "with_legacy_version now r =
     (if pw_versions r = [] then
        r\<lparr>pw_versions := [\<lparr>pv_revision = default_to 1 (pw_revision r), pv_snapshot = pw_body r,
          pv_published_at = default_to now (pw_created r), pv_published_by = ''legacy'', pv_source = None\<rparr>]\<rparr>
      else r)"

definition push_revision :: "int \<Rightarrow> string option \<Rightarrow> int option \<Rightarrow> policy_body \<Rightarrow> policy_row \<Rightarrow> policy_row" where
  "push_revision now actor src body r =
     (let rev = default_to 1 (pw_revision r) + 1 in
      r\<lparr>pw_body := body, pw_revision := Some rev,
        pw_versions := pw_versions r @ [\<lparr>pv_revision = rev, pv_snapshot = body, pv_published_at = now,
          pv_published_by = actor_id actor, pv_source = src\<rparr>]\<rparr>)"

definition update_policy ::
  "redis_health \<Rightarrow> int \<Rightarrow> string option \<Rightarrow> string \<Rightarrow> string \<Rightarrow> policy_input \<Rightarrow> policy_store
    \<Rightarrow> (policy_error, policy_row) result \<times> policy_store" where
  "update_policy rh now actor i t inp st =
     (case (case in_conditions inp of Some cs \<Rightarrow> validate_conditions cs | None \<Rightarrow> Inr ()) of
        Inl e \<Rightarrow> (Inl e, st)
      | Inr _ \<Rightarrow>
          (case find_policy i t st of
             None \<Rightarrow> (Inl NotFound, st)
           | Some r \<Rightarrow>
               (let r1 = push_revision now actor None (apply_input inp (pw_body r)) (with_legacy_version now r)
                in publish rh t ''update'' i r1 (save_policy r1 st))))"

definition remove_policy :: "redis_health \<Rightarrow> string \<Rightarrow> string \<Rightarrow> policy_store \<Rightarrow> (policy_error, unit) result \<times> policy_store" where
  "remove_policy rh i t st =
     (case find_policy i t st of
        None \<Rightarrow> (Inl NotFound, st)
      | Some r \<Rightarrow>
          publish rh t ''delete'' i () (st\<lparr>ps_rows := filter (\<lambda>q. pw_id q \<noteq> pw_id r) (ps_rows st)\<rparr>))"

definition list_versions :: "string \<Rightarrow> string \<Rightarrow> policy_store \<Rightarrow> (policy_error, int \<times> policy_version list) result" where
  "list_versions i t st =
     (case find_policy i t st of
        None \<Rightarrow> Inl NotFound | Some r \<Rightarrow> Inr (default_to 1 (pw_revision r), pw_versions r))"

definition rollback_policy ::
  "redis_health \<Rightarrow> int \<Rightarrow> string option \<Rightarrow> string \<Rightarrow> string \<Rightarrow> int \<Rightarrow> policy_store
    \<Rightarrow> (policy_error, policy_row) result \<times> policy_store" where
  "rollback_policy rh now actor i t source_rev st =
     (case find_policy i t st of
        None \<Rightarrow> (Inl NotFound, st)
      | Some r \<Rightarrow>
          (case List.find (\<lambda>v. pv_revision v = source_rev) (pw_versions r) of
             None \<Rightarrow> (Inl NotFound, st)
           | Some src \<Rightarrow>
               (case validate_conditions (pb_conditions (pv_snapshot src)) of
                  Inl e \<Rightarrow> (Inl e, st)
                | Inr _ \<Rightarrow>
                    (let r1 = push_revision now actor (Some source_rev) (pv_snapshot src) r
                     in publish rh t ''update'' i r1 (save_policy r1 st)))))"

definition find_all_policies :: "string \<Rightarrow> policy_store \<Rightarrow> policy_row list" where
  "find_all_policies t st =
     sort_by (\<lambda>a b. pb_resource (pw_body a) < pb_resource (pw_body b) \<or> pb_resource (pw_body a) = pb_resource (pw_body b)
         \<and> (pb_action (pw_body a) < pb_action (pw_body b) \<or> pb_action (pw_body a) = pb_action (pw_body b)
             \<and> pb_priority (pw_body a) \<le> pb_priority (pw_body b)))
       (filter (\<lambda>r. pw_tenant r = t) (ps_rows st))"

end
