(* ===== verification/Access_Policy_Safety.thy ===== *)
theory Access_Policy_Safety
  imports Access_Policy
begin

text \<open>
  Published policies keep a complete history whose every revision can be restored; a bundle in Redis
  under the present version key is the store's, however readers and writers interleave.
\<close>

section \<open>Histories\<close>

definition valid_body :: "policy_body \<Rightarrow> bool" where
  "valid_body b \<longleftrightarrow> validate_conditions (pb_conditions b) = Inr ()"

definition published :: "policy_row \<Rightarrow> bool" where
  "published r \<longleftrightarrow> pw_versions r \<noteq> []
     \<and> map pv_revision (pw_versions r) = map int [1..<Suc (length (pw_versions r))]
     \<and> pw_revision r = Some (int (length (pw_versions r)))
     \<and> pv_snapshot (List.last (pw_versions r)) = pw_body r
     \<and> list_all (\<lambda>v. valid_body (pv_snapshot v)) (pw_versions r)"

definition store_ok :: "policy_store \<Rightarrow> bool" where
  "store_ok st \<longleftrightarrow> list_all published (ps_rows st) \<and> distinct (map pw_id (ps_rows st))"

inductive policy_reachable :: "policy_store \<Rightarrow> bool" where
  initial: "ps_rows st = [] \<Longrightarrow> policy_reachable st"
| created: "policy_reachable st \<Longrightarrow> new_id \<notin> pw_id ` set (ps_rows st) \<Longrightarrow>
    create_policy rh now actor new_id t body st = (res, st') \<Longrightarrow> policy_reachable st'"
| updated: "policy_reachable st \<Longrightarrow> update_policy rh now actor i t inp st = (res, st') \<Longrightarrow> policy_reachable st'"
| removed: "policy_reachable st \<Longrightarrow> remove_policy rh i t st = (res, st') \<Longrightarrow> policy_reachable st'"
| rolled_back: "policy_reachable st \<Longrightarrow> rollback_policy rh now actor i t k st = (res, st') \<Longrightarrow> policy_reachable st'"
| loaded: "policy_reachable st \<Longrightarrow> load_active_policies rh now t st = (res, st') \<Longrightarrow> policy_reachable st'"

lemma publish_rows [simp]: "ps_rows (snd (publish rh t act i res st)) = ps_rows st"
  by (auto simp: publish_def invalidate_policy_bundle_def bump_version_def split: prod.splits sum.splits if_splits)

lemma load_rows: "ps_rows (snd (load_active_policies rh now t st)) = ps_rows st"
  by (auto simp: load_active_policies_def current_version_def store_bundle_def split: prod.splits option.splits)

lemma find_policy_in: "find_policy i t st = Some r \<Longrightarrow> r \<in> set (ps_rows st) \<and> pw_id r = i \<and> pw_tenant r = t"
  by (auto simp: find_policy_def dest: find_Some_in)

lemma push_published:
  assumes "published r" "valid_body b"
  shows "published (push_revision now actor src b r)"
  using assms by (auto simp: published_def push_revision_def Let_def)

lemma save_policy_ok:
  assumes "store_ok st" "published r"
  shows "store_ok (save_policy r st)"
proof -
  have "map pw_id (map (\<lambda>q. if pw_id q = pw_id r then r else q) (ps_rows st)) = map pw_id (ps_rows st)"
    by simp
  with assms show ?thesis
    unfolding store_ok_def save_policy_def by (auto simp: list_all_iff simp del: map_map)
qed

lemma push_frame [simp]:
  "pw_id (push_revision now actor src b r) = pw_id r"
  "pw_tenant (push_revision now actor src b r) = pw_tenant r"
  "pw_body (push_revision now actor src b r) = b"
  by (simp_all add: push_revision_def Let_def)

lemma legacy_published: "published r \<Longrightarrow> with_legacy_version now r = r"
  by (simp add: with_legacy_version_def published_def)

lemma published_body_valid: "published r \<Longrightarrow> valid_body (pw_body r)"
  unfolding published_def by (metis last_in_set list_all_iff)

lemma apply_input_valid:
  assumes "valid_body b" "(case in_conditions inp of Some cs \<Rightarrow> validate_conditions cs | None \<Rightarrow> Inr ()) = Inr u"
  shows "valid_body (apply_input inp b)"
  using assms by (auto simp: valid_body_def apply_input_def split: option.splits)

lemma rows_cong: "ps_rows st' = ps_rows st \<Longrightarrow> store_ok st \<Longrightarrow> store_ok st'"
  by (simp add: store_ok_def)

lemma reachable_ok: "policy_reachable st \<Longrightarrow> store_ok st"
proof (induction rule: policy_reachable.induct)
  case (initial st)
  then show ?case by (simp add: store_ok_def)
next
  case (created st new_id rh now actor t body res st')
  show ?case
  proof (cases "valid_body body")
    case True
    let ?row = "\<lparr>pw_id = new_id, pw_tenant = t, pw_body = body, pw_revision = Some 1,
                 pw_versions = [\<lparr>pv_revision = 1, pv_snapshot = body, pv_published_at = now,
                   pv_published_by = actor_id actor, pv_source = None\<rparr>], pw_created = Some now\<rparr>"
    have "ps_rows st' = ps_rows st @ [?row]"
      using created(3) True publish_rows
      by (auto simp: create_policy_def valid_body_def Let_def prod_eq_iff split: sum.splits)
    moreover have "published ?row" using True by (simp add: published_def)
    ultimately show ?thesis using created by (auto simp: store_ok_def)
  next
    case False
    then show ?thesis using created
      by (auto simp: create_policy_def valid_body_def split: sum.splits)
  qed
next
  case (updated st rh now actor i t inp res st')
  show ?case
  proof (cases "\<exists>u r. (case in_conditions inp of Some cs \<Rightarrow> validate_conditions cs | None \<Rightarrow> Inr ()) = Inr u
      \<and> find_policy i t st = Some r")
    case True
    then obtain u r where v: "(case in_conditions inp of Some cs \<Rightarrow> validate_conditions cs | None \<Rightarrow> Inr ()) = Inr u"
      and r: "find_policy i t st = Some r" by blast
    have pr: "published r"
      using updated.IH find_policy_in[OF r] by (auto simp: store_ok_def list_all_iff)
    have "published (push_revision now actor None (apply_input inp (pw_body r)) (with_legacy_version now r))"
      using push_published pr apply_input_valid[OF published_body_valid[OF pr] v] legacy_published by simp
    from save_policy_ok[OF updated.IH this] show ?thesis
      by (rule rows_cong[rotated]) (use updated(2) v r publish_rows in \<open>auto simp: update_policy_def Let_def prod_eq_iff\<close>)
  next
    case False
    then have "st' = st" using updated(2) by (auto simp: update_policy_def split: sum.splits option.splits)
    with updated.IH show ?thesis by simp
  qed
next
  case (removed st rh i t res st')
  then show ?case
    using publish_rows
    by (auto simp: remove_policy_def store_ok_def list_all_iff prod_eq_iff distinct_map_filter split: option.splits)
next
  case (rolled_back st rh now actor i t k res st')
  show ?case
  proof (cases "\<exists>r src. find_policy i t st = Some r \<and> List.find (\<lambda>v. pv_revision v = k) (pw_versions r) = Some src")
    case True
    then obtain r src where r: "find_policy i t st = Some r"
      and src: "List.find (\<lambda>v. pv_revision v = k) (pw_versions r) = Some src" by blast
    have pr: "published r"
      using rolled_back.IH find_policy_in[OF r] by (auto simp: store_ok_def list_all_iff)
    then have valid: "valid_body (pv_snapshot src)"
      using find_Some_in[OF src] by (auto simp: published_def list_all_iff)
    from save_policy_ok[OF rolled_back.IH push_published[OF pr valid]] show ?thesis
      by (rule rows_cong[rotated])
        (use rolled_back(2) r src valid publish_rows in \<open>auto simp: rollback_policy_def valid_body_def Let_def prod_eq_iff\<close>)
  next
    case False
    then have "st' = st" using rolled_back(2) by (auto simp: rollback_policy_def split: option.splits)
    with rolled_back.IH show ?thesis by simp
  qed
next
  case (loaded st rh now t res st')
  then show ?case using load_rows by (metis rows_cong snd_conv)
qed

section \<open>Rollback\<close>

lemma find_revision:
  "map pv_revision vs = map int [m..<m + length vs] \<Longrightarrow> m \<le> k \<Longrightarrow> k < m + length vs \<Longrightarrow>
   List.find (\<lambda>v. pv_revision v = int k) vs = Some (vs ! (k - m))"
proof (induction vs arbitrary: m)
  case Nil
  then show ?case by simp
next
  case (Cons v vs)
  have v: "pv_revision v = int m" and vs: "map pv_revision vs = map int [Suc m..<Suc m + length vs]"
    using Cons.prems(1) upt_conv_Cons[of m "m + length (v # vs)"] by (simp_all del: upt_Suc)
  show ?case
  proof (cases "k = m")
    case True
    with v show ?thesis by simp
  next
    case False
    with Cons.prems(2,3) have "Suc m \<le> k" "k < Suc m + length vs" "k - m = Suc (k - Suc m)" by auto
    with Cons.IH[OF vs] v False show ?thesis by simp
  qed
qed

lemma published_revision:
  assumes "published r" "1 \<le> k" "k \<le> length (pw_versions r)"
  shows "List.find (\<lambda>v. pv_revision v = int k) (pw_versions r) = Some (pw_versions r ! (k - 1))"
    and "valid_body (pv_snapshot (pw_versions r ! (k - 1)))"
proof -
  show "List.find (\<lambda>v. pv_revision v = int k) (pw_versions r) = Some (pw_versions r ! (k - 1))"
    using assms find_revision[of "pw_versions r" 1 k] by (simp add: published_def)
  have "pw_versions r ! (k - 1) \<in> set (pw_versions r)" using assms(2,3) by simp
  with assms(1) show "valid_body (pv_snapshot (pw_versions r ! (k - 1)))"
    by (auto simp: published_def list_all_iff)
qed

lemma publish_ok:
  "(rh_present rh \<Longrightarrow> rh_incr rh) \<Longrightarrow> fst (publish rh t act i res st) = Inr res"
  by (auto simp: publish_def invalidate_policy_bundle_def)

lemma find_saved:
  "find_policy i t st = Some r \<Longrightarrow> pw_id r' = i \<Longrightarrow> pw_tenant r' = t \<Longrightarrow> find_policy i t (save_policy r' st) = Some r'"
proof -
  have "List.find (\<lambda>q. pw_id q = i \<and> pw_tenant q = t) qs = Some r \<Longrightarrow> pw_id r' = i \<Longrightarrow> pw_tenant r' = t \<Longrightarrow>
    List.find (\<lambda>q. pw_id q = i \<and> pw_tenant q = t) (map (\<lambda>q. if pw_id q = pw_id r' then r' else q) qs) = Some r'" for qs
    by (induction qs) (auto split: if_splits)
  then show "find_policy i t st = Some r \<Longrightarrow> pw_id r' = i \<Longrightarrow> pw_tenant r' = t \<Longrightarrow>
      find_policy i t (save_policy r' st) = Some r'"
    by (simp add: find_policy_def save_policy_def)
qed

lemma rollback_result:
  assumes "store_ok st" "find_policy i t st = Some r" "1 \<le> k" "k \<le> length (pw_versions r)"
    and "rh_present rh \<longrightarrow> rh_incr rh"
  shows "fst (rollback_policy rh now actor i t (int k) st)
       = Inr (push_revision now actor (Some (int k)) (pv_snapshot (pw_versions r ! (k - 1))) r)"
    and "find_policy i t (snd (rollback_policy rh now actor i t (int k) st))
       = Some (push_revision now actor (Some (int k)) (pv_snapshot (pw_versions r ! (k - 1))) r)"
proof -
  let ?r = "push_revision now actor (Some (int k)) (pv_snapshot (pw_versions r ! (k - 1))) r"
  have r: "published r" "pw_id r = i" "pw_tenant r = t"
    using assms(1) find_policy_in[OF assms(2)] by (auto simp: store_ok_def list_all_iff)
  have eq: "rollback_policy rh now actor i t (int k) st = publish rh t ''update'' i ?r (save_policy ?r st)"
    using assms(2) published_revision[OF r(1) assms(3,4)]
    by (simp add: rollback_policy_def valid_body_def Let_def)
  show "fst (rollback_policy rh now actor i t (int k) st) = Inr ?r"
    unfolding eq using assms(5) by (intro publish_ok) simp
  have "find_policy i t (save_policy ?r st) = Some ?r"
    by (rule find_saved[OF assms(2)]) (simp_all add: r)
  then show "find_policy i t (snd (rollback_policy rh now actor i t (int k) st)) = Some ?r"
    unfolding eq by (simp add: find_policy_def)
qed

lemma rollback_reachable:
  "policy_reachable st \<Longrightarrow> policy_reachable (snd (rollback_policy rh now actor i t k st))"
  using policy_reachable.rolled_back by (metis surj_pair snd_conv)

text \<open>C11: every revision ever published can be restored, however the policies were created, updated, rolled
  back and removed before: rolling back to revision k succeeds, makes its content the present one and
  adds a revision without touching the earlier ones, and rolling back to the revision that was present
  undoes it.\<close>
theorem rollback_restores_revision:
  assumes "policy_reachable st" "find_policy i t st = Some r" "1 \<le> k" "k \<le> length (pw_versions r)"
    and "rh_present rh \<longrightarrow> rh_incr rh"
  shows "\<exists>st1 r1 st2 r2. rollback_policy rh now actor i t (int k) st = (Inr r1, st1)
    \<and> find_policy i t st1 = Some r1 \<and> pw_body r1 = pv_snapshot (pw_versions r ! (k - 1))
    \<and> pw_revision r1 = Some (int (Suc (length (pw_versions r))))
    \<and> rollback_policy rh now' actor i t (int (length (pw_versions r))) st1 = (Inr r2, st2)
    \<and> pw_body r2 = pw_body r
    \<and> take (length (pw_versions r)) (pw_versions r2) = pw_versions r"
proof -
  let ?n = "length (pw_versions r)"
  let ?r1 = "push_revision now actor (Some (int k)) (pv_snapshot (pw_versions r ! (k - 1))) r"
  let ?st1 = "snd (rollback_policy rh now actor i t (int k) st)"
  let ?r2 = "push_revision now' actor (Some (int ?n)) (pv_snapshot (pw_versions ?r1 ! (?n - 1))) ?r1"
  have ok: "store_ok st" "store_ok ?st1" using reachable_ok rollback_reachable assms(1) by blast+
  have r: "published r" using ok(1) find_policy_in[OF assms(2)] by (auto simp: store_ok_def list_all_iff)
  note one = rollback_result[OF ok(1) assms(2-5), where now = now and actor = actor]
  have n: "1 \<le> ?n" "?n \<le> length (pw_versions ?r1)"
    using assms(3,4) by (simp_all add: push_revision_def Let_def)
  note two = rollback_result[OF ok(2) one(2) n assms(5), where now = now' and actor = actor]
  have last: "pw_versions ?r1 ! (?n - 1) = List.last (pw_versions r)"
  proof -
    have "pw_versions r \<noteq> []" "?n - 1 < ?n" using n(1) by auto
    then show ?thesis
      using last_conv_nth[of "pw_versions r"] by (simp add: push_revision_def Let_def nth_append)
  qed
  have body: "pw_body ?r2 = pw_body r" "take ?n (pw_versions ?r2) = pw_versions r"
    unfolding push_frame last using r by (simp_all add: published_def push_revision_def Let_def)
  have rev: "pw_revision ?r1 = Some (int (Suc ?n))"
    using r by (simp add: push_revision_def published_def Let_def)
  show ?thesis
    apply (rule exI[of _ ?st1], rule exI[of _ ?r1])
    apply (rule exI[of _ "snd (rollback_policy rh now' actor i t (int ?n) ?st1)"], rule exI[of _ ?r2])
    using one two body rev by (auto simp: prod_eq_iff)
qed

section \<open>Readers and writers of the bundle\<close>

text \<open>
  The awaits of \<open>loadActivePolicies\<close> and of a mutation, as steps of concurrent requests of one tenant:
  a reader fetches the version, then reads the store, then stores the bundle under the version it
  fetched (or fails to); a writer saves the rows and later increments the version.
\<close>

record policy_race =
  race_store :: policy_store
  race_readers :: "(int \<times> policy_body list option) list"
  race_pending :: nat

inductive race_step :: "redis_health \<Rightarrow> string \<Rightarrow> policy_race \<Rightarrow> policy_race \<Rightarrow> bool" where
  fetch: "current_version t (race_store s) = (v, st) \<Longrightarrow>
    race_step rh t s (s\<lparr>race_store := st, race_readers := (v, None) # race_readers s\<rparr>)"
| read_rows: "race_readers s = as @ (v, None) # bs \<Longrightarrow>
    race_step rh t s (s\<lparr>race_readers := as @ (v, Some (read_active_policies t (race_store s))) # bs\<rparr>)"
| fill: "race_readers s = as @ (v, Some ps) # bs \<Longrightarrow>
    race_step rh t s (s\<lparr>race_store := store_bundle now t v ps (race_store s), race_readers := as @ bs\<rparr>)"
| give_up: "race_readers s = as @ x # bs \<Longrightarrow> race_step rh t s (s\<lparr>race_readers := as @ bs\<rparr>)"
| save: "race_step rh t s (s\<lparr>race_store := (race_store s)\<lparr>ps_rows := rows\<rparr>, race_pending := Suc (race_pending s)\<rparr>)"
| invalidate: "race_pending s = Suc n \<Longrightarrow> invalidate_policy_bundle rh t (race_store s) = (Inr (), st) \<Longrightarrow>
    race_step rh t s (s\<lparr>race_store := st, race_pending := n\<rparr>)"

definition version_of :: "string \<Rightarrow> policy_store \<Rightarrow> int" where
  "version_of t st = default_to 0 (ps_version st t)"

definition race_fresh :: "string \<Rightarrow> policy_race \<Rightarrow> int \<Rightarrow> policy_body list option \<Rightarrow> bool" where
  "race_fresh t s v ps \<longleftrightarrow> v \<le> version_of t (race_store s)
     \<and> (race_pending s = 0 \<and> v = version_of t (race_store s)
        \<longrightarrow> ps = None \<or> ps = Some (read_active_policies t (race_store s)))"

definition race_inv :: "string \<Rightarrow> policy_race \<Rightarrow> bool" where
  "race_inv t s \<longleftrightarrow> 0 \<le> version_of t (race_store s)
     \<and> (\<forall>(v, ps) \<in> set (race_readers s). race_fresh t s v ps)
     \<and> (\<forall>v ps ex. ps_bundles (race_store s) (t, v) = Some (ps, ex) \<longrightarrow> race_fresh t s v (Some ps))"

definition race_start :: "string \<Rightarrow> policy_race \<Rightarrow> bool" where
  "race_start t s \<longleftrightarrow> race_readers s = [] \<and> race_pending s = 0 \<and> ps_version (race_store s) t = None
     \<and> (\<forall>v. ps_bundles (race_store s) (t, v) = None)"

lemma race_start_inv: "race_start t s \<Longrightarrow> race_inv t s"
  by (simp add: race_start_def race_inv_def version_of_def)

lemma read_active_frame [simp]:
  "read_active_policies t (st\<lparr>ps_bundles := b\<rparr>) = read_active_policies t st"
  "read_active_policies t (st\<lparr>ps_version := m\<rparr>) = read_active_policies t st"
  by (simp_all add: read_active_policies_def)

lemma race_inv_raise:
  assumes "race_inv t s" "version_of t (race_store s) < version_of t (race_store s')"
    and "ps_bundles (race_store s') = ps_bundles (race_store s)"
    and "\<And>v ps. (v, ps) \<in> set (race_readers s') \<Longrightarrow>
      (v, ps) \<in> set (race_readers s) \<or> (v = version_of t (race_store s') \<and> ps = None)"
  shows "race_inv t s'"
proof -
  have raise: "race_fresh t s v ps \<Longrightarrow> race_fresh t s' v ps" for v ps
    using assms(2) by (simp add: race_fresh_def)
  have "race_fresh t s' v ps" if "(v, ps) \<in> set (race_readers s')" for v ps
    using assms(4)[OF that]
  proof
    assume "(v, ps) \<in> set (race_readers s)"
    then have "race_fresh t s v ps" using assms(1) unfolding race_inv_def by blast
    then show ?thesis by (rule raise)
  qed (simp add: race_fresh_def)
  then show ?thesis
    using assms(1-3) raise by (auto simp: race_inv_def)
qed

lemma race_step_inv:
  assumes "race_step rh t s s'" "race_inv t s" "rh_present rh"
  shows "race_inv t s'"
  using assms
proof (induction rule: race_step.induct)
  case (fetch t s v st rh)
  show ?case
  proof (cases "ps_version (race_store s) t")
    case None
    then have "v = 1" "st = (race_store s)\<lparr>ps_version := (ps_version (race_store s))(t \<mapsto> 1)\<rparr>"
      using fetch by (auto simp: current_version_def)
    then show ?thesis
      by (intro race_inv_raise[OF fetch(2)]) (auto simp: version_of_def None)
  next
    case (Some w)
    then have "v = w" "st = race_store s" using fetch by (auto simp: current_version_def)
    with fetch(2) Some show ?thesis by (auto simp: race_inv_def race_fresh_def version_of_def)
  qed
next
  case (read_rows s as v bs rh t)
  then show ?case by (auto simp: race_inv_def race_fresh_def)
next
  case (fill s as v ps bs rh t now)
  then show ?case by (auto simp: race_inv_def race_fresh_def version_of_def store_bundle_def)
next
  case (give_up s as x bs rh t)
  then show ?case by (auto simp: race_inv_def race_fresh_def)
next
  case (save rh t s rows)
  then show ?case by (auto simp: race_inv_def race_fresh_def version_of_def)
next
  case (invalidate s n rh t st)
  then have "st = bump_version t (race_store s)"
    by (auto simp: invalidate_policy_bundle_def split: if_splits)
  moreover have "version_of t (bump_version t (race_store s)) = version_of t (race_store s) + 1"
    by (simp add: bump_version_def version_of_def)
  moreover have "ps_bundles (bump_version t (race_store s)) = ps_bundles (race_store s)"
    by (simp add: bump_version_def)
  ultimately show ?case
    by (intro race_inv_raise[OF invalidate(3)]) auto
qed

lemma race_reachable_inv:
  "(race_step rh t)\<^sup>*\<^sup>* s0 s \<Longrightarrow> race_start t s0 \<Longrightarrow> rh_present rh \<Longrightarrow> race_inv t s"
  by (induction rule: rtranclp_induct) (auto intro: race_start_inv race_step_inv)

text \<open>C10: however concurrent readers and writers of a tenant's policies interleave, once every writer has
  incremented the version no request is decided on old policies: a bundle found under the present
  version is the store's, and what the loader returns is the list of active policies.\<close>
theorem invalidated_bundle_is_not_served:
  assumes "(race_step rh t)\<^sup>*\<^sup>* s0 s" "race_start t s0" "rh_present rh" "race_pending s = 0"
    and "rh_store rh"
  shows "fst (load_active_policies rh now t (race_store s)) = Some (read_active_policies t (race_store s))"
proof -
  have inv: "race_inv t s" by (rule race_reachable_inv) fact+
  have stored: "ps = read_active_policies t (race_store s)"
    if "ps_bundles (race_store s) (t, version_of t (race_store s)) = Some (ps, ex)" for ps ex
    using inv that assms(4) by (auto simp: race_inv_def race_fresh_def)
  have none: "ps_bundles (race_store s) (t, 1) = None" if "ps_version (race_store s) t = None"
  proof (rule ccontr)
    assume "ps_bundles (race_store s) (t, 1) \<noteq> None"
    then obtain ps ex where "ps_bundles (race_store s) (t, 1) = Some (ps, ex)" by force
    then have "race_fresh t s 1 (Some ps)" using inv by (auto simp: race_inv_def)
    then show False using that by (simp add: race_fresh_def version_of_def)
  qed
  show ?thesis
  proof (cases "ps_version (race_store s) t")
    case None
    with none assms(5) show ?thesis
      by (simp add: load_active_policies_def current_version_def cached_bundle_def read_store_def)
  next
    case (Some v)
    then show ?thesis
      using stored assms(5)
      by (auto simp: load_active_policies_def current_version_def cached_bundle_def read_store_def
          version_of_def split: option.splits)
  qed
qed

section \<open>Instances\<close>

definition sample_health :: redis_health where
  "sample_health = \<lparr>rh_present = True, rh_read = True, rh_write = True, rh_incr = True, rh_store = True\<rparr>"

definition sample_policy :: policy_body where
  "sample_policy = \<lparr>pb_name = ''lock'', pb_description = [], pb_resource = ''deals'', pb_action = ''*'', pb_effect = Deny,
     pb_conditions = [\<lparr>co_attribute = ''resource.stage'', co_operator = ''eq'', co_value = JStr ''won'',
       co_value_attribute = None\<rparr>], pb_active = True, pb_priority = 100\<rparr>"

definition empty_store :: policy_store where
  "empty_store = \<lparr>ps_rows = [], ps_version = Map.empty, ps_bundles = Map.empty, ps_audit = []\<rparr>"

definition sample_row :: policy_row where
  "sample_row = \<lparr>pw_id = ''p'', pw_tenant = ''t'', pw_body = sample_policy, pw_revision = Some 1,
     pw_versions = [\<lparr>pv_revision = 1, pv_snapshot = sample_policy, pv_published_at = 5,
       pv_published_by = ''system'', pv_source = None\<rparr>], pw_created = Some 5\<rparr>"

definition sample_store :: policy_store where
  "sample_store = \<lparr>ps_rows = [sample_row], ps_version = [''t'' \<mapsto> 1], ps_bundles = Map.empty,
     ps_audit = [(''create'', ''p'')]\<rparr>"

lemma sample_created: "create_policy sample_health 5 None ''p'' ''t'' sample_policy empty_store = (Inr sample_row, sample_store)"
  by (simp add: create_policy_def sample_policy_def validate_condition_def validate_attribute_path_def
      forbidden_segments_def known_operators_def needs_comparand_def needs_array_def truthy_id_def publish_def
      invalidate_policy_bundle_def bump_version_def sample_health_def empty_store_def sample_store_def
      sample_row_def actor_id_def Let_def)

lemma sample_reachable: "policy_reachable sample_store"
  by (rule policy_reachable.created[OF policy_reachable.initial[of empty_store] _ sample_created])
    (simp_all add: empty_store_def)

theorem rollback_restores_revision_witness:
  "\<exists>st1 r1 st2 r2. rollback_policy sample_health 6 None ''p'' ''t'' 1 sample_store = (Inr r1, st1)
    \<and> find_policy ''p'' ''t'' st1 = Some r1 \<and> pw_body r1 = sample_policy
    \<and> pw_revision r1 = Some 2
    \<and> rollback_policy sample_health 7 None ''p'' ''t'' 1 st1 = (Inr r2, st2) \<and> pw_body r2 = sample_policy
    \<and> take 1 (pw_versions r2) = pw_versions sample_row"
proof -
  have find: "find_policy ''p'' ''t'' sample_store = Some sample_row"
    by (simp add: find_policy_def sample_store_def sample_row_def)
  have row: "length (pw_versions sample_row) = 1" "pv_snapshot (pw_versions sample_row ! 0) = sample_policy"
    "pw_body sample_row = sample_policy"
    by (simp_all add: sample_row_def)
  show ?thesis
    using rollback_restores_revision[OF sample_reachable find, of 1 sample_health 6 None 7] row
    by (simp add: sample_health_def)
qed

definition sample_race :: "nat \<Rightarrow> (int \<times> policy_body list option) list \<Rightarrow> policy_row list \<Rightarrow> int option \<Rightarrow> policy_race" where
  "sample_race n readers rows v = \<lparr>race_store = \<lparr>ps_rows = rows, ps_version = (\<lambda>k. if k = ''t'' then v else None),
     ps_bundles = Map.empty, ps_audit = []\<rparr>, race_readers = readers, race_pending = n\<rparr>"

lemma sample_race_steps:
  "(race_step sample_health ''t'')\<^sup>*\<^sup>* (sample_race 0 [] [] None) (sample_race 0 [(1, Some [])] [sample_row] (Some 2))"
proof -
  have "race_step sample_health ''t'' (sample_race 0 [] [] None) (sample_race 0 [(1, None)] [] (Some 1))"
    using race_step.fetch[of "''t''" "sample_race 0 [] [] None"]
    by (simp add: sample_race_def current_version_def fun_upd_def)
  moreover have "race_step sample_health ''t'' (sample_race 0 [(1, None)] [] (Some 1)) (sample_race 0 [(1, Some [])] [] (Some 1))"
    using race_step.read_rows[of "sample_race 0 [(1, None)] [] (Some 1)" "[]" 1 "[]" sample_health "''t''"]
    by (simp add: sample_race_def read_active_policies_def)
  moreover have "race_step sample_health ''t'' (sample_race 0 [(1, Some [])] [] (Some 1)) (sample_race 1 [(1, Some [])] [sample_row] (Some 1))"
    using race_step.save[of sample_health "''t''" "sample_race 0 [(1, Some [])] [] (Some 1)" "[sample_row]"]
    by (simp add: sample_race_def)
  moreover have "race_step sample_health ''t'' (sample_race 1 [(1, Some [])] [sample_row] (Some 1)) (sample_race 0 [(1, Some [])] [sample_row] (Some 2))"
    using race_step.invalidate[of "sample_race 1 [(1, Some [])] [sample_row] (Some 1)" 0 sample_health "''t''"]
    by (simp add: sample_race_def invalidate_policy_bundle_def sample_health_def bump_version_def fun_upd_def cong: if_cong)
  ultimately show ?thesis by (meson converse_rtranclp_into_rtranclp rtranclp.rtrancl_refl)
qed

theorem invalidated_bundle_is_not_served_witness:
  "fst (load_active_policies sample_health 9 ''t'' (race_store (sample_race 0 [(1, Some [])] [sample_row] (Some 2))))
   = Some [sample_policy]"
proof -
  have "race_start ''t'' (sample_race 0 [] [] None)" by (simp add: race_start_def sample_race_def)
  moreover have "read_active_policies ''t'' (race_store (sample_race 0 [(1, Some [])] [sample_row] (Some 2))) = [sample_policy]"
    by (simp add: read_active_policies_def sample_race_def sample_row_def sample_policy_def)
  ultimately show ?thesis
    using invalidated_bundle_is_not_served[OF sample_race_steps, of 9]
    by (simp add: sample_health_def sample_race_def)
qed

end
