(* ===== verification/Permission_Catalogue.thy ===== *)
theory Permission_Catalogue
  imports Crm_Prelude
begin

text \<open>
  The permission catalogue of \<open>src/src/common/permissions/permission.constants.ts\<close>: the registry of
  keys by resource and action, the keys every tenant has, the keys a tenant can be granted, and the
  keys kept for stored roles only. Resources and actions are the strings of their union types.
\<close>

definition permission_registry :: "(string \<times> (string \<times> string) list) list" where
  "permission_registry =
    [
     (''leads'', [(''view'', ''leads:view''), (''create'', ''leads:create''),
        (''edit'', ''leads:edit''), (''delete'', ''leads:delete''), (''export'', ''leads:export''),
        (''import'', ''leads:import''), (''assign'', ''leads:assign'')]),
     (''contacts'', [(''view'', ''contacts:view''), (''create'', ''contacts:create''),
        (''edit'', ''contacts:edit''), (''delete'', ''contacts:delete''),
        (''export'', ''contacts:export''), (''import'', ''contacts:import''),
        (''unmask'', ''contacts:unmask''), (''assign'', ''contacts:assign'')]),
     (''accounts'', [(''view'', ''accounts:view''), (''create'', ''accounts:create''),
        (''edit'', ''accounts:edit''), (''delete'', ''accounts:delete''),
        (''export'', ''accounts:export''), (''import'', ''accounts:import'')]),
     (''deals'', [(''view'', ''deals:view''), (''create'', ''deals:create''),
        (''edit'', ''deals:edit''), (''delete'', ''deals:delete''),
        (''move_stage'', ''deals:move_stage''), (''export'', ''deals:export''),
        (''import'', ''deals:import''), (''assign'', ''deals:assign''), (''unmask'', ''deals:unmask'')]),
     (''campaigns'', [(''view'', ''campaigns:view''), (''create'', ''campaigns:create''),
        (''edit'', ''campaigns:edit''), (''delete'', ''campaigns:delete''),
        (''launch'', ''campaigns:launch'')]),
     (''tickets'', [(''view'', ''tickets:view''), (''create'', ''tickets:create''),
        (''edit'', ''tickets:edit''), (''delete'', ''tickets:delete''),
        (''resolve'', ''tickets:resolve''), (''reply'', ''tickets:reply''),
        (''assign'', ''tickets:assign''), (''export'', ''tickets:export''),
        (''import'', ''tickets:import'')]),
     (''reports'', [(''view'', ''reports:view''), (''create'', ''reports:create''),
        (''export'', ''reports:export'')]),
     (''dashboards'', [(''view'', ''dashboards:view''), (''create'', ''dashboards:create''),
        (''edit'', ''dashboards:edit''), (''delete'', ''dashboards:delete'')]),
     (''contact_reports'', [(''view'', ''reports:contact:view''),
        (''export'', ''reports:contact:export'')]),
     (''deal_reports'', [(''view'', ''reports:deal:view''), (''export'', ''reports:deal:export'')]),
     (''ticket_reports'', [(''view'', ''reports:ticket:view''), (''export'', ''reports:ticket:export'')]),
     (''agent_reports'', [(''view'', ''reports:agent:view''), (''export'', ''reports:agent:export'')]),
     (''users'', [(''view'', ''users:view''), (''create'', ''users:create''),
        (''edit'', ''users:edit''), (''delete'', ''users:delete''),
        (''manage_roles'', ''users:manage_roles'')]),
     (''groups'', [(''view'', ''groups:view''), (''create'', ''groups:create''),
        (''edit'', ''groups:edit''), (''delete'', ''groups:delete''),
        (''manage_members'', ''groups:manage_members'')]),
     (''org_units'', [(''view'', ''org_units:view''), (''create'', ''org_units:create''),
        (''edit'', ''org_units:edit''), (''delete'', ''org_units:delete'')]),
     (''settings'', [(''view'', ''settings:view''), (''manage_billing'', ''settings:manage_billing''),
        (''manage_system'', ''settings:manage_system''), (''approve'', ''settings:approve_access'')]),
     (''all_data'', [(''view'', ''all_data:view'')]),
     (''tasks'', [(''view'', ''tasks:view''), (''create'', ''tasks:create''),
        (''edit'', ''tasks:edit''), (''delete'', ''tasks:delete''), (''export'', ''tasks:export'')]),
     (''ai_video'', [(''view'', ''ai_video:view''), (''create'', ''ai_video:create''),
        (''edit'', ''ai_video:edit''), (''delete'', ''ai_video:delete''),
        (''manage_system'', ''ai_video:manage_system'')]),
     (''social_content_assets'', [(''view'', ''social_content_assets:view''),
        (''create'', ''social_content_assets:create''), (''edit'', ''social_content_assets:edit''),
        (''delete'', ''social_content_assets:delete''), (''approve'', ''social_content_assets:approve'')]),
     (''publication_instances'', [(''view'', ''publication_instances:view''),
        (''create'', ''publication_instances:create''), (''edit'', ''publication_instances:edit''),
        (''cancel'', ''publication_instances:cancel''), (''retry'', ''publication_instances:retry''),
        (''publish'', ''publication_instances:publish'')]),
     (''audit_logs'', [(''view'', ''audit_logs:view'')]),
     (''email_settings'', [(''view'', ''email_settings:view''), (''edit'', ''email_settings:edit''),
        (''delete'', ''email_settings:delete''), (''manage_system'', ''email_settings:manage_system'')]),
     (''email_integrations'', [(''view'', ''email_integrations:view''),
        (''create'', ''email_integrations:create''), (''edit'', ''email_integrations:edit''),
        (''manage_system'', ''email_integrations:manage_system'')]),
     (''automation_rules'', [(''view'', ''automation_rules:view''),
        (''create'', ''automation_rules:create''), (''edit'', ''automation_rules:edit''),
        (''delete'', ''automation_rules:delete'')]),
     (''automation_workflows'', [(''view'', ''automation_workflows:view''),
        (''create'', ''automation_workflows:create''), (''edit'', ''automation_workflows:edit''),
        (''delete'', ''automation_workflows:delete''), (''publish'', ''automation_workflows:publish''),
        (''activate'', ''automation_workflows:activate''), (''test'', ''automation_workflows:test''),
        (''run_as_system'', ''automation_workflows:run_as_system'')]),
     (''automation_logs'', [(''view'', ''automation_logs:view''), (''retry'', ''automation_logs:retry'')]),
     (''integration_monitoring'', [(''view'', ''integration_monitoring:view'')]),
     (''channels'', [(''view'', ''channels:view''), (''create'', ''channels:create''),
        (''edit'', ''channels:edit''), (''delete'', ''channels:delete''),
        (''manage_system'', ''channels:manage_system'')]),
     (''tags'', [(''view'', ''tags:view''), (''create'', ''tags:create''), (''edit'', ''tags:edit''),
        (''delete'', ''tags:delete'')]),
     (''sla_policies'', [(''view'', ''sla_policies:view''), (''create'', ''sla_policies:create''),
        (''edit'', ''sla_policies:edit''), (''delete'', ''sla_policies:delete'')]),
     (''routing_rules'', [(''view'', ''routing_rules:view''), (''create'', ''routing_rules:create''),
        (''edit'', ''routing_rules:edit''), (''delete'', ''routing_rules:delete'')]),
     (''files'', [(''view'', ''files:view''), (''create'', ''files:create''),
        (''edit'', ''files:edit''), (''delete'', ''files:delete'')]),
     (''storage'', [(''view'', ''storage:view''), (''manage_system'', ''storage:manage_system'')]),
     (''omni_channel'', [(''view'', ''omni_channel:view''), (''edit'', ''omni_channel:edit''),
        (''reply'', ''omni_channel:reply''), (''assign'', ''omni_channel:assign''),
        (''manage_system'', ''omni_channel:manage_system''), (''unmask'', ''omni_channel:unmask'')]),
     (''omni_reports'', [(''view'', ''omni_reports:view''), (''export'', ''omni_reports:export'')]),
     (''templates'', [(''view'', ''templates:view''), (''create'', ''templates:create''),
        (''edit'', ''templates:edit''), (''delete'', ''templates:delete''),
        (''manage_system'', ''templates:manage_system'')])
    ]"

definition all_permissions :: "string list" where
  "all_permissions = concat (map (\<lambda>r. filter (\<lambda>k. k \<noteq> []) (map snd (snd r))) permission_registry)"

definition deprecated_permissions :: "string list" where
  "deprecated_permissions =
    [''automation_rules:view'', ''automation_rules:create'', ''automation_rules:edit'',
    ''automation_rules:delete'']"

definition grantable_permissions :: "string list" where
  "grantable_permissions = filter (\<lambda>k. k \<notin> set deprecated_permissions) all_permissions"

definition core_permissions :: "string list" where
  "core_permissions =
    [''leads:view'', ''leads:create'', ''leads:edit'', ''leads:delete'', ''leads:assign'',
    ''contacts:view'', ''contacts:create'', ''contacts:edit'', ''contacts:delete'',
    ''accounts:view'', ''accounts:create'', ''accounts:edit'', ''accounts:delete'', ''deals:view'',
    ''deals:create'', ''deals:edit'', ''deals:delete'', ''deals:move_stage'', ''deals:assign'',
    ''deals:unmask'', ''tickets:view'', ''tickets:create'', ''tickets:edit'', ''tickets:delete'',
    ''tickets:resolve'', ''tasks:view'', ''tasks:create'', ''tasks:edit'', ''tasks:delete'',
    ''reports:view'', ''dashboards:view'', ''dashboards:create'', ''dashboards:edit'',
    ''dashboards:delete'', ''reports:contact:view'', ''reports:deal:view'',
    ''reports:ticket:view'', ''reports:agent:view'', ''users:view'', ''users:create'',
    ''users:edit'', ''users:delete'', ''users:manage_roles'', ''groups:view'', ''groups:create'',
    ''groups:edit'', ''groups:delete'', ''groups:manage_members'', ''org_units:view'',
    ''org_units:create'', ''org_units:edit'', ''org_units:delete'', ''settings:view'',
    ''settings:manage_billing'', ''settings:manage_system'', ''settings:approve_access'',
    ''ai_video:view'', ''ai_video:create'', ''ai_video:edit'', ''ai_video:delete'',
    ''ai_video:manage_system'', ''audit_logs:view'', ''email_settings:view'',
    ''email_settings:edit'', ''email_settings:delete'', ''email_settings:manage_system'',
    ''email_integrations:view'', ''email_integrations:create'', ''email_integrations:edit'',
    ''email_integrations:manage_system'', ''automation_rules:view'', ''automation_rules:create'',
    ''automation_rules:edit'', ''automation_rules:delete'', ''automation_logs:view'',
    ''automation_logs:retry'', ''automation_workflows:view'', ''automation_workflows:create'',
    ''automation_workflows:edit'', ''automation_workflows:delete'',
    ''automation_workflows:publish'', ''automation_workflows:activate'',
    ''automation_workflows:test'', ''automation_workflows:run_as_system'',
    ''integration_monitoring:view'', ''channels:view'', ''channels:create'', ''channels:edit'',
    ''channels:delete'', ''channels:manage_system'', ''tags:view'', ''tags:create'', ''tags:edit'',
    ''tags:delete'', ''sla_policies:view'', ''sla_policies:create'', ''sla_policies:edit'',
    ''sla_policies:delete'', ''routing_rules:view'', ''routing_rules:create'',
    ''routing_rules:edit'', ''routing_rules:delete'', ''files:view'', ''files:create'',
    ''files:edit'', ''files:delete'', ''storage:view'', ''omni_channel:view'',
    ''omni_channel:edit'', ''omni_channel:reply'', ''omni_channel:assign'',
    ''omni_channel:unmask'', ''omni_channel:manage_system'', ''omni_reports:view'',
    ''templates:view'', ''templates:create'', ''templates:edit'', ''templates:delete'']"

definition feature_permissions :: "string list" where
  "feature_permissions =
    [''leads:export'', ''leads:import'', ''contacts:export'', ''contacts:import'',
    ''contacts:unmask'', ''accounts:export'', ''accounts:import'', ''deals:export'',
    ''deals:import'', ''tickets:export'', ''tickets:import'', ''tasks:export'', ''reports:create'',
    ''reports:export'', ''reports:contact:export'', ''reports:deal:export'',
    ''reports:ticket:export'', ''campaigns:view'', ''campaigns:create'', ''campaigns:edit'',
    ''campaigns:delete'', ''campaigns:launch'', ''social_content_assets:view'',
    ''social_content_assets:create'', ''social_content_assets:edit'',
    ''social_content_assets:delete'', ''social_content_assets:approve'',
    ''publication_instances:view'', ''publication_instances:create'',
    ''publication_instances:edit'', ''publication_instances:cancel'',
    ''publication_instances:retry'', ''publication_instances:publish'', ''omni_reports:export'',
    ''all_data:view'']"

definition get_permission_key :: "string \<Rightarrow> string \<Rightarrow> string option" where
  "get_permission_key action resource = Option.bind (map_of permission_registry resource) (\<lambda>r. map_of r action)"

section \<open>Keys that no tenant can have\<close>

text \<open>Six keys that roles may hold, in neither of the two lists that make up the ceiling of a tenant.\<close>

definition ungranted_permissions :: "string list" where
  "ungranted_permissions = [''contacts:assign'', ''tickets:reply'', ''tickets:assign'', ''reports:agent:export'',
     ''storage:manage_system'', ''templates:manage_system'']"

lemma ungranted_not_core: "k \<in> set ungranted_permissions \<Longrightarrow> k \<notin> set core_permissions"
  by (auto simp: ungranted_permissions_def core_permissions_def)

lemma ungranted_not_feature: "k \<in> set ungranted_permissions \<Longrightarrow> k \<notin> set feature_permissions"
  by (auto simp: ungranted_permissions_def feature_permissions_def)

lemma reply_key: "get_permission_key ''reply'' ''tickets'' = Some ''tickets:reply''"
  by (simp add: get_permission_key_def permission_registry_def)

end
