(* ===== verification/Permission_Engine.thy ===== *)
theory Permission_Engine
  imports Permission_Catalogue
begin

text \<open>
  Effective permissions (\<open>src/src/common/permissions/permission.engine.ts\<close>), data scopes
  (\<open>data-scope.enum.ts\<close>), the grants of feature permissions to a tenant
  (\<open>tenants/controllers/internal-tenants.controller.ts\<close>, \<open>tenant.repository.ts\<close>) and the permission
  check with its Redis cache (\<open>authz-permission-cache.service.ts\<close>). The repositories are functions of
  an environment; ids are strings.
\<close>

section \<open>Data\<close>

record perm_tenant =
  pt_id :: string
  pt_owner :: "string option"
  pt_available :: "string list option"
  pt_disabled_core :: "string list option"

record membership =
  mb_tenant :: string
  mb_roles :: "string list option"
  mb_role_ids :: "string list option"
  mb_overrides :: "(string \<times> bool) list option"

record perm_user =
  pu_id :: string
  pu_tenants :: "membership list option"

record perm_group =
  pg_id :: "string option"
  pg_name :: "string option"
  pg_permissions :: "string list option"
  pg_role_ids :: "string list option"

datatype data_scope = Self | Subordinates | OrgUnit | OrgUnitSubtree | TenantWide

record perm_role =
  pr_id :: string
  pr_name :: "string option"
  pr_permissions :: "string list option"
  pr_scope :: "string option"

datatype source_kind = SkOwner | SkAdmin | SkRole | SkGroup | SkGroupRole

record perm_source =
  src_kind :: source_kind
  src_label :: string

datatype full_reason = ByOwner | ByAdmin | BySuperAdmin

record explanation =
  ex_effective :: "string list"
  ex_sources :: "string \<rightharpoonup> perm_source list"
  ex_ceiling :: "string list"
  ex_full :: bool
  ex_reason :: "full_reason option"

section \<open>The engine\<close>

definition ids_equal :: "string option \<Rightarrow> string option \<Rightarrow> bool" where
  "ids_equal a b \<longleftrightarrow> a \<noteq> None \<and> a = b"

definition get_tenant_permissions :: "perm_tenant \<Rightarrow> string list" where
  "get_tenant_permissions t =
     (let core = uniq (filter (\<lambda>p. p \<notin> set (default_to [] (pt_disabled_core t))) core_permissions)
      in uniq (core @ default_to [] (pt_available t)))"

definition can_access :: "string list \<Rightarrow> string \<Rightarrow> string \<Rightarrow> bool" where
  "can_access effective action resource =
     (case truthy_id (get_permission_key action resource) of Some k \<Rightarrow> k \<in> set effective | None \<Rightarrow> False)"

definition membership_of :: "perm_tenant \<Rightarrow> perm_user \<Rightarrow> membership option" where
  "membership_of t u = List.find (\<lambda>m. ids_equal (Some (mb_tenant m)) (Some (pt_id t))) (default_to [] (pu_tenants u))"

definition has_admin_role :: "membership option \<Rightarrow> bool" where
  "has_admin_role m =
     (let roles = default_to [] (Option.bind m mb_roles) in ''OWNER'' \<in> set roles \<or> ''ADMIN'' \<in> set roles)"

definition denied_keys :: "membership option \<Rightarrow> string list" where
  "denied_keys m = map fst (filter (\<lambda>(k, granted). \<not> granted) (default_to [] (Option.bind m mb_overrides)))"

text \<open>\<open>new Map(tenantRoles.map(...))\<close>: of two roles with one id the later one stays.\<close>

definition role_of :: "perm_role list \<Rightarrow> string \<Rightarrow> perm_role option" where
  "role_of roles rid = List.find (\<lambda>r. pr_id r = rid) (rev roles)"

definition group_label :: "perm_group \<Rightarrow> string" where
  "group_label g = default_to ''group'' (truthy_id (pg_name g))"

definition role_label :: "string \<Rightarrow> perm_role \<Rightarrow> string" where
  "role_label rid r = default_to rid (truthy_id (pr_name r))"

definition role_grants :: "perm_role list \<Rightarrow> source_kind \<Rightarrow> string \<Rightarrow> string list \<Rightarrow> (string \<times> perm_source) list" where
  "role_grants roles kind before rids =
     concat (map (\<lambda>rid. case role_of roles rid of
         None \<Rightarrow> []
       | Some r \<Rightarrow> map (\<lambda>p. (p, \<lparr>src_kind = kind, src_label = before @ role_label rid r\<rparr>))
           (default_to [] (pr_permissions r))) rids)"

definition group_grants :: "perm_role list \<Rightarrow> perm_group \<Rightarrow> (string \<times> perm_source) list" where
  "group_grants roles g =
     map (\<lambda>p. (p, \<lparr>src_kind = SkGroup, src_label = ''Group: '' @ group_label g\<rparr>)) (default_to [] (pg_permissions g))
     @ role_grants roles SkGroupRole (''Group '' @ group_label g @ '' '' @ [CHR 0xB7] @ '' Role '')
         (default_to [] (pg_role_ids g))"

definition all_grants ::
  "perm_role list \<Rightarrow> perm_group list \<Rightarrow> membership option \<Rightarrow> (string \<times> perm_source) list" where
  "all_grants roles groups m =
     concat (map (group_grants roles) groups)
     @ role_grants roles SkRole ''Role: '' (default_to [] (Option.bind m mb_role_ids))"

definition full_source :: "full_reason \<Rightarrow> perm_source" where
  "full_source r = (case r of
       ByAdmin \<Rightarrow> \<lparr>src_kind = SkAdmin, src_label = ''Admin''\<rparr>
     | ByOwner \<Rightarrow> \<lparr>src_kind = SkOwner, src_label = ''Owner''\<rparr>
     | BySuperAdmin \<Rightarrow> \<lparr>src_kind = SkAdmin, src_label = ''Super Admin''\<rparr>)"

definition add_source :: "string list \<Rightarrow> string \<times> perm_source \<Rightarrow> (string \<rightharpoonup> perm_source list) \<Rightarrow> (string \<rightharpoonup> perm_source list)" where
  "add_source ceiling g srcs =
     (if fst g \<notin> set ceiling then srcs
      else srcs(fst g \<mapsto> default_to [] (srcs (fst g)) @ [snd g]))"

definition explain_effective_permissions ::
  "perm_tenant \<Rightarrow> perm_user \<Rightarrow> perm_group list \<Rightarrow> perm_role list \<Rightarrow> bool \<Rightarrow> explanation" where
  "explain_effective_permissions t u groups roles super =
     (let ceiling = sort (get_tenant_permissions t);
          m = membership_of t u;
          owner = ids_equal (pt_owner t) (Some (pu_id u))
      in if super \<or> owner \<or> has_admin_role m then
           (let reason = (if super then BySuperAdmin else if owner then ByOwner else ByAdmin);
                denied = (if super then [] else denied_keys m);
                effective = filter (\<lambda>p. p \<notin> set denied) ceiling;
                full = (length effective = length ceiling)
            in \<lparr>ex_effective = effective,
                ex_sources = (\<lambda>p. if p \<in> set ceiling \<and> p \<notin> set denied then Some [full_source reason] else None),
                ex_ceiling = ceiling, ex_full = full, ex_reason = (if full then Some reason else None)\<rparr>)
         else
           (let grants = all_grants roles groups m; denied = denied_keys m;
                effective = uniq (map fst (filter (\<lambda>g. fst g \<in> set ceiling) grants));
                srcs = fold (add_source ceiling) grants Map.empty
            in \<lparr>ex_effective = sort (filter (\<lambda>p. p \<notin> set denied) effective),
                ex_sources = (\<lambda>p. if p \<in> set denied then None else srcs p),
                ex_ceiling = ceiling, ex_full = False, ex_reason = None\<rparr>))"

definition calculate_effective_permissions ::
  "perm_tenant \<Rightarrow> perm_user \<Rightarrow> perm_group list \<Rightarrow> perm_role list \<Rightarrow> string list" where
  "calculate_effective_permissions t u groups roles =
     ex_effective (explain_effective_permissions t u groups roles False)"

section \<open>Data scopes\<close>

definition data_scope_order :: "data_scope list" where
  "data_scope_order = [Self, Subordinates, OrgUnit, OrgUnitSubtree, TenantWide]"

fun scope_text :: "data_scope \<Rightarrow> string" where
  "scope_text Self = ''self''"
| "scope_text Subordinates = ''subordinates''"
| "scope_text OrgUnit = ''org_unit''"
| "scope_text OrgUnitSubtree = ''org_unit_subtree''"
| "scope_text TenantWide = ''tenant''"

definition read_scope :: "string option \<Rightarrow> data_scope option" where
  "read_scope v = Option.bind v (\<lambda>s. List.find (\<lambda>d. scope_text d = s) data_scope_order)"

definition is_data_scope :: "string option \<Rightarrow> bool" where
  "is_data_scope v \<longleftrightarrow> read_scope v \<noteq> None"

definition rank_of :: "data_scope \<Rightarrow> nat" where
  "rank_of d = default_to 0 (index_of d data_scope_order)"

fun max_rank :: "nat \<Rightarrow> string option list \<Rightarrow> nat" where
  "max_rank rank [] = rank"
| "max_rank rank (v # vs) =
     (case read_scope v of
        None \<Rightarrow> max_rank rank vs
      | Some d \<Rightarrow> max_rank (if rank_of d > rank then rank_of d else rank) vs)"

definition max_scope :: "string option list \<Rightarrow> data_scope" where
  "max_scope vs = data_scope_order ! max_rank 0 vs"

definition scope_at_least :: "data_scope \<Rightarrow> data_scope \<Rightarrow> bool" where
  "scope_at_least scope minimum \<longleftrightarrow> rank_of scope \<ge> rank_of minimum"

section \<open>Feature permissions of a tenant\<close>

text \<open>
  \<open>$addToSet\<close> fails on a field that holds \<open>null\<close>, which is the default of
  \<open>availablePermissions\<close>; \<open>$pull\<close> does too. A grant first checks its keys.
\<close>

definition grant_feature_permissions :: "string list \<Rightarrow> perm_tenant \<Rightarrow> (string, perm_tenant) result" where
  "grant_feature_permissions ps t =
     (if \<not> list_all (\<lambda>p. p \<in> set feature_permissions) ps then Inl ''unknown permissions''
      else case pt_available t of
             None \<Rightarrow> Inl ''mongo''
           | Some xs \<Rightarrow> Inr (t\<lparr>pt_available := Some (xs @ filter (\<lambda>p. p \<notin> set xs) (uniq ps))\<rparr>))"

definition revoke_feature_permissions :: "string list \<Rightarrow> perm_tenant \<Rightarrow> (string, perm_tenant) result" where
  "revoke_feature_permissions ps t =
     (case pt_available t of
        None \<Rightarrow> Inl ''mongo''
      | Some xs \<Rightarrow> Inr (t\<lparr>pt_available := Some (filter (\<lambda>p. p \<notin> set ps) xs)\<rparr>))"

end
