(* ===== verification/Permission_Engine_Safety.thy ===== *)
theory Permission_Engine_Safety
  imports Permission_Engine
begin

text \<open>
  The effective permissions are what the explanation says, a deny beats every grant, nothing exceeds
  the ceiling of the tenant, and what that ceiling can never contain; the widest scope wins.
\<close>

section \<open>Grants and sources\<close>

lemma fold_add_source:
  "fold (add_source ceiling) grants srcs p =
     (if p \<in> set ceiling \<and> (\<exists>s. (p, s) \<in> set grants)
      then Some (default_to [] (srcs p) @ map snd (filter (\<lambda>g. fst g = p) grants))
      else srcs p)"
proof (induction grants arbitrary: srcs)
  case (Cons g grants)
  obtain q s where g: "g = (q, s)" by force
  show ?case
    using Cons.IH[of "add_source ceiling g srcs"] g
    by (auto simp: add_source_def filter_empty_conv)
qed simp

definition full_access :: "perm_tenant \<Rightarrow> perm_user \<Rightarrow> bool \<Rightarrow> bool" where
  "full_access t u super \<longleftrightarrow> super \<or> ids_equal (pt_owner t) (Some (pu_id u)) \<or> has_admin_role (membership_of t u)"

lemma effective_iff:
  "p \<in> set (ex_effective (explain_effective_permissions t u groups roles super)) \<longleftrightarrow>
     p \<in> set (get_tenant_permissions t)
     \<and> (super \<or> p \<notin> set (denied_keys (membership_of t u)))
     \<and> (full_access t u super \<or> (\<exists>s. (p, s) \<in> set (all_grants roles groups (membership_of t u))))"
  by (auto simp: explain_effective_permissions_def Let_def full_access_def image_iff)

lemma sources_iff:
  "ex_sources (explain_effective_permissions t u groups roles super) p = None \<longleftrightarrow>
     p \<notin> set (ex_effective (explain_effective_permissions t u groups roles super))"
  by (auto simp: explain_effective_permissions_def Let_def fold_add_source image_iff)

lemma sources_nonempty:
  "ex_sources (explain_effective_permissions t u groups roles super) p = Some s \<Longrightarrow> s \<noteq> []"
  by (auto simp: explain_effective_permissions_def Let_def fold_add_source filter_empty_conv split: if_splits)
    (metis fst_conv)

lemma effective_within_ceiling: "set (calculate_effective_permissions t u groups roles) \<subseteq> set (get_tenant_permissions t)"
  by (auto simp: calculate_effective_permissions_def effective_iff)

text \<open>the explanation shown to an administrator is what the guards enforce: a permission is effective
  exactly when the explanation names a source for it, every source list is not empty, and it is effective
  exactly when the tenant has it, no override of the membership denies it, and the user is owner or admin
  or some group or role of the user grants it.\<close>
theorem explanation_is_enforcement:
  "(p \<in> set (calculate_effective_permissions t u groups roles) \<longleftrightarrow>
      (\<exists>s. s \<noteq> [] \<and> ex_sources (explain_effective_permissions t u groups roles False) p = Some s))
   \<and> (p \<in> set (calculate_effective_permissions t u groups roles) \<longleftrightarrow>
      p \<in> set (get_tenant_permissions t) \<and> p \<notin> set (denied_keys (membership_of t u))
      \<and> (ids_equal (pt_owner t) (Some (pu_id u)) \<or> has_admin_role (membership_of t u)
         \<or> (\<exists>s. (p, s) \<in> set (all_grants roles groups (membership_of t u)))))"
  using sources_iff[of t u groups roles False p] sources_nonempty[of t u groups roles False p]
    effective_iff[of p t u groups roles False]
  by (auto simp: calculate_effective_permissions_def full_access_def)

section \<open>The ceiling over the life of a tenant\<close>

inductive tenant_reachable :: "perm_tenant \<Rightarrow> bool" where
  created: "pt_available t = None \<or> pt_available t = Some [] \<Longrightarrow> tenant_reachable t"
| granted: "tenant_reachable t \<Longrightarrow> grant_feature_permissions ps t = Inr t' \<Longrightarrow> tenant_reachable t'"
| revoked: "tenant_reachable t \<Longrightarrow> revoke_feature_permissions ps t = Inr t' \<Longrightarrow> tenant_reachable t'"
| disabled: "tenant_reachable t \<Longrightarrow> tenant_reachable (t\<lparr>pt_disabled_core := ds\<rparr>)"
| owned: "tenant_reachable t \<Longrightarrow> tenant_reachable (t\<lparr>pt_owner := who\<rparr>)"

lemma reachable_available: "tenant_reachable t \<Longrightarrow> set (default_to [] (pt_available t)) \<subseteq> set feature_permissions"
  by (induction rule: tenant_reachable.induct)
    (auto simp: grant_feature_permissions_def revoke_feature_permissions_def list_all_iff
      split: if_splits option.splits)

lemma ceiling_subset:
  "set (get_tenant_permissions t) \<subseteq> set core_permissions \<union> set (default_to [] (pt_available t))"
  by (auto simp: get_tenant_permissions_def Let_def)

text \<open>through the operations that change a tenant its ceiling stays within the core and the feature
  permissions, so the six permissions in neither list, which roles name and endpoints require, are
  effective for no user, whatever the groups and roles: nobody but a platform operator can
  reply to a ticket.\<close>
theorem reply_permission_is_unreachable:
  assumes "tenant_reachable t"
  shows "set (calculate_effective_permissions t u groups roles) \<subseteq> set core_permissions \<union> set feature_permissions
    \<and> set (calculate_effective_permissions t u groups roles) \<inter> set ungranted_permissions = {}
    \<and> \<not> can_access (calculate_effective_permissions t u groups roles) ''reply'' ''tickets''"
proof -
  have sub: "set (calculate_effective_permissions t u groups roles) \<subseteq> set core_permissions \<union> set feature_permissions"
    using effective_within_ceiling[of t u groups roles] ceiling_subset[of t] reachable_available[OF assms] by blast
  moreover have "k \<notin> set core_permissions \<union> set feature_permissions" if "k \<in> set ungranted_permissions" for k
    using ungranted_not_core[OF that] ungranted_not_feature[OF that] by simp
  ultimately have none: "set (calculate_effective_permissions t u groups roles) \<inter> set ungranted_permissions = {}"
    by blast
  moreover have "''tickets:reply'' \<in> set ungranted_permissions" by (simp add: ungranted_permissions_def)
  ultimately have "\<not> can_access (calculate_effective_permissions t u groups roles) ''reply'' ''tickets''"
    by (auto simp: can_access_def reply_key truthy_id_def)
  with sub none show ?thesis by blast
qed

text \<open>The first grant to a tenant with the default of the schema fails.\<close>

lemma first_grant_fails:
  "pt_available t = None \<Longrightarrow> grant_feature_permissions ps t = Inl ''mongo''
     \<or> grant_feature_permissions ps t = Inl ''unknown permissions''"
  by (simp add: grant_feature_permissions_def)

section \<open>Scopes\<close>

lemma rank_order: "data_scope_order ! rank_of d = d" "rank_of d < length data_scope_order"
  by (cases d; simp add: data_scope_order_def rank_of_def)+

lemma rank_nth: "n < length data_scope_order \<Longrightarrow> rank_of (data_scope_order ! n) = n"
  by (simp add: data_scope_order_def rank_of_def less_Suc_eq numeral_eq_Suc) auto

lemma max_rank_ge: "r \<le> max_rank r vs"
  by (induction vs arbitrary: r) (auto split: option.split intro: order_trans less_imp_le)

lemma max_rank_bounds: "v \<in> set vs \<Longrightarrow> read_scope v = Some d \<Longrightarrow> rank_of d \<le> max_rank r vs"
proof (induction vs arbitrary: r)
  case (Cons x vs)
  show ?case
  proof (cases "x = v")
    case True
    have "rank_of d \<le> max_rank (max r (rank_of d)) vs"
      by (rule order_trans[OF max.cobounded2 max_rank_ge])
    with True Cons.prems show ?thesis by (simp add: max_def split: if_splits)
  next
    case False
    with Cons show ?thesis by (auto split: option.split)
  qed
qed simp

lemma max_rank_held:
  "max_rank r vs = r \<or> (\<exists>v \<in> set vs. \<exists>d. read_scope v = Some d \<and> rank_of d = max_rank r vs)"
proof (induction vs arbitrary: r)
  case (Cons x vs)
  show ?case
  proof (cases "read_scope x")
    case None
    with Cons[of r] show ?thesis by auto
  next
    case (Some d)
    let ?r = "if rank_of d > r then rank_of d else r"
    have step: "max_rank r (x # vs) = max_rank ?r vs" using Some by simp
    from Cons[of ?r] show ?thesis
      unfolding step using Some by (cases "rank_of d > r") auto
  qed
qed simp

text \<open>the scope of a principal is the widest one its roles declare, and never wider than one of them:
  it is at least as wide as every declared scope, and it is a declared scope or, with none that is valid,
  the narrowest scope.\<close>
theorem max_scope_is_widest_held:
  "(\<forall>v d. v \<in> set vs \<longrightarrow> read_scope v = Some d \<longrightarrow> scope_at_least (max_scope vs) d)
   \<and> (max_scope vs = Self \<or> (\<exists>v \<in> set vs. read_scope v = Some (max_scope vs)))"
proof -
  have lt: "max_rank 0 vs < length data_scope_order"
    using max_rank_held[of 0 vs]
  proof
    assume "max_rank 0 vs = 0"
    then show ?thesis by (simp add: data_scope_order_def)
  next
    assume "\<exists>v \<in> set vs. \<exists>d. read_scope v = Some d \<and> rank_of d = max_rank 0 vs"
    then show ?thesis using rank_order(2) by metis
  qed
  then have rank: "rank_of (max_scope vs) = max_rank 0 vs" by (simp add: max_scope_def rank_nth)
  have "scope_at_least (max_scope vs) d" if "v \<in> set vs" "read_scope v = Some d" for v d
    using max_rank_bounds[OF that, of 0] rank by (simp add: scope_at_least_def)
  moreover have "max_scope vs = Self \<or> (\<exists>v \<in> set vs. read_scope v = Some (max_scope vs))"
    using max_rank_held[of 0 vs]
  proof
    assume "max_rank 0 vs = 0"
    then show ?thesis by (simp add: max_scope_def data_scope_order_def)
  next
    assume "\<exists>v \<in> set vs. \<exists>d. read_scope v = Some d \<and> rank_of d = max_rank 0 vs"
    then show ?thesis using rank_order(1) unfolding max_scope_def by metis
  qed
  ultimately show ?thesis by blast
qed

section \<open>Witness\<close>

definition demo_tenant :: perm_tenant where
  "demo_tenant = \<lparr>pt_id = ''t'', pt_owner = Some ''u1'', pt_available = Some [], pt_disabled_core = None\<rparr>"

theorem reply_permission_is_unreachable_witness:
  "\<exists>t. grant_feature_permissions [''leads:export''] demo_tenant = Inr t
     \<and> \<not> can_access (calculate_effective_permissions t \<lparr>pu_id = ''u1'', pu_tenants = None\<rparr> [] []) ''reply'' ''tickets''"
proof -
  have "grant_feature_permissions [''leads:export''] demo_tenant = Inr (demo_tenant\<lparr>pt_available := Some [''leads:export'']\<rparr>)"
    by (simp add: grant_feature_permissions_def demo_tenant_def feature_permissions_def uniq_def)
  moreover from this have "tenant_reachable (demo_tenant\<lparr>pt_available := Some [''leads:export'']\<rparr>)"
    by (rule tenant_reachable.granted[rotated]) (rule tenant_reachable.created, simp add: demo_tenant_def)
  ultimately show ?thesis using reply_permission_is_unreachable by blast
qed

theorem max_scope_is_widest_held_witness:
  "scope_at_least (max_scope [Some ''self'', None, Some ''org_unit'']) OrgUnit"
proof -
  have "read_scope (Some ''org_unit'') = Some OrgUnit"
    by (simp add: read_scope_def data_scope_order_def)
  then show ?thesis
    using max_scope_is_widest_held[of "[Some ''self'', None, Some ''org_unit'']"] by auto
qed

end
