(* ===== verification/Role_Assignment.thy ===== *)
theory Role_Assignment
  imports Js_Value Documents Permission_Engine_Safety
begin

text \<open>
  Governed role assignments (\<open>src/src/common/permissions/role-assignment.service.ts\<close>, rows of
  \<open>role-assignment.schema.ts\<close>): a request with an expiry, two independent approvals, rejection,
  revocation, and the roles active for a set of principals. The catalogue of roles, the members of a
  tenant and the explanation of the acting principal's permissions are an environment; audit entries
  are not modelled, the invalidation events are a trail. One operation runs at a time.
\<close>

section \<open>Rows and environment\<close>

datatype approval_status = ApPending | ApApproved | ApRejected

record assignment_row =
  as_id :: nat
  as_tenant :: string
  as_group :: bool \<comment> \<open>\<open>principalType\<close> is group\<close>
  as_principal :: string
  as_role :: string
  as_granted_by :: string
  as_expires :: "int option"
  as_reason :: "string option"
  as_status :: "approval_status option" \<comment> \<open>\<open>None\<close> for a row older than the approvals\<close>
  as_approvals :: "(string \<times> int) list"
  as_approved_at :: "int option"
  as_rejected_by :: "string option"
  as_rejected_at :: "int option"
  as_revoked_at :: "int option"
  as_revoked_by :: "string option"
  as_created :: int

datatype permission_event = GroupUpdated string string | UserPermissionsUpdated string string

record assignment_world =
  aw_rows :: "assignment_row list"
  aw_next :: nat
  aw_events :: "permission_event list"

record assignment_env =
  ae_caller :: "string option" \<comment> \<open>the acting principal of the request\<close>
  ae_role :: "string \<Rightarrow> string \<Rightarrow> perm_role option" \<comment> \<open>role of a tenant by id\<close>
  ae_group :: "string \<Rightarrow> string \<Rightarrow> bool" \<comment> \<open>the tenant has this group\<close>
  ae_memberships :: "string \<Rightarrow> string list option" \<comment> \<open>tenants of a user\<close>
  ae_explain :: "string \<Rightarrow> string \<Rightarrow> explanation" \<comment> \<open>\<open>explainForUser\<close> of a caller in a tenant\<close>

datatype assignment_error =
  NotFound | Unprocessable | Forbidden | BadRequest

definition required_approvals :: nat where "required_approvals = 2"

definition max_grant_duration_ms :: int where "max_grant_duration_ms = 90 * 24 * 60 * 60 * 1000"

section \<open>Checks\<close>

definition principal_in_tenant :: "assignment_env \<Rightarrow> string \<Rightarrow> bool \<Rightarrow> string \<Rightarrow> bool" where
  "principal_in_tenant env t grp who =
     (if grp then ae_group env t who else t \<in> set (default_to [] (ae_memberships env who)))"

definition self_privilege_edit :: "assignment_env \<Rightarrow> string \<Rightarrow> bool" where
  "self_privilege_edit env target \<longleftrightarrow> truthy_id (ae_caller env) = Some target"

definition caller_can_grant :: "assignment_env \<Rightarrow> string \<Rightarrow> string list option \<Rightarrow> bool" where
  "caller_can_grant env t perms =
     (if default_to [] perms = [] then True
      else case truthy_id (ae_caller env) of
             None \<Rightarrow> False
           | Some caller \<Rightarrow>
               let ex = ae_explain env t caller;
                   held = (if ex_full ex then ex_ceiling ex else ex_effective ex)
               in filter (\<lambda>k. k \<notin> set held) (uniq (default_to [] perms)) = [])"

definition invalidation :: "assignment_row \<Rightarrow> permission_event" where
  "invalidation r =
     (if as_group r then GroupUpdated (as_tenant r) (as_principal r)
      else UserPermissionsUpdated (as_tenant r) (as_principal r))"

definition find_assignment :: "string \<Rightarrow> nat \<Rightarrow> assignment_world \<Rightarrow> assignment_row option" where
  "find_assignment t n w = List.find (\<lambda>r. as_id r = n \<and> as_tenant r = t) (aw_rows w)"

text \<open>\<open>save()\<close> of a changed document.\<close>

definition save_row :: "assignment_row \<Rightarrow> assignment_world \<Rightarrow> assignment_world" where
  "save_row r w = w\<lparr>aw_rows := map (\<lambda>x. if as_id x = as_id r then r else x) (aw_rows w)\<rparr>"

section \<open>Operations\<close>

record grant_params =
  gp_tenant :: string
  gp_group :: bool
  gp_principal :: string
  gp_role :: string
  gp_granted_by :: string
  gp_expires :: "int option"
  gp_reason :: "string option"

definition grant_role ::
  "assignment_env \<Rightarrow> int \<Rightarrow> grant_params \<Rightarrow> assignment_world \<Rightarrow> (assignment_error, nat) result \<times> assignment_world" where
  "grant_role env now p w =
     (case ae_role env (gp_tenant p) (gp_role p) of
        None \<Rightarrow> (Inl NotFound, w)
      | Some role \<Rightarrow>
          if \<not> principal_in_tenant env (gp_tenant p) (gp_group p) (gp_principal p) then (Inl Unprocessable, w)
          else if \<not> gp_group p \<and> self_privilege_edit env (gp_principal p) then (Inl Forbidden, w)
          else if \<not> caller_can_grant env (gp_tenant p) (pr_permissions role) then (Inl Forbidden, w)
          else case gp_expires p of
                 None \<Rightarrow> (Inl BadRequest, w)
               | Some e \<Rightarrow>
                   if e \<le> now \<or> e - now > max_grant_duration_ms then (Inl BadRequest, w)
                   else if default_to [] (map_option trim (gp_reason p)) = [] then (Inl BadRequest, w)
                   else (Inr (aw_next w),
                     w\<lparr>aw_rows := aw_rows w @
                        [\<lparr>as_id = aw_next w, as_tenant = gp_tenant p, as_group = gp_group p,
                          as_principal = gp_principal p, as_role = gp_role p, as_granted_by = gp_granted_by p,
                          as_expires = Some e, as_reason = map_option trim (gp_reason p),
                          as_status = Some ApPending, as_approvals = [], as_approved_at = None,
                          as_rejected_by = None, as_rejected_at = None, as_revoked_at = None,
                          as_revoked_by = None, as_created = now\<rparr>],
                       aw_next := Suc (aw_next w)\<rparr>))"

definition approve_assignment ::
  "assignment_env \<Rightarrow> string \<Rightarrow> nat \<Rightarrow> string \<Rightarrow> int \<Rightarrow> assignment_world \<Rightarrow>
   (assignment_error, assignment_row) result \<times> assignment_world" where
  "approve_assignment env t n approver now w =
     (case find_assignment t n w of
        None \<Rightarrow> (Inl NotFound, w)
      | Some a \<Rightarrow>
          if as_status a \<noteq> Some ApPending then (Inl BadRequest, w)
          else if as_granted_by a = approver \<or> (\<not> as_group a \<and> as_principal a = approver) then (Inl Forbidden, w)
          else if list_ex (\<lambda>x. fst x = approver) (as_approvals a) then (Inl BadRequest, w)
          else case ae_role env t (as_role a) of
                 None \<Rightarrow> (Inl NotFound, w)
               | Some role \<Rightarrow>
                   if \<not> caller_can_grant env t (pr_permissions role) then (Inl Forbidden, w)
                   else
                     let a1 = a\<lparr>as_approvals := as_approvals a @ [(approver, now)]\<rparr>;
                         a2 = (if length (as_approvals a1) \<ge> required_approvals
                               then a1\<lparr>as_status := Some ApApproved, as_approved_at := Some now\<rparr> else a1);
                         w1 = save_row a2 w
                     in (Inr a2, if as_status a2 = Some ApApproved
                                 then w1\<lparr>aw_events := aw_events w1 @ [invalidation a2]\<rparr> else w1))"

definition reject_assignment ::
  "string \<Rightarrow> nat \<Rightarrow> string \<Rightarrow> int \<Rightarrow> assignment_world \<Rightarrow> (assignment_error, assignment_row) result \<times> assignment_world" where
  "reject_assignment t n who now w =
     (case find_assignment t n w of
        None \<Rightarrow> (Inl NotFound, w)
      | Some a \<Rightarrow>
          if as_status a \<noteq> Some ApPending then (Inl BadRequest, w)
          else if as_granted_by a = who then (Inl Forbidden, w)
          else let a1 = a\<lparr>as_status := Some ApRejected, as_rejected_by := Some who, as_rejected_at := Some now\<rparr>
               in (Inr a1, save_row a1 w))"

definition revoke_assignment ::
  "string \<Rightarrow> nat \<Rightarrow> string \<Rightarrow> int \<Rightarrow> assignment_world \<Rightarrow> (assignment_error, unit) result \<times> assignment_world" where
  "revoke_assignment t n who now w =
     (case find_assignment t n w of
        None \<Rightarrow> (Inl NotFound, w)
      | Some a \<Rightarrow>
          if as_revoked_at a \<noteq> None then (Inr (), w)
          else let w1 = save_row (a\<lparr>as_revoked_at := Some now, as_revoked_by := Some who\<rparr>) w
               in (Inr (), w1\<lparr>aw_events := aw_events w1 @ [invalidation a]\<rparr>))"

definition is_active_row :: "string \<Rightarrow> string list \<Rightarrow> int \<Rightarrow> assignment_row \<Rightarrow> bool" where
  "is_active_row t ids now r \<longleftrightarrow>
     as_tenant r = t \<and> as_principal r \<in> set ids \<and> as_status r \<in> {Some ApApproved, None}
     \<and> as_revoked_at r = None \<and> (case as_expires r of None \<Rightarrow> True | Some e \<Rightarrow> e > now)"

definition active_role_ids :: "string \<Rightarrow> string list \<Rightarrow> int \<Rightarrow> assignment_world \<Rightarrow> string list" where
  "active_role_ids t ids now w =
     (let ids' = uniq (filter (\<lambda>i. i \<noteq> []) ids)
      in if ids' = [] then [] else uniq (map as_role (filter (is_active_row t ids' now) (aw_rows w))))"

end
