(* ===== verification/Role_Assignment_Safety.thy ===== *)
theory Role_Assignment_Safety
  imports Role_Assignment
begin

text \<open>Two-person control over any sequence of the operations on role assignments.\<close>

inductive assignment_step :: "assignment_world \<Rightarrow> assignment_world \<Rightarrow> bool" where
  grant: "assignment_step w (snd (grant_role env now p w))"
| approve: "assignment_step w (snd (approve_assignment env t n who now w))"
| reject: "assignment_step w (snd (reject_assignment t n who now w))"
| revoke: "assignment_step w (snd (revoke_assignment t n who now w))"

inductive assignments_reachable :: "assignment_world \<Rightarrow> bool" where
  start: "aw_rows w = [] \<Longrightarrow> assignments_reachable w"
| step: "assignments_reachable w \<Longrightarrow> assignment_step w w' \<Longrightarrow> assignments_reachable w'"

definition independent :: "assignment_row \<Rightarrow> string \<Rightarrow> bool" where
  "independent r who \<longleftrightarrow> who \<noteq> as_granted_by r \<and> (\<not> as_group r \<longrightarrow> who \<noteq> as_principal r)"

definition row_ok :: "assignment_row \<Rightarrow> bool" where
  "row_ok r \<longleftrightarrow>
     distinct (map fst (as_approvals r)) \<and> (\<forall>who \<in> fst ` set (as_approvals r). independent r who)
     \<and> as_status r \<noteq> None \<and> (as_status r = Some ApApproved \<longrightarrow> length (as_approvals r) \<ge> required_approvals)
     \<and> (\<exists>e. as_expires r = Some e \<and> as_created r < e \<and> e \<le> as_created r + max_grant_duration_ms)"

lemma found_row: "find_assignment t n w = Some r \<Longrightarrow> r \<in> set (aw_rows w) \<and> as_id r = n \<and> as_tenant r = t"
  by (auto simp: find_assignment_def dest: find_Some_in)

lemma save_ok:
  "row_ok r \<Longrightarrow> \<forall>x \<in> set (aw_rows w). row_ok x \<Longrightarrow> \<forall>x \<in> set (aw_rows (save_row r w)). row_ok x"
  by (auto simp: save_row_def)

lemma grant_ok:
  assumes "\<forall>r \<in> set (aw_rows w). row_ok r"
  shows "\<forall>r \<in> set (aw_rows (snd (grant_role env now p w))). row_ok r"
  using assms by (auto simp: grant_role_def row_ok_def Let_def split: option.split)

lemma approve_ok:
  assumes "\<forall>r \<in> set (aw_rows w). row_ok r"
  shows "\<forall>r \<in> set (aw_rows (snd (approve_assignment env t n who now w))). row_ok r"
proof (cases "find_assignment t n w")
  case None
  with assms show ?thesis by (simp add: approve_assignment_def)
next
  case (Some a)
  let ?a1 = "a\<lparr>as_approvals := as_approvals a @ [(who, now)]\<rparr>"
  let ?a2 = "if length (as_approvals ?a1) \<ge> required_approvals
     then ?a1\<lparr>as_status := Some ApApproved, as_approved_at := Some now\<rparr> else ?a1"
  have ok: "row_ok ?a2"
    if "as_status a = Some ApPending" "\<not> (as_granted_by a = who \<or> (\<not> as_group a \<and> as_principal a = who))"
      "\<not> list_ex (\<lambda>x. fst x = who) (as_approvals a)"
  proof -
    have "row_ok a" using assms found_row[OF Some] by blast
    moreover have "who \<notin> fst ` set (as_approvals a)" using that(3) by (auto simp: list_ex_iff)
    ultimately show ?thesis using that(1,2) by (auto simp: row_ok_def independent_def)
  qed
  from save_ok[OF this assms] assms Some show ?thesis
    by (simp add: approve_assignment_def Let_def split: option.split)
qed

lemma reject_ok:
  assumes "\<forall>r \<in> set (aw_rows w). row_ok r"
  shows "\<forall>r \<in> set (aw_rows (snd (reject_assignment t n who now w))). row_ok r"
proof (cases "find_assignment t n w")
  case (Some a)
  let ?a1 = "a\<lparr>as_status := Some ApRejected, as_rejected_by := Some who, as_rejected_at := Some now\<rparr>"
  have "row_ok a" using assms found_row[OF Some] by blast
  then have "row_ok ?a1" by (simp add: row_ok_def independent_def)
  from save_ok[OF this assms] assms Some show ?thesis by (simp add: reject_assignment_def Let_def)
qed (use assms in \<open>simp add: reject_assignment_def\<close>)

lemma revoke_ok:
  assumes "\<forall>r \<in> set (aw_rows w). row_ok r"
  shows "\<forall>r \<in> set (aw_rows (snd (revoke_assignment t n who now w))). row_ok r"
proof (cases "find_assignment t n w")
  case (Some a)
  have "row_ok a" using assms found_row[OF Some] by blast
  then have "row_ok (a\<lparr>as_revoked_at := Some now, as_revoked_by := Some who\<rparr>)" by (simp add: row_ok_def independent_def)
  from save_ok[OF this assms] assms Some show ?thesis by (simp add: revoke_assignment_def Let_def)
qed (use assms in \<open>simp add: revoke_assignment_def\<close>)

lemma step_rows_ok:
  "assignment_step w w' \<Longrightarrow> \<forall>r \<in> set (aw_rows w). row_ok r \<Longrightarrow> \<forall>r \<in> set (aw_rows w'). row_ok r"
  by (induction rule: assignment_step.induct) (rule grant_ok approve_ok reject_ok revoke_ok; assumption)+

lemma reachable_rows_ok: "assignments_reachable w \<Longrightarrow> \<forall>r \<in> set (aw_rows w). row_ok r"
proof (induction rule: assignments_reachable.induct)
  case (step w w')
  show ?case by (rule step_rows_ok[OF step(2) step.IH])
qed simp

lemma two_elements:
  assumes "distinct xs" "2 \<le> length xs"
  shows "\<exists>a b. a \<noteq> b \<and> a \<in> set xs \<and> b \<in> set xs"
  using assms by (cases xs; cases "tl xs") auto

text \<open>C13: two-person control: starting without assignments, after any sequence of requests, approvals,
  rejections and revocations, a role is active for a principal only through an assignment that two
  different people approved, neither of them the requester nor, for a user, the target, that has not
  been revoked, has not expired, and expires at most 90 days after it was requested.\<close>
theorem active_role_had_two_approvers:
  assumes "assignments_reachable w"
    and "role \<in> set (active_role_ids t ids now w)"
  shows "\<exists>r e a b. r \<in> set (aw_rows w) \<and> as_role r = role \<and> as_tenant r = t \<and> as_principal r \<in> set ids
    \<and> as_revoked_at r = None \<and> as_expires r = Some e \<and> now < e \<and> e \<le> as_created r + max_grant_duration_ms
    \<and> a \<noteq> b \<and> {a, b} \<subseteq> fst ` set (as_approvals r) \<and> independent r a \<and> independent r b"
proof -
  obtain r where r: "r \<in> set (aw_rows w)" "as_role r = role" "is_active_row t (uniq (filter (\<lambda>i. i \<noteq> []) ids)) now r"
    using assms(2) by (auto simp: active_role_ids_def Let_def split: if_splits)
  have ok: "row_ok r" using reachable_rows_ok[OF assms(1)] r(1) by blast
  then obtain e where e: "as_expires r = Some e" "e \<le> as_created r + max_grant_duration_ms"
    by (auto simp: row_ok_def)
  from ok r(3) have "as_status r = Some ApApproved" by (auto simp: row_ok_def is_active_row_def)
  with ok have "2 \<le> length (map fst (as_approvals r))" "distinct (map fst (as_approvals r))"
    by (auto simp: row_ok_def required_approvals_def)
  from two_elements[OF this(2,1)] obtain a b where
    ab: "a \<noteq> b" "a \<in> fst ` set (as_approvals r)" "b \<in> fst ` set (as_approvals r)" by auto
  with ok have "independent r a" "independent r b" by (auto simp: row_ok_def)
  with r e ab show ?thesis
    by (intro exI[of _ r] exI[of _ e] exI[of _ a] exI[of _ b]) (auto simp: is_active_row_def)
qed

section \<open>Witness\<close>

definition demo_grant_env :: assignment_env where
  "demo_grant_env = \<lparr>ae_caller = Some ''admin'',
     ae_role = (\<lambda>_ _. Some \<lparr>pr_id = ''r'', pr_name = None, pr_permissions = None, pr_scope = None\<rparr>),
     ae_group = (\<lambda>_ _. False), ae_memberships = (\<lambda>_. Some [''t'']),
     ae_explain = (\<lambda>_ _. \<lparr>ex_effective = [], ex_sources = Map.empty, ex_ceiling = [], ex_full = False, ex_reason = None\<rparr>)\<rparr>"

definition demo_assignments :: assignment_world where
  "demo_assignments =
     snd (approve_assignment demo_grant_env ''t'' 0 ''b'' 30 (snd (approve_assignment demo_grant_env ''t'' 0 ''a'' 20
       (snd (grant_role demo_grant_env 10 \<lparr>gp_tenant = ''t'', gp_group = False, gp_principal = ''u'', gp_role = ''r'',
          gp_granted_by = ''admin'', gp_expires = Some 1000, gp_reason = Some ''cover''\<rparr>
          \<lparr>aw_rows = [], aw_next = 0, aw_events = []\<rparr>)))))"

lemma demo_assignments_reachable: "assignments_reachable demo_assignments"
  unfolding demo_assignments_def
  by (rule assignments_reachable.step[OF assignments_reachable.step[OF assignments_reachable.step[OF
      assignments_reachable.start assignment_step.grant] assignment_step.approve] assignment_step.approve]) simp

theorem active_role_had_two_approvers_witness:
  "active_role_ids ''t'' [''u''] 500 demo_assignments = [''r'']
   \<and> (\<exists>r a b. r \<in> set (aw_rows demo_assignments) \<and> a \<noteq> b \<and> {a, b} \<subseteq> fst ` set (as_approvals r))"
proof -
  have act: "active_role_ids ''t'' [''u''] 500 demo_assignments = [''r'']" by code_simp
  then have "''r'' \<in> set (active_role_ids ''t'' [''u''] 500 demo_assignments)" by simp
  from active_role_had_two_approvers[OF demo_assignments_reachable this] act show ?thesis by blast
qed

end
