(* ===== verification/Permission_Check.thy ===== *)
theory Permission_Check
  imports Role_Assignment_Safety
begin

text \<open>
  The permission check and its Redis cache, the explanation of a user's permissions, the data scope and
  the previews (\<open>src/src/common/permissions/authz-permission-cache.service.ts\<close>). What the repositories
  answer is the environment; \<open>ck_user\<close> is \<open>resolveUser\<close>, \<open>ck_tenant\<close> the lookup of \<open>resolveTenant\<close>. The
  cache maps (tenant, user) to the members of the Redis set and the instant it expires.
\<close>

section \<open>Environment and cache\<close>

record authz_user =
  au_id :: string
  au_tenants :: "membership list option"
  au_status :: "string option"
  au_platform :: "string option"

record check_env =
  ck_user :: "string \<Rightarrow> authz_user option"
  ck_tenant :: "string \<Rightarrow> perm_tenant option"
  ck_groups :: "string \<Rightarrow> string \<Rightarrow> perm_group list"
  ck_roles :: "string \<Rightarrow> (string, perm_role list) result"
  ck_assignments :: "(string, assignment_world) result"
  ck_redis :: bool
  ck_ttl :: int

type_synonym perm_cache = "string \<times> string \<rightharpoonup> string list \<times> int"

datatype deny_reason =
    UnknownPermission | CachedDenied | UserNotFound | TenantNotResolved | UserInactive | NotGranted

record check_result =
  cr_allowed :: bool
  cr_user :: "string option"
  cr_tenant :: "string option"
  cr_hit :: bool
  cr_reason :: "deny_reason option"

definition default_cache_ttl_ms :: int where "default_cache_ttl_ms = 5 * 60 * 1000"

definition empty_sentinel :: string where "empty_sentinel = ''__empty__''"

definition all_sentinel :: string where "all_sentinel = ''__all__''"

definition is_object_id :: "string \<Rightarrow> bool" where
  "is_object_id s \<longleftrightarrow> length s = 24 \<and> list_all (\<lambda>c. hex_val c \<noteq> None) s"

definition read_cached_permission :: "check_env \<Rightarrow> int \<Rightarrow> string \<Rightarrow> string \<Rightarrow> string \<Rightarrow> perm_cache \<Rightarrow> bool option" where
  "read_cached_permission env now t u key cache =
     (if \<not> ck_redis env then None
      else case cache (t, u) of
             None \<Rightarrow> None
           | Some (members, ex) \<Rightarrow>
               if ex \<le> now then None else Some (all_sentinel \<in> set members \<or> key \<in> set members))"

definition populate_permissions :: "check_env \<Rightarrow> int \<Rightarrow> string \<Rightarrow> string \<Rightarrow> string list \<Rightarrow> perm_cache \<Rightarrow> perm_cache" where
  "populate_permissions env now t u perms cache =
     (if \<not> ck_redis env then cache
      else cache((t, u) \<mapsto> (if perms = [] then [empty_sentinel] else perms, now + ck_ttl env)))"

definition invalidate_user :: "check_env \<Rightarrow> string \<Rightarrow> string \<Rightarrow> perm_cache \<Rightarrow> perm_cache" where
  "invalidate_user env t u cache = (if ck_redis env then cache((t, u) := None) else cache)"

definition invalidate_tenant :: "check_env \<Rightarrow> string \<Rightarrow> perm_cache \<Rightarrow> perm_cache" where
  "invalidate_tenant env t cache = (if ck_redis env then (\<lambda>k. if fst k = t then None else cache k) else cache)"

section \<open>Subjects\<close>

definition is_inactive :: "authz_user \<Rightarrow> bool" where
  "is_inactive u \<longleftrightarrow> (case truthy_id (au_status u) of None \<Rightarrow> False | Some s \<Rightarrow> s \<noteq> ''active'')"

definition is_super_admin :: "authz_user \<Rightarrow> bool" where
  "is_super_admin u \<longleftrightarrow> au_platform u = Some ''SUPER_ADMIN''"

definition is_platform_super_admin :: "check_env \<Rightarrow> string \<Rightarrow> bool" where
  "is_platform_super_admin env raw =
     (case ck_user env raw of None \<Rightarrow> False | Some u \<Rightarrow> \<not> is_inactive u \<and> is_super_admin u)"

definition load_tenant_roles :: "check_env \<Rightarrow> string \<Rightarrow> perm_role list" where
  "load_tenant_roles env t = (case ck_roles env t of Inl _ \<Rightarrow> [] | Inr rs \<Rightarrow> rs)"

definition load_active_assignment_role_ids :: "check_env \<Rightarrow> int \<Rightarrow> string \<Rightarrow> string list \<Rightarrow> string list" where
  "load_active_assignment_role_ids env now t ids =
     (case ck_assignments env of Inl _ \<Rightarrow> [] | Inr w \<Rightarrow> active_role_ids t ids now w)"

definition with_candidate_membership ::
  "string \<Rightarrow> (string list option \<times> (string \<times> bool) list option) option \<Rightarrow> authz_user \<Rightarrow> authz_user" where
  "with_candidate_membership t candidate u =
     (case candidate of
        None \<Rightarrow> u
      | Some (rids, overrides) \<Rightarrow>
          u\<lparr>au_tenants := Some (map (\<lambda>m. if mb_tenant m \<noteq> t then m
              else m\<lparr>mb_role_ids := or_else rids (mb_role_ids m), mb_overrides := or_else overrides (mb_overrides m)\<rparr>)
              (default_to [] (au_tenants u)))\<rparr>)"

definition with_assignment_roles :: "string \<Rightarrow> string list \<Rightarrow> authz_user \<Rightarrow> authz_user" where
  "with_assignment_roles t rids u =
     (if rids = [] then u
      else if \<not> list_ex (\<lambda>m. mb_tenant m = t) (default_to [] (au_tenants u)) then u
      else u\<lparr>au_tenants := Some (map (\<lambda>m. if mb_tenant m \<noteq> t then m
              else m\<lparr>mb_role_ids := Some (uniq (default_to [] (mb_role_ids m) @ rids))\<rparr>)
              (default_to [] (au_tenants u)))\<rparr>)"

definition as_perm_user :: "authz_user \<Rightarrow> perm_user" where
  "as_perm_user u = \<lparr>pu_id = au_id u, pu_tenants = au_tenants u\<rparr>"

definition group_ids :: "perm_group list \<Rightarrow> string list" where
  "group_ids gs = concat (map (\<lambda>g. case truthy_id (pg_id g) of None \<Rightarrow> [] | Some i \<Rightarrow> [i]) gs)"

definition assigned_roles :: "check_env \<Rightarrow> int \<Rightarrow> perm_tenant \<Rightarrow> authz_user \<Rightarrow> string list" where
  "assigned_roles env now t u =
     load_active_assignment_role_ids env now (pt_id t) (au_id u # group_ids (ck_groups env (pt_id t) (au_id u)))"

definition tenant_for :: "check_env \<Rightarrow> authz_user \<Rightarrow> string option \<Rightarrow> perm_tenant option" where
  "tenant_for env u hint =
     (case truthy_id (or_else hint (map_option mb_tenant (first_of (default_to [] (au_tenants u))))) of
        None \<Rightarrow> None | Some h \<Rightarrow> ck_tenant env h)"

section \<open>The check\<close>

definition effective_for :: "check_env \<Rightarrow> int \<Rightarrow> perm_tenant \<Rightarrow> authz_user \<Rightarrow> string list" where
  "effective_for env now t u =
     calculate_effective_permissions t (as_perm_user (with_assignment_roles (pt_id t) (assigned_roles env now t u) u))
       (ck_groups env (pt_id t) (au_id u)) (load_tenant_roles env (pt_id t))"

definition evaluate_permission_for_user ::
  "check_env \<Rightarrow> int \<Rightarrow> authz_user \<Rightarrow> string option \<Rightarrow> string \<Rightarrow> string \<Rightarrow> string \<Rightarrow> perm_cache \<Rightarrow> check_result \<times> perm_cache" where
  "evaluate_permission_for_user env now u hint action resource key cache =
     (case tenant_for env u hint of
        None \<Rightarrow> (\<lparr>cr_allowed = False, cr_user = Some (au_id u), cr_tenant = None, cr_hit = False,
                 cr_reason = Some TenantNotResolved\<rparr>, cache)
      | Some t \<Rightarrow>
          let answer = (\<lambda>ok hit why. \<lparr>cr_allowed = ok, cr_user = Some (au_id u), cr_tenant = Some (pt_id t),
                  cr_hit = hit, cr_reason = (if ok then None else Some why)\<rparr>);
              populate = (\<lambda>ps. populate_permissions env now (pt_id t) (au_id u) ps cache)
          in case read_cached_permission env now (pt_id t) (au_id u) key cache of
               Some ok \<Rightarrow> (answer ok True CachedDenied, cache)
             | None \<Rightarrow>
                 if is_inactive u then (answer False False UserInactive, populate [])
                 else if is_super_admin u then (answer True False NotGranted, populate [all_sentinel])
                 else let eff = effective_for env now t u
                      in (answer (can_access eff action resource) False NotGranted, populate eff))"

definition check_access ::
  "check_env \<Rightarrow> int \<Rightarrow> string \<Rightarrow> string option \<Rightarrow> string \<Rightarrow> string \<Rightarrow> perm_cache \<Rightarrow> check_result \<times> perm_cache" where
  "check_access env now raw hint action resource cache =
     (case truthy_id (get_permission_key action resource) of
        None \<Rightarrow> (\<lparr>cr_allowed = False, cr_user = None, cr_tenant = None, cr_hit = False,
                 cr_reason = Some UnknownPermission\<rparr>, cache)
      | Some key \<Rightarrow>
          let resolved = (case ck_user env raw of
                None \<Rightarrow> (\<lparr>cr_allowed = False, cr_user = None, cr_tenant = None, cr_hit = False,
                         cr_reason = Some UserNotFound\<rparr>, cache)
              | Some u \<Rightarrow> evaluate_permission_for_user env now u hint action resource key cache)
          in case hint of
               Some t \<Rightarrow>
                 if is_object_id t \<and> is_object_id raw then
                   (case read_cached_permission env now t raw key cache of
                      Some ok \<Rightarrow> (\<lparr>cr_allowed = ok, cr_user = Some raw, cr_tenant = Some t, cr_hit = True,
                                   cr_reason = (if ok then None else Some CachedDenied)\<rparr>, cache)
                    | None \<Rightarrow> resolved)
                 else resolved
             | None \<Rightarrow> resolved)"

section \<open>Explanation, scope and previews\<close>

definition no_explanation :: explanation where
  "no_explanation = \<lparr>ex_effective = [], ex_sources = Map.empty, ex_ceiling = [], ex_full = False, ex_reason = None\<rparr>"

definition explain_for_user ::
  "check_env \<Rightarrow> int \<Rightarrow> string \<Rightarrow> string option \<Rightarrow> (string list option \<times> (string \<times> bool) list option) option \<Rightarrow> explanation" where
  "explain_for_user env now raw hint candidate =
     (case ck_user env raw of
        None \<Rightarrow> no_explanation
      | Some u \<Rightarrow>
          (case tenant_for env u hint of
             None \<Rightarrow> no_explanation
           | Some t \<Rightarrow>
               if is_inactive u then
                 no_explanation\<lparr>ex_ceiling := ex_ceiling
                   (explain_effective_permissions t \<lparr>pu_id = au_id u, pu_tenants = Some []\<rparr> [] [] False)\<rparr>
               else explain_effective_permissions t
                 (as_perm_user (with_candidate_membership (pt_id t) candidate
                   (with_assignment_roles (pt_id t) (assigned_roles env now t u) u)))
                 (ck_groups env (pt_id t) (au_id u)) (load_tenant_roles env (pt_id t)) (is_super_admin u)))"

definition without_retired :: "string list \<Rightarrow> string list" where
  "without_retired ks = filter (\<lambda>k. k \<notin> set deprecated_permissions) ks"

record access_preview =
  av_permissions :: "string list"
  av_full :: bool
  av_scope :: data_scope
  av_explicit :: bool

definition scopes_of :: "perm_role list \<Rightarrow> string list \<Rightarrow> string option list" where
  "scopes_of roles held = map pr_scope (filter (\<lambda>r. pr_id r \<in> set held) roles)"

definition preview_membership_access :: "check_env \<Rightarrow> string \<Rightarrow> string \<Rightarrow> string list option \<Rightarrow> access_preview" where
  "preview_membership_access env h tenant_role rids =
     (case (if h = [] then None else ck_tenant env h) of
        None \<Rightarrow> \<lparr>av_permissions = [], av_full = False, av_scope = Self, av_explicit = False\<rparr>
      | Some t \<Rightarrow>
          let role_ids = default_to [] rids; roles = load_tenant_roles env (pt_id t);
              ex = explain_effective_permissions t
                \<lparr>pu_id = ''__preview__'', pu_tenants = Some
                   [\<lparr>mb_tenant = pt_id t, mb_roles = Some [to_upper tenant_role], mb_role_ids = Some role_ids,
                     mb_overrides = None\<rparr>]\<rparr> [] roles False
          in if ex_full ex then
               \<lparr>av_permissions = without_retired (ex_effective ex), av_full = True, av_scope = TenantWide, av_explicit = True\<rparr>
             else let scopes = scopes_of roles role_ids
                  in \<lparr>av_permissions = without_retired (ex_effective ex), av_full = False,
                      av_scope = max_scope scopes, av_explicit = list_ex is_data_scope scopes\<rparr>)"

record scope_result =
  sr_scope :: data_scope
  sr_org_unit :: "string option"
  sr_explicit :: bool

definition privileged :: "perm_tenant \<Rightarrow> authz_user \<Rightarrow> bool" where
  "privileged t u \<longleftrightarrow> is_super_admin u \<or> default_to [] (pt_owner t) = au_id u
     \<or> (let roles = default_to [] (Option.bind (membership_of t (as_perm_user u)) mb_roles)
        in list_ex (\<lambda>r. r = ''OWNER'' \<or> r = ''ADMIN'') roles)"

text \<open>\<open>org_unit\<close> is the unit a membership is filed in.\<close>

definition resolve_data_scope ::
  "check_env \<Rightarrow> (membership \<Rightarrow> string option) \<Rightarrow> int \<Rightarrow> string \<Rightarrow> string option \<Rightarrow> scope_result" where
  "resolve_data_scope env org_unit now raw hint =
     (let none_held = \<lparr>sr_scope = Self, sr_org_unit = None, sr_explicit = False\<rparr> in
      case ck_user env raw of
        None \<Rightarrow> none_held
      | Some u \<Rightarrow>
          if is_inactive u then none_held
          else case tenant_for env u hint of
                 None \<Rightarrow> none_held
               | Some t \<Rightarrow>
                   let m = membership_of t (as_perm_user u);
                       unit = truthy_id (Option.bind m org_unit)
                   in if privileged t u then \<lparr>sr_scope = TenantWide, sr_org_unit = unit, sr_explicit = True\<rparr>
                      else
                        let groups = ck_groups env (pt_id t) (au_id u);
                            held = default_to [] (Option.bind m mb_role_ids)
                              @ concat (map (\<lambda>g. default_to [] (pg_role_ids g)) groups)
                              @ assigned_roles env now t u;
                            scopes = scopes_of (load_tenant_roles env (pt_id t)) held
                        in \<lparr>sr_scope = max_scope scopes, sr_org_unit = unit, sr_explicit = list_ex is_data_scope scopes\<rparr>)"

end
