(* ===== verification/Permission_Check_Safety.thy ===== *)
theory Permission_Check_Safety
  imports Permission_Check
begin

text \<open>
  The cache does not change decisions while the directory does not change, a JIT grant outlives its
  expiry in the cache, and the data scope follows the same grants as the permissions.
\<close>

section \<open>Decisions without a cache\<close>

definition decides :: "check_env \<Rightarrow> int \<Rightarrow> perm_tenant \<Rightarrow> authz_user \<Rightarrow> string \<Rightarrow> bool" where
  "decides env now t u key \<longleftrightarrow>
     \<not> is_inactive u \<and> (is_super_admin u \<or> key \<in> set (effective_for env now t u))"

definition fresh_decision :: "check_env \<Rightarrow> int \<Rightarrow> string \<Rightarrow> string option \<Rightarrow> string \<Rightarrow> string \<Rightarrow> bool" where
  "fresh_decision env now raw hint action resource =
     (case truthy_id (get_permission_key action resource) of
        None \<Rightarrow> False
      | Some key \<Rightarrow>
          (case ck_user env raw of
             None \<Rightarrow> False
           | Some u \<Rightarrow> (case tenant_for env u hint of None \<Rightarrow> False | Some t \<Rightarrow> decides env now t u key)))"

text \<open>Looking up by id answers the document with that id; grants do not lapse while the checks run.\<close>

definition directory_ok :: "check_env \<Rightarrow> bool" where
  "directory_ok env \<longleftrightarrow>
     (\<forall>raw u. ck_user env raw = Some u \<longrightarrow> ck_user env (au_id u) = Some u \<and> (is_object_id raw \<longrightarrow> au_id u = raw))
     \<and> (\<forall>h t. ck_tenant env h = Some t \<longrightarrow> ck_tenant env (pt_id t) = Some t \<and> (is_object_id h \<longrightarrow> pt_id t = h)
          \<and> all_sentinel \<notin> set (default_to [] (pt_available t)))
     \<and> (\<forall>w t ids now now'. ck_assignments env = Inr w \<longrightarrow> active_role_ids t ids now w = active_role_ids t ids now' w)"

definition cache_fresh :: "check_env \<Rightarrow> perm_cache \<Rightarrow> bool" where
  "cache_fresh env cache \<longleftrightarrow>
     (\<forall>tid uid members ex. cache (tid, uid) = Some (members, ex) \<longrightarrow>
        (\<exists>t u. ck_tenant env tid = Some t \<and> pt_id t = tid \<and> ck_user env uid = Some u \<and> au_id u = uid
          \<and> (\<forall>key now. key \<in> set all_permissions \<longrightarrow>
               (all_sentinel \<in> set members \<or> key \<in> set members) = decides env now t u key)))"

lemma directory_okD:
  assumes "directory_ok env"
  shows "ck_user env raw = Some u \<Longrightarrow> ck_user env (au_id u) = Some u"
    and "ck_user env raw = Some u \<Longrightarrow> is_object_id raw \<Longrightarrow> au_id u = raw"
    and "ck_tenant env h = Some t \<Longrightarrow> ck_tenant env (pt_id t) = Some t"
    and "ck_tenant env h = Some t \<Longrightarrow> is_object_id h \<Longrightarrow> pt_id t = h"
    and "ck_tenant env h = Some t \<Longrightarrow> all_sentinel \<notin> set (default_to [] (pt_available t))"
    and "ck_assignments env = Inr w \<Longrightarrow> active_role_ids t' ids now w = active_role_ids t' ids now' w"
  using assms unfolding directory_ok_def by blast+

lemma assigned_timeless:
  assumes "directory_ok env"
  shows "assigned_roles env now t u = assigned_roles env now' t u"
  using directory_okD(6)[OF assms]
  by (auto simp: assigned_roles_def load_active_assignment_role_ids_def split: sum.split)

lemma decides_timeless: "directory_ok env \<Longrightarrow> decides env now t u key = decides env now' t u key"
  using assigned_timeless[of env now t u now'] by (simp add: decides_def effective_for_def)

lemma key_known: "truthy_id (get_permission_key action resource) = Some key \<Longrightarrow> key \<in> set all_permissions \<and> key \<noteq> []"
proof -
  assume "truthy_id (get_permission_key action resource) = Some key"
  then have k: "get_permission_key action resource = Some key" "key \<noteq> []"
    by (auto simp: truthy_id_def split: option.splits if_splits)
  then obtain r where "map_of permission_registry resource = Some r" "map_of r action = Some key"
    by (auto simp: get_permission_key_def bind_eq_Some_conv)
  then have "(resource, r) \<in> set permission_registry" "(action, key) \<in> set r" by (auto dest: map_of_SomeD)
  then show ?thesis using k(2) by (force simp: all_permissions_def)
qed

lemma sentinels_unknown: "all_sentinel \<notin> set all_permissions" "empty_sentinel \<notin> set all_permissions"
  "all_sentinel \<notin> set core_permissions" "all_sentinel \<noteq> empty_sentinel"
  by (simp_all add: all_sentinel_def empty_sentinel_def all_permissions_def permission_registry_def core_permissions_def)


lemma cached_agrees:
  assumes "directory_ok env" "cache_fresh env cache" "key \<in> set all_permissions"
    "read_cached_permission env now (pt_id t) (au_id u) key cache = Some ok"
    "ck_tenant env h = Some t" "ck_user env raw = Some u"
  shows "ok = decides env now t u key"
proof -
  obtain members ex where c: "cache (pt_id t, au_id u) = Some (members, ex)"
    "ok = (all_sentinel \<in> set members \<or> key \<in> set members)"
    using assms(4) by (auto simp: read_cached_permission_def split: if_splits option.splits prod.splits)
  then obtain t' u' where "ck_tenant env (pt_id t) = Some t'" "ck_user env (au_id u) = Some u'"
    "\<forall>key now. key \<in> set all_permissions \<longrightarrow> (all_sentinel \<in> set members \<or> key \<in> set members) = decides env now t' u' key"
    using assms(2) unfolding cache_fresh_def by blast
  moreover have "ck_tenant env (pt_id t) = Some t" "ck_user env (au_id u) = Some u"
    using directory_okD(1,3)[OF assms(1)] assms(5,6) by blast+
  ultimately show ?thesis using c(2) assms(3) by simp
qed

lemma populate_fresh:
  assumes "directory_ok env" "cache_fresh env cache" "ck_tenant env h = Some t" "ck_user env raw = Some u"
    "\<And>key now. key \<in> set all_permissions \<Longrightarrow>
       (all_sentinel \<in> set perms \<or> key \<in> set perms) = decides env now t u key"
  shows "cache_fresh env (populate_permissions env now (pt_id t) (au_id u) perms cache)"
proof -
  have "ck_tenant env (pt_id t) = Some t" "ck_user env (au_id u) = Some u"
    using directory_okD(1,3)[OF assms(1)] assms(3,4) by blast+
  moreover have "(all_sentinel \<in> set (if perms = [] then [empty_sentinel] else perms)
      \<or> key \<in> set (if perms = [] then [empty_sentinel] else perms)) = decides env now t u key"
    if "key \<in> set all_permissions" for key now
    using assms(5)[OF that, of now] sentinels_unknown that by (cases "perms = []") auto
  ultimately show ?thesis
    using assms(2) unfolding cache_fresh_def populate_permissions_def by auto
qed

lemma effective_no_sentinel:
  assumes "directory_ok env" "ck_tenant env h = Some t"
  shows "all_sentinel \<notin> set (effective_for env now t u)"
  unfolding effective_for_def
  using effective_within_ceiling[of t] ceiling_subset[of t] sentinels_unknown(3) directory_okD(5)[OF assms] by blast

lemma evaluate_agrees:
  assumes dir: "directory_ok env" and fresh: "cache_fresh env cache" and user: "ck_user env raw = Some u"
    and key: "truthy_id (get_permission_key action resource) = Some key"
  shows "cr_allowed (fst (evaluate_permission_for_user env now u hint action resource key cache))
      = (case tenant_for env u hint of None \<Rightarrow> False | Some t \<Rightarrow> decides env now t u key)
    \<and> cache_fresh env (snd (evaluate_permission_for_user env now u hint action resource key cache))"
proof (cases "tenant_for env u hint")
  case None
  with fresh show ?thesis by (simp add: evaluate_permission_for_user_def)
next
  case (Some t)
  then obtain h where h: "ck_tenant env h = Some t" by (auto simp: tenant_for_def split: option.splits)
  have known: "key \<in> set all_permissions" using key_known[OF key] by simp
  have access: "can_access eff action resource = (key \<in> set eff)" for eff using key by (simp add: can_access_def)
  note pop = populate_fresh[OF dir fresh h user, of _ now]
  have p1: "is_inactive u \<Longrightarrow> cache_fresh env (populate_permissions env now (pt_id t) (au_id u) [] cache)"
    by (rule pop) (simp add: decides_def)
  have p2: "\<not> is_inactive u \<Longrightarrow> is_super_admin u \<Longrightarrow>
      cache_fresh env (populate_permissions env now (pt_id t) (au_id u) [all_sentinel] cache)"
    by (rule pop) (simp add: decides_def)
  have p3: "\<not> is_inactive u \<Longrightarrow> \<not> is_super_admin u \<Longrightarrow>
      cache_fresh env (populate_permissions env now (pt_id t) (au_id u) (effective_for env now t u) cache)"
    by (rule pop) (metis decides_def decides_timeless[OF dir] effective_no_sentinel[OF dir h])
  show ?thesis
  proof (cases "read_cached_permission env now (pt_id t) (au_id u) key cache")
    case (Some ok)
    with cached_agrees[OF dir fresh known Some h user] \<open>tenant_for env u hint = Some t\<close> fresh
    show ?thesis by (simp add: evaluate_permission_for_user_def Let_def)
  next
    case None
    with \<open>tenant_for env u hint = Some t\<close> p1 p2 p3 access show ?thesis
      by (simp add: evaluate_permission_for_user_def Let_def decides_def)
  qed
qed

lemma check_agrees:
  assumes dir: "directory_ok env" and fresh: "cache_fresh env cache"
  shows "cr_allowed (fst (check_access env now raw hint action resource cache)) = fresh_decision env now raw hint action resource
    \<and> cache_fresh env (snd (check_access env now raw hint action resource cache))"
proof (cases "truthy_id (get_permission_key action resource)")
  case None
  with fresh show ?thesis by (simp add: check_access_def fresh_decision_def)
next
  case (Some key)
  have known: "key \<in> set all_permissions" using key_known[OF Some] by simp
  let ?res = "case ck_user env raw of
      None \<Rightarrow> (\<lparr>cr_allowed = False, cr_user = None, cr_tenant = None, cr_hit = False,
                         cr_reason = Some UserNotFound\<rparr>, cache)
    | Some u \<Rightarrow> evaluate_permission_for_user env now u hint action resource key cache"
  have res: "cr_allowed (fst ?res) = fresh_decision env now raw hint action resource \<and> cache_fresh env (snd ?res)"
    using evaluate_agrees[OF dir fresh _ Some] fresh Some by (simp add: fresh_decision_def split: option.split)
  show ?thesis
  proof (cases "\<exists>t ok. hint = Some t \<and> is_object_id t \<and> is_object_id raw
      \<and> read_cached_permission env now t raw key cache = Some ok")
    case False
    with res Some show ?thesis
      by (auto simp: check_access_def Let_def split: option.split)
  next
    case True
    then obtain t ok where t: "hint = Some t" "is_object_id t" "is_object_id raw"
      "read_cached_permission env now t raw key cache = Some ok" by blast
    obtain members ex where c: "cache (t, raw) = Some (members, ex)"
      using t(4) by (auto simp: read_cached_permission_def split: if_splits option.splits)
    with fresh obtain tn u where tu: "ck_tenant env t = Some tn" "pt_id tn = t" "ck_user env raw = Some u" "au_id u = raw"
      unfolding cache_fresh_def by blast
    have "t \<noteq> []" using t(2) by (auto simp: is_object_id_def)
    then have "tenant_for env u hint = Some tn" using t(1) tu(1) by (simp add: tenant_for_def truthy_id_def)
    moreover have "ok = decides env now tn u key"
      using cached_agrees[OF dir fresh known _ tu(1,3)] t(4) tu(2,4) by blast
    ultimately show ?thesis using t tu(3) Some fresh by (simp add: check_access_def fresh_decision_def)
  qed
qed

inductive check_run :: "check_env \<Rightarrow> perm_cache \<Rightarrow> bool" for env where
  empty: "check_run env Map.empty"
| check: "check_run env cache \<Longrightarrow> check_run env (snd (check_access env now raw hint action resource cache))"
| drop_user: "check_run env cache \<Longrightarrow> check_run env (invalidate_user env t u cache)"
| drop_tenant: "check_run env cache \<Longrightarrow> check_run env (invalidate_tenant env t cache)"

text \<open>C14: while the directory does not change and no grant lapses, the cache is invisible: after any
  sequence of checks and invalidations a check answers what the evaluation without a cache answers, for
  every user, tenant and permission, whether Redis answers or not.\<close>
theorem cached_decision_is_fresh:
  assumes "check_run env cache" and "directory_ok env"
  shows "cr_allowed (fst (check_access env now raw hint action resource cache)) = fresh_decision env now raw hint action resource"
proof -
  have "cache_fresh env cache"
    using assms(1)
  proof induction
    case empty
    show ?case by (simp add: cache_fresh_def)
  next
    case (check cache now raw hint action resource)
    with check_agrees[OF assms(2)] show ?case by blast
  next
    case (drop_user cache t u)
    then show ?case by (auto simp: cache_fresh_def invalidate_user_def)
  next
    case (drop_tenant cache t)
    then show ?case by (auto simp: cache_fresh_def invalidate_tenant_def)
  qed
  with check_agrees[OF assms(2)] show ?thesis by blast
qed


section \<open>Witness, and a grant that outlives its expiry\<close>

definition demo_user :: authz_user where
  "demo_user = \<lparr>au_id = ''u'', au_tenants = Some [\<lparr>mb_tenant = ''t'', mb_roles = None, mb_role_ids = None,
     mb_overrides = None\<rparr>], au_status = None, au_platform = None\<rparr>"

definition demo_check_env :: "(string, assignment_world) result \<Rightarrow> check_env" where
  "demo_check_env rows = \<lparr>ck_user = (\<lambda>raw. if raw = ''u'' then Some demo_user else None),
     ck_tenant = (\<lambda>h. if h = ''t'' then Some demo_tenant else None),
     ck_groups = (\<lambda>_ _. []),
     ck_roles = (\<lambda>_. Inr [\<lparr>pr_id = ''r'', pr_name = None, pr_permissions = Some [''leads:view''], pr_scope = None\<rparr>]),
     ck_assignments = rows, ck_redis = True, ck_ttl = default_cache_ttl_ms\<rparr>"

lemma demo_directory: "directory_ok (demo_check_env (Inl ''down''))"
  by (auto simp: directory_ok_def demo_check_env_def demo_user_def demo_tenant_def is_object_id_def split: if_splits)

theorem cached_decision_is_fresh_witness:
  "\<not> cr_allowed (fst (check_access (demo_check_env (Inl ''down'')) 20 ''u'' (Some ''t'') ''view'' ''leads''
        (snd (check_access (demo_check_env (Inl ''down'')) 10 ''u'' (Some ''t'') ''view'' ''leads'' Map.empty))))"
proof -
  have "check_run (demo_check_env (Inl ''down''))
      (snd (check_access (demo_check_env (Inl ''down'')) 10 ''u'' (Some ''t'') ''view'' ''leads'' Map.empty))"
    by (rule check_run.check[OF check_run.empty])
  moreover have "\<not> fresh_decision (demo_check_env (Inl ''down'')) 20 ''u'' (Some ''t'') ''view'' ''leads''"
    by (simp add: fresh_decision_def demo_check_env_def get_permission_key_def permission_registry_def truthy_id_def
        tenant_for_def demo_tenant_def decides_def is_inactive_def is_super_admin_def demo_user_def effective_for_def
        calculate_effective_permissions_def effective_iff full_access_def ids_equal_def has_admin_role_def
        membership_of_def as_perm_user_def with_assignment_roles_def assigned_roles_def group_ids_def
        load_active_assignment_role_ids_def all_grants_def role_grants_def)
  ultimately show ?thesis using cached_decision_is_fresh[OF _ demo_directory] by blast
qed


text \<open>
  The assignment of \<open>demo_assignments\<close> lapses at 1000. A check at 900 puts the permissions of the role
  into the cache, and at 1100 the check still allows what the evaluation without a cache refuses.
\<close>

lemma demo_roles_active:
  "active_role_ids ''t'' [''u''] 900 demo_assignments = [''r'']"
  "active_role_ids ''t'' [''u''] 1100 demo_assignments = []"
  by code_simp+

lemma demo_effective:
  "''leads:view'' \<in> set (effective_for (demo_check_env (Inr demo_assignments)) 900 demo_tenant demo_user)"
  "''leads:view'' \<notin> set (effective_for (demo_check_env (Inr demo_assignments)) 1100 demo_tenant demo_user)"
proof -
  have "''leads:view'' \<in> set (get_tenant_permissions demo_tenant)"
    by (simp add: get_tenant_permissions_def demo_tenant_def core_permissions_def)
  then show "''leads:view'' \<in> set (effective_for (demo_check_env (Inr demo_assignments)) 900 demo_tenant demo_user)"
    "''leads:view'' \<notin> set (effective_for (demo_check_env (Inr demo_assignments)) 1100 demo_tenant demo_user)"
    by (auto simp: demo_check_env_def tenant_for_def demo_tenant_def demo_user_def effective_for_def
        calculate_effective_permissions_def effective_iff full_access_def ids_equal_def has_admin_role_def
        membership_of_def as_perm_user_def with_assignment_roles_def assigned_roles_def group_ids_def
        load_active_assignment_role_ids_def all_grants_def role_grants_def demo_roles_active load_tenant_roles_def
        role_of_def denied_keys_def uniq_def)
qed

lemma expired_grant_stays_allowed:
  "cr_allowed (fst (check_access (demo_check_env (Inr demo_assignments)) 1100 ''u'' (Some ''t'') ''view'' ''leads''
      (snd (check_access (demo_check_env (Inr demo_assignments)) 900 ''u'' (Some ''t'') ''view'' ''leads'' Map.empty))))
   \<and> \<not> fresh_decision (demo_check_env (Inr demo_assignments)) 1100 ''u'' (Some ''t'') ''view'' ''leads''"
proof -
  let ?env = "demo_check_env (Inr demo_assignments)"
  have key: "get_permission_key ''view'' ''leads'' = Some ''leads:view''"
    by (simp add: get_permission_key_def permission_registry_def)
  have env: "ck_user ?env ''u'' = Some demo_user" "tenant_for ?env demo_user (Some ''t'') = Some demo_tenant"
    "\<not> is_inactive demo_user" "\<not> is_super_admin demo_user" "ck_redis ?env" "ck_ttl ?env = 300000"
    "pt_id demo_tenant = ''t''" "au_id demo_user = ''u''" "\<not> is_object_id ''t''"
    by (simp_all add: demo_check_env_def demo_user_def demo_tenant_def tenant_for_def truthy_id_def is_inactive_def
        is_super_admin_def default_cache_ttl_ms_def is_object_id_def)
  let ?eff = "effective_for ?env 900 demo_tenant demo_user"
  have cache: "snd (check_access ?env 900 ''u'' (Some ''t'') ''view'' ''leads'' Map.empty) = [(''t'', ''u'') \<mapsto> (?eff, 300900)]"
    using key env demo_effective(1)
    by (auto simp: check_access_def truthy_id_def evaluate_permission_for_user_def Let_def
        read_cached_permission_def populate_permissions_def)
  show ?thesis
    unfolding cache using key env demo_effective
    by (simp add: check_access_def truthy_id_def evaluate_permission_for_user_def Let_def
        read_cached_permission_def fresh_decision_def decides_def)
qed

section \<open>Scope and permissions\<close>

text \<open>An active user whose permissions are unrestricted (owner, admin or platform operator) sees the records of the
  whole tenant.\<close>
theorem scope_follows_access:
  assumes "ck_user env raw = Some u" "\<not> is_inactive u" "tenant_for env u hint = Some t"
    and "full_access t (as_perm_user u) (is_super_admin u)"
  shows "sr_scope (resolve_data_scope env org_unit now raw hint) = TenantWide"
proof -
  have "privileged t u"
    using assms(4) by (auto simp: privileged_def full_access_def ids_equal_def as_perm_user_def has_admin_role_def
        Let_def list_ex_iff)
  with assms show ?thesis by (simp add: resolve_data_scope_def Let_def)
qed

end
