(* ===== verification/Authorization.thy ===== *)
theory Authorization
  imports Access_Policy_Safety Permission_Check_Safety
begin

text \<open>
  Record-level access: the object ACL (\<open>src/src/common/permissions/object-acl.service.ts\<close>), the policy
  decision point that combines permissions, ACL and attribute policies (\<open>authorization.service.ts\<close>), the
  guard of record routes (\<open>acl.guard.ts\<close>), the kind of the caller (\<open>principal.ts\<close>) and the exclusion of
  denied deals from a list (\<open>deals/deals.service.ts\<close>). The lookups of groups and records the guard makes
  are arguments that may fail.
\<close>

section \<open>Object ACL\<close>

datatype acl_principal = AclUser | AclGroup

record acl_row =
  al_type :: string
  al_resource :: string
  al_kind :: acl_principal
  al_principal :: string
  al_permissions :: "string list"
  al_deny :: bool
  al_tenant :: string

record acl_entry =
  ae_type :: string
  ae_resource :: string
  ae_kind :: acl_principal
  ae_principal :: string
  ae_permissions :: "string list"
  ae_deny :: "bool option"
  ae_tenant :: string

record acl_store =
  as_rows :: "acl_row list"
  as_audit :: "(string \<times> string \<times> string) list"

definition acl_for_resource :: "string \<Rightarrow> string \<Rightarrow> string \<Rightarrow> acl_store \<Rightarrow> acl_row list" where
  "acl_for_resource t rt rid st =
     filter (\<lambda>a. al_tenant a = t \<and> al_type a = rt \<and> al_resource a = rid) (as_rows st)"

definition granted_resources :: "string \<Rightarrow> string \<Rightarrow> string \<Rightarrow> string \<Rightarrow> acl_store \<Rightarrow> string list" where
  "granted_resources t who rt act st =
     map al_resource (filter (\<lambda>a. al_tenant a = t \<and> al_principal a = who \<and> al_type a = rt
       \<and> act \<in> set (al_permissions a) \<and> \<not> al_deny a) (as_rows st))"

definition denied_resource_ids :: "string \<Rightarrow> string list \<Rightarrow> string \<Rightarrow> string \<Rightarrow> acl_store \<Rightarrow> string list" where
  "denied_resource_ids t who rt act st =
     (if who = [] then []
      else uniq (map al_resource (filter (\<lambda>a. al_tenant a = t \<and> al_type a = rt \<and> al_principal a \<in> set who
             \<and> act \<in> set (al_permissions a) \<and> al_deny a) (as_rows st))))"

definition acl_can :: "string \<Rightarrow> string \<Rightarrow> string \<Rightarrow> string \<Rightarrow> string \<Rightarrow> string list \<Rightarrow> acl_store \<Rightarrow> bool option" where
  "acl_can t user act rt rid groups st =
     (let entries = filter (\<lambda>a. al_principal a \<in> set (user # groups)) (acl_for_resource t rt rid st) in
      if entries = [] then None
      else if list_ex (\<lambda>a. al_deny a \<and> act \<in> set (al_permissions a)) entries then Some False
      else if list_ex (\<lambda>a. \<not> al_deny a \<and> act \<in> set (al_permissions a)) entries then Some True
      else None)"

definition same_acl_key :: "acl_entry \<Rightarrow> acl_row \<Rightarrow> bool" where
  "same_acl_key e a \<longleftrightarrow> al_type a = ae_type e \<and> al_resource a = ae_resource e \<and> al_kind a = ae_kind e
     \<and> al_principal a = ae_principal e \<and> al_tenant a = ae_tenant e"

fun update_first :: "('a \<Rightarrow> bool) \<Rightarrow> ('a \<Rightarrow> 'a) \<Rightarrow> 'a list \<Rightarrow> 'a list" where
  "update_first P f [] = []"
| "update_first P f (x # xs) = (if P x then f x # xs else x # update_first P f xs)"

fun remove_first :: "('a \<Rightarrow> bool) \<Rightarrow> 'a list \<Rightarrow> 'a list" where
  "remove_first P [] = []"
| "remove_first P (x # xs) = (if P x then xs else x # remove_first P xs)"

definition acl_upsert :: "acl_entry \<Rightarrow> acl_store \<Rightarrow> acl_store" where
  "acl_upsert e st =
     (let known = list_ex (same_acl_key e) (as_rows st); deny = default_to False (ae_deny e);
          row = \<lparr>al_type = ae_type e, al_resource = ae_resource e, al_kind = ae_kind e, al_principal = ae_principal e,
                 al_permissions = ae_permissions e, al_deny = deny, al_tenant = ae_tenant e\<rparr>
      in \<lparr>as_rows = (if known then update_first (same_acl_key e)
                        (\<lambda>a. a\<lparr>al_permissions := ae_permissions e, al_deny := deny\<rparr>) (as_rows st)
                     else as_rows st @ [row]),
          as_audit = as_audit st @ [(if known then ''update'' else ''create'', ae_type e, ae_resource e)]\<rparr>)"

definition acl_remove :: "string \<Rightarrow> string \<Rightarrow> string \<Rightarrow> string \<Rightarrow> acl_store \<Rightarrow> acl_store" where
  "acl_remove t rt rid who st =
     (let hit = (\<lambda>a. al_tenant a = t \<and> al_type a = rt \<and> al_resource a = rid \<and> al_principal a = who) in
      if list_ex hit (as_rows st)
      then \<lparr>as_rows = remove_first hit (as_rows st), as_audit = as_audit st @ [(''delete'', rt, rid)]\<rparr>
      else st)"

definition acl_remove_all :: "string \<Rightarrow> string \<Rightarrow> string \<Rightarrow> acl_store \<Rightarrow> acl_store" where
  "acl_remove_all t rt rid st =
     (let hit = (\<lambda>a. al_tenant a = t \<and> al_type a = rt \<and> al_resource a = rid) in
      \<lparr>as_rows = filter (\<lambda>a. \<not> hit a) (as_rows st),
       as_audit = (if list_ex hit (as_rows st) then as_audit st @ [(''delete'', rt, rid)] else as_audit st)\<rparr>)"

section \<open>Callers\<close>

datatype principal_type = PUser | PService | PAgent

fun principal_text :: "principal_type \<Rightarrow> string" where
  "principal_text PUser = ''user''"
| "principal_text PService = ''service''"
| "principal_text PAgent = ''agent''"

record claims =
  cl_realm_roles :: "string list"
  cl_resource_roles :: "string list list"
  cl_roles :: "string list"
  cl_principal_type :: "string option"
  cl_principal_type_camel :: "string option"
  cl_username :: "string option"

definition resolve_principal_type :: "claims \<Rightarrow> principal_type" where
  "resolve_principal_type c =
     (let fallback = (case cl_username c of
                        Some u \<Rightarrow> if starts_with u ''service-account-'' then PService else PUser
                      | None \<Rightarrow> PUser)
      in case cl_principal_type c of
           Some k \<Rightarrow> if k = ''user'' then PUser else if k = ''service'' then PService
                     else if k = ''agent'' then PAgent else fallback
         | None \<Rightarrow> fallback)"

definition has_super_admin_claim :: "claims \<Rightarrow> bool" where
  "has_super_admin_claim c \<longleftrightarrow>
     ''SUPER_ADMIN'' \<in> set (cl_realm_roles c @ concat (cl_resource_roles c) @ cl_roles c)"

definition is_super_admin_verified :: "check_env \<Rightarrow> string \<Rightarrow> claims \<Rightarrow> bool" where
  "is_super_admin_verified env raw c =
     (if has_super_admin_claim c then is_platform_super_admin env raw else False)"

section \<open>Decisions\<close>

text \<open>What the decision point reads and writes: the permission cache, the policies, the ACL, the audit trail.\<close>

record pdp_env =
  pe_check :: check_env
  pe_dates :: "string \<Rightarrow> int option"
  pe_health :: redis_health
  pe_acl_up :: bool

record decision_row =
  dc_tenant :: string
  dc_user :: string
  dc_action :: string
  dc_resource :: string
  dc_record :: string
  dc_allowed :: bool
  dc_reason :: string
  dc_source :: string

record pdp_state =
  pd_cache :: perm_cache
  pd_policies :: policy_store
  pd_acl :: acl_store
  pd_decisions :: "decision_row list"

definition record_decision ::
  "string option \<Rightarrow> string \<Rightarrow> string \<Rightarrow> string \<Rightarrow> string option \<Rightarrow> bool \<Rightarrow> string \<Rightarrow> string \<Rightarrow> pdp_state \<Rightarrow> pdp_state" where
  "record_decision tenant user act rsc rid ok why source st =
     (case truthy_id tenant of
        None \<Rightarrow> st
      | Some t \<Rightarrow> st\<lparr>pd_decisions := pd_decisions st @ [\<lparr>dc_tenant = t, dc_user = user, dc_action = act,
           dc_resource = rsc, dc_record = default_to ''*'' rid, dc_allowed = ok, dc_reason = why, dc_source = source\<rparr>]\<rparr>)"

fun reason_text :: "deny_reason option \<Rightarrow> string" where
  "reason_text None = ''rbac_denied''"
| "reason_text (Some UnknownPermission) = ''unknown_permission''"
| "reason_text (Some CachedDenied) = ''cached_permission_denied''"
| "reason_text (Some UserNotFound) = ''user_not_found''"
| "reason_text (Some TenantNotResolved) = ''tenant_not_resolved''"
| "reason_text (Some UserInactive) = ''user_inactive''"
| "reason_text (Some NotGranted) = ''permission_not_granted''"

record action_decision =
  ad_allowed :: bool
  ad_super :: bool
  ad_user :: "string option"
  ad_tenant :: "string option"
  ad_reason :: string
  ad_filter :: "mongo_filter list option"

definition action_subject :: "string \<Rightarrow> string \<Rightarrow> claims \<Rightarrow> subject_input" where
  "action_subject t u c =
     \<lparr>su_tenant = t, su_user = u, su_principal_type = Some (default_to ''user'' (cl_principal_type_camel c)),
      su_groups = None, su_attributes = None\<rparr>"

definition environment_at :: "int \<Rightarrow> bag option \<Rightarrow> environment_input" where
  "environment_at now env = \<lparr>en_ip = None, en_attributes = env, en_now = JDate now (iso_string now)\<rparr>"

definition can_perform_action ::
  "pdp_env \<Rightarrow> int \<Rightarrow> string \<Rightarrow> string option \<Rightarrow> claims \<Rightarrow> bag option \<Rightarrow> string \<Rightarrow> string \<Rightarrow> pdp_state
    \<Rightarrow> (policy_error, action_decision) result \<times> pdp_state" where
  "can_perform_action env now raw hint c attrs act rsc st =
     (if is_super_admin_verified (pe_check env) raw c then
        (Inr \<lparr>ad_allowed = True, ad_super = True, ad_user = None, ad_tenant = None, ad_reason = [], ad_filter = None\<rparr>,
         record_decision hint raw act rsc None True ''platform_super_admin'' ''platform_role'' st)
      else
        (let (res, cache) = check_access (pe_check env) now raw hint act rsc (pd_cache st);
             st1 = st\<lparr>pd_cache := cache\<rparr>;
             plain = (\<lambda>ok why flt. \<lparr>ad_allowed = ok, ad_super = False, ad_user = cr_user res,
                        ad_tenant = cr_tenant res, ad_reason = why, ad_filter = flt\<rparr>)
         in case (cr_allowed res, truthy_id (cr_tenant res), truthy_id (cr_user res)) of
              (True, Some t, Some u) \<Rightarrow>
                (let ctx = for_action (action_subject t u c) (environment_at now attrs);
                     note = (\<lambda>ok why source s. record_decision (Some t) u act rsc None ok why source s)
                 in case evaluate_action_context (pe_dates env) (pe_health env) now t rsc act ctx (pd_policies st1) of
                      (Inl e, ps) \<Rightarrow> (Inl e, st1\<lparr>pd_policies := ps\<rparr>)
                    | (Inr effect, ps) \<Rightarrow>
                        (let st2 = st1\<lparr>pd_policies := ps\<rparr> in
                         if effect = Some Deny then
                           (Inr (plain False ''abac_action_denied'' None), note False ''abac_action_denied'' ''abac'' st2)
                         else case compile_resource_deny_filter (pe_dates env) (pe_health env) now t rsc act ctx ps of
                                (Inl e, ps') \<Rightarrow> (Inl e, st2\<lparr>pd_policies := ps'\<rparr>)
                              | (Inr flt, ps') \<Rightarrow>
                                  (Inr (plain True [] flt),
                                   note True (if flt = None then ''rbac_granted'' else ''rbac_with_abac_filter'')
                                     (if flt = None then ''rbac'' else ''rbac+abac'') (st2\<lparr>pd_policies := ps'\<rparr>))))
            | _ \<Rightarrow>
                (Inr (plain (cr_allowed res) (if cr_allowed res then [] else reason_text (cr_reason res)) None),
                 record_decision (or_else (cr_tenant res) hint) (default_to raw (cr_user res)) act rsc None False
                   (reason_text (cr_reason res)) ''rbac'' st1)))"

record record_request =
  rr_tenant :: string
  rr_user :: string
  rr_action :: string
  rr_resource :: string
  rr_id :: string
  rr_groups :: "string list option"
  rr_principal_type :: "string option"
  rr_record :: "bag option"
  rr_subject :: "bag option"
  rr_env :: "bag option"

definition request_subject :: "record_request \<Rightarrow> subject_input" where
  "request_subject rq =
     \<lparr>su_tenant = rr_tenant rq, su_user = rr_user rq, su_principal_type = rr_principal_type rq,
      su_groups = rr_groups rq, su_attributes = rr_subject rq\<rparr>"

definition record_record_decision :: "record_request \<Rightarrow> bool \<Rightarrow> string \<Rightarrow> string \<Rightarrow> pdp_state \<Rightarrow> pdp_state" where
  "record_record_decision rq ok why source st =
     record_decision (Some (rr_tenant rq)) (rr_user rq) (rr_action rq) (rr_resource rq) (Some (rr_id rq)) ok why source st"

definition can_access_record ::
  "pdp_env \<Rightarrow> int \<Rightarrow> record_request \<Rightarrow> pdp_state \<Rightarrow> (policy_error, bool) result \<times> pdp_state" where
  "can_access_record env now rq st =
     (if \<not> pe_acl_up env then (Inr False, st)
      else
        (let acl = acl_can (rr_tenant rq) (rr_user rq) (rr_action rq) (rr_resource rq) (rr_id rq)
                     (default_to [] (rr_groups rq)) (pd_acl st) in
         if acl = Some False then (Inr False, record_record_decision rq False ''object_acl_denied'' ''object_acl'' st)
         else
           (case evaluate_record (pe_dates env) (pe_health env) now (rr_tenant rq) (rr_resource rq) (rr_action rq)
                   (for_record (request_subject rq) (rr_id rq) (rr_record rq) (environment_at now (rr_env rq)))
                   (pd_policies st) of
              (Inl e, ps) \<Rightarrow> (Inl e, st\<lparr>pd_policies := ps\<rparr>)
            | (Inr effect, ps) \<Rightarrow>
                (let st1 = st\<lparr>pd_policies := ps\<rparr> in
                 if effect = Some Deny then (Inr False, record_record_decision rq False ''abac_record_denied'' ''abac'' st1)
                 else (Inr True, record_record_decision rq True
                         (if effect = Some Allow then ''abac_record_allowed''
                          else if acl = Some True then ''object_acl_allowed'' else ''record_grant_stands'')
                         (if effect = Some Allow then ''abac'' else if acl = Some True then ''object_acl'' else ''rbac'')
                         st1)))))"

section \<open>The guard of record routes\<close>

record guard_request =
  gr_acl :: "(string \<times> string) option"
  gr_tenant :: "string option"
  gr_user :: "string option"
  gr_id :: "string option"
  gr_loader :: "string option"
  gr_visible_groups :: "string list option"
  gr_principal :: "string option"
  gr_ip :: "string option"

datatype guard_error = Forbidden string | RecordNotFound | Misconfigured | PolicyDown policy_error | LoadFailed

definition resolve_group_ids :: "(string, string option list) result \<Rightarrow> string list option \<Rightarrow> (guard_error, string list) result" where
  "resolve_group_ids member_groups from_cls =
     (case from_cls of
        Some ids \<Rightarrow> Inr ids
      | None \<Rightarrow>
          (case member_groups of
             Inl _ \<Rightarrow> Inl (Forbidden ''group membership'')
           | Inr gs \<Rightarrow> Inr (filter (\<lambda>i. i \<noteq> [] \<and> i \<noteq> ''undefined'') (map (default_to ''undefined'') gs))))"

definition resource_models :: "string list" where
  "resource_models = [''contacts'', ''accounts'', ''deals'', ''tickets'', ''tasks'', ''leads'', ''notes'', ''groups'',
     ''users'', ''omni_channel'', ''files'', ''tags'', ''campaigns'']"

text \<open>\<open>find_doc\<close> is \<open>findById\<close> under the tenant plugin: the row, no row, or a failed read.\<close>

definition load_record :: "(string \<Rightarrow> string \<Rightarrow> (string, bag option) result) \<Rightarrow> string option \<Rightarrow> string \<Rightarrow> (guard_error, bag option) result" where
  "load_record find_doc loader rid =
     (case truthy_id loader of
        None \<Rightarrow> Inl Misconfigured
      | Some k \<Rightarrow>
          if k \<notin> set resource_models then Inl LoadFailed
          else (case find_doc k rid of Inl _ \<Rightarrow> Inl LoadFailed | Inr doc \<Rightarrow> Inr doc))"

definition can_activate ::
  "pdp_env \<Rightarrow> int \<Rightarrow> (string \<Rightarrow> string \<Rightarrow> (string, bag option) result) \<Rightarrow> (string, string option list) result
    \<Rightarrow> guard_request \<Rightarrow> pdp_state \<Rightarrow> (guard_error, bool) result \<times> pdp_state" where
  "can_activate env now find_doc member_groups gr st =
     (case gr_acl gr of
        None \<Rightarrow> (Inr True, st)
      | Some (act, rsc) \<Rightarrow>
          (case (truthy_id (gr_tenant gr), truthy_id (gr_user gr)) of
             (Some t, Some u) \<Rightarrow>
               (case truthy_id (gr_id gr) of
                  None \<Rightarrow> (Inr True, st)
                | Some rid \<Rightarrow>
                    (case load_record find_doc (gr_loader gr) rid of
                       Inl e \<Rightarrow> (Inl e, st)
                     | Inr None \<Rightarrow> (Inl RecordNotFound, st)
                     | Inr (Some rec) \<Rightarrow>
                         (case resolve_group_ids member_groups (gr_visible_groups gr) of
                            Inl e \<Rightarrow> (Inl e, st)
                          | Inr gs \<Rightarrow>
                              (case can_access_record env now
                                     \<lparr>rr_tenant = t, rr_user = u, rr_action = act, rr_resource = rsc, rr_id = rid,
                                      rr_groups = Some gs, rr_principal_type = Some (default_to ''user'' (gr_principal gr)),
                                      rr_record = Some rec, rr_subject = None,
                                      rr_env = Some [(''ip'', case gr_ip gr of None \<Rightarrow> JUndef | Some ip \<Rightarrow> JStr ip)]\<rparr> st of
                                 (Inl e, st1) \<Rightarrow> (Inl (PolicyDown e), st1)
                               | (Inr True, st1) \<Rightarrow> (Inr True, st1)
                               | (Inr False, st1) \<Rightarrow> (Inl (Forbidden ''insufficient permissions''), st1)))))
           | _ \<Rightarrow> (Inl (Forbidden ''unresolved''), st)))"

text \<open>The deals a list leaves out: no tenant or user, or a failed lookup, leaves out none.\<close>

definition acl_denied_deal_ids :: "bool \<Rightarrow> string option \<Rightarrow> string option \<Rightarrow> string list option \<Rightarrow> acl_store \<Rightarrow> string list" where
  "acl_denied_deal_ids acl_up tenant user groups acl =
     (case (truthy_id tenant, truthy_id user) of
        (Some t, Some u) \<Rightarrow>
          if acl_up then denied_resource_ids t (u # default_to [] groups) ''deals'' ''view'' acl else []
      | _ \<Rightarrow> [])"

end
