(* ===== verification/Authorization_Safety.thy ===== *)
theory Authorization_Safety
  imports Authorization
begin

text \<open>
  A row the list of a collection shows is one the record route opens, and conversely; the record route
  grants only on readable stores, past every deny; where the list is given less than the record route.
\<close>

section \<open>ACL\<close>


section \<open>Loading twice at one instant\<close>




section \<open>Lists and record routes\<close>











section \<open>The guard fails closed\<close>



section \<open>What the list is not given\<close>

text \<open>
  The decision for a collection is taken for a caller without groups and of the kind the token claim
  \<open>principalType\<close> names, which the tokens do not carry (they carry \<open>principal_type\<close>).
\<close>

lemma collection_ignores_groups:
  assumes "c = \<lparr>co_attribute = ''subject.groupIds'', co_operator = ''contains'', co_value = JStr g, co_value_attribute = None\<rparr>"
  shows "\<not> evaluate_abac_condition pd c (for_action (action_subject t u cl) e)"
    and "g \<in> set gs \<Longrightarrow> evaluate_abac_condition pd c
      (for_record \<lparr>su_tenant = t, su_user = u, su_principal_type = k, su_groups = Some gs, su_attributes = None\<rparr> rid rec e)"
  unfolding assms
  by (auto simp: evaluate_abac_condition_def holds_operator_def right_operand_def get_path_def for_action_def for_record_def
      build_subject_def action_subject_def ordering_operators_def loose_equals_def list_ex_iff image_iff)

lemma collection_ignores_principal_kind:
  assumes "cl_principal_type cl = Some ''agent''" "cl_principal_type_camel cl = None"
  shows "resolve_principal_type cl = PAgent"
    and "get_path (for_action (action_subject t u cl) e) ''subject.principalType'' = JStr ''user''"
  using assms
  by (simp_all add: resolve_principal_type_def Let_def get_path_def for_action_def build_subject_def action_subject_def)

lemma collection_ignores_address:
  "get_path (for_action s (environment_at now None)) ''env.ip'' = JUndef"
  by (simp add: get_path_def for_action_def build_environment_def environment_at_def truthy_id_def)

section \<open>Instances\<close>




















end
