(* ===== verification/Business_Hours.thy ===== *)
theory Business_Hours
  imports Js_Value
begin

text \<open>
  The tenant's working hours (\<open>src/src/omni-inbound/services/business-hours.service.ts\<close>): the open/closed
  test, holidays, and the two calculations the SLA clocks rest on, the deadline after so many working
  minutes and the working minutes between two instants.

  Instants are epoch milliseconds. The zone of the process is a constant offset \<open>ce_server\<close> (no change to
  summer time happens in it); \<open>ce_zone\<close> gives the offset of an IANA zone at an instant, and nothing for a
  name that is not one. Hour and minute fields denote integers, as the \<open>HH:mm\<close> of the settings do.
\<close>

section \<open>Settings\<close>

record holiday =
  ho_date :: "string option"
  ho_recurring :: bool

record day_hours =
  dh_day :: "string option"
  dh_enabled :: bool
  dh_start :: "string option"
  dh_end :: "string option"
  dh_slots :: "(string option \<times> string option) list option"

record business_hours =
  bh_timezone :: "string option"
  bh_holidays :: "holiday list option"
  bh_working_days :: "day_hours list option"
  bh_schedule :: "(string \<times> day_hours) list option"

record clock_env =
  ce_server :: int
  ce_zone :: "string \<Rightarrow> (int \<Rightarrow> int) option"

section \<open>Dates of the process\<close>

definition day_length :: int where "day_length = 86400000"

definition day_of :: "clock_env \<Rightarrow> int \<Rightarrow> int" where
  "day_of env t = (t + ce_server env) div day_length"

definition day_start :: "clock_env \<Rightarrow> int \<Rightarrow> int" where
  "day_start env d = d * day_length - ce_server env"

definition minute_of_day :: "clock_env \<Rightarrow> int \<Rightarrow> int" where
  "minute_of_day env t = ((t + ce_server env) mod day_length) div 60000"

text \<open>\<open>setHours(m / 60, m % 60, 0, 0)\<close> on the day of \<open>t\<close>.\<close>

definition at_minute :: "clock_env \<Rightarrow> int \<Rightarrow> int \<Rightarrow> int" where
  "at_minute env t m = day_start env (day_of env t) + m * 60000"

definition advance_to_next_day :: "clock_env \<Rightarrow> int \<Rightarrow> int" where
  "advance_to_next_day env t = day_start env (day_of env t + 1)"

definition get_now :: "clock_env \<Rightarrow> string \<Rightarrow> int \<Rightarrow> int" where
  "get_now env tz now =
     (case ce_zone env tz of None \<Rightarrow> now | Some off \<Rightarrow> (now + off now) div 1000 * 1000 - ce_server env)"

definition get_day_name :: "clock_env \<Rightarrow> int \<Rightarrow> string" where
  "get_day_name env t =
     [''sunday'', ''monday'', ''tuesday'', ''wednesday'', ''thursday'', ''friday'', ''saturday'']
       ! nat ((day_of env t + 4) mod 7)"

section \<open>Parsing\<close>

definition number_field :: "string \<Rightarrow> int" where
  "number_field s = (case to_number s of Dec m k \<Rightarrow> m div 10 ^ k | _ \<Rightarrow> 0)"

definition time_to_minutes :: "string \<Rightarrow> int" where
  "time_to_minutes s =
     (case split_on CHR '':'' s of
        h # m # _ \<Rightarrow> number_field h * 60 + number_field m
      | [h] \<Rightarrow> number_field h * 60
      | [] \<Rightarrow> 0)"

text \<open>\<open>parseInt(s, 10)\<close>, \<open>None\<close> for \<open>NaN\<close>.\<close>

definition parse_int :: "string \<Rightarrow> int option" where
  "parse_int s =
     (let (sg, t) = parse_sign (trim_start s); ds = takeWhile is_digit t
      in if ds = [] then None else Some (sg * digits_val 0 ds))"

definition is_holiday :: "clock_env \<Rightarrow> int \<Rightarrow> holiday list option \<Rightarrow> bool" where
  "is_holiday env t holidays =
     (let (y, m, d) = civil_of_days (day_of env t) in
      list_ex (\<lambda>h. case truthy_id (ho_date h) of
                     None \<Rightarrow> False
                   | Some s \<Rightarrow>
                       (case split_on CHR ''-'' s of
                          p0 # p1 # p2 # _ \<Rightarrow>
                            (if ho_recurring h then parse_int p1 = Some m \<and> parse_int p2 = Some d
                             else parse_int p0 = Some y \<and> parse_int p1 = Some m \<and> parse_int p2 = Some d)
                        | _ \<Rightarrow> False))
        (default_to [] holidays))"

section \<open>Schedules\<close>

definition get_day_schedule :: "clock_env \<Rightarrow> int \<Rightarrow> business_hours \<Rightarrow> day_hours option" where
  "get_day_schedule env t cfg =
     (let name = get_day_name env t in
      case bh_working_days cfg of
        Some ds \<Rightarrow> List.find (\<lambda>d. map_option to_lower (dh_day d) = Some name) ds
      | None \<Rightarrow> (case bh_schedule cfg of Some sched \<Rightarrow> map_of sched name | None \<Rightarrow> None))"

definition open_schedule :: "clock_env \<Rightarrow> int \<Rightarrow> business_hours \<Rightarrow> day_hours option" where
  "open_schedule env t cfg =
     (if is_holiday env t (bh_holidays cfg) then None
      else case get_day_schedule env t cfg of None \<Rightarrow> None | Some s \<Rightarrow> if dh_enabled s then Some s else None)"

definition is_within_business_hours :: "clock_env \<Rightarrow> (string, business_hours option) result \<Rightarrow> int \<Rightarrow> bool" where
  "is_within_business_hours env setting now =
     (case setting of
        Inl _ \<Rightarrow> True
      | Inr None \<Rightarrow> True
      | Inr (Some cfg) \<Rightarrow>
          (let t = get_now env (default_to ''UTC'' (truthy_id (bh_timezone cfg))) now; cur = minute_of_day env t in
           case open_schedule env t cfg of
             None \<Rightarrow> False
           | Some s \<Rightarrow>
               (case dh_slots s of
                  Some slots \<Rightarrow>
                    list_ex (\<lambda>(a, b). time_to_minutes (default_to ''09:00'' (truthy_id a)) \<le> cur
                       \<and> cur < time_to_minutes (default_to ''18:00'' (truthy_id b))) slots
                | None \<Rightarrow> time_to_minutes (default_to ''09:00'' (dh_start s)) \<le> cur
                       \<and> cur < time_to_minutes (default_to ''18:00'' (dh_end s)))))"

definition get_working_slots :: "day_hours \<Rightarrow> (string option \<times> string option) list" where
  "get_working_slots s =
     (case dh_slots s of
        Some slots \<Rightarrow> slots
      | None \<Rightarrow> [(Some (default_to ''09:00'' (truthy_id (dh_start s))), Some (default_to ''18:00'' (truthy_id (dh_end s))))])"

section \<open>Deadlines\<close>

text \<open>A slot without a start or an end makes \<open>timeToMinutes\<close> throw.\<close>

definition slot_minutes :: "string option \<times> string option \<Rightarrow> (string, int \<times> int) result" where
  "slot_minutes slot =
     (case slot of (Some a, Some b) \<Rightarrow> Inr (time_to_minutes a, time_to_minutes b) | _ \<Rightarrow> Inl ''TypeError'')"

datatype consumed = Expires int | Remaining int

fun consume_slots :: "int \<Rightarrow> (string option \<times> string option) list \<Rightarrow> int \<Rightarrow> (string, consumed) result" where
  "consume_slots cur [] rem = Inr (Remaining rem)"
| "consume_slots cur (slot # slots) rem =
     bind_result (slot_minutes slot) (\<lambda>(a, b).
       if b \<le> cur then consume_slots cur slots rem
       else let start = max cur a; available = b - start in
            if available \<le> 0 then consume_slots cur slots rem
            else if rem \<le> available then Inr (Expires (start + rem))
            else consume_slots cur slots (rem - available))"

definition consume_working_slots :: "clock_env \<Rightarrow> int \<Rightarrow> day_hours \<Rightarrow> int \<Rightarrow> (string, int \<times> int) result" where
  "consume_working_slots env cursor s rem =
     bind_result (consume_slots (minute_of_day env cursor) (get_working_slots s) rem)
       (\<lambda>c. case c of Expires m \<Rightarrow> Inr (at_minute env cursor m, 0) | Remaining r \<Rightarrow> Inr (cursor, r))"

fun deadline_loop :: "clock_env \<Rightarrow> business_hours \<Rightarrow> nat \<Rightarrow> int \<Rightarrow> int \<Rightarrow> (string, int) result" where
  "deadline_loop env cfg 0 cursor rem = Inr cursor"
| "deadline_loop env cfg (Suc n) cursor rem =
     (if rem \<le> 0 then Inr cursor
      else case open_schedule env cursor cfg of
             None \<Rightarrow> deadline_loop env cfg n (advance_to_next_day env cursor) rem
           | Some s \<Rightarrow>
               bind_result (consume_working_slots env cursor s rem) (\<lambda>(c, r).
                 deadline_loop env cfg n (if r > 0 then advance_to_next_day env c else c) r))"

definition max_deadline_days :: nat where "max_deadline_days = 365"

definition calculate_sla_deadline :: "clock_env \<Rightarrow> business_hours option \<Rightarrow> int \<Rightarrow> int \<Rightarrow> (string, int) result" where
  "calculate_sla_deadline env setting now minutes =
     (case setting of
        None \<Rightarrow> Inr (now + minutes * 60000)
      | Some cfg \<Rightarrow>
          deadline_loop env cfg max_deadline_days
            (get_now env (default_to ''UTC'' (truthy_id (bh_timezone cfg))) now) minutes)"

section \<open>Minutes between\<close>

definition ceil_minutes :: "int \<Rightarrow> int" where
  "ceil_minutes ms = - ((- ms) div 60000)"

fun slots_overlap :: "clock_env \<Rightarrow> int \<Rightarrow> int \<Rightarrow> int \<Rightarrow> (string option \<times> string option) list \<Rightarrow> (string, int) result" where
  "slots_overlap env day from until [] = Inr 0"
| "slots_overlap env day from until (slot # slots) =
     bind_result (slot_minutes slot) (\<lambda>(a, b).
       bind_result (slots_overlap env day from until slots) (\<lambda>rest.
         Inr (max 0 (min until (at_minute env day b) - max from (at_minute env day a)) + rest)))"

fun between_loop :: "clock_env \<Rightarrow> business_hours \<Rightarrow> nat \<Rightarrow> int \<Rightarrow> int \<Rightarrow> int \<Rightarrow> int \<Rightarrow> (string, int) result" where
  "between_loop env cfg 0 day final from until = Inr 0"
| "between_loop env cfg (Suc n) day final from until =
     (if day > final then Inr 0
      else bind_result (case open_schedule env day cfg of
                          None \<Rightarrow> Inr 0 | Some s \<Rightarrow> slots_overlap env day from until (get_working_slots s)) (\<lambda>ms.
             bind_result (between_loop env cfg n (advance_to_next_day env day) final from until) (\<lambda>rest.
               Inr (ms + rest))))"

definition max_between_days :: nat where "max_between_days = 366"

definition calculate_business_minutes_between ::
  "clock_env \<Rightarrow> business_hours option \<Rightarrow> int \<Rightarrow> int \<Rightarrow> (string, int) result" where
  "calculate_business_minutes_between env setting from until =
     (if until \<le> from then Inr 0
      else case setting of
             None \<Rightarrow> Inr (ceil_minutes (until - from))
           | Some cfg \<Rightarrow>
               bind_result (between_loop env cfg max_between_days (day_start env (day_of env from))
                 (day_start env (day_of env until)) from until) (\<lambda>ms. Inr (ceil_minutes ms)))"

section \<open>Out of office\<close>

record ooo_config =
  ooo_auto_reply :: bool
  ooo_message :: string
  ooo_set_pending :: bool
  ooo_channel_messages :: "(string \<times> string) list"

definition get_channel_ooo_message :: "ooo_config \<Rightarrow> string \<Rightarrow> string" where
  "get_channel_ooo_message c channel =
     default_to (ooo_message c) (truthy_id (map_of (ooo_channel_messages c) (to_lower channel)))"

definition get_tenant_timezone :: "(string, business_hours option) result \<Rightarrow> string" where
  "get_tenant_timezone setting =
     (case setting of Inr (Some cfg) \<Rightarrow> default_to ''UTC'' (truthy_id (bh_timezone cfg)) | _ \<Rightarrow> ''UTC'')"

definition get_tenant_local_time :: "clock_env \<Rightarrow> (string, business_hours option) result \<Rightarrow> int \<Rightarrow> string" where
  "get_tenant_local_time env setting now =
     (let off = (case ce_zone env (get_tenant_timezone setting) of Some off \<Rightarrow> off now | None \<Rightarrow> 0);
          m = ((now + off) mod day_length) div 60000
      in pad_int 2 (m div 60) @ '':'' @ pad_int 2 (m mod 60))"

end
