(* ===== verification/Sla_Clock.thy ===== *)
theory Sla_Clock
  imports Business_Hours Documents
begin

text \<open>
  The SLA engine (\<open>src/src/sla-policies/clock/sla-clock.service.ts\<close>) with its two subject ports
  (\<open>tickets/sla/ticket-sla.port.ts\<close>, \<open>omni-inbound/sla/conversation-sla.port.ts\<close>), both registered, and
  the listeners that drive it for conversations and tickets (\<open>tickets/sla/ticket-sla.projector.ts\<close>). One
  instant \<open>now\<close> stands for the reads of the clock within an operation. Policies have whole target values.
  The listeners run in the tenant context of the event they are told, so that the tenant filter of the collection lets
  their queries pass; the cron tick runs in none. A breach is several remote calls after one another: how many of them
  answer, before one fails or the process dies, is an argument.
\<close>

section \<open>State\<close>

datatype sla_metric = FirstResponse | NextResponse | Resolution

datatype clock_status = CkRunning | CkPaused | CkMet | CkBreached | CkCancelled

datatype subject_kind = Conversation | Ticket

type_synonym sla_subject = "subject_kind \<times> string"

record sla_clock =
  ck_id :: nat
  ck_tenant :: string
  ck_subject :: sla_subject
  ck_policy :: string
  ck_metric :: sla_metric
  ck_cycle :: nat
  ck_status :: clock_status
  ck_target :: int
  ck_started :: int
  ck_due :: int
  ck_paused_at :: "int option"
  ck_remaining :: "int option"
  ck_paused_ms :: int
  ck_met_at :: "int option"
  ck_breached_at :: "int option"
  ck_segment :: "string option"

record sla_target =
  tg_segment :: "string option"
  tg_value :: int
  tg_unit :: string

record sla_policy =
  sp_id :: string
  sp_tenant :: string
  sp_applies :: subject_kind
  sp_metric :: sla_metric
  sp_targets :: "sla_target list"
  sp_enabled :: bool
  sp_priority :: int

text \<open>The columns of a ticket or conversation the engine reads and writes.\<close>

record subject_row =
  sj_tenant :: string
  sj_deleted :: bool
  sj_priority :: "string option"
  sj_first_due :: "int option"
  sj_resolution_due :: "int option"
  sj_policy :: "string option"
  sj_breached :: bool
  sj_due :: "int option"
  sj_due_metric :: "sla_metric option"
  sj_breached_at :: "int option"
  sj_first_response :: "(int \<times> string option) option"

record breach_event =
  be_clock :: nat
  be_tenant :: string
  be_subject :: sla_subject
  be_metric :: sla_metric
  be_cycle :: nat
  be_due :: int
  be_at :: int

record sla_world =
  sw_clocks :: "sla_clock list"
  sw_policies :: "sla_policy list"
  sw_subjects :: "sla_subject \<rightharpoonup> subject_row"
  sw_events :: "breach_event list"
  sw_next :: nat

record sla_env =
  se_clock :: clock_env
  se_hours :: "string \<Rightarrow> business_hours option"

definition and_then :: "('e, 'a) result \<times> 'w \<Rightarrow> ('a \<Rightarrow> 'w \<Rightarrow> ('e, 'b) result \<times> 'w) \<Rightarrow> ('e, 'b) result \<times> 'w" where
  "and_then r f = (case r of (Inl e, w) \<Rightarrow> (Inl e, w) | (Inr a, w) \<Rightarrow> f a w)"

section \<open>Projections\<close>

text \<open>An absent key is \<open>None\<close>, an explicit null \<open>Some None\<close>.\<close>

record sla_projection =
  pj_first :: "int option option"
  pj_resolution :: "int option option"
  pj_breached :: "int option option"
  pj_policy :: "string option option"

definition nothing_projected :: sla_projection where
  "nothing_projected = \<lparr>pj_first = None, pj_resolution = None, pj_breached = None, pj_policy = None\<rparr>"

definition project_ticket :: "sla_projection \<Rightarrow> subject_row \<Rightarrow> subject_row" where
  "project_ticket p r =
     r\<lparr>sj_first_due := default_to (sj_first_due r) (pj_first p),
       sj_resolution_due := default_to (sj_resolution_due r) (pj_resolution p),
       sj_policy := default_to (sj_policy r) (map_option truthy_id (pj_policy p)),
       sj_breached := (case pj_breached p of None \<Rightarrow> sj_breached r | Some b \<Rightarrow> b \<noteq> None)\<rparr>"

definition soonest :: "int option \<Rightarrow> int option \<Rightarrow> int option" where
  "soonest first resolution =
     (case (first, resolution) of
        (Some a, Some b) \<Rightarrow> Some (if a < b then a else b)
      | (Some a, None) \<Rightarrow> Some a
      | (None, b) \<Rightarrow> b)"

text \<open>\<open>soonest === first\<close> compares the two date objects: on a tie the resolution is named.\<close>

definition soonest_metric :: "int option \<Rightarrow> int option \<Rightarrow> sla_metric option" where
  "soonest_metric first resolution =
     (case (first, resolution) of
        (None, None) \<Rightarrow> None
      | (Some a, Some b) \<Rightarrow> Some (if a < b then FirstResponse else Resolution)
      | (Some a, None) \<Rightarrow> Some FirstResponse
      | (None, Some b) \<Rightarrow> Some Resolution)"

definition project_conversation :: "sla_projection \<Rightarrow> subject_row \<Rightarrow> subject_row" where
  "project_conversation p r =
     (let r1 = (if pj_first p = None \<and> pj_resolution p = None then r
                else let first = default_to None (pj_first p); due = soonest first (default_to None (pj_resolution p)) in
                     r\<lparr>sj_due := due, sj_due_metric := soonest_metric first (default_to None (pj_resolution p))\<rparr>)
      in case pj_breached p of None \<Rightarrow> r1 | Some b \<Rightarrow> r1\<lparr>sj_breached := b \<noteq> None, sj_breached_at := b\<rparr>)"

definition project :: "string \<Rightarrow> sla_subject \<Rightarrow> sla_projection \<Rightarrow> sla_world \<Rightarrow> sla_world" where
  "project t sj p w =
     (case sw_subjects w sj of
        None \<Rightarrow> w
      | Some r \<Rightarrow>
          (case fst sj of
             Ticket \<Rightarrow> if sj_tenant r = t then w\<lparr>sw_subjects := (sw_subjects w)(sj \<mapsto> project_ticket p r)\<rparr> else w
           | Conversation \<Rightarrow> w\<lparr>sw_subjects := (sw_subjects w)(sj \<mapsto> project_conversation p r)\<rparr>))"

definition of_subject :: "string \<Rightarrow> sla_subject \<Rightarrow> sla_clock \<Rightarrow> bool" where
  "of_subject t sj c \<longleftrightarrow> ck_tenant c = t \<and> ck_subject c = sj"

text \<open>The deadlines still running, as a query in the context of the tenant \<open>t\<close> finds them.\<close>

definition pending_deadlines :: "string \<Rightarrow> sla_subject \<Rightarrow> sla_world \<Rightarrow> sla_projection" where
  "pending_deadlines t sj w =
     (let running = filter (\<lambda>c. of_subject t sj c \<and> ck_status c = CkRunning) (sw_clocks w);
          by_metric = map_of (rev (map (\<lambda>c. (ck_metric c, ck_due c)) running))
      in nothing_projected\<lparr>pj_first := Some (or_else (by_metric FirstResponse) (by_metric NextResponse)),
           pj_resolution := Some (by_metric Resolution)\<rparr>)"

definition project_pending_deadline :: "string \<Rightarrow> sla_subject \<Rightarrow> sla_world \<Rightarrow> sla_world" where
  "project_pending_deadline t sj w = project t sj (pending_deadlines t sj w) w"

section \<open>Starting a clock\<close>

definition to_minutes :: "int \<Rightarrow> string \<Rightarrow> int" where
  "to_minutes v unit = (if unit = ''days'' then v * 24 * 60 else if unit = ''hours'' then v * 60 else v)"

definition load_context :: "string \<Rightarrow> sla_subject \<Rightarrow> sla_world \<Rightarrow> string option option" where
  "load_context t sj w =
     (case sw_subjects w sj of
        None \<Rightarrow> None
      | Some r \<Rightarrow> if fst sj = Ticket \<and> (sj_tenant r \<noteq> t \<or> sj_deleted r) then None else Some (sj_priority r))"

definition find_applicable :: "string \<Rightarrow> subject_kind \<Rightarrow> sla_metric \<Rightarrow> sla_world \<Rightarrow> sla_policy list" where
  "find_applicable t k m w =
     sort_by (\<lambda>a b. sp_priority b \<le> sp_priority a)
       (filter (\<lambda>p. sp_tenant p = t \<and> sp_applies p = k \<and> sp_metric p = m \<and> sp_enabled p) (sw_policies w))"

definition choose_target :: "string option \<Rightarrow> sla_policy \<Rightarrow> sla_target option" where
  "choose_target segment p =
     or_else
       (List.find (\<lambda>e. case (tg_segment e, segment) of (Some a, Some b) \<Rightarrow> to_upper a = to_upper b | _ \<Rightarrow> False) (sp_targets p))
       (List.find (\<lambda>e. tg_segment e = None) (sp_targets p))"

definition clock_key :: "string \<Rightarrow> sla_subject \<Rightarrow> sla_metric \<Rightarrow> sla_clock \<Rightarrow> bool" where
  "clock_key t sj m c \<longleftrightarrow> of_subject t sj c \<and> ck_metric c = m"

definition latest_clock :: "string \<Rightarrow> sla_subject \<Rightarrow> sla_metric \<Rightarrow> sla_world \<Rightarrow> sla_clock option" where
  "latest_clock t sj m w =
     first_of (sort_by (\<lambda>a b. ck_cycle b \<le> ck_cycle a) (filter (clock_key t sj m) (sw_clocks w)))"

definition is_open :: "clock_status \<Rightarrow> bool" where
  "is_open s \<longleftrightarrow> s = CkRunning \<or> s = CkPaused"

datatype clock_plan = NoClock | Existing sla_clock | Insert sla_clock

definition start_plan ::
  "sla_env \<Rightarrow> int \<Rightarrow> string \<Rightarrow> sla_subject \<Rightarrow> sla_metric \<Rightarrow> sla_world \<Rightarrow> (string, clock_plan) result" where
  "start_plan env now t sj m w =
     (case load_context t sj w of
        None \<Rightarrow> Inr NoClock
      | Some segment \<Rightarrow>
          (case find_applicable t (fst sj) m w of
             [] \<Rightarrow> Inr NoClock
           | p # _ \<Rightarrow>
               (case choose_target segment p of
                  None \<Rightarrow> Inr NoClock
                | Some tg \<Rightarrow>
                    (let target = to_minutes (tg_value tg) (tg_unit tg);
                         create = (\<lambda>cycle. bind_result (calculate_sla_deadline (se_clock env) (se_hours env t) now target)
                           (\<lambda>due. Inr (Insert \<lparr>ck_id = 0, ck_tenant = t, ck_subject = sj, ck_policy = sp_id p,
                              ck_metric = m, ck_cycle = cycle, ck_status = CkRunning, ck_target = target, ck_started = now,
                              ck_due = due, ck_paused_at = None, ck_remaining = None, ck_paused_ms = 0, ck_met_at = None,
                              ck_breached_at = None, ck_segment = tg_segment tg\<rparr>)))
                     in case latest_clock t sj m w of
                          None \<Rightarrow> create 1
                        | Some c \<Rightarrow>
                            if is_open (ck_status c) then Inr (Existing c)
                            else if m \<noteq> NextResponse \<and> ck_status c \<noteq> CkCancelled then Inr (Existing c)
                            else create (ck_cycle c + 1)))))"

text \<open>The insertion, which the unique index on (tenant, subject, metric, cycle) refuses for a cycle that exists.\<close>

definition insert_clock :: "sla_clock \<Rightarrow> sla_world \<Rightarrow> sla_clock option \<times> sla_world" where
  "insert_clock c w =
     (case List.find (\<lambda>d. clock_key (ck_tenant c) (ck_subject c) (ck_metric c) d \<and> ck_cycle d = ck_cycle c) (sw_clocks w) of
        Some d \<Rightarrow> (Some d, w)
      | None \<Rightarrow>
          (let c1 = c\<lparr>ck_id := sw_next w\<rparr> in
           (Some c1, project (ck_tenant c) (ck_subject c) (nothing_projected\<lparr>pj_policy := Some (Some (ck_policy c))\<rparr>)
              (w\<lparr>sw_clocks := sw_clocks w @ [c1], sw_next := Suc (sw_next w)\<rparr>))))"

definition run_plan :: "clock_plan \<Rightarrow> sla_world \<Rightarrow> sla_clock option \<times> sla_world" where
  "run_plan p w = (case p of NoClock \<Rightarrow> (None, w) | Existing c \<Rightarrow> (Some c, w) | Insert c \<Rightarrow> insert_clock c w)"

definition start_metric ::
  "sla_env \<Rightarrow> int \<Rightarrow> string \<Rightarrow> sla_subject \<Rightarrow> sla_metric \<Rightarrow> sla_world \<Rightarrow> (string, sla_clock option) result \<times> sla_world" where
  "start_metric env now t sj m w =
     (case start_plan env now t sj m w of
        Inl e \<Rightarrow> (Inl e, w) | Inr p \<Rightarrow> (let (c, w1) = run_plan p w in (Inr c, w1)))"

text \<open>\<open>Promise.all\<close>: the second start runs even when the first throws.\<close>

definition start_response_and_resolution_clocks ::
  "sla_env \<Rightarrow> int \<Rightarrow> string \<Rightarrow> sla_subject \<Rightarrow> sla_world \<Rightarrow> (string, unit) result \<times> sla_world" where
  "start_response_and_resolution_clocks env now t sj w =
     (let (a, w1) = start_metric env now t sj FirstResponse w; (b, w2) = start_metric env now t sj Resolution w1 in
      case (a, b) of
        (Inl e, _) \<Rightarrow> (Inl e, w2)
      | (_, Inl e) \<Rightarrow> (Inl e, w2)
      | _ \<Rightarrow> (Inr (), project_pending_deadline t sj w2))"

definition on_customer_turn ::
  "sla_env \<Rightarrow> int \<Rightarrow> string \<Rightarrow> sla_subject \<Rightarrow> sla_world \<Rightarrow> (string, unit) result \<times> sla_world" where
  "on_customer_turn env now t sj w =
     and_then (start_metric env now t sj Resolution w) (\<lambda>_ w1.
       if list_ex (\<lambda>c. clock_key t sj FirstResponse c \<and> is_open (ck_status c)) (sw_clocks w1) then (Inr (), w1)
       else and_then (start_metric env now t sj
                (if latest_clock t sj FirstResponse w1 = None then FirstResponse else NextResponse) w1)
              (\<lambda>_ w2. (Inr (), project_pending_deadline t sj w2)))"

section \<open>Breaches and settlement\<close>

definition update_clock :: "nat \<Rightarrow> clock_status \<Rightarrow> (sla_clock \<Rightarrow> sla_clock) \<Rightarrow> sla_world \<Rightarrow> sla_clock option \<times> sla_world" where
  "update_clock i expected f w =
     (let (found, cs) = find_and_update (\<lambda>c. ck_id c = i \<and> ck_status c = expected) f (sw_clocks w)
      in (found, w\<lparr>sw_clocks := cs\<rparr>))"

text \<open>
  \<open>active\<close> is the tenant of the CLS context and \<open>k\<close> the number of remote calls that answer: the projection of the breach,
  the query for the deadlines still running, which the tenant filter refuses without a context, and their projection.
\<close>

definition announce_breach ::
  "string option \<Rightarrow> nat \<Rightarrow> int \<Rightarrow> sla_clock \<Rightarrow> sla_world \<Rightarrow> (string, unit) result \<times> sla_world" where
  "announce_breach active k now c w =
     (let t = ck_tenant c; sj = ck_subject c; at = default_to now (ck_breached_at c);
          w1 = project t sj (nothing_projected\<lparr>pj_first := Some None, pj_resolution := Some None, pj_breached := Some (Some at)\<rparr>) w
      in if k = 0 then (Inl ''unavailable'', w)
         else case active of
           None \<Rightarrow> (Inl ''Missing activeTenantId'', w1)
         | Some a \<Rightarrow>
             if k < 3 then (Inl ''unavailable'', w1)
             else let w2 = project t sj (pending_deadlines a sj w1) w1 in
               (Inr (), w2\<lparr>sw_events := sw_events w2 @ [\<lparr>be_clock = ck_id c, be_tenant = t, be_subject = sj,
                  be_metric = ck_metric c, be_cycle = ck_cycle c, be_due = ck_due c, be_at = at\<rparr>]\<rparr>))"

definition settle_one :: "nat \<Rightarrow> int \<Rightarrow> int \<Rightarrow> sla_clock \<Rightarrow> sla_world \<Rightarrow> (string, unit) result \<times> sla_world" where
  "settle_one k now met_at c w =
     (if k = 0 then (Inl ''unavailable'', w)
      else if ck_status c = CkRunning \<and> ck_due c < met_at then
        (case update_clock (ck_id c) (ck_status c) (\<lambda>d. d\<lparr>ck_status := CkBreached, ck_breached_at := Some met_at\<rparr>) w of
           (Some d, w1) \<Rightarrow> announce_breach (Some (ck_tenant d)) (k - 1) now d w1 | (None, w1) \<Rightarrow> (Inr (), w1))
      else (Inr (), snd (update_clock (ck_id c) (ck_status c) (\<lambda>d. d\<lparr>ck_status := CkMet, ck_met_at := Some met_at\<rparr>) w)))"

fun settle_each :: "(nat \<Rightarrow> nat) \<Rightarrow> int \<Rightarrow> int \<Rightarrow> sla_clock list \<Rightarrow> sla_world \<Rightarrow> (string, unit) result \<times> sla_world" where
  "settle_each ks now met_at [] w = (Inr (), w)"
| "settle_each ks now met_at (c # cs) w =
     and_then (settle_one (ks (ck_id c)) now met_at c w) (\<lambda>_ w1. settle_each ks now met_at cs w1)"

text \<open>\<open>ks\<close> gives the answering calls by clock.\<close>

definition settle_clocks ::
  "(nat \<Rightarrow> nat) \<Rightarrow> int \<Rightarrow> string \<Rightarrow> sla_subject \<Rightarrow> sla_metric list \<Rightarrow> int \<Rightarrow> sla_world \<Rightarrow> (string, unit) result \<times> sla_world" where
  "settle_clocks ks now t sj metrics met_at w =
     settle_each ks now met_at
       (filter (\<lambda>c. of_subject t sj c \<and> ck_metric c \<in> set metrics \<and> is_open (ck_status c)) (sw_clocks w)) w"

definition record_agent_response :: "sla_subject \<Rightarrow> int \<Rightarrow> string option \<Rightarrow> sla_world \<Rightarrow> sla_world" where
  "record_agent_response sj responded who w =
     (case (fst sj, sw_subjects w sj) of
        (Conversation, Some r) \<Rightarrow>
          if sj_first_response r = None
          then w\<lparr>sw_subjects := (sw_subjects w)(sj \<mapsto> r\<lparr>sj_first_response := Some (responded, who)\<rparr>)\<rparr> else w
      | _ \<Rightarrow> w)"

definition on_agent_turn ::
  "(nat \<Rightarrow> nat) \<Rightarrow> int \<Rightarrow> string \<Rightarrow> sla_subject \<Rightarrow> int \<Rightarrow> string option \<Rightarrow> sla_world \<Rightarrow> (string, unit) result \<times> sla_world" where
  "on_agent_turn ks now t sj responded who w =
     and_then (settle_clocks ks now t sj [FirstResponse, NextResponse] responded (record_agent_response sj responded who w))
       (\<lambda>_ w1. (Inr (), project_pending_deadline t sj w1))"

definition cancel_clocks :: "(sla_clock \<Rightarrow> bool) \<Rightarrow> sla_world \<Rightarrow> sla_world" where
  "cancel_clocks P w = w\<lparr>sw_clocks := map (\<lambda>c. if P c then c\<lparr>ck_status := CkCancelled\<rparr> else c) (sw_clocks w)\<rparr>"

definition complete_subject ::
  "(nat \<Rightarrow> nat) \<Rightarrow> int \<Rightarrow> string \<Rightarrow> sla_subject \<Rightarrow> sla_world \<Rightarrow> (string, unit) result \<times> sla_world" where
  "complete_subject ks now t sj w =
     and_then (settle_clocks ks now t sj [Resolution] now w) (\<lambda>_ w1.
       (Inr (), project_pending_deadline t sj
         (cancel_clocks (\<lambda>c. of_subject t sj c \<and> ck_metric c \<in> {FirstResponse, NextResponse} \<and> is_open (ck_status c)) w1)))"

section \<open>Pausing\<close>

fun pause_all :: "sla_env \<Rightarrow> int \<Rightarrow> string \<Rightarrow> sla_clock list \<Rightarrow> sla_world \<Rightarrow> (string, nat) result \<times> sla_world" where
  "pause_all env now t [] w = (Inr 0, w)"
| "pause_all env now t (c # cs) w =
     (case calculate_business_minutes_between (se_clock env) (se_hours env t) now (ck_due c) of
        Inl e \<Rightarrow> (Inl e, w)
      | Inr rem \<Rightarrow>
          (let (hit, w1) = update_clock (ck_id c) CkRunning
                 (\<lambda>d. d\<lparr>ck_status := CkPaused, ck_paused_at := Some now, ck_remaining := Some rem\<rparr>) w
           in and_then (pause_all env now t cs w1) (\<lambda>n w2. (Inr ((if hit = None then 0 else 1) + n), w2))))"

definition pause_subject :: "sla_env \<Rightarrow> int \<Rightarrow> string \<Rightarrow> sla_subject \<Rightarrow> sla_world \<Rightarrow> (string, nat) result \<times> sla_world" where
  "pause_subject env now t sj w =
     pause_all env now t (filter (\<lambda>c. of_subject t sj c \<and> ck_status c = CkRunning) (sw_clocks w)) w"

fun resume_all :: "sla_env \<Rightarrow> int \<Rightarrow> string \<Rightarrow> sla_clock list \<Rightarrow> sla_world \<Rightarrow> (string, nat) result \<times> sla_world" where
  "resume_all env now t [] w = (Inr 0, w)"
| "resume_all env now t (c # cs) w =
     (case calculate_sla_deadline (se_clock env) (se_hours env t) now (default_to (ck_target c) (ck_remaining c)) of
        Inl e \<Rightarrow> (Inl e, w)
      | Inr due \<Rightarrow>
          (let (hit, w1) = update_clock (ck_id c) CkPaused
                 (\<lambda>d. d\<lparr>ck_status := CkRunning, ck_due := due, ck_paused_at := None, ck_remaining := None,
                    ck_paused_ms := ck_paused_ms d + (case ck_paused_at c of Some p \<Rightarrow> now - p | None \<Rightarrow> 0)\<rparr>) w
           in and_then (resume_all env now t cs w1) (\<lambda>n w2. (Inr ((if hit = None then 0 else 1) + n), w2))))"

definition resume_subject :: "sla_env \<Rightarrow> int \<Rightarrow> string \<Rightarrow> sla_subject \<Rightarrow> sla_world \<Rightarrow> (string, nat) result \<times> sla_world" where
  "resume_subject env now t sj w =
     resume_all env now t (filter (\<lambda>c. of_subject t sj c \<and> ck_status c = CkPaused) (sw_clocks w)) w"

section \<open>Reopening and the breach scan\<close>

definition restart_cycle :: "sla_env \<Rightarrow> int \<Rightarrow> string \<Rightarrow> sla_subject \<Rightarrow> sla_world \<Rightarrow> (string, unit) result \<times> sla_world" where
  "restart_cycle env now t sj w =
     start_response_and_resolution_clocks env now t sj
       (project t sj (nothing_projected\<lparr>pj_breached := Some None\<rparr>)
         (cancel_clocks (\<lambda>c. of_subject t sj c \<and> ck_status c \<noteq> CkCancelled) w))"

definition breach_batch_size :: nat where "breach_batch_size = 500"

definition due_before_clock :: "sla_clock \<Rightarrow> sla_clock \<Rightarrow> bool" where
  "due_before_clock a b \<longleftrightarrow> ck_due a < ck_due b \<or> (ck_due a = ck_due b \<and> ck_id a \<le> ck_id b)"

definition due_clocks :: "int \<Rightarrow> sla_world \<Rightarrow> sla_clock list" where
  "due_clocks now w = filter (\<lambda>c. ck_status c = CkRunning \<and> ck_due c \<le> now) (sw_clocks w)"

definition breach_one ::
  "string option \<Rightarrow> nat \<Rightarrow> int \<Rightarrow> sla_clock \<Rightarrow> sla_world \<Rightarrow> (string, bool) result \<times> sla_world" where
  "breach_one active k now c w =
     (if k = 0 then (Inl ''unavailable'', w)
      else case update_clock (ck_id c) CkRunning (\<lambda>d. d\<lparr>ck_status := CkBreached, ck_breached_at := Some now\<rparr>) w of
        (Some d, w1) \<Rightarrow> and_then (announce_breach active (k - 1) now d w1) (\<lambda>_ w2. (Inr True, w2))
      | (None, w1) \<Rightarrow> (Inr False, w1))"

text \<open>The loop has no handler: the first announcement that throws ends the tick.\<close>

fun breach_each ::
  "string option \<Rightarrow> (nat \<Rightarrow> nat) \<Rightarrow> int \<Rightarrow> sla_clock list \<Rightarrow> sla_world \<Rightarrow> (string, nat) result \<times> sla_world" where
  "breach_each active ks now [] w = (Inr 0, w)"
| "breach_each active ks now (c # cs) w =
     and_then (breach_one active (ks (ck_id c)) now c w) (\<lambda>b w1.
       and_then (breach_each active ks now cs w1) (\<lambda>n w2. (Inr (if b then Suc n else n), w2)))"

definition breach_due_clocks :: "(nat \<Rightarrow> nat) \<Rightarrow> int \<Rightarrow> sla_world \<Rightarrow> (string, nat) result \<times> sla_world" where
  "breach_due_clocks ks now w =
     breach_each None ks now (take breach_batch_size (sort_by due_before_clock (due_clocks now w))) w"

definition list_for_subject :: "string \<Rightarrow> sla_subject \<Rightarrow> sla_world \<Rightarrow> sla_clock list" where
  "list_for_subject t sj w =
     (let rank = (\<lambda>m. case m of FirstResponse \<Rightarrow> 0 :: nat | NextResponse \<Rightarrow> 1 | Resolution \<Rightarrow> 2) in
      sort_by (\<lambda>a b. rank (ck_metric a) < rank (ck_metric b) \<or> rank (ck_metric a) = rank (ck_metric b) \<and> ck_cycle b \<le> ck_cycle a)
        (filter (of_subject t sj) (sw_clocks w)))"

section \<open>Listeners\<close>

definition sla_conversation_created :: "sla_env \<Rightarrow> int \<Rightarrow> string \<Rightarrow> string \<Rightarrow> sla_world \<Rightarrow> (string, unit) result \<times> sla_world" where
  "sla_conversation_created env now t i w = start_response_and_resolution_clocks env now t (Conversation, i) w"

definition on_conversation_reopened :: "sla_env \<Rightarrow> int \<Rightarrow> string \<Rightarrow> string \<Rightarrow> sla_world \<Rightarrow> (string, unit) result \<times> sla_world" where
  "on_conversation_reopened env now t i w = start_response_and_resolution_clocks env now t (Conversation, i) w"

definition on_inbound_message :: "sla_env \<Rightarrow> int \<Rightarrow> string \<Rightarrow> string \<Rightarrow> string \<Rightarrow> sla_world \<Rightarrow> (string, unit) result \<times> sla_world" where
  "on_inbound_message env now t i sender w =
     (if sender \<noteq> ''customer'' then (Inr (), w) else on_customer_turn env now t (Conversation, i) w)"

definition on_agent_reply ::
  "(nat \<Rightarrow> nat) \<Rightarrow> int \<Rightarrow> string \<Rightarrow> string \<Rightarrow> string option \<Rightarrow> string option \<Rightarrow> sla_world \<Rightarrow> (string, unit) result \<times> sla_world" where
  "on_agent_reply ks now t i sender sender_id w =
     (case truthy_id sender of
        Some s \<Rightarrow> if s \<noteq> ''agent'' then (Inr (), w) else on_agent_turn ks now t (Conversation, i) now (truthy_id sender_id) w
      | None \<Rightarrow> on_agent_turn ks now t (Conversation, i) now (truthy_id sender_id) w)"

definition on_conversation_status :: "sla_env \<Rightarrow> (nat \<Rightarrow> nat) \<Rightarrow> int \<Rightarrow> string \<Rightarrow> string \<Rightarrow> string option \<Rightarrow> sla_world \<Rightarrow> (string, unit) result \<times> sla_world" where
  "on_conversation_status env ks now t i status w =
     (let sj = (Conversation, i); done = (\<lambda>_ w1. (Inr (), project_pending_deadline t sj w1)) in
      if status = Some ''pending'' then and_then (pause_subject env now t sj w) (\<lambda>_. done ())
      else if status = Some ''open'' then and_then (resume_subject env now t sj w) (\<lambda>_. done ())
      else if status = Some ''resolved'' \<or> status = Some ''closed'' then and_then (complete_subject ks now t sj w) done
      else done () w)"

definition on_ticket_created :: "sla_env \<Rightarrow> int \<Rightarrow> string option \<Rightarrow> string option \<Rightarrow> sla_world \<Rightarrow> (string, unit) result \<times> sla_world" where
  "on_ticket_created env now t i w =
     (case (truthy_id t, truthy_id i) of
        (Some t, Some i) \<Rightarrow> start_response_and_resolution_clocks env now t (Ticket, i) w | _ \<Rightarrow> (Inr (), w))"

definition on_ticket_replied ::
  "(nat \<Rightarrow> nat) \<Rightarrow> int \<Rightarrow> string \<Rightarrow> string \<Rightarrow> int \<Rightarrow> sla_world \<Rightarrow> (string, unit) result \<times> sla_world" where
  "on_ticket_replied ks now t i responded w = on_agent_turn ks now t (Ticket, i) responded None w"

definition on_ticket_customer_replied :: "sla_env \<Rightarrow> int \<Rightarrow> string \<Rightarrow> string \<Rightarrow> sla_world \<Rightarrow> (string, unit) result \<times> sla_world" where
  "on_ticket_customer_replied env now t i w = on_customer_turn env now t (Ticket, i) w"

record status_change =
  sc_reopen :: bool
  sc_terminal :: bool
  sc_pauses :: bool
  sc_previous_pauses :: "bool option"

definition on_ticket_status ::
  "sla_env \<Rightarrow> (nat \<Rightarrow> nat) \<Rightarrow> int \<Rightarrow> string \<Rightarrow> string \<Rightarrow> status_change \<Rightarrow> sla_world \<Rightarrow> (string, unit) result \<times> sla_world" where
  "on_ticket_status env ks now t i ch w =
     (let sj = (Ticket, i) in
      if sc_reopen ch then restart_cycle env now t sj w
      else if sc_terminal ch then complete_subject ks now t sj w
      else if sc_pauses ch then and_then (pause_subject env now t sj w) (\<lambda>_ w1. (Inr (), w1))
      else if sc_previous_pauses ch = Some True then and_then (resume_subject env now t sj w) (\<lambda>_ w1. (Inr (), w1))
      else (Inr (), w))"

end
