(* ===== verification/Business_Hours_Safety.thy ===== *)
theory Business_Hours_Safety
  imports Business_Hours
begin

text \<open>
  The two calculations agree: between an instant and its deadline lie exactly the working minutes the
  deadline was asked for, when the schedule is tidy and the tenant shares the zone of the process; with
  another zone the deadline is off by the difference of the two.
\<close>

section \<open>Tidy schedules\<close>

fun tidy_from :: "int \<Rightarrow> (string option \<times> string option) list \<Rightarrow> bool" where
  "tidy_from lo [] = (lo \<le> 1440)"
| "tidy_from lo ((Some a, Some b) # slots) =
     (lo \<le> time_to_minutes a \<and> time_to_minutes a \<le> time_to_minutes b \<and> tidy_from (time_to_minutes b) slots)"
| "tidy_from lo (_ # slots) = False"

definition tidy_day :: "day_hours \<Rightarrow> bool" where
  "tidy_day s \<longleftrightarrow> tidy_from 0 (get_working_slots s)"

definition tidy :: "business_hours \<Rightarrow> bool" where
  "tidy cfg \<longleftrightarrow> list_all tidy_day (default_to [] (bh_working_days cfg))
     \<and> list_all (\<lambda>(k, s). tidy_day s) (default_to [] (bh_schedule cfg))"

lemma map_of_in: "map_of xs k = Some v \<Longrightarrow> (k, v) \<in> set xs"
  by (rule map_of_SomeD)

lemma open_tidy: "tidy cfg \<Longrightarrow> open_schedule env t cfg = Some s \<Longrightarrow> tidy_day s"
  by (auto simp: open_schedule_def get_day_schedule_def tidy_def list_all_iff Let_def
      dest!: find_Some_in map_of_in split: option.splits if_splits)

text \<open>Working minutes of a day between two minutes of it.\<close>

fun worked :: "int \<Rightarrow> int \<Rightarrow> (string option \<times> string option) list \<Rightarrow> int" where
  "worked c u [] = 0"
| "worked c u ((Some a, Some b) # slots) = max 0 (min u (time_to_minutes b) - max c (time_to_minutes a)) + worked c u slots"
| "worked c u (_ # slots) = worked c u slots"

lemma tidy_bound: "tidy_from lo slots \<Longrightarrow> lo \<le> 1440"
  by (induction lo slots rule: tidy_from.induct) auto

lemma worked_before: "tidy_from lo slots \<Longrightarrow> u \<le> lo \<Longrightarrow> worked c u slots = 0"
  by (induction lo slots rule: tidy_from.induct) auto

lemma worked_from: "tidy_from lo slots \<Longrightarrow> c \<le> lo \<Longrightarrow> worked c u slots = worked lo u slots"
proof (induction lo slots arbitrary: c rule: tidy_from.induct)
  case (2 lo a b slots)
  have tail: "worked c' u slots = worked (time_to_minutes b) u slots" if "c' \<le> lo" for c'
    by (rule 2(1)) (use 2(2) that in simp_all)
  show ?case
    unfolding worked.simps tail[OF 2(3)] tail[OF order_refl] using 2(2,3) by auto
qed simp_all

lemma worked_until: "tidy_from lo slots \<Longrightarrow> 1440 \<le> u \<Longrightarrow> worked c u slots = worked c 1440 slots"
proof (induction lo slots rule: tidy_from.induct)
  case (2 lo a b slots)
  then show ?case using tidy_bound[of "time_to_minutes b" slots] by auto
qed auto

lemma consumed_exactly:
  "tidy_from lo slots \<Longrightarrow> 0 < rem \<Longrightarrow>
   (\<exists>m. consume_slots c slots rem = Inr (Expires m) \<and> worked c m slots = rem \<and> c < m \<and> lo < m \<and> m \<le> 1440)
   \<or> (consume_slots c slots rem = Inr (Remaining (rem - worked c 1440 slots)) \<and> worked c 1440 slots < rem)"
proof (induction lo slots arbitrary: rem rule: tidy_from.induct)
  case (1 lo)
  then show ?case by simp
next
  case (2 lo a b slots)
  let ?a = "time_to_minutes a" and ?b = "time_to_minutes b"
  have t: "lo \<le> ?a" "?a \<le> ?b" "tidy_from ?b slots" "?b \<le> 1440" using 2(2) tidy_bound by auto
  show ?case
  proof (cases "?b - max c ?a \<le> 0 \<or> ?b \<le> c")
    case True
    then have skip: "consume_slots c ((Some a, Some b) # slots) rem = consume_slots c slots rem"
      by (auto simp: slot_minutes_def Let_def)
    have w: "worked c u ((Some a, Some b) # slots) = worked c u slots" for u
      using True t(2) by auto
    show ?thesis using 2(1)[OF t(3) 2(3)] t unfolding skip w by auto
  next
    case False
    show ?thesis
    proof (cases "rem \<le> ?b - max c ?a")
      case True
      let ?m = "max c ?a + rem"
      have "consume_slots c ((Some a, Some b) # slots) rem = Inr (Expires ?m)"
        using True False by (simp add: slot_minutes_def Let_def)
      moreover have "worked c ?m slots = 0" using worked_before[OF t(3)] True by simp
      then have "worked c ?m ((Some a, Some b) # slots) = rem" using True 2(3) by simp
      ultimately show ?thesis using True 2(3) t by auto
    next
      case less: False
      let ?r = "rem - (?b - max c ?a)"
      have step: "consume_slots c ((Some a, Some b) # slots) rem = consume_slots c slots ?r"
        using less False by (simp add: slot_minutes_def Let_def)
      have w: "worked c u ((Some a, Some b) # slots) = (?b - max c ?a) + worked c u slots" if "?b \<le> u" for u
        using that False by auto
      from 2(1)[OF t(3), of ?r] less show ?thesis
        unfolding step using w t False by auto
    qed
  qed
qed auto

section \<open>Days\<close>

lemma day_ms_pos: "day_length > 0"
  by (simp add: day_length_def)

lemma day_of_start [simp]: "day_of env (day_start env d) = d"
  using day_ms_pos by (simp add: day_of_def day_start_def)

lemma le_div_iff: "(0::int) < k \<Longrightarrow> d \<le> x div k \<longleftrightarrow> d * k \<le> x"
proof
  assume k: "0 < k"
  assume "d \<le> x div k"
  then have "d * k \<le> x div k * k" using k by (simp add: mult_right_mono)
  also have "\<dots> \<le> x" using k by (simp add: minus_mod_eq_div_mult[symmetric])
  finally show "d * k \<le> x" .
next
  assume "0 < k" "d * k \<le> x"
  then show "d \<le> x div k" using zdiv_mono1[of "d * k" x k] by simp
qed

lemma day_of_le: "d \<le> day_of env t \<longleftrightarrow> day_start env d \<le> t"
  using le_div_iff[OF day_ms_pos, of d "t + ce_server env"] by (auto simp: day_of_def day_start_def)

lemma day_of_eq: "day_of env t = d \<longleftrightarrow> day_start env d \<le> t \<and> t < day_start env (d + 1)"
  using day_of_le[of d env t] day_of_le[of "d + 1" env t] by auto

lemma day_start_mono: "d \<le> e \<Longrightarrow> day_start env d \<le> day_start env e"
  using day_ms_pos by (simp add: day_start_def)

lemma day_start_Suc: "day_start env (d + 1) = day_start env d + 1440 * 60000"
  by (simp add: day_start_def day_length_def algebra_simps)

text \<open>Instants at a whole minute of the process's clock.\<close>

definition whole_minute :: "clock_env \<Rightarrow> int \<Rightarrow> bool" where
  "whole_minute env t \<longleftrightarrow> (t + ce_server env) mod 60000 = 0"

lemma minute_of_whole:
  "whole_minute env t \<Longrightarrow> t = day_start env (day_of env t) + minute_of_day env t * 60000"
  "0 \<le> minute_of_day env t" "minute_of_day env t < 1440"
proof -
  let ?l = "t + ce_server env"
  have "?l mod day_length mod 60000 = ?l mod 60000"
    by (rule mod_mod_cancel) (simp add: day_length_def)
  then have "whole_minute env t \<Longrightarrow> ?l mod day_length = minute_of_day env t * 60000"
    using minus_mod_eq_div_mult[of "?l mod day_length" 60000] by (simp add: whole_minute_def minute_of_day_def)
  moreover have "?l = day_of env t * day_length + ?l mod day_length" by (simp add: day_of_def)
  ultimately show "whole_minute env t \<Longrightarrow> t = day_start env (day_of env t) + minute_of_day env t * 60000"
    by (simp add: day_start_def)
  have "0 \<le> ?l mod day_length" "?l mod day_length < day_length" using day_ms_pos by auto
  then show "0 \<le> minute_of_day env t" "minute_of_day env t < 1440"
    by (auto simp: minute_of_day_def day_length_def)
qed

lemma whole_start: "whole_minute env (day_start env d + m * 60000)"
proof -
  have "day_start env d + m * 60000 + ce_server env = (d * 1440 + m) * 60000"
    by (simp add: day_start_def day_length_def)
  then show ?thesis unfolding whole_minute_def by (simp only: mod_mult_self2_is_0)
qed

lemma schedule_of_day: "day_of env t = day_of env t' \<Longrightarrow> open_schedule env t cfg = open_schedule env t' cfg"
  by (simp add: open_schedule_def is_holiday_def get_day_schedule_def get_day_name_def Let_def)

lemma overlap_worked:
  "tidy_from lo slots \<Longrightarrow>
   slots_overlap env (day_start env d) (day_start env d + c * 60000) (day_start env d + u * 60000) slots
     = Inr (60000 * worked c u slots)"
proof (induction lo slots rule: tidy_from.induct)
  case (2 lo a b slots)
  have "max 0 (min (day_start env d + u * 60000) (day_start env d + time_to_minutes b * 60000)
      - max (day_start env d + c * 60000) (day_start env d + time_to_minutes a * 60000))
    = 60000 * max 0 (min u (time_to_minutes b) - max c (time_to_minutes a))"
    by (auto simp: max_def min_def)
  with 2 show ?case by (simp add: slot_minutes_def at_minute_def)
qed auto

section \<open>Sums over days\<close>

lemma overlap_total: "tidy_from lo slots \<Longrightarrow> \<exists>v. slots_overlap env day from until slots = Inr v"
  by (induction lo slots rule: tidy_from.induct) (auto simp: slot_minutes_def)

lemma overlap_same:
  assumes "tidy_from lo slots" "0 \<le> lo" "from \<le> day_start env d" "from' \<le> day_start env d"
  shows "slots_overlap env (day_start env d) from until slots = slots_overlap env (day_start env d) from' until slots"
  using assms
proof (induction lo slots rule: tidy_from.induct)
  case (2 lo a b slots)
  then have "0 \<le> time_to_minutes a" "0 \<le> time_to_minutes b" by auto
  moreover have "slots_overlap env (day_start env d) from until slots = slots_overlap env (day_start env d) from' until slots"
    using 2 by auto
  ultimately show ?case using 2(4,5) by (simp add: slot_minutes_def at_minute_def max_def)
qed auto

lemma overlap_before:
  "tidy_from lo slots \<Longrightarrow> 0 \<le> lo \<Longrightarrow> until \<le> day_start env d \<Longrightarrow>
    slots_overlap env (day_start env d) from until slots = Inr 0"
proof (induction lo slots rule: tidy_from.induct)
  case (2 lo a b slots)
  then have "0 \<le> time_to_minutes a" "0 \<le> time_to_minutes b" by auto
  with 2 show ?case by (auto simp: slot_minutes_def at_minute_def)
qed auto

lemma overlap_cap:
  "tidy_from lo slots \<Longrightarrow> day_start env (d + 1) \<le> until \<Longrightarrow>
    slots_overlap env (day_start env d) from until slots = slots_overlap env (day_start env d) from (day_start env (d + 1)) slots"
proof (induction lo slots rule: tidy_from.induct)
  case (2 lo a b slots)
  then have b: "time_to_minutes b \<le> 1440" using tidy_bound by auto
  have "min until (day_start env d + time_to_minutes b * 60000) = day_start env d + time_to_minutes b * 60000"
    "min (day_start env (d + 1)) (day_start env d + time_to_minutes b * 60000) = day_start env d + time_to_minutes b * 60000"
    using b 2(3) day_start_Suc[of env d] by auto
  with 2 show ?case by (simp add: slot_minutes_def at_minute_def)
qed auto

definition day_overlap :: "clock_env \<Rightarrow> business_hours \<Rightarrow> int \<Rightarrow> int \<Rightarrow> int \<Rightarrow> (string, int) result" where
  "day_overlap env cfg day from until =
     (case open_schedule env day cfg of
        None \<Rightarrow> Inr 0 | Some s \<Rightarrow> slots_overlap env day from until (get_working_slots s))"

lemma advance_start [simp]: "advance_to_next_day env (day_start env d) = day_start env (d + 1)"
  by (simp add: advance_to_next_day_def)

lemma between_step:
  "between_loop env cfg (Suc n) (day_start env d) (day_start env e) from until =
     (if d > e then Inr 0
      else bind_result (day_overlap env cfg (day_start env d) from until) (\<lambda>ms.
             bind_result (between_loop env cfg n (day_start env (d + 1)) (day_start env e) from until) (\<lambda>rest. Inr (ms + rest))))"
proof -
  have "day_start env e < day_start env d \<longleftrightarrow> e < d"
    using day_ms_pos by (simp add: day_start_def)
  then show ?thesis by (simp add: day_overlap_def)
qed

lemma day_overlap_same:
  assumes "tidy cfg" "from \<le> day_start env d" "from' \<le> day_start env d"
  shows "day_overlap env cfg (day_start env d) from until = day_overlap env cfg (day_start env d) from' until"
proof (cases "open_schedule env (day_start env d) cfg")
  case (Some s)
  with assms have "tidy_from 0 (get_working_slots s)" using open_tidy by (auto simp: tidy_day_def)
  from overlap_same[OF this order_refl assms(2,3)] Some show ?thesis by (simp add: day_overlap_def)
qed (simp add: day_overlap_def)

lemma between_same:
  "tidy cfg \<Longrightarrow> from \<le> day_start env d \<Longrightarrow> from' \<le> day_start env d \<Longrightarrow>
    between_loop env cfg n (day_start env d) (day_start env e) from until
      = between_loop env cfg n (day_start env d) (day_start env e) from' until"
proof (induction n arbitrary: d)
  case (Suc n)
  have "day_start env d \<le> day_start env (d + 1)" by (rule day_start_mono) simp
  then have "between_loop env cfg n (day_start env (d + 1)) (day_start env e) from until
      = between_loop env cfg n (day_start env (d + 1)) (day_start env e) from' until"
    using Suc.prems by (intro Suc.IH) linarith+
  then show ?case
    unfolding between_step using day_overlap_same[OF Suc.prems] by simp
qed simp

lemma between_before:
  "tidy cfg \<Longrightarrow> until \<le> day_start env d \<Longrightarrow>
    between_loop env cfg n (day_start env d) (day_start env e) from until = Inr 0"
proof (induction n arbitrary: d)
  case (Suc n)
  have "day_start env d \<le> day_start env (d + 1)" by (rule day_start_mono) simp
  then have rest: "between_loop env cfg n (day_start env (d + 1)) (day_start env e) from until = Inr 0"
    using Suc.prems by (intro Suc.IH) linarith+
  have "day_overlap env cfg (day_start env d) from until = Inr 0"
  proof (cases "open_schedule env (day_start env d) cfg")
    case (Some s)
    with Suc.prems show ?thesis
      using open_tidy[OF Suc.prems(1) Some] overlap_before by (simp add: day_overlap_def tidy_day_def)
  qed (simp add: day_overlap_def)
  with rest show ?case unfolding between_step by simp
qed simp

section \<open>The deadline\<close>

lemma deadline_returns: "tidy cfg \<Longrightarrow> \<exists>due. deadline_loop env cfg n c rem = Inr due"
proof (induction n arbitrary: c rem)
  case (Suc n)
  show ?case
  proof (cases "rem \<le> 0")
    case False
    show ?thesis
    proof (cases "open_schedule env c cfg")
      case (Some s)
      then have "tidy_from 0 (get_working_slots s)" using open_tidy Suc.prems by (auto simp: tidy_day_def)
      from consumed_exactly[OF this, of rem "minute_of_day env c"] False
      obtain x where "consume_slots (minute_of_day env c) (get_working_slots s) rem = Inr x" by auto
      then show ?thesis using Some False Suc by (auto simp: consume_working_slots_def split: consumed.splits)
    qed (use Suc False in simp)
  qed simp
qed simp

lemma deadline_counts:
  assumes "tidy cfg"
  shows "deadline_loop env cfg n c rem = Inr due \<Longrightarrow> whole_minute env c \<Longrightarrow> 0 < rem \<Longrightarrow>
    day_of env due < day_of env c + int n \<Longrightarrow>
    c < due \<and> (\<forall>k. day_of env due - day_of env c < int k \<longrightarrow>
      between_loop env cfg k (day_start env (day_of env c)) (day_start env (day_of env due)) c due = Inr (60000 * rem))"
proof (induction n arbitrary: c rem)
  case 0
  then show ?case by simp
next
  case (Suc n)
  let ?d = "day_of env c" and ?c = "minute_of_day env c"
  have c: "c = day_start env ?d + ?c * 60000" using minute_of_whole Suc.prems(2) by blast
  have next_day: "advance_to_next_day env c = day_start env (?d + 1)" by (simp add: advance_to_next_day_def)
  have before: "c < day_start env (?d + 1)" using day_of_eq[of env c ?d] by simp
  have later: "c < due \<and> (\<forall>k. day_of env due - ?d < int k \<longrightarrow>
      between_loop env cfg k (day_start env ?d) (day_start env (day_of env due)) c due = Inr (60000 * rem))"
    if loop: "deadline_loop env cfg n (day_start env (?d + 1)) r = Inr due" and r: "0 < r"
      and today: "\<And>u. day_start env (?d + 1) \<le> u \<Longrightarrow> day_overlap env cfg (day_start env ?d) c u = Inr (60000 * (rem - r))"
    for r
  proof -
    have whole: "whole_minute env (day_start env (?d + 1))" using whole_start[of env "?d + 1" 0] by simp
    have days: "day_of env due < day_of env (day_start env (?d + 1)) + int n" using Suc.prems(4) by simp
    have ih: "day_start env (?d + 1) < due"
      "\<And>k. day_of env due - (?d + 1) < int k \<Longrightarrow>
        between_loop env cfg k (day_start env (?d + 1)) (day_start env (day_of env due)) (day_start env (?d + 1)) due
          = Inr (60000 * r)"
      using Suc.IH[OF loop whole r days] by auto
    have "between_loop env cfg k (day_start env ?d) (day_start env (day_of env due)) c due = Inr (60000 * rem)"
      if k: "day_of env due - ?d < int k" for k
    proof -
      have on: "?d + 1 \<le> day_of env due" using ih(1) day_of_le[of "?d + 1" env due] by simp
      with k obtain k' where k': "k = Suc k'" "day_of env due - (?d + 1) < int k'" by (cases k) auto
      have "between_loop env cfg k' (day_start env (?d + 1)) (day_start env (day_of env due)) c due = Inr (60000 * r)"
        using between_same[OF assms, of c env "?d + 1" "day_start env (?d + 1)"] before ih(2)[OF k'(2)] by simp
      then show ?thesis
        unfolding k'(1) between_step using today ih(1) on by (simp add: algebra_simps)
    qed
    with before ih(1) show ?thesis by auto
  qed
  show ?case
  proof (cases "open_schedule env c cfg")
    case None
    then have "deadline_loop env cfg n (day_start env (?d + 1)) rem = Inr due"
      using Suc.prems(1,3) next_day by simp
    moreover have "day_overlap env cfg (day_start env ?d) c u = Inr 0" for u
      using None schedule_of_day[of env "day_start env ?d" c cfg] by (simp add: day_overlap_def)
    ultimately show ?thesis using later[of rem] Suc.prems(3) by simp
  next
    case (Some s)
    let ?slots = "get_working_slots s"
    have t: "tidy_from 0 ?slots" using open_tidy[OF assms Some] by (simp add: tidy_day_def)
    have over: "day_overlap env cfg (day_start env ?d) c u = slots_overlap env (day_start env ?d) c u ?slots" for u
      using Some schedule_of_day[of env "day_start env ?d" c cfg] by (simp add: day_overlap_def)
    have worked: "slots_overlap env (day_start env ?d) c (day_start env ?d + u * 60000) ?slots = Inr (60000 * worked ?c u ?slots)" for u
      using overlap_worked[OF t, of env ?d ?c u] c by simp
    from consumed_exactly[OF t Suc.prems(3), of ?c] show ?thesis
    proof
      assume "\<exists>m. consume_slots ?c ?slots rem = Inr (Expires m) \<and> worked ?c m ?slots = rem \<and> ?c < m \<and> 0 < m \<and> m \<le> 1440"
      then obtain m where m: "consume_slots ?c ?slots rem = Inr (Expires m)" "worked ?c m ?slots = rem"
        "?c < m" "m \<le> 1440" by blast
      have "deadline_loop env cfg n (at_minute env c m) 0 = Inr due"
        using Suc.prems(1,3) Some m(1) by (simp add: consume_working_slots_def)
      then have due: "due = day_start env ?d + m * 60000" by (cases n) (simp_all add: at_minute_def)
      have first: "day_overlap env cfg (day_start env ?d) c due = Inr (60000 * rem)"
        unfolding over due worked m(2) ..
      have end_of_day: "due \<le> day_start env (?d + 1)" using due m(4) day_start_Suc[of env ?d] by simp
      have "day_start env ?d \<le> due" using due m(3) minute_of_whole(2)[of env c] by simp
      then have on: "?d \<le> day_of env due" using day_of_le by blast
      have "between_loop env cfg k (day_start env ?d) (day_start env (day_of env due)) c due = Inr (60000 * rem)"
        if k: "day_of env due - ?d < int k" for k
      proof -
        from k on obtain k' where "k = Suc k'" by (cases k) auto
        then show ?thesis
          unfolding \<open>k = Suc k'\<close> between_step using first on between_before[OF assms end_of_day] by simp
      qed
      moreover have "c < due"
        unfolding due by (subst c) (use m(3) in simp)
      ultimately show ?thesis by blast
    next
      assume r: "consume_slots ?c ?slots rem = Inr (Remaining (rem - worked ?c 1440 ?slots)) \<and> worked ?c 1440 ?slots < rem"
      then have loop: "deadline_loop env cfg n (day_start env (?d + 1)) (rem - worked ?c 1440 ?slots) = Inr due"
        using Suc.prems(1,3) Some next_day by (simp add: consume_working_slots_def)
      have "day_overlap env cfg (day_start env ?d) c u = Inr (60000 * worked ?c 1440 ?slots)"
        if "day_start env (?d + 1) \<le> u" for u
        unfolding over overlap_cap[OF t that] using worked[of 1440] day_start_Suc[of env ?d] by simp
      then show ?thesis using later[OF loop] r by simp
    qed
  qed
qed

text \<open>Every instant falls into a minute, and the loop over the days sees only the minute.\<close>

definition floor_minute :: "clock_env \<Rightarrow> int \<Rightarrow> int" where
  "floor_minute env t = (t + ce_server env) div 60000 * 60000 - ce_server env"

lemma minute_number:
  "day_of env t = (t + ce_server env) div 60000 div 1440" "minute_of_day env t = (t + ce_server env) div 60000 mod 1440"
proof -
  let ?l = "t + ce_server env"
  have "?l div (60000 * 1440) = ?l div 60000 div 1440" by (rule zdiv_zmult2_eq) simp
  then show "day_of env t = ?l div 60000 div 1440" by (simp add: day_of_def day_length_def)
  have "?l mod (60000 * 1440) = 60000 * (?l div 60000 mod 1440) + ?l mod 60000" by (rule zmod_zmult2_eq) simp
  moreover have "(60000 * k + ?l mod 60000) div 60000 = k" for k :: int by simp
  ultimately show "minute_of_day env t = ?l div 60000 mod 1440"
    by (simp add: minute_of_day_def day_length_def)
qed

lemma floor_minute_facts:
  "day_of env (floor_minute env t) = day_of env t" "minute_of_day env (floor_minute env t) = minute_of_day env t"
  "whole_minute env (floor_minute env t)" "floor_minute env t \<le> t" "t < floor_minute env t + 60000"
proof -
  show "day_of env (floor_minute env t) = day_of env t" "minute_of_day env (floor_minute env t) = minute_of_day env t"
    by (simp_all add: minute_number floor_minute_def)
  show "whole_minute env (floor_minute env t)" by (simp add: whole_minute_def floor_minute_def)
  have "(t + ce_server env) div 60000 * 60000 + (t + ce_server env) mod 60000 = t + ce_server env" by simp
  moreover have "0 \<le> (t + ce_server env) mod 60000" "(t + ce_server env) mod 60000 < 60000" by simp_all
  ultimately show "floor_minute env t \<le> t" "t < floor_minute env t + 60000" unfolding floor_minute_def by linarith+
qed

lemma get_now_minute:
  assumes "ce_zone env tz = Some (\<lambda>_. ce_server env)"
  shows "day_of env (get_now env tz now) = day_of env now" "minute_of_day env (get_now env tz now) = minute_of_day env now"
proof -
  let ?l = "now + ce_server env"
  have "x div (1000 * 60) = x div 1000 div 60" for x :: int by (rule zdiv_zmult2_eq) simp
  from this[of "?l div 1000 * 1000"] this[of ?l] have "?l div 1000 * 1000 div 60000 = ?l div 60000" by simp
  then show "day_of env (get_now env tz now) = day_of env now" "minute_of_day env (get_now env tz now) = minute_of_day env now"
    by (simp_all add: minute_number get_now_def assms)
qed

lemma consume_positive: "consume_slots c slots rem = Inr (Remaining r) \<Longrightarrow> 0 < rem \<Longrightarrow> 0 < r"
  by (induction c slots rem rule: consume_slots.induct)
     (auto simp: bind_result_def Let_def split: sum.splits if_splits)

lemma loop_sees_minute:
  assumes "day_of env c = day_of env c'" "minute_of_day env c = minute_of_day env c'" "0 < rem"
  shows "deadline_loop env cfg (Suc n) c rem = deadline_loop env cfg (Suc n) c' rem"
proof -
  have "at_minute env c m = at_minute env c' m" "advance_to_next_day env c = advance_to_next_day env c'" for m
    using assms(1) by (simp_all add: at_minute_def advance_to_next_day_def)
  moreover have "open_schedule env c cfg = open_schedule env c' cfg" using assms(1) by (rule schedule_of_day)
  ultimately show ?thesis
    using assms(2,3) by (auto simp: consume_working_slots_def bind_result_def dest: consume_positive
        split: option.split sum.split consumed.split)
qed

lemma before_minute: "t < day_start env (day_of env t) + (minute_of_day env t + 1) * 60000"
proof -
  have "floor_minute env t = day_start env (day_of env t) + minute_of_day env t * 60000"
    using minute_of_whole(1)[OF floor_minute_facts(3), of env t] by (simp add: floor_minute_facts)
  then show ?thesis using floor_minute_facts(5)[where t = t and env = env] by simp
qed

text \<open>The deadline lies after the start, within the days searched or at the start of the day after them.\<close>

lemma deadline_place:
  "tidy cfg \<Longrightarrow> deadline_loop env cfg n c rem = Inr due \<Longrightarrow> 0 < rem \<Longrightarrow> 0 < n \<Longrightarrow>
    c < due \<and> (day_of env due < day_of env c + int n \<or> due = day_start env (day_of env c + int n))"
proof (induction n arbitrary: c rem)
  case (Suc n)
  let ?d = "day_of env c"
  have next_day: "advance_to_next_day env c = day_start env (?d + 1)" by (simp add: advance_to_next_day_def)
  have before: "c < day_start env (?d + 1)" using day_of_eq[of env c ?d] by simp
  have later: ?case if loop: "deadline_loop env cfg n (day_start env (?d + 1)) r = Inr due" and r: "0 < r" for r
  proof (cases "n = 0")
    case True
    then show ?thesis using loop before by simp
  next
    case False
    then have "0 < n" by simp
    from Suc.IH[OF Suc.prems(1) loop r this] before show ?thesis by (auto simp: algebra_simps)
  qed
  show ?case
  proof (cases "open_schedule env c cfg")
    case None
    then show ?thesis using later[of rem] Suc.prems(2,3) next_day by simp
  next
    case (Some s)
    let ?slots = "get_working_slots s" and ?c = "minute_of_day env c"
    have t: "tidy_from 0 ?slots" using open_tidy[OF Suc.prems(1) Some] by (simp add: tidy_day_def)
    from consumed_exactly[OF t Suc.prems(3), of ?c] show ?thesis
    proof
      assume "\<exists>m. consume_slots ?c ?slots rem = Inr (Expires m) \<and> worked ?c m ?slots = rem \<and> ?c < m \<and> 0 < m \<and> m \<le> 1440"
      then obtain m where m: "consume_slots ?c ?slots rem = Inr (Expires m)" "?c < m" "m \<le> 1440" by blast
      have "deadline_loop env cfg n (at_minute env c m) 0 = Inr due"
        using Suc.prems(2,3) Some m(1) by (simp add: consume_working_slots_def)
      then have due: "due = day_start env ?d + m * 60000" by (cases n) (simp_all add: at_minute_def)
      have "c < due" using before_minute[where t = c and env = env] m(2) due by (smt (verit) mult_right_mono)
      moreover have "day_of env due < ?d + int (Suc n) \<or> due = day_start env (?d + int (Suc n))"
      proof (cases "due < day_start env (?d + 1)")
        case True
        then have "\<not> ?d + 1 \<le> day_of env due" by (simp add: day_of_le)
        then show ?thesis by simp
      next
        case False
        then have "due = day_start env (?d + 1)" using due m(3) day_start_Suc[of env ?d] by simp
        then show ?thesis by (cases n) simp_all
      qed
      ultimately show ?thesis by blast
    next
      assume r: "consume_slots ?c ?slots rem = Inr (Remaining (rem - worked ?c 1440 ?slots)) \<and> worked ?c 1440 ?slots < rem"
      then have "deadline_loop env cfg n (day_start env (?d + 1)) (rem - worked ?c 1440 ?slots) = Inr due"
        using Suc.prems(2,3) Some next_day by (simp add: consume_working_slots_def)
      from later[OF this] r show ?thesis by simp
    qed
  qed
qed simp

text \<open>Starting later within a minute loses at most that much of the time between.\<close>

lemma shifted:
  fixes f g :: int
  assumes "f \<le> g"
  shows "max 0 (min u b - max g a) \<le> max 0 (min u b - max f a)"
    "max 0 (min u b - max f a) - max 0 (min u b - max g a) \<le> max 0 (min g b - max f a)"
    "l \<le> a \<Longrightarrow> a \<le> b \<Longrightarrow> max 0 (min g b - max f a) + max 0 (g - max f b) \<le> max 0 (g - max f l)"
  using assms by (auto simp: max_def min_def)

lemma add_bounds: "y \<le> x \<and> x - y \<le> t \<Longrightarrow> q \<le> p \<Longrightarrow> p - q \<le> r \<Longrightarrow> r + t \<le> m \<Longrightarrow> q + y \<le> p + x \<and> p + x - (q + y) \<le> m"
  for x :: int
  by linarith

lemma overlap_shift:
  "tidy_from lo slots \<Longrightarrow> f \<le> g \<Longrightarrow> slots_overlap env day f until slots = Inr x \<Longrightarrow> slots_overlap env day g until slots = Inr y \<Longrightarrow>
    y \<le> x \<and> x - y \<le> max 0 (g - max f (at_minute env day lo))"
proof (induction lo slots arbitrary: x y rule: tidy_from.induct)
  case (2 lo a b slots)
  let ?A = "at_minute env day (time_to_minutes a)" and ?B = "at_minute env day (time_to_minutes b)" and ?L = "at_minute env day lo"
  have order: "?L \<le> ?A" "?A \<le> ?B" using 2(2) by (simp_all add: at_minute_def)
  obtain x' y' where rest: "slots_overlap env day f until slots = Inr x'" "slots_overlap env day g until slots = Inr y'"
    and xy: "x = max 0 (min until ?B - max f ?A) + x'" "y = max 0 (min until ?B - max g ?A) + y'"
    using 2(4,5) by (auto simp: slot_minutes_def bind_result_def split: sum.splits)
  have tail: "y' \<le> x' \<and> x' - y' \<le> max 0 (g - max f ?B)" using 2 rest by auto
  have first: "max 0 (min until ?B - max g ?A) \<le> max 0 (min until ?B - max f ?A)"
    "max 0 (min until ?B - max f ?A) - max 0 (min until ?B - max g ?A) \<le> max 0 (min g ?B - max f ?A)"
    by (rule shifted[OF 2(3)])+
  have total: "max 0 (min g ?B - max f ?A) + max 0 (g - max f ?B) \<le> max 0 (g - max f ?L)" by (rule shifted(3)[OF 2(3) order])
  show ?case unfolding xy by (rule add_bounds[OF tail first total])
qed auto

lemma between_shift:
  assumes "tidy cfg" "f \<le> g" "g \<le> day_start env (d + 1)" "d \<le> e"
    and "between_loop env cfg (Suc k) (day_start env d) (day_start env e) f until = Inr x"
  shows "\<exists>y. between_loop env cfg (Suc k) (day_start env d) (day_start env e) g until = Inr y \<and> y \<le> x \<and> x - y \<le> g - f"
proof -
  obtain u v where uv: "day_overlap env cfg (day_start env d) f until = Inr u"
    "between_loop env cfg k (day_start env (d + 1)) (day_start env e) f until = Inr v" "x = u + v"
    using assms(4,5) unfolding between_step by (auto simp: bind_result_def split: sum.splits)
  have rest: "between_loop env cfg k (day_start env (d + 1)) (day_start env e) g until = Inr v"
    using between_same[OF assms(1), of f env "d + 1" g] assms(2,3) uv(2) by simp
  obtain w where "day_overlap env cfg (day_start env d) g until = Inr w \<and> w \<le> u \<and> u - w \<le> g - f"
  proof (cases "open_schedule env (day_start env d) cfg")
    case None
    then show ?thesis using that[of 0] uv(1) assms(2) by (simp add: day_overlap_def)
  next
    case (Some s)
    then have t: "tidy_from 0 (get_working_slots s)" using open_tidy[OF assms(1)] by (simp add: tidy_day_def)
    obtain w where w: "slots_overlap env (day_start env d) g until (get_working_slots s) = Inr w" using overlap_total[OF t] by blast
    have "slots_overlap env (day_start env d) f until (get_working_slots s) = Inr u" using uv(1) Some by (simp add: day_overlap_def)
    from overlap_shift[OF t assms(2) this w] have "w \<le> u \<and> u - w \<le> g - f" using assms(2) by (simp add: max_def split: if_splits)
    then show ?thesis using that[of w] Some w by (simp add: day_overlap_def)
  qed
  then show ?thesis using rest assms(4) uv(3) unfolding between_step by auto
qed

lemma ceil_within_minute: "0 \<le> d \<Longrightarrow> d < 60000 \<Longrightarrow> ceil_minutes (60000 * n - d) = n"
proof -
  assume d: "0 \<le> d" "d < 60000"
  have "(d + - n * 60000) div 60000 = - n + d div 60000" by simp
  with d show ?thesis by (simp add: ceil_minutes_def)
qed

lemma deadline_and_minutes:
  assumes "tidy cfg" "ce_zone env (default_to ''UTC'' (truthy_id (bh_timezone cfg))) = Some (\<lambda>_. ce_server env)" "0 < n"
  shows "\<exists>due. calculate_sla_deadline env (Some cfg) now n = Inr due \<and> now < due
    \<and> (if day_of env due < day_of env now + int max_deadline_days
       then calculate_business_minutes_between env (Some cfg) now due = Inr n
       else due = day_start env (day_of env now + int max_deadline_days))"
proof -
  let ?f = "floor_minute env now"
  have days: "max_deadline_days = Suc 364" "max_between_days = Suc 365" by (simp_all add: max_deadline_days_def max_between_days_def)
  obtain due where due: "deadline_loop env cfg max_deadline_days now n = Inr due"
    using deadline_returns[OF assms(1)] by blast
  have "calculate_sla_deadline env (Some cfg) now n = Inr due"
    using loop_sees_minute[OF get_now_minute[OF assms(2), where now = now] assms(3)] due
    by (simp only: calculate_sla_deadline_def option.case days)
  moreover note place = deadline_place[OF assms(1) due assms(3)]
  have after: "now < due" using place by (simp add: days)
  have "calculate_business_minutes_between env (Some cfg) now due = Inr n"
    if near: "day_of env due < day_of env now + int max_deadline_days"
  proof -
    have floor: "deadline_loop env cfg max_deadline_days ?f n = Inr due"
      using loop_sees_minute[OF floor_minute_facts(1)[where t = now and env = env] floor_minute_facts(2)[where t = now and env = env] assms(3)] due by (simp only: days)
    note counts = deadline_counts[OF assms(1) floor floor_minute_facts(3) assms(3), unfolded floor_minute_facts(1), OF near]
    have "day_of env due - day_of env now < int max_between_days"
      using near by (simp add: max_between_days_def max_deadline_days_def)
    then have "between_loop env cfg max_between_days (day_start env (day_of env now)) (day_start env (day_of env due)) ?f due
        = Inr (60000 * n)" using counts by blast
    moreover have "now \<le> day_start env (day_of env now + 1)" using day_of_eq[of env now "day_of env now"] by simp
    moreover have "day_of env now \<le> day_of env due"
      using after day_of_eq[of env now "day_of env now"] by (simp add: day_of_le)
    ultimately obtain y where y: "between_loop env cfg max_between_days (day_start env (day_of env now)) (day_start env (day_of env due)) now due
        = Inr y" "y \<le> 60000 * n" "60000 * n - y \<le> now - ?f"
      unfolding days using between_shift[OF assms(1) floor_minute_facts(4)] by blast
    have "ceil_minutes (60000 * n - (60000 * n - y)) = n"
      by (rule ceil_within_minute) (use y(2,3) floor_minute_facts(5)[where t = now and env = env] in linarith)+
    then show ?thesis using after y(1) by (simp add: calculate_business_minutes_between_def)
  qed
  ultimately show ?thesis using after place by (auto simp: days)
qed

text \<open>C33: A deadline and the count of working minutes are inverse, at any instant to the millisecond: with a tidy schedule,
  for a tenant in the zone of the process, the deadline of n working minutes exists and lies after the start. When it is
  found within the searched year, the working minutes from the start to it are exactly n, so a clock paused at once keeps
  its whole budget; otherwise it is the start of the first day after that year.\<close>
theorem deadline_counts_working_minutes:
  assumes "tidy cfg" "ce_zone env (default_to ''UTC'' (truthy_id (bh_timezone cfg))) = Some (\<lambda>_. ce_server env)" "0 < n"
  shows "\<exists>due. calculate_sla_deadline env (Some cfg) now n = Inr due \<and> now < due
    \<and> (if day_of env due < day_of env now + int max_deadline_days
       then calculate_business_minutes_between env (Some cfg) now due = Inr n
       else due = day_start env (day_of env now + int max_deadline_days))"
  by (rule deadline_and_minutes[OF assms])

section \<open>Zones\<close>

text \<open>Two processes whose clocks show the same wall time walk the same days.\<close>

lemma wall_day: "t + ce_server env = t' + ce_server env' \<Longrightarrow> day_of env t = day_of env' t' \<and> minute_of_day env t = minute_of_day env' t'"
  by (simp add: day_of_def minute_of_day_def)

lemma wall_schedule: "t + ce_server env = t' + ce_server env' \<Longrightarrow> open_schedule env t cfg = open_schedule env' t' cfg"
  by (drule wall_day) (simp add: open_schedule_def is_holiday_def get_day_schedule_def get_day_name_def Let_def)

lemma deadline_shifts:
  "deadline_loop env cfg n c rem = Inr due \<Longrightarrow> c + ce_server env = c' + ce_server env' \<Longrightarrow>
   deadline_loop env' cfg n c' rem = Inr (due + ce_server env - ce_server env')"
proof (induction n arbitrary: c c' rem)
  case (Suc n)
  note wall = wall_day[OF Suc.prems(2)] wall_schedule[OF Suc.prems(2), of cfg]
  have "advance_to_next_day env c + ce_server env = advance_to_next_day env' c' + ce_server env'"
    "at_minute env c m + ce_server env = at_minute env' c' m + ce_server env'" for m
    using wall(1) by (simp_all add: advance_to_next_day_def at_minute_def day_start_def)
  then show ?case
    using Suc wall
    by (auto simp: consume_working_slots_def bind_result_def split: option.splits if_splits sum.splits consumed.splits)
qed simp

text \<open>a tenant in another zone than the process gets a wrong deadline: it is late by exactly the difference of
  the two offsets, compared with the deadline a process in the tenant's zone computes at the same instant.\<close>
theorem deadline_is_late_by_zone_offset:
  assumes "ce_zone env (default_to ''UTC'' (truthy_id (bh_timezone cfg))) = Some (\<lambda>_. off)"
    and "calculate_sla_deadline (env\<lparr>ce_server := off\<rparr>) (Some cfg) now n = Inr due"
  shows "calculate_sla_deadline env (Some cfg) now n = Inr (due + (off - ce_server env))"
proof -
  let ?wall = "(now + off) div 1000 * 1000"
  have "deadline_loop (env\<lparr>ce_server := off\<rparr>) cfg max_deadline_days (?wall - off) n = Inr due"
    using assms by (simp add: calculate_sla_deadline_def get_now_def)
  then have "deadline_loop env cfg max_deadline_days (?wall - ce_server env) n = Inr (due + off - ce_server env)"
    using deadline_shifts[of "env\<lparr>ce_server := off\<rparr>" cfg max_deadline_days "?wall - off" n due "?wall - ce_server env" env]
    by simp
  with assms(1) show ?thesis by (simp add: calculate_sla_deadline_def get_now_def)
qed

section \<open>Instances\<close>

text \<open>Friday, 2 January 1970, 17:00: two working hours end on Monday at 10:00.\<close>

definition office_day :: "string \<Rightarrow> day_hours" where
  "office_day d = \<lparr>dh_day = Some d, dh_enabled = True, dh_start = Some ''09:00'', dh_end = Some ''18:00'', dh_slots = None\<rparr>"

definition office :: business_hours where
  "office = \<lparr>bh_timezone = None, bh_holidays = None, bh_working_days = Some (map office_day
     [''Monday'', ''Tuesday'', ''Wednesday'', ''Thursday'', ''Friday'']), bh_schedule = None\<rparr>"

definition zone_env :: "int \<Rightarrow> int \<Rightarrow> clock_env" where
  "zone_env server off = \<lparr>ce_server = server, ce_zone = (\<lambda>_. Some (\<lambda>_. off))\<rparr>"

definition friday_17 :: int where "friday_17 = 86400000 + 17 * 3600000"
definition monday_10 :: int where "monday_10 = 4 * 86400000 + 10 * 3600000"

lemma office_times: "time_to_minutes ''09:00'' = 540" "time_to_minutes ''18:00'' = 1080"
  by code_simp+

lemma office_tidy: "tidy office"
  by (simp add: tidy_def office_def office_day_def tidy_day_def get_working_slots_def truthy_id_def office_times)

lemma office_names:
  "to_lower ''Monday'' = ''monday''" "to_lower ''Tuesday'' = ''tuesday''" "to_lower ''Wednesday'' = ''wednesday''"
  "to_lower ''Thursday'' = ''thursday''" "to_lower ''Friday'' = ''friday''"
  by code_simp+

lemma office_days:
  "open_schedule (zone_env s z) t office
   = (if (day_of (zone_env s z) t + 4) mod 7 \<in> {1, 2, 3, 4, 5}
      then Some (office_day ([''Sunday'', ''Monday'', ''Tuesday'', ''Wednesday'', ''Thursday'', ''Friday'', ''Saturday'']
        ! nat ((day_of (zone_env s z) t + 4) mod 7))) else None)"
proof -
  have "(day_of (zone_env s z) t + 4) mod 7 \<in> {0, 1, 2, 3, 4, 5, 6}"
    by simp presburger
  then show ?thesis
    by (elim insertE) (simp_all add: open_schedule_def is_holiday_def get_day_schedule_def get_day_name_def office_def
        office_day_def office_names split: prod.splits)
qed

lemma office_slots: "get_working_slots (office_day d) = [(Some ''09:00'', Some ''18:00'')]"
  by (simp add: get_working_slots_def office_day_def truthy_id_def)

lemma office_deadline:
  "calculate_sla_deadline (zone_env s s) (Some office) (friday_17 - s) 120 = Inr (monday_10 - s)"
proof -
  have server: "ce_server (zone_env s s) = s" by (simp add: zone_env_def)
  have now: "get_now (zone_env s s) tz (friday_17 - s) = friday_17 - s" for tz
    by (simp add: get_now_def zone_env_def friday_17_def)
  have "deadline_loop (zone_env s s) office (Suc (Suc (Suc (Suc n)))) (friday_17 - s) 120 = Inr (monday_10 - s)" for n
    by (cases n) (simp_all add: office_days consume_working_slots_def office_slots slot_minutes_def office_times Let_def
        day_of_def minute_of_day_def at_minute_def advance_to_next_day_def day_start_def server day_length_def
        friday_17_def monday_10_def)
  from this[of 361] have "deadline_loop (zone_env s s) office max_deadline_days (friday_17 - s) 120 = Inr (monday_10 - s)"
    by (simp add: max_deadline_days_def)
  then show ?thesis by (simp add: calculate_sla_deadline_def now)
qed

text \<open>The same from 17:00:30.250: the count is of minutes begun.\<close>

lemma office_deadline_later:
  "calculate_sla_deadline (zone_env 0 0) (Some office) (friday_17 + 30250) 120 = Inr monday_10"
proof -
  have zone: "ce_zone (zone_env 0 0) tz = Some (\<lambda>_. ce_server (zone_env 0 0))" for tz by (simp add: zone_env_def)
  have same: "day_of (zone_env 0 0) (friday_17 + 30250) = day_of (zone_env 0 0) friday_17"
    "minute_of_day (zone_env 0 0) (friday_17 + 30250) = minute_of_day (zone_env 0 0) friday_17"
    by (simp_all add: minute_number zone_env_def friday_17_def)
  have days: "max_deadline_days = Suc 364" by (simp add: max_deadline_days_def)
  have "deadline_loop (zone_env 0 0) office (Suc 364) friday_17 120 = Inr monday_10"
    using office_deadline[of 0] loop_sees_minute[OF get_now_minute[OF zone, where tz = "''UTC''" and now = friday_17], where rem = 120 and cfg = office and n = 364]
    by (simp add: calculate_sla_deadline_def days office_def truthy_id_def default_to_def)
  then show ?thesis
    using loop_sees_minute[OF get_now_minute[OF zone, where tz = "''UTC''" and now = "friday_17 + 30250"], where rem = 120 and cfg = office and n = 364]
      loop_sees_minute[OF same, where rem = 120 and cfg = office and n = 364]
    by (simp add: calculate_sla_deadline_def days office_def truthy_id_def default_to_def)
qed

theorem deadline_counts_working_minutes_witness:
  "calculate_sla_deadline (zone_env 0 0) (Some office) (friday_17 + 30250) 120 = Inr monday_10
   \<and> calculate_business_minutes_between (zone_env 0 0) (Some office) (friday_17 + 30250) monday_10 = Inr 120"
proof -
  have "ce_zone (zone_env 0 0) tz = Some (\<lambda>_. ce_server (zone_env 0 0))" for tz by (simp add: zone_env_def)
  from deadline_counts_working_minutes[OF office_tidy this, of 120 "friday_17 + 30250"] office_deadline_later
  show ?thesis
    by (simp add: day_of_def zone_env_def friday_17_def monday_10_def day_length_def max_deadline_days_def)
qed

theorem deadline_is_late_by_zone_offset_witness:
  "calculate_sla_deadline (zone_env 0 25200000) (Some office) (friday_17 - 25200000) 120 = Inr monday_10"
proof -
  have "calculate_sla_deadline ((zone_env 0 25200000)\<lparr>ce_server := 25200000\<rparr>) (Some office) (friday_17 - 25200000) 120
      = Inr (monday_10 - 25200000)"
    using office_deadline[of 25200000] by (simp add: zone_env_def)
  from deadline_is_late_by_zone_offset[OF _ this] show ?thesis by (simp add: zone_env_def)
qed

end
