(* ===== verification/Sla_Clock_Safety.thy ===== *)
theory Sla_Clock_Safety
  imports Sla_Clock Business_Hours_Safety
begin

text \<open>
  However the workers of the SLA engine interleave, a subject has at most one open clock per metric, and every
  breach is announced exactly once; the breach scan catches up; a pause keeps the working minutes left; what
  a reopened conversation and a paused ticket are left with.
\<close>

section \<open>How clocks move\<close>

text \<open>Every write to a clock keeps its identity and never opens a clock that is closed.\<close>

definition moves :: "sla_clock \<Rightarrow> sla_clock \<Rightarrow> bool" where
  "moves c d \<longleftrightarrow> ck_id d = ck_id c \<and> ck_tenant d = ck_tenant c \<and> ck_subject d = ck_subject c \<and> ck_metric d = ck_metric c
     \<and> ck_cycle d = ck_cycle c \<and> (is_open (ck_status d) \<longrightarrow> is_open (ck_status c))"

definition evolves :: "sla_clock list \<Rightarrow> sla_clock list \<Rightarrow> bool" where
  "evolves cs ds \<longleftrightarrow> list_all2 moves cs ds"

lemma moves_refl [simp]: "moves c c"
  by (simp add: moves_def)

lemma evolves_refl [simp]: "evolves cs cs"
  by (simp add: evolves_def list_all2_refl)

lemma evolves_update:
  "(\<And>c. c \<in> set cs \<Longrightarrow> P c \<Longrightarrow> moves c (f c)) \<Longrightarrow> evolves cs (snd (find_and_update P f cs))"
  unfolding evolves_def by (induction cs) (auto simp: list_all2_refl split: prod.splits)

lemma evolves_map: "(\<And>c. c \<in> set cs \<Longrightarrow> moves c (f c)) \<Longrightarrow> evolves cs (map f cs)"
  unfolding evolves_def by (induction cs) auto

lemma moves_key: "moves c d \<Longrightarrow> clock_key t sj m d = clock_key t sj m c"
  by (simp add: moves_def clock_key_def of_subject_def)

lemma evolves_filter:
  "evolves cs ds \<Longrightarrow> evolves (filter (clock_key t sj m) cs) (filter (clock_key t sj m) ds)"
  unfolding evolves_def by (induction rule: list_all2_induct) (auto simp: moves_key)

lemma moves_closed: "moves c d \<Longrightarrow> \<not> is_open (ck_status c) \<Longrightarrow> \<not> is_open (ck_status d)"
  by (simp add: moves_def)

lemma evolves_length: "evolves cs ds \<Longrightarrow> length ds = length cs"
  unfolding evolves_def by (simp add: list_all2_lengthD)

lemma evolves_ids: "evolves cs ds \<Longrightarrow> map ck_id ds = map ck_id cs"
  unfolding evolves_def by (induction rule: list_all2_induct) (auto simp: moves_def)

lemma evolves_cycles: "evolves cs ds \<Longrightarrow> map ck_cycle ds = map ck_cycle cs"
  unfolding evolves_def by (induction rule: list_all2_induct) (auto simp: moves_def)

lemma evolves_back: "evolves cs ds \<Longrightarrow> d \<in> set ds \<Longrightarrow> \<exists>c \<in> set cs. moves c d"
  unfolding evolves_def by (induction rule: list_all2_induct) auto

lemma evolves_forth: "evolves cs ds \<Longrightarrow> c \<in> set cs \<Longrightarrow> \<exists>d \<in> set ds. moves c d"
  unfolding evolves_def by (induction rule: list_all2_induct) auto

section \<open>The shape of the collection\<close>

abbreviation clocks_of :: "string \<Rightarrow> sla_subject \<Rightarrow> sla_metric \<Rightarrow> sla_world \<Rightarrow> sla_clock list" where
  "clocks_of t sj m w \<equiv> filter (clock_key t sj m) (sw_clocks w)"

definition clocks_ok :: "sla_world \<Rightarrow> bool" where
  "clocks_ok w \<longleftrightarrow>
     distinct (map ck_id (sw_clocks w)) \<and> (\<forall>c \<in> set (sw_clocks w). ck_id c < sw_next w)
     \<and> (\<forall>t sj m. map ck_cycle (clocks_of t sj m w) = [1..<Suc (length (clocks_of t sj m w))])
     \<and> (\<forall>t sj m. \<forall>c \<in> set (clocks_of t sj m w). is_open (ck_status c) \<longrightarrow> ck_cycle c = length (clocks_of t sj m w))"

lemma clocks_okD:
  assumes "clocks_ok w"
  shows "distinct (map ck_id (sw_clocks w))" "c \<in> set (sw_clocks w) \<Longrightarrow> ck_id c < sw_next w"
    "map ck_cycle (clocks_of t sj m w) = [1..<Suc (length (clocks_of t sj m w))]"
    "c \<in> set (clocks_of t sj m w) \<Longrightarrow> is_open (ck_status c) \<Longrightarrow> ck_cycle c = length (clocks_of t sj m w)"
  using assms unfolding clocks_ok_def by blast+

definition plan_ok :: "sla_world \<Rightarrow> clock_plan \<Rightarrow> bool" where
  "plan_ok w p \<longleftrightarrow>
     (\<forall>c. p = Insert c \<longrightarrow>
        (let ds = clocks_of (ck_tenant c) (ck_subject c) (ck_metric c) w in
         1 \<le> ck_cycle c \<and> ck_cycle c \<le> Suc (length ds)
         \<and> (ck_cycle c = Suc (length ds) \<longrightarrow> (\<forall>d \<in> set ds. \<not> is_open (ck_status d)))))"

lemma clocks_ok_evolves:
  assumes "clocks_ok w" "evolves (sw_clocks w) (sw_clocks w')" "sw_next w' = sw_next w"
  shows "clocks_ok w'"
proof -
  note of_key = evolves_filter[OF assms(2)]
  have n: "length (clocks_of t sj m w') = length (clocks_of t sj m w)" for t sj m
    by (rule evolves_length[OF of_key])
  have "ck_cycle d = length (clocks_of t sj m w')"
    if "d \<in> set (clocks_of t sj m w')" "is_open (ck_status d)" for t sj m d
  proof -
    from of_key that(1) obtain c where "c \<in> set (clocks_of t sj m w)" "moves c d" by (blast dest: evolves_back)
    with that(2) have "is_open (ck_status c)" "ck_cycle d = ck_cycle c" by (simp_all add: moves_def)
    then show ?thesis using clocks_okD(4)[OF assms(1) \<open>c \<in> set (clocks_of t sj m w)\<close>] n by simp
  qed
  moreover have "ck_id d < sw_next w'" if "d \<in> set (sw_clocks w')" for d
    using evolves_back[OF assms(2) that] assms(1,3) by (auto simp: clocks_ok_def moves_def)
  moreover have "map ck_cycle (clocks_of t sj m w') = [1..<Suc (length (clocks_of t sj m w'))]" for t sj m
    using evolves_cycles[OF of_key[of t sj m]] clocks_okD(3)[OF assms(1), of t sj m] by (simp only: n)
  ultimately show ?thesis
    unfolding clocks_ok_def using evolves_ids[OF assms(2)] clocks_okD(1)[OF assms(1)] by metis
qed

lemma plan_ok_evolves:
  assumes "plan_ok w p" "evolves (sw_clocks w) (sw_clocks w')"
  shows "plan_ok w' p"
proof -
  note of_key = evolves_filter[OF assms(2)]
  have "length (clocks_of t sj m w') = length (clocks_of t sj m w)" for t sj m
    by (rule evolves_length[OF of_key])
  moreover have "\<not> is_open (ck_status d)"
    if d: "d \<in> set (clocks_of t sj m w')" and closed: "\<forall>c \<in> set (clocks_of t sj m w). \<not> is_open (ck_status c)" for t sj m d
  proof -
    from of_key d obtain c where "c \<in> set (clocks_of t sj m w)" "moves c d" by (blast dest: evolves_back)
    with closed show ?thesis by (metis moves_closed)
  qed
  ultimately show ?thesis using assms(1) unfolding plan_ok_def Let_def by metis
qed

section \<open>Starting\<close>

lemma best_first:
  assumes "\<And>a b. le a b \<or> le b a" "\<And>a b c. le a b \<Longrightarrow> le b c \<Longrightarrow> le a c" "first_of (sort_by le xs) = Some x"
  shows "x \<in> set xs \<and> (\<forall>y \<in> set xs. le x y)"
proof -
  have refl: "le a a" for a using assms(1)[of a a] by simp
  have "sort_by le xs = y # ys \<Longrightarrow> \<forall>z \<in> set xs. le y z" for y ys
  proof (induction xs arbitrary: y ys)
    case (Cons a xs)
    show ?case
    proof (cases "sort_by le xs")
      case Nil
      with Cons.prems refl show ?thesis by (metis insert_by.simps(1) list.sel(1) set_ConsD set_sort_by sort_by.simps(2) empty_iff list.set(1))
    next
      case (Cons b bs)
      note tail = Cons.IH[OF Cons]
      show ?thesis
      proof (cases "le a b")
        case True
        then have "y = a" using Cons.prems Cons by simp
        with True tail refl assms(2)[of a b] show ?thesis by auto
      next
        case False
        then have "y = b" using Cons.prems Cons by simp
        with False tail assms(1)[of a b] show ?thesis by auto
      qed
    qed
  qed simp
  with assms(3) show ?thesis
    using set_sort_by[of le xs] by (cases "sort_by le xs") auto
qed

lemma latest_is_last:
  assumes "clocks_ok w" "latest_clock t sj m w = Some c"
  shows "c \<in> set (clocks_of t sj m w)" "ck_cycle c = length (clocks_of t sj m w)"
proof -
  have best: "c \<in> set (clocks_of t sj m w) \<and> (\<forall>y \<in> set (clocks_of t sj m w). ck_cycle y \<le> ck_cycle c)"
    using assms(2) unfolding latest_clock_def by (intro best_first[of "\<lambda>a b. ck_cycle b \<le> ck_cycle a"]) auto
  then show c: "c \<in> set (clocks_of t sj m w)" by simp
  have cycles: "ck_cycle ` set (clocks_of t sj m w) = {1..length (clocks_of t sj m w)}"
    using assms(1) unfolding clocks_ok_def by (metis atLeastLessThanSuc_atLeastAtMost list.set_map set_upt)
  from c have "length (clocks_of t sj m w) \<in> {1..length (clocks_of t sj m w)}"
    by (cases "clocks_of t sj m w") auto
  then have "length (clocks_of t sj m w) \<le> ck_cycle c" using best cycles by (metis imageE)
  moreover have "ck_cycle c \<le> length (clocks_of t sj m w)" using c cycles by force
  ultimately show "ck_cycle c = length (clocks_of t sj m w)" by simp
qed

lemma no_latest: "latest_clock t sj m w = None \<longleftrightarrow> clocks_of t sj m w = []"
  unfolding latest_clock_def first_of_def
  by (cases "sort_by (\<lambda>a b. ck_cycle b \<le> ck_cycle a) (clocks_of t sj m w)")
     (simp_all, metis list.distinct(1) sort_by_Nil_iff)

lemma same_cycle:
  assumes "clocks_ok w" "c \<in> set (clocks_of t sj m w)" "d \<in> set (clocks_of t sj m w)" "ck_cycle c = ck_cycle d"
  shows "c = d"
proof -
  have "map ck_cycle (clocks_of t sj m w) = [1..<Suc (length (clocks_of t sj m w))]"
    using assms(1) unfolding clocks_ok_def by blast
  then have "distinct (map ck_cycle (clocks_of t sj m w))" by (simp only: distinct_upt)
  then have "inj_on ck_cycle (set (clocks_of t sj m w))" by (simp only: distinct_map)
  then show ?thesis by (rule inj_onD[OF _ assms(4,2,3)])
qed

lemma started_plan_ok:
  assumes "clocks_ok w" "start_plan env now t sj m w = Inr p"
  shows "plan_ok w p"
proof (cases p)
  case (Insert c)
  then have key: "ck_tenant c = t" "ck_subject c = sj" "ck_metric c = m"
    using assms(2) by (auto simp: start_plan_def Let_def bind_result_def split: option.splits list.splits sum.splits if_splits)
  show ?thesis
  proof (cases "latest_clock t sj m w")
    case None
    then have "ck_cycle c = 1"
      using assms(2) Insert
      by (auto simp: start_plan_def Let_def bind_result_def split: option.splits list.splits sum.splits if_splits)
    moreover have "clocks_of t sj m w = []" using None by (simp only: no_latest)
    ultimately show ?thesis using key Insert unfolding plan_ok_def Let_def by (metis One_nat_def Suc_n_not_le_n empty_iff le_refl list.set(1) list.size(3) clock_plan.inject(2))
  next
    case (Some d)
    then have c: "ck_cycle c = ck_cycle d + 1" "\<not> is_open (ck_status d)"
      using assms(2) Insert
      by (auto simp: start_plan_def Let_def bind_result_def split: option.splits list.splits sum.splits if_splits)
    note d = latest_is_last[OF assms(1) Some]
    have "\<not> is_open (ck_status e)" if e: "e \<in> set (clocks_of t sj m w)" for e
    proof
      assume "is_open (ck_status e)"
      with e assms(1) have "ck_cycle e = length (clocks_of t sj m w)" unfolding clocks_ok_def by blast
      then have "e = d" using same_cycle[OF assms(1) e d(1)] d(2) by simp
      with c(2) \<open>is_open (ck_status e)\<close> show False by simp
    qed
    with key Insert c(1) d(2) show ?thesis by (simp add: plan_ok_def Let_def)
  qed
qed (simp_all add: plan_ok_def)

lemma first_exists:
  assumes "clocks_ok w" "1 \<le> n" "n \<le> length (clocks_of t sj m w)"
  shows "\<exists>d \<in> set (clocks_of t sj m w). ck_cycle d = n"
proof -
  have "n \<in> set (map ck_cycle (clocks_of t sj m w))"
    using assms unfolding clocks_ok_def by (metis atLeastLessThan_iff le_imp_less_Suc set_upt)
  then show ?thesis by auto
qed

lemma project_frame [simp]:
  "sw_clocks (project t sj p w) = sw_clocks w" "sw_next (project t sj p w) = sw_next w"
  "sw_events (project t sj p w) = sw_events w" "sw_policies (project t sj p w) = sw_policies w"
  by (auto simp: project_def split: option.splits subject_kind.splits)

lemma pending_frame [simp]:
  "sw_clocks (project_pending_deadline t sj w) = sw_clocks w" "sw_next (project_pending_deadline t sj w) = sw_next w"
  "sw_events (project_pending_deadline t sj w) = sw_events w"
  by (simp_all add: project_pending_deadline_def)

lemma insert_keeps:
  assumes "clocks_ok w" "plan_ok w (Insert c)" "is_open (ck_status c)"
  shows "clocks_ok (snd (insert_clock c w)) \<and> (\<forall>p. plan_ok w p \<longrightarrow> plan_ok (snd (insert_clock c w)) p)"
proof (cases "List.find (\<lambda>d. clock_key (ck_tenant c) (ck_subject c) (ck_metric c) d \<and> ck_cycle d = ck_cycle c) (sw_clocks w)")
  case (Some d)
  then show ?thesis using assms(1) by (simp add: insert_clock_def)
next
  case None
  let ?t = "ck_tenant c" and ?sj = "ck_subject c" and ?m = "ck_metric c" and ?c = "c\<lparr>ck_id := sw_next w\<rparr>"
  let ?w = "snd (insert_clock c w)"
  have w: "sw_clocks ?w = sw_clocks w @ [?c]" "sw_next ?w = Suc (sw_next w)"
    using None by (simp_all add: insert_clock_def Let_def)
  have new: "ck_cycle d \<noteq> ck_cycle c" if "d \<in> set (clocks_of ?t ?sj ?m w)" for d
    using None that by (auto simp: find_None_iff)
  have cycle: "ck_cycle c = Suc (length (clocks_of ?t ?sj ?m w))"
  proof -
    have "1 \<le> ck_cycle c" "ck_cycle c \<le> Suc (length (clocks_of ?t ?sj ?m w))"
      using assms(2) by (simp_all add: plan_ok_def Let_def)
    moreover have "\<not> ck_cycle c \<le> length (clocks_of ?t ?sj ?m w)"
      using first_exists[OF assms(1), of "ck_cycle c"] new calculation(1) by blast
    ultimately show ?thesis by simp
  qed
  then have closed: "\<forall>d \<in> set (clocks_of ?t ?sj ?m w). \<not> is_open (ck_status d)"
    using assms(2) unfolding plan_ok_def Let_def by blast
  have own: "clock_key t sj m ?c \<longleftrightarrow> t = ?t \<and> sj = ?sj \<and> m = ?m" for t sj m
    by (auto simp: clock_key_def of_subject_def)
  have keyed: "clocks_of t sj m ?w = (if t = ?t \<and> sj = ?sj \<and> m = ?m then clocks_of ?t ?sj ?m w @ [?c] else clocks_of t sj m w)" for t sj m
    using own[of t sj m] by (simp add: w(1))
  have ok: "map ck_cycle (clocks_of t sj m w) = [1..<Suc (length (clocks_of t sj m w))]"
    "\<forall>d \<in> set (clocks_of t sj m w). is_open (ck_status d) \<longrightarrow> ck_cycle d = length (clocks_of t sj m w)" for t sj m
    using assms(1) unfolding clocks_ok_def by blast+
  have "map ck_cycle (clocks_of t sj m ?w) = [1..<Suc (length (clocks_of t sj m ?w))]" for t sj m
  proof (cases "t = ?t \<and> sj = ?sj \<and> m = ?m")
    case True
    then show ?thesis unfolding keyed using ok(1)[of ?t ?sj ?m] cycle by simp
  next
    case False
    show ?thesis unfolding keyed if_not_P[OF False] by (rule ok(1))
  qed
  moreover have "\<forall>d \<in> set (clocks_of t sj m ?w). is_open (ck_status d) \<longrightarrow> ck_cycle d = length (clocks_of t sj m ?w)" for t sj m
    unfolding keyed using ok(2)[of t sj m] cycle closed by simp
  moreover have "distinct (map ck_id (sw_clocks ?w))" "\<forall>d \<in> set (sw_clocks ?w). ck_id d < sw_next ?w"
    using assms(1) unfolding w clocks_ok_def by (auto simp: less_Suc_eq)
  ultimately have "clocks_ok ?w" unfolding clocks_ok_def by blast
  moreover have "plan_ok ?w p" if "plan_ok w p" for p
    unfolding plan_ok_def
  proof (intro allI impI)
    fix d assume "p = Insert d"
    with that show "let ds = clocks_of (ck_tenant d) (ck_subject d) (ck_metric d) ?w in
         1 \<le> ck_cycle d \<and> ck_cycle d \<le> Suc (length ds)
         \<and> (ck_cycle d = Suc (length ds) \<longrightarrow> (\<forall>d \<in> set ds. \<not> is_open (ck_status d)))"
      unfolding keyed by (auto simp: plan_ok_def Let_def)
  qed
  ultimately show ?thesis by blast
qed

section \<open>Breaches\<close>

definition tells_of :: "breach_event \<Rightarrow> sla_clock \<Rightarrow> bool" where
  "tells_of e c \<longleftrightarrow> be_clock e = ck_id c \<and> be_tenant e = ck_tenant c \<and> be_subject e = ck_subject c
     \<and> be_metric e = ck_metric c \<and> be_cycle e = ck_cycle c \<and> \<not> is_open (ck_status c)"

lemma tells_moves: "tells_of e c \<Longrightarrow> moves c d \<Longrightarrow> tells_of e d"
  by (auto simp: tells_of_def moves_def)

definition breaches_ok :: "sla_world \<Rightarrow> bool" where
  "breaches_ok w \<longleftrightarrow> distinct (map be_clock (sw_events w))
     \<and> (\<forall>e \<in> set (sw_events w). \<exists>c \<in> set (sw_clocks w). tells_of e c)"

lemma breaches_ok_evolves:
  assumes "breaches_ok w" "evolves (sw_clocks w) (sw_clocks w')" "sw_events w' = sw_events w"
  shows "breaches_ok w'"
  using assms evolves_forth[OF assms(2)] tells_moves unfolding breaches_ok_def by metis

text \<open>A write to one clock that another worker may have written since: it applies to the status it expects.\<close>

definition opens_not :: "clock_status \<Rightarrow> (sla_clock \<Rightarrow> sla_clock) \<Rightarrow> bool" where
  "opens_not expected f \<longleftrightarrow> is_open expected \<and> (\<forall>c. ck_status c = expected \<longrightarrow> moves c (f c))"

lemma update_clock_frame [simp]:
  "sw_events (snd (update_clock i s f w)) = sw_events w" "sw_next (snd (update_clock i s f w)) = sw_next w"
  by (simp_all add: update_clock_def split: prod.splits)

lemma update_evolves: "opens_not s f \<Longrightarrow> evolves (sw_clocks w) (sw_clocks (snd (update_clock i s f w)))"
  using evolves_update[of "sw_clocks w" "\<lambda>c. ck_id c = i \<and> ck_status c = s" f]
  by (cases "find_and_update (\<lambda>c. ck_id c = i \<and> ck_status c = s) f (sw_clocks w)") (simp add: update_clock_def opens_not_def)

lemma announce_cases:
  assumes "announce_breach active k now c w = (r, v)"
  shows "sw_clocks v = sw_clocks w" "sw_next v = sw_next w"
    "(\<exists>e. r = Inl e) \<and> sw_events v = sw_events w
     \<or> r = Inr () \<and> (\<exists>e. sw_events v = sw_events w @ [e] \<and> be_clock e = ck_id c \<and> be_tenant e = ck_tenant c
          \<and> be_subject e = ck_subject c \<and> be_metric e = ck_metric c \<and> be_cycle e = ck_cycle c)"
  using assms by (auto simp: announce_breach_def Let_def split: if_splits option.splits)

lemma update_found_at:
  assumes "update_clock i s f w = (Some d, w1)"
  obtains as c bs where "sw_clocks w = as @ c # bs" "sw_clocks w1 = as @ d # bs" "d = f c" "ck_id c = i" "ck_status c = s"
    "sw_events w1 = sw_events w" "sw_next w1 = sw_next w"
  using assms by (auto simp: update_clock_def split: prod.splits elim!: find_and_update_split)

lemma update_announced:
  assumes "clocks_ok w" "breaches_ok w" "opens_not s f"
    and "update_clock i s f w = (Some d, w1)" "\<not> is_open (ck_status d)" "announce_breach active k now d w1 = (r, v)"
  shows "breaches_ok v"
proof -
  obtain as c bs where split: "sw_clocks w = as @ c # bs" "sw_clocks w1 = as @ d # bs" "d = f c" "ck_id c = i" "ck_status c = s"
    and w1: "sw_events w1 = sw_events w"
    using update_found_at[OF assms(4)] by metis
  have d: "ck_id d = i" "is_open (ck_status c)"
    using assms(3) split(3-5) by (simp_all add: opens_not_def moves_def)
  have "evolves (sw_clocks w) (sw_clocks w1)" using update_evolves[OF assms(3), of w i] assms(4) by simp
  from breaches_ok_evolves[OF assms(2) this w1] have quiet: "breaches_ok w1" .
  have fresh: "i \<notin> be_clock ` set (sw_events w)"
  proof
    assume "i \<in> be_clock ` set (sw_events w)"
    with assms(2) obtain x where x: "x \<in> set (sw_clocks w)" "ck_id x = i" "\<not> is_open (ck_status x)"
      by (auto simp: breaches_ok_def tells_of_def)
    have "x = c" using clocks_okD(1)[OF assms(1)] x(1,2) split(1,4) by (auto simp: distinct_map inj_on_def)
    with x(3) d(2) show False by simp
  qed
  note told = announce_cases[OF assms(6)]
  from told(3) show ?thesis
  proof
    assume "(\<exists>e. r = Inl e) \<and> sw_events v = sw_events w1"
    with quiet told(1) show ?thesis by (simp add: breaches_ok_def)
  next
    assume "r = Inr () \<and> (\<exists>e. sw_events v = sw_events w1 @ [e] \<and> be_clock e = ck_id d \<and> be_tenant e = ck_tenant d
          \<and> be_subject e = ck_subject d \<and> be_metric e = ck_metric d \<and> be_cycle e = ck_cycle d)"
    then obtain e where e: "sw_events v = sw_events w1 @ [e]" "tells_of e d" "be_clock e = i"
      using assms(5) d(1) by (auto simp: tells_of_def)
    then show ?thesis using quiet fresh w1 told(1) split(2) by (auto simp: breaches_ok_def)
  qed
qed

section \<open>Interleaved workers\<close>

text \<open>
  One write or read-and-plan of some worker. Plans wait in a pool until their worker inserts; snapshots of clocks may
  be of any age. The loop bodies of a pause and a resume are the loops over one clock.
\<close>

inductive sla_step :: "sla_world \<times> clock_plan list \<Rightarrow> sla_world \<times> clock_plan list \<Rightarrow> bool" where
  plans: "start_plan env now t sj m w = Inr p \<Longrightarrow> sla_step (w, ps) (w, p # ps)"
| runs: "p \<in> set ps \<Longrightarrow> sla_step (w, ps) (snd (run_plan p w), ps)"
| settles: "is_open (ck_status c) \<Longrightarrow> sla_step (w, ps) (snd (settle_one k now met_at c w), ps)"
| breaches: "sla_step (w, ps) (snd (breach_one active k now c w), ps)"
| pauses: "sla_step (w, ps) (snd (pause_all env now t [c] w), ps)"
| resumes: "sla_step (w, ps) (snd (resume_all env now t [c] w), ps)"
| cancels: "sla_step (w, ps) (cancel_clocks P w, ps)"
| projects: "sla_step (w, ps) (project t sj p w, ps)"
| refreshes: "sla_step (w, ps) (project_pending_deadline t sj w, ps)"
| answers: "sla_step (w, ps) (record_agent_response sj responded who w, ps)"

definition engine_ok :: "sla_world \<times> clock_plan list \<Rightarrow> bool" where
  "engine_ok st \<longleftrightarrow> clocks_ok (fst st) \<and> breaches_ok (fst st)
     \<and> (\<forall>p \<in> set (snd st). plan_ok (fst st) p \<and> (\<forall>c. p = Insert c \<longrightarrow> ck_status c = CkRunning))"

lemma engine_ok_evolves:
  assumes "engine_ok (w, ps)" "evolves (sw_clocks w) (sw_clocks w')" "sw_next w' = sw_next w" "breaches_ok w'"
  shows "engine_ok (w', ps)"
  using assms clocks_ok_evolves[of w w'] plan_ok_evolves[of w _ w'] by (auto simp: engine_ok_def)

lemma engine_ok_frame:
  "engine_ok (w, ps) \<Longrightarrow> sw_clocks w' = sw_clocks w \<Longrightarrow> sw_next w' = sw_next w \<Longrightarrow> sw_events w' = sw_events w \<Longrightarrow> engine_ok (w', ps)"
  by (rule engine_ok_evolves[of w]) (simp_all add: engine_ok_def breaches_ok_def)

lemma engine_ok_quiet:
  assumes "engine_ok (w, ps)" "opens_not s f"
  shows "engine_ok (snd (update_clock i s f w), ps)"
  using assms update_evolves[OF assms(2)]
  by (intro engine_ok_evolves[OF assms(1) update_evolves]) (auto simp: engine_ok_def intro: breaches_ok_evolves)

lemma engine_ok_breach:
  assumes "engine_ok (w, ps)" "update_clock i s f w = (Some d, w1)" "opens_not s f" "\<not> is_open (ck_status d)"
  shows "engine_ok (snd (announce_breach active k now d w1), ps)"
proof (rule engine_ok_evolves[OF assms(1)])
  obtain r v where a: "announce_breach active k now d w1 = (r, v)" by (rule prod.exhaust)
  have v: "snd (announce_breach active k now d w1) = v" by (simp add: a)
  have u: "evolves (sw_clocks w) (sw_clocks w1)" "sw_next w1 = sw_next w"
    using update_evolves[OF assms(3), of w i] assms(2) by (auto simp: update_clock_def split: prod.splits)
  show "evolves (sw_clocks w) (sw_clocks (snd (announce_breach active k now d w1)))"
    "sw_next (snd (announce_breach active k now d w1)) = sw_next w"
    using u by (simp_all only: v announce_cases(1,2)[OF a])
  show "breaches_ok (snd (announce_breach active k now d w1))"
    using assms a by (auto simp: engine_ok_def intro: update_announced[of w s f i])
qed

lemma update_missing: "update_clock i s f w = (None, w1) \<Longrightarrow> w1 = w"
  by (auto simp: update_clock_def find_and_update_None split: prod.splits)

lemma update_found: "update_clock i s f w = (Some d, w1) \<Longrightarrow> \<exists>c \<in> set (sw_clocks w). d = f c \<and> ck_id c = i \<and> ck_status c = s"
  by (auto simp: update_clock_def split: prod.splits dest: find_and_update_in)

lemmas write_simps = opens_not_def is_open_def moves_def

lemma breach_ok:
  assumes "engine_ok (w, ps)"
  shows "update_clock i CkRunning (\<lambda>d. d\<lparr>ck_status := CkBreached, ck_breached_at := Some at\<rparr>) w = (Some d, w1) \<Longrightarrow>
    engine_ok (snd (announce_breach active k now d w1), ps)"
  by (rule engine_ok_breach[OF assms]) (assumption, auto simp: write_simps dest!: update_found)

lemma settle_ok: "engine_ok (w, ps) \<Longrightarrow> is_open (ck_status c) \<Longrightarrow> engine_ok (snd (settle_one k now met_at c w), ps)"
  unfolding settle_one_def
  by (auto split: prod.splits option.splits simp: write_simps dest!: update_missing intro!: engine_ok_quiet intro: breach_ok)

lemma and_then_snd: "snd (and_then r (\<lambda>_ w. (g, w))) = snd r"
  by (simp add: and_then_def split: prod.split sum.split)

lemma breach_one_ok: "engine_ok (w, ps) \<Longrightarrow> engine_ok (snd (breach_one active k now c w), ps)"
  unfolding breach_one_def
  by (auto split: prod.splits option.splits simp: and_then_snd dest!: update_missing intro: breach_ok)

lemma engine_ok_written:
  "update_clock i s f w = (r, w1) \<Longrightarrow> engine_ok (w, ps) \<Longrightarrow> opens_not s f \<Longrightarrow> engine_ok (w1, ps)"
  by (metis engine_ok_quiet snd_conv)

lemma pause_one_ok: "engine_ok (w, ps) \<Longrightarrow> engine_ok (snd (pause_all env now t [c] w), ps)"
  by (auto simp: and_then_def split: prod.splits sum.splits) (erule engine_ok_written, auto simp: write_simps)

lemma resume_one_ok: "engine_ok (w, ps) \<Longrightarrow> engine_ok (snd (resume_all env now t [c] w), ps)"
  by (auto simp: and_then_def split: prod.splits sum.splits) (erule engine_ok_written, auto simp: write_simps)

lemma cancel_ok: "engine_ok (w, ps) \<Longrightarrow> engine_ok (cancel_clocks P w, ps)"
proof (rule engine_ok_evolves)
  show ev: "evolves (sw_clocks w) (sw_clocks (cancel_clocks P w))"
    unfolding cancel_clocks_def by (auto simp: moves_def is_open_def intro!: evolves_map)
  assume "engine_ok (w, ps)"
  then have "breaches_ok w" by (simp add: engine_ok_def)
  then show "breaches_ok (cancel_clocks P w)"
    by (rule breaches_ok_evolves[OF _ ev]) (simp add: cancel_clocks_def)
qed (simp_all add: cancel_clocks_def)

lemma run_ok:
  assumes "engine_ok (w, ps)" "p \<in> set ps"
  shows "engine_ok (snd (run_plan p w), ps)"
proof (cases p)
  case (Insert c)
  with assms have ok: "clocks_ok w" "plan_ok w (Insert c)" "ck_status c = CkRunning" "breaches_ok w"
    by (auto simp: engine_ok_def)
  then have "clocks_ok (snd (insert_clock c w)) \<and> (\<forall>q. plan_ok w q \<longrightarrow> plan_ok (snd (insert_clock c w)) q)"
    by (intro insert_keeps) (simp_all add: is_open_def)
  moreover have "breaches_ok (snd (insert_clock c w))"
    using ok(3,4) by (auto simp: insert_clock_def breaches_ok_def Let_def split: option.splits)
  ultimately show ?thesis using assms Insert by (simp add: run_plan_def engine_ok_def)
qed (use assms in \<open>simp_all add: run_plan_def\<close>)

lemma answer_frame [simp]:
  "sw_clocks (record_agent_response sj responded who w) = sw_clocks w" "sw_next (record_agent_response sj responded who w) = sw_next w"
  "sw_events (record_agent_response sj responded who w) = sw_events w"
  by (auto simp: record_agent_response_def split: option.splits subject_kind.splits)

lemma step_ok: "sla_step s s' \<Longrightarrow> engine_ok s \<Longrightarrow> engine_ok s'"
proof (induction rule: sla_step.induct)
  case (plans env now t sj m w p ps)
  then have "plan_ok w p" by (auto simp: engine_ok_def intro: started_plan_ok)
  moreover have "ck_status c = CkRunning" if "p = Insert c" for c
    using plans(1) that
    by (auto simp: start_plan_def Let_def bind_result_def split: option.splits list.splits sum.splits if_splits)
  ultimately show ?case using plans(2) by (auto simp: engine_ok_def)
qed (auto intro: settle_ok breach_one_ok pause_one_ok resume_one_ok cancel_ok run_ok engine_ok_frame simp del: pause_all.simps resume_all.simps)

definition fresh_engine :: "sla_world \<Rightarrow> bool" where
  "fresh_engine w \<longleftrightarrow> sw_clocks w = [] \<and> sw_events w = []"

lemma engine_reachable_ok:
  assumes "sla_step\<^sup>*\<^sup>* s s'" "engine_ok s"
  shows "engine_ok s'"
  using assms by (induction rule: rtranclp_induct) (auto intro: step_ok)

lemma fresh_ok: "fresh_engine w \<Longrightarrow> engine_ok (w, [])"
  by (simp add: fresh_engine_def engine_ok_def clocks_ok_def breaches_ok_def)

text \<open>C34: however the listeners, the handlers and the cron tick of all processes interleave, a subject never has two
  open clocks of a metric, no cycle is numbered twice, and an open clock is the one of the highest cycle.\<close>
theorem one_open_clock_per_metric:
  assumes "fresh_engine w0" "sla_step\<^sup>*\<^sup>* (w0, []) (w, ps)"
  shows "length (filter (\<lambda>c. clock_key t sj m c \<and> is_open (ck_status c)) (sw_clocks w)) \<le> 1
    \<and> distinct (map ck_cycle (filter (clock_key t sj m) (sw_clocks w)))
    \<and> (\<forall>c \<in> set (sw_clocks w). \<forall>d \<in> set (sw_clocks w). clock_key t sj m c \<and> clock_key t sj m d \<and> is_open (ck_status c)
         \<longrightarrow> ck_cycle d \<le> ck_cycle c)"
proof -
  have "clocks_ok w" using engine_reachable_ok[OF assms(2) fresh_ok[OF assms(1)]] by (simp add: engine_ok_def)
  note ok = clocks_okD[OF this]
  let ?open = "filter (\<lambda>c. is_open (ck_status c)) (clocks_of t sj m w)"
  have cycles: "distinct (map ck_cycle (clocks_of t sj m w))" unfolding ok(3) by (rule distinct_upt)
  have "set (map ck_cycle ?open) \<subseteq> {length (clocks_of t sj m w)}" using ok(4)[of _ t sj m] by auto
  moreover have "distinct (map ck_cycle ?open)" by (rule distinct_map_filter[OF cycles])
  ultimately have "length (map ck_cycle ?open) \<le> 1"
    by (metis card_mono card.empty card_insert_disjoint distinct_card empty_iff finite.emptyI finite.insertI One_nat_def)
  then have "length (filter (\<lambda>c. clock_key t sj m c \<and> is_open (ck_status c)) (sw_clocks w)) \<le> 1"
    by (simp add: conj_commute)
  moreover have "ck_cycle d \<le> length (clocks_of t sj m w)" if "d \<in> set (clocks_of t sj m w)" for d
  proof -
    have "ck_cycle d \<in> set (map ck_cycle (clocks_of t sj m w))" using that by simp
    then show ?thesis unfolding ok(3) by auto
  qed
  ultimately show ?thesis using cycles ok(4)[of _ t sj m] by auto
qed

lemma filter_key_single: "distinct (map g xs) \<Longrightarrow> x \<in> set xs \<Longrightarrow> g x = k \<Longrightarrow> filter (\<lambda>y. g y = k) xs = [x]"
proof (induction xs)
  case (Cons y ys)
  show ?case
  proof (cases "y = x")
    case True
    then have "filter (\<lambda>y. g y = k) ys = []" using Cons.prems by (auto simp: filter_empty_conv image_iff)
    then show ?thesis using True Cons.prems by simp
  next
    case False
    then have "g y \<noteq> k" using Cons.prems by (auto simp: image_iff)
    then show ?thesis using False Cons by simp
  qed
qed simp

lemma settled_breach:
  assumes "clocks_ok w" "c \<in> set (sw_clocks w)" "ck_status c = CkRunning" "ck_due c < met_at" "4 \<le> k"
  shows "\<exists>e. sw_events (snd (settle_one k now met_at c w)) = sw_events w @ [e] \<and> be_clock e = ck_id c"
    "\<exists>d \<in> set (sw_clocks (snd (settle_one k now met_at c w))). ck_id d = ck_id c \<and> ck_status d = CkBreached"
proof -
  let ?f = "\<lambda>d. d\<lparr>ck_status := CkBreached, ck_breached_at := Some met_at\<rparr>"
  obtain found w1 where u: "update_clock (ck_id c) CkRunning ?f w = (found, w1)" by (rule prod.exhaust)
  have "found \<noteq> None"
    using u assms(2,3) by (cases found) (auto simp: update_clock_def find_and_update_None split: prod.splits)
  then obtain d where d: "found = Some d" by blast
  obtain as b bs where split: "sw_clocks w1 = as @ d # bs" "d = ?f b" "ck_id b = ck_id c" "sw_events w1 = sw_events w"
    using update_found_at[OF u[unfolded d]] by metis
  have "announce_breach (Some (ck_tenant d)) (k - 1) now d w1 = (Inr (), snd (announce_breach (Some (ck_tenant d)) (k - 1) now d w1))"
    using assms(5) by (auto simp: announce_breach_def Let_def)
  note told = announce_cases[OF this]
  have one: "snd (settle_one k now met_at c w) = snd (announce_breach (Some (ck_tenant d)) (k - 1) now d w1)"
    using u d assms(3-5) by (simp add: settle_one_def)
  show "\<exists>e. sw_events (snd (settle_one k now met_at c w)) = sw_events w @ [e] \<and> be_clock e = ck_id c"
    using told(3) split unfolding one by auto
  show "\<exists>d \<in> set (sw_clocks (snd (settle_one k now met_at c w))). ck_id d = ck_id c \<and> ck_status d = CkBreached"
    unfolding one told(1) split(1) using split(2,3) by (intro bexI[of _ d]) simp_all
qed

text \<open>C35: However the workers interleave, and wherever a remote call fails or a process dies, a breach is announced at most
  once: no clock has two breach events, and an event names the tenant, the subject, the metric and the cycle of a clock
  that is settled for good. When the calls of a settlement answer, it is announced: a running clock that is answered after
  its deadline ends up breached, with exactly one event.\<close>
theorem breaches_announced_once:
  assumes "fresh_engine w0" "sla_step\<^sup>*\<^sup>* (w0, []) (w, ps)"
  shows "distinct (map be_clock (sw_events w))
    \<and> (\<forall>e \<in> set (sw_events w). \<exists>c \<in> set (sw_clocks w). be_clock e = ck_id c \<and> be_tenant e = ck_tenant c
         \<and> be_subject e = ck_subject c \<and> be_metric e = ck_metric c \<and> be_cycle e = ck_cycle c \<and> \<not> is_open (ck_status c))
    \<and> (\<forall>c \<in> set (sw_clocks w). ck_status c = CkRunning \<and> ck_due c < met_at \<and> 4 \<le> k \<longrightarrow>
         (let v = snd (settle_one k now met_at c w) in
            map ck_status (filter (\<lambda>d. ck_id d = ck_id c) (sw_clocks v)) = [CkBreached]
            \<and> length (filter (\<lambda>e. be_clock e = ck_id c) (sw_events v)) = 1))"
proof (intro conjI ballI impI)
  have reach: "engine_ok (w, ps)" by (rule engine_reachable_ok[OF assms(2) fresh_ok[OF assms(1)]])
  then have ok: "clocks_ok w" "breaches_ok w" by (simp_all add: engine_ok_def)
  show "distinct (map be_clock (sw_events w))" using ok(2) by (simp add: breaches_ok_def)
  show "\<exists>c \<in> set (sw_clocks w). be_clock e = ck_id c \<and> be_tenant e = ck_tenant c
         \<and> be_subject e = ck_subject c \<and> be_metric e = ck_metric c \<and> be_cycle e = ck_cycle c \<and> \<not> is_open (ck_status c)"
    if "e \<in> set (sw_events w)" for e
    using ok(2) that by (simp add: breaches_ok_def tells_of_def)
  fix c assume c: "c \<in> set (sw_clocks w)" and due: "ck_status c = CkRunning \<and> ck_due c < met_at \<and> 4 \<le> k"
  let ?v = "snd (settle_one k now met_at c w)"
  have "engine_ok (?v, ps)" by (rule settle_ok[OF reach]) (simp add: due is_open_def)
  then have v: "distinct (map ck_id (sw_clocks ?v))" "distinct (map be_clock (sw_events ?v))"
    by (simp_all add: engine_ok_def clocks_ok_def breaches_ok_def)
  note told = settled_breach[OF ok(1) c conjunct1[OF due], of met_at k now]
  obtain e d where e: "e \<in> set (sw_events ?v)" "be_clock e = ck_id c" and d: "d \<in> set (sw_clocks ?v)" "ck_id d = ck_id c" "ck_status d = CkBreached"
    using told due by (metis in_set_conv_decomp)
  have "filter (\<lambda>d. ck_id d = ck_id c) (sw_clocks ?v) = [d]" using v(1) d(1,2) by (rule filter_key_single)
  moreover have "filter (\<lambda>e. be_clock e = ck_id c) (sw_events ?v) = [e]" using v(2) e by (rule filter_key_single)
  ultimately show "let v = ?v in map ck_status (filter (\<lambda>d. ck_id d = ck_id c) (sw_clocks v)) = [CkBreached]
      \<and> length (filter (\<lambda>e. be_clock e = ck_id c) (sw_events v)) = 1"
    using d(3) by (simp add: Let_def)
qed

section \<open>The breach scan\<close>

definition unique_ids :: "sla_world \<Rightarrow> bool" where
  "unique_ids w \<longleftrightarrow> distinct (map ck_id (sw_clocks w))"

section \<open>Whole operations\<close>

text \<open>Every operation of the service is a sequence of the steps above.\<close>

definition reaches :: "sla_world \<Rightarrow> sla_world \<Rightarrow> bool" where
  "reaches w w' \<longleftrightarrow> (\<forall>ps. \<exists>ps'. sla_step\<^sup>*\<^sup>* (w, ps) (w', ps'))"

lemma reaches_refl [simp]: "reaches w w"
  by (auto simp: reaches_def)

lemma reaches_trans: "reaches u v \<Longrightarrow> reaches v w \<Longrightarrow> reaches u w"
  unfolding reaches_def by (meson rtranclp_trans)

lemma reaches_step: "(\<And>ps. sla_step (w, ps) (w', ps)) \<Longrightarrow> reaches w w'"
  unfolding reaches_def by blast

lemmas reaches_writes =
  reaches_step[OF settles] reaches_step[OF breaches] reaches_step[OF pauses] reaches_step[OF resumes]
  reaches_step[OF cancels] reaches_step[OF projects] reaches_step[OF refreshes] reaches_step[OF answers]

lemma start_metric_reaches: "reaches w (snd (start_metric env now t sj m w))"
proof (cases "start_plan env now t sj m w")
  case (Inr p)
  have "sla_step (w, ps) (w, p # ps)" "sla_step (w, p # ps) (snd (run_plan p w), p # ps)" for ps
    by (rule plans[OF Inr], rule runs) simp
  then have "sla_step\<^sup>*\<^sup>* (w, ps) (snd (run_plan p w), p # ps)" for ps
    by (meson rtranclp.rtrancl_into_rtrancl rtranclp.rtrancl_refl)
  with Inr show ?thesis by (cases "run_plan p w") (simp add: start_metric_def reaches_def, blast)
qed (simp add: start_metric_def)

lemma start_both_reaches: "reaches w (snd (start_response_and_resolution_clocks env now t sj w))"
proof -
  obtain a u where u: "start_metric env now t sj FirstResponse w = (a, u)" by (rule prod.exhaust)
  obtain b v where v: "start_metric env now t sj Resolution u = (b, v)" by (rule prod.exhaust)
  have "reaches w u" "reaches u v"
    using start_metric_reaches[of w env now t sj FirstResponse] start_metric_reaches[of u env now t sj Resolution] u v by simp_all
  then have "reaches w v" by (rule reaches_trans)
  with reaches_trans[OF this reaches_writes(7)] u v show ?thesis
    by (simp add: start_response_and_resolution_clocks_def split: sum.splits)
qed

lemma and_then_reaches:
  "reaches w (snd r) \<Longrightarrow> (\<And>a v. reaches v (snd (f a v))) \<Longrightarrow> reaches w (snd (and_then r f))"
  by (cases r) (auto simp: and_then_def split: sum.splits intro: reaches_trans)

lemma pause_reaches: "reaches w (snd (pause_all env now t cs w))"
proof (induction cs arbitrary: w)
  case (Cons c cs)
  obtain r v where v: "pause_all env now t [c] w = (r, v)" by (rule prod.exhaust)
  then have "reaches w v" using reaches_writes(3)[of w env now t c] by (simp del: pause_all.simps)
  then show ?case
    using v Cons[of v] by (auto simp: and_then_def split: sum.splits prod.splits intro: reaches_trans)
qed simp

lemma resume_reaches: "reaches w (snd (resume_all env now t cs w))"
proof (induction cs arbitrary: w)
  case (Cons c cs)
  obtain r v where v: "resume_all env now t [c] w = (r, v)" by (rule prod.exhaust)
  then have "reaches w v" using reaches_writes(4)[of w env now t c] by (simp del: resume_all.simps)
  then show ?case
    using v Cons[of v] by (auto simp: and_then_def split: sum.splits prod.splits intro: reaches_trans)
qed simp

lemma settle_each_reaches: "\<forall>c \<in> set cs. is_open (ck_status c) \<Longrightarrow> reaches w (snd (settle_each ks now met_at cs w))"
proof (induction cs arbitrary: w)
  case (Cons c cs)
  then have "reaches w (snd (settle_one (ks (ck_id c)) now met_at c w))" by (intro reaches_writes(1)) simp
  then show ?case using Cons by (auto intro: and_then_reaches)
qed simp

lemma settle_reaches: "reaches w (snd (settle_clocks ks now t sj ms met_at w))"
  unfolding settle_clocks_def by (rule settle_each_reaches) simp

lemma complete_reaches: "reaches w (snd (complete_subject ks now t sj w))"
  unfolding complete_subject_def
  by (rule and_then_reaches[OF settle_reaches]) (simp, meson reaches_trans reaches_writes)

lemma agent_turn_reaches: "reaches w (snd (on_agent_turn ks now t sj responded who w))"
  unfolding on_agent_turn_def
  by (rule and_then_reaches, rule reaches_trans[OF reaches_writes(8) settle_reaches]) (simp add: reaches_writes(7))

lemma restart_reaches: "reaches w (snd (restart_cycle env now t sj w))"
  unfolding restart_cycle_def by (meson start_both_reaches reaches_trans reaches_writes)

lemma customer_turn_reaches: "reaches w (snd (on_customer_turn env now t sj w))"
  unfolding on_customer_turn_def
  by (intro and_then_reaches start_metric_reaches) (auto intro!: and_then_reaches start_metric_reaches reaches_writes)

lemma scan_reaches: "reaches w (snd (breach_due_clocks ks now w))"
proof -
  have "reaches v (snd (breach_each active ks now cs v))" for active cs v
    by (induction cs arbitrary: v) (auto simp: and_then_snd intro!: and_then_reaches reaches_writes(2))
  then show ?thesis by (simp add: breach_due_clocks_def)
qed

lemma conversation_status_reaches: "reaches w (snd (on_conversation_status env ks now t i status w))"
  unfolding on_conversation_status_def pause_subject_def resume_subject_def Let_def
  using reaches_writes(7)
  by (simp add: and_then_reaches pause_reaches resume_reaches complete_reaches)

lemma ticket_status_reaches: "reaches w (snd (on_ticket_status env ks now t i ch w))"
  unfolding on_ticket_status_def pause_subject_def resume_subject_def Let_def
  by (simp add: and_then_reaches pause_reaches resume_reaches restart_reaches complete_reaches)

section \<open>Pauses\<close>

definition paused_clock :: "sla_env \<Rightarrow> int \<Rightarrow> string \<Rightarrow> sla_clock \<Rightarrow> sla_clock" where
  "paused_clock env now t c = c\<lparr>ck_status := CkPaused, ck_paused_at := Some now, ck_remaining :=
     Some (projr (calculate_business_minutes_between (se_clock env) (se_hours env t) now (ck_due c)))\<rparr>"

definition resumed_clock :: "sla_env \<Rightarrow> int \<Rightarrow> string \<Rightarrow> sla_clock \<Rightarrow> sla_clock" where
  "resumed_clock env now t c = c\<lparr>ck_status := CkRunning, ck_due := projr (calculate_sla_deadline (se_clock env) (se_hours env t)
       now (default_to (ck_target c) (ck_remaining c))), ck_paused_at := None, ck_remaining := None,
     ck_paused_ms := ck_paused_ms c + (case ck_paused_at c of Some p \<Rightarrow> now - p | None \<Rightarrow> 0)\<rparr>"

lemma update_by_id:
  assumes "unique_ids w" "c \<in> set (sw_clocks w)" "ck_status c = s"
  shows "update_clock (ck_id c) s f w = (Some (f c), w\<lparr>sw_clocks := map (\<lambda>d. if d = c then f d else d) (sw_clocks w)\<rparr>)"
proof -
  let ?P = "\<lambda>d. ck_id d = ck_id c \<and> ck_status d = s"
  obtain found cs where upd: "find_and_update ?P f (sw_clocks w) = (found, cs)" by (rule prod.exhaust)
  then obtain d where "found = Some d" using assms by (cases found) (auto simp: find_and_update_None)
  with upd obtain as e bs where split: "sw_clocks w = as @ e # bs" "cs = as @ d # bs" "d = f e" "?P e"
    by (auto elim!: find_and_update_split)
  have "e = c" using assms(1,2) split(1,4) unfolding unique_ids_def by (metis distinct_map in_set_conv_decomp inj_onD)
  moreover have "c \<notin> set as \<union> set bs" using assms(1) split(1) \<open>e = c\<close> unfolding unique_ids_def by auto
  then have "map (\<lambda>d. if d = c then f d else d) as = as" "map (\<lambda>d. if d = c then f d else d) bs = bs"
    by (auto intro!: map_idI)
  ultimately show ?thesis using upd split(1-3) \<open>found = Some d\<close> by (simp add: update_clock_def)
qed

text \<open>The loops write each clock of the list once.\<close>

definition write_all :: "(sla_clock \<Rightarrow> sla_clock) \<Rightarrow> sla_clock list \<Rightarrow> sla_world \<Rightarrow> sla_world" where
  "write_all g cs w = w\<lparr>sw_clocks := map (\<lambda>d. if d \<in> set cs then g d else d) (sw_clocks w)\<rparr>"

definition writable :: "clock_status \<Rightarrow> sla_clock list \<Rightarrow> sla_world \<Rightarrow> bool" where
  "writable s cs w \<longleftrightarrow> unique_ids w \<and> set cs \<subseteq> set (sw_clocks w) \<and> distinct cs \<and> (\<forall>c \<in> set cs. ck_status c = s)"

lemma write_next:
  assumes "writable s (c # cs) w" "\<And>d. ck_status (g d) \<noteq> s" "\<And>d. ck_id (g d) = ck_id d"
  shows "writable s cs (write_all g [c] w)" "write_all g cs (write_all g [c] w) = write_all g (c # cs) w"
    "update_clock (ck_id c) s (\<lambda>_. g c) w = (Some (g c), write_all g [c] w)"
proof -
  have c: "c \<notin> set cs" "c \<in> set (sw_clocks w)" "ck_status c = s" and gc: "g d \<notin> set cs" for d
    using assms(1,2) by (auto simp: writable_def)
  have "map ck_id (sw_clocks (write_all g [c] w)) = map ck_id (sw_clocks w)"
    using assms(3) by (simp add: write_all_def)
  then have "unique_ids (write_all g [c] w)" using assms(1) by (simp only: writable_def unique_ids_def)
  moreover have "set cs \<subseteq> set (sw_clocks (write_all g [c] w))"
    using assms(1) c(1) by (auto simp: writable_def write_all_def image_iff)
  ultimately show "writable s cs (write_all g [c] w)" using assms(1) by (simp add: writable_def)
  show "write_all g cs (write_all g [c] w) = write_all g (c # cs) w"
    using c gc by (simp add: write_all_def)
  have "(if d = c then g c else d) = (if d = c then g d else d)" for d by simp
  then show "update_clock (ck_id c) s (\<lambda>_. g c) w = (Some (g c), write_all g [c] w)"
    using update_by_id[of w c s "\<lambda>_. g c"] assms(1) c(2,3) by (simp add: writable_def write_all_def cong: if_cong)
qed

lemma write_none [simp]: "write_all g [] w = w"
  by (simp add: write_all_def)

lemma update_own:
  assumes "writable s (c # cs) w"
  shows "update_clock (ck_id c) s f w = update_clock (ck_id c) s (\<lambda>_. f c) w"
  using update_by_id[of w c s f] update_by_id[of w c s "\<lambda>_. f c"] assms by (simp add: writable_def cong: if_cong)

lemma pause_all_writes:
  "pause_all env now t cs w = (Inr n, w1) \<Longrightarrow> writable CkRunning cs w \<Longrightarrow> w1 = write_all (paused_clock env now t) cs w"
proof (induction cs arbitrary: n w)
  case (Cons c cs)
  let ?g = "paused_clock env now t"
  have g: "ck_status (?g d) \<noteq> CkRunning" "ck_id (?g d) = ck_id d" for d by (simp_all add: paused_clock_def)
  from Cons.prems(1) obtain rem where rem: "calculate_business_minutes_between (se_clock env) (se_hours env t) now (ck_due c) = Inr rem"
    by (auto split: sum.splits)
  have "update_clock (ck_id c) CkRunning
      (\<lambda>d. d\<lparr>ck_status := CkPaused, ck_paused_at := Some now, ck_remaining := Some rem\<rparr>) w = (Some (?g c), write_all ?g [c] w)"
    using write_next(3)[OF Cons.prems(2) g] rem by (subst update_own[OF Cons.prems(2)]) (simp add: paused_clock_def[of env now t c])
  with Cons.prems(1) rem obtain k where "pause_all env now t cs (write_all ?g [c] w) = (Inr k, w1)"
    by (cases "pause_all env now t cs (write_all ?g [c] w)") (auto simp: and_then_def split: sum.splits)
  from Cons.IH[OF this write_next(1)[OF Cons.prems(2) g]] write_next(2)[OF Cons.prems(2) g] show ?case by simp
qed simp

lemma resume_all_writes:
  "resume_all env now t cs w = (Inr n, w1) \<Longrightarrow> writable CkPaused cs w \<Longrightarrow> w1 = write_all (resumed_clock env now t) cs w"
proof (induction cs arbitrary: n w)
  case (Cons c cs)
  let ?g = "resumed_clock env now t"
  have g: "ck_status (?g d) \<noteq> CkPaused" "ck_id (?g d) = ck_id d" for d by (simp_all add: resumed_clock_def)
  from Cons.prems(1) obtain due where due: "calculate_sla_deadline (se_clock env) (se_hours env t) now
      (default_to (ck_target c) (ck_remaining c)) = Inr due"
    by (auto split: sum.splits)
  have "update_clock (ck_id c) CkPaused
      (\<lambda>d. d\<lparr>ck_status := CkRunning, ck_due := due, ck_paused_at := None, ck_remaining := None,
         ck_paused_ms := ck_paused_ms d + (case ck_paused_at c of Some p \<Rightarrow> now - p | None \<Rightarrow> 0)\<rparr>) w
      = (Some (?g c), write_all ?g [c] w)"
    using write_next(3)[OF Cons.prems(2) g] due by (subst update_own[OF Cons.prems(2)]) (simp add: resumed_clock_def[of env now t c])
  with Cons.prems(1) due obtain k where "resume_all env now t cs (write_all ?g [c] w) = (Inr k, w1)"
    by (cases "resume_all env now t cs (write_all ?g [c] w)") (auto simp: and_then_def split: sum.splits)
  from Cons.IH[OF this write_next(1)[OF Cons.prems(2) g]] write_next(2)[OF Cons.prems(2) g] show ?case by simp
qed simp

lemma unique_distinct: "unique_ids w \<Longrightarrow> distinct (sw_clocks w)"
  by (simp add: unique_ids_def distinct_map)

lemma pause_subject_writes:
  assumes "pause_subject env now t sj w = (Inr n, w1)" "unique_ids w"
  shows "w1 = write_all (paused_clock env now t) (filter (\<lambda>c. of_subject t sj c \<and> ck_status c = CkRunning) (sw_clocks w)) w"
    "unique_ids w1"
proof -
  show "w1 = write_all (paused_clock env now t) (filter (\<lambda>c. of_subject t sj c \<and> ck_status c = CkRunning) (sw_clocks w)) w"
    using assms pause_all_writes unique_distinct by (auto simp: pause_subject_def writable_def)
  then have "map ck_id (sw_clocks w1) = map ck_id (sw_clocks w)" by (simp add: write_all_def paused_clock_def)
  then show "unique_ids w1" using assms(2) by (simp add: unique_ids_def)
qed

lemma resume_subject_writes:
  assumes "resume_subject env now t sj w = (Inr n, w1)" "unique_ids w"
  shows "w1 = write_all (resumed_clock env now t) (filter (\<lambda>c. of_subject t sj c \<and> ck_status c = CkPaused) (sw_clocks w)) w"
  using assms resume_all_writes unique_distinct by (auto simp: resume_subject_def writable_def)

lemma paused_then_resumed:
  assumes "unique_ids w" "c \<in> set (sw_clocks w)" "of_subject t sj c" "ck_status c = CkRunning"
    and "pause_subject env now t sj w = (Inr n, w1)" "resume_subject env later t sj w1 = (Inr k, w2)"
  shows "resumed_clock env later t (paused_clock env now t c) \<in> set (sw_clocks w2)"
proof -
  note w1 = pause_subject_writes[OF assms(5,1)] and w2 = resume_subject_writes[OF assms(6) pause_subject_writes(2)[OF assms(5,1)]]
  have "paused_clock env now t c \<in> set (sw_clocks w1)"
    unfolding w1(1) using assms(2-4) by (force simp: write_all_def)
  moreover have "of_subject t sj (paused_clock env now t c)" "ck_status (paused_clock env now t c) = CkPaused"
    using assms(3) by (simp_all add: paused_clock_def of_subject_def)
  ultimately show ?thesis unfolding w2 by (force simp: write_all_def)
qed

text \<open>C36: A pause costs no working time, whenever it begins and ends: with a tidy schedule in the zone of the process, a
  running clock with a positive number of working minutes left, paused and later resumed, is due again that many working
  minutes after the resume (when its new deadline is found within the searched year, and at the start of the first day
  after it otherwise), however long the customer took, and the pause is booked to the millisecond.\<close>
theorem pause_keeps_the_budget:
  assumes "distinct (map ck_id (sw_clocks w))" "c \<in> set (sw_clocks w)" "of_subject t sj c" "ck_status c = CkRunning"
    and "pause_subject env now t sj w = (Inr n, w1)" "resume_subject env later t sj w1 = (Inr k, w2)"
    and "calculate_business_minutes_between (se_clock env) (se_hours env t) now (ck_due c) = Inr left" "0 < left"
    and "se_hours env t = Some cfg" "tidy cfg"
    and "ce_zone (se_clock env) (default_to ''UTC'' (truthy_id (bh_timezone cfg))) = Some (\<lambda>_. ce_server (se_clock env))"
  shows "\<exists>d \<in> set (sw_clocks w2). ck_id d = ck_id c \<and> ck_status d = CkRunning \<and> ck_paused_ms d = ck_paused_ms c + (later - now)
    \<and> later < ck_due d
    \<and> (if day_of (se_clock env) (ck_due d) < day_of (se_clock env) later + int max_deadline_days
       then calculate_business_minutes_between (se_clock env) (se_hours env t) later (ck_due d) = Inr left
       else ck_due d = day_start (se_clock env) (day_of (se_clock env) later + int max_deadline_days))"
proof (rule bexI[OF _ paused_then_resumed[OF assms(1)[folded unique_ids_def] assms(2-6)]], intro conjI)
  let ?d = "resumed_clock env later t (paused_clock env now t c)"
  show "ck_id ?d = ck_id c" "ck_status ?d = CkRunning" "ck_paused_ms ?d = ck_paused_ms c + (later - now)"
    by (simp_all add: resumed_clock_def paused_clock_def)
  obtain due where due: "calculate_sla_deadline (se_clock env) (Some cfg) later left = Inr due" "later < due"
    "if day_of (se_clock env) due < day_of (se_clock env) later + int max_deadline_days
     then calculate_business_minutes_between (se_clock env) (Some cfg) later due = Inr left
     else due = day_start (se_clock env) (day_of (se_clock env) later + int max_deadline_days)"
    using deadline_and_minutes[OF assms(10,11,8)] by blast
  then have "ck_due ?d = due" using assms(7,9) by (simp add: resumed_clock_def paused_clock_def)
  with due(2,3) assms(9) show "later < ck_due ?d"
    "if day_of (se_clock env) (ck_due ?d) < day_of (se_clock env) later + int max_deadline_days
     then calculate_business_minutes_between (se_clock env) (se_hours env t) later (ck_due ?d) = Inr left
     else ck_due ?d = day_start (se_clock env) (day_of (se_clock env) later + int max_deadline_days)"
    by simp_all
qed

section \<open>Reopening\<close>

definition fresh_or_cancelled :: "int \<Rightarrow> string \<Rightarrow> sla_subject \<Rightarrow> sla_world \<Rightarrow> bool" where
  "fresh_or_cancelled now t sj w \<longleftrightarrow> (\<forall>c \<in> set (sw_clocks w). of_subject t sj c \<longrightarrow>
     ck_status c = CkCancelled \<or> ck_status c = CkRunning \<and> ck_started c = now)"

lemma all_cancelled: "fresh_or_cancelled now t sj (cancel_clocks (\<lambda>c. of_subject t sj c \<and> ck_status c \<noteq> CkCancelled) w)"
proof -
  have "of_subject t sj (if P then c\<lparr>ck_status := CkCancelled\<rparr> else c) = of_subject t sj c" for P c
    by (simp add: of_subject_def)
  then show ?thesis unfolding fresh_or_cancelled_def cancel_clocks_def by fastforce
qed

lemma planned_clock: "start_plan env now t sj m w = Inr (Insert c) \<Longrightarrow> ck_status c = CkRunning \<and> ck_started c = now"
  by (auto simp: start_plan_def Let_def bind_result_def split: option.splits list.splits sum.splits if_splits)

lemma start_metric_fresh:
  "fresh_or_cancelled now t sj w \<Longrightarrow> fresh_or_cancelled now t sj (snd (start_metric env now t' sj' m w))"
  by (auto simp: start_metric_def run_plan_def insert_clock_def fresh_or_cancelled_def Let_def dest!: planned_clock
      split: sum.splits clock_plan.splits option.splits prod.splits)

text \<open>a reopened ticket starts over: after the reopening every clock of the ticket is either cancelled or a
  running clock started at the reopening, even when a start fails, so no deadline of the previous cycle can breach it.\<close>
theorem reopened_ticket_starts_over:
  assumes "sc_reopen ch"
  shows "\<forall>c \<in> set (sw_clocks (snd (on_ticket_status env ks now t i ch w))). of_subject t (Ticket, i) c \<longrightarrow>
     ck_status c = CkCancelled \<or> ck_status c = CkRunning \<and> ck_started c = now"
proof -
  let ?sj = "(Ticket, i)"
  let ?v = "project t ?sj (nothing_projected\<lparr>pj_breached := Some None\<rparr>)
    (cancel_clocks (\<lambda>c. of_subject t ?sj c \<and> ck_status c \<noteq> CkCancelled) w)"
  have "fresh_or_cancelled now t ?sj ?v"
    using all_cancelled[of now t ?sj w] by (simp add: fresh_or_cancelled_def)
  moreover obtain a v1 where a: "start_metric env now t ?sj FirstResponse ?v = (a, v1)" by (rule prod.exhaust)
  moreover obtain b v2 where b: "start_metric env now t ?sj Resolution v1 = (b, v2)" by (rule prod.exhaust)
  ultimately have "fresh_or_cancelled now t ?sj v2"
    using start_metric_fresh[of now t ?sj ?v env t ?sj FirstResponse] start_metric_fresh[of now t ?sj v1 env t ?sj Resolution]
    by simp
  moreover have "sw_clocks (snd (on_ticket_status env ks now t i ch w)) = sw_clocks v2"
    using assms a b
    by (simp add: on_ticket_status_def restart_cycle_def start_response_and_resolution_clocks_def split: sum.splits)
  ultimately show ?thesis by (simp add: fresh_or_cancelled_def)
qed

text \<open>A reopened conversation does not: settled clocks of the previous cycle stay, and no clock is started.\<close>

lemma settled_is_final:
  assumes "latest_clock t sj m w = Some c" "ck_status c \<noteq> CkCancelled" "m \<noteq> NextResponse"
  shows "snd (start_metric env now t sj m w) = w"
  using assms by (auto simp: start_metric_def start_plan_def run_plan_def Let_def split: option.splits list.splits sum.splits)

lemma reopened_conversation_starts_nothing:
  assumes "latest_clock t (Conversation, i) FirstResponse w = Some a" "ck_status a = CkMet"
    and "latest_clock t (Conversation, i) Resolution w = Some b" "ck_status b = CkMet"
  shows "sw_clocks (snd (on_conversation_reopened env now t i w)) = sw_clocks w"
proof -
  have "snd (start_metric env now t (Conversation, i) FirstResponse w) = w"
    "snd (start_metric env now t (Conversation, i) Resolution w) = w"
    using assms by (auto intro: settled_is_final)
  then show ?thesis
    by (auto simp: on_conversation_reopened_def start_response_and_resolution_clocks_def split: prod.splits sum.splits)
qed

text \<open>A status of a ticket that pauses or resumes its clocks leaves the deadlines on the ticket as they were.\<close>

lemma write_subjects [simp]: "sw_subjects (write_all g cs w) = sw_subjects w"
  by (simp add: write_all_def)

lemma ticket_pause_keeps_deadline:
  assumes "\<not> sc_reopen ch" "\<not> sc_terminal ch" "unique_ids w" "on_ticket_status env ks now t i ch w = (Inr (), w1)"
  shows "sw_subjects w1 = sw_subjects w"
proof -
  have "sw_subjects w1 = sw_subjects w" if "pause_subject env now t (Ticket, i) w = (Inr n, w1)" for n
    using pause_subject_writes(1)[OF that assms(3)] by simp
  moreover have "sw_subjects w1 = sw_subjects w" if "resume_subject env now t (Ticket, i) w = (Inr n, w1)" for n
    using resume_subject_writes[OF that assms(3)] by simp
  ultimately show ?thesis
    using assms(1,2,4)
    by (cases "pause_subject env now t (Ticket, i) w"; cases "resume_subject env now t (Ticket, i) w")
       (auto simp: on_ticket_status_def and_then_def Let_def split: if_splits sum.splits)
qed

section \<open>Instances\<close>

definition demo_policy :: "sla_metric \<Rightarrow> sla_policy" where
  "demo_policy m = \<lparr>sp_id = ''p1'', sp_tenant = ''t1'', sp_applies = Conversation, sp_metric = m,
     sp_targets = [\<lparr>tg_segment = None, tg_value = 2, tg_unit = ''hours''\<rparr>], sp_enabled = True, sp_priority = 0\<rparr>"

definition demo_row :: subject_row where
  "demo_row = \<lparr>sj_tenant = ''t1'', sj_deleted = False, sj_priority = None, sj_first_due = None, sj_resolution_due = None,
     sj_policy = None, sj_breached = False, sj_due = None, sj_due_metric = None, sj_breached_at = None, sj_first_response = None\<rparr>"

definition demo_world :: sla_world where
  "demo_world = \<lparr>sw_clocks = [], sw_policies = [demo_policy FirstResponse], sw_subjects = (\<lambda>_. Some demo_row), sw_events = [],
     sw_next = 0\<rparr>"

definition demo_env :: sla_env where
  "demo_env = \<lparr>se_clock = zone_env 0 0, se_hours = (\<lambda>_. Some office)\<rparr>"

definition demo_clock :: "nat \<Rightarrow> clock_status \<Rightarrow> sla_clock" where
  "demo_clock n st = \<lparr>ck_id = n, ck_tenant = ''t1'', ck_subject = (Conversation, ''c1''), ck_policy = ''p1'',
     ck_metric = FirstResponse, ck_cycle = 1, ck_status = st, ck_target = 120, ck_started = friday_17, ck_due = monday_10,
     ck_paused_at = None, ck_remaining = None, ck_paused_ms = 0, ck_met_at = None, ck_breached_at = None, ck_segment = None\<rparr>"

abbreviation demo_subject :: sla_subject where
  "demo_subject \<equiv> (Conversation, ''c1'')"

lemma demo_plan: "start_plan demo_env friday_17 ''t1'' demo_subject FirstResponse demo_world = Inr (Insert (demo_clock 0 CkRunning))"
proof -
  have "calculate_sla_deadline (zone_env 0 0) (Some office) friday_17 120 = Inr monday_10"
    using office_deadline[of 0] by simp
  then show ?thesis
    by (simp add: start_plan_def load_context_def find_applicable_def choose_target_def latest_clock_def demo_world_def demo_row_def
        demo_policy_def demo_env_def demo_clock_def to_minutes_def Let_def)
qed

definition demo_started :: sla_world where
  "demo_started = snd (insert_clock (demo_clock 0 CkRunning) demo_world)"

lemma demo_started_clocks: "sw_clocks demo_started = [demo_clock 0 CkRunning]"
  by (simp add: demo_started_def insert_clock_def demo_world_def Let_def) (simp add: demo_clock_def)

lemma sla_demo_run: "sla_step\<^sup>*\<^sup>* (demo_world, []) (demo_started, [Insert (demo_clock 0 CkRunning), Insert (demo_clock 0 CkRunning)])"
proof -
  let ?p = "Insert (demo_clock 0 CkRunning)"
  have "sla_step (demo_world, []) (demo_world, [?p])" "sla_step (demo_world, [?p]) (demo_world, [?p, ?p])"
    using plans[OF demo_plan] by simp_all
  moreover have "sla_step (demo_world, [?p, ?p]) (demo_started, [?p, ?p])"
    using runs[of ?p "[?p, ?p]" demo_world] by (simp add: run_plan_def demo_started_def)
  ultimately show ?thesis by (meson rtranclp.rtrancl_into_rtrancl rtranclp.rtrancl_refl)
qed

lemma sla_demo_run_twice:
  "sla_step\<^sup>*\<^sup>* (demo_world, []) (snd (insert_clock (demo_clock 0 CkRunning) demo_started),
     [Insert (demo_clock 0 CkRunning), Insert (demo_clock 0 CkRunning)])"
  using sla_demo_run runs[of "Insert (demo_clock 0 CkRunning)" _ demo_started]
  by (auto simp: run_plan_def intro: rtranclp.rtrancl_into_rtrancl)

lemma demo_fresh: "fresh_engine demo_world"
  by (simp add: fresh_engine_def demo_world_def)

text \<open>Two workers that start the same clock at once: one clock results.\<close>

theorem one_open_clock_per_metric_witness:
  "length (filter (\<lambda>c. clock_key ''t1'' demo_subject FirstResponse c \<and> is_open (ck_status c))
     (sw_clocks (snd (insert_clock (demo_clock 0 CkRunning) demo_started)))) \<le> 1"
  using one_open_clock_per_metric[OF demo_fresh sla_demo_run_twice] by blast

text \<open>Both listeners then settle it, one after the other: one event.\<close>

definition demo_breached :: sla_world where
  "demo_breached = snd (settle_one 4 (monday_10 + 1) (monday_10 + 1) (demo_clock 0 CkRunning) demo_started)"

theorem breaches_announced_once_witness:
  "map ck_status (sw_clocks demo_breached) = [CkBreached] \<and> length (sw_events demo_breached) = 1
   \<and> distinct (map be_clock (sw_events (snd (settle_one 4 (monday_10 + 1) (monday_10 + 1) (demo_clock 0 CkRunning) demo_breached))))"
proof -
  let ?ps = "[Insert (demo_clock 0 CkRunning), Insert (demo_clock 0 CkRunning)]" and ?c = "demo_clock 0 CkRunning"
  let ?v = "snd (settle_one 4 (monday_10 + 1) (monday_10 + 1) ?c demo_breached)"
  have c: "?c \<in> set (sw_clocks demo_started)" "ck_status ?c = CkRunning" "ck_due ?c < monday_10 + 1"
    by (simp_all add: demo_started_clocks) (simp_all add: demo_clock_def)
  have "is_open (ck_status ?c)" using c(2) by (simp add: is_open_def)
  then have "sla_step\<^sup>*\<^sup>* (demo_world, []) (?v, ?ps)"
    using sla_demo_run settles[of ?c demo_started ?ps 4 "monday_10 + 1" "monday_10 + 1"]
      settles[of ?c demo_breached ?ps 4 "monday_10 + 1" "monday_10 + 1"]
    unfolding demo_breached_def by (meson rtranclp.rtrancl_into_rtrancl)
  from breaches_announced_once[OF demo_fresh this] have "distinct (map be_clock (sw_events ?v))" by blast
  moreover have "map ck_status (sw_clocks demo_breached) = [CkBreached]" "length (sw_events demo_breached) = 1" by code_simp+
  ultimately show ?thesis by simp
qed

text \<open>
  The cron tick has no tenant context: the query for the deadlines still running throws, so the tick ends after the first
  clock, which is breached for good and never announced.
\<close>

lemma breach_tick_stops_unannounced:
  "let w = demo_world\<lparr>sw_clocks := [demo_clock 0 CkRunning, (demo_clock 1 CkRunning)\<lparr>ck_subject := (Conversation, ''c2'')\<rparr>]\<rparr>;
       (r, v) = breach_due_clocks (\<lambda>_. 9) monday_10 w
   in r = Inl ''Missing activeTenantId'' \<and> map ck_status (sw_clocks v) = [CkBreached, CkRunning] \<and> sw_events v = []"
  by code_simp

text \<open>Paused on Friday at 17:00 with two hours left, resumed on Monday at 10:00: due on Monday at 12:00.\<close>

lemma monday_deadline: "calculate_sla_deadline (zone_env 0 0) (Some office) monday_10 120 = Inr (monday_10 + 7200000)"
proof -
  have server: "ce_server (zone_env 0 0) = 0" by (simp add: zone_env_def)
  have now: "get_now (zone_env 0 0) tz monday_10 = monday_10" for tz
    by (simp add: get_now_def zone_env_def monday_10_def)
  have "deadline_loop (zone_env 0 0) office (Suc n) monday_10 120 = Inr (monday_10 + 7200000)" for n
    by (cases n) (simp_all add: office_days consume_working_slots_def office_slots slot_minutes_def office_times Let_def
        day_of_def minute_of_day_def at_minute_def advance_to_next_day_def day_start_def server day_length_def monday_10_def)
  from this[of 364] have "deadline_loop (zone_env 0 0) office max_deadline_days monday_10 120 = Inr (monday_10 + 7200000)"
    by (simp add: max_deadline_days_def)
  then show ?thesis by (simp add: calculate_sla_deadline_def now)
qed

lemma office_zone: "ce_zone (zone_env 0 0) tz = Some (\<lambda>_. ce_server (zone_env 0 0))"
  by (simp add: zone_env_def)

lemma friday_left: "calculate_business_minutes_between (zone_env 0 0) (Some office) friday_17 monday_10 = Inr 120"
  using deadline_and_minutes[OF office_tidy office_zone, of 120 friday_17] office_deadline[of 0]
  by (simp add: day_of_def zone_env_def friday_17_def monday_10_def day_length_def max_deadline_days_def)

lemma demo_simps [simp]:
  "se_clock demo_env = zone_env 0 0" "se_hours demo_env t = Some office" "ck_due (demo_clock n st) = monday_10"
  "ck_id (demo_clock n st) = n" "ck_status (demo_clock n st) = st" "of_subject ''t1'' demo_subject (demo_clock n st)"
  "ck_paused_ms (demo_clock n st) = 0"
  by (simp_all add: demo_env_def demo_clock_def of_subject_def)

definition demo_paused :: sla_world where
  "demo_paused = demo_started\<lparr>sw_clocks := [paused_clock demo_env friday_17 ''t1'' (demo_clock 0 CkRunning)]\<rparr>"

lemma demo_pause: "pause_subject demo_env friday_17 ''t1'' demo_subject demo_started = (Inr 1, demo_paused)"
  using friday_left
  by (simp add: pause_subject_def demo_started_clocks and_then_def update_clock_def demo_paused_def paused_clock_def)

lemma demo_resume: "fst (resume_subject demo_env monday_10 ''t1'' demo_subject demo_paused) = Inr 1"
  using friday_left monday_deadline
  by (simp add: resume_subject_def demo_paused_def paused_clock_def of_subject_def and_then_def update_clock_def)
     (simp add: demo_clock_def)

theorem pause_keeps_the_budget_witness:
  "\<exists>d \<in> set (sw_clocks (snd (resume_subject demo_env monday_10 ''t1'' demo_subject demo_paused))).
     ck_status d = CkRunning \<and> ck_paused_ms d = monday_10 - friday_17"
proof -
  let ?r = "resume_subject demo_env monday_10 ''t1'' demo_subject demo_paused"
  have r: "?r = (Inr 1, snd ?r)" using demo_resume by (metis prod.collapse)
  have "demo_clock 0 CkRunning \<in> set (sw_clocks demo_started)" "distinct (map ck_id (sw_clocks demo_started))"
    by (simp_all add: demo_started_clocks)
  from pause_keeps_the_budget[OF this(2,1) _ _ demo_pause r, of 120 office] show ?thesis
    using friday_left office_tidy office_zone by (auto simp: zone_env_def)
qed

definition reopen_change :: status_change where
  "reopen_change = \<lparr>sc_reopen = True, sc_terminal = False, sc_pauses = False, sc_previous_pauses = None\<rparr>"

definition ticket_clock :: sla_clock where
  "ticket_clock = (demo_clock 0 CkBreached)\<lparr>ck_subject := (Ticket, ''k1'')\<rparr>"

theorem reopened_ticket_starts_over_witness:
  "filter (\<lambda>c. of_subject ''t1'' (Ticket, ''k1'') c \<and> ck_status c \<in> {CkPaused, CkMet, CkBreached})
     (sw_clocks (snd (on_ticket_status demo_env (\<lambda>_. 9) monday_10 ''t1'' ''k1'' reopen_change (demo_world\<lparr>sw_clocks := [ticket_clock]\<rparr>)))) = []"
proof -
  have "sc_reopen reopen_change" by (simp add: reopen_change_def)
  from reopened_ticket_starts_over[OF this, of demo_env "\<lambda>_. 9" monday_10 "''t1''" "''k1''" "demo_world\<lparr>sw_clocks := [ticket_clock]\<rparr>"]
  show ?thesis by (fastforce simp: filter_empty_conv)
qed

end
