(* ===== verification/Tenant_Filter.thy ===== *)
theory Tenant_Filter
  imports Js_Value
begin

text \<open>
  The tenant filter every Mongoose schema carries (\<open>src/src/common/plugins/tenant-filter.plugin.ts\<close>): the rewriting
  of query filters, of the first stage of aggregations and of updates, and the check on saved and inserted documents;
  the context of a request or job (\<open>src/src/common/cls/cls-context.helper.ts\<close>, \<open>common/tenancy\<close>). What
  MongoDB makes of a filter and whether a text is an ObjectId are parameters.
\<close>

section \<open>Values and context\<close>

text \<open>\<open>JOther\<close> is any value that is no plain object or array: a date, an ObjectId, a regular expression.\<close>

datatype jval = JMissing | JNull | JBool bool | JNumber int | JText string | JOid string | JOther string
  | JArray "jval list" | JObject "(string \<times> jval) list"

datatype tenant_error = MissingContext | LegacySkip | TenantMutation | CrossTenantWrite | NotCallable | InvalidId

record cls_store =
  cl_active :: "string option"
  cl_tenant :: "string option"

definition get_tenant_id :: "cls_store \<Rightarrow> string option" where
  "get_tenant_id c = or_else (truthy_id (cl_active c)) (truthy_id (cl_tenant c))"

definition run_with_tenant_context :: "string \<Rightarrow> (string, cls_store) result" where
  "run_with_tenant_context t = (if t = [] then Inl ''Missing tenantId'' else Inr \<lparr>cl_active = Some t, cl_tenant = Some t\<rparr>)"

text \<open>\<open>None\<close> stands for a process without a CLS service.\<close>

definition get_active_tenant_id :: "cls_store option \<Rightarrow> (tenant_error, string) result" where
  "get_active_tenant_id cls =
     (case cls of
        None \<Rightarrow> Inl MissingContext
      | Some c \<Rightarrow> (case get_tenant_id c of None \<Rightarrow> Inl MissingContext | Some t \<Rightarrow> Inr t))"

section \<open>Schemas\<close>

datatype schema_path = SchemaPath (sp_instance: string) (sp_caster: "string option") (sp_schema: "(string \<times> schema_path) list option")

type_synonym mongo_schema = "(string \<times> schema_path) list"

record plugin_env =
  pl_schema :: mongo_schema
  pl_valid_id :: "string \<Rightarrow> bool"

text \<open>The walk goes on into a sub-schema; a leaf that is no ObjectId has a text, not a function, as its \<open>path\<close>.\<close>

fun nested_walk :: "(string \<Rightarrow> bool) \<Rightarrow> mongo_schema option \<Rightarrow> string list \<Rightarrow> string \<Rightarrow> (tenant_error, jval) result" where
  "nested_walk ok sch [] t = Inr (JText t)"
| "nested_walk ok None (p # ps) t = Inl NotCallable"
| "nested_walk ok (Some sch) (p # ps) t =
     (case map_of sch p of
        None \<Rightarrow> Inr (JText t)
      | Some info \<Rightarrow>
          (case sp_schema info of
             Some sub \<Rightarrow> nested_walk ok (Some sub) ps t
           | None \<Rightarrow>
               if sp_instance info = ''ObjectId'' \<and> ok t then Inr (JOid t)
               else if sp_caster info = Some ''ObjectId'' then (if ok t then Inr (JOid t) else Inl InvalidId)
               else nested_walk ok None ps t))"

definition resolve_nested_tenant_path :: "plugin_env \<Rightarrow> string \<Rightarrow> string \<Rightarrow> (tenant_error, jval) result" where
  "resolve_nested_tenant_path env f t = nested_walk (pl_valid_id env) (Some (pl_schema env)) (split_on (CHR ''.'') f) t"

definition cast_tenant_for_aggregate :: "plugin_env \<Rightarrow> string \<Rightarrow> string \<Rightarrow> jval" where
  "cast_tenant_for_aggregate env f t =
     (case map_of (pl_schema env) f of
        Some info \<Rightarrow> if sp_instance info = ''ObjectId'' \<and> pl_valid_id env t then JOid t else JText t
      | None \<Rightarrow> JText t)"

definition dotted :: "string \<Rightarrow> bool" where
  "dotted f \<longleftrightarrow> CHR ''.'' \<in> set f"

definition cast_tenant_for_query :: "plugin_env \<Rightarrow> string \<Rightarrow> string \<Rightarrow> (tenant_error, jval) result" where
  "cast_tenant_for_query env f t =
     (if map_of (pl_schema env) f = None \<and> dotted f then resolve_nested_tenant_path env f t
      else Inr (cast_tenant_for_aggregate env f t))"

section \<open>Looking for the tenant field\<close>

definition next_path :: "string \<Rightarrow> string \<Rightarrow> string" where
  "next_path path key = (if starts_with key ''$'' then path else if path = [] then key else path @ ''.'' @ key)"

fun contains_field :: "string \<Rightarrow> string \<Rightarrow> jval \<Rightarrow> bool"
  and items_contain :: "string \<Rightarrow> string \<Rightarrow> jval list \<Rightarrow> bool"
  and entries_contain :: "string \<Rightarrow> string \<Rightarrow> (string \<times> jval) list \<Rightarrow> bool" where
  "contains_field f path (JArray xs) = items_contain f path xs"
| "contains_field f path (JObject es) = entries_contain f path es"
| "contains_field f path v = False"
| "items_contain f path [] = False"
| "items_contain f path (x # xs) = (contains_field f path x \<or> items_contain f path xs)"
| "entries_contain f path [] = False"
| "entries_contain f path ((k, v) # es) =
     (next_path path k = f \<or> contains_field f (next_path path k) v \<or> entries_contain f path es)"

definition is_empty_filter :: "jval \<Rightarrow> bool" where
  "is_empty_filter v \<longleftrightarrow> v = JArray [] \<or> v = JObject []"

fun strip_field :: "string \<Rightarrow> string \<Rightarrow> jval \<Rightarrow> jval"
  and strip_items :: "string \<Rightarrow> string \<Rightarrow> jval list \<Rightarrow> jval list"
  and strip_entries :: "string \<Rightarrow> string \<Rightarrow> (string \<times> jval) list \<Rightarrow> (string \<times> jval) list" where
  "strip_field f path (JArray xs) = (if items_contain f path xs then JArray (strip_items f path xs) else JArray xs)"
| "strip_field f path (JObject es) = (if entries_contain f path es then JObject (strip_entries f path es) else JObject es)"
| "strip_field f path v = v"
| "strip_items f path [] = []"
| "strip_items f path (x # xs) =
     (let y = strip_field f path x in if is_empty_filter y then strip_items f path xs else y # strip_items f path xs)"
| "strip_entries f path [] = []"
| "strip_entries f path ((k, v) # es) =
     (if next_path path k = f then strip_entries f path es
      else let y = strip_field f (next_path path k) v in
           if is_empty_filter y then strip_entries f path es else (k, y) # strip_entries f path es)"

section \<open>Queries and aggregations\<close>

record query_options =
  qo_platform :: bool
  qo_skip :: bool
  qo_upsert :: bool

record mongo_query =
  mq_filter :: "(string \<times> jval) list"
  mq_update :: "jval option"
  mq_options :: query_options
  mq_filtered :: bool

definition tenant_query :: "string \<Rightarrow> jval \<Rightarrow> (string \<times> jval) list \<Rightarrow> (string \<times> jval) list" where
  "tenant_query f t es =
     (case strip_field f [] (JObject es) of
        JObject [] \<Rightarrow> [(f, t)]
      | v \<Rightarrow> [(''$and'', JArray [v, JObject [(f, t)]])])"

definition apply_tenant_filter :: "plugin_env \<Rightarrow> string \<Rightarrow> cls_store option \<Rightarrow> mongo_query \<Rightarrow> (tenant_error, mongo_query) result" where
  "apply_tenant_filter env f cls q =
     (if mq_filtered q then Inr q
      else if qo_platform (mq_options q) then Inr q
      else if qo_skip (mq_options q) then Inl LegacySkip
      else bind_result (get_active_tenant_id cls) (\<lambda>t.
             bind_result (cast_tenant_for_query env f t) (\<lambda>v.
               Inr (q\<lparr>mq_filter := tenant_query f v (mq_filter q), mq_filtered := True\<rparr>))))"

record aggregation =
  ag_pipeline :: "jval list"
  ag_options :: query_options
  ag_filtered :: bool

definition key_of :: "string \<Rightarrow> jval \<Rightarrow> jval option" where
  "key_of k v = (case v of JObject es \<Rightarrow> map_of es k | _ \<Rightarrow> None)"

definition truthy_stage :: "string \<Rightarrow> jval \<Rightarrow> bool" where
  "truthy_stage k v \<longleftrightarrow> (case key_of k v of
     None \<Rightarrow> False | Some x \<Rightarrow> x \<notin> {JMissing, JNull, JBool False, JNumber 0, JText []})"

definition put_key :: "string \<Rightarrow> jval \<Rightarrow> jval \<Rightarrow> jval" where
  "put_key k x v = (case v of
     JObject es \<Rightarrow> JObject (if k \<in> fst ` set es then map (\<lambda>(a, b). if a = k then (a, x) else (a, b)) es else es @ [(k, x)])
   | _ \<Rightarrow> v)"

definition match_stage :: "string \<Rightarrow> jval \<Rightarrow> jval" where
  "match_stage f t = JObject [(''$match'', JObject [(f, t)])]"

definition tenant_geo_near :: "string \<Rightarrow> jval \<Rightarrow> jval \<Rightarrow> jval" where
  "tenant_geo_near f t g =
     put_key ''query'' (if truthy_stage ''query'' g
       then JObject [(''$and'', JArray [the (key_of ''query'' g), JObject [(f, t)]])] else JObject [(f, t)]) g"

definition tenant_pipeline :: "string \<Rightarrow> jval \<Rightarrow> jval list \<Rightarrow> jval list" where
  "tenant_pipeline f t ps =
     (case ps of
        [] \<Rightarrow> [match_stage f t]
      | p # rest \<Rightarrow>
          if truthy_stage ''$geoNear'' p then put_key ''$geoNear'' (tenant_geo_near f t (the (key_of ''$geoNear'' p))) p # rest
          else if truthy_stage ''$search'' p \<or> truthy_stage ''$vectorSearch'' p then p # match_stage f t # rest
          else match_stage f t # p # rest)"

definition apply_tenant_filter_to_aggregate ::
  "plugin_env \<Rightarrow> string \<Rightarrow> cls_store option \<Rightarrow> aggregation \<Rightarrow> (tenant_error, aggregation) result" where
  "apply_tenant_filter_to_aggregate env f cls a =
     (if ag_filtered a then Inr a
      else if qo_platform (ag_options a) then Inr a
      else if qo_skip (ag_options a) then Inl LegacySkip
      else bind_result (get_active_tenant_id cls) (\<lambda>t.
             Inr (a\<lparr>ag_pipeline := tenant_pipeline f (cast_tenant_for_aggregate env f t) (ag_pipeline a), ag_filtered := True\<rparr>)))"

section \<open>Writes\<close>

definition is_missing_value :: "jval \<Rightarrow> bool" where
  "is_missing_value v \<longleftrightarrow> v = JMissing \<or> v = JNull \<or> v = JText []"

text \<open>\<open>String(item)\<close> of a tenant id; other values never read like one.\<close>

definition id_text :: "jval \<Rightarrow> string option" where
  "id_text v = (case v of JText s \<Rightarrow> Some s | JOid s \<Rightarrow> Some s | _ \<Rightarrow> None)"

definition assert_tenant_value_matches :: "jval \<Rightarrow> string \<Rightarrow> (tenant_error, unit) result" where
  "assert_tenant_value_matches v t =
     (let vs = (case v of JArray xs \<Rightarrow> xs | _ \<Rightarrow> [v]) in
      if list_ex (\<lambda>x. \<not> is_missing_value x \<and> id_text x \<noteq> Some t) vs then Inl CrossTenantWrite else Inr ())"

text \<open>An absent key and an explicit null or empty text are set to the active tenant; another value must be it.\<close>

definition enforce_tenant_on_plain_document :: "string \<Rightarrow> string \<Rightarrow> (string \<times> jval) list \<Rightarrow> (tenant_error, (string \<times> jval) list) result" where
  "enforce_tenant_on_plain_document f t doc =
     (let v = default_to JMissing (map_of doc f) in
      if is_missing_value v then
        Inr (if f \<in> fst ` set doc then map (\<lambda>(a, b). if a = f then (a, JText t) else (a, b)) doc else doc @ [(f, JText t)])
      else bind_result (assert_tenant_value_matches v t) (\<lambda>_. Inr doc))"

definition enforce_tenant_on_document ::
  "string \<Rightarrow> cls_store option \<Rightarrow> bool \<Rightarrow> (string \<times> jval) list \<Rightarrow> (tenant_error, (string \<times> jval) list) result" where
  "enforce_tenant_on_document f cls platform doc =
     (if platform then Inr doc else bind_result (get_active_tenant_id cls) (\<lambda>t. enforce_tenant_on_plain_document f t doc))"

fun insert_many :: "string \<Rightarrow> cls_store option \<Rightarrow> (string \<times> jval) list list \<Rightarrow> (tenant_error, (string \<times> jval) list list) result" where
  "insert_many f cls [] = Inr []"
| "insert_many f cls (d # ds) =
     bind_result (get_active_tenant_id cls) (\<lambda>t. bind_result (enforce_tenant_on_plain_document f t d) (\<lambda>d1.
       bind_result (insert_many f cls ds) (\<lambda>ds1. Inr (d1 # ds1))))"

definition rename_touches_tenant :: "string \<Rightarrow> (string \<times> jval) list \<Rightarrow> bool" where
  "rename_touches_tenant f payload \<longleftrightarrow> list_ex (\<lambda>(a, b). a = f \<or> b = JText f) payload"

fun handle_atomic_update_operators :: "string \<Rightarrow> (string \<times> jval) list \<Rightarrow> (tenant_error, (string \<times> jval) list) result" where
  "handle_atomic_update_operators f [] = Inr []"
| "handle_atomic_update_operators f ((op, payload) # rest) =
     bind_result
       (case payload of
          JObject es \<Rightarrow>
            if op = ''$setOnInsert'' then Inr (op, strip_field f [] (JObject es))
            else if op = ''$rename'' then (if rename_touches_tenant f es then Inl TenantMutation else Inr (op, payload))
            else if contains_field f [] payload then Inl TenantMutation else Inr (op, payload)
        | _ \<Rightarrow> Inr (op, payload))
       (\<lambda>e. bind_result (handle_atomic_update_operators f rest) (\<lambda>es. Inr (e # es)))"

definition has_atomic_update_operator :: "(string \<times> jval) list \<Rightarrow> bool" where
  "has_atomic_update_operator es \<longleftrightarrow> list_ex (\<lambda>(k, v). starts_with k ''$'') es"

definition set_on_insert :: "string \<Rightarrow> string \<Rightarrow> (string \<times> jval) list \<Rightarrow> (string \<times> jval) list" where
  "set_on_insert f t es =
     (case put_key ''$setOnInsert''
        (put_key f (JText t) (case map_of es ''$setOnInsert'' of Some (JObject xs) \<Rightarrow> JObject xs | _ \<Rightarrow> JObject [])) (JObject es)
      of JObject xs \<Rightarrow> xs | _ \<Rightarrow> es)"

definition protect_tenant_mutation :: "string \<Rightarrow> cls_store option \<Rightarrow> mongo_query \<Rightarrow> (tenant_error, mongo_query) result" where
  "protect_tenant_mutation f cls q =
     (if qo_platform (mq_options q) then Inr q
      else case mq_update q of
        None \<Rightarrow> Inr q
      | Some u \<Rightarrow>
          bind_result (get_active_tenant_id cls) (\<lambda>t.
            case u of
              JArray xs \<Rightarrow> if contains_field f [] u then Inl TenantMutation else Inr q
            | JObject es \<Rightarrow>
                if \<not> has_atomic_update_operator es
                then bind_result (enforce_tenant_on_plain_document f t es) (\<lambda>d. Inr (q\<lparr>mq_update := Some (JObject d)\<rparr>))
                else bind_result (handle_atomic_update_operators f es) (\<lambda>es1.
                       Inr (q\<lparr>mq_update := Some (JObject (if qo_upsert (mq_options q) \<and> \<not> dotted f then set_on_insert f t es1 else es1))\<rparr>))
            | _ \<Rightarrow> Inr q))"

text \<open>The hook of every query operation: the filter, then the update.\<close>

definition query_hook :: "plugin_env \<Rightarrow> string \<Rightarrow> bool \<Rightarrow> cls_store option \<Rightarrow> mongo_query \<Rightarrow> (tenant_error, mongo_query) result" where
  "query_hook env f protect cls q =
     bind_result (apply_tenant_filter env f cls q) (\<lambda>q1. if protect then protect_tenant_mutation f cls q1 else Inr q1)"

end
