(* ===== verification/Tenant_Context.thy ===== *)
theory Tenant_Context
  imports Tenant_Filter
begin

text \<open>
  The tenant context of a request (\<open>src/src/common/interceptors/tenant.interceptor.ts\<close>,
  \<open>src/src/common/tenant/tenant-header.policy.ts\<close>): hints from subdomain, header, session and token; the
  identity; the first hint that resolves; the membership check behind its cache; the locale. The directory is read at
  the instant of the request; sessions, tokens and the test for an ObjectId are parameters. Redis, users, tenants and
  sessions can each be down.
\<close>

section \<open>Requests and environment\<close>

record jwt_user =
  ju_sub :: "string option"
  ju_email :: "string option"
  ju_tenant :: "string option"
  ju_provider :: "string option"

datatype header_value = HeaderText string | HeaderList "string list"

record http_request =
  hr_alias :: "string option"
  hr_headers :: "string \<rightharpoonup> header_value"
  hr_sid :: "string option"
  hr_user :: "jwt_user option"
  hr_path :: string
  hr_original_url :: "string option"
  hr_ip :: string

record bff_session =
  bs_user :: string
  bs_token :: string

record token_payload =
  tp_email :: "string option"
  tp_tenant :: "string option"

record user_row =
  ur_tenants :: "(string option \<times> string list option) list option"
  ur_org_unit :: "string option"
  ur_locale :: "string option"
  ur_timezone :: "string option"

record tenant_row =
  tr_locale :: "string option"
  tr_timezone :: "string option"

record directory =
  di_users :: "string \<rightharpoonup> user_row"
  di_keycloak :: "string \<times> string \<rightharpoonup> string"
  di_alias :: "string \<rightharpoonup> string"
  di_org :: "string \<rightharpoonup> string"
  di_tenants :: "string \<rightharpoonup> tenant_row"

record context_env =
  ce_production :: bool
  ce_allow_header :: bool
  ce_directory :: directory
  ce_sessions :: "string \<rightharpoonup> bff_session"
  ce_decode :: "string \<rightharpoonup> token_payload"
  ce_valid_id :: "string \<Rightarrow> bool"
  ce_redis_up :: bool
  ce_users_up :: bool
  ce_tenants_up :: bool
  ce_sessions_up :: bool

record cached_membership =
  cm_roles :: "string list"
  cm_org_unit :: "string option"

type_synonym 'a expiring = "string \<rightharpoonup> 'a \<times> int"

text \<open>A cached null is \<open>None\<close>: not a member.\<close>

record context_cache =
  cc_alias :: "string expiring"
  cc_keycloak :: "string expiring"
  cc_member :: "string \<times> string \<rightharpoonup> cached_membership option \<times> int"
  cc_i18n :: "(string \<times> string) expiring"
  cc_i18n_lock :: "string \<rightharpoonup> int"
  cc_user_i18n :: "(string option \<times> string option) expiring"

definition live :: "int \<Rightarrow> ('a \<times> int) option \<Rightarrow> 'a option" where
  "live now e = (case e of Some (v, until) \<Rightarrow> if now < until then Some v else None | None \<Rightarrow> None)"

record request_context =
  rc_ip :: "string option"
  rc_sid :: "string option"
  rc_jwt :: "jwt_user option"
  rc_user :: "string option"
  rc_email :: "string option"
  rc_tenant :: "string option"
  rc_active :: "string option"
  rc_roles :: "string list option"
  rc_role :: "string option"
  rc_org_unit :: "string option option"
  rc_locale :: "string option"
  rc_timezone :: "string option"
  rc_source :: "string option"

definition empty_context :: request_context where
  "empty_context = \<lparr>rc_ip = None, rc_sid = None, rc_jwt = None, rc_user = None, rc_email = None, rc_tenant = None,
     rc_active = None, rc_roles = None, rc_role = None, rc_org_unit = None, rc_locale = None, rc_timezone = None,
     rc_source = None\<rparr>"

datatype context_error = NotAMember | MembershipUnavailable | TenantRequired

definition tenant_alias_cache_ttl :: int where "tenant_alias_cache_ttl = 300000"
definition tenant_i18n_cache_ttl :: int where "tenant_i18n_cache_ttl = 300000"
definition user_keycloak_cache_ttl :: int where "user_keycloak_cache_ttl = 300000"

section \<open>Hints\<close>

definition is_tenant_header_trusted :: "context_env \<Rightarrow> bool" where
  "is_tenant_header_trusted env \<longleftrightarrow> \<not> ce_production env \<and> ce_allow_header env"

definition read_trusted_tenant_header :: "context_env \<Rightarrow> http_request \<Rightarrow> string option" where
  "read_trusted_tenant_header env rq =
     (if \<not> is_tenant_header_trusted env then None
      else case hr_headers rq ''x-tenant-id'' of
        Some (HeaderList vs) \<Rightarrow> first_of vs
      | Some (HeaderText v) \<Rightarrow> truthy_id (Some v)
      | None \<Rightarrow> None)"

definition option_list :: "'a option \<Rightarrow> 'a list" where
  "option_list v = (case v of None \<Rightarrow> [] | Some x \<Rightarrow> [x])"

definition collect_raw_identifiers ::
  "context_env \<Rightarrow> http_request \<Rightarrow> request_context \<Rightarrow> string list \<times> string option \<times> string option \<times> request_context" where
  "collect_raw_identifiers env rq cx =
     (let hints = option_list (truthy_id (hr_alias rq)) @ option_list (truthy_id (read_trusted_tenant_header env rq))
            @ (case hr_user rq of Some u \<Rightarrow> option_list (truthy_id (ju_tenant u)) | None \<Rightarrow> []);
          cx1 = (case truthy_id (hr_sid rq) of Some s \<Rightarrow> cx\<lparr>rc_sid := Some s\<rparr> | None \<Rightarrow> cx);
          cx2 = (case hr_user rq of Some u \<Rightarrow> cx1\<lparr>rc_jwt := Some u\<rparr> | None \<Rightarrow> cx1)
      in (hints, Option.bind (hr_user rq) ju_sub, Option.bind (hr_user rq) ju_email, cx2))"

section \<open>Identity\<close>

definition resolve_bff_session ::
  "context_env \<Rightarrow> string \<Rightarrow> string list \<Rightarrow> request_context \<Rightarrow> string list \<times> request_context" where
  "resolve_bff_session env sid hints cx =
     (if \<not> ce_sessions_up env then (hints, cx)
      else case ce_sessions env sid of
        None \<Rightarrow> (hints, cx)
      | Some s \<Rightarrow>
          (let cx1 = cx\<lparr>rc_user := Some (bs_user s)\<rparr> in
           case ce_decode env (bs_token s) of
             None \<Rightarrow> (hints, cx1)
           | Some p \<Rightarrow>
               (hints @ option_list (truthy_id (tp_tenant p)),
                (case truthy_id (tp_email p) of Some e \<Rightarrow> cx1\<lparr>rc_email := Some e\<rparr> | None \<Rightarrow> cx1))))"

definition resolve_jwt_identity :: "string option \<Rightarrow> string option \<Rightarrow> request_context \<Rightarrow> request_context" where
  "resolve_jwt_identity user email cx =
     cx\<lparr>rc_user := (if truthy_id (rc_user cx) = None \<and> truthy_id user \<noteq> None then user else rc_user cx),
        rc_email := (if truthy_id (rc_email cx) = None \<and> truthy_id email \<noteq> None then email else rc_email cx)\<rparr>"

definition resolve_keycloak_user ::
  "context_env \<Rightarrow> int \<Rightarrow> string \<Rightarrow> request_context \<Rightarrow> context_cache \<Rightarrow> request_context \<times> context_cache" where
  "resolve_keycloak_user env now user cx cc =
     (case (if ce_redis_up env then truthy_id (live now (cc_keycloak cc user)) else None) of
        Some i \<Rightarrow> (cx\<lparr>rc_user := Some i\<rparr>, cc)
      | None \<Rightarrow>
          if \<not> ce_users_up env then (cx, cc)
          else case di_keycloak (ce_directory env) (user, default_to ''email'' (Option.bind (rc_jwt cx) ju_provider)) of
            None \<Rightarrow> (cx, cc)
          | Some i \<Rightarrow> (cx\<lparr>rc_user := Some i\<rparr>,
              if ce_redis_up env then cc\<lparr>cc_keycloak := (cc_keycloak cc)(user \<mapsto> (i, now + user_keycloak_cache_ttl))\<rparr> else cc))"

definition resolve_identity ::
  "context_env \<Rightarrow> int \<Rightarrow> string list \<Rightarrow> string option \<Rightarrow> string option \<Rightarrow> request_context \<Rightarrow> context_cache
   \<Rightarrow> string list \<times> request_context \<times> context_cache" where
  "resolve_identity env now hints user email cx cc =
     (let (hints1, cx1) = (case truthy_id (rc_sid cx) of Some sid \<Rightarrow> resolve_bff_session env sid hints cx | None \<Rightarrow> (hints, cx));
          cx2 = resolve_jwt_identity user email cx1
      in case rc_user cx2 of
           Some u \<Rightarrow> (if CHR ''-'' \<in> set u then (hints1, resolve_keycloak_user env now u cx2 cc) else (hints1, cx2, cc))
         | None \<Rightarrow> (hints1, cx2, cc))"

section \<open>Tenant\<close>

definition is_hex_id :: "string \<Rightarrow> bool" where
  "is_hex_id s \<longleftrightarrow> length s = 24 \<and> list_all (\<lambda>c. c \<in> set ''0123456789abcdefABCDEF'') s"

fun resolve_tenant ::
  "context_env \<Rightarrow> int \<Rightarrow> string list \<Rightarrow> request_context \<Rightarrow> context_cache \<Rightarrow> request_context \<times> context_cache" where
  "resolve_tenant env now [] cx cc = (cx, cc)"
| "resolve_tenant env now (hint # hints) cx cc =
     (if hint = [] then resolve_tenant env now hints cx cc
      else if is_hex_id hint then (cx\<lparr>rc_tenant := Some hint\<rparr>, cc)
      else case (if ce_redis_up env then truthy_id (live now (cc_alias cc hint)) else None) of
        Some t \<Rightarrow> (cx\<lparr>rc_tenant := Some t\<rparr>, cc)
      | None \<Rightarrow>
          if \<not> ce_tenants_up env then resolve_tenant env now hints cx cc
          else case or_else (di_alias (ce_directory env) hint) (di_org (ce_directory env) hint) of
            None \<Rightarrow> resolve_tenant env now hints cx cc
          | Some t \<Rightarrow> (cx\<lparr>rc_tenant := Some t\<rparr>,
              if ce_redis_up env then cc\<lparr>cc_alias := (cc_alias cc)(hint \<mapsto> (t, now + tenant_alias_cache_ttl))\<rparr> else cc))"

definition set_tenant_roles :: "string list \<Rightarrow> request_context \<Rightarrow> request_context" where
  "set_tenant_roles roles cx =
     cx\<lparr>rc_roles := Some roles,
        rc_role := Some (if ''OWNER'' \<in> set roles then ''OWNER'' else if ''ADMIN'' \<in> set roles then ''ADMIN''
                         else default_to [] (first_of roles))\<rparr>"

definition apply_membership :: "cached_membership \<Rightarrow> request_context \<Rightarrow> request_context" where
  "apply_membership m cx = (set_tenant_roles (cm_roles m) cx)\<lparr>rc_org_unit := Some (cm_org_unit m)\<rparr>"

definition membership_in :: "directory \<Rightarrow> string \<Rightarrow> string \<Rightarrow> cached_membership option" where
  "membership_in d t u =
     (let row = di_users d u;
          unit = Option.bind row (\<lambda>r. truthy_id (ur_org_unit r));
          found = Option.bind row (\<lambda>r. Option.bind (ur_tenants r) (List.find (\<lambda>m. fst m = Some t)))
      in map_option (\<lambda>m. \<lparr>cm_roles = default_to [] (snd m), cm_org_unit = unit\<rparr>) found)"

definition verify_tenant_membership ::
  "context_env \<Rightarrow> int \<Rightarrow> string \<Rightarrow> string \<Rightarrow> request_context \<Rightarrow> context_cache
   \<Rightarrow> (context_error, request_context) result \<times> context_cache" where
  "verify_tenant_membership env now t u cx cc =
     (if \<not> ce_redis_up env then (Inl MembershipUnavailable, cc)
      else case live now (cc_member cc (t, u)) of
        Some (Some m) \<Rightarrow> (Inr (apply_membership m cx), cc)
      | Some None \<Rightarrow> (Inl NotAMember, cc)
      | None \<Rightarrow>
          if \<not> ce_users_up env then (Inl MembershipUnavailable, cc)
          else (let m = membership_in (ce_directory env) t u;
                    cc1 = cc\<lparr>cc_member := (cc_member cc)((t, u) \<mapsto> (m, now + user_keycloak_cache_ttl))\<rparr>
                in (case m of None \<Rightarrow> Inl NotAMember | Some m \<Rightarrow> Inr (apply_membership m cx), cc1)))"

definition is_tenant_context_optional_route :: "http_request \<Rightarrow> bool" where
  "is_tenant_context_optional_route rq =
     (let path = default_to [] (or_else (truthy_id (Some (hr_path rq))) (hr_original_url rq)) in
      list_ex (\<lambda>p. path = p \<or> starts_with path (p @ ''/'')) [''/'', ''/docs'', ''/queues'', ''/api/v1/auth'', ''/api/v1/onboarding''])"

definition reject_missing_tenant_context :: "http_request \<Rightarrow> request_context \<Rightarrow> (context_error, unit) result" where
  "reject_missing_tenant_context rq cx =
     (if truthy_id (rc_user cx) = None \<or> is_tenant_context_optional_route rq then Inr () else Inl TenantRequired)"

section \<open>Locale\<close>

definition resolve_tenant_i18n :: "context_env \<Rightarrow> int \<Rightarrow> string \<Rightarrow> context_cache \<Rightarrow> (string \<times> string) \<times> context_cache" where
  "resolve_tenant_i18n env now t cc =
     (if \<not> ce_redis_up env then ((''en'', ''UTC''), cc)
      else case live now (cc_i18n cc t) of
        Some v \<Rightarrow> (v, cc)
      | None \<Rightarrow>
          if (case cc_i18n_lock cc t of Some until \<Rightarrow> now < until | None \<Rightarrow> False) then ((''en'', ''UTC''), cc)
          else if \<not> ce_tenants_up env then ((''en'', ''UTC''), cc\<lparr>cc_i18n_lock := (cc_i18n_lock cc)(t := None)\<rparr>)
          else (let row = di_tenants (ce_directory env) t;
                    v = (default_to ''en'' (Option.bind row tr_locale), default_to ''UTC'' (Option.bind row tr_timezone))
                in (v, cc\<lparr>cc_i18n := (cc_i18n cc)(t \<mapsto> (v, now + tenant_i18n_cache_ttl)), cc_i18n_lock := (cc_i18n_lock cc)(t := None)\<rparr>)))"

definition resolve_user_i18n_override ::
  "context_env \<Rightarrow> int \<Rightarrow> request_context \<Rightarrow> string \<Rightarrow> string \<times> string \<Rightarrow> context_cache \<Rightarrow> (string \<times> string) \<times> context_cache" where
  "resolve_user_i18n_override env now cx u v cc =
     (case (if ce_redis_up env then live now (cc_user_i18n cc u) else None) of
        Some (l, z) \<Rightarrow> ((default_to (fst v) l, default_to (snd v) z), cc)
      | None \<Rightarrow>
          if (ce_valid_id env u \<or> CHR ''-'' \<in> set u) \<and> \<not> ce_users_up env then (v, cc)
          else (let d = ce_directory env;
                    row = (if ce_valid_id env u then di_users d u
                           else if CHR ''-'' \<in> set u
                           then Option.bind (di_keycloak d (u, default_to ''email'' (Option.bind (rc_jwt cx) ju_provider))) (di_users d)
                           else None);
                    prefs = (Option.bind row ur_locale, Option.bind row ur_timezone)
                in ((default_to (fst v) (fst prefs), default_to (snd v) (snd prefs)),
                    if ce_redis_up env then cc\<lparr>cc_user_i18n := (cc_user_i18n cc)(u \<mapsto> (prefs, now + user_keycloak_cache_ttl))\<rparr> else cc)))"

definition resolve_i18n_context :: "context_env \<Rightarrow> int \<Rightarrow> string \<Rightarrow> request_context \<Rightarrow> context_cache \<Rightarrow> request_context \<times> context_cache" where
  "resolve_i18n_context env now t cx cc =
     (let (v, cc1) = resolve_tenant_i18n env now t cc;
          (w, cc2) = (case truthy_id (rc_user cx) of Some u \<Rightarrow> resolve_user_i18n_override env now cx u v cc1 | None \<Rightarrow> (v, cc1))
      in (cx\<lparr>rc_locale := Some (fst w), rc_timezone := Some (snd w)\<rparr>, cc2))"

section \<open>The interceptor\<close>

definition forwarded_ip :: "http_request \<Rightarrow> string option" where
  "forwarded_ip rq =
     (case hr_headers rq ''x-forwarded-for'' of
        Some (HeaderList vs) \<Rightarrow> first_of vs
      | Some (HeaderText v) \<Rightarrow> map_option trim (first_of (split_on (CHR '','') v))
      | None \<Rightarrow> None)"

definition resolve_context ::
  "context_env \<Rightarrow> int \<Rightarrow> http_request \<Rightarrow> context_cache \<Rightarrow> (context_error, request_context) result \<times> context_cache" where
  "resolve_context env now rq cc =
     (let cx0 = empty_context\<lparr>rc_ip := Some (default_to (hr_ip rq) (forwarded_ip rq))\<rparr>;
          (hints, user, email, cx1) = collect_raw_identifiers env rq cx0;
          (hints1, cx2, cc1) = resolve_identity env now hints user email cx1 cc;
          (cx3, cc2) = resolve_tenant env now hints1 cx2 cc1;
          (r, cc3) = (case (rc_tenant cx3, truthy_id (rc_user cx3)) of
             (Some t, Some u) \<Rightarrow>
               if ce_valid_id env u \<and> \<not> is_tenant_context_optional_route rq then verify_tenant_membership env now t u cx3 cc2
               else (Inr cx3, cc2)
           | _ \<Rightarrow> (Inr cx3, cc2))
      in case r of
           Inl e \<Rightarrow> (Inl e, cc3)
         | Inr cx4 \<Rightarrow>
             (case rc_tenant cx4 of
                None \<Rightarrow> (case reject_missing_tenant_context rq cx4 of
                           Inl e \<Rightarrow> (Inl e, cc3) | Inr _ \<Rightarrow> (Inr (cx4\<lparr>rc_source := Some ''M''\<rparr>), cc3))
              | Some t \<Rightarrow>
                  (let (cx5, cc4) = resolve_i18n_context env now t (cx4\<lparr>rc_active := Some t\<rparr>) cc3
                   in (Inr (cx5\<lparr>rc_source := Some ''M''\<rparr>), cc4))))"

end
