(* ===== verification/Tenant_Filter_Safety.thy ===== *)
theory Tenant_Filter_Safety
  imports Tenant_Filter
begin

text \<open>
  No tenant predicate of a caller survives, every filtered query and aggregation reads documents of the active tenant
  only, no accepted write moves a document to another tenant, and without a context everything fails; the update shapes
  that slip through.
\<close>

section \<open>Sanitised filters\<close>

lemma strip_nothing:
  "\<not> contains_field f path v \<Longrightarrow> strip_field f path v = v"
  by (cases v) auto

lemma stripped_clean:
  "\<not> contains_field f path (strip_field f path v)"
  "\<not> items_contain f path (strip_items f path xs)"
  "\<not> entries_contain f path (strip_entries f path es)"
  by (induction f path v and f path xs and f path es rule: strip_field_strip_items_strip_entries.induct)
     (auto simp: Let_def)

text \<open>sanitising a filter removes every predicate on the tenant field, at any depth and under any operator, and a
  filter without one reaches the database as it was written, so an empty list that means "nothing" stays.\<close>
theorem sanitised_filter_has_no_tenant:
  "\<not> contains_field f path (strip_field f path v)
   \<and> (contains_field f path v \<or> strip_field f path v = v)
   \<and> strip_field f path (strip_field f path v) = strip_field f path v"
  using stripped_clean(1) strip_nothing by blast

text \<open>A sibling of the tenant field that is an empty list or object is removed with it, although it is a predicate.\<close>

lemma empty_sibling_is_dropped:
  "strip_field f [] (JObject [(f, v), (k, JArray [])]) = JObject []" if "f \<noteq> []" "\<not> starts_with f ''$''"
  using that by (simp add: next_path_def is_empty_filter_def)

section \<open>Reads\<close>

lemma stripped_object: "\<exists>es'. strip_field f path (JObject es) = JObject es'"
  by (cases "entries_contain f path es") auto

lemma tenant_query_of:
  "strip_field f [] (JObject es) = JObject rest \<Longrightarrow>
   tenant_query f t es = (if rest = [] then [(f, t)] else [(''$and'', JArray [JObject rest, JObject [(f, t)]])])"
  unfolding tenant_query_def by (cases rest) (simp_all del: strip_field.simps)

lemma applied_filter:
  assumes "apply_tenant_filter env f cls q = Inr q1" "\<not> mq_filtered q" "\<not> qo_platform (mq_options q)"
  obtains t v where "get_active_tenant_id cls = Inr t" "cast_tenant_for_query env f t = Inr v"
    "q1 = q\<lparr>mq_filter := tenant_query f v (mq_filter q), mq_filtered := True\<rparr>"
  using assms by (auto simp: apply_tenant_filter_def bind_result_def split: if_splits sum.splits)

lemma filtered_query:
  fixes matches :: "(string \<times> jval) list \<Rightarrow> 'd \<Rightarrow> bool" and belongs :: "jval \<Rightarrow> 'd \<Rightarrow> bool"
  assumes "\<forall>a b d. matches [(''$and'', JArray [JObject a, JObject b])] d \<longleftrightarrow> matches a d \<and> matches b d"
    and "\<forall>v d. matches [(f, v)] d \<longleftrightarrow> belongs v d"
    and "apply_tenant_filter env f cls q = Inr q1" "\<not> mq_filtered q" "\<not> qo_platform (mq_options q)"
  shows "\<exists>t v rest. get_active_tenant_id cls = Inr t \<and> cast_tenant_for_query env f t = Inr v
    \<and> strip_field f [] (JObject (mq_filter q)) = JObject rest
    \<and> (\<forall>d. matches (mq_filter q1) d \<longleftrightarrow> belongs v d \<and> (rest = [] \<or> matches rest d))"
proof -
  obtain t v where tv: "get_active_tenant_id cls = Inr t" "cast_tenant_for_query env f t = Inr v"
    "q1 = q\<lparr>mq_filter := tenant_query f v (mq_filter q), mq_filtered := True\<rparr>"
    using applied_filter[OF assms(3-5)] .
  obtain rest where rest: "strip_field f [] (JObject (mq_filter q)) = JObject rest" using stripped_object by blast
  have "matches (mq_filter q1) d \<longleftrightarrow> belongs v d \<and> (rest = [] \<or> matches rest d)" for d
    using assms(1,2) by (auto simp: tv(3) tenant_query_of[OF rest])
  with tv(1,2) rest show ?thesis by blast
qed

text \<open>whatever filter a caller builds, what a query of a tenant's collection matches are documents of the active
  tenant, and of those exactly the ones that meet the rest of the filter.\<close>
theorem queries_are_isolated:
  fixes matches :: "(string \<times> jval) list \<Rightarrow> 'd \<Rightarrow> bool" and belongs :: "jval \<Rightarrow> 'd \<Rightarrow> bool"
  assumes "\<forall>a b d. matches [(''$and'', JArray [JObject a, JObject b])] d \<longleftrightarrow> matches a d \<and> matches b d"
    and "\<forall>v d. matches [(f, v)] d \<longleftrightarrow> belongs v d"
    and "apply_tenant_filter env f cls q = Inr q1" "\<not> mq_filtered q" "\<not> qo_platform (mq_options q)"
  shows "\<exists>t v rest. get_active_tenant_id cls = Inr t \<and> cast_tenant_for_query env f t = Inr v
    \<and> strip_field f [] (JObject (mq_filter q)) = JObject rest
    \<and> (\<forall>d. matches (mq_filter q1) d \<longleftrightarrow> belongs v d \<and> (rest = [] \<or> matches rest d))"
  by (rule filtered_query[OF assms])


lemma map_of_replace: "f \<in> fst ` set d \<Longrightarrow> map_of (map (\<lambda>(a, b). if a = f then (a, x) else (a, b)) d) f = Some x"
  by (induction d) auto

lemma map_of_append_new: "f \<notin> fst ` set d \<Longrightarrow> map_of (d @ [(f, x)]) f = Some x"
  by (induction d) auto

lemma put_key_own: "put_key k x (JObject es) = JObject es1 \<Longrightarrow> map_of es1 k = Some x"
  by (auto simp: put_key_def simp del: map_of_append split: if_splits intro!: map_of_replace map_of_append_new)

lemma put_key_object: "\<exists>es1. put_key k x (JObject es) = JObject es1"
  by (simp add: put_key_def)




section \<open>Writes\<close>

definition carries :: "string \<Rightarrow> string \<Rightarrow> (string \<times> jval) list \<Rightarrow> bool" where
  "carries f t d \<longleftrightarrow> (\<exists>v. map_of d f = Some v \<and>
     (id_text v = Some t \<or> (\<exists>xs. v = JArray xs \<and> (\<forall>x \<in> set xs. is_missing_value x \<or> id_text x = Some t))))"

lemma enforced_carries:
  assumes "enforce_tenant_on_plain_document f t d = Inr d1"
  shows "carries f t d1"
proof (cases "is_missing_value (default_to JMissing (map_of d f))")
  case True
  then have "map_of d1 f = Some (JText t)"
    using assms map_of_replace[of f d "JText t"] map_of_append_new[of f d "JText t"]
    by (auto simp: enforce_tenant_on_plain_document_def simp del: map_of_append split: if_splits)
  then show ?thesis by (simp add: carries_def id_text_def)
next
  case False
  then obtain v where v: "map_of d f = Some v" by (cases "map_of d f") (auto simp: is_missing_value_def)
  with False assms show ?thesis
    by (cases v) (auto simp: enforce_tenant_on_plain_document_def assert_tenant_value_matches_def bind_result_def carries_def
        is_missing_value_def list_ex_iff Let_def split: if_splits)
qed

text \<open>C32: what is saved or inserted belongs to the active tenant: a document without a tenant gets it, one with another
  tenant is refused, and one refused document refuses the whole insertion.\<close>
theorem saved_documents_belong_to_tenant:
  "(\<forall>d1. enforce_tenant_on_document f cls False d = Inr d1 \<longrightarrow> (\<exists>t. get_active_tenant_id cls = Inr t \<and> carries f t d1))
   \<and> (\<forall>out. insert_many f cls ds = Inr out \<longrightarrow> length out = length ds
        \<and> (\<forall>d1 \<in> set out. \<exists>t. get_active_tenant_id cls = Inr t \<and> carries f t d1))"
proof -
  have "length out = length ds \<and> (\<forall>d1 \<in> set out. \<exists>t. get_active_tenant_id cls = Inr t \<and> carries f t d1)"
    if "insert_many f cls ds = Inr out" for out
    using that by (induction ds arbitrary: out) (auto simp: bind_result_def dest: enforced_carries split: sum.splits)
  then show ?thesis
    by (auto simp: enforce_tenant_on_document_def bind_result_def dest: enforced_carries split: sum.splits)
qed

definition operators_only :: "(string \<times> jval) list \<Rightarrow> bool" where
  "operators_only es \<longleftrightarrow> (\<forall>(op, payload) \<in> set es. starts_with op ''$'')"

lemma handled_operators:
  "handle_atomic_update_operators f es = Inr es1 \<Longrightarrow> (op, JObject payload) \<in> set es1 \<Longrightarrow> op \<noteq> ''$rename'' \<Longrightarrow> \<not> contains_field f [] (JObject payload)"
proof (induction f es arbitrary: es1 rule: handle_atomic_update_operators.induct)
  case (2 f op' payload' rest)
  then show ?case
    using stripped_clean(1)[of f "[]" payload']
    by (auto simp: bind_result_def split: sum.splits jval.splits if_splits)
qed simp

lemma handled_rename:
  "handle_atomic_update_operators f es = Inr es1 \<Longrightarrow> (''$rename'', JObject payload) \<in> set es1 \<Longrightarrow> \<not> rename_touches_tenant f payload"
  by (induction f es arbitrary: es1 rule: handle_atomic_update_operators.induct)
     (auto simp: bind_result_def split: sum.splits jval.splits if_splits)

lemma put_key_set:
  "put_key k x (JObject es) = JObject es1 \<Longrightarrow> (a, b) \<in> set es1 \<Longrightarrow> a = k \<and> b = x \<or> a \<noteq> k \<and> (a, b) \<in> set es"
  by (force simp: put_key_def split: if_splits)

lemma set_on_insert_in:
  assumes "(op, payload) \<in> set (set_on_insert f t es)"
  shows "op = ''$setOnInsert'' \<and> (\<exists>xs. payload = JObject xs \<and> map_of xs f = Some (JText t)) \<or> op \<noteq> ''$setOnInsert'' \<and> (op, payload) \<in> set es"
proof -
  obtain base where base: "(case map_of es ''$setOnInsert'' of Some (JObject xs) \<Rightarrow> JObject xs | _ \<Rightarrow> JObject []) = JObject base"
    by (cases "map_of es ''$setOnInsert''"; cases "the (map_of es ''$setOnInsert'')") auto
  obtain own where own: "put_key f (JText t) (JObject base) = JObject own" using put_key_object by blast
  obtain es1 where es1: "put_key ''$setOnInsert'' (JObject own) (JObject es) = JObject es1" using put_key_object by blast
  have "set_on_insert f t es = es1" unfolding set_on_insert_def base own es1 by simp
  with assms put_key_set[OF es1] put_key_own[OF own] show ?thesis by blast
qed

lemma set_on_insert_tenant:
  "\<exists>xs. map_of (set_on_insert f t es) ''$setOnInsert'' = Some (JObject xs) \<and> map_of xs f = Some (JText t)"
proof -
  obtain base where base: "(case map_of es ''$setOnInsert'' of Some (JObject xs) \<Rightarrow> JObject xs | _ \<Rightarrow> JObject []) = JObject base"
    by (cases "map_of es ''$setOnInsert''"; cases "the (map_of es ''$setOnInsert'')") auto
  obtain own where own: "put_key f (JText t) (JObject base) = JObject own" using put_key_object by blast
  obtain es1 where es1: "put_key ''$setOnInsert'' (JObject own) (JObject es) = JObject es1" using put_key_object by blast
  have "set_on_insert f t es = es1" unfolding set_on_insert_def base own es1 by simp
  with put_key_own[OF es1] put_key_own[OF own] show ?thesis by blast
qed

text \<open>C31: an accepted replacement carries the active tenant; in an accepted update by operators no operand that is an
  object names the tenant field, but for the active tenant in $setOnInsert, and no rename moves it; and an upsert by
  operators always sets the active tenant on insertion. (Keys beside the operators, and pipelines that compute the
  document, are not covered: the code accepts them.)\<close>
theorem updates_keep_tenant:
  assumes "protect_tenant_mutation f cls q = Inr q1" "mq_update q = Some (JObject es)" "\<not> qo_platform (mq_options q)"
  shows "\<exists>t es1. get_active_tenant_id cls = Inr t \<and> mq_update q1 = Some (JObject es1)
    \<and> (\<not> has_atomic_update_operator es \<longrightarrow> carries f t es1)
    \<and> (has_atomic_update_operator es \<longrightarrow>
         (\<forall>op payload. (op, JObject payload) \<in> set es1 \<longrightarrow>
            (if op = ''$rename'' then \<not> rename_touches_tenant f payload
             else if op = ''$setOnInsert'' then \<not> contains_field f [] (JObject payload) \<or> map_of payload f = Some (JText t)
             else \<not> contains_field f [] (JObject payload)))
         \<and> (qo_upsert (mq_options q) \<and> \<not> dotted f \<longrightarrow>
              (\<exists>xs. map_of es1 ''$setOnInsert'' = Some (JObject xs) \<and> map_of xs f = Some (JText t))))"
proof -
  obtain t where t: "get_active_tenant_id cls = Inr t"
    using assms by (auto simp: protect_tenant_mutation_def bind_result_def split: sum.splits)
  show ?thesis
  proof (cases "has_atomic_update_operator es")
    case False
    with assms t obtain d where "enforce_tenant_on_plain_document f t es = Inr d" "q1 = q\<lparr>mq_update := Some (JObject d)\<rparr>"
      by (auto simp: protect_tenant_mutation_def bind_result_def split: sum.splits)
    with False t enforced_carries show ?thesis by auto
  next
    case True
    with assms t obtain es1 where es1: "handle_atomic_update_operators f es = Inr es1"
      "mq_update q1 = Some (JObject (if qo_upsert (mq_options q) \<and> \<not> dotted f then set_on_insert f t es1 else es1))"
      by (auto simp: protect_tenant_mutation_def bind_result_def split: sum.splits)
    have kept: "if op = ''$rename'' then \<not> rename_touches_tenant f payload else \<not> contains_field f [] (JObject payload)"
      if "(op, JObject payload) \<in> set es1" for op payload
      using handled_operators[OF es1(1) that] handled_rename[OF es1(1), of payload] that by auto
    have "if op = ''$rename'' then \<not> rename_touches_tenant f payload
       else if op = ''$setOnInsert'' then \<not> contains_field f [] (JObject payload) \<or> map_of payload f = Some (JText t)
       else \<not> contains_field f [] (JObject payload)"
      if "(op, JObject payload) \<in> set (if qo_upsert (mq_options q) \<and> \<not> dotted f then set_on_insert f t es1 else es1)" for op payload
    proof (cases "qo_upsert (mq_options q) \<and> \<not> dotted f")
      case True
      with that set_on_insert_in[of op "JObject payload" f t es1] kept[of op payload] show ?thesis by auto
    next
      case False
      with that kept[of op payload] show ?thesis by (auto simp del: contains_field.simps)
    qed
    moreover have "\<exists>xs. map_of (if qo_upsert (mq_options q) \<and> \<not> dotted f then set_on_insert f t es1 else es1) ''$setOnInsert'' = Some (JObject xs)
        \<and> map_of xs f = Some (JText t)" if "qo_upsert (mq_options q) \<and> \<not> dotted f"
      using set_on_insert_tenant[of f t es1] that by simp
    ultimately show ?thesis using True t es1(2) by blast
  qed
qed

text \<open>A key beside the operators is not looked at, and Mongoose moves it into the $set.\<close>

lemma mixed_update_is_accepted:
  "handle_atomic_update_operators f [(f, JText other), (''$set'', JObject [(''name'', JText ''x'')])]
   = Inr [(f, JText other), (''$set'', JObject [(''name'', JText ''x'')])]" if "f \<noteq> ''name''"
  using that by (simp add: next_path_def starts_with_def)

text \<open>A pipeline update that replaces the whole document by a computed value names no tenant field.\<close>

lemma replacing_pipeline_is_accepted:
  "get_active_tenant_id cls = Inr t \<Longrightarrow> mq_update q = Some (JArray [JObject [(''$replaceWith'', JText v)]]) \<Longrightarrow> f \<noteq> [] \<Longrightarrow>
   protect_tenant_mutation f cls q = Inr q"
  by (simp add: protect_tenant_mutation_def next_path_def starts_with_def)

section \<open>Without a context\<close>

text \<open>without a tenant context everything fails closed: no query, aggregation, update, save or insertion of a
  document that does not opt out explicitly is accepted.\<close>
theorem no_context_fails_closed:
  assumes "get_active_tenant_id cls = Inl e"
  shows "(\<not> qo_platform (mq_options q) \<and> \<not> mq_filtered q \<longrightarrow> (\<exists>e'. query_hook env f protect cls q = Inl e'))
    \<and> (\<not> qo_platform (ag_options a) \<and> \<not> ag_filtered a \<longrightarrow> (\<exists>e'. apply_tenant_filter_to_aggregate env f cls a = Inl e'))
    \<and> enforce_tenant_on_document f cls False d = Inl e \<and> insert_many f cls (d # ds) = Inl e"
  using assms
  by (auto simp: query_hook_def apply_tenant_filter_def apply_tenant_filter_to_aggregate_def enforce_tenant_on_document_def)

section \<open>Instances\<close>

text \<open>An evaluator of equalities and conjunctions.\<close>

fun sat :: "jval \<Rightarrow> (string \<times> jval) list \<Rightarrow> bool"
  and sat_items :: "jval list \<Rightarrow> (string \<times> jval) list \<Rightarrow> bool"
  and sat_entries :: "(string \<times> jval) list \<Rightarrow> (string \<times> jval) list \<Rightarrow> bool" where
  "sat (JObject es) d = sat_entries es d"
| "sat (JArray xs) d = sat_items xs d"
| "sat v d = False"
| "sat_items [] d = True"
| "sat_items (x # xs) d = (sat x d \<and> sat_items xs d)"
| "sat_entries [] d = True"
| "sat_entries ((k, v) # es) d = ((if k = ''$and'' then sat v d else map_of d k = Some v) \<and> sat_entries es d)"


abbreviation tenant_key :: string where "tenant_key \<equiv> ''tenantId''"

definition demo_plugin :: plugin_env where
  "demo_plugin = \<lparr>pl_schema = [], pl_valid_id = (\<lambda>_. True)\<rparr>"

definition demo_cls :: "cls_store option" where
  "demo_cls = Some \<lparr>cl_active = Some ''t1'', cl_tenant = None\<rparr>"

definition plain_options :: query_options where
  "plain_options = \<lparr>qo_platform = False, qo_skip = False, qo_upsert = True\<rparr>"

definition forged_query :: mongo_query where
  "forged_query = \<lparr>mq_filter = [(''$or'', JArray [JObject [(tenant_key, JText ''t2'')], JObject [(tenant_key, JText ''t1'')]])],
     mq_update = Some (JObject [(''$set'', JObject [(''name'', JText ''x'')])]), mq_options = plain_options, mq_filtered = False\<rparr>"

lemma demo_tenant: "get_active_tenant_id demo_cls = Inr ''t1''"
  by (simp add: get_active_tenant_id_def demo_cls_def get_tenant_id_def truthy_id_def)

lemma demo_cast: "cast_tenant_for_query demo_plugin tenant_key ''t1'' = Inr (JText ''t1'')"
  by (simp add: cast_tenant_for_query_def demo_plugin_def dotted_def cast_tenant_for_aggregate_def)

lemma forged_applied:
  "apply_tenant_filter demo_plugin tenant_key demo_cls forged_query
   = Inr (forged_query\<lparr>mq_filter := [(tenant_key, JText ''t1'')], mq_filtered := True\<rparr>)"
  using demo_tenant demo_cast
  by (simp add: apply_tenant_filter_def forged_query_def plain_options_def tenant_query_def next_path_def starts_with_def
      is_empty_filter_def Let_def)

text \<open>A filter that asks for another tenant's documents is left with the caller's tenant.\<close>

theorem queries_are_isolated_witness:
  "sat_entries (mq_filter (forged_query\<lparr>mq_filter := [(tenant_key, JText ''t1'')], mq_filtered := True\<rparr>)) d
   \<longleftrightarrow> map_of d tenant_key = Some (JText ''t1'')"
proof -
  have laws: "\<forall>a b d. sat_entries [(''$and'', JArray [JObject a, JObject b])] d \<longleftrightarrow> sat_entries a d \<and> sat_entries b d"
    "\<forall>v d. sat_entries [(tenant_key, v)] d \<longleftrightarrow> map_of d tenant_key = Some v" by simp_all
  from queries_are_isolated[OF laws forged_applied] show ?thesis
    using demo_tenant demo_cast
    by (simp add: forged_query_def plain_options_def next_path_def starts_with_def is_empty_filter_def Let_def)
qed








theorem updates_keep_tenant_witness:
  "protect_tenant_mutation tenant_key demo_cls forged_query
     = Inr (forged_query\<lparr>mq_update := Some (JObject [(''$set'', JObject [(''name'', JText ''x'')]),
         (''$setOnInsert'', JObject [(tenant_key, JText ''t1'')])])\<rparr>)
   \<and> \<not> contains_field tenant_key [] (JObject [(''name'', JText ''x'')])"
proof -
  have u: "protect_tenant_mutation tenant_key demo_cls forged_query
     = Inr (forged_query\<lparr>mq_update := Some (JObject [(''$set'', JObject [(''name'', JText ''x'')]),
         (''$setOnInsert'', JObject [(tenant_key, JText ''t1'')])])\<rparr>)"
    using demo_tenant
    by (simp add: protect_tenant_mutation_def forged_query_def plain_options_def has_atomic_update_operator_def starts_with_def
        next_path_def dotted_def set_on_insert_def put_key_def)
  have q: "mq_update forged_query = Some (JObject [(''$set'', JObject [(''name'', JText ''x'')])])"
    "\<not> qo_platform (mq_options forged_query)" by (simp_all add: forged_query_def plain_options_def)
  have op: "has_atomic_update_operator [(''$set'', JObject [(''name'', JText ''x'')])]"
    by (simp add: has_atomic_update_operator_def starts_with_def)
  obtain es1 where "[(''$set'', JObject [(''name'', JText ''x'')]), (''$setOnInsert'', JObject [(tenant_key, JText ''t1'')])] = es1"
    "\<forall>op payload. (op, JObject payload) \<in> set es1 \<longrightarrow>
       (if op = ''$rename'' then \<not> rename_touches_tenant tenant_key payload
        else if op = ''$setOnInsert'' then \<not> contains_field tenant_key [] (JObject payload) \<or> map_of payload tenant_key = Some (JText ''t1'')
        else \<not> contains_field tenant_key [] (JObject payload))"
    using updates_keep_tenant[OF u q] op demo_tenant by (simp del: contains_field.simps)
  then have "\<not> contains_field tenant_key [] (JObject [(''name'', JText ''x'')])"
    by (auto simp del: contains_field.simps dest!: spec[of _ "''$set''"])
  with u show ?thesis by blast
qed

theorem saved_documents_belong_to_tenant_witness:
  "insert_many tenant_key demo_cls [[(''name'', JText ''x'')]] = Inr [[(''name'', JText ''x''), (tenant_key, JText ''t1'')]]
   \<and> carries tenant_key ''t1'' [(''name'', JText ''x''), (tenant_key, JText ''t1'')]"
proof -
  have "insert_many tenant_key demo_cls [[(''name'', JText ''x'')]] = Inr [[(''name'', JText ''x''), (tenant_key, JText ''t1'')]]"
    using demo_tenant by (simp add: enforce_tenant_on_plain_document_def is_missing_value_def Let_def)
  with saved_documents_belong_to_tenant[of tenant_key demo_cls "[]" "[[(''name'', JText ''x'')]]"] demo_tenant show ?thesis by simp
qed

theorem no_context_fails_closed_witness:
  "insert_many tenant_key None [[]] = Inl MissingContext \<and> (\<exists>e. query_hook demo_plugin tenant_key True None forged_query = Inl e)"
proof -
  have none: "get_active_tenant_id None = Inl MissingContext" by (simp add: get_active_tenant_id_def)
  show ?thesis
    using no_context_fails_closed[OF none, where q = forged_query and env = demo_plugin and f = tenant_key and protect = True and d = "[]" and ds = "[]"]
    by (simp add: forged_query_def plain_options_def)
qed

end
