(* ===== verification/Tenant_Context_Safety.thy ===== *)
theory Tenant_Context_Safety
  imports Tenant_Context Tenant_Filter_Safety
begin

text \<open>
  A request that is given a tenant comes from somebody who was a member of it within the last five minutes, through
  any sequence of requests and changes of the directory; an outage never admits; the subdomain decides the tenant; and
  the callers the check is not made for.
\<close>

section \<open>What the steps keep\<close>

lemma resolve_keycloak_member [simp]:
  "cc_member (snd (resolve_keycloak_user env now u cx cc)) = cc_member cc"
  by (auto simp: resolve_keycloak_user_def split: option.splits)

lemma resolve_identity_member [simp]:
  "cc_member (snd (snd (resolve_identity env now hints u e cx cc))) = cc_member cc"
  by (auto simp: resolve_identity_def Let_def split: option.splits prod.splits dest: arg_cong[of _ _ snd])

lemma resolve_tenant_member [simp]: "cc_member (snd (resolve_tenant env now hints cx cc)) = cc_member cc"
  by (induction env now hints cx cc rule: resolve_tenant.induct) (auto split: option.splits)

lemma resolve_tenant_user [simp]: "rc_user (fst (resolve_tenant env now hints cx cc)) = rc_user cx"
  by (induction env now hints cx cc rule: resolve_tenant.induct) (auto split: option.splits)

lemma i18n_member [simp]: "cc_member (snd (resolve_i18n_context env now t cx cc)) = cc_member cc"
  by (auto simp: resolve_i18n_context_def resolve_tenant_i18n_def resolve_user_i18n_override_def Let_def
      split: option.splits prod.splits if_splits)

lemma i18n_context [simp]:
  "rc_user (fst (resolve_i18n_context env now t cx cc)) = rc_user cx"
  "rc_active (fst (resolve_i18n_context env now t cx cc)) = rc_active cx"
  "rc_tenant (fst (resolve_i18n_context env now t cx cc)) = rc_tenant cx"
  "rc_roles (fst (resolve_i18n_context env now t cx cc)) = rc_roles cx"
  "rc_org_unit (fst (resolve_i18n_context env now t cx cc)) = rc_org_unit cx"
  by (simp_all add: resolve_i18n_context_def split: prod.splits)

lemma membership_context [simp]:
  "rc_user (apply_membership m cx) = rc_user cx" "rc_tenant (apply_membership m cx) = rc_tenant cx"
  "rc_roles (apply_membership m cx) = Some (cm_roles m)" "rc_org_unit (apply_membership m cx) = Some (cm_org_unit m)"
  by (simp_all add: apply_membership_def set_tenant_roles_def)

section \<open>Runs\<close>

definition empty_cache :: context_cache where
  "empty_cache = \<lparr>cc_alias = (\<lambda>_. None), cc_keycloak = (\<lambda>_. None), cc_member = (\<lambda>_. None), cc_i18n = (\<lambda>_. None),
     cc_i18n_lock = (\<lambda>_. None), cc_user_i18n = (\<lambda>_. None)\<rparr>"

text \<open>Requests at increasing instants; the environment, with the directory in it, is a function of the instant.\<close>

inductive tenant_run :: "(int \<Rightarrow> context_env) \<Rightarrow> int \<Rightarrow> context_cache \<Rightarrow> bool" for env where
  start: "tenant_run env t0 empty_cache"
| request: "tenant_run env t0 cc \<Longrightarrow> t0 \<le> now \<Longrightarrow> tenant_run env now (snd (resolve_context (env now) now rq cc))"

definition member_cache_ok :: "(int \<Rightarrow> context_env) \<Rightarrow> int \<Rightarrow> context_cache \<Rightarrow> bool" where
  "member_cache_ok env now cc \<longleftrightarrow>
     (\<forall>t u m until. cc_member cc (t, u) = Some (m, until) \<longrightarrow>
        (\<exists>s \<le> now. until = s + user_keycloak_cache_ttl \<and> membership_in (ce_directory (env s)) t u = m))"

lemma verified:
  assumes "verify_tenant_membership (env now) now t u cx cc = (r, cc1)" "member_cache_ok env t0 cc" "t0 \<le> now"
  shows "member_cache_ok env now cc1"
    "r = Inr cx1 \<Longrightarrow> \<exists>s m. now - user_keycloak_cache_ttl < s \<and> s \<le> now \<and> membership_in (ce_directory (env s)) t u = Some m
       \<and> cx1 = apply_membership m cx"
proof -
  have old: "\<exists>s \<le> now. until = s + user_keycloak_cache_ttl \<and> membership_in (ce_directory (env s)) t' u' = m"
    if "cc_member cc (t', u') = Some (m, until)" for t' u' m until
    using assms(2,3) that unfolding member_cache_ok_def by (meson order_trans)
  show "member_cache_ok env now cc1"
    using assms(1) old
    by (auto simp: verify_tenant_membership_def member_cache_ok_def Let_def split: if_splits option.splits)
  assume r: "r = Inr cx1"
  show "\<exists>s m. now - user_keycloak_cache_ttl < s \<and> s \<le> now \<and> membership_in (ce_directory (env s)) t u = Some m
       \<and> cx1 = apply_membership m cx"
  proof (cases "live now (cc_member cc (t, u))")
    case None
    then show ?thesis
      using assms(1) r
      by (intro exI[of _ now]) (auto simp: verify_tenant_membership_def user_keycloak_cache_ttl_def Let_def split: if_splits option.splits)
  next
    case (Some v)
    then obtain until where e: "cc_member cc (t, u) = Some (v, until)" "now < until"
      by (auto simp: live_def split: option.splits if_splits)
    from old[OF e(1)] obtain s where s: "s \<le> now" "until = s + user_keycloak_cache_ttl" "membership_in (ce_directory (env s)) t u = v"
      by blast
    moreover obtain m where "v = Some m" "cx1 = apply_membership m cx"
      using assms(1) r Some by (auto simp: verify_tenant_membership_def split: if_splits option.splits)
    ultimately show ?thesis using e(2) by (intro exI[of _ s] exI[of _ m]) simp
  qed
qed

text \<open>The membership stage of a request, and what the later stages leave of it.\<close>

definition membership_stage ::
  "context_env \<Rightarrow> int \<Rightarrow> http_request \<Rightarrow> request_context \<Rightarrow> context_cache \<Rightarrow> (context_error, request_context) result \<times> context_cache" where
  "membership_stage env now rq cx cc =
     (case (rc_tenant cx, truthy_id (rc_user cx)) of
        (Some t, Some u) \<Rightarrow>
          if ce_valid_id env u \<and> \<not> is_tenant_context_optional_route rq then verify_tenant_membership env now t u cx cc else (Inr cx, cc)
      | _ \<Rightarrow> (Inr cx, cc))"

definition identified :: "context_env \<Rightarrow> int \<Rightarrow> http_request \<Rightarrow> context_cache \<Rightarrow> request_context \<times> context_cache" where
  "identified env now rq cc =
     (let (hints, user, email, cx1) = collect_raw_identifiers env rq (empty_context\<lparr>rc_ip := Some (default_to (hr_ip rq) (forwarded_ip rq))\<rparr>);
          (hints1, cx2, cc1) = resolve_identity env now hints user email cx1 cc
      in resolve_tenant env now hints1 cx2 cc1)"

lemma identified_member [simp]: "cc_member (snd (identified env now rq cc)) = cc_member cc"
proof -
  obtain hints user email cx1 where c: "collect_raw_identifiers env rq (empty_context\<lparr>rc_ip := Some (default_to (hr_ip rq) (forwarded_ip rq))\<rparr>)
    = (hints, user, email, cx1)" using prod_cases4 by blast
  obtain hints1 cx2 cc1 where i: "resolve_identity env now hints user email cx1 cc = (hints1, cx2, cc1)" using prod_cases3 by blast
  have "cc_member cc1 = cc_member cc" using resolve_identity_member[of env now hints user email cx1 cc] i by simp
  then show ?thesis by (simp add: identified_def c i)
qed

lemma resolve_context_stages:
  "resolve_context env now rq cc =
     (let (cx3, cc2) = identified env now rq cc; (r, cc3) = membership_stage env now rq cx3 cc2
      in case r of
           Inl e \<Rightarrow> (Inl e, cc3)
         | Inr cx4 \<Rightarrow>
             (case rc_tenant cx4 of
                None \<Rightarrow> (case reject_missing_tenant_context rq cx4 of
                           Inl e \<Rightarrow> (Inl e, cc3) | Inr _ \<Rightarrow> (Inr (cx4\<lparr>rc_source := Some ''M''\<rparr>), cc3))
              | Some t \<Rightarrow>
                  (let (cx5, cc4) = resolve_i18n_context env now t (cx4\<lparr>rc_active := Some t\<rparr>) cc3
                   in (Inr (cx5\<lparr>rc_source := Some ''M''\<rparr>), cc4))))"
  by (simp add: resolve_context_def identified_def membership_stage_def split: prod.split)

lemma resolve_context_cache:
  "cc_member (snd (resolve_context env now rq cc))
   = cc_member (snd (membership_stage env now rq (fst (identified env now rq cc)) (snd (identified env now rq cc))))"
  by (auto simp: resolve_context_stages split: prod.splits sum.splits option.splits)
     (metis i18n_member snd_conv)+

lemma resolve_context_result:
  assumes "resolve_context env now rq cc = (Inr cx, cc')"
  obtains cx4 cc3 where "membership_stage env now rq (fst (identified env now rq cc)) (snd (identified env now rq cc)) = (Inr cx4, cc3)"
    "rc_user cx = rc_user cx4" "rc_tenant cx = rc_tenant cx4" "rc_roles cx = rc_roles cx4" "rc_org_unit cx = rc_org_unit cx4"
    "rc_tenant cx4 = None \<or> rc_active cx = rc_tenant cx4"
proof -
  obtain q cc3 where q: "membership_stage env now rq (fst (identified env now rq cc)) (snd (identified env now rq cc)) = (q, cc3)"
    by (rule prod.exhaust)
  show ?thesis
  proof (cases q)
    case (Inl e)
    with assms q show ?thesis by (auto simp: resolve_context_stages split: prod.splits)
  next
    case (Inr cx4)
    show ?thesis
    proof (cases "rc_tenant cx4")
      case None
      with assms q Inr have "cx = cx4\<lparr>rc_source := Some ''M''\<rparr>"
        by (auto simp: resolve_context_stages split: prod.splits sum.splits)
      with None q Inr show ?thesis by (intro that[of cx4 cc3]) simp_all
    next
      case (Some t)
      with assms q Inr have "cx = (fst (resolve_i18n_context env now t (cx4\<lparr>rc_active := Some t\<rparr>) cc3))\<lparr>rc_source := Some ''M''\<rparr>"
        by (auto simp: resolve_context_stages split: prod.splits)
      with Some q Inr show ?thesis by (intro that[of cx4 cc3]) simp_all
    qed
  qed
qed

lemma identified_user: "membership_stage env now rq cx cc = (Inr cx4, cc3) \<Longrightarrow> rc_user cx4 = rc_user cx \<and> rc_tenant cx4 = rc_tenant cx"
  by (auto simp: membership_stage_def verify_tenant_membership_def Let_def split: option.splits if_splits)

lemma run_cache_ok: "tenant_run env t0 cc \<Longrightarrow> member_cache_ok env t0 cc"
proof (induction rule: tenant_run.induct)
  case (request t0 cc now rq)
  let ?i = "identified (env now) now rq cc"
  have i: "member_cache_ok env t0 (snd ?i)" using request.IH by (simp add: member_cache_ok_def)
  have later: "member_cache_ok env now (snd ?i)"
    using i request.hyps(2) unfolding member_cache_ok_def by (meson order_trans)
  have "member_cache_ok env now (snd (membership_stage (env now) now rq (fst ?i) (snd ?i)))"
  proof (cases "membership_stage (env now) now rq (fst ?i) (snd ?i) = (Inr (fst ?i), snd ?i)")
    case True
    with later show ?thesis by simp
  next
    case False
    then obtain t u where "membership_stage (env now) now rq (fst ?i) (snd ?i) = verify_tenant_membership (env now) now t u (fst ?i) (snd ?i)"
      by (auto simp: membership_stage_def split: option.splits if_splits)
    with verified(1)[OF prod.collapse[symmetric] i request.hyps(2)] show ?thesis by simp
  qed
  then show ?case by (simp add: member_cache_ok_def resolve_context_cache)
qed (simp add: member_cache_ok_def empty_cache_def)

lemma membership_is_recent:
  assumes "tenant_run env t0 cc" "t0 \<le> now" "resolve_context (env now) now rq cc = (Inr cx, cc')"
    and "rc_tenant cx = Some t" "rc_user cx = Some u" "u \<noteq> []" "ce_valid_id (env now) u" "\<not> is_tenant_context_optional_route rq"
  shows "\<exists>s m. now - user_keycloak_cache_ttl < s \<and> s \<le> now \<and> membership_in (ce_directory (env s)) t u = Some m
    \<and> rc_active cx = Some t \<and> rc_roles cx = Some (cm_roles m) \<and> rc_org_unit cx = Some (cm_org_unit m)"
proof -
  let ?i = "identified (env now) now rq cc"
  obtain cx4 cc3 where st: "membership_stage (env now) now rq (fst ?i) (snd ?i) = (Inr cx4, cc3)"
    "rc_user cx = rc_user cx4" "rc_tenant cx = rc_tenant cx4" "rc_roles cx = rc_roles cx4" "rc_org_unit cx = rc_org_unit cx4"
    "rc_tenant cx4 = None \<or> rc_active cx = rc_tenant cx4"
    using resolve_context_result[OF assms(3)] .
  have "rc_user (fst ?i) = Some u" "rc_tenant (fst ?i) = Some t"
    using identified_user[OF st(1)] st(2,3) assms(4,5) by auto
  then have "verify_tenant_membership (env now) now t u (fst ?i) (snd ?i) = (Inr cx4, cc3)"
    using st(1) assms(6-8) by (simp add: membership_stage_def truthy_id_def)
  moreover have "member_cache_ok env t0 (snd ?i)" using run_cache_ok[OF assms(1)] by (simp add: member_cache_ok_def)
  ultimately obtain s m where "now - user_keycloak_cache_ttl < s" "s \<le> now" "membership_in (ce_directory (env s)) t u = Some m"
    "cx4 = apply_membership m (fst ?i)"
    using verified(2)[of env now t u "fst ?i" "snd ?i" "Inr cx4" cc3 t0 cx4] assms(2) by blast
  with st assms(4) show ?thesis by auto
qed

section \<open>Requests\<close>

definition cls_of :: "request_context \<Rightarrow> cls_store" where
  "cls_of cx = \<lparr>cl_active = rc_active cx, cl_tenant = rc_tenant cx\<rparr>"

text \<open>C29: tenant isolation end to end: after any sequence of requests and directory changes, a request on a route that
  needs a tenant, of a user who was resolved to a user id of the database, that is given a tenant comes from somebody who
  was a member of it within the last five minutes, with the roles of that moment; and whatever filter its handlers build,
  a query of theirs that is not declared a platform query matches documents of that tenant only. (A Keycloak id that is not
  resolved and the routes for which a tenant is optional are not checked.)\<close>
theorem request_reads_its_tenant_only:
  fixes matches :: "(string \<times> jval) list \<Rightarrow> 'd \<Rightarrow> bool" and belongs :: "jval \<Rightarrow> 'd \<Rightarrow> bool"
  assumes "tenant_run env t0 cc" "t0 \<le> now" "resolve_context (env now) now rq cc = (Inr cx, cc')"
    and "rc_tenant cx = Some t" "t \<noteq> []" "rc_user cx = Some u" "u \<noteq> []" "ce_valid_id (env now) u"
    and "\<not> is_tenant_context_optional_route rq"
    and "\<forall>a b d. matches [(''$and'', JArray [JObject a, JObject b])] d \<longleftrightarrow> matches a d \<and> matches b d"
    and "\<forall>v d. matches [(f, v)] d \<longleftrightarrow> belongs v d"
    and "apply_tenant_filter penv f (Some (cls_of cx)) q = Inr q1" "\<not> mq_filtered q" "\<not> qo_platform (mq_options q)"
  shows "(\<exists>s m. now - user_keycloak_cache_ttl < s \<and> s \<le> now \<and> membership_in (ce_directory (env s)) t u = Some m
      \<and> rc_roles cx = Some (cm_roles m))
    \<and> (\<exists>v. cast_tenant_for_query penv f t = Inr v \<and> (\<forall>d. matches (mq_filter q1) d \<longrightarrow> belongs v d))"
proof -
  obtain s m where m: "now - user_keycloak_cache_ttl < s \<and> s \<le> now \<and> membership_in (ce_directory (env s)) t u = Some m
    \<and> rc_active cx = Some t \<and> rc_roles cx = Some (cm_roles m)"
    using membership_is_recent[OF assms(1-4,6-9)] by blast
  then have "get_active_tenant_id (Some (cls_of cx)) = Inr t"
    using assms(5) by (simp add: get_active_tenant_id_def get_tenant_id_def cls_of_def truthy_id_def)
  with filtered_query[OF assms(10-14)] show ?thesis using m by fastforce
qed

text \<open>the membership check fails closed: with Redis down, or without a usable cache entry while the users cannot be
  read, a request of an identified user for a tenant is refused, whatever else is known about the user.\<close>
theorem membership_outage_refuses:
  assumes "rc_tenant (fst (identified env now rq cc)) = Some t" "rc_user (fst (identified env now rq cc)) = Some u" "u \<noteq> []"
    and "ce_valid_id env u" "\<not> is_tenant_context_optional_route rq"
    and "\<not> ce_redis_up env \<or> (\<not> ce_users_up env \<and> live now (cc_member cc (t, u)) = None)"
  shows "fst (resolve_context env now rq cc) = Inl MembershipUnavailable"
proof -
  have "fst (membership_stage env now rq (fst (identified env now rq cc)) (snd (identified env now rq cc))) = Inl MembershipUnavailable"
    using assms by (auto simp: membership_stage_def verify_tenant_membership_def truthy_id_def)
  then show ?thesis by (auto simp: resolve_context_stages split: prod.splits)
qed

text \<open>The tenant of the first hint that resolves.\<close>

lemma first_hint_wins:
  assumes "rc_tenant (fst (resolve_tenant env now [h] cx cc)) = Some t" "rc_tenant cx = None"
  shows "resolve_tenant env now (h # hs) cx cc = resolve_tenant env now [h] cx cc"
  using assms by (auto split: option.splits if_splits)

lemma keycloak_keeps:
  "rc_tenant (fst (resolve_keycloak_user env now u cx cc)) = rc_tenant cx"
  "cc_alias (snd (resolve_keycloak_user env now u cx cc)) = cc_alias cc"
  by (simp_all add: resolve_keycloak_user_def split: option.split)

lemma session_keeps:
  "rc_tenant (snd (resolve_bff_session env sid hints cx)) = rc_tenant cx"
  "\<exists>more. fst (resolve_bff_session env sid hints cx) = hints @ more"
  by (simp_all add: resolve_bff_session_def Let_def split: option.split)

lemma collected:
  "rc_tenant (snd (snd (snd (collect_raw_identifiers env rq cx)))) = rc_tenant cx"
  "hr_alias rq = Some a \<Longrightarrow> a \<noteq> [] \<Longrightarrow> \<exists>more. fst (collect_raw_identifiers env rq cx) = a # more"
  by (simp_all add: collect_raw_identifiers_def Let_def truthy_id_def option_list_def split: option.split)

lemma identity_keeps:
  assumes "resolve_identity env now hints u e cx cc = (hints1, cx2, cc1)"
  shows "(\<exists>more. hints1 = hints @ more) \<and> rc_tenant cx2 = rc_tenant cx \<and> cc_alias cc1 = cc_alias cc"
proof -
  obtain hs c1 where c1: "(case truthy_id (rc_sid cx) of Some sid \<Rightarrow> resolve_bff_session env sid hints cx | None \<Rightarrow> (hints, cx)) = (hs, c1)"
    by (rule prod.exhaust)
  then have hs: "(\<exists>more. hs = hints @ more) \<and> rc_tenant c1 = rc_tenant cx"
  proof (cases "truthy_id (rc_sid cx)")
    case (Some sid)
    with c1 have "resolve_bff_session env sid hints cx = (hs, c1)" by simp
    with session_keeps[of env sid hints cx] show ?thesis by simp
  qed simp
  define c2 where "c2 = resolve_jwt_identity u e c1"
  have c2: "rc_tenant c2 = rc_tenant cx" using hs by (simp add: c2_def resolve_jwt_identity_def)
  have "(hints1, cx2, cc1) = (hs, c2, cc) \<or> (\<exists>v. (hints1, cx2, cc1) = (hs, resolve_keycloak_user env now v c2 cc))"
    using assms unfolding resolve_identity_def c1 Let_def prod.case c2_def[symmetric] by (simp split: option.splits if_splits, (metis+)?)
  then show ?thesis
    using hs c2 keycloak_keeps[of env now _ c2 cc] by (metis Pair_inject fst_conv snd_conv)
qed

text \<open>the subdomain decides: when the alias of the request resolves, by its form, the cache or the directory, the
  tenant of the request is the one it resolves to, whatever a header, the session or a token claim says.\<close>
theorem subdomain_decides_tenant:
  assumes "hr_alias rq = Some a" "a \<noteq> []" "resolve_context env now rq cc = (Inr cx, cc')"
    and "is_hex_id a \<and> t = a
      \<or> \<not> is_hex_id a \<and> ce_redis_up env \<and> live now (cc_alias cc a) = Some t \<and> t \<noteq> []
      \<or> \<not> is_hex_id a \<and> live now (cc_alias cc a) = None \<and> ce_tenants_up env \<and> di_alias (ce_directory env) a = Some t"
  shows "rc_tenant cx = Some t"
proof -
  obtain hints user email cx1 where c: "collect_raw_identifiers env rq (empty_context\<lparr>rc_ip := Some (default_to (hr_ip rq) (forwarded_ip rq))\<rparr>)
    = (hints, user, email, cx1)" using prod_cases4 by blast
  have hints: "\<exists>more. hints = a # more" and cx1: "rc_tenant cx1 = None"
    using collected(1)[of env rq "empty_context\<lparr>rc_ip := Some (default_to (hr_ip rq) (forwarded_ip rq))\<rparr>"]
      collected(2)[OF assms(1,2), of env "empty_context\<lparr>rc_ip := Some (default_to (hr_ip rq) (forwarded_ip rq))\<rparr>"]
    unfolding c by (simp_all add: empty_context_def)
  obtain hints1 cx2 cc1 where i: "resolve_identity env now hints user email cx1 cc = (hints1, cx2, cc1)" using prod_cases3 by blast
  have h1: "\<exists>more. hints1 = a # more" and cx2: "rc_tenant cx2 = None" and same_alias: "cc_alias cc1 = cc_alias cc"
    using identity_keeps[OF i] hints cx1 by auto
  have "rc_tenant (fst (resolve_tenant env now [a] cx2 cc1)) = Some t"
    using assms(4)
  proof (elim disjE conjE)
    assume "is_hex_id a" "t = a"
    then show ?thesis using assms(2) by simp
  next
    assume "\<not> is_hex_id a" "ce_redis_up env" "live now (cc_alias cc a) = Some t" "t \<noteq> []"
    then show ?thesis using assms(2) same_alias by (simp add: truthy_id_def split: list.split)
  next
    assume "\<not> is_hex_id a" "live now (cc_alias cc a) = None" "ce_tenants_up env" "di_alias (ce_directory env) a = Some t"
    then show ?thesis using assms(2) same_alias by (simp add: truthy_id_def)
  qed
  moreover obtain more where "hints1 = a # more" using h1 by blast
  then have "identified env now rq cc = resolve_tenant env now (a # more) cx2 cc1"
    unfolding identified_def c Let_def prod.case i by (rule arg_cong)
  ultimately have "rc_tenant (fst (identified env now rq cc)) = Some t"
    using first_hint_wins[of env now a cx2 cc1 t more] cx2 by (simp only:)
  moreover obtain cx4 cc3 where "membership_stage env now rq (fst (identified env now rq cc)) (snd (identified env now rq cc)) = (Inr cx4, cc3)"
    "rc_tenant cx = rc_tenant cx4"
    using resolve_context_result[OF assms(3)] by blast
  ultimately show ?thesis using identified_user by metis
qed

section \<open>Who is not checked\<close>

text \<open>A token whose user cannot be found, or not be read, keeps the identity provider's id, which is no ObjectId.\<close>

lemma unresolved_user_is_not_checked:
  assumes "rc_tenant (fst (identified env now rq cc)) = Some t" "rc_user (fst (identified env now rq cc)) = Some u"
    and "\<not> ce_valid_id env u"
  shows "\<exists>cx. fst (resolve_context env now rq cc) = Inr cx \<and> rc_active cx = Some t \<and> rc_roles cx = rc_roles (fst (identified env now rq cc))"
proof -
  let ?i = "identified env now rq cc"
  have stage: "membership_stage env now rq (fst ?i) (snd ?i) = (Inr (fst ?i), snd ?i)"
    using assms by (auto simp: membership_stage_def truthy_id_def split: list.split)
  obtain cx5 cc4 where i18n: "resolve_i18n_context env now t ((fst ?i)\<lparr>rc_active := Some t\<rparr>) (snd ?i) = (cx5, cc4)" by (rule prod.exhaust)
  then have "rc_active cx5 = Some t" "rc_roles cx5 = rc_roles (fst ?i)"
    using i18n_context(2,4)[of env now t "(fst ?i)\<lparr>rc_active := Some t\<rparr>" "snd ?i"] by simp_all
  moreover have "resolve_context env now rq cc = (Inr (cx5\<lparr>rc_source := Some ''M''\<rparr>), cc4)"
    using stage i18n assms(1) by (cases ?i) (simp add: resolve_context_stages)
  ultimately show ?thesis by simp
qed

section \<open>Instances\<close>

definition demo_directory :: directory where
  "demo_directory = \<lparr>di_users = (\<lambda>u. if u = ''u1'' then Some \<lparr>ur_tenants = Some [(Some ''t1'', Some [''ADMIN''])], ur_org_unit = None,
     ur_locale = None, ur_timezone = None\<rparr> else None), di_keycloak = (\<lambda>_. None), di_alias = (\<lambda>a. if a = ''acme'' then Some ''t1'' else None),
     di_org = (\<lambda>_. None), di_tenants = (\<lambda>_. None)\<rparr>"

definition demo_context_env :: context_env where
  "demo_context_env = \<lparr>ce_production = True, ce_allow_header = True, ce_directory = demo_directory, ce_sessions = (\<lambda>_. None),
     ce_decode = (\<lambda>_. None), ce_valid_id = (\<lambda>u. CHR ''-'' \<notin> set u), ce_redis_up = True, ce_users_up = True,
     ce_tenants_up = True, ce_sessions_up = True\<rparr>"

definition demo_request :: "string \<Rightarrow> http_request" where
  "demo_request u = \<lparr>hr_alias = Some ''acme'', hr_headers = (\<lambda>_. None), hr_sid = None,
     hr_user = Some \<lparr>ju_sub = Some u, ju_email = None, ju_tenant = Some ''t2'', ju_provider = None\<rparr>,
     hr_path = ''/api/v1/deals'', hr_original_url = None, hr_ip = ''::1''\<rparr>"

lemma demo_hint: "\<not> is_hex_id ''acme''" by (simp add: is_hex_id_def)

lemma demo_route: "\<not> is_tenant_context_optional_route (demo_request u)"
  by (simp add: is_tenant_context_optional_route_def demo_request_def truthy_id_def starts_with_def)

lemma demo_resolved:
  "\<exists>cx cc. resolve_context demo_context_env 0 (demo_request ''u1'') empty_cache = (Inr cx, cc)
     \<and> rc_tenant cx = Some ''t1'' \<and> rc_user cx = Some ''u1'' \<and> rc_active cx = Some ''t1''"
  using demo_hint demo_route[of "''u1''"]
  by (simp add: resolve_context_def collect_raw_identifiers_def resolve_identity_def resolve_jwt_identity_def demo_request_def
      demo_context_env_def demo_directory_def empty_cache_def empty_context_def option_list_def truthy_id_def live_def
      read_trusted_tenant_header_def is_tenant_header_trusted_def verify_tenant_membership_def membership_in_def Let_def
      apply_membership_def set_tenant_roles_def resolve_i18n_context_def split: prod.split)

lemma forged_applied_for:
  "get_active_tenant_id cls = Inr ''t1'' \<Longrightarrow> apply_tenant_filter demo_plugin tenant_key cls forged_query
   = Inr (forged_query\<lparr>mq_filter := [(tenant_key, JText ''t1'')], mq_filtered := True\<rparr>)"
  using forged_applied demo_tenant unfolding apply_tenant_filter_def by (simp only: bind_result_simps)

theorem request_reads_its_tenant_only_witness:
  "\<exists>cx cc q1. resolve_context demo_context_env 0 (demo_request ''u1'') empty_cache = (Inr cx, cc)
    \<and> apply_tenant_filter demo_plugin tenant_key (Some (cls_of cx)) forged_query = Inr q1
    \<and> filter (sat_entries (mq_filter q1)) [[(tenant_key, JText ''t2'')]] = []
    \<and> rc_roles cx = Some [''ADMIN'']"
proof -
  obtain cx cc where cx: "resolve_context demo_context_env 0 (demo_request ''u1'') empty_cache = (Inr cx, cc)"
    "rc_tenant cx = Some ''t1''" "rc_user cx = Some ''u1''" "rc_active cx = Some ''t1''" using demo_resolved by blast
  have "get_active_tenant_id (Some (cls_of cx)) = Inr ''t1''"
    using cx(4) by (simp add: get_active_tenant_id_def get_tenant_id_def cls_of_def truthy_id_def)
  note q = forged_applied_for[OF this]
  have laws: "\<forall>a b d. sat_entries [(''$and'', JArray [JObject a, JObject b])] d \<longleftrightarrow> sat_entries a d \<and> sat_entries b d"
    "\<forall>v d. sat_entries [(tenant_key, v)] d \<longleftrightarrow> map_of d tenant_key = Some v" by simp_all
  have env: "ce_valid_id demo_context_env ''u1''" "ce_directory demo_context_env = demo_directory" by (simp_all add: demo_context_env_def)
  have member: "membership_in demo_directory ''t1'' ''u1'' = Some m \<Longrightarrow> cm_roles m = [''ADMIN'']" for m
    by (auto simp: membership_in_def demo_directory_def)
  have "\<not> mq_filtered forged_query" "\<not> qo_platform (mq_options forged_query)" by (simp_all add: forged_query_def plain_options_def)
  from request_reads_its_tenant_only[OF tenant_run.start _ cx(1,2) _ cx(3) _ _ demo_route laws q this] env member
  have "rc_roles cx = Some [''ADMIN'']"
    "\<forall>d. sat_entries (mq_filter (forged_query\<lparr>mq_filter := [(tenant_key, JText ''t1'')], mq_filtered := True\<rparr>)) d
      \<longrightarrow> map_of d tenant_key = Some (JText ''t1'')"
    using demo_cast by fastforce+
  with cx(1) q show ?thesis by force
qed

theorem membership_outage_refuses_witness:
  "fst (resolve_context (demo_context_env\<lparr>ce_redis_up := False\<rparr>) 0 (demo_request ''u1'') empty_cache) = Inl MembershipUnavailable"
proof (rule membership_outage_refuses)
  show "rc_tenant (fst (identified (demo_context_env\<lparr>ce_redis_up := False\<rparr>) 0 (demo_request ''u1'') empty_cache)) = Some ''t1''"
    "rc_user (fst (identified (demo_context_env\<lparr>ce_redis_up := False\<rparr>) 0 (demo_request ''u1'') empty_cache)) = Some ''u1''"
    using demo_hint
    by (simp_all add: identified_def collect_raw_identifiers_def resolve_identity_def resolve_jwt_identity_def demo_request_def
        demo_context_env_def demo_directory_def empty_cache_def empty_context_def option_list_def truthy_id_def
        read_trusted_tenant_header_def is_tenant_header_trusted_def Let_def)
qed (use demo_route in \<open>simp_all add: demo_context_env_def\<close>)

theorem subdomain_decides_tenant_witness:
  "\<exists>cx cc. resolve_context demo_context_env 0 (demo_request ''u1'') empty_cache = (Inr cx, cc) \<and> rc_tenant cx = Some ''t1''"
proof -
  obtain cx cc where cx: "resolve_context demo_context_env 0 (demo_request ''u1'') empty_cache = (Inr cx, cc)" using demo_resolved by blast
  have "hr_alias (demo_request ''u1'') = Some ''acme''" by (simp add: demo_request_def)
  from subdomain_decides_tenant[OF this _ cx, of "''t1''"] cx demo_hint show ?thesis
    by (simp add: live_def empty_cache_def demo_context_env_def demo_directory_def)
qed

end
