(* ===== verification/Remote_Calls.thy ===== *)
theory Remote_Calls
  imports Js_Value
begin

text \<open>
  Operations that make remote calls one after the other. Each call meets a fate: it works, it fails with or without its
  effect, or the process dies before it. An operation is a function of the fates of its calls and of the state; triples
  state what it leaves behind whichever way it ends.
\<close>

datatype fate = Works | Fails string | Fails_late string | Dies

datatype 'a act_outcome = Done 'a | Threw string | Died

type_synonym ('s, 'a) act = "fate list \<times> 's \<Rightarrow> 'a act_outcome \<times> fate list \<times> 's"

text \<open>Once the fates are used up, every call works.\<close>

definition remote :: "('s \<Rightarrow> 'a \<times> 's) \<Rightarrow> ('s, 'a) act" where
  "remote f s =
     (case fst s of
        [] \<Rightarrow> (Done (fst (f (snd s))), [], snd (f (snd s)))
      | Works # fs \<Rightarrow> (Done (fst (f (snd s))), fs, snd (f (snd s)))
      | Fails e # fs \<Rightarrow> (Threw e, fs, snd s)
      | Fails_late e # fs \<Rightarrow> (Threw e, fs, snd (f (snd s)))
      | Dies # fs \<Rightarrow> (Died, fs, snd s))"

definition give :: "'a \<Rightarrow> ('s, 'a) act" where "give x s = (Done x, s)"

definition throw_act :: "string \<Rightarrow> ('s, 'a) act" where "throw_act e s = (Threw e, s)"

definition local_act :: "('s \<Rightarrow> 's) \<Rightarrow> ('s, unit) act" where "local_act f s = (Done (), fst s, f (snd s))"

definition bind_act :: "('s, 'a) act \<Rightarrow> ('a \<Rightarrow> ('s, 'b) act) \<Rightarrow> ('s, 'b) act" where
  "bind_act m k s = (case m s of (Done x, s') \<Rightarrow> k x s' | (Threw e, s') \<Rightarrow> (Threw e, s') | (Died, s') \<Rightarrow> (Died, s'))"

definition then_act :: "('s, 'a) act \<Rightarrow> ('s, 'b) act \<Rightarrow> ('s, 'b) act" where
  "then_act m k = bind_act m (\<lambda>_. k)"

text \<open>\<open>try m catch h\<close>: a process that died runs no handler.\<close>

definition attempt_act :: "('s, 'a) act \<Rightarrow> (string \<Rightarrow> ('s, 'a) act) \<Rightarrow> ('s, 'a) act" where
  "attempt_act m h s = (case m s of (Threw e, s') \<Rightarrow> h e s' | r \<Rightarrow> r)"

text \<open>The error as a value.\<close>

definition tried :: "('s, 'a) act \<Rightarrow> ('s, (string, 'a) result) act" where
  "tried m = attempt_act (bind_act m (\<lambda>x. give (Inr x))) (\<lambda>e. give (Inl e))"

definition lift_result :: "(string, 'a) result \<Rightarrow> ('s, 'a) act" where
  "lift_result r = (case r of Inl e \<Rightarrow> throw_act e | Inr x \<Rightarrow> give x)"

text \<open>A remote read that may also answer with an error.\<close>

definition ask :: "('s \<Rightarrow> (string, 'a) result) \<Rightarrow> ('s, 'a) act" where
  "ask f = bind_act (remote (\<lambda>w. (f w, w))) lift_result"

definition write_act :: "('s \<Rightarrow> 's) \<Rightarrow> ('s, unit) act" where
  "write_act f = remote (\<lambda>w. ((), f w))"

primrec each_act :: "('a \<Rightarrow> ('s, unit) act) \<Rightarrow> 'a list \<Rightarrow> ('s, unit) act" where
  "each_act f [] = give ()"
| "each_act f (x # xs) = then_act (f x) (each_act f xs)"

section \<open>Triples\<close>

text \<open>From \<open>P\<close>, a normal end is in \<open>Q\<close>, every other end in \<open>E\<close>.\<close>

definition triple :: "('s \<Rightarrow> bool) \<Rightarrow> ('s, 'a) act \<Rightarrow> ('a \<Rightarrow> 's \<Rightarrow> bool) \<Rightarrow> ('s \<Rightarrow> bool) \<Rightarrow> bool" where
  "triple P m Q E \<longleftrightarrow>
     (\<forall>fs w. P w \<longrightarrow> (case m (fs, w) of (Done x, fs', w') \<Rightarrow> Q x w' | (Threw e, fs', w') \<Rightarrow> E w' | (Died, fs', w') \<Rightarrow> E w'))"

named_theorems triples

lemma triple_give [triples]: "(\<And>w. P w \<Longrightarrow> Q x w) \<Longrightarrow> triple P (give x) Q E"
  by (simp add: triple_def give_def)

lemma triple_throw [triples]: "(\<And>w. P w \<Longrightarrow> E w) \<Longrightarrow> triple P (throw_act e) Q E"
  by (simp add: triple_def throw_act_def)

lemma triple_local [triples]: "(\<And>w. P w \<Longrightarrow> Q () (f w)) \<Longrightarrow> triple P (local_act f) Q E"
  by (simp add: triple_def local_act_def)

lemma triple_remote:
  assumes "\<And>w. P w \<Longrightarrow> Q (fst (f w)) (snd (f w))" "\<And>w. P w \<Longrightarrow> E w" "\<And>w. P w \<Longrightarrow> E (snd (f w))"
  shows "triple P (remote f) Q E"
proof -
  have "case remote f (fs, w) of (Done x, fs', w') \<Rightarrow> Q x w' | (Threw e, fs', w') \<Rightarrow> E w' | (Died, fs', w') \<Rightarrow> E w'"
    if "P w" for fs w
    using assms[OF that] by (auto simp: remote_def split: list.split fate.split)
  then show ?thesis by (simp add: triple_def)
qed

lemma triple_write: 
  assumes "\<And>w. P w \<Longrightarrow> Q () (f w)" "\<And>w. P w \<Longrightarrow> E w" "\<And>w. P w \<Longrightarrow> E (f w)"
  shows "triple P (write_act f) Q E"
  unfolding write_act_def by (rule triple_remote) (use assms in auto)

lemma triple_bind:
  assumes "triple P m R E" "\<And>x. triple (R x) (k x) Q E"
  shows "triple P (bind_act m k) Q E"
  unfolding triple_def
proof (intro allI impI)
  fix fs w
  assume "P w"
  obtain out fs' w' where m: "m (fs, w) = (out, fs', w')" by (rule prod_cases3)
  with assms(1) \<open>P w\<close> have "case out of Done x \<Rightarrow> R x w' | _ \<Rightarrow> E w'"
    by (auto simp: triple_def split: act_outcome.split dest!: spec[of _ fs] spec[of _ w])
  then show "case bind_act m k (fs, w) of (Done x, fs', w') \<Rightarrow> Q x w' | (Threw e, fs', w') \<Rightarrow> E w' | (Died, fs', w') \<Rightarrow> E w'"
    using assms(2) by (cases out) (auto simp: bind_act_def m triple_def)
qed

lemma triple_then: "triple P m (\<lambda>_. R) E \<Longrightarrow> triple R k Q E \<Longrightarrow> triple P (then_act m k) Q E"
  unfolding then_act_def by (rule triple_bind)

lemma triple_attempt:
  assumes "triple P m Q R" "\<And>e. triple R (h e) Q E" "\<And>w. R w \<Longrightarrow> E w"
  shows "triple P (attempt_act m h) Q E"
  unfolding triple_def
proof (intro allI impI)
  fix fs w
  assume "P w"
  obtain out fs' w' where m: "m (fs, w) = (out, fs', w')" by (rule prod_cases3)
  with assms(1) \<open>P w\<close> have "case out of Done x \<Rightarrow> Q x w' | _ \<Rightarrow> R w'"
    by (auto simp: triple_def split: act_outcome.split dest!: spec[of _ fs] spec[of _ w])
  then show "case attempt_act m h (fs, w) of (Done x, fs', w') \<Rightarrow> Q x w' | (Threw e, fs', w') \<Rightarrow> E w' | (Died, fs', w') \<Rightarrow> E w'"
    using assms(2,3) by (cases out) (auto simp: attempt_act_def m triple_def)
qed

lemma triple_tried:
  assumes "triple P m (\<lambda>x. Q (Inr x)) R" "\<And>e w. R w \<Longrightarrow> Q (Inl e) w" "\<And>w. R w \<Longrightarrow> E w"
  shows "triple P (tried m) Q E"
  unfolding tried_def
proof (rule triple_attempt)
  show "triple P (bind_act m (\<lambda>x. give (Inr x))) Q R" by (rule triple_bind[OF assms(1)]) (rule triple_give)
qed (use assms(2,3) in \<open>auto intro: triple_give\<close>)

lemma triple_lift [triples]:
  "(\<And>w x. P w \<Longrightarrow> Q x w) \<Longrightarrow> (\<And>w. P w \<Longrightarrow> E w) \<Longrightarrow> triple P (lift_result r) Q E"
  by (simp add: lift_result_def triple_give triple_throw split: sum.split)

lemma triple_ask [triples]:
  assumes "\<And>w x. P w \<Longrightarrow> f w = Inr x \<Longrightarrow> Q x w" "\<And>w. P w \<Longrightarrow> E w"
  shows "triple P (ask f) Q E"
  unfolding ask_def
proof (rule triple_bind)
  show "triple P (remote (\<lambda>w. (f w, w))) (\<lambda>r w. P w \<and> f w = r) E"
    by (rule triple_remote) (use assms(2) in auto)
  show "triple (\<lambda>w. P w \<and> f w = r) (lift_result r) Q E" for r
    using assms by (cases r) (auto simp: lift_result_def intro!: triple_give triple_throw)
qed

lemma triple_weaken:
  "triple P m Q E \<Longrightarrow> (\<And>w. P' w \<Longrightarrow> P w) \<Longrightarrow> (\<And>x w. Q x w \<Longrightarrow> Q' x w) \<Longrightarrow> (\<And>w. E w \<Longrightarrow> E' w) \<Longrightarrow> triple P' m Q' E'"
  unfolding triple_def by (fastforce split: prod.splits act_outcome.splits)

lemma triple_post: "triple P m Q E \<Longrightarrow> (\<And>x w. Q x w \<Longrightarrow> Q' x w) \<Longrightarrow> triple P m Q' E"
  by (rule triple_weaken)

lemma triple_ex:
  assumes "\<And>x. triple (P x) m Q E"
  shows "triple (\<lambda>w. \<exists>x. P x w) m Q E"
  unfolding triple_def
proof (intro allI impI)
  fix fs w
  assume "\<exists>x. P x w"
  then obtain x where "P x w" ..
  with assms[of x] show "case m (fs, w) of (Done x, fs', w') \<Rightarrow> Q x w' | (Threw e, fs', w') \<Rightarrow> E w' | (Died, fs', w') \<Rightarrow> E w'"
    by (simp add: triple_def)
qed

text \<open>The special case of an invariant.\<close>

definition keeps :: "('s \<Rightarrow> bool) \<Rightarrow> ('s, 'a) act \<Rightarrow> bool" where
  "keeps I m \<longleftrightarrow> triple I m (\<lambda>_. I) I"

lemma keeps_end: "keeps I m \<Longrightarrow> I w \<Longrightarrow> I (snd (snd (m (fs, w))))"
  unfolding keeps_def triple_def by (cases "m (fs, w)"; cases "fst (m (fs, w))") (fastforce dest!: spec[of _ fs] spec[of _ w])+

lemma keeps_simple [triples]:
  "keeps I (give x)" "keeps I (throw_act e)" "keeps I (lift_result r)" "keeps I (ask f)"
  by (simp_all add: keeps_def triples)

lemma keeps_local [triples]: "(\<And>w. I w \<Longrightarrow> I (f w)) \<Longrightarrow> keeps I (local_act f)"
  by (simp add: keeps_def triple_local)

lemma keeps_remote [triples]: "(\<And>w. I w \<Longrightarrow> I (snd (f w))) \<Longrightarrow> keeps I (remote f)"
  by (simp add: keeps_def triple_remote)

lemma keeps_write [triples]: "(\<And>w. I w \<Longrightarrow> I (f w)) \<Longrightarrow> keeps I (write_act f)"
  by (simp add: keeps_def triple_write)

lemma keeps_bind_act [triples]: "keeps I m \<Longrightarrow> (\<And>x. keeps I (k x)) \<Longrightarrow> keeps I (bind_act m k)"
  unfolding keeps_def by (rule triple_bind)

lemma keeps_then [triples]: "keeps I m \<Longrightarrow> keeps I k \<Longrightarrow> keeps I (then_act m k)"
  unfolding keeps_def by (rule triple_then)

lemma keeps_attempt [triples]: "keeps I m \<Longrightarrow> (\<And>e. keeps I (h e)) \<Longrightarrow> keeps I (attempt_act m h)"
  unfolding keeps_def by (rule triple_attempt)

lemma keeps_each [triples]: "(\<And>x. keeps I (f x)) \<Longrightarrow> keeps I (each_act f xs)"
  by (induction xs) (simp_all add: triples)

lemma keeps_if [triples]: "keeps I m \<Longrightarrow> keeps I k \<Longrightarrow> keeps I (if b then m else k)"
  by simp

lemma keeps_option [triples]: "keeps I m \<Longrightarrow> (\<And>x. keeps I (k x)) \<Longrightarrow> keeps I (case v of None \<Rightarrow> m | Some x \<Rightarrow> k x)"
  by (cases v) simp_all

lemma keeps_pair [triples]: "(\<And>x y. keeps I (k x y)) \<Longrightarrow> keeps I (case p of (x, y) \<Rightarrow> k x y)"
  by (cases p) simp

section \<open>Runs in which every call works\<close>

lemma runs_well [simp]:
  "remote f ([], w) = (Done (fst (f w)), [], snd (f w))" "give x s = (Done x, s)" "throw_act e s = (Threw e, s)"
  "local_act g s = (Done (), fst s, g (snd s))"
  "write_act g ([], w) = (Done (), [], g w)"
  by (simp_all add: remote_def give_def throw_act_def local_act_def write_act_def)

lemma bind_well:
  "m s = (Done x, s') \<Longrightarrow> bind_act m k s = k x s'" "m s = (Threw e, s') \<Longrightarrow> bind_act m k s = (Threw e, s')"
  "m s = (Done x, s') \<Longrightarrow> then_act m j s = j s'" "m s = (Done x, s') \<Longrightarrow> attempt_act m h s = (Done x, s')"
  "m s = (Threw e, s') \<Longrightarrow> attempt_act m h s = h e s'"
  by (simp_all add: bind_act_def then_act_def attempt_act_def)

lemma tried_well:
  "m s = (Done x, s') \<Longrightarrow> tried m s = (Done (Inr x), s')" "m s = (Threw e, s') \<Longrightarrow> tried m s = (Done (Inl e), s')"
  by (simp_all add: tried_def bind_act_def attempt_act_def)

lemma ask_well: "ask f ([], w) = (case f w of Inl e \<Rightarrow> (Threw e, [], w) | Inr x \<Rightarrow> (Done x, [], w))"
  by (simp add: ask_def bind_act_def lift_result_def split: sum.split)

end
