(* ===== verification/Delivery.thy ===== *)
theory Delivery
  imports Remote_Calls Documents
begin

text \<open>
  The delivery of outbound messages (\<open>src/src/omni-outbound\<close>): delivery commands and their recovery
  (\<open>delivery-command.service.ts\<close>), the worker in its stages (\<open>delivery.processor.ts\<close>), attempts
  (\<open>delivery-attempt.service.ts\<close>), the classification of provider errors
  (\<open>channels/domain/error-classifier.ts\<close>), the repair of stuck messages (\<open>outbound-reconciliation.service.ts\<close>)
  and the reply window (\<open>reply-window.ts\<close>). Repositories read before a send, adapters and the two handlers of
  e-mail and media are parameters; BullMQ is the list of jobs added and the right to run any of them at any time. Every call
  of the worker has a fate: it may fail before or after its effect, or the process may die there.
\<close>

section \<open>Channels and the reply window\<close>

record capabilities =
  ca_receive :: bool
  ca_send :: bool
  ca_media :: bool
  ca_template :: bool
  ca_receipts :: bool
  ca_csat :: bool
  ca_window_hours :: int

definition default_capabilities :: capabilities where
  "default_capabilities = \<lparr>ca_receive = True, ca_send = True, ca_media = True, ca_template = False, ca_receipts = False,
     ca_csat = True, ca_window_hours = 24\<rparr>"

definition channel_capability_table :: "(string \<times> capabilities) list" where
  "channel_capability_table =
     [(''facebook'', default_capabilities\<lparr>ca_receipts := True\<rparr>), (''instagram'', default_capabilities\<lparr>ca_receipts := True\<rparr>),
      (''whatsapp'', default_capabilities\<lparr>ca_template := True, ca_receipts := True\<rparr>), (''zalo'', default_capabilities),
      (''telegram'', default_capabilities\<lparr>ca_window_hours := 0\<rparr>), (''tiktok'', default_capabilities),
      (''livechat'', default_capabilities\<lparr>ca_window_hours := 0\<rparr>),
      (''email'', default_capabilities\<lparr>ca_window_hours := 0, ca_receipts := False\<rparr>)]"

text \<open>Names of members of \<open>Object.prototype\<close> are no channel types.\<close>

definition channel_capabilities :: "string \<Rightarrow> (string, capabilities) result" where
  "channel_capabilities t =
     (case map_of channel_capability_table t of None \<Rightarrow> Inl (''Unsupported channel type: '' @ t) | Some c \<Rightarrow> Inr c)"

definition is_supported_channel :: "string \<Rightarrow> bool" where
  "is_supported_channel t \<longleftrightarrow> t \<in> fst ` set channel_capability_table"

record window_status =
  ws_open :: bool
  ws_channel :: string
  ws_last :: "int option"
  ws_expires :: "int option"
  ws_remaining :: "int option"
  ws_hours :: int

text \<open>\<open>None\<close> as the remaining time stands for \<open>Infinity\<close>.\<close>

definition get_reply_window_status :: "int \<Rightarrow> string \<Rightarrow> int option \<Rightarrow> (string, window_status) result" where
  "get_reply_window_status now channel last_customer =
     (let ch = to_lower channel in
      bind_result (channel_capabilities ch) (\<lambda>caps.
        let h = ca_window_hours caps in
        Inr (if h = 0 then \<lparr>ws_open = True, ws_channel = ch, ws_last = last_customer, ws_expires = None, ws_remaining = None, ws_hours = 0\<rparr>
             else case last_customer of
               None \<Rightarrow> \<lparr>ws_open = False, ws_channel = ch, ws_last = None, ws_expires = None, ws_remaining = Some 0, ws_hours = h\<rparr>
             | Some t \<Rightarrow>
                 (let expires = t + h * 3600000; left = expires - now in
                  \<lparr>ws_open = (left > 0), ws_channel = ch, ws_last = Some t, ws_expires = Some expires,
                   ws_remaining = Some (max left 0), ws_hours = h\<rparr>))))"

definition enforce_reply_window :: "int \<Rightarrow> string \<Rightarrow> int option \<Rightarrow> (string, unit) result" where
  "enforce_reply_window now channel last_customer =
     bind_result (get_reply_window_status now channel last_customer) (\<lambda>s.
       if ws_open s \<or> ws_hours s = 0 then Inr () else Inl ''ReplyWindowExpired'')"

section \<open>Provider errors\<close>

datatype error_severity = Transient | Permanent

text \<open>An error as it is thrown: the places the status and the code may be in, \<open>None\<close> where absent.\<close>

record raw_error =
  re_http_status :: "int option"
  re_status :: "int option"
  re_status_code :: "int option"
  re_response_status :: "int option"
  re_response_code :: "int option"
  re_code :: "string option"
  re_errno :: "string option"
  re_cause_code :: "string option"
  re_message :: "string option"
  re_text :: string

record classified_error =
  ce_severity :: error_severity
  ce_http :: "int option"
  ce_code :: string
  ce_message :: string
  ce_update_config :: bool

definition truthy_int :: "int option \<Rightarrow> int option" where
  "truthy_int v = (if v = Some 0 then None else v)"

definition transient_http_codes :: "int list" where "transient_http_codes = [429, 500, 502, 503, 504]"

definition transient_network_codes :: "string list" where
  "transient_network_codes = [''ECONNRESET'', ''ECONNREFUSED'', ''ETIMEDOUT'', ''ENOTFOUND'', ''EAI_AGAIN'', ''EPIPE'',
     ''EHOSTUNREACH'', ''ENETUNREACH'', ''UND_ERR_CONNECT_TIMEOUT'', ''UND_ERR_SOCKET'']"

definition looks_like_timeout :: "string \<Rightarrow> bool" where
  "looks_like_timeout message \<longleftrightarrow>
     list_ex (includes_str (to_lower message)) [''timeout'', ''timed out'', ''econnreset'', ''socket hang up'']"

text \<open>The classification once the status has decided nothing.\<close>

definition classify_by_code :: "int option \<Rightarrow> string \<Rightarrow> string \<Rightarrow> classified_error" where
  "classify_by_code status code message =
     (if code \<noteq> [] \<and> code \<in> set transient_network_codes
      then \<lparr>ce_severity = Transient, ce_http = None, ce_code = code, ce_message = message, ce_update_config = False\<rparr>
      else if looks_like_timeout message
      then \<lparr>ce_severity = Transient, ce_http = None, ce_code = ''NETWORK_TIMEOUT'', ce_message = message, ce_update_config = False\<rparr>
      else \<lparr>ce_severity = Permanent, ce_http = status, ce_code = (if code = [] then ''UNKNOWN_ERROR'' else code),
             ce_message = message, ce_update_config = False\<rparr>)"

definition classify_provider_error :: "raw_error \<Rightarrow> classified_error" where
  "classify_provider_error e =
     (let status = or_else (truthy_int (re_http_status e)) (or_else (truthy_int (re_status e)) (or_else (truthy_int (re_status_code e))
            (or_else (truthy_int (re_response_status e)) (re_response_code e))));
          code = default_to [] (or_else (truthy_id (re_code e)) (or_else (truthy_id (re_errno e)) (truthy_id (re_cause_code e))));
          message = default_to ''Unknown provider error'' (or_else (truthy_id (re_message e)) (truthy_id (Some (re_text e))))
      in case truthy_int status of
           None \<Rightarrow> classify_by_code status code message
         | Some h \<Rightarrow>
             if h \<in> set transient_http_codes
             then \<lparr>ce_severity = Transient, ce_http = Some h, ce_code = ''HTTP_'' @ nat_text (nat h), ce_message = message,
                    ce_update_config = False\<rparr>
             else if h = 401 \<or> h = 403
             then \<lparr>ce_severity = Permanent, ce_http = Some h, ce_code = ''HTTP_'' @ nat_text (nat h), ce_message = message,
                    ce_update_config = True\<rparr>
             else classify_by_code status code message)"

section \<open>State\<close>

datatype delivery_kind = KText | KTemplate | KInteractive | KCarousel | KMedia | KEmail

datatype command_status = DcPending | DcProcessing | DcCompleted | DcFailed | DcUnknown

datatype attempt_status = AtStarted | AtSucceeded | AtFailed | AtUnknown

text \<open>The fields of a payload the worker reads.\<close>

record delivery_payload =
  dp_template :: "string option"
  dp_language :: "string option"
  dp_components :: "string list option"
  dp_body :: string
  dp_buttons :: "string option list option"
  dp_content :: "string option"
  dp_cards :: "(string option \<times> string option) list option"

record delivery_input =
  di_tenant :: string
  di_message :: string
  di_conversation :: string
  di_agent :: string
  di_content :: string
  di_message_type :: string
  di_kind :: "delivery_kind option"
  di_payload :: delivery_payload
  di_source :: string

record delivery_command =
  dc_id :: nat
  dc_tenant :: string
  dc_message :: string
  dc_conversation :: string
  dc_agent :: string
  dc_content :: string
  dc_message_type :: string
  dc_kind :: delivery_kind
  dc_payload :: delivery_payload
  dc_source :: string
  dc_status :: command_status
  dc_started :: "int option"
  dc_completed :: "int option"
  dc_external :: "string option"
  dc_error :: "string option"
  dc_updated :: int

record delivery_attempt =
  da_id :: nat
  da_tenant :: string
  da_message :: string
  da_status :: attempt_status
  da_started :: int
  da_completed :: "int option"
  da_external :: "string option"
  da_code :: "string option"
  da_severity :: "error_severity option"
  da_http :: "int option"
  da_error :: "string option"

record outbound_message =
  om_id :: string
  om_tenant :: string
  om_conversation :: string
  om_status :: string
  om_outbound :: bool
  om_external :: "string option"
  om_updated :: int
  om_reconciled :: "(string \<times> int \<times> int) option"

record delivery_job =
  dj_command :: nat
  dj_tenant :: string
  dj_priority :: int

datatype delivery_event =
    StatusEvent string string "string list" string
  | SentEvent string string string string

text \<open>\<open>dw_calls\<close> is what the providers were asked to send, in order.\<close>

record delivery_world =
  dw_commands :: "delivery_command list"
  dw_messages :: "outbound_message list"
  dw_attempts :: "delivery_attempt list"
  dw_jobs :: "delivery_job list"
  dw_events :: "delivery_event list"
  dw_calls :: "nat list"
  dw_next :: nat
  dw_next_attempt :: nat

section \<open>Commands\<close>

definition delivery_max_attempts :: nat where "delivery_max_attempts = 3"

definition delivery_priority_for :: "string option \<Rightarrow> int" where
  "delivery_priority_for source =
     (case truthy_id source of
        None \<Rightarrow> 1
      | Some s \<Rightarrow>
          if list_ex (includes_str (to_lower s)) [''campaign'', ''broadcast'', ''bulk'', ''import''] then 10
          else if list_ex (includes_str (to_lower s)) [''bot'', ''automation'', ''workflow''] then 5 else 1)"

definition add_job :: "bool \<Rightarrow> nat \<Rightarrow> string \<Rightarrow> string option \<Rightarrow> delivery_world \<Rightarrow> bool \<times> delivery_world" where
  "add_job queue_up i t source w =
     (if queue_up then (True, w\<lparr>dw_jobs := dw_jobs w @ [\<lparr>dj_command = i, dj_tenant = t, dj_priority = delivery_priority_for source\<rparr>]\<rparr>)
      else (False, w))"

text \<open>The upsert on (tenant, message), unique by index; then the job. The answer: command and whether it was deferred.\<close>

definition upsert_command :: "int \<Rightarrow> delivery_input \<Rightarrow> delivery_world \<Rightarrow> delivery_command \<times> delivery_world" where
  "upsert_command now inp w =
     (case List.find (\<lambda>c. dc_tenant c = di_tenant inp \<and> dc_message c = di_message inp) (dw_commands w) of
        Some c \<Rightarrow> (c, w)
      | None \<Rightarrow>
          (let c = \<lparr>dc_id = dw_next w, dc_tenant = di_tenant inp, dc_message = di_message inp, dc_conversation = di_conversation inp,
                 dc_agent = di_agent inp, dc_content = di_content inp, dc_message_type = di_message_type inp,
                 dc_kind = default_to KText (di_kind inp), dc_payload = di_payload inp, dc_source = di_source inp,
                 dc_status = DcPending, dc_started = None, dc_completed = None, dc_external = None, dc_error = None, dc_updated = now\<rparr>
           in (c, w\<lparr>dw_commands := dw_commands w @ [c], dw_next := Suc (dw_next w)\<rparr>)))"

definition enqueue_delivery :: "bool \<Rightarrow> int \<Rightarrow> delivery_input \<Rightarrow> delivery_world \<Rightarrow> (nat \<times> bool) \<times> delivery_world" where
  "enqueue_delivery queue_up now inp w =
     (let (c, w1) = upsert_command now inp w; (ok, w2) = add_job queue_up (dc_id c) (di_tenant inp) (Some (di_source inp)) w1
      in ((dc_id c, \<not> ok), w2))"

definition update_command :: "nat \<Rightarrow> command_status \<Rightarrow> (delivery_command \<Rightarrow> delivery_command) \<Rightarrow> delivery_world \<Rightarrow> delivery_command option \<times> delivery_world" where
  "update_command i expected f w =
     (let (found, cs) = find_and_update (\<lambda>c. dc_id c = i \<and> dc_status c = expected) f (dw_commands w)
      in (found, w\<lparr>dw_commands := cs\<rparr>))"

definition recovery_batch :: nat where "recovery_batch = 200"
definition stale_processing_ms :: int where "stale_processing_ms = 300000"

definition needs_recovery :: "int \<Rightarrow> delivery_command \<Rightarrow> bool" where
  "needs_recovery now c \<longleftrightarrow> dc_status c = DcPending
     \<or> dc_status c = DcProcessing \<and> (case dc_started c of Some t \<Rightarrow> t \<le> now - stale_processing_ms | None \<Rightarrow> False)"

definition recover_one :: "(nat \<Rightarrow> bool) \<Rightarrow> int \<Rightarrow> delivery_command \<Rightarrow> nat \<times> delivery_world \<Rightarrow> nat \<times> delivery_world" where
  "recover_one queue_up now c nw =
     (if dc_status c = DcProcessing then
        (case update_command (dc_id c) DcProcessing
                (\<lambda>d. d\<lparr>dc_status := DcUnknown, dc_completed := Some now, dc_updated := now,
                   dc_error := Some ''Worker stopped while provider outcome was unknown''\<rparr>) (snd nw) of
           (None, w1) \<Rightarrow> (fst nw, w1) | (Some d, w1) \<Rightarrow> (Suc (fst nw), w1))
      else case add_job (queue_up (dc_id c)) (dc_id c) (dc_tenant c) None (snd nw) of
             (True, w1) \<Rightarrow> (Suc (fst nw), w1) | (False, w1) \<Rightarrow> (fst nw, w1))"

definition recovery_candidates :: "int \<Rightarrow> delivery_world \<Rightarrow> delivery_command list" where
  "recovery_candidates now w =
     take recovery_batch (sort_by (\<lambda>a b. dc_updated a \<le> dc_updated b) (filter (needs_recovery now) (dw_commands w)))"

definition recover_pending :: "(nat \<Rightarrow> bool) \<Rightarrow> int \<Rightarrow> delivery_world \<Rightarrow> nat \<times> delivery_world" where
  "recover_pending queue_up now w = fold (recover_one queue_up now) (recovery_candidates now w) (0, w)"

section \<open>Attempts\<close>

definition start_attempt :: "int \<Rightarrow> string \<Rightarrow> string \<Rightarrow> delivery_world \<Rightarrow> nat \<times> delivery_world" where
  "start_attempt now t m w =
     (dw_next_attempt w, w\<lparr>dw_attempts := dw_attempts w @ [\<lparr>da_id = dw_next_attempt w, da_tenant = t, da_message = m,
        da_status = AtStarted, da_started = now, da_completed = None, da_external = None, da_code = None, da_severity = None,
        da_http = None, da_error = None\<rparr>], dw_next_attempt := Suc (dw_next_attempt w)\<rparr>)"

definition update_attempt :: "nat \<Rightarrow> (delivery_attempt \<Rightarrow> delivery_attempt) \<Rightarrow> delivery_world \<Rightarrow> delivery_world" where
  "update_attempt i f w =
     w\<lparr>dw_attempts := update_first (\<lambda>a. da_id a = i \<and> da_status a = AtStarted) f (dw_attempts w)\<rparr>"

definition succeed_attempt :: "int \<Rightarrow> nat \<Rightarrow> string \<Rightarrow> delivery_world \<Rightarrow> delivery_world" where
  "succeed_attempt now i external w =
     update_attempt i (\<lambda>a. a\<lparr>da_status := AtSucceeded, da_completed := Some now, da_external := truthy_id (Some external)\<rparr>) w"

definition fail_outcome :: "raw_error \<Rightarrow> command_status" where
  "fail_outcome e = (if ce_severity (classify_provider_error e) = Transient then DcUnknown else DcFailed)"

definition fail_attempt :: "int \<Rightarrow> nat \<Rightarrow> raw_error \<Rightarrow> delivery_world \<Rightarrow> command_status \<times> delivery_world" where
  "fail_attempt now i e w =
     (let c = classify_provider_error e in
      (fail_outcome e,
       update_attempt i (\<lambda>a. a\<lparr>da_status := (if ce_severity c = Transient then AtUnknown else AtFailed), da_completed := Some now,
          da_code := Some (ce_code c), da_severity := Some (ce_severity c), da_http := ce_http c,
          da_error := Some (take 2000 (ce_message c))\<rparr>) w))"

definition mark_started_unknown_for_messages :: "int \<Rightarrow> string list \<Rightarrow> delivery_world \<Rightarrow> nat \<times> delivery_world" where
  "mark_started_unknown_for_messages now ids w =
     (let P = (\<lambda>a. da_message a \<in> set ids \<and> da_status a = AtStarted) in
      if ids = [] then (0, w)
      else (length (filter P (dw_attempts w)),
            w\<lparr>dw_attempts := update_many P (\<lambda>a. a\<lparr>da_status := AtUnknown, da_completed := Some now,
               da_code := Some ''PROCESS_INTERRUPTED'', da_severity := Some Transient,
               da_error := Some ''Delivery process ended before the provider outcome was persisted''\<rparr>) (dw_attempts w)\<rparr>))"

section \<open>The worker\<close>

record conversation_view =
  cv_channel :: string
  cv_account :: "string option"
  cv_type :: string
  cv_customer :: "string option"

record channel_view =
  ch_credentials :: string
  ch_account :: string

text \<open>Which optional sends an adapter has.\<close>

record adapter_view =
  ad_template :: bool
  ad_interactive :: bool
  ad_carousel :: bool

text \<open>What is asked of a provider.\<close>

datatype provider_request =
    SendEmail string string string
  | SendMedia string string string
  | SendTemplate string "string option" "string option" "string list"
  | SendInteractive string string "string option list"
  | SendCarousel string "string option" "(string option \<times> string option) list"
  | Send string string string

record delivery_ports =
  pt_conversation :: "string \<Rightarrow> (string, conversation_view option) result"
  pt_channel :: "string \<Rightarrow> string \<Rightarrow> (string, channel_view option) result"
  pt_channel_by_account :: "string \<Rightarrow> string \<Rightarrow> string \<Rightarrow> (string, channel_view option) result"
  pt_adapter :: "string \<Rightarrow> adapter_view option"
  pt_provider :: "provider_request \<Rightarrow> (raw_error, string option \<times> string option) result"

definition claim_delivery :: "int \<Rightarrow> nat \<Rightarrow> string \<Rightarrow> delivery_world \<Rightarrow> delivery_command option \<times> delivery_world" where
  "claim_delivery now i t w =
     (let (found, cs) = find_and_update (\<lambda>c. dc_id c = i \<and> dc_tenant c = t \<and> dc_status c = DcPending)
            (\<lambda>c. c\<lparr>dc_status := DcProcessing, dc_started := Some now, dc_updated := now\<rparr>) (dw_commands w)
      in (found, w\<lparr>dw_commands := cs\<rparr>))"

definition prepare_delivery :: "delivery_ports \<Rightarrow> delivery_command \<Rightarrow> (string, conversation_view \<times> channel_view \<times> adapter_view option) result" where
  "prepare_delivery pt c =
     bind_result (pt_conversation pt (dc_conversation c)) (\<lambda>found.
       case found of
         None \<Rightarrow> Inl ''Conversation no longer exists''
       | Some cv \<Rightarrow>
           bind_result (pt_channel pt (dc_tenant c) (cv_channel cv)) (\<lambda>direct.
             bind_result (case (direct, truthy_id (cv_account cv)) of
                 (None, Some a) \<Rightarrow> pt_channel_by_account pt (dc_tenant c) (cv_type cv) a
               | _ \<Rightarrow> Inr direct)
               (\<lambda>channel. case channel of
                  None \<Rightarrow> Inl ''Channel is disconnected or unavailable''
                | Some ch \<Rightarrow>
                    (let ad = (if dc_kind c = KEmail then None else pt_adapter pt (to_lower (cv_type cv))) in
                     if dc_kind c \<noteq> KEmail \<and> ad = None then Inl (''No outbound adapter registered for '' @ cv_type cv)
                     else Inr (cv, ch, ad)))))"

definition rewind_for_retry :: "int \<Rightarrow> string \<Rightarrow> delivery_command \<Rightarrow> delivery_world \<Rightarrow> delivery_world" where
  "rewind_for_retry now msg c w =
     snd (update_command (dc_id c) DcProcessing
       (\<lambda>d. d\<lparr>dc_status := DcPending, dc_error := Some (take 2000 msg), dc_started := None, dc_updated := now\<rparr>) w)"

definition number_lines :: "(nat \<Rightarrow> 'a \<Rightarrow> string) \<Rightarrow> 'a list \<Rightarrow> string" where
  "number_lines f xs = join_with [CHR 0x0A] (map (\<lambda>(i, x). f (Suc i) x) (zip [0..<length xs] xs))"

definition interactive_fallback :: "string \<Rightarrow> string option list \<Rightarrow> string" where
  "interactive_fallback body buttons =
     (let options = number_lines (\<lambda>i title. nat_text i @ ''. '' @ default_to [] title) buttons in
      if options = [] then body else body @ [CHR 0x0A, CHR 0x0A] @ options)"

text \<open>The dash between title and subtitle is written as \<open>--\<close> here.\<close>

definition carousel_fallback :: "string option \<Rightarrow> (string option \<times> string option) list \<Rightarrow> string" where
  "carousel_fallback content cards =
     (let items = number_lines (\<lambda>i (title, subtitle). ''['' @ nat_text i @ ''] '' @ default_to [] title
            @ (case truthy_id subtitle of Some s \<Rightarrow> '' -- '' @ s | None \<Rightarrow> [])) cards
      in case truthy_id content of Some c \<Rightarrow> c @ [CHR 0x0A, CHR 0x0A] @ items | None \<Rightarrow> items)"

text \<open>What the worker asks of whom, or the error it throws before it asks anybody.\<close>

definition plain_error :: "string \<Rightarrow> raw_error" where
  "plain_error msg = \<lparr>re_http_status = None, re_status = None, re_status_code = None, re_response_status = None,
     re_response_code = None, re_code = None, re_errno = None, re_cause_code = None, re_message = Some msg, re_text = msg\<rparr>"

definition dispatch_request :: "adapter_view option \<Rightarrow> delivery_command \<Rightarrow> string \<Rightarrow> (raw_error, provider_request) result" where
  "dispatch_request ad c recipient =
     (let p = dc_payload c in
      case dc_kind c of
        KEmail \<Rightarrow> Inr (SendEmail (dc_tenant c) (dc_conversation c) (dc_message c))
      | KMedia \<Rightarrow> Inr (SendMedia (dc_tenant c) (dc_conversation c) (dc_message c))
      | k \<Rightarrow>
          (case ad of
             None \<Rightarrow> Inl (plain_error ''Channel adapter is required'')
           | Some a \<Rightarrow>
               (case k of
                  KTemplate \<Rightarrow>
                    if ad_template a then Inr (SendTemplate recipient (dp_template p) (dp_language p) (default_to [] (dp_components p)))
                    else Inl (plain_error ''Channel adapter does not support templates'')
                | KInteractive \<Rightarrow>
                    if ad_interactive a then Inr (SendInteractive recipient (dp_body p) (default_to [] (dp_buttons p)))
                    else Inr (Send recipient (interactive_fallback (dp_body p) (default_to [] (dp_buttons p))) ''text'')
                | KCarousel \<Rightarrow>
                    if ad_carousel a then Inr (SendCarousel recipient (dp_content p) (default_to [] (dp_cards p)))
                    else Inr (Send recipient (carousel_fallback (dp_content p) (default_to [] (dp_cards p))) ''text'')
                | _ \<Rightarrow> Inr (Send recipient (dc_content c) (dc_message_type c)))))"

definition ask_provider ::
  "delivery_ports \<Rightarrow> provider_request \<Rightarrow> nat \<Rightarrow> delivery_world \<Rightarrow> (raw_error, string option \<times> string option) result \<times> delivery_world" where
  "ask_provider pt rq i w = (pt_provider pt rq, w\<lparr>dw_calls := dw_calls w @ [i]\<rparr>)"

definition update_message_status :: "int \<Rightarrow> string \<Rightarrow> string \<Rightarrow> string \<Rightarrow> delivery_world \<Rightarrow> delivery_world" where
  "update_message_status now m status external w =
     w\<lparr>dw_messages := update_first (\<lambda>x. om_id x = m) (\<lambda>x. x\<lparr>om_status := status, om_updated := now,
        om_external := (if external = [] then om_external x else Some external)\<rparr>) (dw_messages w)\<rparr>"

definition settle_failed :: "int \<Rightarrow> command_status \<Rightarrow> raw_error \<Rightarrow> delivery_command \<Rightarrow> delivery_world \<Rightarrow> delivery_world" where
  "settle_failed now outcome e c w =
     snd (update_command (dc_id c) DcProcessing (\<lambda>d. d\<lparr>dc_status := outcome, dc_completed := Some now, dc_updated := now,
       dc_error := Some (take 2000 (default_to (re_text e) (re_message e)))\<rparr>) w)"

definition emit_delivery :: "delivery_event \<Rightarrow> delivery_world \<Rightarrow> delivery_world" where
  "emit_delivery e w = w\<lparr>dw_events := dw_events w @ [e]\<rparr>"

type_synonym 'a delivery = "(delivery_world, 'a) act"

text \<open>The failure of a send: the attempt, the message, the command, the event; an error in one of the writes leaves the job.\<close>

definition record_failure :: "int \<Rightarrow> nat option \<Rightarrow> raw_error \<Rightarrow> delivery_command \<Rightarrow> unit delivery" where
  "record_failure now attempt e c =
     bind_act (case attempt of Some a \<Rightarrow> remote (fail_attempt now a e) | None \<Rightarrow> give DcFailed) (\<lambda>outcome.
       then_act (write_act (update_message_status now (dc_message c) ''failed'' []))
       (then_act (write_act (settle_failed now outcome e c))
         (local_act (emit_delivery (StatusEvent (dc_tenant c) (dc_conversation c) [dc_message c] ''failed'')))))"

definition external_id :: "string option \<times> string option \<Rightarrow> string" where
  "external_id r = default_to [] (or_else (truthy_id (fst r)) (truthy_id (snd r)))"

definition complete_delivery :: "int \<Rightarrow> string \<Rightarrow> delivery_command \<Rightarrow> delivery_world \<Rightarrow> delivery_world" where
  "complete_delivery now external c w =
     snd (update_command (dc_id c) DcProcessing (\<lambda>d. d\<lparr>dc_status := DcCompleted, dc_completed := Some now, dc_updated := now,
       dc_external := Some external\<rparr>) w)"

text \<open>The projections of a message that was sent; what fails in them is only logged.\<close>

definition project_successful_delivery :: "int \<Rightarrow> nat \<Rightarrow> string \<Rightarrow> delivery_command \<Rightarrow> unit delivery" where
  "project_successful_delivery now attempt external c =
     then_act (attempt_act (write_act (succeed_attempt now attempt external)) (\<lambda>_. give ()))
     (then_act (attempt_act (write_act (update_message_status now (dc_message c) ''sent'' external)) (\<lambda>_. give ()))
       (local_act (emit_delivery (SentEvent (dc_tenant c) (dc_conversation c) (dc_message c) external))))"

text \<open>
  The attempt and the call in one \<open>try\<close>: an error of the attempt's record, an error of the adapter before it asks, an
  error or a refusal of the provider, or its answer.
\<close>

definition attempt_send ::
  "delivery_ports \<Rightarrow> int \<Rightarrow> delivery_command \<Rightarrow> string \<Rightarrow> adapter_view option
   \<Rightarrow> (nat option \<times> (raw_error, string option \<times> string option) result) delivery" where
  "attempt_send pt now c recipient ad =
     bind_act (tried (remote (start_attempt now (dc_tenant c) (dc_message c)))) (\<lambda>started.
       case started of
         Inl e \<Rightarrow> give (None, Inl (plain_error e))
       | Inr a \<Rightarrow>
           (case dispatch_request ad c recipient of
              Inl e \<Rightarrow> give (Some a, Inl e)
            | Inr rq \<Rightarrow> bind_act (tried (remote (ask_provider pt rq (dc_id c)))) (\<lambda>answer.
                give (Some a, case answer of Inl e \<Rightarrow> Inl (plain_error e) | Inr r \<Rightarrow> r))))"

text \<open>A job from end to end.\<close>

definition handle_delivery :: "delivery_ports \<Rightarrow> int \<Rightarrow> nat \<Rightarrow> string \<Rightarrow> unit delivery" where
  "handle_delivery pt now i t =
     bind_act (remote (claim_delivery now i t)) (\<lambda>found.
       case found of
         None \<Rightarrow> give ()
       | Some c \<Rightarrow>
           bind_act (tried (ask (\<lambda>_. prepare_delivery pt c))) (\<lambda>prepared.
             case prepared of
               Inl e \<Rightarrow> then_act (write_act (rewind_for_retry now e c)) (throw_act e)
             | Inr (cv, ch, ad) \<Rightarrow>
                 bind_act (attempt_send pt now c (default_to [] (cv_customer cv)) ad) (\<lambda>(a, r).
                   case r of
                     Inl e \<Rightarrow> record_failure now a e c
                   | Inr resp \<Rightarrow> then_act (write_act (complete_delivery now (external_id resp) c))
                       (case a of Some n \<Rightarrow> project_successful_delivery now n (external_id resp) c | None \<Rightarrow> give ()))))"

section \<open>Stuck messages\<close>

definition positive_integer :: "jnum \<Rightarrow> int \<Rightarrow> int" where
  "positive_integer v fallback = (case v of Dec m k \<Rightarrow> if m mod 10 ^ k = 0 \<and> m > 0 then m div 10 ^ k else fallback | _ \<Rightarrow> fallback)"

definition default_stale_after_ms :: int where "default_stale_after_ms = 300000"
definition default_batch_size :: int where "default_batch_size = 200"
definition max_batch_size :: int where "max_batch_size = 1000"

definition is_stuck :: "int \<Rightarrow> outbound_message \<Rightarrow> bool" where
  "is_stuck cutoff m \<longleftrightarrow> om_status m = ''sending'' \<and> om_outbound m \<and> om_updated m \<le> cutoff"

text \<open>\<open>Map.set\<close> keeps the place of a known key.\<close>

fun add_to_group :: "string \<Rightarrow> string \<Rightarrow> string \<Rightarrow> (string \<times> string \<times> string list) list \<Rightarrow> (string \<times> string \<times> string list) list" where
  "add_to_group conv t m [] = [(conv, t, [m])]"
| "add_to_group conv t m ((c, t', ms) # gs) = (if c = conv then (c, t', ms @ [m]) # gs else (c, t', ms) # add_to_group conv t m gs)"

definition reconcile_one ::
  "int \<Rightarrow> int \<Rightarrow> int \<Rightarrow> outbound_message \<Rightarrow> (string \<times> string \<times> string list) list \<times> delivery_world
   \<Rightarrow> (string \<times> string \<times> string list) list \<times> delivery_world" where
  "reconcile_one now stale cutoff m gw =
     (case find_and_update (\<lambda>x. om_id x = om_id m \<and> is_stuck cutoff x)
             (\<lambda>x. x\<lparr>om_status := ''failed'', om_updated := now, om_reconciled := Some (''delivery_outcome_unknown'', now, stale)\<rparr>)
             (dw_messages (snd gw)) of
        (None, ms) \<Rightarrow> gw
      | (Some x, ms) \<Rightarrow> (add_to_group (om_conversation m) (om_tenant m) (om_id m) (fst gw), (snd gw)\<lparr>dw_messages := ms\<rparr>))"

definition stuck_candidates :: "int \<Rightarrow> nat \<Rightarrow> delivery_world \<Rightarrow> outbound_message list" where
  "stuck_candidates cutoff batch w =
     take batch (sort_by (\<lambda>a b. om_updated a < om_updated b \<or> om_updated a = om_updated b \<and> om_id a \<le> om_id b)
       (filter (is_stuck cutoff) (dw_messages w)))"

definition reconcile_stuck_messages :: "jnum \<Rightarrow> jnum \<Rightarrow> int \<Rightarrow> delivery_world \<Rightarrow> nat \<times> delivery_world" where
  "reconcile_stuck_messages stale_cfg batch_cfg now w =
     (let stale = positive_integer stale_cfg default_stale_after_ms;
          batch = min (positive_integer batch_cfg default_batch_size) max_batch_size;
          cutoff = now - stale;
          (groups, w1) = fold (reconcile_one now stale cutoff) (stuck_candidates cutoff (nat batch) w) ([], w);
          ids = concat (map (\<lambda>(c, t, ms). ms) groups);
          w2 = w1\<lparr>dw_events := dw_events w1 @ map (\<lambda>(c, t, ms). StatusEvent t c ms ''failed'') groups\<rparr>
      in (length ids, snd (mark_started_unknown_for_messages now ids w2)))"

end
