(* ===== verification/Delivery_Safety.thy ===== *)
theory Delivery_Safety
  imports Delivery
begin

text \<open>
  A provider is asked at most once to send a message, however jobs are redelivered, workers crash and the recovery and
  reconciliation ticks interleave; a completed command was sent; what the reply window admits; and where the repair of
  stuck messages and the recovery of commands disagree with the state of the command.
\<close>

section \<open>Workers\<close>

datatype stage = Claimed | Started "adapter_view option" string nat | Answered nat "(raw_error, string option \<times> string option) result"

type_synonym delivery_state = "delivery_world \<times> (delivery_command \<times> stage) list"

definition unsent :: "stage \<Rightarrow> bool" where
  "unsent s \<longleftrightarrow> (case s of Answered a r \<Rightarrow> False | _ \<Rightarrow> True)"

text \<open>
  One write of some worker, one document of a tick, or the end of a worker, by a crash or an error. Messages, attempts and
  events may be written by anybody, and a worker may call its command failed at any stage. A job may be run any number of
  times, by any number of workers, and snapshots may be of any age.
\<close>

inductive delivery_step :: "delivery_state \<Rightarrow> delivery_state \<Rightarrow> bool" where
  enqueues: "delivery_step (w, ws) (snd (enqueue_delivery up now inp w), ws)"
| recovers: "delivery_step (w, ws) (snd (recover_one up now c (n, w)), ws)"
| claims: "claim_delivery now i t w = (Some c, w1) \<Longrightarrow> delivery_step (w, ws) (w1, (c, Claimed) # ws)"
| rewinds: "(c, Claimed) \<in> set ws \<Longrightarrow> delivery_step (w, ws) (rewind_for_retry now e c w, remove1 (c, Claimed) ws)"
| starts: "(c, Claimed) \<in> set ws \<Longrightarrow> prepare_delivery pt c = Inr (cv, ch, ad) \<Longrightarrow>
    start_attempt now (dc_tenant c) (dc_message c) w = (a, w1) \<Longrightarrow>
    delivery_step (w, ws) (w1, (c, Started ad (default_to [] (cv_customer cv)) a) # remove1 (c, Claimed) ws)"
| calls: "(c, Started ad r a) \<in> set ws \<Longrightarrow> ask_provider pt rq (dc_id c) w = (res, w1) \<Longrightarrow>
    delivery_step (w, ws) (w1, (c, Answered a res) # remove1 (c, Started ad r a) ws)"
| fails: "(c, s) \<in> set ws \<Longrightarrow> out \<in> {DcFailed, DcUnknown} \<Longrightarrow> delivery_step (w, ws) (settle_failed now out e c w, ws)"
| completes: "(c, Answered a (Inr resp)) \<in> set ws \<Longrightarrow> delivery_step (w, ws) (complete_delivery now (external_id resp) c w, ws)"
| books: "delivery_step (w, ws) (w\<lparr>dw_messages := ms, dw_attempts := as, dw_events := es, dw_next_attempt := n\<rparr>, ws)"
| crashes: "delivery_step (w, ws) (w, remove1 x ws)"
| reconciles: "delivery_step (w, ws) (snd (reconcile_stuck_messages s b now w), ws)"

section \<open>The invariant\<close>

definition sends :: "delivery_state \<Rightarrow> nat \<Rightarrow> nat" where
  "sends st i = count_list (dw_calls (fst st)) i + length (filter (\<lambda>x. dc_id (fst x) = i \<and> unsent (snd x)) (snd st))"

definition commands_ok :: "delivery_world \<Rightarrow> bool" where
  "commands_ok w \<longleftrightarrow> distinct (map dc_id (dw_commands w)) \<and> distinct (map (\<lambda>c. (dc_tenant c, dc_message c)) (dw_commands w))
     \<and> (\<forall>c \<in> set (dw_commands w). dc_id c < dw_next w)"

definition delivery_ok :: "delivery_state \<Rightarrow> bool" where
  "delivery_ok st \<longleftrightarrow> commands_ok (fst st) \<and> (\<forall>i. sends st i \<le> 1) \<and> (\<forall>i \<ge> dw_next (fst st). sends st i = 0)
     \<and> (\<forall>c \<in> set (dw_commands (fst st)). dc_status c = DcPending \<longrightarrow> sends st (dc_id c) = 0)
     \<and> (\<forall>c \<in> set (dw_commands (fst st)). dc_status c = DcCompleted \<longrightarrow> dc_id c \<in> set (dw_calls (fst st)))
     \<and> (\<forall>c a resp. (c, Answered a (Inr resp)) \<in> set (snd st) \<longrightarrow> dc_id c \<in> set (dw_calls (fst st)))"

text \<open>Two worlds with the same commands and calls.\<close>

definition same_core :: "delivery_world \<Rightarrow> delivery_world \<Rightarrow> bool" where
  "same_core w v \<longleftrightarrow> dw_commands v = dw_commands w \<and> dw_calls v = dw_calls w \<and> dw_next v = dw_next w"

lemma ok_same_core: "delivery_ok (w, ws) \<Longrightarrow> same_core w v \<Longrightarrow> delivery_ok (v, ws)"
  by (simp add: delivery_ok_def same_core_def commands_ok_def sends_def)

lemma same_core_trans: "same_core u v \<Longrightarrow> same_core v w \<Longrightarrow> same_core u w"
  by (simp add: same_core_def)

lemma same_core_refl [simp]: "same_core w w"
  by (simp add: same_core_def)

lemma same_core_writes [simp]:
  "same_core w (snd (add_job up i t s w))" "same_core w (snd (start_attempt now t m w))" "same_core w (update_attempt a f w)"
  "same_core w (snd (fail_attempt now a e w))" "same_core w (succeed_attempt now a x w)" "same_core w (update_message_status now m st x w)"
  "same_core w (snd (mark_started_unknown_for_messages now ids w))" "same_core w (emit_delivery ev w)"
  "same_core w (w\<lparr>dw_messages := ms, dw_attempts := as, dw_events := es, dw_next_attempt := k\<rparr>)"
  by (simp_all add: same_core_def add_job_def start_attempt_def update_attempt_def fail_attempt_def succeed_attempt_def
      update_message_status_def mark_started_unknown_for_messages_def emit_delivery_def Let_def)

lemma reconcile_one_core: "same_core (snd gw) (snd (reconcile_one now s cutoff m gw))"
  by (simp add: reconcile_one_def same_core_def split: prod.split option.split)

lemma reconcile_fold_core: "same_core (snd gw) (snd (fold (reconcile_one now s cutoff) ms gw))"
proof (induction ms arbitrary: gw)
  case (Cons m ms)
  show ?case using same_core_trans[OF reconcile_one_core[of gw now s cutoff m] Cons.IH] by simp
qed simp

lemma reconcile_core: "same_core w (snd (reconcile_stuck_messages s b now w))"
proof -
  let ?stale = "positive_integer s default_stale_after_ms"
  let ?ms = "stuck_candidates (now - ?stale) (nat (min (positive_integer b default_batch_size) max_batch_size)) w"
  obtain gs w1 where f: "fold (reconcile_one now ?stale (now - ?stale)) ?ms ([], w) = (gs, w1)" by (rule prod.exhaust)
  then have "same_core w w1" using reconcile_fold_core[of "([], w)" now ?stale "now - ?stale" ?ms] by simp
  then show ?thesis
    using same_core_writes(7) by (simp add: reconcile_stuck_messages_def f Let_def) (simp add: same_core_def mark_started_unknown_for_messages_def Let_def)
qed

section \<open>Writes to a command\<close>

definition keeps_command :: "(delivery_command \<Rightarrow> delivery_command) \<Rightarrow> bool" where
  "keeps_command f \<longleftrightarrow> (\<forall>c. dc_id (f c) = dc_id c \<and> dc_tenant (f c) = dc_tenant c \<and> dc_message (f c) = dc_message c)"

lemma find_and_update_keeps:
  assumes "find_and_update P f cs = (found, ds)" "\<And>c. g (f c) = g c"
  shows "map g ds = map g cs"
  using find_and_update_map[of P g f cs] assms by simp

lemma commands_ok_update:
  assumes "commands_ok w" "find_and_update P f (dw_commands w) = (found, ds)" "keeps_command f"
  shows "commands_ok (w\<lparr>dw_commands := ds\<rparr>)"
proof -
  have ids: "map dc_id ds = map dc_id (dw_commands w)"
    "map (\<lambda>c. (dc_tenant c, dc_message c)) ds = map (\<lambda>c. (dc_tenant c, dc_message c)) (dw_commands w)"
    by (rule find_and_update_keeps[OF assms(2)], use assms(3) in \<open>simp add: keeps_command_def\<close>)+
  then have eq: "dc_id ` set ds = dc_id ` set (dw_commands w)" by (metis list.set_map)
  have "\<forall>i \<in> dc_id ` set (dw_commands w). i < dw_next w" using assms(1) by (simp add: commands_ok_def)
  then have "\<forall>d \<in> set ds. dc_id d < dw_next w" unfolding eq[symmetric] by simp
  with ids assms(1) show ?thesis by (simp add: commands_ok_def)
qed

lemma updated_in:
  assumes "find_and_update P f cs = (found, ds)" "d \<in> set ds"
  shows "d \<in> set cs \<or> (\<exists>c \<in> set cs. P c \<and> d = f c)"
proof (cases found)
  case None
  with assms show ?thesis by (simp add: find_and_update_None)
next
  case (Some d')
  with assms(1) obtain as c bs where "cs = as @ c # bs" "ds = as @ d' # bs" "d' = f c" "P c"
    by (auto elim!: find_and_update_split)
  with assms(2) show ?thesis by auto
qed

text \<open>A write that leaves the command in a final status, or in processing.\<close>

lemma ok_update:
  assumes "delivery_ok (w, ws)" "find_and_update P f (dw_commands w) = (found, ds)" "keeps_command f"
    and "\<And>c. P c \<Longrightarrow> dc_status (f c) \<noteq> DcPending"
    and "\<And>c. c \<in> set (dw_commands w) \<Longrightarrow> P c \<Longrightarrow> dc_status (f c) = DcCompleted \<Longrightarrow> dc_id c \<in> set (dw_calls w)"
  shows "delivery_ok (w\<lparr>dw_commands := ds\<rparr>, ws)"
proof -
  have s: "sends (w\<lparr>dw_commands := ds\<rparr>, ws) = sends (w, ws)" by (rule ext) (simp add: sends_def)
  have "dc_status d = DcPending \<Longrightarrow> sends (w, ws) (dc_id d) = 0" "dc_status d = DcCompleted \<Longrightarrow> dc_id d \<in> set (dw_calls w)"
    if "d \<in> set ds" for d
    using updated_in[OF assms(2) that] assms(1,3-5) by (auto simp: delivery_ok_def keeps_command_def)
  with assms(1) commands_ok_update[OF _ assms(2,3)] s show ?thesis by (simp add: delivery_ok_def)
qed

lemma update_command_shape:
  "\<exists>found ds. find_and_update (\<lambda>c. dc_id c = i \<and> dc_status c = e) f (dw_commands w) = (found, ds)
     \<and> snd (update_command i e f w) = w\<lparr>dw_commands := ds\<rparr>"
  by (cases "find_and_update (\<lambda>c. dc_id c = i \<and> dc_status c = e) f (dw_commands w)") (simp add: update_command_def)

lemma ok_update_command:
  assumes "delivery_ok (w, ws)" "keeps_command f" "\<And>c. dc_status (f c) \<noteq> DcPending" "\<And>c. dc_status (f c) = DcCompleted \<Longrightarrow> i \<in> set (dw_calls w)"
  shows "delivery_ok (snd (update_command i e f w), ws)"
proof -
  obtain found ds where u: "find_and_update (\<lambda>c. dc_id c = i \<and> dc_status c = e) f (dw_commands w) = (found, ds)"
    "snd (update_command i e f w) = w\<lparr>dw_commands := ds\<rparr>" using update_command_shape by blast
  have "delivery_ok (w\<lparr>dw_commands := ds\<rparr>, ws)"
    by (rule ok_update[OF assms(1) u(1) assms(2)]) (use assms(3,4) in simp_all)
  with u(2) show ?thesis by simp
qed

lemma ok_drop:
  assumes "delivery_ok (w, ws)"
  shows "delivery_ok (w, remove1 x ws)"
proof -
  have "length (filter P (remove1 x ws)) \<le> length (filter P ws)" for P
    by (induction ws) auto
  then have le: "sends (w, remove1 x ws) i \<le> sends (w, ws) i" for i by (simp add: sends_def)
  have "sends (w, remove1 x ws) i \<le> 1" for i using le[of i] assms unfolding delivery_ok_def by (meson le_trans)
  moreover have "sends (w, remove1 x ws) i = 0" if "sends (w, ws) i = 0" for i using le[of i] that by simp
  moreover have "set (remove1 x ws) \<subseteq> set ws" by (rule set_remove1_subset)
  ultimately show ?thesis using assms by (simp add: delivery_ok_def) blast
qed

lemma ok_settle_failed: "delivery_ok (w, ws) \<Longrightarrow> out \<in> {DcFailed, DcUnknown} \<Longrightarrow> delivery_ok (settle_failed now out e c w, ws)"
  unfolding settle_failed_def by (rule ok_update_command) (auto simp: keeps_command_def)

lemma ok_complete:
  assumes "delivery_ok (w, ws)" "dc_id c \<in> set (dw_calls w)"
  shows "delivery_ok (complete_delivery now x c w, ws)"
  unfolding complete_delivery_def using assms by (intro ok_update_command) (simp_all add: keeps_command_def)

lemma ok_recover:
  assumes "delivery_ok (w, ws)"
  shows "delivery_ok (snd (recover_one up now c (n, w)), ws)"
proof (cases "dc_status c = DcProcessing")
  case True
  let ?f = "\<lambda>d. d\<lparr>dc_status := DcUnknown, dc_completed := Some now, dc_updated := now, dc_error := Some ''Worker stopped while provider outcome was unknown''\<rparr>"
  have "snd (recover_one up now c (n, w)) = snd (update_command (dc_id c) DcProcessing ?f w)"
    using True by (auto simp: recover_one_def split: prod.split option.split)
  moreover have "delivery_ok (snd (update_command (dc_id c) DcProcessing ?f w), ws)"
    by (rule ok_update_command[OF assms]) (simp_all add: keeps_command_def)
  ultimately show ?thesis by simp
next
  case False
  then have "snd (recover_one up now c (n, w)) = snd (add_job (up (dc_id c)) (dc_id c) (dc_tenant c) None w)"
    by (auto simp: recover_one_def split: prod.split bool.split)
  then show ?thesis using ok_same_core[OF assms same_core_writes(1)] by simp
qed

lemma sends_filter: "sends (w, x # ws) i = sends (w, ws) i + (if dc_id (fst x) = i \<and> unsent (snd x) then 1 else 0)"
  by (simp add: sends_def)

lemma sends_remove:
  assumes "x \<in> set ws"
  shows "sends (w, ws) i = sends (w, remove1 x ws) i + (if dc_id (fst x) = i \<and> unsent (snd x) then 1 else 0)"
  using assms unfolding sends_def by (induction ws) auto

lemma ok_claim:
  assumes "delivery_ok (w, ws)" "claim_delivery now i t w = (Some c, w1)"
  shows "delivery_ok (w1, (c, Claimed) # ws)"
proof -
  let ?P = "\<lambda>c. dc_id c = i \<and> dc_tenant c = t \<and> dc_status c = DcPending"
  let ?f = "\<lambda>c. c\<lparr>dc_status := DcProcessing, dc_started := Some now, dc_updated := now\<rparr>"
  obtain ds where ds: "find_and_update ?P ?f (dw_commands w) = (Some c, ds)" "w1 = w\<lparr>dw_commands := ds\<rparr>"
    using assms(2) by (auto simp: claim_delivery_def split: prod.splits)
  then obtain as b bs where split: "dw_commands w = as @ b # bs" "ds = as @ c # bs" "c = ?f b" "?P b"
    by (auto elim!: find_and_update_split)
  have zero: "sends (w, ws) i = 0" using assms(1) split by (simp add: delivery_ok_def)
  have id: "dc_id c = i" "i < dw_next w" using split assms(1) by (simp_all add: delivery_ok_def commands_ok_def)
  have "delivery_ok (w1, ws)"
    unfolding ds(2) by (rule ok_update[OF assms(1) ds(1)]) (simp_all add: keeps_command_def)
  moreover have "sends (w1, ws) = sends (w, ws)" by (rule ext) (simp add: sends_def ds(2))
  moreover have other: "dc_id d \<noteq> dc_id c" if "d \<in> set ds" "dc_status d = DcPending" for d
  proof -
    have "distinct (map dc_id ds)" using \<open>delivery_ok (w1, ws)\<close> by (simp add: delivery_ok_def commands_ok_def ds(2))
    then show ?thesis using that split by (auto simp: image_iff)
  qed
  ultimately show ?thesis
    using zero id by (auto simp: delivery_ok_def sends_filter ds(2) unsent_def dest: other)
qed

lemma ok_advance:
  assumes "delivery_ok (w, ws)" "(c, s) \<in> set ws" "unsent s" "unsent s'"
  shows "delivery_ok (w, (c, s') # remove1 (c, s) ws)"
proof -
  have "sends (w, (c, s') # remove1 (c, s) ws) i = sends (w, ws) i" for i
    using sends_remove[OF assms(2), of w i] assms(3,4) by (simp add: sends_filter)
  moreover have "set (remove1 (c, s) ws) \<subseteq> set ws" by (rule set_remove1_subset)
  moreover have "\<nexists>a resp. s' = Answered a resp" using assms(4) by (auto simp: unsent_def)
  ultimately show ?thesis using assms(1) unfolding delivery_ok_def by auto blast
qed

lemma ok_rewind:
  assumes "delivery_ok (w, ws)" "(c, Claimed) \<in> set ws"
  shows "delivery_ok (rewind_for_retry now e c w, remove1 (c, Claimed) ws)"
proof -
  let ?ws = "remove1 (c, Claimed) ws"
  let ?P = "\<lambda>d. dc_id d = dc_id c \<and> dc_status d = DcProcessing"
  let ?f = "\<lambda>d. d\<lparr>dc_status := DcPending, dc_error := Some (take 2000 e), dc_started := None, dc_updated := now\<rparr>"
  obtain found ds where u: "find_and_update ?P ?f (dw_commands w) = (found, ds)" "rewind_for_retry now e c w = w\<lparr>dw_commands := ds\<rparr>"
    unfolding rewind_for_retry_def using update_command_shape by blast
  have drop: "delivery_ok (w, ?ws)" by (rule ok_drop[OF assms(1)])
  have zero: "sends (w, ?ws) (dc_id c) = 0"
  proof -
    have "sends (w, ws) (dc_id c) \<le> 1" using assms(1) by (simp add: delivery_ok_def)
    then show ?thesis using sends_remove[OF assms(2), of w "dc_id c"] by (simp add: unsent_def)
  qed
  have same: "sends (w\<lparr>dw_commands := ds\<rparr>, ?ws) = sends (w, ?ws)" by (rule ext) (simp add: sends_def)
  have "sends (w, ?ws) (dc_id d) = 0" if "d \<in> set ds" "dc_status d = DcPending" for d
    using updated_in[OF u(1) that(1)] that(2) drop zero by (auto simp: delivery_ok_def)
  moreover have "dc_id d \<in> set (dw_calls w)" if "d \<in> set ds" "dc_status d = DcCompleted" for d
    using updated_in[OF u(1) that(1)] that(2) drop by (auto simp: delivery_ok_def)
  moreover have "commands_ok (w\<lparr>dw_commands := ds\<rparr>)"
    using drop by (intro commands_ok_update[OF _ u(1)]) (simp_all add: delivery_ok_def keeps_command_def)
  ultimately show ?thesis using drop same u(2) by (simp add: delivery_ok_def)
qed

lemma ok_call:
  assumes "delivery_ok (w, ws)" "(c, Started ad r a) \<in> set ws" "ask_provider pt rq (dc_id c) w = (res, w1)"
  shows "delivery_ok (w1, (c, Answered a res) # remove1 (c, Started ad r a) ws)"
proof -
  have w1: "w1 = w\<lparr>dw_calls := dw_calls w @ [dc_id c]\<rparr>" using assms(3) by (simp add: ask_provider_def)
  let ?ws = "(c, Answered a res) # remove1 (c, Started ad r a) ws"
  have sends: "sends (w1, ?ws) i = sends (w, ws) i" for i
    using sends_remove[OF assms(2), of w i] unfolding w1 sends_def by (simp add: unsent_def)
  moreover have "set (remove1 (c, Started ad r a) ws) \<subseteq> set ws" by (rule set_remove1_subset)
  ultimately show ?thesis using assms(1) by (auto simp: delivery_ok_def w1 commands_ok_def)
qed

lemma ok_enqueue:
  assumes "delivery_ok (w, ws)"
  shows "delivery_ok (snd (enqueue_delivery up now inp w), ws)"
proof -
  obtain c w1 where c: "upsert_command now inp w = (c, w1)" by (rule prod.exhaust)
  have "delivery_ok (w1, ws)"
  proof (cases "List.find (\<lambda>c. dc_tenant c = di_tenant inp \<and> dc_message c = di_message inp) (dw_commands w)")
    case (Some d)
    then show ?thesis using assms c by (simp add: upsert_command_def)
  next
    case None
    then have w1: "dw_commands w1 = dw_commands w @ [c]" "dw_next w1 = Suc (dw_next w)" "dw_calls w1 = dw_calls w"
      and c': "dc_id c = dw_next w" "dc_status c = DcPending" "dc_tenant c = di_tenant inp" "dc_message c = di_message inp"
      using c by (auto simp: upsert_command_def Let_def)
    have "(di_tenant inp, di_message inp) \<notin> (\<lambda>c. (dc_tenant c, dc_message c)) ` set (dw_commands w)"
      using None by (auto simp: find_None_iff)
    moreover have "dw_next w \<notin> dc_id ` set (dw_commands w)" using assms by (auto simp: delivery_ok_def commands_ok_def)
    ultimately have "commands_ok w1"
      using assms c' unfolding delivery_ok_def commands_ok_def w1 by (simp add: less_Suc_eq)
    moreover have "sends (w1, ws) = sends (w, ws)" by (rule ext) (simp add: sends_def w1)
    ultimately show ?thesis using assms c' by (auto simp: delivery_ok_def w1)
  qed
  moreover have "snd (enqueue_delivery up now inp w) = snd (add_job up (dc_id c) (di_tenant inp) (Some (di_source inp)) w1)"
    by (simp add: enqueue_delivery_def c split: prod.split)
  ultimately show ?thesis using ok_same_core[OF _ same_core_writes(1)] by simp
qed

lemma step_keeps: "delivery_step s s' \<Longrightarrow> delivery_ok s \<Longrightarrow> delivery_ok s'"
proof (induction rule: delivery_step.induct)
  case (starts c ws pt cv ch ad now w a w1)
  have "delivery_ok (w1, ws)" using ok_same_core[OF starts.prems same_core_writes(2)] starts.hyps(3) by (metis snd_conv)
  then show ?case using starts.hyps(1) by (intro ok_advance) (simp_all add: unsent_def)
next
  case (completes c a resp ws w now)
  then have "dc_id c \<in> set (dw_calls w)" unfolding delivery_ok_def by (simp only: fst_conv snd_conv)
  with completes.prems show ?case by (rule ok_complete)
next
  case (reconciles w ws s b now)
  then show ?case using ok_same_core reconcile_core by blast
next
  case (books w ws ms as es n)
  then show ?case by (rule ok_same_core) (rule same_core_writes(9))
next
  case (fails c s ws out w now e)
  then show ?case by (intro ok_settle_failed)
qed (auto intro: ok_enqueue ok_recover ok_claim ok_rewind ok_call ok_drop)


section \<open>What every history keeps\<close>

definition fresh_delivery :: "delivery_world \<Rightarrow> bool" where
  "fresh_delivery w \<longleftrightarrow> dw_commands w = [] \<and> dw_calls w = []"

lemma fresh_delivery_ok: "fresh_delivery w \<Longrightarrow> delivery_ok (w, [])"
  by (simp add: fresh_delivery_def delivery_ok_def commands_ok_def sends_def)

lemma reachable_delivery_ok:
  assumes "delivery_step\<^sup>*\<^sup>* (w, []) s" "fresh_delivery w"
  shows "delivery_ok s"
  using assms(1) by (induction rule: rtranclp_induct) (use assms(2) fresh_delivery_ok step_keeps in blast)+

lemma ok_called: "delivery_ok (v, ws) \<Longrightarrow> count_list (dw_calls v) i \<le> 1"
  by (auto simp: delivery_ok_def sends_def elim!: allE[of _ i])

lemma pending_not_called:
  assumes "delivery_ok (v, ws)" "c \<in> set (dw_commands v)" "dc_status c = DcPending"
  shows "dc_id c \<notin> set (dw_calls v)"
proof -
  have "sends (v, ws) (dc_id c) = 0" using assms by (simp add: delivery_ok_def)
  then have "count_list (dw_calls v) (dc_id c) = 0" by (simp add: sends_def)
  then show ?thesis by (simp add: count_list_0_iff)
qed

lemma rewound_command:
  assumes "c \<in> set (dw_commands w)" "dc_status c = DcProcessing"
  shows "\<exists>b \<in> set (dw_commands w). dc_id b = dc_id c \<and> b\<lparr>dc_status := DcPending, dc_error := Some (take 2000 e), dc_started := None, dc_updated := now\<rparr>
    \<in> set (dw_commands (rewind_for_retry now e c w))"
proof -
  let ?P = "\<lambda>d. dc_id d = dc_id c \<and> dc_status d = DcProcessing"
  let ?f = "\<lambda>d. d\<lparr>dc_status := DcPending, dc_error := Some (take 2000 e), dc_started := None, dc_updated := now\<rparr>"
  obtain found ds where u: "find_and_update ?P ?f (dw_commands w) = (found, ds)" by (rule prod.exhaust)
  obtain d where d: "found = Some d" using u assms by (cases found) (auto simp: find_and_update_None)
  with u obtain as b bs where "dw_commands w = as @ b # bs" "ds = as @ ?f b # bs" "?P b" by (auto elim!: find_and_update_split)
  then show ?thesis using u by (auto simp: rewind_for_retry_def update_command_def)
qed

text \<open>Whole jobs and ticks are histories.\<close>

lemma run_then: "delivery_step\<^sup>*\<^sup>* a b \<Longrightarrow> delivery_step b c \<Longrightarrow> delivery_step\<^sup>*\<^sup>* a c"
  by (rule rtranclp.rtrancl_into_rtrancl)

definition at_stage :: "delivery_state \<Rightarrow> (delivery_command \<times> stage) list \<Rightarrow> delivery_world \<Rightarrow> bool" where
  "at_stage st xs v \<longleftrightarrow> delivery_step\<^sup>*\<^sup>* st (v, xs @ snd st)"

lemma at_stage_step: "at_stage st xs v \<Longrightarrow> delivery_step (v, xs @ snd st) (u, ys @ snd st) \<Longrightarrow> at_stage st ys u"
  unfolding at_stage_def by (rule run_then)

lemma at_stage_end: "at_stage st [x] v \<Longrightarrow> at_stage st [] v"
  by (erule at_stage_step) (use crashes[of v "x # snd st" x] in simp)

lemma at_stage_books:
  assumes "at_stage st xs v" "same_core v u" "dw_jobs u = dw_jobs v"
  shows "at_stage st xs u"
proof (rule at_stage_step[OF assms(1)])
  have "u = v\<lparr>dw_messages := dw_messages u, dw_attempts := dw_attempts u, dw_events := dw_events u, dw_next_attempt := dw_next_attempt u\<rparr>"
    using assms(2,3) by (simp add: same_core_def)
  then show "delivery_step (v, xs @ snd st) (u, xs @ snd st)" using books by metis
qed

text \<open>A write of a worker at a stage, which a step of the histories is, or a bookkeeping write.\<close>

lemma stage_write:
  assumes "\<And>v. delivery_step (v, x # snd st) (f v, x # snd st)"
  shows "triple (at_stage st [x]) (write_act f) (\<lambda>_. at_stage st [x]) (at_stage st [])"
proof (rule triple_write)
  fix v assume v: "at_stage st [x] v"
  then show "at_stage st [x] (f v)" using assms at_stage_step by fastforce
  then show "at_stage st [] (f v)" by (rule at_stage_end)
  show "at_stage st [] v" by (rule at_stage_end[OF v])
qed

lemma stage_book:
  assumes "\<And>v. same_core v (f v)" "\<And>v. dw_jobs (f v) = dw_jobs v"
  shows "triple (at_stage st [x]) (write_act f) (\<lambda>_. at_stage st [x]) (at_stage st [])"
    "triple (at_stage st [x]) (attempt_act (write_act f) (\<lambda>_. give ())) (\<lambda>_. at_stage st [x]) (at_stage st [])"
    "triple (at_stage st [x]) (local_act f) (\<lambda>_. at_stage st [x]) (at_stage st [])"
proof -
  have b: "at_stage st [x] (f v)" if "at_stage st [x] v" for v using at_stage_books[OF that] assms by simp
  then show "triple (at_stage st [x]) (write_act f) (\<lambda>_. at_stage st [x]) (at_stage st [])"
    by (intro triple_write) (auto intro: at_stage_end)
  show "triple (at_stage st [x]) (local_act f) (\<lambda>_. at_stage st [x]) (at_stage st [])" using b by (rule triple_local)
  show "triple (at_stage st [x]) (attempt_act (write_act f) (\<lambda>_. give ())) (\<lambda>_. at_stage st [x]) (at_stage st [])"
    by (rule triple_attempt[where R = "at_stage st [x]"]) (auto intro!: triple_write triple_give b intro: at_stage_end)
qed

lemma jobs_kept [simp]:
  "dw_jobs (update_message_status now m s x v) = dw_jobs v" "dw_jobs (succeed_attempt now a y v) = dw_jobs v"
  "dw_jobs (snd (fail_attempt now a e v)) = dw_jobs v" "dw_jobs (emit_delivery ev v) = dw_jobs v"
  by (simp_all add: update_message_status_def succeed_attempt_def update_attempt_def fail_attempt_def emit_delivery_def Let_def)

lemma fail_outcomes: "fst (fail_attempt now a e v) \<in> {DcFailed, DcUnknown}"
  by (simp add: fail_attempt_def fail_outcome_def Let_def)

lemma failure_stages: "triple (at_stage st [(c, s)]) (record_failure now a e c) (\<lambda>_. at_stage st []) (at_stage st [])"
proof -
  let ?I = "at_stage st [(c, s)]" and ?E = "at_stage st []"
  have "triple ?I (case a of Some n \<Rightarrow> remote (fail_attempt now n e) | None \<Rightarrow> give DcFailed) (\<lambda>out w. ?I w \<and> out \<in> {DcFailed, DcUnknown}) ?E"
  proof (cases a)
    case (Some n)
    have b: "?I (snd (fail_attempt now n e v))" if "?I v" for v using at_stage_books[OF that] by simp
    show ?thesis unfolding Some option.case by (rule triple_remote) (use b fail_outcomes in \<open>auto intro: at_stage_end\<close>)
  qed (auto intro: triple_give)
  moreover have "triple (\<lambda>w. ?I w \<and> out \<in> {DcFailed, DcUnknown}) (then_act (write_act (update_message_status now (dc_message c) ''failed'' []))
      (then_act (write_act (settle_failed now out e c)) (local_act (emit_delivery ev)))) (\<lambda>_. ?E) ?E" for out ev
  proof (cases "out \<in> {DcFailed, DcUnknown}")
    case True
    have "triple ?I (then_act (write_act (update_message_status now (dc_message c) ''failed'' []))
      (then_act (write_act (settle_failed now out e c)) (local_act (emit_delivery ev)))) (\<lambda>_. ?I) ?E"
      by (intro triple_then[where R = ?I] stage_book stage_write fails[of c s, OF _ True]) simp_all
    then show ?thesis by (rule triple_weaken) (auto intro: at_stage_end)
  qed (auto simp: triple_def)
  ultimately show ?thesis unfolding record_failure_def by (rule triple_bind)
qed

lemma success_stages:
  "triple (at_stage st [(c, Answered a (Inr resp))]) (then_act (write_act (complete_delivery now (external_id resp) c))
     (case b of Some n \<Rightarrow> project_successful_delivery now n (external_id resp) c | None \<Rightarrow> give ())) (\<lambda>_. at_stage st []) (at_stage st [])"
proof -
  let ?I = "at_stage st [(c, Answered a (Inr resp))]" and ?E = "at_stage st []"
  have "triple ?I (project_successful_delivery now n x c) (\<lambda>_. ?I) ?E" for n x
    unfolding project_successful_delivery_def by (intro triple_then[where R = ?I] stage_book) simp_all
  then have "triple ?I (case b of Some n \<Rightarrow> project_successful_delivery now n (external_id resp) c | None \<Rightarrow> give ()) (\<lambda>_. ?I) ?E"
    by (cases b) (auto intro: triple_give)
  then have "triple ?I (then_act (write_act (complete_delivery now (external_id resp) c))
     (case b of Some n \<Rightarrow> project_successful_delivery now n (external_id resp) c | None \<Rightarrow> give ())) (\<lambda>_. ?I) ?E"
    by (intro triple_then[where R = ?I] stage_write completes[where a = a]) simp_all
  then show ?thesis by (rule triple_weaken) (auto intro: at_stage_end)
qed

text \<open>The stage in which a send leaves the worker.\<close>

definition after_send :: "delivery_state \<Rightarrow> delivery_command \<Rightarrow> nat option \<times> (raw_error, string option \<times> string option) result \<Rightarrow> delivery_world \<Rightarrow> bool" where
  "after_send st c ar v \<longleftrightarrow> (case snd ar of Inl e \<Rightarrow> \<exists>s. at_stage st [(c, s)] v | Inr resp \<Rightarrow> \<exists>a. at_stage st [(c, Answered a (Inr resp))] v)"

lemma send_stages:
  assumes "prepare_delivery pt c = Inr (cv, ch, ad)"
  shows "triple (at_stage st [(c, Claimed)]) (attempt_send pt now c (default_to [] (cv_customer cv)) ad) (after_send st c) (at_stage st [])"
proof -
  let ?r = "default_to [] (cv_customer cv)" and ?E = "at_stage st []"
  have start: "triple (at_stage st [(c, Claimed)]) (tried (remote (start_attempt now (dc_tenant c) (dc_message c))))
      (\<lambda>x v. case x of Inl e \<Rightarrow> \<exists>s. at_stage st [(c, s)] v | Inr a \<Rightarrow> at_stage st [(c, Started ad ?r a)] v) ?E"
  proof (rule triple_tried[where R = "\<lambda>v. \<exists>s. at_stage st [(c, s)] v"])
    show "triple (at_stage st [(c, Claimed)]) (remote (start_attempt now (dc_tenant c) (dc_message c)))
      (\<lambda>x v. case Inr x of Inl e \<Rightarrow> \<exists>s. at_stage st [(c, s)] v | Inr a \<Rightarrow> at_stage st [(c, Started ad ?r a)] v) (\<lambda>v. \<exists>s. at_stage st [(c, s)] v)"
    proof (rule triple_remote)
      fix v assume v: "at_stage st [(c, Claimed)] v"
      obtain a u where a: "start_attempt now (dc_tenant c) (dc_message c) v = (a, u)" by (rule prod.exhaust)
      have "delivery_step (v, (c, Claimed) # snd st) (u, (c, Started ad ?r a) # remove1 (c, Claimed) ((c, Claimed) # snd st))"
        by (rule starts[OF _ assms a]) simp
      with v have u: "at_stage st [(c, Started ad ?r a)] u" using at_stage_step by fastforce
      then show "case Inr (fst (start_attempt now (dc_tenant c) (dc_message c) v)) of Inl e \<Rightarrow> \<exists>s. at_stage st [(c, s)] (snd (start_attempt now (dc_tenant c) (dc_message c) v))
          | Inr a \<Rightarrow> at_stage st [(c, Started ad ?r a)] (snd (start_attempt now (dc_tenant c) (dc_message c) v))" by (simp add: a)
      from u show "\<exists>s. at_stage st [(c, s)] (snd (start_attempt now (dc_tenant c) (dc_message c) v))" by (auto simp: a)
      from v show "\<exists>s. at_stage st [(c, s)] v" by blast
    qed
  qed (auto intro: at_stage_end)
  have call: "triple (at_stage st [(c, Started ad ?r a)]) (tried (remote (ask_provider pt rq (dc_id c))))
      (\<lambda>x v. case x of Inl e \<Rightarrow> \<exists>s. at_stage st [(c, s)] v | Inr res \<Rightarrow> at_stage st [(c, Answered a res)] v) ?E" for a rq
  proof (rule triple_tried[where R = "\<lambda>v. \<exists>s. at_stage st [(c, s)] v"])
    show "triple (at_stage st [(c, Started ad ?r a)]) (remote (ask_provider pt rq (dc_id c)))
      (\<lambda>x v. case Inr x of Inl e \<Rightarrow> \<exists>s. at_stage st [(c, s)] v | Inr res \<Rightarrow> at_stage st [(c, Answered a res)] v) (\<lambda>v. \<exists>s. at_stage st [(c, s)] v)"
    proof (rule triple_remote)
      fix v assume v: "at_stage st [(c, Started ad ?r a)] v"
      obtain res u where res: "ask_provider pt rq (dc_id c) v = (res, u)" by (rule prod.exhaust)
      have "delivery_step (v, (c, Started ad ?r a) # snd st) (u, (c, Answered a res) # remove1 (c, Started ad ?r a) ((c, Started ad ?r a) # snd st))"
        by (rule calls[OF _ res]) simp
      with v have u: "at_stage st [(c, Answered a res)] u" using at_stage_step by fastforce
      then show "case Inr (fst (ask_provider pt rq (dc_id c) v)) of Inl e \<Rightarrow> \<exists>s. at_stage st [(c, s)] (snd (ask_provider pt rq (dc_id c) v))
          | Inr res \<Rightarrow> at_stage st [(c, Answered a res)] (snd (ask_provider pt rq (dc_id c) v))" by (simp add: res)
      from u show "\<exists>s. at_stage st [(c, s)] (snd (ask_provider pt rq (dc_id c) v))" by (auto simp: res)
      from v show "\<exists>s. at_stage st [(c, s)] v" by blast
    qed
  qed (auto intro: at_stage_end)
  show ?thesis
    unfolding attempt_send_def
  proof (rule triple_bind[OF start], goal_cases)
    case (1 x)
    show ?case
    proof (cases x)
      case (Inl e)
      then show ?thesis by (simp, intro triple_give) (simp add: after_send_def)
    next
      case (Inr a)
      show ?thesis
      proof (cases "dispatch_request ad c ?r")
        case (Inl e)
        with Inr show ?thesis by (simp, intro triple_give) (auto simp: after_send_def)
      next
        case (Inr rq)
        show ?thesis
          unfolding \<open>x = Inr a\<close> Inr sum.case
          by (rule triple_bind[OF call], rule triple_give) (auto simp: after_send_def split: sum.splits)
      qed
    qed
  qed
qed

lemma job_stages: "triple (at_stage st []) (handle_delivery pt now i t) (\<lambda>_. at_stage st []) (at_stage st [])"
proof -
  let ?E = "at_stage st []"
  have claim: "triple ?E (remote (claim_delivery now i t)) (\<lambda>r. case r of None \<Rightarrow> ?E | Some c \<Rightarrow> at_stage st [(c, Claimed)]) ?E"
  proof (rule triple_remote)
    fix v assume v: "?E v"
    obtain r u where r: "claim_delivery now i t v = (r, u)" by (rule prod.exhaust)
    have "(case r of None \<Rightarrow> ?E | Some c \<Rightarrow> at_stage st [(c, Claimed)]) u"
    proof (cases r)
      case None
      with r have "u = v" by (auto simp: claim_delivery_def find_and_update_None split: prod.splits)
      with v None show ?thesis by simp
    next
      case (Some c)
      have "delivery_step (v, snd st) (u, (c, Claimed) # snd st)" by (rule claims[OF r[unfolded Some]])
      with v Some show ?thesis using at_stage_step[of st "[]" v u "[(c, Claimed)]"] by simp
    qed
    then show "(case fst (claim_delivery now i t v) of None \<Rightarrow> ?E | Some c \<Rightarrow> at_stage st [(c, Claimed)]) (snd (claim_delivery now i t v))"
      "?E (snd (claim_delivery now i t v))"
      by (auto simp: r split: option.splits intro: at_stage_end)
  qed
  have prepare: "triple (at_stage st [(c, Claimed)]) (tried (ask (\<lambda>_. prepare_delivery pt c)))
      (\<lambda>x v. at_stage st [(c, Claimed)] v \<and> (case x of Inl e \<Rightarrow> True | Inr p \<Rightarrow> prepare_delivery pt c = Inr p)) ?E" for c
    by (rule triple_tried[where R = "at_stage st [(c, Claimed)]"]) (auto intro!: triple_ask intro: at_stage_end)
  have rewind: "triple (at_stage st [(c, Claimed)]) (then_act (write_act (rewind_for_retry now e c)) (throw_act e)) (\<lambda>_. ?E) ?E" for c e
  proof (rule triple_then[where R = ?E])
    have "delivery_step (v, (c, Claimed) # snd st) (rewind_for_retry now e c v, snd st)" for v
      using rewinds[of c "(c, Claimed) # snd st" v now e] by simp
    then have "?E (rewind_for_retry now e c v)" if "at_stage st [(c, Claimed)] v" for v using at_stage_step[OF that, of _ "[]"] by simp
    then show "triple (at_stage st [(c, Claimed)]) (write_act (rewind_for_retry now e c)) (\<lambda>_. ?E) ?E"
      by (intro triple_write) (auto intro: at_stage_end)
  qed (rule triple_throw)
  have finish: "triple (after_send st c ar) (case ar of (a, r) \<Rightarrow> case r of Inl e \<Rightarrow> record_failure now a e c
      | Inr resp \<Rightarrow> then_act (write_act (complete_delivery now (external_id resp) c))
          (case a of Some n \<Rightarrow> project_successful_delivery now n (external_id resp) c | None \<Rightarrow> give ())) (\<lambda>_. ?E) ?E" for c ar
    by (cases ar; cases "snd ar") (simp_all add: after_send_def[abs_def] triple_ex failure_stages success_stages)
  show ?thesis
    unfolding handle_delivery_def
  proof (rule triple_bind[OF claim], goal_cases)
    case (1 r)
    show ?case
    proof (cases r)
      case (Some c)
      have "triple (at_stage st [(c, Claimed)]) (bind_act (tried (ask (\<lambda>_. prepare_delivery pt c))) (\<lambda>prepared.
             case prepared of
               Inl e \<Rightarrow> then_act (write_act (rewind_for_retry now e c)) (throw_act e)
             | Inr (cv, ch, ad) \<Rightarrow>
                 bind_act (attempt_send pt now c (default_to [] (cv_customer cv)) ad) (\<lambda>(a, r).
                   case r of
                     Inl e \<Rightarrow> record_failure now a e c
                   | Inr resp \<Rightarrow> then_act (write_act (complete_delivery now (external_id resp) c))
                       (case a of Some n \<Rightarrow> project_successful_delivery now n (external_id resp) c | None \<Rightarrow> give ())))) (\<lambda>_. ?E) ?E"
      proof (rule triple_bind[OF prepare], goal_cases)
        case (1 x)
        show ?case
        proof (cases x)
          case (Inl e)
          show ?thesis unfolding Inl sum.case by (rule triple_weaken[OF rewind]) auto
        next
          case (Inr p)
          obtain cv ch ad where p: "p = (cv, ch, ad)" by (rule prod_cases3)
          show ?thesis
          proof (cases "prepare_delivery pt c = Inr (cv, ch, ad)")
            case True
            show ?thesis unfolding Inr p sum.case prod.case
              by (rule triple_weaken[OF triple_bind[OF send_stages[OF True] finish]]) auto
          qed (simp add: Inr p triple_def)
        qed
      qed
      then show ?thesis by (simp add: Some)
    qed (simp add: triple_give)
  qed
qed

text \<open>A job, whatever becomes of its calls, is a history.\<close>

lemma job_run: "delivery_step\<^sup>*\<^sup>* (w, ws) (snd (snd (handle_delivery pt now i t (fs, w))), ws)"
  using keeps_end[OF job_stages[of "(w, ws)" pt now i t, folded keeps_def], of w fs] by (simp add: at_stage_def)

lemma recovery_run: "delivery_step\<^sup>*\<^sup>* (w, ws) (snd (recover_pending up now w), ws)"
proof -
  have "delivery_step\<^sup>*\<^sup>* (snd nw, ws) (snd (fold (recover_one up now) cs nw), ws)" for cs nw
  proof (induction cs arbitrary: nw)
    case (Cons c cs)
    obtain n v where nw: "nw = (n, v)" by (rule prod.exhaust)
    have "delivery_step (v, ws) (snd (recover_one up now c (n, v)), ws)" by (rule recovers)
    then show ?case using Cons.IH[of "recover_one up now c nw"] nw by (simp add: converse_rtranclp_into_rtranclp)
  qed simp
  then show ?thesis by (metis recover_pending_def snd_conv)
qed

section \<open>Properties\<close>

text \<open>C26: Workers, redelivered jobs, crashes, recovery and reconciliation ticks may interleave in any order from an empty
  outbox: a provider is asked at most once to send a command, a message has one command, a pending command has not been
  sent, and a completed one has.
\<close>
theorem provider_asked_at_most_once:
  assumes "fresh_delivery w" "delivery_step\<^sup>*\<^sup>* (w, []) (v, ws)"
  shows "count_list (dw_calls v) i \<le> 1 \<and> distinct (map (\<lambda>c. (dc_tenant c, dc_message c)) (dw_commands v))
    \<and> filter (\<lambda>c. dc_status c = DcPending \<and> dc_id c \<in> set (dw_calls v)) (dw_commands v) = []
    \<and> filter (\<lambda>c. dc_status c = DcCompleted \<and> dc_id c \<notin> set (dw_calls v)) (dw_commands v) = []"
proof -
  have ok: "delivery_ok (v, ws)" by (rule reachable_delivery_ok[OF assms(2,1)])
  then show ?thesis using ok_called[OF ok, of i] pending_not_called[OF ok] by (auto simp: delivery_ok_def commands_ok_def filter_empty_conv)
qed

section \<open>A run\<close>

definition demo_input :: delivery_input where
  "demo_input = \<lparr>di_tenant = ''t'', di_message = ''m'', di_conversation = ''v'', di_agent = ''a'', di_content = ''hi'', di_message_type = ''text'',
     di_kind = None, di_payload = \<lparr>dp_template = None, dp_language = None, dp_components = None, dp_body = [], dp_buttons = None,
     dp_content = None, dp_cards = None\<rparr>, di_source = ''agent''\<rparr>"

definition demo_ports :: delivery_ports where
  "demo_ports = \<lparr>pt_conversation = (\<lambda>_. Inr (Some \<lparr>cv_channel = ''c'', cv_account = None, cv_type = ''telegram'', cv_customer = Some ''7''\<rparr>)),
     pt_channel = (\<lambda>_ _. Inr (Some \<lparr>ch_credentials = ''k'', ch_account = ''b''\<rparr>)), pt_channel_by_account = (\<lambda>_ _ _. Inr None),
     pt_adapter = (\<lambda>_. Some \<lparr>ad_template = False, ad_interactive = False, ad_carousel = False\<rparr>),
     pt_provider = (\<lambda>_. Inr (Some ''x1'', None))\<rparr>"

definition demo_outbox :: delivery_world where
  "demo_outbox = \<lparr>dw_commands = [], dw_messages = [\<lparr>om_id = ''m'', om_tenant = ''t'', om_conversation = ''v'', om_status = ''sending'',
     om_outbound = True, om_external = None, om_updated = 0, om_reconciled = None\<rparr>], dw_attempts = [], dw_jobs = [], dw_events = [],
     dw_calls = [], dw_next = 0, dw_next_attempt = 0\<rparr>"

definition job_world :: "delivery_ports \<Rightarrow> int \<Rightarrow> nat \<Rightarrow> string \<Rightarrow> fate list \<Rightarrow> delivery_world \<Rightarrow> delivery_world" where
  "job_world pt now i t fs w = snd (snd (handle_delivery pt now i t (fs, w)))"

lemma job_world_run: "delivery_step\<^sup>*\<^sup>* (w, ws) (job_world pt now i t fs w, ws)"
  by (simp add: job_world_def job_run)

definition demo_sent_twice :: delivery_world where
  "demo_sent_twice = job_world demo_ports 2 0 ''t'' [] (job_world demo_ports 1 0 ''t'' [] (snd (enqueue_delivery True 0 demo_input demo_outbox)))"

lemma provider_asked_at_most_once_witness:
  "count_list (dw_calls demo_sent_twice) 0 \<le> 1 \<and> dw_calls demo_sent_twice = [0] \<and> map dc_status (dw_commands demo_sent_twice) = [DcCompleted]"
proof -
  have "fresh_delivery demo_outbox" by (simp add: fresh_delivery_def demo_outbox_def)
  moreover have "delivery_step\<^sup>*\<^sup>* (demo_outbox, []) (demo_sent_twice, [])"
    unfolding demo_sent_twice_def using enqueues job_world_run by (meson converse_rtranclp_into_rtranclp rtranclp_trans)
  ultimately have "count_list (dw_calls demo_sent_twice) 0 \<le> 1" using provider_asked_at_most_once[of demo_outbox demo_sent_twice "[]" 0] by blast
  moreover have "dw_calls demo_sent_twice = [0]" by code_simp
  moreover have "map dc_status (dw_commands demo_sent_twice) = [DcCompleted]" by code_simp
  ultimately show ?thesis by simp
qed

section \<open>What one job leaves\<close>

text \<open>No command with the id is pending, and none can become so but by a rewind.\<close>

definition settled_id :: "nat \<Rightarrow> delivery_world \<Rightarrow> bool" where
  "settled_id i w \<longleftrightarrow> distinct (map dc_id (dw_commands w)) \<and> (\<forall>c \<in> set (dw_commands w). dc_id c = i \<longrightarrow> dc_status c \<noteq> DcPending)"

lemma settled_core: "same_core w v \<Longrightarrow> settled_id i w \<Longrightarrow> settled_id i v"
  by (simp add: settled_id_def same_core_def)

lemma settled_update:
  assumes "settled_id i w" "keeps_command f" "\<And>c. dc_status (f c) \<noteq> DcPending"
  shows "settled_id i (snd (update_command j e f w))"
proof -
  obtain found ds where u: "find_and_update (\<lambda>c. dc_id c = j \<and> dc_status c = e) f (dw_commands w) = (found, ds)"
    "snd (update_command j e f w) = w\<lparr>dw_commands := ds\<rparr>" using update_command_shape by blast
  have "map dc_id ds = map dc_id (dw_commands w)"
    by (rule find_and_update_keeps[OF u(1)]) (use assms(2) in \<open>simp add: keeps_command_def\<close>)
  with assms(1) have "distinct (map dc_id ds)" by (simp add: settled_id_def)
  moreover have "dc_status d \<noteq> DcPending" if "d \<in> set ds" "dc_id d = i" for d
    using updated_in[OF u(1) that(1)] assms that(2) by (auto simp: settled_id_def keeps_command_def)
  ultimately show ?thesis using u(2) by (simp add: settled_id_def)
qed

lemma update_command_calls [simp]: "dw_calls (snd (update_command j e f w)) = dw_calls w"
  by (simp add: update_command_def split: prod.split)

text \<open>Where a job is: nothing asked, or the provider asked once with the command claimed.\<close>

definition asked :: "nat list \<Rightarrow> nat \<Rightarrow> bool \<Rightarrow> delivery_world \<Rightarrow> bool" where
  "asked cs i b w \<longleftrightarrow> settled_id i w \<and> dw_calls w = (if b then cs @ [i] else cs)"

definition job_end :: "nat list \<Rightarrow> nat \<Rightarrow> delivery_world \<Rightarrow> bool" where
  "job_end cs i w \<longleftrightarrow> dw_calls w = cs \<or> asked cs i True w"

lemma asked_end: "asked cs i b w \<Longrightarrow> job_end cs i w"
  by (auto simp: job_end_def asked_def split: if_splits)

lemma asked_core: "asked cs i b w \<Longrightarrow> same_core w v \<Longrightarrow> asked cs i b v"
  by (simp add: asked_def settled_id_def same_core_def)

lemma asked_write:
  assumes "\<And>v. asked cs i b v \<Longrightarrow> asked cs i b (f v)"
  shows "triple (asked cs i b) (write_act f) (\<lambda>_. asked cs i b) (job_end cs i)"
  by (rule triple_write) (use assms asked_end in blast)+

lemma asked_settle: "asked cs i b v \<Longrightarrow> out \<noteq> DcPending \<Longrightarrow> asked cs i b (settle_failed now out e c v)"
  unfolding asked_def settle_failed_def by (auto intro!: settled_update simp: keeps_command_def)

lemma asked_complete: "asked cs i b v \<Longrightarrow> asked cs i b (complete_delivery now x c v)"
  unfolding asked_def complete_delivery_def by (auto intro!: settled_update simp: keeps_command_def)

lemma failure_asked: "triple (asked cs i b) (record_failure now a e c) (\<lambda>_. job_end cs i) (job_end cs i)"
proof -
  let ?I = "asked cs i b" and ?E = "job_end cs i"
  have "triple ?I (case a of Some n \<Rightarrow> remote (fail_attempt now n e) | None \<Rightarrow> give DcFailed) (\<lambda>out w. ?I w \<and> out \<noteq> DcPending) ?E"
  proof (cases a)
    case (Some n)
    have b: "?I (snd (fail_attempt now n e v))" if "?I v" for v using asked_core[OF that] by simp
    have out: "fst (fail_attempt now n e v) \<noteq> DcPending" for v using fail_outcomes[of now n e v] by auto
    show ?thesis unfolding Some option.case by (rule triple_remote) (auto simp: out intro: asked_end b)
  qed (auto intro: triple_give)
  moreover have "triple (\<lambda>w. ?I w \<and> out \<noteq> DcPending) (then_act (write_act (update_message_status now (dc_message c) ''failed'' []))
      (then_act (write_act (settle_failed now out e c)) (local_act (emit_delivery ev)))) (\<lambda>_. ?E) ?E" for out ev
  proof (cases "out = DcPending")
    case False
    have "triple ?I (then_act (write_act (update_message_status now (dc_message c) ''failed'' []))
      (then_act (write_act (settle_failed now out e c)) (local_act (emit_delivery ev)))) (\<lambda>_. ?I) ?E"
      by (intro triple_then[where R = ?I] asked_write triple_local) (auto intro: asked_core asked_settle[OF _ False])
    then show ?thesis by (rule triple_weaken) (auto intro: asked_end)
  qed (simp add: triple_def)
  ultimately show ?thesis unfolding record_failure_def by (rule triple_bind)
qed

lemma success_asked:
  "triple (asked cs i b) (then_act (write_act (complete_delivery now x c))
     (case a of Some n \<Rightarrow> project_successful_delivery now n x c | None \<Rightarrow> give ())) (\<lambda>_. job_end cs i) (job_end cs i)"
proof -
  let ?I = "asked cs i b" and ?E = "job_end cs i"
  have quiet: "triple ?I (attempt_act (write_act f) (\<lambda>_. give ())) (\<lambda>_. ?I) ?E" if "\<And>v. same_core v (f v)" for f
    by (rule triple_attempt[where R = ?I]) (auto intro!: triple_write triple_give asked_core[OF _ that] intro: asked_end)
  have "triple ?I (project_successful_delivery now n x c) (\<lambda>_. ?I) ?E" for n
    unfolding project_successful_delivery_def by (intro triple_then[where R = ?I] quiet triple_local) (auto intro: asked_core)
  then have "triple ?I (case a of Some n \<Rightarrow> project_successful_delivery now n x c | None \<Rightarrow> give ()) (\<lambda>_. ?I) ?E"
    by (cases a) (auto intro: triple_give)
  then have "triple ?I (then_act (write_act (complete_delivery now x c))
     (case a of Some n \<Rightarrow> project_successful_delivery now n x c | None \<Rightarrow> give ())) (\<lambda>_. ?I) ?E"
    by (intro triple_then[where R = ?I] asked_write asked_complete)
  then show ?thesis by (rule triple_weaken) (auto intro: asked_end)
qed

lemma send_asked: "triple (asked cs (dc_id c) False) (attempt_send pt now c r ad) (\<lambda>_ v. \<exists>b. asked cs (dc_id c) b v) (job_end cs (dc_id c))"
proof -
  let ?I = "asked cs (dc_id c)"
  have start: "triple (?I False) (tried (remote (start_attempt now (dc_tenant c) (dc_message c)))) (\<lambda>_. ?I False) (job_end cs (dc_id c))"
    by (rule triple_tried[where R = "?I False"]) (auto intro!: triple_remote asked_core[OF _ same_core_writes(2)] intro: asked_end)
  have called: "?I True (snd (ask_provider pt rq (dc_id c) v))" if "?I False v" for rq v
    using that by (simp add: asked_def ask_provider_def settled_id_def)
  have call: "triple (?I False) (tried (remote (ask_provider pt rq (dc_id c)))) (\<lambda>_ v. \<exists>b. ?I b v) (job_end cs (dc_id c))" for rq
    by (rule triple_tried[where R = "\<lambda>v. \<exists>b. ?I b v"]) (auto intro!: triple_remote called intro: asked_end called)
  show ?thesis
    unfolding attempt_send_def
  proof (rule triple_bind[OF start], goal_cases)
    case (1 x)
    show ?case
      by (auto split: sum.split intro!: triple_give triple_bind[OF call])
  qed
qed

lemma claim_settles:
  assumes "claim_delivery now i t w = (Some c, v)" "distinct (map dc_id (dw_commands w))"
  shows "settled_id i v" "dw_calls v = dw_calls w" "dc_id c = i"
proof -
  obtain ds where ds: "find_and_update (\<lambda>c. dc_id c = i \<and> dc_tenant c = t \<and> dc_status c = DcPending)
      (\<lambda>c. c\<lparr>dc_status := DcProcessing, dc_started := Some now, dc_updated := now\<rparr>) (dw_commands w) = (Some c, ds)" "v = w\<lparr>dw_commands := ds\<rparr>"
    using assms(1) by (auto simp: claim_delivery_def split: prod.splits)
  then obtain as b bs where split: "dw_commands w = as @ b # bs" "ds = as @ c # bs"
    "c = b\<lparr>dc_status := DcProcessing, dc_started := Some now, dc_updated := now\<rparr>" "dc_id b = i"
    by (auto elim!: find_and_update_split)
  have others: "dc_id x \<noteq> i" if "x \<in> set as \<union> set bs" for x
  proof
    assume "dc_id x = i"
    with that have "i \<in> dc_id ` (set as \<union> set bs)" by (metis imageI)
    moreover have "i \<notin> dc_id ` (set as \<union> set bs)" using assms(2) split(1,4) by auto
    ultimately show False by blast
  qed
  have "distinct (map dc_id ds)" using assms(2) split by simp
  with others split(2,3) show "settled_id i v" by (auto simp: settled_id_def ds(2))
  from split show "dc_id c = i" by simp
  show "dw_calls v = dw_calls w" by (simp add: ds(2))
qed

lemma job_asked:
  "triple (\<lambda>w. distinct (map dc_id (dw_commands w)) \<and> dw_calls w = cs) (handle_delivery pt now i t) (\<lambda>_. job_end cs i) (job_end cs i)"
proof -
  let ?E = "job_end cs i" and ?I = "asked cs i False"
  have claim: "triple (\<lambda>w. distinct (map dc_id (dw_commands w)) \<and> dw_calls w = cs) (remote (claim_delivery now i t))
      (\<lambda>r. case r of None \<Rightarrow> ?E | Some c \<Rightarrow> (\<lambda>w. dc_id c = i \<and> ?I w)) ?E"
  proof (rule triple_remote)
    fix w assume w: "distinct (map dc_id (dw_commands w)) \<and> dw_calls (w :: delivery_world) = cs"
    obtain r v where r: "claim_delivery now i t w = (r, v)" by (rule prod.exhaust)
    show "?E w" using w by (simp add: job_end_def)
    have "(case r of None \<Rightarrow> ?E | Some c \<Rightarrow> (\<lambda>w. dc_id c = i \<and> ?I w)) v"
    proof (cases r)
      case None
      with r have "v = w" by (auto simp: claim_delivery_def find_and_update_None split: prod.splits)
      then show ?thesis using w None by (simp add: job_end_def)
    next
      case (Some c)
      then show ?thesis using claim_settles[OF r[unfolded Some]] w by (simp add: asked_def)
    qed
    then show "(case fst (claim_delivery now i t w) of None \<Rightarrow> ?E | Some c \<Rightarrow> (\<lambda>w. dc_id c = i \<and> ?I w)) (snd (claim_delivery now i t w))"
      "?E (snd (claim_delivery now i t w))"
      by (auto simp: r split: option.splits intro: asked_end)
  qed
  have prepare: "triple ?I (tried (ask (\<lambda>_. prepare_delivery pt c))) (\<lambda>_. ?I) ?E" for c
    by (rule triple_tried[where R = ?I]) (auto intro!: triple_ask intro: asked_end)
  have rewind: "triple ?I (then_act (write_act (rewind_for_retry now e c)) (throw_act e)) (\<lambda>_. ?E) ?E" for c e
    by (rule triple_then[where R = ?E])
      (auto intro!: triple_write triple_throw simp: job_end_def asked_def rewind_for_retry_def)
  have finish: "triple (\<lambda>v. \<exists>b. asked cs i b v) (case ar of (a, r) \<Rightarrow> case r of Inl e \<Rightarrow> record_failure now a e c
      | Inr resp \<Rightarrow> then_act (write_act (complete_delivery now (external_id resp) c))
          (case a of Some n \<Rightarrow> project_successful_delivery now n (external_id resp) c | None \<Rightarrow> give ())) (\<lambda>_. ?E) ?E" for c ar
    by (cases ar; cases "snd ar") (simp_all add: triple_ex failure_asked success_asked)
  have rest: "triple ?I (bind_act (tried (ask (\<lambda>_. prepare_delivery pt c))) (\<lambda>prepared.
             case prepared of
               Inl e \<Rightarrow> then_act (write_act (rewind_for_retry now e c)) (throw_act e)
             | Inr (cv, ch, ad) \<Rightarrow>
                 bind_act (attempt_send pt now c (default_to [] (cv_customer cv)) ad) (\<lambda>(a, r).
                   case r of
                     Inl e \<Rightarrow> record_failure now a e c
                   | Inr resp \<Rightarrow> then_act (write_act (complete_delivery now (external_id resp) c))
                       (case a of Some n \<Rightarrow> project_successful_delivery now n (external_id resp) c | None \<Rightarrow> give ())))) (\<lambda>_. ?E) ?E"
    if i: "dc_id c = i" for c
  proof (rule triple_bind[OF prepare], goal_cases)
    case (1 x)
    show ?case
    proof (cases x)
      case (Inr p)
      obtain cv ch ad where p: "p = (cv, ch, ad)" by (rule prod_cases3)
      show ?thesis unfolding Inr p sum.case prod.case
        by (rule triple_bind[OF send_asked[of cs c, unfolded i] finish])
    qed (simp add: rewind)
  qed
  show ?thesis
    unfolding handle_delivery_def
  proof (rule triple_bind[OF claim], goal_cases)
    case (1 r)
    show ?case
    proof (cases r)
      case (Some c)
      show ?thesis
      proof (cases "dc_id c = i")
        case True
        show ?thesis using rest[OF True] True by (simp add: Some)
      qed (simp add: Some triple_def)
    qed (simp add: triple_give)
  qed
qed

text \<open>A job in which every call answers throws only when it could not prepare the send.\<close>

lemma failure_works: "fst (record_failure now a e c ([], w)) = Done ()"
  by (cases a) (simp_all add: record_failure_def bind_well)

lemma success_works: "fst (project_successful_delivery now n x c ([], w)) = Done ()"
  by (simp add: project_successful_delivery_def bind_well)

lemma attempt_send_works: "\<exists>ar v. attempt_send pt now c r ad ([], w) = (Done ar, [], v)"
  by (simp add: attempt_send_def bind_well tried_well split: sum.split)

lemma thrown_well:
  assumes "handle_delivery pt now i t ([], w) = (Threw e, fs, v)"
  shows "\<exists>c w1. claim_delivery now i t w = (Some c, w1) \<and> v = rewind_for_retry now e c w1"
proof -
  obtain r w1 where r: "claim_delivery now i t w = (r, w1)" by (rule prod.exhaust)
  show ?thesis
  proof (cases r)
    case (Some c)
    show ?thesis
    proof (cases "prepare_delivery pt c")
      case (Inl e')
      with assms r Some show ?thesis by (auto simp: handle_delivery_def bind_well ask_well tried_well)
    next
      case (Inr p)
      obtain cv ch ad where p: "p = (cv, ch, ad)" by (rule prod_cases3)
      obtain a x w2 where s: "attempt_send pt now c (default_to [] (cv_customer cv)) ad ([], w1) = (Done (a, x), [], w2)"
        using attempt_send_works by (metis surj_pair)
      have False
        using assms r Some Inr p s failure_works[of now a _ c w2] success_works[of now _ _ c]
        by (cases x; cases a) (auto simp: handle_delivery_def bind_well ask_well tried_well dest!: arg_cong[where f = fst])
      then show ?thesis ..
    qed
  qed (use assms r in \<open>simp add: handle_delivery_def bind_well\<close>)
qed

text \<open>C27: Whatever calls fail in a job and wherever it stops, an error thrown out of it sends nothing twice: either it asked
  no provider, or it asked one for its command once and left no pending command, so that running the job again asks nobody.
  And when every call of it answers, a job throws only before it asked anybody or began an attempt, with its command put
  back to pending for the rerun.
\<close>
theorem reruns_send_nothing_twice:
  assumes "handle_delivery pt now i t (fs, w) = (r, fs', v)" "distinct (map dc_id (dw_commands w))"
  shows "(dw_calls v = dw_calls w
      \<or> dw_calls v = dw_calls w @ [i] \<and> handle_delivery pt' later i t' ([], v) = (Done (), [], v))
    \<and> (case (fs, r) of
         ([], Threw e) \<Rightarrow> dw_calls v = dw_calls w \<and> dw_attempts v = dw_attempts w \<and> dw_messages v = dw_messages w
           \<and> filter (\<lambda>c. dc_id c = i \<and> dc_status c = DcPending \<and> dc_error c = Some (take 2000 e)) (dw_commands v) \<noteq> []
       | _ \<Rightarrow> True)"
proof
  have "job_end (dw_calls w) i v"
    using job_asked[of "dw_calls w" pt now i t] assms unfolding triple_def by (cases r) (auto dest!: spec[of _ fs] spec[of _ w])
  moreover have "handle_delivery pt' later i t' ([], v) = (Done (), [], v)" if "settled_id i v"
  proof -
    have "\<forall>c \<in> set (dw_commands v). \<not> (dc_id c = i \<and> dc_tenant c = t' \<and> dc_status c = DcPending)"
      using that by (auto simp: settled_id_def)
    from find_and_update_none[OF this] have "claim_delivery later i t' v = (None, v)" by (simp add: claim_delivery_def)
    then show ?thesis by (simp add: handle_delivery_def bind_well)
  qed
  ultimately show "dw_calls v = dw_calls w \<or> dw_calls v = dw_calls w @ [i] \<and> handle_delivery pt' later i t' ([], v) = (Done (), [], v)"
    by (auto simp: job_end_def asked_def)
  have thrown: "dw_calls v = dw_calls w \<and> dw_attempts v = dw_attempts w \<and> dw_messages v = dw_messages w
      \<and> (\<exists>c. c \<in> set (dw_commands v) \<and> dc_id c = i \<and> dc_status c = DcPending \<and> dc_error c = Some (take 2000 e))"
    if thrown_eqs: "fs = []" "r = Threw e" for e
  proof -
    obtain c w1 where c: "claim_delivery now i t w = (Some c, w1)" "v = rewind_for_retry now e c w1"
      using thrown_well[OF assms(1)[unfolded thrown_eqs]] by blast
    obtain cs where cs: "find_and_update (\<lambda>c. dc_id c = i \<and> dc_tenant c = t \<and> dc_status c = DcPending)
        (\<lambda>c. c\<lparr>dc_status := DcProcessing, dc_started := Some now, dc_updated := now\<rparr>) (dw_commands w) = (Some c, cs)" "w1 = w\<lparr>dw_commands := cs\<rparr>"
      using c(1) by (auto simp: claim_delivery_def split: prod.splits)
    then have in_cs: "c \<in> set cs" "dc_id c = i" "dc_tenant c = t" "dc_status c = DcProcessing"
      by (auto elim!: find_and_update_split)
    have rest: "dw_calls v = dw_calls w" "dw_attempts v = dw_attempts w" "dw_messages v = dw_messages w"
      unfolding c(2) rewind_for_retry_def update_command_def cs(2) by (simp_all split: prod.split)
    have "\<exists>d. d \<in> set (dw_commands v) \<and> dc_id d = i \<and> dc_status d = DcPending \<and> dc_error d = Some (take 2000 e)"
      using rewound_command[of c w1 now e] in_cs cs(2) c(2) by fastforce
    with rest show ?thesis by simp
  qed
  then show "case (fs, r) of
         ([], Threw e) \<Rightarrow> dw_calls v = dw_calls w \<and> dw_attempts v = dw_attempts w \<and> dw_messages v = dw_messages w
           \<and> filter (\<lambda>c. dc_id c = i \<and> dc_status c = DcPending \<and> dc_error c = Some (take 2000 e)) (dw_commands v) \<noteq> []
       | _ \<Rightarrow> True"
    by (auto simp: filter_empty_conv split: list.split act_outcome.split)
qed

text \<open>The provider accepts the message, and the write that completes the command fails: the job throws, the command stays in
  processing, and the rerun asks nobody.\<close>

lemma reruns_send_nothing_twice_witness:
  "let w = snd (enqueue_delivery True 0 demo_input demo_outbox);
       (r, fs, v) = handle_delivery demo_ports 1 0 ''t'' ([Works, Works, Works, Works, Fails ''down''], w)
   in r = Threw ''down'' \<and> dw_calls v = [0] \<and> map dc_status (dw_commands v) = [DcProcessing]
     \<and> handle_delivery demo_ports 2 0 ''t'' ([], v) = (Done (), [], v)"
proof -
  let ?w = "snd (enqueue_delivery True 0 demo_input demo_outbox)"
  define x where "x = handle_delivery demo_ports 1 0 ''t'' ([Works, Works, Works, Works, Fails ''down''], ?w)"
  obtain r fs v where v: "x = (r, fs, v)" by (rule prod_cases3)
  have run: "let (r, fs, v) = x in r = Threw ''down'' \<and> dw_calls v = [0] \<and> map dc_status (dw_commands v) = [DcProcessing]"
    unfolding x_def by code_simp
  moreover have "distinct (map dc_id (dw_commands ?w))" "dw_calls ?w = []" by code_simp+
  ultimately show ?thesis
    using reruns_send_nothing_twice[OF x_def[symmetric, unfolded v], of demo_ports 2 "''t''"] v
    by (simp add: x_def[symmetric] Let_def)
qed

text \<open>C28: A reply is admitted exactly on a known channel that has no window, or less than the window's hours after the last
  message of the customer: at the moment of expiry it is refused.
\<close>
theorem reply_window_admits:
  "enforce_reply_window now ch last_customer = Inr () \<longleftrightarrow>
     (\<exists>caps. channel_capabilities (to_lower ch) = Inr caps
       \<and> (ca_window_hours caps = 0 \<or> (\<exists>t. last_customer = Some t \<and> now < t + ca_window_hours caps * 3600000)))"
  by (cases "channel_capabilities (to_lower ch)"; cases last_customer)
    (simp_all add: enforce_reply_window_def get_reply_window_status_def Let_def)

section \<open>Where repair and command disagree\<close>

text \<open>
  A message whose command still waits (the queue was down, or the worker is behind) is failed as of unknown outcome after
  five minutes, though no provider was asked; the command is then recovered, and sent all the same.
\<close>
lemma waiting_message_failed_then_sent:
  "let w = snd (enqueue_delivery False 0 demo_input demo_outbox);
       v = snd (reconcile_stuck_messages NaN NaN 300000 w);
       u = job_world demo_ports 400000 0 ''t'' [] (snd (recover_pending (\<lambda>_. True) 300000 v))
   in map om_status (dw_messages v) = [''failed''] \<and> dw_calls v = [] \<and> map dc_status (dw_commands v) = [DcPending]
     \<and> map om_status (dw_messages u) = [''sent''] \<and> dw_calls u = [0]"
  by code_simp

text \<open>A template on an adapter without templates asks nobody, and is nevertheless final: the command has failed, the job succeeded.\<close>
lemma unsupported_template_is_final:
  "let w = snd (enqueue_delivery True 0 (demo_input\<lparr>di_kind := Some KTemplate\<rparr>) demo_outbox); (r, fs, v) = handle_delivery demo_ports 1 0 ''t'' ([], w)
   in r = Done () \<and> dw_calls v = [] \<and> map dc_status (dw_commands v) = [DcFailed]"
  by code_simp

end
