(* ===== verification/Conversation_Ops.thy ===== *)
theory Conversation_Ops
  imports Remote_Calls Documents
begin

text \<open>
  The command pipeline of conversations (\<open>omni-inbound/aggregate\<close>): commands and their envelope
  (\<open>conversation-command.service.ts\<close>), the processor with its ledger of operations, the five handlers and the outbox
  (\<open>conversation-ops.processor.ts\<close>), the publisher of pending events (\<open>outbox-publisher.service.ts\<close>), the status and
  bot machines, the expiry of what was recorded, and the updates of the conversation document (\<open>conversation.repository.ts\<close>). The world is the one of one
  conversation, whose commands are serialised by its lock. Every remote call has a fate; the sending of bot messages, the
  orchestration of bots and business hours and the eligibility checks are ports.
\<close>

section \<open>Status and bot\<close>

datatype conversation_status = CsOpen | CsPending | CsResolved | CsClosed

definition status_text :: "conversation_status \<Rightarrow> string" where
  "status_text s = (case s of CsOpen \<Rightarrow> ''open'' | CsPending \<Rightarrow> ''pending'' | CsResolved \<Rightarrow> ''resolved'' | CsClosed \<Rightarrow> ''closed'')"

definition status_of_text :: "string \<Rightarrow> conversation_status option" where
  "status_of_text s = map_of [(''open'', CsOpen), (''pending'', CsPending), (''resolved'', CsResolved), (''closed'', CsClosed)] s"

definition allowed_transitions :: "conversation_status \<Rightarrow> conversation_status list" where
  "allowed_transitions s =
     (case s of CsOpen \<Rightarrow> [CsPending, CsResolved, CsClosed] | CsPending \<Rightarrow> [CsOpen, CsResolved, CsClosed]
      | CsResolved \<Rightarrow> [CsOpen, CsClosed] | CsClosed \<Rightarrow> [])"

definition can_transition_status :: "conversation_status \<Rightarrow> conversation_status \<Rightarrow> bool" where
  "can_transition_status current next \<longleftrightarrow> current = next \<or> next \<in> set (allowed_transitions current)"

datatype bot_status = BotActive | BotHandoff | BotEnded

datatype bot_event = CallbackActive | CallbackHandoff | CallbackEnded | AgentDisable | AgentEnable

definition resolve_bot_transition :: "bot_status \<Rightarrow> bot_event \<Rightarrow> bot_status option" where
  "resolve_bot_transition s e =
     (case (s, e) of
        (BotActive, CallbackActive) \<Rightarrow> Some BotActive | (BotActive, CallbackHandoff) \<Rightarrow> Some BotHandoff
      | (BotActive, CallbackEnded) \<Rightarrow> Some BotEnded | (BotActive, AgentDisable) \<Rightarrow> Some BotEnded
      | (BotHandoff, AgentEnable) \<Rightarrow> Some BotActive | (BotEnded, AgentEnable) \<Rightarrow> Some BotActive | _ \<Rightarrow> None)"

text \<open>A value of a partial update: \<open>undefined\<close>, \<open>null\<close> or present.\<close>

datatype 'a patch = Keep | Clear | Put 'a

primrec patch_value :: "'a patch \<Rightarrow> 'a option" where
  "patch_value Keep = None" | "patch_value Clear = None" | "patch_value (Put x) = Some x"

definition apply_patch :: "'a patch \<Rightarrow> 'a option \<Rightarrow> 'a option" where
  "apply_patch p v = (case p of Keep \<Rightarrow> v | Clear \<Rightarrow> None | Put x \<Rightarrow> Some x)"

record bot_state =
  bs_enabled :: "bool option"
  bs_status :: "bot_status option"
  bs_session :: "string option"
  bs_provider :: "string option"
  bs_last_error :: "string option"
  bs_handoff_reason :: "string option"
  bs_handoff_message :: "string option"
  bs_handoff_target :: "string option"
  bs_handoff_target_id :: "string option"
  bs_handed_off_at :: "int option"
  bs_handed_off_by :: "string option"

definition can_accept_bot_callback :: "bot_state \<Rightarrow> string option \<Rightarrow> bool" where
  "can_accept_bot_callback b session \<longleftrightarrow> bs_enabled b = Some True \<and> bs_status b = Some BotActive
     \<and> \<not> (case (truthy_id (bs_session b), truthy_id session) of (Some x, Some y) \<Rightarrow> x \<noteq> y | _ \<Rightarrow> False)"

section \<open>Commands\<close>

record inbound_payload =
  ip_tenant :: string
  ip_sender :: string
  ip_sender_type :: string
  ip_message_type :: string
  ip_content :: "string option"
  ip_media_url :: "string option"
  ip_storage_key :: "string option"
  ip_provider_time :: "int option"
  ip_time :: int

record bot_message =
  bm_type :: string
  bm_text :: "string option"
  bm_url :: "string option"

record handoff_meta =
  hm_target :: "string option"
  hm_group :: "string option"
  hm_agent :: "string option"
  hm_message :: "string option"

record bot_reply_payload =
  br_messages :: "bot_message list"
  br_handoff :: bool
  br_meta :: handoff_meta
  br_session :: "string option"
  br_status :: bot_status
  br_end_reason :: "string option"
  br_inbound :: string
  br_after :: "int option"

record sync_capacity =
  sc_release :: "string option"
  sc_assign :: "string option"

record assign_payload =
  as_agent :: "string patch"
  as_group :: "string patch"
  as_previous_agent :: "string patch"
  as_previous_group :: "string patch"
  as_performed_by :: "string option"
  as_reason :: string
  as_only_unassigned :: bool
  as_sync :: "sync_capacity option"
  as_audit_channel :: "string option"

record status_payload =
  sp_status :: conversation_status
  sp_agent :: "string option"
  sp_reason :: "string option"
  sp_note :: "string option"
  sp_source :: "string option"

record bot_fields =
  bf_enabled :: "bool patch"
  bf_status :: "bot_status patch"
  bf_session :: "string patch"
  bf_last_error :: "string patch"
  bf_provider :: "string patch"

datatype command_payload =
    CustomerMessage inbound_payload string
  | BotReply bot_reply_payload
  | AssignAgent assign_payload
  | ChangeStatus status_payload
  | UpdateBotState bot_fields string "string option"

record conversation_command =
  cc_operation :: string
  cc_source :: string
  cc_conversation :: string
  cc_tenant :: string
  cc_payload :: command_payload

text \<open>The source id of a command; operation ids are fresh ULIDs.\<close>

definition source_id :: "string \<Rightarrow> string \<Rightarrow> command_payload \<Rightarrow> string" where
  "source_id op conv p =
     (case p of
        CustomerMessage ip dedup \<Rightarrow> ''inbound:'' @ dedup
      | BotReply br \<Rightarrow> ''bot:'' @ br_inbound br
      | AssignAgent a \<Rightarrow> ''assign:'' @ conv @ '':'' @ op
      | ChangeStatus s \<Rightarrow> ''status:'' @ conv @ '':'' @ op
      | UpdateBotState f r a \<Rightarrow> ''bot-state:'' @ conv @ '':'' @ op)"

definition make_command :: "string \<Rightarrow> string \<Rightarrow> string \<Rightarrow> command_payload \<Rightarrow> conversation_command" where
  "make_command op conv tenant p =
     \<lparr>cc_operation = op, cc_source = source_id op conv p, cc_conversation = conv, cc_tenant = tenant, cc_payload = p\<rparr>"

definition needs_sequence :: "command_payload \<Rightarrow> bool" where
  "needs_sequence p \<longleftrightarrow> (case p of CustomerMessage ip d \<Rightarrow> True | BotReply br \<Rightarrow> True | _ \<Rightarrow> False)"

section \<open>The world of a conversation\<close>

record preview =
  pv_message :: string
  pv_text :: "string option"
  pv_type :: string
  pv_at :: int
  pv_sender :: string

record conversation_doc =
  cd_tenant :: string
  cd_status :: string
  cd_agent :: "string option"
  cd_group :: "string option"
  cd_queued_at :: "int option"
  cd_assigned_at :: "int option"
  cd_queued_ms :: int
  cd_bot :: bot_state
  cd_next_sequence :: nat
  cd_last_sequence :: nat
  cd_message_count :: nat
  cd_unread :: nat
  cd_preview :: "preview option"
  cd_last_customer_at :: "int option"
  cd_channel_type :: string
  cd_channel_account :: "string option"
  cd_channel :: "string option"
  cd_contact :: "string option"
  cd_resolved :: "(string option \<times> int \<times> string) option"
  cd_resolve_reason :: "string option"
  cd_resolve_note :: "string option"

record inbound_message =
  im_id :: nat
  im_tenant :: string
  im_external :: string
  im_sequence :: nat
  im_time :: int

record ledger_entry =
  le_operation :: string
  le_sequence :: nat
  le_completed :: bool
  le_at :: int

datatype conversation_event =
    MessagePersisted string nat "string option"
  | BotEndedEvent string "string option" string
  | BotHandoffEvent string "string option" "string option" "string option"
  | AssignedEvent "string option" "string option" "string option" "string option" "string option" string
  | StatusChanged conversation_status conversation_status "string option" string
  | BotStateEvent string string "string option"

datatype outbox_status = ObPending | ObPublished | ObFailed

record outbox_row =
  ob_id :: nat
  ob_tenant :: string
  ob_event :: conversation_event
  ob_status :: outbox_status
  ob_retries :: nat
  ob_claimed :: "int option"
  ob_created :: int
  ob_error :: "string option"
  ob_published :: "int option"

text \<open>What is started and not waited for, or left to other services.\<close>

datatype ops_effect =
    CapacityReleased string | CapacityAssigned string
  | AuditReply "string patch" string | AuditManual "string patch" "string option" "string option" string "string patch"
  | BotSent string | MediaCache nat | AutoResolveScheduled | BotAsked nat | HoursChecked bool | DeadLettered string string nat

text \<open>\<open>ow_heard\<close> lists the events the listeners were given, with the row each came from; \<open>ow_purged\<close> is a trail of the rows
  that expired.\<close>

record ops_world =
  ow_conv :: "conversation_doc option"
  ow_messages :: "inbound_message list"
  ow_ledger :: "ledger_entry list"
  ow_outbox :: "outbox_row list"
  ow_purged :: "outbox_row list"
  ow_heard :: "nat list"
  ow_effects :: "ops_effect list"
  ow_next_message :: nat
  ow_next_row :: nat

record ops_ports =
  op_field_path :: "string \<Rightarrow> (string, conversation_doc \<Rightarrow> string option) result"
  op_presign :: "string \<Rightarrow> (string, string) result"
  op_open_offer :: "(string, bool) result"
  op_send :: "string \<Rightarrow> bot_message \<Rightarrow> int option \<Rightarrow> (string, string) result"
  op_inbound_time :: "string \<Rightarrow> (string, int option) result"
  op_valid_id :: "string \<Rightarrow> bool"
  op_user :: "string \<Rightarrow> (string, bool) result"
  op_group :: "string \<Rightarrow> (string, bool) result"
  op_agent_eligible :: "string option \<Rightarrow> string \<Rightarrow> (string, unit) result"
  op_group_eligible :: "string option \<Rightarrow> string \<Rightarrow> (string, unit) result"

type_synonym 'a ops = "(ops_world, 'a) act"

definition upd_conv :: "(conversation_doc \<Rightarrow> conversation_doc) \<Rightarrow> ops_world \<Rightarrow> ops_world" where
  "upd_conv f w = w\<lparr>ow_conv := map_option f (ow_conv w)\<rparr>"

definition effect :: "ops_effect \<Rightarrow> ops_world \<Rightarrow> ops_world" where
  "effect e w = w\<lparr>ow_effects := ow_effects w @ [e]\<rparr>"

definition find_conv :: "conversation_doc option ops" where
  "find_conv = remote (\<lambda>w. (ow_conv w, w))"

section \<open>The conversation document\<close>

text \<open>\<open>ownershipTiming\<close>; an empty agent is no agent.\<close>

definition ownership_timing :: "string option \<Rightarrow> int \<Rightarrow> conversation_doc \<Rightarrow> conversation_doc" where
  "ownership_timing agent now d =
     (case truthy_id agent of
        None \<Rightarrow> d\<lparr>cd_agent := None, cd_queued_at := Some now\<rparr>
      | Some a \<Rightarrow> d\<lparr>cd_agent := Some a, cd_assigned_at := Some now, cd_queued_at := None,
           cd_queued_ms := cd_queued_ms d + (case cd_queued_at d of Some q \<Rightarrow> now - q | None \<Rightarrow> 0)\<rparr>)"

definition set_group :: "string patch \<Rightarrow> conversation_doc \<Rightarrow> conversation_doc" where
  "set_group g d = d\<lparr>cd_group := apply_patch g (cd_group d)\<rparr>"

definition update_assignment :: "string option \<Rightarrow> int \<Rightarrow> unit ops" where
  "update_assignment agent now = write_act (upd_conv (ownership_timing agent now))"

definition update_group_assignment :: "string option \<Rightarrow> unit ops" where
  "update_group_assignment g = write_act (upd_conv (\<lambda>d. d\<lparr>cd_group := g\<rparr>))"

definition update_if :: "(conversation_doc \<Rightarrow> bool) \<Rightarrow> (conversation_doc \<Rightarrow> conversation_doc) \<Rightarrow> conversation_doc option ops" where
  "update_if P f = remote (\<lambda>w. case ow_conv w of
      None \<Rightarrow> (None, w) | Some d \<Rightarrow> if P d then (Some (f d), w\<lparr>ow_conv := Some (f d)\<rparr>) else (None, w))"

definition reassign_doc_if_expected :: "string option \<Rightarrow> string patch \<Rightarrow> string option \<Rightarrow> int \<Rightarrow> conversation_doc option ops" where
  "reassign_doc_if_expected agent g expected now =
     update_if (\<lambda>d. cd_agent d = expected) (\<lambda>d. set_group g (ownership_timing agent now d))"

definition assign_doc_if_unassigned :: "string \<Rightarrow> int \<Rightarrow> conversation_doc option ops" where
  "assign_doc_if_unassigned agent now =
     update_if (\<lambda>d. cd_status d \<in> {''open'', ''pending''} \<and> cd_agent d = None) (ownership_timing (Some agent) now)"

definition apply_bot_fields :: "bot_fields \<Rightarrow> bot_state \<Rightarrow> bot_state" where
  "apply_bot_fields f b = b\<lparr>bs_enabled := apply_patch (bf_enabled f) (bs_enabled b), bs_status := apply_patch (bf_status f) (bs_status b),
     bs_session := apply_patch (bf_session f) (bs_session b), bs_last_error := apply_patch (bf_last_error f) (bs_last_error b),
     bs_provider := apply_patch (bf_provider f) (bs_provider b)\<rparr>"

definition update_bot_state :: "bot_fields \<Rightarrow> unit ops" where
  "update_bot_state f = write_act (upd_conv (\<lambda>d. d\<lparr>cd_bot := apply_bot_fields f (cd_bot d)\<rparr>))"

definition handed_off :: "int \<Rightarrow> string \<Rightarrow> string option \<Rightarrow> string option \<Rightarrow> string \<Rightarrow> bot_state \<Rightarrow> bot_state" where
  "handed_off now target target_id message inbound b =
     b\<lparr>bs_enabled := Some False, bs_status := Some BotHandoff, bs_handoff_reason := Some ''bot_requested_handoff'',
       bs_handoff_message := message, bs_handoff_target := Some target, bs_handoff_target_id := target_id,
       bs_handed_off_at := Some now, bs_handed_off_by := Some inbound\<rparr>"

definition mark_bot_handoff :: "int \<Rightarrow> string \<Rightarrow> string option \<Rightarrow> string option \<Rightarrow> string \<Rightarrow> conversation_doc option ops" where
  "mark_bot_handoff now target target_id message inbound =
     update_if (\<lambda>d. bs_enabled (cd_bot d) = Some True \<and> bs_status (cd_bot d) = Some BotActive)
       (\<lambda>d. d\<lparr>cd_bot := handed_off now target target_id message inbound (cd_bot d)\<rparr>)"

definition update_status :: "conversation_status \<Rightarrow> unit ops" where
  "update_status s = write_act (upd_conv (\<lambda>d. d\<lparr>cd_status := status_text s\<rparr>))"

definition update_status_with_metadata :: "conversation_status \<Rightarrow> string option \<Rightarrow> string option \<Rightarrow> string option \<Rightarrow> string \<Rightarrow> int \<Rightarrow> unit ops" where
  "update_status_with_metadata s agent reason note source now =
     write_act (upd_conv (\<lambda>d. d\<lparr>cd_status := status_text s, cd_resolved := Some (agent, now, source),
       cd_resolve_reason := or_else (truthy_id reason) (cd_resolve_reason d), cd_resolve_note := or_else (truthy_id note) (cd_resolve_note d)\<rparr>))"

text \<open>
  \<open>reopenConversation\<close>, which the arrival of a message calls outside the commands: the bot is made active again, whether
  it is enabled is left as it was. And \<open>ensureConversationBotState\<close>, which gives a conversation without a bot one.
\<close>

definition reopened :: "conversation_doc \<Rightarrow> conversation_doc" where
  "reopened d = d\<lparr>cd_status := ''open'', cd_resolved := None, cd_resolve_reason := None, cd_resolve_note := None,
     cd_bot := (cd_bot d)\<lparr>bs_session := None, bs_status := Some BotActive, bs_last_error := None\<rparr>\<rparr>"

definition reopen_conversation :: "conversation_doc option ops" where
  "reopen_conversation = update_if (\<lambda>d. cd_status d = ''resolved'') reopened"

definition no_bot :: bot_state where
  "no_bot = \<lparr>bs_enabled = None, bs_status = None, bs_session = None, bs_provider = None, bs_last_error = None,
     bs_handoff_reason = None, bs_handoff_message = None, bs_handoff_target = None, bs_handoff_target_id = None,
     bs_handed_off_at = None, bs_handed_off_by = None\<rparr>"

definition ensure_bot_state :: "string patch \<Rightarrow> unit ops" where
  "ensure_bot_state provider =
     bind_act find_conv (\<lambda>c. case c of
        Some d \<Rightarrow>
          if cd_bot d = no_bot
          then update_bot_state \<lparr>bf_enabled = Put True, bf_status = Put BotActive, bf_session = Keep, bf_last_error = Keep, bf_provider = provider\<rparr>
          else give ()
      | None \<Rightarrow> give ())"

definition get_next_sequence :: "nat ops" where
  "get_next_sequence = remote (\<lambda>w. case ow_conv w of
      None \<Rightarrow> (1, w)
    | Some d \<Rightarrow> (Suc (cd_next_sequence d), w\<lparr>ow_conv := Some (d\<lparr>cd_next_sequence := Suc (cd_next_sequence d)\<rparr>)\<rparr>))"

definition apply_incoming_message :: "nat \<Rightarrow> nat \<Rightarrow> preview \<Rightarrow> int option \<Rightarrow> conversation_doc \<Rightarrow> conversation_doc" where
  "apply_incoming_message s unread pv customer_at d =
     (let newer = cd_last_sequence d \<le> s in
      d\<lparr>cd_preview := (if newer then Some pv else cd_preview d),
        cd_last_customer_at := (if newer then or_else customer_at (cd_last_customer_at d) else cd_last_customer_at d),
        cd_last_sequence := (if newer then s else cd_last_sequence d),
        cd_message_count := Suc (cd_message_count d), cd_unread := cd_unread d + unread\<rparr>)"

text \<open>\<open>upsertInboundByExternalId\<close>: the id, and whether it was inserted.\<close>

definition upsert_inbound :: "string \<Rightarrow> string \<Rightarrow> nat \<Rightarrow> int \<Rightarrow> (nat \<times> bool) ops" where
  "upsert_inbound tenant external s t = remote (\<lambda>w.
     case List.find (\<lambda>m. im_tenant m = tenant \<and> im_external m = external) (ow_messages w) of
       Some m \<Rightarrow> ((im_id m, False), w)
     | None \<Rightarrow> ((ow_next_message w, True),
         w\<lparr>ow_messages := ow_messages w @ [\<lparr>im_id = ow_next_message w, im_tenant = tenant, im_external = external, im_sequence = s, im_time = t\<rparr>],
           ow_next_message := Suc (ow_next_message w)\<rparr>))"

section \<open>The outbox\<close>

definition create_row :: "string \<Rightarrow> conversation_event \<Rightarrow> int \<Rightarrow> nat ops" where
  "create_row tenant e now = remote (\<lambda>w. (ow_next_row w,
     w\<lparr>ow_outbox := ow_outbox w @ [\<lparr>ob_id = ow_next_row w, ob_tenant = tenant, ob_event = e, ob_status = ObPending, ob_retries = 0,
         ob_claimed = None, ob_created = now, ob_error = None, ob_published = None\<rparr>],
       ow_next_row := Suc (ow_next_row w)\<rparr>))"

definition upd_row :: "nat \<Rightarrow> (outbox_row \<Rightarrow> outbox_row) \<Rightarrow> ops_world \<Rightarrow> ops_world" where
  "upd_row i f w = w\<lparr>ow_outbox := update_first (\<lambda>r. ob_id r = i) f (ow_outbox w)\<rparr>"

text \<open>\<open>emitAsync\<close> waits for the listeners; when one of them throws, some have heard the event all the same.\<close>

definition emit_async :: "nat \<Rightarrow> unit ops" where
  "emit_async i = write_act (\<lambda>w. w\<lparr>ow_heard := ow_heard w @ [i]\<rparr>)"

definition save_and_publish :: "string \<Rightarrow> conversation_event \<Rightarrow> int \<Rightarrow> unit ops" where
  "save_and_publish tenant e now =
     bind_act (create_row tenant e now) (\<lambda>i.
       attempt_act (then_act (emit_async i) (write_act (upd_row i (\<lambda>r. r\<lparr>ob_status := ObPublished, ob_published := Some now\<rparr>)))) (\<lambda>_. give ()))"

section \<open>Customer messages\<close>

definition preview_max_length :: nat where "preview_max_length = 200"

definition message_preview :: "string option \<Rightarrow> string \<Rightarrow> string" where
  "message_preview content kind = take preview_max_length (default_to (''['' @ kind @ '']'') (truthy_id content))"

definition has_pending_offer :: "ops_ports \<Rightarrow> bool ops" where
  "has_pending_offer pt = attempt_act (ask (\<lambda>_. op_open_offer pt)) (\<lambda>_. give False)"

definition presigned :: "ops_ports \<Rightarrow> inbound_payload \<Rightarrow> string option ops" where
  "presigned pt p =
     (case (truthy_id (ip_media_url p), truthy_id (ip_storage_key p)) of
        (None, Some k) \<Rightarrow> attempt_act (bind_act (ask (\<lambda>_. op_presign pt k)) (\<lambda>u. give (Some u))) (\<lambda>_. give None)
      | _ \<Rightarrow> give None)"

definition after_message :: "ops_ports \<Rightarrow> nat \<Rightarrow> unit ops" where
  "after_message pt mid =
     then_act (attempt_act (write_act (effect AutoResolveScheduled)) (\<lambda>_. give ()))
     (bind_act find_conv (\<lambda>snapshot.
      then_act (write_act (effect (BotAsked mid)))
      (bind_act (case snapshot of
          Some d \<Rightarrow> (if truthy_id (cd_agent d) \<noteq> None then give True else has_pending_offer pt) | None \<Rightarrow> has_pending_offer pt)
        (\<lambda>handled. attempt_act (write_act (effect (HoursChecked handled))) (\<lambda>_. give ())))))"

text \<open>
  The summary is written by a pipeline, in which a text that starts with a dollar sign is the path of a field, or is
  refused as one.
\<close>

definition expression_text :: "ops_ports \<Rightarrow> string \<Rightarrow> (string, conversation_doc \<Rightarrow> string option) result" where
  "expression_text pt s = (if starts_with s ''$'' then op_field_path pt s else Inr (\<lambda>_. Some s))"

definition fold_message :: "ops_ports \<Rightarrow> nat \<Rightarrow> nat \<Rightarrow> string \<Rightarrow> preview \<Rightarrow> int option \<Rightarrow> unit ops" where
  "fold_message pt s unread txt pv customer_at =
     (case expression_text pt txt of
        Inl e \<Rightarrow> ask (\<lambda>_. Inl e)
      | Inr value \<Rightarrow> write_act (upd_conv (\<lambda>d. apply_incoming_message s unread (pv\<lparr>pv_text := value d\<rparr>) customer_at d)))"

definition handle_customer_message :: "ops_ports \<Rightarrow> int \<Rightarrow> conversation_command \<Rightarrow> inbound_payload \<Rightarrow> string \<Rightarrow> nat \<Rightarrow> unit ops" where
  "handle_customer_message pt now cmd p dedup s =
     (let at = default_to (ip_time p) (ip_provider_time p); customer = (ip_sender_type p = ''customer'') in
      bind_act (upsert_inbound (ip_tenant p) dedup s at) (\<lambda>(mid, inserted).
        if \<not> inserted then give ()
        else bind_act (presigned pt p) (\<lambda>url.
          then_act (fold_message pt s (if customer then 1 else 0) (message_preview (ip_content p) (ip_message_type p))
              \<lparr>pv_message = nat_text mid, pv_text = None, pv_type = ip_message_type p, pv_at = at, pv_sender = ip_sender_type p\<rparr>
              (if customer then Some at else None))
          (then_act (save_and_publish (cc_tenant cmd) (MessagePersisted dedup mid url) now)
          (then_act (if truthy_id (ip_media_url p) \<noteq> None then local_act (effect (MediaCache mid)) else give ())
            (after_message pt mid))))))"

section \<open>Assignments\<close>

definition perform_assignment_update :: "int \<Rightarrow> string patch \<Rightarrow> string patch \<Rightarrow> bool \<Rightarrow> string patch \<Rightarrow> bool ops" where
  "perform_assignment_update now agent g only_unassigned previous =
     (case (only_unassigned, truthy_id (patch_value agent)) of
        (True, Some a) \<Rightarrow> bind_act (assign_doc_if_unassigned a now) (\<lambda>r. give (r \<noteq> None))
      | _ \<Rightarrow>
          if agent \<noteq> Keep \<and> previous \<noteq> Keep
          then bind_act (reassign_doc_if_expected (patch_value agent) g (patch_value previous) now) (\<lambda>r. give (r \<noteq> None))
          else then_act (if agent \<noteq> Keep then update_assignment (patch_value agent) now else give ())
            (then_act (if g \<noteq> Keep then update_group_assignment (patch_value g) else give ()) (give True)))"

definition sync_presence :: "sync_capacity option \<Rightarrow> unit ops" where
  "sync_presence sc =
     (case sc of
        None \<Rightarrow> give ()
      | Some s \<Rightarrow>
          then_act (case truthy_id (sc_release s) of Some a \<Rightarrow> local_act (effect (CapacityReleased a)) | None \<Rightarrow> give ())
            (case truthy_id (sc_assign s) of Some a \<Rightarrow> local_act (effect (CapacityAssigned a)) | None \<Rightarrow> give ()))"

definition log_assignment :: "string patch \<Rightarrow> string option \<Rightarrow> string option \<Rightarrow> string \<Rightarrow> string \<Rightarrow> string patch \<Rightarrow> unit ops" where
  "log_assignment agent previous by channel reason g =
     local_act (effect (if reason = ''reply_auto_assign'' then AuditReply agent channel else AuditManual agent previous by channel g))"

definition handle_assign_agent :: "int \<Rightarrow> conversation_command \<Rightarrow> assign_payload \<Rightarrow> unit ops" where
  "handle_assign_agent now cmd p =
     bind_act (perform_assignment_update now (as_agent p) (as_group p) (as_only_unassigned p) (as_previous_agent p)) (\<lambda>committed.
       if \<not> committed then give ()
       else then_act (save_and_publish (cc_tenant cmd) (AssignedEvent (patch_value (as_agent p)) (patch_value (as_previous_agent p))
              (patch_value (as_group p)) (patch_value (as_previous_group p)) (as_performed_by p) (as_reason p)) now)
         (then_act (sync_presence (as_sync p))
           (case truthy_id (as_audit_channel p) of
              Some ch \<Rightarrow> if as_agent p \<noteq> Keep \<or> as_group p \<noteq> Keep
                then log_assignment (as_agent p) (patch_value (as_previous_agent p)) (as_performed_by p) ch (as_reason p) (as_group p)
                else give ()
            | None \<Rightarrow> give ())))"

section \<open>Bot replies\<close>

definition resolve_handoff_target :: "ops_ports \<Rightarrow> conversation_doc option \<Rightarrow> handoff_meta \<Rightarrow> (string \<times> string option) ops" where
  "resolve_handoff_target pt conv m =
     (let general = (''general'', None); requested = default_to ''general'' (hm_target m) in
      if requested \<noteq> ''agent'' \<and> requested \<noteq> ''group'' then give general
      else let i = default_to [] (if requested = ''agent'' then hm_agent m else hm_group m);
               channel = (case conv of Some d \<Rightarrow> truthy_id (cd_channel d) | None \<Rightarrow> None) in
        if i = [] \<or> \<not> op_valid_id pt i then give general
        else attempt_act
          (if requested = ''agent''
           then bind_act (ask (\<lambda>_. op_user pt i)) (\<lambda>known. if \<not> known then give general
                  else then_act (ask (\<lambda>_. op_agent_eligible pt channel i)) (give (requested, Some i)))
           else bind_act (ask (\<lambda>_. op_group pt i)) (\<lambda>known. if \<not> known then give general
                  else then_act (ask (\<lambda>_. op_group_eligible pt channel i)) (give (requested, Some i))))
          (\<lambda>_. give general))"

definition handle_bot_handoff :: "ops_ports \<Rightarrow> int \<Rightarrow> conversation_command \<Rightarrow> bot_reply_payload \<Rightarrow> unit ops" where
  "handle_bot_handoff pt now cmd p =
     bind_act find_conv (\<lambda>current.
     bind_act (resolve_handoff_target pt current (br_meta p)) (\<lambda>(target, target_id).
     bind_act (mark_bot_handoff now target target_id (hm_message (br_meta p)) (br_inbound p)) (\<lambda>marked.
       case marked of
         None \<Rightarrow> give ()
       | Some d \<Rightarrow>
           then_act
             (case target_id of
                None \<Rightarrow> give ()
              | Some i \<Rightarrow>
                  if target = ''agent'' then
                    bind_act (perform_assignment_update now (Put i) Keep False (case truthy_id (cd_agent d) of None \<Rightarrow> Clear | Some a \<Rightarrow> Put a)) (\<lambda>committed.
                      if committed then
                        then_act (sync_presence (Some \<lparr>sc_release = (if truthy_id (cd_agent d) \<noteq> Some i then truthy_id (cd_agent d) else None),
                            sc_assign = Some i\<rparr>))
                        (then_act (log_assignment (Put i) (truthy_id (cd_agent d)) None (cd_channel_type d) ''bot_handoff_targeted'' Keep)
                          (save_and_publish (cc_tenant cmd) (AssignedEvent (Some i) None None None None ''bot_handoff_targeted'') now))
                      else give ())
                  else
                    bind_act (perform_assignment_update now Keep (Put i) False Keep) (\<lambda>committed.
                      if committed then
                        then_act (log_assignment Keep (truthy_id (cd_agent d)) None (cd_channel_type d) ''bot_handoff_targeted'' (Put i))
                          (save_and_publish (cc_tenant cmd) (AssignedEvent None None (Some i) None None ''bot_handoff_targeted'') now)
                      else give ()))
             (save_and_publish (cc_tenant cmd) (BotHandoffEvent (br_inbound p) (Some target) target_id (hm_message (br_meta p))) now))))"

definition handle_bot_ended :: "int \<Rightarrow> conversation_command \<Rightarrow> bot_reply_payload \<Rightarrow> unit ops" where
  "handle_bot_ended now cmd p =
     bind_act find_conv (\<lambda>d. case d of
        None \<Rightarrow> give ()
      | Some d \<Rightarrow> save_and_publish (cc_tenant cmd) (BotEndedEvent (br_inbound p) (br_session p) (default_to ''flow_completed'' (br_end_reason p))) now)"

definition bot_key :: "string \<Rightarrow> nat \<Rightarrow> string" where
  "bot_key inbound i = ''bot:'' @ inbound @ '':'' @ nat_text i"

definition sendable :: "bot_message \<Rightarrow> bool" where
  "sendable m \<longleftrightarrow> bm_type m = ''text'' \<and> truthy_id (bm_text m) \<noteq> None
     \<or> bm_type m \<in> {''image'', ''video'', ''audio'', ''file''} \<and> truthy_id (bm_url m) \<noteq> None"

text \<open>The id of the last message that was sent.\<close>

fun send_bot_messages :: "ops_ports \<Rightarrow> string \<Rightarrow> int option \<Rightarrow> nat \<Rightarrow> bot_message list \<Rightarrow> string option \<Rightarrow> string option ops" where
  "send_bot_messages pt inbound after i [] sent = give sent"
| "send_bot_messages pt inbound after i (m # ms) sent =
     bind_act (if sendable m
               then attempt_act (then_act (write_act (effect (BotSent (bot_key inbound i))))
                      (bind_act (ask (\<lambda>_. op_send pt (bot_key inbound i) m after)) (\<lambda>x. give (Some x)))) (\<lambda>_. give sent)
               else give sent)
       (\<lambda>sent'. send_bot_messages pt inbound after (Suc i) ms sent')"

definition update_with_last_bot_message :: "int \<Rightarrow> bot_message \<Rightarrow> string \<Rightarrow> conversation_doc \<Rightarrow> conversation_doc" where
  "update_with_last_bot_message now m mid d =
     d\<lparr>cd_preview := Some \<lparr>pv_message = mid, pv_text = Some (message_preview (bm_text m) (bm_type m)), pv_type = bm_type m, pv_at = now,
          pv_sender = ''bot''\<rparr>, cd_unread := 0\<rparr>"

definition no_fields :: bot_fields where
  "no_fields = \<lparr>bf_enabled = Keep, bf_status = Keep, bf_session = Keep, bf_last_error = Keep, bf_provider = Keep\<rparr>"

definition handle_bot_reply :: "ops_ports \<Rightarrow> int \<Rightarrow> conversation_command \<Rightarrow> bot_reply_payload \<Rightarrow> unit ops" where
  "handle_bot_reply pt now cmd p =
     bind_act find_conv (\<lambda>current.
       if (case current of None \<Rightarrow> True | Some d \<Rightarrow> \<not> can_accept_bot_callback (cd_bot d) (br_session p)) then give ()
       else
         bind_act (if (br_after p = None \<or> br_after p = Some 0) \<and> br_inbound p \<noteq> []
                   then bind_act (ask (\<lambda>_. op_inbound_time pt (br_inbound p))) (\<lambda>t. give (or_else t (br_after p)))
                   else give (br_after p)) (\<lambda>after.
         then_act (case br_status p of
             BotActive \<Rightarrow> update_bot_state (no_fields\<lparr>bf_status := Put BotActive, bf_session := (case br_session p of Some x \<Rightarrow> Put x | None \<Rightarrow> Keep)\<rparr>)
           | BotEnded \<Rightarrow> update_bot_state (no_fields\<lparr>bf_status := Put BotEnded, bf_session := Clear\<rparr>)
           | BotHandoff \<Rightarrow> give ())
         (bind_act (send_bot_messages pt (br_inbound p) after 0 (br_messages p) None) (\<lambda>sent.
          then_act (case truthy_id sent of
              Some x \<Rightarrow> write_act (upd_conv (update_with_last_bot_message now (last (br_messages p)) x)) | None \<Rightarrow> give ())
          (if br_handoff p then handle_bot_handoff pt now cmd p
           else if br_status p = BotEnded then handle_bot_ended now cmd p else give ())))))"

section \<open>Status and bot state\<close>

definition handle_change_status :: "int \<Rightarrow> conversation_command \<Rightarrow> status_payload \<Rightarrow> unit ops" where
  "handle_change_status now cmd p =
     bind_act find_conv (\<lambda>current.
       case current of
         None \<Rightarrow> throw_act (''Conversation '' @ cc_conversation cmd @ '' not found'')
       | Some d \<Rightarrow>
           (case status_of_text (cd_status d) of
              None \<Rightarrow> throw_act (''Conversation '' @ cc_conversation cmd @ '' has unknown status '' @ cd_status d)
            | Some old \<Rightarrow>
                if \<not> can_transition_status old (sp_status p) then throw_act ''INVALID_CONVERSATION_STATUS_TRANSITION''
                else then_act
                  (if sp_status p = CsResolved \<or> sp_status p = CsClosed
                   then update_status_with_metadata (sp_status p) (sp_agent p) (sp_reason p) (sp_note p) (default_to ''agent'' (sp_source p)) now
                   else update_status (sp_status p))
                  (save_and_publish (cc_tenant cmd) (StatusChanged (sp_status p) old (sp_agent p) (default_to ''agent'' (sp_source p))) now)))"

definition bot_event_type :: "bot_fields \<Rightarrow> string" where
  "bot_event_type f =
     (if bf_enabled f = Put False then ''omni.bot.disabled'' else if bf_enabled f = Put True then ''omni.bot.enabled''
      else if truthy_id (patch_value (bf_last_error f)) \<noteq> None then ''omni.bot.error'' else ''omni.bot.state_updated'')"

definition handle_update_bot_state :: "int \<Rightarrow> conversation_command \<Rightarrow> bot_fields \<Rightarrow> string \<Rightarrow> string option \<Rightarrow> unit ops" where
  "handle_update_bot_state now cmd f reason agent =
     then_act (update_bot_state f) (save_and_publish (cc_tenant cmd) (BotStateEvent (bot_event_type f) reason agent) now)"

section \<open>The ledger and the processor\<close>

definition find_operation :: "string \<Rightarrow> ledger_entry option ops" where
  "find_operation i = remote (\<lambda>w. (List.find (\<lambda>l. le_operation l = i) (ow_ledger w), w))"

text \<open>The insertion of a claim; the operation id is unique.\<close>

definition create_operation :: "int \<Rightarrow> string \<Rightarrow> nat \<Rightarrow> bool ops" where
  "create_operation now i s = remote (\<lambda>w.
     if List.find (\<lambda>l. le_operation l = i) (ow_ledger w) \<noteq> None then (False, w)
     else (True, w\<lparr>ow_ledger := ow_ledger w @ [\<lparr>le_operation = i, le_sequence = s, le_completed = False, le_at = now\<rparr>]\<rparr>))"

definition claim_operation :: "int \<Rightarrow> conversation_command \<Rightarrow> nat option ops" where
  "claim_operation now cmd =
     bind_act (find_operation (cc_operation cmd)) (\<lambda>existing.
       case existing of
         Some l \<Rightarrow> give (if le_completed l then None else Some (le_sequence l))
       | None \<Rightarrow>
           bind_act (if needs_sequence (cc_payload cmd) then get_next_sequence else give 0) (\<lambda>s.
           bind_act (create_operation now (cc_operation cmd) s) (\<lambda>created.
             if created then give (Some s)
             else bind_act (find_operation (cc_operation cmd)) (\<lambda>winner.
               give (case winner of Some l \<Rightarrow> if le_completed l then None else Some (le_sequence l) | None \<Rightarrow> Some s)))))"

definition complete_operation :: "string \<Rightarrow> unit ops" where
  "complete_operation i = write_act (\<lambda>w. w\<lparr>ow_ledger := update_first (\<lambda>l. le_operation l = i) (\<lambda>l. l\<lparr>le_completed := True\<rparr>) (ow_ledger w)\<rparr>)"

definition dispatch_command :: "ops_ports \<Rightarrow> int \<Rightarrow> conversation_command \<Rightarrow> nat \<Rightarrow> unit ops" where
  "dispatch_command pt now cmd s =
     (case cc_payload cmd of
        CustomerMessage p dedup \<Rightarrow> handle_customer_message pt now cmd p dedup s
      | BotReply p \<Rightarrow> handle_bot_reply pt now cmd p
      | AssignAgent p \<Rightarrow> handle_assign_agent now cmd p
      | ChangeStatus p \<Rightarrow> handle_change_status now cmd p
      | UpdateBotState f reason agent \<Rightarrow> handle_update_bot_state now cmd f reason agent)"

definition process_command :: "ops_ports \<Rightarrow> int \<Rightarrow> conversation_command \<Rightarrow> unit ops" where
  "process_command pt now cmd =
     bind_act (claim_operation now cmd) (\<lambda>claim.
       case claim of
         None \<Rightarrow> give ()
       | Some s \<Rightarrow> then_act (dispatch_command pt now cmd s) (complete_operation (cc_operation cmd)))"

definition conv_ops_max_attempts :: nat where "conv_ops_max_attempts = 3"

text \<open>A queued job; \<open>lock\<close> is whether the lock was taken, \<open>made\<close> the number of attempts before.\<close>

definition handle_ops_job :: "ops_ports \<Rightarrow> int \<Rightarrow> nat \<Rightarrow> (string, unit) result \<Rightarrow> conversation_command \<Rightarrow> unit ops" where
  "handle_ops_job pt now made lock cmd =
     attempt_act (then_act (lift_result lock) (process_command pt now cmd)) (\<lambda>e.
       if conv_ops_max_attempts - 1 \<le> made then write_act (effect (DeadLettered (cc_operation cmd) e (Suc made))) else throw_act e)"

definition execute_inline :: "ops_ports \<Rightarrow> int \<Rightarrow> conversation_command \<Rightarrow> conversation_doc option ops" where
  "execute_inline pt now cmd = then_act (process_command pt now cmd) find_conv"

text \<open>The synchronous path of the controllers, and what is put into the queue for the others.\<close>

definition execute_command :: "ops_ports \<Rightarrow> int \<Rightarrow> string \<Rightarrow> string \<Rightarrow> string \<Rightarrow> command_payload \<Rightarrow> conversation_doc option ops" where
  "execute_command pt now op conv tenant p = execute_inline pt now (make_command op conv tenant p)"

record ops_job =
  oj_id :: string
  oj_name :: string
  oj_command :: conversation_command
  oj_attempts :: nat

definition command_type :: "command_payload \<Rightarrow> string" where
  "command_type p = (case p of CustomerMessage ip d \<Rightarrow> ''CUSTOMER_MESSAGE'' | BotReply br \<Rightarrow> ''BOT_REPLY'' | AssignAgent a \<Rightarrow> ''ASSIGN_AGENT''
     | ChangeStatus s \<Rightarrow> ''CHANGE_STATUS'' | UpdateBotState f r a \<Rightarrow> ''UPDATE_BOT_STATE'')"

definition queue_job :: "conversation_command \<Rightarrow> ops_job" where
  "queue_job cmd = \<lparr>oj_id = cc_operation cmd, oj_name = command_type (cc_payload cmd), oj_command = cmd, oj_attempts = conv_ops_max_attempts\<rparr>"

section \<open>The publisher\<close>

definition max_outbox_retries :: nat where "max_outbox_retries = 10"
definition claim_lease_ms :: int where "claim_lease_ms = 60000"
definition outbox_batch_size :: nat where "outbox_batch_size = 100"

definition claimable_row :: "int \<Rightarrow> outbox_row \<Rightarrow> bool" where
  "claimable_row now r \<longleftrightarrow> ob_status r = ObPending \<and> (case ob_claimed r of None \<Rightarrow> True | Some t \<Rightarrow> t \<le> now - claim_lease_ms)"

definition pending_rows :: "int \<Rightarrow> ops_world \<Rightarrow> outbox_row list" where
  "pending_rows now w = take outbox_batch_size (sort_by (\<lambda>a b. ob_created a \<le> ob_created b) (filter (claimable_row now) (ow_outbox w)))"

definition mark_permanently_failed :: "outbox_row \<Rightarrow> unit ops" where
  "mark_permanently_failed r = write_act (upd_row (ob_id r) (\<lambda>x. x\<lparr>ob_status := ObFailed, ob_error := Some ''Exceeded max retries (10)''\<rparr>))"

definition claim_row :: "int \<Rightarrow> outbox_row \<Rightarrow> bool ops" where
  "claim_row now r = remote (\<lambda>w.
     (let (found, rows) = find_and_update (\<lambda>x. ob_id x = ob_id r \<and> ob_status x = ObPending \<and> ob_claimed x = ob_claimed r)
            (\<lambda>x. x\<lparr>ob_claimed := Some now\<rparr>) (ow_outbox w)
      in (found \<noteq> None, w\<lparr>ow_outbox := rows\<rparr>)))"

definition publish_claimed :: "int \<Rightarrow> outbox_row \<Rightarrow> unit ops" where
  "publish_claimed now r =
     bind_act (claim_row now r) (\<lambda>mine.
       if \<not> mine then give ()
       else attempt_act
         (then_act (emit_async (ob_id r)) (write_act (upd_row (ob_id r) (\<lambda>x. x\<lparr>ob_status := ObPublished, ob_published := Some now\<rparr>))))
         (\<lambda>e. write_act (upd_row (ob_id r) (\<lambda>x. x\<lparr>ob_retries := Suc (ob_retries x), ob_error := Some e, ob_claimed := None\<rparr>))))"

definition drain_one :: "int \<Rightarrow> outbox_row \<Rightarrow> unit ops" where
  "drain_one now r = (if max_outbox_retries \<le> ob_retries r then mark_permanently_failed r else publish_claimed now r)"

definition drain_pending :: "int \<Rightarrow> unit ops" where
  "drain_pending now = bind_act (remote (\<lambda>w. (pending_rows now w, w))) (each_act (drain_one now))"

section \<open>Expiry\<close>

text \<open>
  The time-to-live indexes: published rows go seven days after they were published, ledger entries thirty days after
  their operation was claimed, completed or not.
\<close>

definition day_ms :: int where "day_ms = 86400000"

definition row_expired :: "int \<Rightarrow> outbox_row \<Rightarrow> bool" where
  "row_expired now r \<longleftrightarrow> ob_status r = ObPublished \<and> (case ob_published r of Some t \<Rightarrow> t + 7 * day_ms \<le> now | None \<Rightarrow> False)"

definition entry_expired :: "int \<Rightarrow> ledger_entry \<Rightarrow> bool" where
  "entry_expired now l \<longleftrightarrow> le_at l + 30 * day_ms \<le> now"

definition purge_expired :: "int \<Rightarrow> ops_world \<Rightarrow> ops_world" where
  "purge_expired now w =
     w\<lparr>ow_outbox := filter (\<lambda>r. \<not> row_expired now r) (ow_outbox w),
       ow_purged := ow_purged w @ filter (row_expired now) (ow_outbox w),
       ow_ledger := filter (\<lambda>l. \<not> entry_expired now l) (ow_ledger w)\<rparr>"

end
