(* ===== verification/Conversation_Ops_Safety.thy ===== *)
theory Conversation_Ops_Safety
  imports Conversation_Ops
begin

text \<open>
  What holds of a conversation after any history of commands, retries and publisher runs, whatever fate its remote calls
  meet: the order and count of messages, the final status, the fencing of the bot, the compare-and-set of assignments,
  and which events are never lost. And the message whose retry is mistaken for a duplicate.
\<close>

section \<open>Histories\<close>

text \<open>
  Commands, runs of the publisher, and what happens to a conversation outside both: it is reopened, it gets the bot it
  lacks, and what expired is purged.
\<close>

datatype ops_run = Run int conversation_command | Drain int | Reopen | EnsureBot "string patch" | Purge int

definition run_one :: "ops_ports \<Rightarrow> ops_run \<times> fate list \<Rightarrow> ops_world \<Rightarrow> ops_world" where
  "run_one pt rf w = snd (snd (case fst rf of
      Run now cmd \<Rightarrow> process_command pt now cmd (snd rf, w) | Drain now \<Rightarrow> drain_pending now (snd rf, w)
    | Reopen \<Rightarrow> then_act reopen_conversation (give ()) (snd rf, w) | EnsureBot x \<Rightarrow> ensure_bot_state x (snd rf, w)
    | Purge now \<Rightarrow> local_act (purge_expired now) (snd rf, w)))"

definition run_history :: "ops_ports \<Rightarrow> (ops_run \<times> fate list) list \<Rightarrow> ops_world \<Rightarrow> ops_world" where
  "run_history pt h w = fold (run_one pt) h w"

definition run_command :: "ops_run \<Rightarrow> conversation_command option" where
  "run_command r = (case r of Run now cmd \<Rightarrow> Some cmd | _ \<Rightarrow> None)"

lemma history_keeps:
  assumes "\<And>now cmd. Run now cmd \<in> fst ` set h \<Longrightarrow> keeps I (process_command pt now cmd)" "\<And>now. keeps I (drain_pending now)"
    "Reopen \<in> fst ` set h \<Longrightarrow> keeps I reopen_conversation" "\<And>x. keeps I (ensure_bot_state x)"
    "\<And>now w. I w \<Longrightarrow> I (purge_expired now w)" "I w"
  shows "I (run_history pt h w)"
  using assms(1,3,6) unfolding run_history_def
proof (induction h arbitrary: w)
  case (Cons rf h)
  obtain r fs where rf: "rf = (r, fs)" by (rule prod.exhaust)
  have "I (run_one pt rf w)"
  proof (cases r)
    case (Run now cmd)
    then have "keeps I (process_command pt now cmd)" using Cons.prems(1) rf by simp
    with Run rf Cons.prems(3) show ?thesis by (simp add: run_one_def keeps_end)
  next
    case Reopen
    then have "keeps I (then_act reopen_conversation (give ()))" using Cons.prems(2) rf by (intro triples) simp
    with Reopen rf Cons.prems(3) show ?thesis by (simp add: run_one_def keeps_end del: runs_well)
  qed (use assms(2,4,5) Cons.prems(3) rf in \<open>simp_all add: run_one_def keeps_end local_act_def\<close>)
  then show ?case using Cons.IH Cons.prems(1,2) by simp
qed simp

section \<open>What most calls leave alone\<close>

text \<open>Status, counters, messages and ledger.\<close>

definition core :: "ops_world \<Rightarrow> (string \<times> nat \<times> nat \<times> nat) option \<times> inbound_message list \<times> ledger_entry list" where
  "core w = (map_option (\<lambda>d. (cd_status d, cd_next_sequence d, cd_last_sequence d, cd_message_count d)) (ow_conv w), ow_messages w, ow_ledger w)"

text \<open>
  Predicates that the calls of a kind leave alone: those of publishing and of ownership, of the bot, of the status and of
  a message. Whether an operation keeps such a predicate is shown once, for all of them.
\<close>

text \<open>A row keeps its id and its event, and is published once the listeners were given it.\<close>

definition row_follows :: "nat list \<Rightarrow> outbox_row \<Rightarrow> outbox_row \<Rightarrow> bool" where
  "row_follows heard r r' \<longleftrightarrow> ob_id r' = ob_id r \<and> ob_event r' = ob_event r
     \<and> (ob_status r' = ObPublished \<longrightarrow> ob_status r = ObPublished \<or> ob_id r \<in> set heard)"

lemma row_follows_refl [simp]: "row_follows heard r r"
  by (simp add: row_follows_def)

lemma update_follows:
  assumes "\<And>x. P x \<Longrightarrow> row_follows heard x (f x)"
  shows "list_all2 (row_follows heard) rows (snd (find_and_update P f rows))"
    "list_all2 (row_follows heard) rows (update_first P f rows)"
proof -
  show "list_all2 (row_follows heard) rows (snd (find_and_update P f rows))"
    by (induction rows) (auto simp: assms list.rel_refl split: prod.split)
  then show "list_all2 (row_follows heard) rows (update_first P f rows)" by (simp add: update_first_def)
qed

definition calm :: "(ops_world \<Rightarrow> bool) \<Rightarrow> bool" where
  "calm I \<longleftrightarrow> (\<forall>w. I w \<longrightarrow>
     (\<forall>e. (\<forall>k. e \<noteq> BotSent k) \<longrightarrow> I (effect e w))
     \<and> (\<forall>r n. ob_status r = ObPending \<longrightarrow> I (w\<lparr>ow_outbox := ow_outbox w @ [r], ow_next_row := n\<rparr>))
     \<and> (\<forall>rs. list_all2 (row_follows (ow_heard w)) (ow_outbox w) rs \<longrightarrow> I (w\<lparr>ow_outbox := rs\<rparr>))
     \<and> (\<forall>i. I (w\<lparr>ow_heard := ow_heard w @ [i]\<rparr>))
     \<and> (\<forall>f. (\<forall>d. cd_status (f d) = cd_status d \<and> cd_next_sequence (f d) = cd_next_sequence d \<and> cd_last_sequence (f d) = cd_last_sequence d
           \<and> cd_message_count (f d) = cd_message_count d \<and> cd_bot (f d) = cd_bot d) \<longrightarrow> I (upd_conv f w)))"

definition bot_calm :: "(ops_world \<Rightarrow> bool) \<Rightarrow> bool" where
  "bot_calm I \<longleftrightarrow> calm I \<and> (\<forall>w. I w \<longrightarrow> (\<forall>k. I (effect (BotSent k) w)) \<and> (\<forall>f. I (upd_conv (\<lambda>d. d\<lparr>cd_bot := f d\<rparr>) w)))"

definition status_calm :: "(ops_world \<Rightarrow> bool) \<Rightarrow> bool" where
  "status_calm I \<longleftrightarrow> calm I \<and> (\<forall>w. I w \<longrightarrow> (\<forall>s. I (upd_conv (\<lambda>d. d\<lparr>cd_status := s\<rparr>) w)))"

definition message_calm :: "(ops_world \<Rightarrow> bool) \<Rightarrow> bool" where
  "message_calm I \<longleftrightarrow> calm I \<and> (\<forall>w. I w \<longrightarrow> (\<forall>ms n. I (w\<lparr>ow_messages := ms, ow_next_message := n\<rparr>))
     \<and> (\<forall>f. (\<forall>d. cd_status (f d) = cd_status d \<and> cd_bot (f d) = cd_bot d) \<longrightarrow> I (upd_conv f w)))"

lemma calm_effect: "calm I \<Longrightarrow> I w \<Longrightarrow> (\<And>k. e \<noteq> BotSent k) \<Longrightarrow> I (effect e w)"
  by (simp add: calm_def)

lemma calm_rows: "calm I \<Longrightarrow> I w \<Longrightarrow> list_all2 (row_follows (ow_heard w)) (ow_outbox w) rs \<Longrightarrow> I (w\<lparr>ow_outbox := rs\<rparr>)"
  by (simp add: calm_def)

lemma calm_row: "calm I \<Longrightarrow> I w \<Longrightarrow> (\<And>x. ob_id x = i \<Longrightarrow> row_follows (ow_heard w) x (f x)) \<Longrightarrow> I (upd_row i f w)"
  unfolding upd_row_def by (erule calm_rows) (simp_all add: update_follows)

lemma calm_heard: "calm I \<Longrightarrow> I w \<Longrightarrow> I (w\<lparr>ow_heard := ow_heard w @ [i]\<rparr>)"
  by (simp add: calm_def)

lemma calm_conv:
  "calm I \<Longrightarrow> I w \<Longrightarrow> (\<And>d. cd_status (f d) = cd_status d \<and> cd_next_sequence (f d) = cd_next_sequence d \<and> cd_last_sequence (f d) = cd_last_sequence d
     \<and> cd_message_count (f d) = cd_message_count d \<and> cd_bot (f d) = cd_bot d) \<Longrightarrow> I (upd_conv f w)"
  by (simp add: calm_def)

lemma ownership_keeps [simp]:
  "cd_status (ownership_timing a now d) = cd_status d" "cd_next_sequence (ownership_timing a now d) = cd_next_sequence d"
  "cd_last_sequence (ownership_timing a now d) = cd_last_sequence d" "cd_message_count (ownership_timing a now d) = cd_message_count d"
  "cd_bot (ownership_timing a now d) = cd_bot d"
  by (simp_all add: ownership_timing_def split: option.split)

lemma set_group_keeps [simp]:
  "cd_status (set_group g d) = cd_status d" "cd_next_sequence (set_group g d) = cd_next_sequence d"
  "cd_last_sequence (set_group g d) = cd_last_sequence d" "cd_message_count (set_group g d) = cd_message_count d"
  "cd_bot (set_group g d) = cd_bot d"
  by (simp_all add: set_group_def)

named_theorems neutral

lemma keeps_find [neutral]: "keeps P find_conv"
  unfolding find_conv_def by (rule keeps_remote) simp

lemma keeps_update_if:
  assumes "\<And>w. I w \<Longrightarrow> I (upd_conv f w)"
  shows "keeps I (update_if P f)"
proof -
  have "I (snd (case ow_conv w of None \<Rightarrow> (None, w) | Some d \<Rightarrow> if P d then (Some (f d), w\<lparr>ow_conv := Some (f d)\<rparr>) else (None, w)))" if "I w" for w
    using that assms[OF that] by (cases "ow_conv w") (auto simp: upd_conv_def)
  then show ?thesis unfolding update_if_def by (rule keeps_remote)
qed

lemma calm_tell:
  assumes "calm I"
  shows "triple I (emit_async i) (\<lambda>_ w. I w \<and> i \<in> set (ow_heard w)) I"
    "triple (\<lambda>w. I w \<and> i \<in> set (ow_heard w)) (write_act (upd_row i (\<lambda>r. r\<lparr>ob_status := ObPublished, ob_published := t\<rparr>))) (\<lambda>_. I) I"
  unfolding emit_async_def
  by (rule triple_write; use calm_heard[OF assms] in simp) (rule triple_write; auto intro!: calm_row[OF assms] simp: row_follows_def)

lemma calm_told: "calm I \<Longrightarrow> keeps I (then_act (emit_async i) (write_act (upd_row i (\<lambda>r. r\<lparr>ob_status := ObPublished, ob_published := t\<rparr>))))"
  unfolding keeps_def by (rule triple_then[OF calm_tell])

lemma calm_publish [neutral]: "calm I \<Longrightarrow> keeps I (save_and_publish t e now)"
  unfolding save_and_publish_def create_row_def
  by (intro triples calm_told) (simp_all add: calm_def)

lemma calm_perform [neutral]:
  assumes "calm I"
  shows "keeps I (perform_assignment_update now a g u p)"
proof -
  have "keeps I (assign_doc_if_unassigned x now)" "keeps I (reassign_doc_if_expected y g z now)"
    "keeps I (update_assignment y now)" "keeps I (update_group_assignment y)" for x y z
    unfolding assign_doc_if_unassigned_def reassign_doc_if_expected_def update_assignment_def update_group_assignment_def
    by (rule keeps_update_if keeps_write; simp add: calm_conv[OF assms])+
  then show ?thesis
    unfolding perform_assignment_update_def
    by (cases u; cases "truthy_id (patch_value a)") (auto intro!: triples)
qed

lemma calm_local [neutral]:
  "calm I \<Longrightarrow> (\<And>k. e \<noteq> BotSent k) \<Longrightarrow> keeps I (local_act (effect e))" "calm I \<Longrightarrow> (\<And>k. e \<noteq> BotSent k) \<Longrightarrow> keeps I (write_act (effect e))"
  by (rule keeps_local keeps_write; simp add: calm_effect)+

lemma calm_sync [neutral]: "calm I \<Longrightarrow> keeps I (sync_presence sc)"
  unfolding sync_presence_def by (intro triples neutral) simp_all

lemma calm_log [neutral]: "calm I \<Longrightarrow> keeps I (log_assignment a p b c r g)"
  unfolding log_assignment_def by (rule calm_local) simp_all

lemma calm_assign [neutral]: "calm I \<Longrightarrow> keeps I (handle_assign_agent now cmd p)"
  unfolding handle_assign_agent_def by (intro triples neutral)

lemma keeps_resolve [neutral]: "keeps I (resolve_handoff_target pt c m)"
  unfolding resolve_handoff_target_def Let_def by (intro triples)

lemma keeps_presigned [neutral]: "keeps I (presigned pt p)"
  unfolding presigned_def by (cases "truthy_id (ip_media_url p)"; cases "truthy_id (ip_storage_key p)") (auto intro!: triples)

lemma calm_after [neutral]: "calm I \<Longrightarrow> keeps I (after_message pt mid)"
  unfolding after_message_def has_pending_offer_def by (intro triples neutral) simp_all

lemma calm_drain [neutral]:
  assumes "calm I"
  shows "keeps I (drain_pending now)"
proof -
  have claim: "keeps I (claim_row now r)" for r
    unfolding claim_row_def
    by (rule keeps_remote) (simp add: case_prod_beta calm_rows[OF assms] update_follows row_follows_def)
  have "keeps I (drain_one now r)" for r
    unfolding drain_one_def mark_permanently_failed_def publish_claimed_def
    by (intro triples claim calm_told assms) (simp_all add: calm_row[OF assms] row_follows_def)
  then show ?thesis unfolding drain_pending_def by (intro triples) simp
qed

lemma bot_update [neutral]: "bot_calm I \<Longrightarrow> keeps I (update_bot_state f)"
  unfolding update_bot_state_def by (rule keeps_write) (simp add: bot_calm_def)

lemma calm_of: "bot_calm I \<Longrightarrow> calm I" "status_calm I \<Longrightarrow> calm I" "message_calm I \<Longrightarrow> calm I"
  by (simp_all add: bot_calm_def status_calm_def message_calm_def)

lemma bot_state_keeps [neutral]: "bot_calm I \<Longrightarrow> keeps I (handle_update_bot_state now cmd f r a)"
  unfolding handle_update_bot_state_def by (intro triples bot_update calm_publish calm_of(1))

lemma bot_handoff_keeps [neutral]:
  assumes "bot_calm I"
  shows "keeps I (handle_bot_handoff pt now cmd p)"
proof -
  have "keeps I (mark_bot_handoff now t i m b)" for t i m b
    unfolding mark_bot_handoff_def by (rule keeps_update_if) (use assms in \<open>simp add: bot_calm_def\<close>)
  then show ?thesis unfolding handle_bot_handoff_def by (intro triples neutral calm_of(1) assms)
qed

lemma calm_ended [neutral]: "calm I \<Longrightarrow> keeps I (handle_bot_ended now cmd p)"
  unfolding handle_bot_ended_def by (intro triples neutral)

lemma bot_send [neutral]: "bot_calm I \<Longrightarrow> keeps I (send_bot_messages pt b a i ms sent)"
  by (induction ms arbitrary: i sent) (auto intro!: triples simp: bot_calm_def)

lemma keeps_bot_status [triples]:
  "keeps I a \<Longrightarrow> keeps I b \<Longrightarrow> keeps I c \<Longrightarrow> keeps I (case s of BotActive \<Rightarrow> a | BotHandoff \<Rightarrow> b | BotEnded \<Rightarrow> c)"
  by (cases s) simp_all

lemma bot_reply_keeps [neutral]:
  assumes "bot_calm I"
  shows "keeps I (handle_bot_reply pt now cmd p)"
proof -
  have "keeps I (write_act (upd_conv (update_with_last_bot_message now m x)))" for m x
    by (rule keeps_write, rule calm_conv[OF calm_of(1)[OF assms]]) (simp_all add: update_with_last_bot_message_def)
  note facts = this bot_update[OF assms] bot_send[OF assms] bot_handoff_keeps[OF assms] calm_ended[OF calm_of(1)[OF assms]] keeps_find
  show ?thesis unfolding handle_bot_reply_def
    by (intro keeps_bind_act keeps_then keeps_if keeps_option keeps_bot_status keeps_simple facts)
qed

lemma status_keeps [neutral]:
  assumes "status_calm I"
  shows "keeps I (handle_change_status now cmd p)"
proof -
  have "keeps I (update_status s)" for s
    unfolding update_status_def by (rule keeps_write) (use assms in \<open>simp add: status_calm_def\<close>)
  moreover have "keeps I (update_status_with_metadata s a r n y now)" for s a r n y
  proof -
    have "I (upd_conv (\<lambda>d. d\<lparr>cd_status := status_text s, cd_resolved := Some (a, now, y),
        cd_resolve_reason := or_else (truthy_id r) (cd_resolve_reason d), cd_resolve_note := or_else (truthy_id n) (cd_resolve_note d)\<rparr>) w)" if "I w" for w
    proof -
      have "I (upd_conv (\<lambda>d. d\<lparr>cd_status := status_text s\<rparr>) w)" using assms that by (simp add: status_calm_def)
      from calm_conv[OF calm_of(2)[OF assms] this, of "\<lambda>d. d\<lparr>cd_resolved := Some (a, now, y),
        cd_resolve_reason := or_else (truthy_id r) (cd_resolve_reason d), cd_resolve_note := or_else (truthy_id n) (cd_resolve_note d)\<rparr>"]
      show ?thesis by (cases "ow_conv w") (simp_all add: upd_conv_def)
    qed
    then show ?thesis unfolding update_status_with_metadata_def by (rule keeps_write)
  qed
  ultimately show ?thesis
    unfolding handle_change_status_def by (intro triples keeps_find calm_publish calm_of(2) assms)
qed

lemma message_keeps [neutral]:
  assumes "message_calm I"
  shows "keeps I (handle_customer_message pt now cmd p d s)"
proof -
  have up: "keeps I (upsert_inbound x d s y)" for x y
    unfolding upsert_inbound_def by (rule keeps_remote) (use assms in \<open>auto simp: message_calm_def split: option.split\<close>)
  have "I (upd_conv (\<lambda>d. apply_incoming_message s u (pv\<lparr>pv_text := g d\<rparr>) c d) w)" if "I w" for u pv g c w
    using assms that by (simp add: message_calm_def apply_incoming_message_def Let_def)
  then have fold: "keeps I (fold_message pt s u x pv c)" for u x pv c
    unfolding fold_message_def by (cases "expression_text pt x") (auto intro!: triples)
  show ?thesis
    unfolding handle_customer_message_def Let_def
    by (intro triples up fold keeps_presigned calm_publish calm_local calm_after calm_of(3) assms) simp
qed

lemma claim_conv:
  assumes "\<And>w. I w \<Longrightarrow> I (upd_conv (\<lambda>d. d\<lparr>cd_next_sequence := Suc (cd_next_sequence d)\<rparr>) w)"
    "\<And>w l. I w \<Longrightarrow> \<not> le_completed l \<Longrightarrow> I (w\<lparr>ow_ledger := ow_ledger w @ [l]\<rparr>)"
  shows "keeps I (claim_operation now cmd)"
proof -
  have "I (snd (case ow_conv w of None \<Rightarrow> (1, w) | Some d \<Rightarrow> (Suc (cd_next_sequence d), w\<lparr>ow_conv := Some (d\<lparr>cd_next_sequence := Suc (cd_next_sequence d)\<rparr>)\<rparr>)))"
    if "I w" for w using that assms(1)[OF that] by (cases "ow_conv w") (auto simp: upd_conv_def)
  then have "keeps I get_next_sequence" unfolding get_next_sequence_def by (rule keeps_remote)
  moreover have "keeps I (create_operation now i s)" for i s
    unfolding create_operation_def by (rule keeps_remote) (use assms(2) in simp)
  moreover have "keeps I (find_operation i)" for i unfolding find_operation_def by (rule keeps_remote) simp
  ultimately show ?thesis unfolding claim_operation_def by (intro triples)
qed

lemma keeps_process:
  assumes "keeps I (claim_operation now cmd)" "\<And>s. keeps I (dispatch_command pt now cmd s)" "keeps I (complete_operation (cc_operation cmd))"
  shows "keeps I (process_command pt now cmd)"
  unfolding process_command_def by (intro triples assms)

lemma keeps_dispatch:
  assumes "\<And>p d. cc_payload cmd = CustomerMessage p d \<Longrightarrow> keeps I (handle_customer_message pt now cmd p d s)"
    "\<And>p. cc_payload cmd = BotReply p \<Longrightarrow> keeps I (handle_bot_reply pt now cmd p)"
    "\<And>p. cc_payload cmd = AssignAgent p \<Longrightarrow> keeps I (handle_assign_agent now cmd p)"
    "\<And>p. cc_payload cmd = ChangeStatus p \<Longrightarrow> keeps I (handle_change_status now cmd p)"
    "\<And>f r a. cc_payload cmd = UpdateBotState f r a \<Longrightarrow> keeps I (handle_update_bot_state now cmd f r a)"
  shows "keeps I (dispatch_command pt now cmd s)"
  using assms by (cases "cc_payload cmd") (simp_all add: dispatch_command_def)

text \<open>The changes outside the commands.\<close>

lemma reopen_keeps: "(\<And>w. I w \<Longrightarrow> I (upd_conv reopened w)) \<Longrightarrow> keeps I reopen_conversation"
  unfolding reopen_conversation_def by (rule keeps_update_if)

lemma ensure_bot_keeps [neutral]: "bot_calm I \<Longrightarrow> keeps I (ensure_bot_state x)"
  unfolding ensure_bot_state_def by (intro triples keeps_find bot_update)

lemma core_calm: "bot_calm (\<lambda>w. R (core w))"
  by (simp add: bot_calm_def calm_def core_def upd_conv_def effect_def option.map_comp comp_def)

section \<open>Status\<close>

definition is_closed :: "ops_world \<Rightarrow> bool" where
  "is_closed w \<longleftrightarrow> (case ow_conv w of Some d \<Rightarrow> cd_status d = ''closed'' | None \<Rightarrow> False)"

lemma closed_calm: "bot_calm is_closed" "message_calm is_closed"
  by (auto simp: bot_calm_def message_calm_def calm_def is_closed_def upd_conv_def effect_def split: option.splits)

lemma closed_change: "keeps is_closed (handle_change_status now cmd p)"
proof -
  have find: "triple is_closed find_conv (\<lambda>c w. is_closed w \<and> ow_conv w = c) is_closed"
    unfolding find_conv_def by (rule triple_remote) simp_all
  have save: "keeps is_closed (save_and_publish t e now)" for t e by (rule calm_publish) (rule calm_of(1)[OF closed_calm(1)])
  have "triple (\<lambda>w. is_closed w \<and> ow_conv w = c)
      (case c of None \<Rightarrow> throw_act (''Conversation '' @ cc_conversation cmd @ '' not found'')
       | Some d \<Rightarrow> (case status_of_text (cd_status d) of
            None \<Rightarrow> throw_act (''Conversation '' @ cc_conversation cmd @ '' has unknown status '' @ cd_status d)
          | Some old \<Rightarrow>
            if \<not> can_transition_status old (sp_status p) then throw_act ''INVALID_CONVERSATION_STATUS_TRANSITION''
            else then_act
              (if sp_status p = CsResolved \<or> sp_status p = CsClosed
               then update_status_with_metadata (sp_status p) (sp_agent p) (sp_reason p) (sp_note p) (default_to ''agent'' (sp_source p)) now
               else update_status (sp_status p))
              (save_and_publish (cc_tenant cmd) (StatusChanged (sp_status p) old (sp_agent p) (default_to ''agent'' (sp_source p))) now)))
      (\<lambda>_. is_closed) is_closed" for c
  proof (cases "\<exists>d. c = Some d \<and> cd_status d = ''closed'' \<and> sp_status p = CsClosed")
    case True
    then obtain d where d: "c = Some d" "cd_status d = ''closed''" "sp_status p = CsClosed" by blast
    have "keeps is_closed (update_status_with_metadata CsClosed a r n x now)" for a r n x
      unfolding update_status_with_metadata_def
      by (rule keeps_write) (simp add: is_closed_def upd_conv_def status_text_def split: option.splits)
    then have "triple is_closed (then_act (update_status_with_metadata CsClosed (sp_agent p) (sp_reason p) (sp_note p) (default_to ''agent'' (sp_source p)) now)
        (save_and_publish (cc_tenant cmd) e now)) (\<lambda>_. is_closed) is_closed" for e
      using save unfolding keeps_def by (blast intro: triple_then)
    then show ?thesis
      by (simp add: d status_of_text_def can_transition_status_def) (rule triple_weaken, assumption, simp_all)
  next
    case False
    then show ?thesis
      by (cases c) (auto simp: triple_def throw_act_def is_closed_def status_of_text_def can_transition_status_def allowed_transitions_def
          split: option.splits)
  qed
  with find show ?thesis
    unfolding keeps_def handle_change_status_def by (rule triple_bind)
qed

lemma closed_process: "keeps is_closed (process_command pt now cmd)"
proof (rule keeps_process)
  show "keeps is_closed (claim_operation now cmd)"
    by (rule claim_conv) (auto simp: is_closed_def upd_conv_def split: option.splits)
  show "keeps is_closed (complete_operation (cc_operation cmd))"
    unfolding complete_operation_def by (rule keeps_write) (simp add: is_closed_def)
  show "keeps is_closed (dispatch_command pt now cmd s)" for s
    by (rule keeps_dispatch) (rule message_keeps closed_change bot_reply_keeps calm_assign bot_state_keeps calm_of(1) closed_calm)+
qed

lemma closed_reopen: "keeps is_closed reopen_conversation"
proof -
  have "is_closed (snd (case ow_conv w of None \<Rightarrow> (None, w) | Some d \<Rightarrow> if cd_status d = ''resolved'' then (Some (reopened d), w\<lparr>ow_conv := Some (reopened d)\<rparr>) else (None, w)))"
    if "is_closed w" for w using that by (auto simp: is_closed_def split: option.splits)
  then show ?thesis unfolding reopen_conversation_def update_if_def by (rule keeps_remote)
qed

text \<open>C22: A closed conversation stays closed, whatever commands, retries, publisher runs, reopenings and expiries follow
  and whatever fails in them.\<close>
theorem closed_is_final:
  "(case ow_conv w of Some d \<Rightarrow> cd_status d = ''closed'' | None \<Rightarrow> False) \<Longrightarrow>
   case ow_conv (run_history pt h w) of Some d \<Rightarrow> cd_status d = ''closed'' | None \<Rightarrow> False"
  using history_keeps[of h is_closed pt w] closed_process calm_drain[OF calm_of(1)[OF closed_calm(1)]] closed_reopen
    ensure_bot_keeps[OF closed_calm(1)] by (simp add: is_closed_def purge_expired_def)

end
