(* ===== verification/Conversation_Order.thy ===== *)
theory Conversation_Order
  imports Conversation_Ops_Safety
begin

text \<open>
  The order of the messages of a conversation, over histories with retries: the ledger gives each operation
  one ordinal, and an ordinal belongs to one message. The invariant is carried through the claim, the insertion and the
  summary by triples; every other call leaves its state alone.
\<close>

section \<open>The invariant\<close>

definition ledger_ok :: "(string \<Rightarrow> conversation_command) \<Rightarrow> ledger_entry list \<Rightarrow> nat \<Rightarrow> bool" where
  "ledger_ok of_op ls next \<longleftrightarrow> distinct (map le_operation ls)
     \<and> (\<forall>l \<in> set ls. le_sequence l \<le> next \<and> (needs_sequence (cc_payload (of_op (le_operation l))) \<longrightarrow> 0 < le_sequence l))
     \<and> (\<forall>l \<in> set ls. \<forall>k \<in> set ls. le_sequence l = le_sequence k \<longrightarrow> 0 < le_sequence l \<longrightarrow> l = k)"

definition comes_from :: "(string \<Rightarrow> conversation_command) \<Rightarrow> inbound_message \<Rightarrow> string \<Rightarrow> bool" where
  "comes_from of_op m i \<longleftrightarrow> (\<exists>p. cc_payload (of_op i) = CustomerMessage p (im_external m) \<and> ip_tenant p = im_tenant m)"

text \<open>The entry of a message may be completed meanwhile, or expire; no other operation gets its ordinal.\<close>

definition messages_ok :: "(string \<Rightarrow> conversation_command) \<Rightarrow> ledger_entry list \<Rightarrow> nat \<Rightarrow> inbound_message list \<Rightarrow> bool" where
  "messages_ok of_op ls next ms \<longleftrightarrow> distinct (map (\<lambda>m. (im_tenant m, im_external m)) ms) \<and> distinct (map im_sequence ms)
     \<and> (\<forall>m \<in> set ms. 0 < im_sequence m \<and> im_sequence m \<le> next
          \<and> (\<forall>l \<in> set ls. le_sequence l = im_sequence m \<longrightarrow> comes_from of_op m (le_operation l)))"

lemma messages_okD:
  "messages_ok of_op ls next ms \<Longrightarrow> m \<in> set ms \<Longrightarrow> l \<in> set ls \<Longrightarrow> le_sequence l = im_sequence m \<Longrightarrow> comes_from of_op m (le_operation l)"
  by (simp add: messages_ok_def)

definition order_core :: "(string \<Rightarrow> conversation_command)
    \<Rightarrow> (string \<times> nat \<times> nat \<times> nat) option \<times> inbound_message list \<times> ledger_entry list \<Rightarrow> bool" where
  "order_core of_op c \<longleftrightarrow> (case c of
      (Some (s, next, newest, count), ms, ls) \<Rightarrow>
         ledger_ok of_op ls next \<and> messages_ok of_op ls next ms \<and> newest \<le> next \<and> (newest = 0 \<or> newest \<in> im_sequence ` set ms)
    | _ \<Rightarrow> False)"

definition order_ok :: "(string \<Rightarrow> conversation_command) \<Rightarrow> ops_world \<Rightarrow> bool" where
  "order_ok of_op w \<longleftrightarrow> order_core of_op (core w)"

lemma order_calm: "bot_calm (order_ok of_op)" "status_calm (order_ok of_op)" "calm (order_ok of_op)"
proof -
  show "bot_calm (order_ok of_op)" unfolding order_ok_def[abs_def] by (rule core_calm)
  then show "calm (order_ok of_op)" by (rule calm_of(1))
  moreover have "order_ok of_op w \<Longrightarrow> order_ok of_op (upd_conv (\<lambda>d. d\<lparr>cd_status := s\<rparr>) w)" for w s
    by (cases "ow_conv w") (simp_all add: order_ok_def order_core_def core_def upd_conv_def)
  ultimately show "status_calm (order_ok of_op)" by (simp add: status_calm_def)
qed

lemma order_expiry: "order_ok of_op w \<Longrightarrow> order_ok of_op (purge_expired now w)"
proof -
  assume I: "order_ok of_op w"
  have "distinct (map le_operation (filter P ls))" if "distinct (map le_operation ls)" for P and ls :: "ledger_entry list"
    using that by (induction ls) auto
  with I show ?thesis
    by (cases "ow_conv w") (auto simp: order_ok_def order_core_def core_def purge_expired_def ledger_ok_def messages_ok_def)
qed

lemma order_reopen: "keeps (order_ok of_op) reopen_conversation"
  by (rule reopen_keeps) (auto simp: order_ok_def order_core_def core_def upd_conv_def reopened_def split: option.splits)

section \<open>The claim\<close>

definition claimed :: "(string \<Rightarrow> conversation_command) \<Rightarrow> string \<Rightarrow> nat \<Rightarrow> ops_world \<Rightarrow> bool" where
  "claimed of_op i s w \<longleftrightarrow> order_ok of_op w \<and> (\<exists>l \<in> set (ow_ledger w). le_operation l = i \<and> le_sequence l = s)"

lemma ledger_extend:
  assumes "ledger_ok of_op ls next" "s \<le> next" "0 < s \<Longrightarrow> \<forall>l \<in> set ls. le_sequence l < s" "needs_sequence (cc_payload (of_op i)) \<Longrightarrow> 0 < s"
    "i \<notin> le_operation ` set ls"
  shows "ledger_ok of_op (ls @ [\<lparr>le_operation = i, le_sequence = s, le_completed = b, le_at = t\<rparr>]) next"
  using assms unfolding ledger_ok_def by (auto dest: nat_less_le[THEN iffD1])

lemma messages_extend:
  "messages_ok of_op ls next ms \<Longrightarrow> (\<And>m. m \<in> set ms \<Longrightarrow> le_sequence k \<noteq> im_sequence m) \<Longrightarrow> messages_ok of_op (ls @ [k]) next ms"
  by (auto simp: messages_ok_def)

definition next_free :: "(string \<Rightarrow> conversation_command) \<Rightarrow> string \<Rightarrow> nat \<Rightarrow> ops_world \<Rightarrow> bool" where
  "next_free of_op i s w \<longleftrightarrow> order_ok of_op w \<and> (\<exists>d. ow_conv w = Some d \<and> s \<le> cd_next_sequence d)
     \<and> (0 < s \<longrightarrow> (\<forall>l \<in> set (ow_ledger w). le_sequence l < s) \<and> (\<forall>m \<in> set (ow_messages w). im_sequence m < s)) \<and> (needs_sequence (cc_payload (of_op i)) \<longrightarrow> 0 < s)"

lemma order_has_conv: "order_ok of_op w \<Longrightarrow> \<exists>d. ow_conv w = Some d"
  by (cases "ow_conv w") (auto simp: order_ok_def order_core_def core_def)

lemma claim_order:
  assumes "of_op (cc_operation cmd) = cmd"
  shows "triple (order_ok of_op) (claim_operation now cmd)
    (\<lambda>r w. order_ok of_op w \<and> (case r of None \<Rightarrow> True | Some s \<Rightarrow> claimed of_op (cc_operation cmd) s w)) (order_ok of_op)"
proof -
  let ?i = "cc_operation cmd" and ?I = "order_ok of_op"
  have find: "triple P (find_operation ?i) (\<lambda>r w. P w \<and> r = List.find (\<lambda>l. le_operation l = ?i) (ow_ledger w)) P" for P
    unfolding find_operation_def by (rule triple_remote) simp_all
  have found: "claimed of_op ?i (le_sequence l) w" if "?I w" "List.find (\<lambda>l. le_operation l = ?i) (ow_ledger w) = Some l" for w l
    using that by (auto simp: claimed_def find_Some_iff)
  have next_seq: "triple ?I get_next_sequence (\<lambda>s w. next_free of_op ?i s w) ?I"
    unfolding get_next_sequence_def
  proof (rule triple_remote)
    fix w assume I: "?I w"
    then obtain d where d: "ow_conv w = Some d" using order_has_conv by blast
    with I have led: "ledger_ok of_op (ow_ledger w) (cd_next_sequence d)" by (simp add: order_ok_def order_core_def core_def)
    then have "ledger_ok of_op (ow_ledger w) (Suc (cd_next_sequence d))" by (auto simp: ledger_ok_def le_SucI)
    moreover have old: "messages_ok of_op (ow_ledger w) (cd_next_sequence d) (ow_messages w)" using I d by (simp add: order_ok_def order_core_def core_def)
    then have "messages_ok of_op (ow_ledger w) (Suc (cd_next_sequence d)) (ow_messages w)" by (auto simp: messages_ok_def le_SucI)
    ultimately have "?I (w\<lparr>ow_conv := Some (d\<lparr>cd_next_sequence := Suc (cd_next_sequence d)\<rparr>)\<rparr>)"
      using I d by (auto simp: order_ok_def order_core_def core_def le_SucI)
    moreover have "\<forall>m \<in> set (ow_messages w). im_sequence m < Suc (cd_next_sequence d)" using old by (auto simp: messages_ok_def less_Suc_eq_le)
    moreover have "\<forall>l \<in> set (ow_ledger w). le_sequence l < Suc (cd_next_sequence d)" using led by (auto simp: ledger_ok_def less_Suc_eq_le)
    ultimately show "next_free of_op ?i (fst (case ow_conv w of None \<Rightarrow> (1, w) | Some d \<Rightarrow> (Suc (cd_next_sequence d), w\<lparr>ow_conv := Some (d\<lparr>cd_next_sequence := Suc (cd_next_sequence d)\<rparr>)\<rparr>)))
        (snd (case ow_conv w of None \<Rightarrow> (1, w) | Some d \<Rightarrow> (Suc (cd_next_sequence d), w\<lparr>ow_conv := Some (d\<lparr>cd_next_sequence := Suc (cd_next_sequence d)\<rparr>)\<rparr>)))"
      "?I (snd (case ow_conv w of None \<Rightarrow> (1, w) | Some d \<Rightarrow> (Suc (cd_next_sequence d), w\<lparr>ow_conv := Some (d\<lparr>cd_next_sequence := Suc (cd_next_sequence d)\<rparr>)\<rparr>)))"
      by (simp_all add: d next_free_def)
  qed simp
  have zero: "triple ?I (give 0) (\<lambda>s w. next_free of_op ?i s w) ?I" if "\<not> needs_sequence (cc_payload cmd)"
    by (rule triple_give) (use that assms order_has_conv in \<open>auto simp: next_free_def\<close>)
  have create: "triple (next_free of_op ?i s) (create_operation now ?i s)
      (\<lambda>c w. ?I w \<and> (c \<longrightarrow> claimed of_op ?i s w) \<and> (\<not> c \<longrightarrow> (\<exists>l \<in> set (ow_ledger w). le_operation l = ?i))) ?I" for s
    unfolding create_operation_def
  proof (rule triple_remote)
    fix w assume n: "next_free of_op ?i s w"
    then show "?I w" by (simp add: next_free_def)
    let ?r = "if List.find (\<lambda>l. le_operation l = ?i) (ow_ledger w) \<noteq> None then (False, w)
      else (True, w\<lparr>ow_ledger := ow_ledger w @ [\<lparr>le_operation = ?i, le_sequence = s, le_completed = False, le_at = now\<rparr>]\<rparr>)"
    have new: "?I (w\<lparr>ow_ledger := ow_ledger w @ [\<lparr>le_operation = ?i, le_sequence = s, le_completed = False, le_at = now\<rparr>]\<rparr>)"
      if none: "List.find (\<lambda>l. le_operation l = ?i) (ow_ledger w) = None"
    proof -
      obtain d where d: "ow_conv w = Some d" "s \<le> cd_next_sequence d" using n by (auto simp: next_free_def)
      have "?i \<notin> le_operation ` set (ow_ledger w)" using none by (auto simp: find_None_iff)
      with n d have "ledger_ok of_op (ow_ledger w @ [\<lparr>le_operation = ?i, le_sequence = s, le_completed = False, le_at = now\<rparr>]) (cd_next_sequence d)"
        by (intro ledger_extend) (auto simp: next_free_def order_ok_def order_core_def core_def)
      moreover have "messages_ok of_op (ow_ledger w) (cd_next_sequence d) (ow_messages w)" "\<forall>m \<in> set (ow_messages w). im_sequence m \<noteq> s"
        using n d by (auto simp: next_free_def order_ok_def order_core_def core_def messages_ok_def)
      ultimately show ?thesis using n d by (auto simp: next_free_def order_ok_def order_core_def core_def intro!: messages_extend)
    qed
    have ex: "\<exists>l \<in> set (ow_ledger w). le_operation l = ?i" if "List.find (\<lambda>l. le_operation l = ?i) (ow_ledger w) \<noteq> None"
      using that by (auto simp: find_Some_iff)
    show "?I (snd ?r)" using new n by (simp add: next_free_def)
    show "?I (snd ?r) \<and> (fst ?r \<longrightarrow> claimed of_op ?i s (snd ?r)) \<and> (\<not> fst ?r \<longrightarrow> (\<exists>l \<in> set (ow_ledger (snd ?r)). le_operation l = ?i))"
      using new ex n by (auto simp: claimed_def next_free_def)
  qed
  let ?Q = "\<lambda>r w. ?I w \<and> (case r of None \<Rightarrow> True | Some s \<Rightarrow> claimed of_op ?i s w)"
  have rest: "triple (\<lambda>w. ?I w \<and> (c \<longrightarrow> claimed of_op ?i s w) \<and> (\<not> c \<longrightarrow> (\<exists>l \<in> set (ow_ledger w). le_operation l = ?i)))
      (if c then give (Some s) else bind_act (find_operation ?i) (\<lambda>winner.
         give (case winner of Some l \<Rightarrow> if le_completed l then None else Some (le_sequence l) | None \<Rightarrow> Some s))) ?Q ?I" for c s
  proof (cases c)
    case False
    have "triple (\<lambda>w. ?I w \<and> (\<exists>l \<in> set (ow_ledger w). le_operation l = ?i)) (bind_act (find_operation ?i) (\<lambda>winner.
         give (case winner of Some l \<Rightarrow> if le_completed l then None else Some (le_sequence l) | None \<Rightarrow> Some s))) ?Q ?I"
      by (rule triple_bind[OF triple_weaken[OF find, where E' = ?I]], assumption, assumption, simp)
        (rule triple_give, auto simp: find_None_iff split: option.split dest: found[OF _ sym])
    with False show ?thesis by simp
  qed (simp add: triple_give)
  have fresh: "triple (\<lambda>w. ?I w \<and> None = List.find (\<lambda>l. le_operation l = ?i) (ow_ledger w))
      (bind_act (if needs_sequence (cc_payload cmd) then get_next_sequence else give 0) (\<lambda>s. bind_act (create_operation now ?i s) (\<lambda>created.
          if created then give (Some s) else bind_act (find_operation ?i) (\<lambda>winner.
            give (case winner of Some l \<Rightarrow> if le_completed l then None else Some (le_sequence l) | None \<Rightarrow> Some s))))) ?Q ?I"
  proof (rule triple_bind)
    show "triple (\<lambda>w. ?I w \<and> None = List.find (\<lambda>l. le_operation l = ?i) (ow_ledger w))
        (if needs_sequence (cc_payload cmd) then get_next_sequence else give 0) (next_free of_op ?i) ?I"
      by (rule triple_weaken[where P = ?I and Q = "next_free of_op ?i" and E = ?I]) (use next_seq zero in auto)
  qed (rule triple_bind[OF create rest])
  show ?thesis
    unfolding claim_operation_def
  proof (rule triple_bind[OF find])
    fix x
    show "triple (\<lambda>w. ?I w \<and> x = List.find (\<lambda>l. le_operation l = ?i) (ow_ledger w))
        (case x of None \<Rightarrow> bind_act (if needs_sequence (cc_payload cmd) then get_next_sequence else give 0) (\<lambda>s. bind_act (create_operation now ?i s) (\<lambda>created.
          if created then give (Some s) else bind_act (find_operation ?i) (\<lambda>winner.
            give (case winner of Some l \<Rightarrow> if le_completed l then None else Some (le_sequence l) | None \<Rightarrow> Some s))))
         | Some l \<Rightarrow> give (if le_completed l then None else Some (le_sequence l))) ?Q ?I"
      using fresh by (cases x) (auto intro!: triple_give dest: found[OF _ sym])
  qed
qed


section \<open>Insertion and summary\<close>

definition to_be_counted :: "(string \<Rightarrow> conversation_command) \<Rightarrow> nat \<Rightarrow> ops_world \<Rightarrow> bool" where
  "to_be_counted of_op s w \<longleftrightarrow> order_core of_op (core w) \<and> s \<in> im_sequence ` set (ow_messages w)
     \<and> (case ow_conv w of Some d \<Rightarrow> s \<le> cd_next_sequence d | None \<Rightarrow> False)"

lemma counted_later: "to_be_counted of_op s w \<Longrightarrow> order_ok of_op w"
  by (simp add: to_be_counted_def order_ok_def)

lemma upsert_order:
  assumes "of_op i = cmd" "cc_payload cmd = CustomerMessage p d"
  shows "triple (claimed of_op i s) (upsert_inbound (ip_tenant p) d s t)
    (\<lambda>(mid, inserted) w. order_ok of_op w \<and> (inserted \<longrightarrow> to_be_counted of_op s w)) (order_ok of_op)"
  unfolding upsert_inbound_def
proof (rule triple_remote)
  fix w assume c: "claimed of_op i s w"
  then show I: "order_ok of_op w" by (simp add: claimed_def)
  let ?new = "\<lparr>im_id = ow_next_message w, im_tenant = ip_tenant p, im_external = d, im_sequence = s, im_time = t\<rparr>"
  let ?r = "case List.find (\<lambda>m. im_tenant m = ip_tenant p \<and> im_external m = d) (ow_messages w) of
       Some m \<Rightarrow> ((im_id m, False), w)
     | None \<Rightarrow> ((ow_next_message w, True), w\<lparr>ow_messages := ow_messages w @ [?new], ow_next_message := Suc (ow_next_message w)\<rparr>)"
  have "order_ok of_op (snd ?r) \<and> (snd (fst ?r) \<longrightarrow> to_be_counted of_op s (snd ?r))"
  proof (cases "List.find (\<lambda>m. im_tenant m = ip_tenant p \<and> im_external m = d) (ow_messages w)")
    case None
    obtain l where l: "l \<in> set (ow_ledger w)" "le_operation l = i" "le_sequence l = s" using c by (auto simp: claimed_def)
    obtain x where x: "ow_conv w = Some x" using order_has_conv[OF I] by blast
    have ok: "ledger_ok of_op (ow_ledger w) (cd_next_sequence x)" "messages_ok of_op (ow_ledger w) (cd_next_sequence x) (ow_messages w)"
      using I x by (simp_all add: order_ok_def order_core_def core_def)
    have pos: "0 < s" "s \<le> cd_next_sequence x"
      using ok(1) l assms by (auto simp: ledger_ok_def needs_sequence_def)
    have new: "(ip_tenant p, d) \<notin> (\<lambda>m. (im_tenant m, im_external m)) ` set (ow_messages w)" using None by (auto simp: find_None_iff)
    have "s \<noteq> im_sequence m" if m: "m \<in> set (ow_messages w)" for m
    proof
      assume "s = im_sequence m"
      with messages_okD[OF ok(2) m l(1)] l(2,3) have "comes_from of_op m i" by simp
      with assms have "(im_tenant m, im_external m) = (ip_tenant p, d)" by (auto simp: comes_from_def)
      moreover have "(im_tenant m, im_external m) \<in> (\<lambda>m. (im_tenant m, im_external m)) ` set (ow_messages w)" using m by (rule imageI)
      ultimately show False using new by simp
    qed
    moreover have "comes_from of_op ?new (le_operation k)" if "k \<in> set (ow_ledger w)" "le_sequence k = s" for k
      using ok(1) l that pos assms by (auto simp: ledger_ok_def comes_from_def)
    ultimately have ms: "messages_ok of_op (ow_ledger w) (cd_next_sequence x) (ow_messages w @ [?new])"
      using ok(2) new pos by (auto simp: messages_ok_def)
    have "order_core of_op (core (w\<lparr>ow_messages := ow_messages w @ [?new], ow_next_message := Suc (ow_next_message w)\<rparr>))"
      using I x ms by (auto simp: order_ok_def order_core_def core_def)
    then have "to_be_counted of_op s (w\<lparr>ow_messages := ow_messages w @ [?new], ow_next_message := Suc (ow_next_message w)\<rparr>)"
      using x pos by (simp add: to_be_counted_def)
    then show ?thesis using None counted_later by simp
  qed (use I in simp)
  then show "(case fst ?r of (mid, inserted) \<Rightarrow> \<lambda>w. order_ok of_op w \<and> (inserted \<longrightarrow> to_be_counted of_op s w)) (snd ?r)" "order_ok of_op (snd ?r)"
    by (simp_all split: prod.split)
qed

lemma fold_order: "triple (to_be_counted of_op s) (fold_message pt s u x pv c) (\<lambda>_. order_ok of_op) (order_ok of_op)"
proof (cases "expression_text pt x")
  case (Inr g)
  have "order_ok of_op (upd_conv (\<lambda>d. apply_incoming_message s u (pv\<lparr>pv_text := g d\<rparr>) c d) w)" if "to_be_counted of_op s w" for w
    using that by (cases "ow_conv w") (auto simp: to_be_counted_def order_ok_def order_core_def core_def upd_conv_def apply_incoming_message_def Let_def)
  with Inr show ?thesis unfolding fold_message_def
    by (simp add: triple_write counted_later)
qed (auto simp: fold_message_def intro!: triple_ask dest: counted_later)

lemma customer_order:
  assumes "of_op i = cmd" "cc_payload cmd = CustomerMessage p d"
  shows "triple (claimed of_op i s) (handle_customer_message pt now cmd p d s) (\<lambda>_. order_ok of_op) (order_ok of_op)"
proof -
  let ?I = "order_ok of_op"
  have rest: "triple ?I (then_act (save_and_publish t e now) (then_act (if b then local_act (effect (MediaCache mid)) else give ()) (after_message pt mid))) (\<lambda>_. ?I) ?I" for t e b mid
    using calm_publish[OF order_calm(3), of of_op t e now] calm_local(1)[OF order_calm(3), of "MediaCache mid" of_op] calm_after[OF order_calm(3), of of_op pt mid]
    unfolding keeps_def by (intro triple_then[where R = ?I]) (auto intro: triple_give)
  have pre: "triple (to_be_counted of_op s) (presigned pt p) (\<lambda>_. to_be_counted of_op s) ?I"
    by (rule triple_weaken[OF keeps_presigned[where I = "to_be_counted of_op s", unfolded keeps_def]]) (auto dest: counted_later)
  have step: "triple (\<lambda>w. ?I w \<and> (inserted \<longrightarrow> to_be_counted of_op s w))
      (if \<not> inserted then give () else bind_act (presigned pt p) (\<lambda>url. then_act (fold_message pt s u x pv c)
         (then_act (save_and_publish t (e url) now) (then_act (if b then local_act (effect (MediaCache mid)) else give ()) (after_message pt mid)))))
      (\<lambda>_. ?I) ?I" for inserted u x pv c t e b mid
  proof (cases inserted)
    case True
    have "triple (to_be_counted of_op s) (bind_act (presigned pt p) (\<lambda>url. then_act (fold_message pt s u x pv c)
         (then_act (save_and_publish t (e url) now) (then_act (if b then local_act (effect (MediaCache mid)) else give ()) (after_message pt mid)))))
      (\<lambda>_. ?I) ?I"
      by (rule triple_bind[OF pre]) (rule triple_then[OF fold_order rest])
    then show ?thesis using True by (auto elim!: triple_weaken)
  qed (simp add: triple_give)
  show ?thesis
    unfolding handle_customer_message_def Let_def
    by (rule triple_bind, rule upsert_order, rule assms(1), rule assms(2)) (simp only: split_paired_all prod.case, rule step)
qed

lemma complete_order: "keeps (order_ok of_op) (complete_operation i)"
  unfolding complete_operation_def
proof (rule keeps_write)
  fix w assume I: "order_ok of_op w"
  let ?f = "\<lambda>l. l\<lparr>le_completed := True\<rparr>"
  define ls where "ls = update_first (\<lambda>l. le_operation l = i) ?f (ow_ledger w)"
  have same: "map (\<lambda>l. (le_operation l, le_sequence l)) ls = map (\<lambda>l. (le_operation l, le_sequence l)) (ow_ledger w)"
    unfolding ls_def by (rule update_first_map) simp
  have ops: "map le_operation ls = map le_operation (ow_ledger w)" unfolding ls_def by (rule update_first_map) simp
  obtain x where x: "ow_conv w = Some x" using order_has_conv[OF I] by blast
  have old: "ledger_ok of_op (ow_ledger w) (cd_next_sequence x)" "messages_ok of_op (ow_ledger w) (cd_next_sequence x) (ow_messages w)"
    using I x by (simp_all add: order_ok_def order_core_def core_def)
  have from_new: "\<exists>k \<in> set (ow_ledger w). le_operation k = le_operation l \<and> le_sequence k = le_sequence l" if "l \<in> set ls" for l
    using arg_cong[OF same, of set] that by (auto simp: image_iff) (metis (mono_tags, lifting) image_iff prod.inject)
  have "ledger_ok of_op ls (cd_next_sequence x)"
    unfolding ledger_ok_def
  proof (intro conjI ballI impI)
    show dist: "distinct (map le_operation ls)" using ops old(1) by (simp add: ledger_ok_def)
    fix l assume l: "l \<in> set ls"
    then obtain k where k: "k \<in> set (ow_ledger w)" "le_operation k = le_operation l" "le_sequence k = le_sequence l" using from_new by blast
    show "le_sequence l \<le> cd_next_sequence x" using old(1) k by (auto simp: ledger_ok_def)
    show "0 < le_sequence l" if "needs_sequence (cc_payload (of_op (le_operation l)))"
      using old(1) k that unfolding ledger_ok_def by metis
    fix l' assume l': "l' \<in> set ls" "le_sequence l = le_sequence l'" "0 < le_sequence l"
    then obtain k' where k': "k' \<in> set (ow_ledger w)" "le_operation k' = le_operation l'" "le_sequence k' = le_sequence l'" using from_new by blast
    have "k = k'" using old(1) k k' l' unfolding ledger_ok_def by metis
    with k(2) k'(2) dist l l'(1) show "l = l'" by (auto simp: distinct_map inj_on_def)
  qed
  moreover have "messages_ok of_op ls (cd_next_sequence x) (ow_messages w)"
    using old(2) from_new unfolding messages_ok_def by metis
  ultimately show "order_ok of_op (w\<lparr>ow_ledger := update_first (\<lambda>l. le_operation l = i) ?f (ow_ledger w)\<rparr>)"
    using I x by (simp add: order_ok_def order_core_def core_def ls_def)
qed

lemma claimed_weaken: "keeps (order_ok of_op) m \<Longrightarrow> triple (claimed of_op i s) m (\<lambda>_. order_ok of_op) (order_ok of_op)"
  unfolding keeps_def by (erule triple_weaken) (simp_all add: claimed_def)

lemma process_order:
  assumes "of_op (cc_operation cmd) = cmd"
  shows "keeps (order_ok of_op) (process_command pt now cmd)"
  unfolding keeps_def process_command_def
proof (rule triple_bind, rule claim_order, rule assms)
  fix r
  let ?I = "order_ok of_op"
  show "triple (\<lambda>w. ?I w \<and> (case r of None \<Rightarrow> True | Some s \<Rightarrow> claimed of_op (cc_operation cmd) s w))
      (case r of None \<Rightarrow> give () | Some s \<Rightarrow> then_act (dispatch_command pt now cmd s) (complete_operation (cc_operation cmd))) (\<lambda>_. ?I) ?I"
  proof (cases r)
    case (Some s)
    have "triple (claimed of_op (cc_operation cmd) s) (dispatch_command pt now cmd s) (\<lambda>_. ?I) ?I"
    proof (cases "cc_payload cmd")
      case (CustomerMessage p d)
      have "triple (claimed of_op (cc_operation cmd) s) (handle_customer_message pt now cmd p d s) (\<lambda>_. ?I) ?I"
        by (rule customer_order) (rule assms, rule CustomerMessage)
      with CustomerMessage show ?thesis by (simp add: dispatch_command_def)
    next
      case (BotReply p)
      then show ?thesis by (simp add: dispatch_command_def claimed_weaken[OF bot_reply_keeps[OF order_calm(1)]])
    next
      case (AssignAgent p)
      then show ?thesis by (simp add: dispatch_command_def claimed_weaken[OF calm_assign[OF order_calm(3)]])
    next
      case (ChangeStatus p)
      then show ?thesis by (simp add: dispatch_command_def claimed_weaken[OF status_keeps[OF order_calm(2)]])
    next
      case (UpdateBotState f x a)
      then show ?thesis by (simp add: dispatch_command_def claimed_weaken[OF bot_state_keeps[OF order_calm(1)]])
    qed
    then have "triple (claimed of_op (cc_operation cmd) s) (then_act (dispatch_command pt now cmd s) (complete_operation (cc_operation cmd))) (\<lambda>_. ?I) ?I"
      by (rule triple_then) (rule complete_order[unfolded keeps_def])
    then show ?thesis using Some by (auto elim!: triple_weaken)
  qed (simp add: triple_give)
qed

definition fresh_conversation :: "ops_world \<Rightarrow> bool" where
  "fresh_conversation w \<longleftrightarrow> ow_messages w = [] \<and> ow_ledger w = []
     \<and> (case ow_conv w of Some d \<Rightarrow> cd_last_sequence d = 0 \<and> cd_message_count d = 0 | None \<Rightarrow> False)"

lemma fresh_order: "fresh_conversation w \<Longrightarrow> order_ok of_op w"
  by (cases "ow_conv w") (auto simp: fresh_conversation_def order_ok_def order_core_def core_def ledger_ok_def messages_ok_def)

definition commands_of :: "(ops_run \<times> fate list) list \<Rightarrow> conversation_command list" where
  "commands_of h = List.map_filter run_command (map fst h)"

text \<open>C18: After any history of a new conversation, with retries, crashes, failing calls, reopenings and expired ledger
  entries, whose operation ids identify their commands: every inbound message is kept once and has an ordinal of its own,
  no ordinal is beyond those the conversation gave out, and the newest ordinal the conversation has recorded is that of one
  of its messages (or 0, before the first).\<close>
theorem messages_are_ordered_and_kept_once:
  assumes "fresh_conversation w" "inj_on cc_operation (set (commands_of h))"
  shows "let v = run_history pt h w in distinct (map im_sequence (ow_messages v))
    \<and> distinct (map (\<lambda>m. (im_tenant m, im_external m)) (ow_messages v))
    \<and> (case ow_conv v of Some d \<Rightarrow> cd_last_sequence d \<in> insert 0 (im_sequence ` set (ow_messages v))
         \<and> filter (\<lambda>m. cd_next_sequence d < im_sequence m) (ow_messages v) = [] | None \<Rightarrow> False)"
proof -
  define of_op where "of_op = the_inv_into (set (commands_of h)) cc_operation"
  have of_op: "of_op (cc_operation cmd) = cmd" if "Run now cmd \<in> fst ` set h" for now cmd
  proof -
    have "run_command (Run now cmd) = Some cmd" by (simp add: run_command_def)
    with that have "cmd \<in> set (commands_of h)" by (force simp: commands_of_def List.map_filter_def)
    then show ?thesis unfolding of_op_def by (rule the_inv_into_f_f[OF assms(2)])
  qed
  have ok: "order_ok of_op (run_history pt h w)"
  proof (rule history_keeps)
    show "keeps (order_ok of_op) (process_command pt now cmd)" if "Run now cmd \<in> fst ` set h" for now cmd
      by (rule process_order) (rule of_op[OF that])
  qed (rule calm_drain order_calm order_reopen ensure_bot_keeps fresh_order[OF assms(1)] | erule order_expiry)+
  then obtain d where d: "ow_conv (run_history pt h w) = Some d" using order_has_conv by blast
  let ?ms = "ow_messages (run_history pt h w)"
  have "messages_ok of_op (ow_ledger (run_history pt h w)) (cd_next_sequence d) ?ms"
    and newest: "cd_last_sequence d \<in> insert 0 (im_sequence ` set ?ms)"
    using ok d by (auto simp: order_ok_def order_core_def core_def)
  then have "distinct (map im_sequence ?ms)" "distinct (map (\<lambda>m. (im_tenant m, im_external m)) ?ms)"
    "\<forall>m \<in> set ?ms. im_sequence m \<le> cd_next_sequence d" by (simp_all add: messages_ok_def)
  with newest show ?thesis by (simp add: d Let_def filter_empty_conv not_less)
qed

end
