(* ===== verification/Conversation_Events.thy ===== *)
theory Conversation_Events
  imports Conversation_Order
begin

text \<open>
  Fencing of the bot after a takeover, compare-and-set of assignments, the announcement of what was done, and the draining
  of the outbox; and the cases in which a retry finds its own trace and takes it for somebody else's.
\<close>

section \<open>The bot after a takeover\<close>

definition is_bot_sent :: "ops_effect \<Rightarrow> bool" where
  "is_bot_sent e \<longleftrightarrow> (case e of BotSent k \<Rightarrow> True | _ \<Rightarrow> False)"

definition bot_on :: "bot_state \<Rightarrow> bool" where
  "bot_on b \<longleftrightarrow> bs_enabled b = Some True \<and> bs_status b = Some BotActive"

definition silenced :: "bot_state \<Rightarrow> ops_effect list \<Rightarrow> ops_world \<Rightarrow> bool" where
  "silenced b sent w \<longleftrightarrow> \<not> bot_on b \<and> map_option cd_bot (ow_conv w) = Some b \<and> filter is_bot_sent (ow_effects w) = sent"

lemma silenced_calm: "status_calm (silenced b sent)" "message_calm (silenced b sent)" "calm (silenced b sent)"
proof -
  have e: "(\<forall>k. e \<noteq> BotSent k) \<Longrightarrow> \<not> is_bot_sent e" for e by (cases e) (simp_all add: is_bot_sent_def)
  show c: "calm (silenced b sent)"
    by (auto simp: calm_def silenced_def effect_def upd_conv_def e)
  then show "status_calm (silenced b sent)" "message_calm (silenced b sent)"
    by (auto simp: status_calm_def message_calm_def silenced_def upd_conv_def)
qed

lemma triple_absurd: "(\<And>w. \<not> P w) \<Longrightarrow> triple P m Q E"
  by (simp add: triple_def)

lemma find_conv_triple: "triple I find_conv (\<lambda>c w. I w \<and> ow_conv w = c) I"
  unfolding find_conv_def by (rule triple_remote) simp_all

lemma silenced_reply: "keeps (silenced b sent) (handle_bot_reply pt now cmd p)"
  unfolding keeps_def handle_bot_reply_def
proof (rule triple_bind[OF find_conv_triple], goal_cases)
  case (1 c)
  show ?case
  proof (cases "case c of None \<Rightarrow> True | Some d \<Rightarrow> \<not> can_accept_bot_callback (cd_bot d) (br_session p)")
    case False
    then have "\<not> (silenced b sent w \<and> ow_conv w = c)" for w
      by (auto simp: silenced_def bot_on_def can_accept_bot_callback_def split: option.splits)
    then show ?thesis by (rule triple_absurd)
  qed (simp, intro triple_give, simp)
qed

definition is_bot_update :: "conversation_command \<Rightarrow> bool" where
  "is_bot_update cmd \<longleftrightarrow> (case cc_payload cmd of UpdateBotState f r a \<Rightarrow> True | _ \<Rightarrow> False)"

lemma silenced_process:
  assumes "\<not> is_bot_update cmd"
  shows "keeps (silenced b sent) (process_command pt now cmd)"
proof (rule keeps_process)
  show "keeps (silenced b sent) (claim_operation now cmd)"
    by (rule claim_conv) (auto simp: silenced_def upd_conv_def)
  show "keeps (silenced b sent) (complete_operation (cc_operation cmd))"
    unfolding complete_operation_def by (rule keeps_write) (simp add: silenced_def)
  show "keeps (silenced b sent) (dispatch_command pt now cmd s)" for s
    by (rule keeps_dispatch)
      (use assms in \<open>auto simp: is_bot_update_def intro: message_keeps silenced_reply calm_assign status_keeps silenced_calm\<close>)
qed

lemma command_in_history: "Run now cmd \<in> fst ` set h \<Longrightarrow> cmd \<in> set (commands_of h)"
  by (force simp: commands_of_def List.map_filter_def run_command_def)

text \<open>A bot that is not enabled: reopening may call it active, which is not enough.\<close>

definition muted :: "ops_effect list \<Rightarrow> ops_world \<Rightarrow> bool" where
  "muted sent w \<longleftrightarrow> (case ow_conv w of Some d \<Rightarrow> bs_enabled (cd_bot d) \<noteq> Some True \<and> cd_bot d \<noteq> no_bot | None \<Rightarrow> False)
     \<and> filter is_bot_sent (ow_effects w) = sent"

lemma muted_silenced: "muted sent w \<longleftrightarrow> (\<exists>b. bs_enabled b \<noteq> Some True \<and> b \<noteq> no_bot \<and> silenced b sent w)"
  by (auto simp: muted_def silenced_def bot_on_def split: option.split)

lemma keeps_ex: "(\<And>b. C b \<Longrightarrow> keeps (I b) m) \<Longrightarrow> keeps (\<lambda>w. \<exists>b. C b \<and> I b w) m"
  unfolding keeps_def triple_def by (fastforce split: prod.splits act_outcome.splits)

lemma muted_reopened: "muted sent w \<Longrightarrow> muted sent (upd_conv reopened w)"
proof -
  have "bs_status (cd_bot (reopened d)) \<noteq> bs_status no_bot" for d by (simp add: reopened_def no_bot_def)
  then have "cd_bot (reopened d) \<noteq> no_bot" for d by metis
  moreover have "bs_enabled (cd_bot (reopened d)) = bs_enabled (cd_bot d)" for d by (simp add: reopened_def)
  ultimately show "muted sent w \<Longrightarrow> muted sent (upd_conv reopened w)" by (auto simp: muted_def upd_conv_def split: option.splits)
qed

lemma bot_kept: "b \<noteq> no_bot \<Longrightarrow> keeps (silenced b sent) (ensure_bot_state x)"
  unfolding keeps_def ensure_bot_state_def
proof (rule triple_bind[OF find_conv_triple], goal_cases)
  case (1 c)
  show ?case
  proof (cases c)
    case (Some d)
    show ?thesis
    proof (cases "cd_bot d = no_bot")
      case True
      with 1 Some have "\<not> (silenced b sent w \<and> ow_conv w = c)" for w by (auto simp: silenced_def)
      then show ?thesis by (rule triple_absurd)
    next
      case False
      then show ?thesis unfolding Some by (simp, intro triple_give, simp)
    qed
  qed (simp, intro triple_give, simp)
qed

text \<open>C19: Once the bot of a conversation is off (an agent took over, it handed off or it ended), nothing but an explicit
  command on the bot state turns it on, except that reopening the resolved conversation restarts a bot that ended or handed
  off while it was still enabled; a bot that an agent disabled stays off over reopenings too. As long as it is off, however
  late its callbacks arrive, no bot message is sent; without a reopening its whole state stays. (A conversation that never
  had a bot gets one with the next message and is not meant.)\<close>
theorem takeover_silences_bot:
  assumes "ow_conv w = Some d" "\<not> bot_on (cd_bot d)" "cd_bot d \<noteq> no_bot" "filter is_bot_update (commands_of h) = []"
    and "Reopen \<in> fst ` set h \<Longrightarrow> bs_enabled (cd_bot d) \<noteq> Some True"
  shows "filter is_bot_sent (ow_effects (run_history pt h w)) = filter is_bot_sent (ow_effects w)
    \<and> (case ow_conv (run_history pt h w) of
          Some d' \<Rightarrow> \<not> bot_on (cd_bot d') \<and> (Reopen \<notin> fst ` set h \<longrightarrow> cd_bot d' = cd_bot d) | None \<Rightarrow> False)"
proof -
  let ?sent = "filter is_bot_sent (ow_effects w)"
  have quiet: "\<not> is_bot_update cmd" if "Run now cmd \<in> fst ` set h" for now cmd
    using command_in_history[OF that] assms(4) by (auto simp: filter_empty_conv)
  have expiry: "silenced b ?sent w' \<Longrightarrow> silenced b ?sent (purge_expired now w')" for b now w'
    by (simp add: silenced_def purge_expired_def)
  show ?thesis
  proof (cases "Reopen \<in> fst ` set h")
    case False
    have "silenced (cd_bot d) ?sent (run_history pt h w)"
    proof (rule history_keeps)
      show "silenced (cd_bot d) ?sent w" using assms(1,2) by (simp add: silenced_def)
      show "keeps (silenced (cd_bot d) ?sent) (process_command pt now cmd)" if "Run now cmd \<in> fst ` set h" for now cmd
        by (rule silenced_process[OF quiet[OF that]])
      show "keeps (silenced (cd_bot d) ?sent) (ensure_bot_state x)" for x by (rule bot_kept[OF assms(3)])
    qed (use False in \<open>auto intro: calm_drain silenced_calm expiry\<close>)
    with False show ?thesis by (auto simp: silenced_def split: option.splits)
  next
    case True
    let ?C = "\<lambda>b. bs_enabled b \<noteq> Some True \<and> b \<noteq> no_bot"
    have lift: "keeps (muted ?sent) m" if "\<And>b. ?C b \<Longrightarrow> keeps (silenced b ?sent) m" for m :: "'x ops"
      using keeps_ex[of ?C "\<lambda>b. silenced b ?sent" m] that by (simp add: muted_silenced[abs_def] conj_assoc)
    have "muted ?sent (run_history pt h w)"
    proof (rule history_keeps)
      show "keeps (muted ?sent) (process_command pt now cmd)" if "Run now cmd \<in> fst ` set h" for now cmd
        by (rule lift) (rule silenced_process[OF quiet[OF that]])
      show "keeps (muted ?sent) (drain_pending now)" for now by (rule lift) (rule calm_drain[OF silenced_calm(3)])
      show "keeps (muted ?sent) reopen_conversation" by (rule reopen_keeps) (rule muted_reopened)
      show "keeps (muted ?sent) (ensure_bot_state x)" for x by (rule lift) (simp add: bot_kept)
      show "muted ?sent (purge_expired now v)" if "muted ?sent v" for now v using that by (simp add: muted_def purge_expired_def)
      show "muted ?sent w" using assms(1,3) assms(5)[OF True] by (simp add: muted_def)
    qed
    with True show ?thesis by (auto simp: muted_def bot_on_def split: option.splits)
  qed
qed

section \<open>Stale assignments\<close>

definition stale_assignment :: "assign_payload \<Rightarrow> conversation_doc \<Rightarrow> bool" where
  "stale_assignment p d \<longleftrightarrow> as_agent p \<noteq> Keep
     \<and> (if as_only_unassigned p \<and> truthy_id (patch_value (as_agent p)) \<noteq> None
        then cd_agent d \<noteq> None \<or> cd_status d \<notin> {''open'', ''pending''}
        else as_previous_agent p \<noteq> Keep \<and> patch_value (as_previous_agent p) \<noteq> cd_agent d)"

text \<open>Everything but the ledger.\<close>

definition outside :: "ops_world \<Rightarrow> conversation_doc option \<times> outbox_row list \<times> nat list \<times> ops_effect list \<times> inbound_message list" where
  "outside w = (ow_conv w, ow_outbox w, ow_heard w, ow_effects w, ow_messages w)"

lemma stale_perform:
  assumes "stale_assignment p d"
  shows "triple (\<lambda>w. outside w = c \<and> ow_conv w = Some d)
    (perform_assignment_update now (as_agent p) (as_group p) (as_only_unassigned p) (as_previous_agent p))
    (\<lambda>r w. \<not> r \<and> outside w = c \<and> ow_conv w = Some d) (\<lambda>w. outside w = c \<and> ow_conv w = Some d)"
proof -
  let ?I = "\<lambda>w. outside w = c \<and> ow_conv w = Some d"
  have refused: "triple ?I (bind_act (update_if P f) (\<lambda>r. give (r \<noteq> None))) (\<lambda>r w. \<not> r \<and> ?I w) ?I" if "\<not> P d" for P f
  proof (rule triple_bind)
    show "triple ?I (update_if P f) (\<lambda>r w. r = None \<and> ?I w) ?I"
      unfolding update_if_def by (rule triple_remote) (use that in auto)
  qed (rule triple_give, simp)
  show ?thesis
  proof (cases "as_only_unassigned p \<and> truthy_id (patch_value (as_agent p)) \<noteq> None")
    case True
    then obtain a where a: "truthy_id (patch_value (as_agent p)) = Some a" by blast
    have "triple ?I (bind_act (assign_doc_if_unassigned a now) (\<lambda>r. give (r \<noteq> None))) (\<lambda>r w. \<not> r \<and> ?I w) ?I"
      unfolding assign_doc_if_unassigned_def by (rule refused) (use assms True in \<open>auto simp: stale_assignment_def\<close>)
    then show ?thesis using True a by (simp add: perform_assignment_update_def)
  next
    case False
    have "triple ?I (bind_act (reassign_doc_if_expected (patch_value (as_agent p)) (as_group p) (patch_value (as_previous_agent p)) now)
        (\<lambda>r. give (r \<noteq> None))) (\<lambda>r w. \<not> r \<and> ?I w) ?I"
      unfolding reassign_doc_if_expected_def by (rule refused) (use assms False in \<open>auto simp: stale_assignment_def\<close>)
    then show ?thesis using False assms
      by (cases "as_only_unassigned p"; cases "truthy_id (patch_value (as_agent p))") (auto simp: perform_assignment_update_def stale_assignment_def)
  qed
qed

text \<open>C20: An assignment decided on an observation that no longer holds - the conversation has another owner than the caller
  saw, or an owner at all where it asked for none - changes neither conversation nor outbox nor capacity nor audit,
  whatever fails on the way.\<close>
theorem stale_assignments_change_nothing:
  assumes "ow_conv w = Some d" "cc_payload cmd = AssignAgent p" "stale_assignment p d"
  shows "outside (snd (snd (process_command pt now cmd (fs, w)))) = outside w"
proof -
  let ?I = "\<lambda>v. outside v = outside w \<and> ow_conv v = Some d"
  have find: "keeps ?I (find_operation i)" for i unfolding find_operation_def by (rule keeps_remote) simp
  have create: "keeps ?I (create_operation now i s)" for i s
    unfolding create_operation_def by (rule keeps_remote) (use assms(1) in \<open>simp add: outside_def\<close>)
  have claim: "keeps ?I (claim_operation now cmd)"
    unfolding claim_operation_def using assms(2) by (simp add: needs_sequence_def) (intro triples find create)
  have complete: "keeps ?I (complete_operation i)" for i
    unfolding complete_operation_def by (rule keeps_write) (use assms(1) in \<open>simp add: outside_def\<close>)
  have "triple ?I (handle_assign_agent now cmd p) (\<lambda>_. ?I) ?I"
    unfolding handle_assign_agent_def
    by (rule triple_bind[OF stale_perform[OF assms(3)]]) (simp add: triple_def give_def)
  then have "keeps ?I (dispatch_command pt now cmd s)" for s
    using assms(2) by (simp add: dispatch_command_def keeps_def)
  then have "keeps ?I (process_command pt now cmd)" by (rule keeps_process[OF claim _ complete])
  from keeps_end[OF this, of w fs] show ?thesis using assms(1) by simp
qed

section \<open>What was done is announced\<close>

text \<open>An event, up to the status the conversation had before, and the event a command owes.\<close>

definition forget_old :: "conversation_event \<Rightarrow> conversation_event" where
  "forget_old e = (case e of StatusChanged s old a src \<Rightarrow> StatusChanged s CsOpen a src | _ \<Rightarrow> e)"

definition owes :: "conversation_command \<Rightarrow> conversation_event option" where
  "owes cmd = (case cc_payload cmd of
      ChangeStatus p \<Rightarrow> Some (StatusChanged (sp_status p) CsOpen (sp_agent p) (default_to ''agent'' (sp_source p)))
    | UpdateBotState f r a \<Rightarrow> Some (BotStateEvent (bot_event_type f) r a)
    | _ \<Rightarrow> None)"

text \<open>How many completed operations owed an event \<open>x\<close>, and how many rows with it were ever written.\<close>

definition done_owing :: "(string \<Rightarrow> conversation_event option) \<Rightarrow> conversation_event \<Rightarrow> ops_world \<Rightarrow> nat" where
  "done_owing owed x w = length (filter (\<lambda>l. le_completed l \<and> owed (le_operation l) = Some x) (ow_ledger w))"

definition rows_written :: "conversation_event \<Rightarrow> ops_world \<Rightarrow> nat" where
  "rows_written x w = length (filter (\<lambda>r. forget_old (ob_event r) = x) (ow_outbox w @ ow_purged w))"

definition rows_told :: "ops_world \<Rightarrow> bool" where
  "rows_told w \<longleftrightarrow> (\<forall>r \<in> set (ow_outbox w @ ow_purged w). ob_status r = ObPublished \<longrightarrow> ob_id r \<in> set (ow_heard w))
     \<and> (\<forall>r \<in> set (ow_purged w). ob_status r = ObPublished)"

text \<open>With \<open>y\<close>, one row more than completed operations is there for it.\<close>

definition told :: "(string \<Rightarrow> conversation_event option) \<Rightarrow> conversation_event option \<Rightarrow> ops_world \<Rightarrow> bool" where
  "told owed y w \<longleftrightarrow> (\<forall>x. done_owing owed x w + (if y = Some x then 1 else 0) \<le> rows_written x w) \<and> rows_told w"

lemma told_less: "told owed y w \<Longrightarrow> told owed None w"
  unfolding told_def by (auto dest: le_trans[OF le_add1])

lemma told_grows:
  assumes "told owed y w" "ow_ledger v = ow_ledger w" "\<And>x. rows_written x w \<le> rows_written x v" "rows_told v"
  shows "told owed y v"
proof -
  have "done_owing owed x v + (if y = Some x then 1 else 0) \<le> rows_written x v" for x
    using assms(1) le_trans[OF _ assms(3)[of x]] by (simp only: told_def done_owing_def assms(2))
  with assms(4) show ?thesis by (simp add: told_def)
qed

lemma follows_events: "list_all2 (row_follows heard) rows rs \<Longrightarrow> map ob_event rs = map ob_event rows"
  by (induction rule: list_all2_induct) (simp_all add: row_follows_def)

lemma follows_told: "list_all2 (row_follows heard) rows rs \<Longrightarrow> (\<And>r. r \<in> set rows \<Longrightarrow> ob_status r = ObPublished \<Longrightarrow> ob_id r \<in> set heard) \<Longrightarrow>
    r \<in> set rs \<Longrightarrow> ob_status r = ObPublished \<Longrightarrow> ob_id r \<in> set heard"
  by (induction arbitrary: r rule: list_all2_induct) (auto simp: row_follows_def)

lemma rows_by_events: "rows_written x w = length (filter (\<lambda>e. forget_old e = x) (map ob_event (ow_outbox w @ ow_purged w)))"
  by (simp add: rows_written_def filter_map comp_def)

lemma told_calm: "bot_calm (told owed y)" "status_calm (told owed y)" "message_calm (told owed y)" "calm (told owed y)"
proof -
  have grow: "told owed y v" if "told owed y w" "ow_ledger v = ow_ledger w" "ow_outbox v = ow_outbox w" "ow_purged v = ow_purged w"
      "set (ow_heard w) \<subseteq> set (ow_heard v)" for v w
    using that by (intro told_grows[OF that(1)]) (auto simp: rows_written_def rows_told_def told_def)
  have row: "told owed y (w\<lparr>ow_outbox := ow_outbox w @ [r], ow_next_row := n\<rparr>)" if "told owed y w" "ob_status r = ObPending" for w r n
    using that by (intro told_grows[OF that(1)]) (auto simp: rows_written_def rows_told_def told_def)
  have rows: "told owed y (w\<lparr>ow_outbox := rs\<rparr>)" if "told owed y w" "list_all2 (row_follows (ow_heard w)) (ow_outbox w) rs" for w rs
    using that follows_told[OF that(2)] by (intro told_grows[OF that(1)]) (auto simp: rows_by_events follows_events rows_told_def told_def)
  show c: "calm (told owed y)"
    unfolding calm_def by (intro allI impI conjI; (rule row rows; assumption)?; erule grow) (auto simp: effect_def upd_conv_def)
  then show "bot_calm (told owed y)" "status_calm (told owed y)" "message_calm (told owed y)"
    by (auto simp: bot_calm_def status_calm_def message_calm_def effect_def upd_conv_def elim!: grow)
qed

lemma publish_records: "triple (told owed None) (save_and_publish t e now) (\<lambda>_. told owed (Some (forget_old e))) (told owed None)"
proof -
  have created: "triple (told owed None) (create_row t e now) (\<lambda>_. told owed (Some (forget_old e))) (told owed None)"
    unfolding create_row_def
  proof (rule triple_remote)
    fix w assume w: "told owed None w"
    let ?w = "w\<lparr>ow_outbox := ow_outbox w @ [\<lparr>ob_id = ow_next_row w, ob_tenant = t, ob_event = e, ob_status = ObPending, ob_retries = 0,
         ob_claimed = None, ob_created = now, ob_error = None, ob_published = None\<rparr>], ow_next_row := Suc (ow_next_row w)\<rparr>"
    have "told owed (Some (forget_old e)) ?w"
      using w by (auto simp: told_def done_owing_def rows_written_def rows_told_def)
    then show "told owed (Some (forget_old e)) (snd (ow_next_row w, ?w))" "told owed None (snd (ow_next_row w, ?w))"
      by (simp_all add: told_less)
  qed simp
  have body: "triple (told owed y) (attempt_act (then_act (emit_async i) (write_act (upd_row i (\<lambda>r. r\<lparr>ob_status := ObPublished, ob_published := x\<rparr>)))) (\<lambda>_. give ()))
      (\<lambda>_. told owed y) (told owed y)" for i x y
    by (rule keeps_attempt[OF calm_told[OF told_calm(4)] keeps_simple(1), unfolded keeps_def])
  show ?thesis
    unfolding save_and_publish_def by (rule triple_bind[OF created]) (rule triple_weaken[OF body[where y = "Some (forget_old e)"]]; simp add: told_less)
qed

lemma told_dispatch: "triple (told owed None) (dispatch_command pt now cmd s) (\<lambda>_. told owed (owes cmd)) (told owed None)"
proof (cases "cc_payload cmd")
  case (ChangeStatus p)
  let ?I = "told owed None"
  have upd: "keeps ?I (update_status x)" "keeps ?I (update_status_with_metadata x a r n y now)" for x a r n y
    unfolding update_status_def update_status_with_metadata_def
    by (rule keeps_write, simp add: told_def done_owing_def rows_written_def rows_told_def upd_conv_def)+
  have said: "triple ?I (save_and_publish (cc_tenant cmd) (StatusChanged st old (sp_agent p) (default_to ''agent'' (sp_source p))) now)
      (\<lambda>_. told owed (owes cmd)) ?I" if "sp_status p = st" for old st
    using publish_records[of owed "cc_tenant cmd" "StatusChanged st old (sp_agent p) (default_to ''agent'' (sp_source p))" now] that
    by (simp add: forget_old_def owes_def ChangeStatus)
  note say = triple_then[OF upd(1)[unfolded keeps_def] said] triple_then[OF upd(2)[unfolded keeps_def] said]
  have "triple ?I (handle_change_status now cmd p) (\<lambda>_. told owed (owes cmd)) ?I"
    unfolding handle_change_status_def
  proof (rule triple_bind[OF keeps_find[unfolded keeps_def]], goal_cases)
    case (1 c)
    show ?case
      by (cases c) (auto intro!: triple_throw say split: option.split)
  qed
  with ChangeStatus show ?thesis by (simp add: dispatch_command_def)
next
  case (UpdateBotState f r a)
  have "triple (told owed None) (handle_update_bot_state now cmd f r a) (\<lambda>_. told owed (owes cmd)) (told owed None)"
    unfolding handle_update_bot_state_def
    using triple_then[OF bot_update[OF told_calm(1), unfolded keeps_def] publish_records[of owed "cc_tenant cmd" "BotStateEvent (bot_event_type f) r a" now]]
    by (simp add: forget_old_def owes_def UpdateBotState)
  with UpdateBotState show ?thesis by (simp add: dispatch_command_def)
qed (simp_all add: dispatch_command_def owes_def message_keeps[OF told_calm(3), unfolded keeps_def]
    bot_reply_keeps[OF told_calm(1), unfolded keeps_def] calm_assign[OF told_calm(4), unfolded keeps_def])

lemma done_once:
  "length (filter (\<lambda>l. le_completed l \<and> owed (le_operation l) = Some x) (update_first (\<lambda>l. le_operation l = i) (\<lambda>l. l\<lparr>le_completed := True\<rparr>) ls))
   \<le> length (filter (\<lambda>l. le_completed l \<and> owed (le_operation l) = Some x) ls) + (if owed i = Some x then 1 else 0)"
  by (induction ls) (auto simp: update_first_def split: prod.splits)

lemma told_process:
  assumes "owed (cc_operation cmd) = owes cmd"
  shows "keeps (told owed None) (process_command pt now cmd)"
proof -
  let ?I = "told owed None"
  have claim: "keeps ?I (claim_operation now cmd)"
    by (rule claim_conv) (auto simp: told_def done_owing_def rows_written_def rows_told_def upd_conv_def)
  have complete: "triple (told owed (owes cmd)) (complete_operation (cc_operation cmd)) (\<lambda>_. ?I) ?I"
    unfolding complete_operation_def
  proof (rule triple_write)
    fix w assume w: "told owed (owes cmd) w"
    let ?w = "w\<lparr>ow_ledger := update_first (\<lambda>l. le_operation l = cc_operation cmd) (\<lambda>l. l\<lparr>le_completed := True\<rparr>) (ow_ledger w)\<rparr>"
    show "?I w" by (rule told_less[OF w])
    have "done_owing owed x ?w \<le> rows_written x ?w" for x
    proof -
      have "done_owing owed x ?w \<le> done_owing owed x w + (if owes cmd = Some x then 1 else 0)"
        using done_once[of owed x "cc_operation cmd" "ow_ledger w"] by (simp add: done_owing_def assms)
      also have "\<dots> \<le> rows_written x w" using w by (simp add: told_def)
      finally show ?thesis by (simp add: rows_written_def)
    qed
    with w show "?I ?w" by (simp add: told_def rows_told_def)
    then show "?I ?w" .
  qed
  show ?thesis
    unfolding keeps_def process_command_def
  proof (rule triple_bind[OF claim[unfolded keeps_def]])
    fix r
    show "triple ?I (case r of None \<Rightarrow> give () | Some s \<Rightarrow> then_act (dispatch_command pt now cmd s) (complete_operation (cc_operation cmd))) (\<lambda>_. ?I) ?I"
      by (cases r) (auto intro: triple_give triple_then[OF told_dispatch complete])
  qed
qed

lemma told_expiry: "told owed None w \<Longrightarrow> told owed None (purge_expired now w)"
proof -
  assume w: "told owed None w"
  have "length (filter P (filter Q xs)) + length (filter P (filter (\<lambda>x. \<not> Q x) xs)) = length (filter P xs)" for P Q and xs :: "outbox_row list"
    by (induction xs) auto
  then have rows: "rows_written x (purge_expired now w) = rows_written x w" for x
    by (simp add: rows_written_def purge_expired_def add.commute add.left_commute)
  have fewer: "length (filter P (filter Q xs)) \<le> length (filter P xs)" for P Q and xs :: "ledger_entry list"
    by (induction xs) auto
  have "done_owing owed x (purge_expired now w) \<le> done_owing owed x w" for x
    using fewer[of "\<lambda>l. le_completed l \<and> owed (le_operation l) = Some x" "\<lambda>l. \<not> entry_expired now l" "ow_ledger w"]
    by (simp add: done_owing_def purge_expired_def del: filter_filter)
  then have "done_owing owed x (purge_expired now w) \<le> rows_written x (purge_expired now w)" for x
    using w le_trans unfolding told_def rows by fastforce
  moreover have "rows_told (purge_expired now w)" using w by (auto simp: told_def rows_told_def purge_expired_def row_expired_def)
  ultimately show ?thesis by (simp add: told_def)
qed

text \<open>The event that the command with the operation id \<open>i\<close> owes.\<close>

definition owed_in :: "(ops_run \<times> fate list) list \<Rightarrow> string \<Rightarrow> conversation_event option" where
  "owed_in h i = Option.bind (List.find (\<lambda>c. cc_operation c = i) (commands_of h)) owes"

lemma owed_command:
  assumes "inj_on cc_operation (set (commands_of h))" "cmd \<in> set (commands_of h)"
  shows "owed_in h (cc_operation cmd) = owes cmd"
proof (cases "List.find (\<lambda>c. cc_operation c = cc_operation cmd) (commands_of h)")
  case (Some c)
  then have "c \<in> set (commands_of h)" "cc_operation c = cc_operation cmd" by (auto simp: find_Some_iff)
  with assms have "c = cmd" by (auto simp: inj_on_def)
  with Some show ?thesis by (simp add: owed_in_def)
qed (use assms(2) in \<open>auto simp: find_None_iff\<close>)

text \<open>C21: What the ledger calls completed was announced: for every event (up to the status before), there are at least as
  many rows of the outbox with it as completed status changes and changes of the bot state that owe it, however often the
  commands were interrupted and run again. A row that is published was handed to the listeners, and only such rows ever
  leave the outbox, when they expire.\<close>
theorem completed_changes_are_announced:
  assumes "ow_ledger w = []" "ow_outbox w = []" "ow_purged w = []" "inj_on cc_operation (set (commands_of h))"
  shows "let v = run_history pt h w in
      length (filter (\<lambda>l. le_completed l \<and> owed_in h (le_operation l) = Some e) (ow_ledger v))
        \<le> length (filter (\<lambda>r. forget_old (ob_event r) = e) (ow_outbox v @ ow_purged v))
    \<and> filter (\<lambda>r. ob_status r = ObPublished \<and> ob_id r \<notin> set (ow_heard v)) (ow_outbox v @ ow_purged v) = []
    \<and> filter (\<lambda>r. ob_status r \<noteq> ObPublished) (ow_purged v) = []"
proof -
  let ?I = "told (owed_in h) None"
  have "?I (run_history pt h w)"
  proof (rule history_keeps)
    show "keeps ?I (process_command pt now cmd)" if "Run now cmd \<in> fst ` set h" for now cmd
      by (rule told_process) (rule owed_command[OF assms(4) command_in_history[OF that]])
    show "keeps ?I (drain_pending now)" for now by (rule calm_drain[OF told_calm(4)])
    show "keeps ?I reopen_conversation"
      by (rule reopen_keeps) (simp add: told_def done_owing_def rows_written_def rows_told_def upd_conv_def)
    show "keeps ?I (ensure_bot_state x)" for x by (rule ensure_bot_keeps[OF told_calm(1)])
    show "?I (purge_expired now v)" if "?I v" for now v using that by (rule told_expiry)
    show "?I w" using assms(1-3) by (simp add: told_def done_owing_def rows_written_def rows_told_def)
  qed
  then show ?thesis by (auto simp: told_def done_owing_def rows_written_def rows_told_def Let_def filter_empty_conv)
qed


section \<open>Draining the outbox\<close>

definition settle_row :: "int \<Rightarrow> outbox_row \<Rightarrow> outbox_row" where
  "settle_row now r = (if max_outbox_retries \<le> ob_retries r then r\<lparr>ob_status := ObFailed, ob_error := Some ''Exceeded max retries (10)''\<rparr>
     else r\<lparr>ob_claimed := Some now, ob_status := ObPublished, ob_published := Some now\<rparr>)"

lemma settle_id [simp]: "ob_id (settle_row now r) = ob_id r"
  by (simp add: settle_row_def)

definition settle_at :: "int \<Rightarrow> nat \<Rightarrow> outbox_row list \<Rightarrow> outbox_row list" where
  "settle_at now i rows = map (\<lambda>x. if ob_id x = i then settle_row now x else x) rows"

lemma find_row:
  assumes "distinct (map ob_id rows)" "r \<in> set rows" "P r" "\<And>x. P x \<Longrightarrow> ob_id x = ob_id r"
  shows "find_and_update P f rows = (Some (f r), map (\<lambda>x. if ob_id x = ob_id r then f x else x) rows)"
  using assms
proof (induction rows)
  case (Cons y ys)
  show ?case
  proof (cases "ob_id y = ob_id r")
    case True
    with Cons.prems(1,2) have "y = r" by (auto simp: image_iff)
    moreover have "map (\<lambda>x. if ob_id x = ob_id r then f x else x) ys = ys"
      using Cons.prems(1) True by (intro map_idI) (auto simp: image_iff)
    ultimately show ?thesis using Cons.prems(3) by simp
  next
    case False
    with Cons.prems(4) have "\<not> P y" by blast
    moreover have "find_and_update P f ys = (Some (f r), map (\<lambda>x. if ob_id x = ob_id r then f x else x) ys)"
    proof -
      have ys: "distinct (map ob_id ys)" "r \<in> set ys" using Cons.prems(1,2) False by auto
      show ?thesis using Cons.IH[OF ys Cons.prems(3)] Cons.prems(4) by blast
    qed
    ultimately show ?thesis using False by simp
  qed
next
  case Nil
  from Nil(2) show ?case by simp
qed

lemma drain_one_works:
  assumes "distinct (map ob_id (ow_outbox w))" "r \<in> set (ow_outbox w)" "ob_status r = ObPending"
  shows "drain_one now r ([], w) = (Done (), [], w\<lparr>ow_outbox := settle_at now (ob_id r) (ow_outbox w),
    ow_heard := ow_heard w @ (if max_outbox_retries \<le> ob_retries r then [] else [ob_id r])\<rparr>)"
proof -
  have only: "x = r" if "x \<in> set (ow_outbox w)" "ob_id x = ob_id r" for x
    using assms(1,2) that by (auto simp: distinct_map inj_on_def)
  show ?thesis
  proof (cases "max_outbox_retries \<le> ob_retries r")
    case True
    have "map (\<lambda>x. if ob_id x = ob_id r then x\<lparr>ob_status := ObFailed, ob_error := Some ''Exceeded max retries (10)''\<rparr> else x) (ow_outbox w)
        = settle_at now (ob_id r) (ow_outbox w)"
      unfolding settle_at_def by (rule map_cong[OF refl]) (auto simp: settle_row_def True dest: only)
    then show ?thesis using True
      by (simp add: drain_one_def mark_permanently_failed_def upd_row_def update_first_def find_row[OF assms(1,2)])
  next
    case False
    let ?rows = "map (\<lambda>x. if ob_id x = ob_id r then x\<lparr>ob_claimed := Some now\<rparr> else x) (ow_outbox w)"
    have claim: "claim_row now r ([], w) = (Done True, [], w\<lparr>ow_outbox := ?rows\<rparr>)"
      using find_row[OF assms(1,2), of "\<lambda>x. ob_id x = ob_id r \<and> ob_status x = ObPending \<and> ob_claimed x = ob_claimed r" "\<lambda>x. x\<lparr>ob_claimed := Some now\<rparr>"] assms(3)
      by (simp add: claim_row_def)
    have ids: "distinct (map ob_id ?rows)"
    proof -
      have "map ob_id ?rows = map ob_id (ow_outbox w)" by simp
      with assms(1) show ?thesis by metis
    qed
    have c: "r\<lparr>ob_claimed := Some now\<rparr> \<in> set ?rows" using assms(2) by force
    have "map (\<lambda>x. if ob_id x = ob_id r then x\<lparr>ob_status := ObPublished, ob_published := Some now\<rparr> else x) ?rows = settle_at now (ob_id r) (ow_outbox w)"
      unfolding settle_at_def map_map by (rule map_cong[OF refl]) (auto simp: settle_row_def False dest: only)
    moreover have "snd (find_and_update (\<lambda>x. ob_id x = ob_id r) (\<lambda>x. x\<lparr>ob_status := ObPublished, ob_published := Some now\<rparr>) ?rows)
        = map (\<lambda>x. if ob_id x = ob_id r then x\<lparr>ob_status := ObPublished, ob_published := Some now\<rparr> else x) ?rows"
      using find_row[OF ids c, of "\<lambda>x. ob_id x = ob_id r" "\<lambda>x. x\<lparr>ob_status := ObPublished, ob_published := Some now\<rparr>"] by simp
    ultimately show ?thesis using False
      by (simp add: drain_one_def publish_claimed_def emit_async_def claim attempt_act_def then_act_def bind_act_def upd_row_def update_first_def)
  qed
qed

lemma settled_rest:
  assumes "distinct (map ob_id rows)" "r \<in> set rows" "x \<in> set rows" "x \<noteq> r"
  shows "x \<in> set (settle_at now (ob_id r) rows)"
  using assms by (force simp: settle_at_def distinct_map inj_on_def image_iff)

lemma settle_ids [simp]: "map ob_id (settle_at now i rows) = map ob_id rows"
  by (simp add: settle_at_def)

lemma drain_batch_works:
  assumes "distinct (map ob_id (ow_outbox w))" "distinct rs" "set rs \<subseteq> set (ow_outbox w)" "\<forall>r \<in> set rs. ob_status r = ObPending"
  shows "each_act (drain_one now) rs ([], w) = (Done (), [], w\<lparr>ow_outbox := fold (\<lambda>r. settle_at now (ob_id r)) rs (ow_outbox w),
    ow_heard := ow_heard w @ map ob_id (filter (\<lambda>r. ob_retries r < max_outbox_retries) rs)\<rparr>)"
  using assms
proof (induction rs arbitrary: w)
  case (Cons r rs)
  let ?w = "w\<lparr>ow_outbox := settle_at now (ob_id r) (ow_outbox w), ow_heard := ow_heard w @ (if max_outbox_retries \<le> ob_retries r then [] else [ob_id r])\<rparr>"
  have r: "r \<in> set (ow_outbox w)" "ob_status r = ObPending" using Cons.prems(3,4) by auto
  have "each_act (drain_one now) rs ([], ?w) = (Done (), [], ?w\<lparr>ow_outbox := fold (\<lambda>r. settle_at now (ob_id r)) rs (ow_outbox ?w),
    ow_heard := ow_heard ?w @ map ob_id (filter (\<lambda>r. ob_retries r < max_outbox_retries) rs)\<rparr>)"
  proof (rule Cons.IH)
    show "set rs \<subseteq> set (ow_outbox ?w)"
      using Cons.prems settled_rest[OF Cons.prems(1) r(1)] by (auto simp: subset_iff)
  qed (use Cons.prems in simp_all)
  then show ?case
    by (simp add: then_act_def bind_act_def drain_one_works[OF Cons.prems(1) r])
qed (simp add: give_def)

definition settled_id :: "nat \<Rightarrow> outbox_row list \<Rightarrow> bool" where
  "settled_id j rows \<longleftrightarrow> (\<forall>x \<in> set rows. ob_id x = j \<longrightarrow> ob_status x \<noteq> ObPending)"

lemma settle_settles: "settled_id i (settle_at now i rows)" "settled_id j rows \<Longrightarrow> settled_id j (settle_at now i rows)"
proof -
  have s: "ob_status (settle_row now x) \<noteq> ObPending" for x by (simp add: settle_row_def)
  then show "settled_id i (settle_at now i rows)" by (simp add: settled_id_def settle_at_def ball_Un)
  show "settled_id j rows \<Longrightarrow> settled_id j (settle_at now i rows)" using s by (simp add: settled_id_def settle_at_def ball_Un)
qed

lemma settled_fold: "j \<in> ob_id ` set rs \<or> settled_id j rows \<Longrightarrow> settled_id j (fold (\<lambda>r. settle_at now (ob_id r)) rs rows)"
proof (induction rs arbitrary: rows)
  case (Cons r rs)
  have "j \<in> ob_id ` set rs \<or> settled_id j (settle_at now (ob_id r) rows)"
    using Cons.prems settle_settles by auto
  then show ?case using Cons.IH by simp
qed simp

lemma pending_rows_facts:
  assumes "distinct (map ob_id (ow_outbox w))"
  shows "distinct (pending_rows now w)" "set (pending_rows now w) \<subseteq> set (ow_outbox w)" "\<forall>r \<in> set (pending_rows now w). ob_status r = ObPending"
proof -
  show "distinct (pending_rows now w)" using assms by (simp add: pending_rows_def distinct_map)
  have "set (pending_rows now w) \<subseteq> set (filter (claimable_row now) (ow_outbox w))"
    unfolding pending_rows_def using set_take_subset by fastforce
  then show "set (pending_rows now w) \<subseteq> set (ow_outbox w)" "\<forall>r \<in> set (pending_rows now w). ob_status r = ObPending"
    by (auto simp: claimable_row_def)
qed

text \<open>C23: A run of the publisher in which nothing fails settles its whole batch: every row of it that had not used up its
  retries is handed to the listeners exactly once and in order, and none of the batch is left pending.\<close>
theorem publisher_settles_its_batch:
  assumes "distinct (map ob_id (ow_outbox w))"
  shows "let v = snd (snd (drain_pending now ([], w))); batch = pending_rows now w
    in ow_heard v = ow_heard w @ map ob_id (filter (\<lambda>r. ob_retries r < max_outbox_retries) batch)
      \<and> filter (\<lambda>r. ob_status r = ObPending \<and> ob_id r \<in> ob_id ` set batch) (ow_outbox v) = []"
proof -
  let ?rs = "pending_rows now w"
  have run: "drain_pending now ([], w) = (Done (), [], w\<lparr>ow_outbox := fold (\<lambda>r. settle_at now (ob_id r)) ?rs (ow_outbox w),
    ow_heard := ow_heard w @ map ob_id (filter (\<lambda>r. ob_retries r < max_outbox_retries) ?rs)\<rparr>)"
    using drain_batch_works[OF assms pending_rows_facts[OF assms], of now] by (simp add: drain_pending_def bind_act_def)
  have "settled_id j (fold (\<lambda>r. settle_at now (ob_id r)) ?rs (ow_outbox w))" if "j \<in> ob_id ` set ?rs" for j
    using settled_fold that by blast
  then show ?thesis unfolding run Let_def by (auto simp: filter_empty_conv settled_id_def)
qed

end
