(* ===== verification/Conversation_Runs.thy ===== *)
theory Conversation_Runs
  imports Conversation_Events
begin

text \<open>
  Runs of one conversation: the properties at concrete histories, and the histories in which an event is lost or told twice.
\<close>

section \<open>A conversation\<close>

definition quiet_bot :: bot_state where
  "quiet_bot = \<lparr>bs_enabled = Some False, bs_status = Some BotEnded, bs_session = None, bs_provider = None, bs_last_error = None,
     bs_handoff_reason = None, bs_handoff_message = None, bs_handoff_target = None, bs_handoff_target_id = None,
     bs_handed_off_at = None, bs_handed_off_by = None\<rparr>"

definition demo_conv :: conversation_doc where
  "demo_conv = \<lparr>cd_tenant = ''t'', cd_status = ''open'', cd_agent = None, cd_group = None, cd_queued_at = Some 0, cd_assigned_at = None,
     cd_queued_ms = 0, cd_bot = quiet_bot, cd_next_sequence = 0, cd_last_sequence = 0, cd_message_count = 0, cd_unread = 0,
     cd_preview = None, cd_last_customer_at = None, cd_channel_type = ''telegram'', cd_channel_account = None, cd_channel = Some ''ch'',
     cd_contact = None, cd_resolved = None, cd_resolve_reason = None, cd_resolve_note = None\<rparr>"

definition demo_ops :: "conversation_doc \<Rightarrow> ops_world" where
  "demo_ops d = \<lparr>ow_conv = Some d, ow_messages = [], ow_ledger = [], ow_outbox = [], ow_purged = [], ow_heard = [], ow_effects = [],
     ow_next_message = 0, ow_next_row = 0\<rparr>"

definition demo_ports_ops :: ops_ports where
  "demo_ports_ops = \<lparr>op_field_path = (\<lambda>s. if s = ''$'' then Inl ''not a valid FieldPath'' else Inr (\<lambda>_. None)),
     op_presign = (\<lambda>k. Inr k), op_open_offer = Inr False, op_send = (\<lambda>k m t. if bm_text m = Some ''two'' then Inl ''refused'' else Inr k),
     op_inbound_time = (\<lambda>_. Inr None), op_valid_id = (\<lambda>_. True), op_user = (\<lambda>_. Inr True), op_group = (\<lambda>_. Inr True),
     op_agent_eligible = (\<lambda>_ _. Inr ()), op_group_eligible = (\<lambda>_ _. Inr ())\<rparr>"

definition demo_payload :: "string \<Rightarrow> inbound_payload" where
  "demo_payload s = \<lparr>ip_tenant = ''t'', ip_sender = ''c'', ip_sender_type = ''customer'', ip_message_type = ''text'', ip_content = Some s,
     ip_media_url = None, ip_storage_key = None, ip_provider_time = None, ip_time = 5\<rparr>"

definition demo_message :: "string \<Rightarrow> string \<Rightarrow> conversation_command" where
  "demo_message op s = make_command op ''v'' ''t'' (CustomerMessage (demo_payload s) op)"

definition demo_status :: "conversation_status \<Rightarrow> conversation_command" where
  "demo_status s = make_command ''s1'' ''v'' ''t'' (ChangeStatus \<lparr>sp_status = s, sp_agent = None, sp_reason = None, sp_note = None, sp_source = None\<rparr>)"

definition demo_reply :: "bot_message list \<Rightarrow> conversation_command" where
  "demo_reply ms = make_command ''b1'' ''v'' ''t'' (BotReply \<lparr>br_messages = ms, br_handoff = False,
     br_meta = \<lparr>hm_target = None, hm_group = None, hm_agent = None, hm_message = None\<rparr>, br_session = None, br_status = BotActive,
     br_end_reason = None, br_inbound = ''m'', br_after = None\<rparr>)"

definition demo_assign :: "string patch \<Rightarrow> assign_payload" where
  "demo_assign previous = \<lparr>as_agent = Put ''x'', as_group = Keep, as_previous_agent = previous,
     as_previous_group = Keep, as_performed_by = None, as_reason = ''manual'', as_only_unassigned = False,
     as_sync = Some \<lparr>sc_release = None, sc_assign = Some ''x''\<rparr>, as_audit_channel = Some ''telegram''\<rparr>"

definition demo_assignment :: "string patch \<Rightarrow> conversation_command" where
  "demo_assignment previous = make_command ''a1'' ''v'' ''t'' (AssignAgent (demo_assign previous))"

section \<open>The properties on it\<close>

lemma closed_is_final_witness:
  "map_option cd_status (ow_conv (run_history demo_ports_ops [(Run 1 (demo_status CsOpen), []), (Run 2 (demo_message ''o1'' ''hi''), [])]
     (demo_ops (demo_conv\<lparr>cd_status := ''closed''\<rparr>)))) = Some ''closed''"
  using closed_is_final[of "demo_ops (demo_conv\<lparr>cd_status := ''closed''\<rparr>)" demo_ports_ops
      "[(Run 1 (demo_status CsOpen), []), (Run 2 (demo_message ''o1'' ''hi''), [])]"]
  by (simp add: demo_ops_def split: option.splits)

definition demo_reopened :: "(ops_run \<times> fate list) list" where
  "demo_reopened = [(Run 1 (demo_status CsResolved), []), (Reopen, []), (EnsureBot Keep, []),
     (Run 2 (demo_reply [\<lparr>bm_type = ''text'', bm_text = Some ''one'', bm_url = None\<rparr>]), [])]"

definition demo_history :: "(ops_run \<times> fate list) list" where
  "demo_history = [(Run 1 (demo_message ''o1'' ''hi''), [Works, Works, Fails ''down'']), (Run 2 (demo_message ''o1'' ''hi''), []),
     (Run 3 (demo_message ''o2'' ''there''), []),
     (Purge (40 * day_ms), []), (Run (40 * day_ms) (demo_message ''o1'' ''hi''), [])]"

lemma messages_are_ordered_and_kept_once_witness:
  "distinct (map im_sequence (ow_messages (run_history demo_ports_ops demo_history (demo_ops demo_conv))))
   \<and> map im_sequence (ow_messages (run_history demo_ports_ops demo_history (demo_ops demo_conv))) = [2, 3]"
proof -
  have "fresh_conversation (demo_ops demo_conv)" by (simp add: fresh_conversation_def demo_ops_def demo_conv_def)
  moreover have "inj_on cc_operation (set (commands_of demo_history))"
    by (simp add: demo_history_def commands_of_def List.map_filter_def run_command_def demo_message_def make_command_def inj_on_def)
  ultimately have "distinct (map im_sequence (ow_messages (run_history demo_ports_ops demo_history (demo_ops demo_conv))))"
    using messages_are_ordered_and_kept_once[of "demo_ops demo_conv" demo_history demo_ports_ops] by (simp add: Let_def)
  moreover have "map im_sequence (ow_messages (run_history demo_ports_ops demo_history (demo_ops demo_conv))) = [2, 3]" by code_simp
  ultimately show ?thesis by simp
qed

lemma takeover_silences_bot_witness:
  "filter is_bot_sent (ow_effects (run_history demo_ports_ops demo_reopened (demo_ops demo_conv))) = []
   \<and> map_option (\<lambda>d. (cd_status d, bs_status (cd_bot d))) (ow_conv (run_history demo_ports_ops demo_reopened (demo_ops demo_conv)))
      = Some (''open'', Some BotActive)"
proof
  have "ow_conv (demo_ops demo_conv) = Some demo_conv" "\<not> bot_on (cd_bot demo_conv)" "cd_bot demo_conv \<noteq> no_bot"
    "filter is_bot_update (commands_of demo_reopened) = []" "bs_enabled (cd_bot demo_conv) \<noteq> Some True"
    by (simp_all add: demo_ops_def demo_conv_def bot_on_def quiet_bot_def no_bot_def demo_reopened_def commands_of_def List.map_filter_def
        run_command_def is_bot_update_def demo_reply_def demo_status_def make_command_def)
  from takeover_silences_bot[OF this, of demo_ports_ops]
  show "filter is_bot_sent (ow_effects (run_history demo_ports_ops demo_reopened (demo_ops demo_conv))) = []"
    by (simp add: demo_ops_def)
  show "map_option (\<lambda>d. (cd_status d, bs_status (cd_bot d))) (ow_conv (run_history demo_ports_ops demo_reopened (demo_ops demo_conv)))
      = Some (''open'', Some BotActive)" by code_simp
qed

lemma stale_assignments_change_nothing_witness:
  "outside (snd (snd (process_command demo_ports_ops 1 (demo_assignment (Put ''y'')) ([Works, Works], demo_ops demo_conv)))) = outside (demo_ops demo_conv)"
proof (rule stale_assignments_change_nothing)
  show "ow_conv (demo_ops demo_conv) = Some demo_conv" by (simp add: demo_ops_def)
  show "cc_payload (demo_assignment (Put ''y'')) = AssignAgent (demo_assign (Put ''y''))" by (simp add: demo_assignment_def make_command_def)
  show "stale_assignment (demo_assign (Put ''y'')) demo_conv" by (simp add: stale_assignment_def demo_assign_def demo_conv_def)
qed

definition demo_interrupted :: "(ops_run \<times> fate list) list" where
  "demo_interrupted = [(Run 1 (demo_status CsResolved), [Works, Works, Works, Works, Fails ''down'']), (Run 2 (demo_status CsResolved), []),
     (Purge (2 + 7 * day_ms), [])]"

lemma completed_changes_are_announced_witness:
  "let v = run_history demo_ports_ops demo_interrupted (demo_ops demo_conv) in
     map le_completed (ow_ledger v) = [True] \<and> ow_outbox v = [] \<and> length (ow_purged v) = 1
     \<and> length (filter (\<lambda>l. le_completed l \<and> owed_in demo_interrupted (le_operation l) = Some (StatusChanged CsResolved CsOpen None ''agent'')) (ow_ledger v))
        \<le> length (filter (\<lambda>r. forget_old (ob_event r) = StatusChanged CsResolved CsOpen None ''agent'') (ow_outbox v @ ow_purged v))"
proof -
  have "inj_on cc_operation (set (commands_of demo_interrupted))"
    by (simp add: demo_interrupted_def commands_of_def List.map_filter_def run_command_def)
  from completed_changes_are_announced[OF _ _ _ this, of "demo_ops demo_conv" demo_ports_ops]
  have "let v = run_history demo_ports_ops demo_interrupted (demo_ops demo_conv) in
      length (filter (\<lambda>l. le_completed l \<and> owed_in demo_interrupted (le_operation l) = Some (StatusChanged CsResolved CsOpen None ''agent'')) (ow_ledger v))
        \<le> length (filter (\<lambda>r. forget_old (ob_event r) = StatusChanged CsResolved CsOpen None ''agent'') (ow_outbox v @ ow_purged v))"
    by (simp add: demo_ops_def Let_def)
  moreover have "let v = run_history demo_ports_ops demo_interrupted (demo_ops demo_conv) in
      map le_completed (ow_ledger v) = [True] \<and> ow_outbox v = [] \<and> length (ow_purged v) = 1" by code_simp
  ultimately show ?thesis by (simp add: Let_def)
qed

definition demo_pending :: ops_world where
  "demo_pending = (demo_ops demo_conv)\<lparr>ow_outbox := [\<lparr>ob_id = 0, ob_tenant = ''t'', ob_event = BotStateEvent ''e'' ''r'' None, ob_status = ObPending,
     ob_retries = 10, ob_claimed = None, ob_created = 1, ob_error = None, ob_published = None\<rparr>, \<lparr>ob_id = 1, ob_tenant = ''t'', ob_event = BotStateEvent ''e'' ''r'' None,
     ob_status = ObPending, ob_retries = 2, ob_claimed = Some 5, ob_created = 0, ob_error = None, ob_published = None\<rparr>]\<rparr>"

lemma publisher_settles_its_batch_witness: "ow_heard (snd (snd (drain_pending 60005 ([], demo_pending)))) = [1]"
proof -
  have "distinct (map ob_id (ow_outbox demo_pending))" by (simp add: demo_pending_def)
  from publisher_settles_its_batch[OF this, of 60005]
  have "ow_heard (snd (snd (drain_pending 60005 ([], demo_pending)))) = ow_heard demo_pending @ map ob_id (filter (\<lambda>r. ob_retries r < max_outbox_retries) (pending_rows 60005 demo_pending))"
    by (simp only: Let_def)
  also have "\<dots> = [1]" by code_simp
  finally show ?thesis .
qed

text \<open>A bot that ended stays enabled: when the conversation is reopened, outside any command on the bot, it answers again.\<close>
lemma reopening_restarts_ended_bot:
  "let b = quiet_bot\<lparr>bs_enabled := Some True\<rparr>;
       w = run_history demo_ports_ops [(Reopen, []), (Run 1 (demo_reply [\<lparr>bm_type = ''text'', bm_text = Some ''one'', bm_url = None\<rparr>]), [])]
         (demo_ops (demo_conv\<lparr>cd_status := ''resolved'', cd_bot := b\<rparr>))
   in ow_effects w = [BotSent ''bot:m:0'']"
  by code_simp

section \<open>Where an event is lost or told twice\<close>

text \<open>
  The summary of a new message fails (or the process dies there). The retry finds the message its first attempt inserted,
  takes it for a duplicate delivery and completes: no count, no summary, no event, no bot.
\<close>
lemma interrupted_message_is_never_announced:
  "let w = run_history demo_ports_ops [(Run 1 (demo_message ''o1'' ''hi''), [Works, Works, Works, Works, Dies]), (Run 2 (demo_message ''o1'' ''hi''), [])] (demo_ops demo_conv)
   in map le_completed (ow_ledger w) = [True] \<and> map im_external (ow_messages w) = [''o1''] \<and> ow_outbox w = [] \<and> ow_effects w = []
     \<and> map_option cd_message_count (ow_conv w) = Some 0"
  by code_simp

text \<open>A message of one dollar sign: the summary is refused as a field path on the first attempt, the rest is as above.\<close>
lemma dollar_message_is_never_announced:
  "let w = run_history demo_ports_ops [(Run 1 (demo_message ''o1'' ''$''), []), (Run 2 (demo_message ''o1'' ''$''), [])] (demo_ops demo_conv)
   in map le_completed (ow_ledger w) = [True] \<and> map im_external (ow_messages w) = [''o1''] \<and> ow_outbox w = []
     \<and> map_option cd_message_count (ow_conv w) = Some 0"
  by code_simp

text \<open>An assignment that was written and then interrupted: the retry compares with the agent it replaced, finds the new one, and gives up.\<close>
lemma interrupted_assignment_is_never_announced:
  "let w = run_history demo_ports_ops [(Run 1 (demo_assignment Clear), [Works, Works, Works, Fails ''down'']), (Run 2 (demo_assignment Clear), [])] (demo_ops demo_conv)
   in map le_completed (ow_ledger w) = [True] \<and> map_option cd_agent (ow_conv w) = Some (Some ''x'') \<and> ow_outbox w = [] \<and> ow_effects w = []"
  by code_simp

text \<open>The summary after bot messages takes the text of the last one and the id of the last one that was sent.\<close>
lemma bot_summary_mixes_messages:
  "let b = quiet_bot\<lparr>bs_enabled := Some True, bs_status := Some BotActive\<rparr>;
       w = run_history demo_ports_ops [(Run 1 (demo_reply [\<lparr>bm_type = ''text'', bm_text = Some ''one'', bm_url = None\<rparr>,
             \<lparr>bm_type = ''text'', bm_text = Some ''two'', bm_url = None\<rparr>]), [])] (demo_ops (demo_conv\<lparr>cd_bot := b\<rparr>))
   in map_option (\<lambda>d. map_option (\<lambda>p. (pv_message p, pv_text p)) (cd_preview d)) (ow_conv w) = Some (Some (''bot:m:0'', Some ''two''))"
  by code_simp

text \<open>The publisher takes every pending row that is not claimed, and the processor claims none while it publishes its own.\<close>
lemma row_being_published_is_published_again:
  "let w1 = snd (snd (create_row ''t'' (BotStateEvent ''e'' ''r'' None) 0 ([], demo_ops demo_conv)));
       w2 = snd (snd (drain_pending 1 ([], w1)))
   in ow_heard (snd (snd (emit_async 0 ([], w2)))) = [0, 0]"
  by code_simp

end
