(* ===== verification/Redis_Lock.thy ===== *)
theory Redis_Lock
  imports Js_Value
begin

text \<open>
  Locks and idempotency keys in Redis (\<open>redis/redis-lock.service.ts\<close>, \<open>redis/idempotency.service.ts\<close>,
  \<open>common/scheduling/cluster-singleton.ts\<close>): the scripts on one key, the loop that takes a lock, the leases of the
  claim-work-commit pattern, and what two holders can never do to each other while a lease lasts.
\<close>

section \<open>A key\<close>

text \<open>Value and moment of expiry in milliseconds.\<close>

type_synonym cell = "(string \<times> int) option"

definition cell_get :: "int \<Rightarrow> cell \<Rightarrow> string option" where
  "cell_get now c = (case c of Some (v, expires) \<Rightarrow> if now < expires then Some v else None | None \<Rightarrow> None)"

text \<open>\<open>SET key value PX ttl NX\<close>.\<close>

definition set_nx :: "int \<Rightarrow> string \<Rightarrow> int \<Rightarrow> cell \<Rightarrow> bool \<times> cell" where
  "set_nx now v ttl c = (if cell_get now c = None then (True, Some (v, now + ttl)) else (False, c))"

definition release_script :: "int \<Rightarrow> string \<Rightarrow> cell \<Rightarrow> cell" where
  "release_script now v c = (if cell_get now c = Some v then None else c)"

definition extend_script :: "int \<Rightarrow> string \<Rightarrow> int \<Rightarrow> cell \<Rightarrow> bool \<times> cell" where
  "extend_script now v ttl c = (if cell_get now c = Some v then (True, Some (v, now + ttl)) else (False, c))"

section \<open>Taking a lock\<close>

record acquire_options =
  ao_ttl :: "int option"
  ao_delay :: "int option"
  ao_retries :: "int option"

definition effective_max_retries :: "acquire_options \<Rightarrow> int" where
  "effective_max_retries opts =
     default_to (max 50 (- ((- (3 * default_to 5000 (ao_ttl opts))) div (2 * default_to 100 (ao_delay opts))))) (ao_retries opts)"

definition heartbeat_ms :: "int \<Rightarrow> int" where "heartbeat_ms ttl = max 100 (ttl div 3)"

definition is_lock_contention :: "string \<Rightarrow> bool" where
  "is_lock_contention message = includes_str message ''Could not acquire lock for key''"

text \<open>
  What happens to the key while the callback runs: a heartbeat, whose call may fail, or what anybody else does to it.
  The lock counts as lost once a heartbeat failed or found another value.
\<close>

datatype beat = Beat int | Beat_fails | Others "cell \<Rightarrow> cell"

definition beat_step :: "string \<Rightarrow> int \<Rightarrow> beat \<Rightarrow> bool \<times> cell \<Rightarrow> bool \<times> cell" where
  "beat_step v ttl b lc =
     (case b of
        Beat t \<Rightarrow> (case extend_script t v ttl (snd lc) of (ok, c) \<Rightarrow> (fst lc \<or> \<not> ok, c))
      | Beat_fails \<Rightarrow> (True, snd lc)
      | Others f \<Rightarrow> (fst lc, f (snd lc)))"

text \<open>
  The callback has its answer and its end; afterwards the lock is released if it is still held. Without an end the
  call of the release script failed, which is only logged.
\<close>

definition run_locked ::
  "string \<Rightarrow> int \<Rightarrow> beat list \<Rightarrow> int option \<Rightarrow> (string, 'a) result \<Rightarrow> string \<Rightarrow> cell \<Rightarrow> (string, 'a) result \<times> cell" where
  "run_locked v ttl beats finish answer key c =
     (let (lost, c1) = fold (beat_step v ttl) beats (False, c)
      in (bind_result answer (\<lambda>x. if lost then Inl (''Lost Redis lock ownership during execution of key: '' @ key) else Inr x),
          case finish of Some t \<Rightarrow> release_script t v c1 | None \<Rightarrow> c1))"

text \<open>
  The loop of \<open>acquire\<close>: one \<open>SET NX\<close> per round, the delay in between, in which others may change the key. The answer:
  the time the lock was taken, if it was.
\<close>

primrec acquire_loop :: "nat \<Rightarrow> (int \<Rightarrow> cell \<Rightarrow> cell) \<Rightarrow> int \<Rightarrow> string \<Rightarrow> int \<Rightarrow> int \<Rightarrow> cell \<Rightarrow> int option \<times> cell" where
  "acquire_loop 0 others delay v ttl now c = (None, c)"
| "acquire_loop (Suc n) others delay v ttl now c =
     (case set_nx now v ttl c of
        (True, c1) \<Rightarrow> (Some now, c1)
      | (False, c1) \<Rightarrow> acquire_loop n others delay v ttl (now + delay) (others now c1))"

text \<open>
  \<open>work\<close> is the callback, given when it starts and the world it works on: what happens to the key meanwhile, when it
  ends, its answer, and the world it leaves.
\<close>

type_synonym ('w, 'a) callback = "int \<Rightarrow> 'w \<Rightarrow> beat list \<times> int option \<times> (string, 'a) result \<times> 'w"

definition lock_error :: "string \<Rightarrow> int \<Rightarrow> string" where
  "lock_error key n = ''Could not acquire lock for key '' @ key @ '' after '' @ num_text (num_of_int n) @ '' retries''"

definition acquire ::
  "acquire_options \<Rightarrow> string \<Rightarrow> string \<Rightarrow> (int \<Rightarrow> cell \<Rightarrow> cell) \<Rightarrow> ('w, 'a) callback
   \<Rightarrow> int \<Rightarrow> cell \<Rightarrow> 'w \<Rightarrow> (string, 'a) result \<times> cell \<times> 'w" where
  "acquire opts key v others work now c w =
     (let ttl = default_to 5000 (ao_ttl opts); n = effective_max_retries opts in
      case acquire_loop (nat n) others (default_to 100 (ao_delay opts)) v ttl now c of
        (None, c1) \<Rightarrow> (Inl (lock_error key n), c1, w)
      | (Some t, c1) \<Rightarrow>
          (let (beats, finish, answer, w1) = work t w; (res, c2) = run_locked v ttl beats finish answer key c1
           in (res, c2, w1)))"

section \<open>Cluster singletons\<close>

datatype singleton_log = Ran | Skipped | Reported string

definition run_as_cluster_singleton ::
  "string \<Rightarrow> int \<Rightarrow> string \<Rightarrow> (int \<Rightarrow> cell \<Rightarrow> cell) \<Rightarrow> ('w, 'a) callback
   \<Rightarrow> int \<Rightarrow> cell \<Rightarrow> 'w \<Rightarrow> singleton_log \<times> cell \<times> 'w" where
  "run_as_cluster_singleton name ttl v others work now c w =
     (case acquire \<lparr>ao_ttl = Some ttl, ao_delay = None, ao_retries = Some 0\<rparr> (''cron:'' @ name) v others work now c w of
        (Inr x, rest) \<Rightarrow> (Ran, rest)
      | (Inl e, rest) \<Rightarrow> (if is_lock_contention e then Skipped else Reported e, rest))"

section \<open>Claim, work, commit\<close>

definition committed_marker :: string where "committed_marker = ''committed''"
definition default_lease_seconds :: int where "default_lease_seconds = 300"
definition default_commit_ttl_seconds :: int where "default_commit_ttl_seconds = 86400"

definition claim_key :: "int \<Rightarrow> string \<Rightarrow> int option \<Rightarrow> cell \<Rightarrow> bool \<times> cell" where
  "claim_key now owner lease c =
     (if cell_get now c = None \<or> cell_get now c = Some owner
      then (True, Some (owner, now + default_to default_lease_seconds lease * 1000)) else (False, c))"

definition commit_key :: "int \<Rightarrow> int option \<Rightarrow> cell \<Rightarrow> cell" where
  "commit_key now ttl c = Some (committed_marker, now + default_to default_commit_ttl_seconds ttl * 1000)"

definition release_key :: "cell \<Rightarrow> cell" where "release_key c = None"

section \<open>What others can do\<close>

text \<open>An operation of a process with its own value, at a time.\<close>

datatype lock_call = Try string int | Extend string int | Release string

definition lock_call :: "int \<times> lock_call \<Rightarrow> cell \<Rightarrow> cell" where
  "lock_call tc c =
     (case tc of
        (t, Try v ttl) \<Rightarrow> snd (set_nx t v ttl c)
      | (t, Extend v ttl) \<Rightarrow> snd (extend_script t v ttl c)
      | (t, Release v) \<Rightarrow> release_script t v c)"

primrec caller :: "lock_call \<Rightarrow> string" where
  "caller (Try v ttl) = v" | "caller (Extend v ttl) = v" | "caller (Release v) = v"

lemma others_do_nothing:
  assumes "t < expires" "caller k \<noteq> v"
  shows "lock_call (t, k) (Some (v, expires)) = Some (v, expires)"
  using assms by (cases k) (auto simp: lock_call_def set_nx_def extend_script_def release_script_def cell_get_def)

lemma others_do_nothing_run:
  assumes "\<And>t k. (t, k) \<in> set calls \<Longrightarrow> t < expires \<and> caller k \<noteq> v"
  shows "fold lock_call calls (Some (v, expires)) = Some (v, expires)"
  using assms
proof (induction calls)
  case (Cons call calls)
  then have "lock_call call (Some (v, expires)) = Some (v, expires)"
    using others_do_nothing[of "fst call" expires "snd call" v] by (metis list.set_intros(1) prod.collapse)
  moreover have "fold lock_call calls (Some (v, expires)) = Some (v, expires)"
    by (rule Cons.IH) (use Cons.prems in auto)
  ultimately show ?case by simp
qed simp

text \<open>The state of the key at each round, had all earlier ones failed.\<close>

primrec key_at :: "nat \<Rightarrow> (int \<Rightarrow> cell \<Rightarrow> cell) \<Rightarrow> int \<Rightarrow> int \<Rightarrow> cell \<Rightarrow> cell" where
  "key_at 0 others d now c = c"
| "key_at (Suc i) others d now c = key_at i others d (now + d) (others now c)"

definition free_at :: "(int \<Rightarrow> cell \<Rightarrow> cell) \<Rightarrow> int \<Rightarrow> int \<Rightarrow> cell \<Rightarrow> nat \<Rightarrow> bool" where
  "free_at others d now c i = (cell_get (now + int i * d) (key_at i others d now c) = None)"

lemma free_later: "(\<lambda>i. free_at others d now c (Suc i)) = free_at others d (now + d) (others now c)"
  by (rule ext) (simp add: free_at_def algebra_simps)

lemma find_shifted: "find P (map Suc xs) = map_option Suc (find (\<lambda>i. P (Suc i)) xs)"
  by (induction xs) simp_all

lemma acquire_loop_first:
  "acquire_loop n others d v ttl now c =
     (case find (free_at others d now c) [0..<n] of
        Some i \<Rightarrow> (Some (now + int i * d), Some (v, now + int i * d + ttl))
      | None \<Rightarrow> (None, key_at n others d now c))"
proof (induction n arbitrary: now c)
  case (Suc n)
  have rounds: "[0..<Suc n] = 0 # map Suc [0..<n]" by (simp add: map_Suc_upt upt_conv_Cons[of 0 "Suc n"] del: upt_Suc)
  show ?case
  proof (cases "cell_get now c = None")
    case True
    then show ?thesis unfolding rounds by (simp add: set_nx_def free_at_def)
  next
    case False
    then have "\<not> free_at others d now c 0" by (simp add: free_at_def)
    then have later: "find (free_at others d now c) [0..<Suc n]
        = map_option Suc (find (free_at others d (now + d) (others now c)) [0..<n])"
      unfolding rounds by (simp add: find_shifted free_later)
    have "acquire_loop (Suc n) others d v ttl now c = acquire_loop n others d v ttl (now + d) (others now c)"
      by (simp only: acquire_loop.simps set_nx_def False if_False prod.case bool.case)
    then show ?thesis unfolding later Suc.IH by (simp add: algebra_simps split: option.split)
  qed
qed simp

lemma contention_text: "is_lock_contention (lock_error key n)"
  by (simp add: is_lock_contention_def lock_error_def starts_with_def)

section \<open>Properties\<close>

text \<open>C24: Once a process holds a lock, nothing that others do before its lease ends takes the lock from it or lets another
  process in: attempts fail, and extensions and releases with another value change nothing.\<close>
theorem lease_is_exclusive:
  assumes "set_nx now v ttl c = (True, c1)" "filter (\<lambda>(t, k). now + ttl \<le> t \<or> caller k = v) calls = []"
  shows "cell_get t (fold lock_call calls c1) = (if t < now + ttl then Some v else None)"
proof -
  have c1: "c1 = Some (v, now + ttl)" using assms(1) by (simp add: set_nx_def split: if_splits)
  have "fold lock_call calls (Some (v, now + ttl)) = Some (v, now + ttl)"
    using assms(2) by (intro others_do_nothing_run) (force simp: filter_empty_conv)
  then show ?thesis by (simp add: c1 cell_get_def)
qed

lemma lease_is_exclusive_witness:
  "cell_get 4000 (fold lock_call [(100, Try ''b'' 5000), (4999, Extend ''b'' 9000), (4999, Release ''b'')] (Some (''a'', 5000))) = Some ''a''"
  using lease_is_exclusive[of 0 "''a''" 5000 None "Some (''a'', 5000)" "[(100, Try ''b'' 5000), (4999, Extend ''b'' 9000), (4999, Release ''b'')]" 4000]
  by (simp add: set_nx_def cell_get_def)

text \<open>C25: While Redis answers, the callback of a lock is run once, at the first of the allowed attempts at which the key is free, under a
  lease that starts then; the answer is that of the callback unless a heartbeat lost the lock. When the key is free at
  none of the attempts the callback is not run - the world it works on is as before - the key is as the others left
  it, and the answer is the error that callers recognise as contention.\<close>
theorem acquire_runs_when_free:
  "case find (free_at others (default_to 100 (ao_delay opts)) now c) [0..<nat (effective_max_retries opts)] of
     Some i \<Rightarrow>
       (let t = now + int i * default_to 100 (ao_delay opts); ttl = default_to 5000 (ao_ttl opts);
            (beats, finish, answer, w1) = work t w;
            (lost, c1) = fold (beat_step v ttl) beats (False, Some (v, t + ttl))
        in acquire opts key v others work now c w =
             (bind_result answer (\<lambda>x. if lost then Inl (''Lost Redis lock ownership during execution of key: '' @ key) else Inr x),
              (case finish of Some e \<Rightarrow> if cell_get e c1 = Some v then None else c1 | None \<Rightarrow> c1), w1))
   | None \<Rightarrow>
       (\<exists>e. is_lock_contention e \<and> acquire opts key v others work now c w =
          (Inl e, key_at (nat (effective_max_retries opts)) others (default_to 100 (ao_delay opts)) now c, w))"
  by (auto simp: acquire_def acquire_loop_first run_locked_def release_script_def Let_def contention_text
      split: option.splits prod.splits)

text \<open>A committed key refuses every other claim until the commit expires; a claim lapses with its lease.\<close>

lemma claims_are_leases:
  "(fst (claim_key t other l1 (commit_key now ttl c))
      \<longleftrightarrow> other = committed_marker \<or> now + default_to default_commit_ttl_seconds ttl * 1000 \<le> t)
   \<and> (if fst (claim_key now owner lease c)
      then fst (claim_key t other l1 (snd (claim_key now owner lease c)))
             \<longleftrightarrow> other = owner \<or> now + default_to default_lease_seconds lease * 1000 \<le> t
      else snd (claim_key now owner lease c) = c)"
  by (auto simp: claim_key_def commit_key_def cell_get_def)

text \<open>
  A scheduled job of a cluster asks for no retries, and the loop counts the first attempt as one: the key is not even
  looked at, and the contention it reports is logged as another replica's turn.
\<close>
lemma cluster_singleton_never_runs: "run_as_cluster_singleton name ttl v others work now c w = (Skipped, c, w)"
  by (simp add: run_as_cluster_singleton_def acquire_def effective_max_retries_def default_to_def Let_def contention_text)

end
