(* ===== verification/Spec2Isabelle.thy ===== *)
theory Spec2Isabelle
  imports Record_Adapter_Safety Conversation_Adapter_Safety Presence_Gateway_Safety Work_Label_Safety
    Work_Closing Redispatch_Bound Authorization_Safety Sla_Clock_Safety Tenant_Context_Safety
    Delivery_Safety Conversation_Runs Redis_Lock
begin

text \<open>
  A verification library for the core logic of the CRM API, a multi-tenant NestJS service over MongoDB,
  Redis and BullMQ. It models the decisions the service takes and the state it keeps to take them: who
  gets a record or a conversation, whether an agent can take work, what a caller may see and do, and when
  a promise to a customer is broken. All paths are relative to \<open>src/src/\<close>.

  \<^bold>\<open>How the parts interact.\<close> A conversation or record that needs an owner is a request to the assignment
  core, which evaluates the tenant's rules, reserves a slot through the load port of an adapter, commits
  through the commit port and audits the decision. Records (leads, deals, contacts, tickets, tasks) use the
  counters in Redis sorted sets; conversations use the presence records of the agents. The presence records
  are written by the socket gateway, by the reservation scripts and by the distribution of work items,
  whose reconciliation repairs their counters. Conversation and ticket events also drive the SLA clocks,
  whose deadlines are counted in the working hours of the tenant. Permission guards, attribute policies and
  object ACLs stand in front of every route; they read role assignments and a cached permission set.

  \<^bold>\<open>Tenants.\<close> Every request first passes the tenant interceptor, every query the tenant filter.
  \<open>Tenant_Context\<close> and \<open>Tenant_Context_Safety\<close> (\<open>common/interceptors/tenant.interceptor.ts\<close>,
  \<open>common/tenant\<close>: hints, identity, membership check and its cache), \<open>Tenant_Filter\<close> and
  \<open>Tenant_Filter_Safety\<close> (\<open>common/plugins/tenant-filter.plugin.ts\<close>: filters, aggregations, updates, saved
  documents); isolation end to end is stated over both.

  \<^bold>\<open>Foundations.\<close> \<open>Crm_Prelude\<close> (results of operations that may throw, array idioms, stable sorting as
  JavaScript's \<open>sort\<close>, the collections of facts), \<open>Js_Value\<close> (strings, numbers with NaN and the
  infinities, their printing and parsing, dates, coercions), \<open>Documents\<close> (a MongoDB collection as a list of
  documents, \<open>findOneAndUpdate\<close> as the update of the first match).

  \<^bold>\<open>Assignment\<close> (\<open>assignment/\<close>). \<open>Assignment_Rules\<close> (domain: strategies, operators, conditions, first
  match), \<open>Assignment_Config\<close> (settings merge, the map cache and its invalidation over pub/sub, locale of the
  cache), \<open>Assignment_Reservation\<close> and \<open>Reservation_Safety\<close> (\<open>infrastructure/reservation\<close>: the Lua scripts,
  leases, cursor; steps of the store, locale of the picks), \<open>Assignment_Core\<close>, \<open>Assignment_Core_Safety\<close> and
  \<open>Assignment_Core_Audit\<close> (the pipeline over arbitrary ports; locales \<open>slot_ports\<close> and \<open>pool_ports\<close> state the
  contract of the ports), \<open>Record_Adapter\<close> and \<open>Record_Adapter_Safety\<close> (the adapter of the record types and
  the workload listener; the locales are interpreted here), \<open>Conversation_Adapter\<close> and
  \<open>Conversation_Adapter_Safety\<close> (\<open>omni-inbound/assignment\<close>).

  \<^bold>\<open>Agents\<close> (\<open>omni-inbound/\<close>). \<open>Presence_Machine\<close> (the axes of an agent and their transitions),
  \<open>Agent_Presence\<close> and \<open>Agent_Presence_Safety\<close> (the presence records in Redis, the reservation scripts as
  the locale \<open>routing_script\<close>, invariant of every stored record), \<open>Presence_Segments\<close> (the reporting
  timeline), \<open>Presence_Gateway\<close> and \<open>Presence_Gateway_Safety\<close> (sockets, grace timers, midnight rollover),
  \<open>Work_Label\<close> and \<open>Work_Label_Safety\<close> (open interactions and wrap-up timers).

  \<^bold>\<open>Work\<close> (\<open>omni-inbound/work-distribution\<close>). \<open>Capacity_Policy\<close> (weights), \<open>Work_Distribution\<close> and
  \<open>Work_Distribution_Safety\<close> (work items, queue entries, offers; the balance of loads and offers over any
  interleaving), \<open>Redispatch_Bound\<close> (announcing an item again ends), \<open>Work_Closing\<close> (closing, wrap-up,
  reconciliation).

  \<^bold>\<open>Authorization\<close> (\<open>common/permissions\<close>). \<open>Permission_Catalogue\<close>, \<open>Permission_Engine\<close> and
  \<open>Permission_Engine_Safety\<close> (registry, ceiling, effective set with its sources, data scopes),
  \<open>Role_Assignment\<close> and \<open>Role_Assignment_Safety\<close> (two-person control of grants), \<open>Permission_Check\<close> and
  \<open>Permission_Check_Safety\<close> (the check behind its Redis set), \<open>Abac\<close> and \<open>Abac_Safety\<close> (attribute policies,
  their compilation to a query), \<open>Access_Policy\<close> and \<open>Access_Policy_Safety\<close> (revisions, rollback, the
  versioned bundle under concurrent readers and writers), \<open>Authorization\<close> and \<open>Authorization_Safety\<close>
  (object ACL, decisions on collections and records, the guard of record routes).

  \<^bold>\<open>Promises.\<close> \<open>Business_Hours\<close> and \<open>Business_Hours_Safety\<close>
  (\<open>omni-inbound/services/business-hours.service.ts\<close>: schedules, deadlines, minutes between), \<open>Sla_Clock\<close> and
  \<open>Sla_Clock_Safety\<close> (\<open>sla-policies/clock\<close>, the two subject ports and the listeners; a step relation for the
  interleaved workers, the breach scan, pauses, reopening).

  \<^bold>\<open>Conversations.\<close> Every change of a conversation is a command, run under a lock. \<open>Redis_Lock\<close>
  (\<open>redis/redis-lock.service.ts\<close>, \<open>redis/idempotency.service.ts\<close>, \<open>common/scheduling\<close>: the scripts on one key,
  the acquisition loop, leases), \<open>Remote_Calls\<close> (operations whose remote calls work, fail with or without
  effect, or never happen as the process dies, and triples over all these fates), \<open>Conversation_Ops\<close>
  (\<open>omni-inbound/aggregate\<close>: commands, ledger of operations, the five handlers, outbox, publisher, and the updates
  of \<open>conversation.repository.ts\<close> they use), \<open>Conversation_Ops_Safety\<close> (what each handler leaves alone, stated
  once for every predicate; the final status), \<open>Conversation_Order\<close> (ordinals and counts),
  \<open>Conversation_Events\<close> (takeover, stale assignments, announcements, draining), \<open>Conversation_Runs\<close>
  (concrete histories, with those that lose or repeat an event).

  \<^bold>\<open>Delivery.\<close> \<open>Delivery\<close> and \<open>Delivery_Safety\<close> (\<open>omni-outbound\<close>: delivery commands, the worker cut into
  its stages, attempts, classes of provider errors, recovery and repair ticks, reply windows; a step relation
  lets workers, redelivered jobs, crashes and ticks interleave, and whole jobs are shown to be runs of it).

  \<^bold>\<open>Conventions.\<close> An operation that changes state takes the state and returns it; one that may throw returns a
  sum whose left side is the error. Time is an integer of milliseconds given to the operation. Identifiers
  that the code compares by text are strings. Ports, repositories and environment reads that the code takes
  through interfaces are arguments (records of functions); laws on them are premises or locale assumptions
  that are discharged for the code's own adapters.

  \<^bold>\<open>Bounds and fuel.\<close> The loops of the code are structural recursions or bounded by the constant the code
  has: 365 days for a deadline, 366 for the minutes between two instants, 500 documents per tick of the
  wrap-up and breach scans, 3 repeated announcements of a work item. No other fuel is used. Expiry times of Redis
  keys (presence 60 s, open segments, work records, leases, the permission set 300 s) are the constants of
  the code; a key that expired is read as absent.

  \<^bold>\<open>Not modelled.\<close> HTTP controllers and DTO validation, Mongoose schemas apart from the fields an operation
  reads, socket transport, queues apart from the job handed over, seeding scripts, dashboards, imports and
  third-party channels. Strings are ASCII, numbers finite decimals; \<open>Date.parse\<close> and the zone database are
  parameters. Operations on one document are atomic, as MongoDB and Redis scripts make them.
\<close>

end
